(* ===== verification/Rust_Prelude.thy ===== *)
theory Rust_Prelude
  imports Main "HOL-Library.Word"
begin

text \<open>
  Shared prelude of the development: the Rust types and library operations that the sources use.

  \<^item> Fixed-width unsigned integers are words (\<open>u8\<close> to \<open>u64\<close>), an \<open>i32\<close> is its bit pattern, read with \<open>sint\<close>; \<open>usize\<close> is \<open>nat\<close> with the 64-bit
    bound written out where the code checks it.
  \<^item> A call that may fail is an \<open>outcome\<close>: \<open>Ok\<close>, \<open>Err\<close> with the error value, or \<open>Panic\<close>, the
    run-time abort of an out-of-range index. \<open>Panic\<close> is a value of its own, so that "never panics"
    is a theorem about the code and not a convention.
  \<^item> \<open>andThen\<close> is the question-mark operator, \<open>foldM\<close> a \<open>for\<close> loop whose body may return early.
  \<^item> Byte strings: the little-endian encodings of the integer types, under the locale \<open>le_codec\<close>.
\<close>

unbundle bit_operations_syntax

named_theorems outcome_simps "simplification of outcome-valued programs"
named_theorems no_panic "introduction rules for the absence of panics"
named_theorems ensures_simps "equations of the contract of fallible code"

section \<open>Types\<close>

type_synonym u8 = "8 word"
type_synonym u16 = "16 word"
type_synonym u32 = "32 word"
type_synonym u64 = "64 word"
type_synonym i32 = "32 word"
type_synonym usize = nat

datatype ('e, 'a) outcome = Ok 'a | Err 'e | Panic

section \<open>Control flow\<close>

fun andThen :: "('e, 'a) outcome \<Rightarrow> ('a \<Rightarrow> ('e, 'b) outcome) \<Rightarrow> ('e, 'b) outcome" where
  "andThen (Ok x) f = f x"
| "andThen (Err e) f = Err e"
| "andThen Panic f = Panic"

fun ok_or :: "'a option \<Rightarrow> 'e \<Rightarrow> ('e, 'a) outcome" where
  "ok_or (Some x) e = Ok x"
| "ok_or None e = Err e"

fun map_err :: "('e \<Rightarrow> 'f) \<Rightarrow> ('e, 'a) outcome \<Rightarrow> ('f, 'a) outcome" where
  "map_err g (Ok x) = Ok x"
| "map_err g (Err e) = Err (g e)"
| "map_err g Panic = Panic"

text \<open>\<open>guard b e\<close> is the early return \<open>if !b { return Err(e) }\<close>.\<close>

definition guard :: "bool \<Rightarrow> 'e \<Rightarrow> ('e, unit) outcome" where
  "guard b e = (if b then Ok () else Err e)"

text \<open>A \<open>for\<close> loop over a slice with a mutable state, left by the first error.\<close>

fun foldM :: "('s \<Rightarrow> 'a \<Rightarrow> ('e, 's) outcome) \<Rightarrow> 's \<Rightarrow> 'a list \<Rightarrow> ('e, 's) outcome" where
  "foldM step s [] = Ok s"
| "foldM step s (x # xs) = andThen (step s x) (\<lambda>s'. foldM step s' xs)"

text \<open>Collecting an iterator of results: the first error ends it.\<close>

fun mapM :: "('a \<Rightarrow> ('e, 'b) outcome) \<Rightarrow> 'a list \<Rightarrow> ('e, 'b list) outcome" where
  "mapM f [] = Ok []"
| "mapM f (x # xs) = andThen (f x) (\<lambda>y. andThen (mapM f xs) (\<lambda>ys. Ok (y # ys)))"

text \<open>Slice indexing \<open>xs[i]\<close> and \<open>xs[a..b]\<close>: out of range is a panic. The option variants are
  \<open>xs.get(i)\<close> and \<open>xs.get(a..b)\<close>.\<close>

definition index :: "'a list \<Rightarrow> usize \<Rightarrow> ('e, 'a) outcome" where
  "index xs i = (if i < length xs then Ok (xs ! i) else Panic)"

definition slice :: "'a list \<Rightarrow> usize \<Rightarrow> usize \<Rightarrow> ('e, 'a list) outcome" where
  "slice xs a b = (if a \<le> b \<and> b \<le> length xs then Ok (take (b - a) (drop a xs)) else Panic)"

definition get_at :: "'a list \<Rightarrow> usize \<Rightarrow> 'a option" where
  "get_at xs i = (if i < length xs then Some (xs ! i) else None)"

definition get_range :: "'a list \<Rightarrow> usize \<Rightarrow> usize \<Rightarrow> 'a list option" where
  "get_range xs a b = (if a \<le> b \<and> b \<le> length xs then Some (take (b - a) (drop a xs)) else None)"

text \<open>\<open>xs.first()\<close>.\<close>

definition first :: "'a list \<Rightarrow> 'a option" where
  "first xs = get_at xs 0"

lemma andThen_eq_Ok [outcome_simps]:
  "andThen m f = Ok y \<longleftrightarrow> (\<exists>x. m = Ok x \<and> f x = Ok y)"
  by (cases m) auto

lemma andThen_eq_Err [outcome_simps]:
  "andThen m f = Err e \<longleftrightarrow> m = Err e \<or> (\<exists>x. m = Ok x \<and> f x = Err e)"
  by (cases m) auto

lemma andThen_eq_Panic [outcome_simps]:
  "andThen m f = Panic \<longleftrightarrow> m = Panic \<or> (\<exists>x. m = Ok x \<and> f x = Panic)"
  by (cases m) auto

lemma andThen_assoc: "andThen (andThen m f) g = andThen m (\<lambda>x. andThen (f x) g)"
  by (cases m) auto

lemma andThen_if: "andThen (if c then a else b) f = (if c then andThen a f else andThen b f)"
  by simp

lemma ok_or_eq_Ok [outcome_simps]: "ok_or opt e = Ok x \<longleftrightarrow> opt = Some x"
  by (cases opt) auto

lemma ok_or_eq_Err [outcome_simps]: "ok_or opt e = Err e' \<longleftrightarrow> opt = None \<and> e' = e"
  by (cases opt) auto

lemma ok_or_no_panic [no_panic, simp]: "ok_or opt e \<noteq> Panic"
  by (cases opt) auto

lemma map_err_eq_Ok [outcome_simps]: "map_err g m = Ok x \<longleftrightarrow> m = Ok x"
  by (cases m) auto

lemma map_err_eq_Panic [simp]: "map_err g m = Panic \<longleftrightarrow> m = Panic"
  by (cases m) auto

lemma guard_eq_Ok [outcome_simps]: "guard b e = Ok u \<longleftrightarrow> b"
  by (simp add: guard_def)

lemma guard_eq_Err [outcome_simps]: "guard b e = Err e' \<longleftrightarrow> \<not> b \<and> e' = e"
  by (auto simp: guard_def)

lemma guard_no_panic [no_panic, simp]: "guard b e \<noteq> Panic"
  by (simp add: guard_def)

lemma andThen_no_panic [no_panic]:
  "m \<noteq> Panic \<Longrightarrow> (\<And>x. m = Ok x \<Longrightarrow> f x \<noteq> Panic) \<Longrightarrow> andThen m f \<noteq> Panic"
  by (cases m) auto

lemma if_no_panic [no_panic]:
  "(c \<Longrightarrow> a \<noteq> Panic) \<Longrightarrow> (\<not> c \<Longrightarrow> b \<noteq> Panic) \<Longrightarrow> (if c then a else b) \<noteq> Panic"
  by simp

lemma index_eq_Ok [outcome_simps]: "index xs i = Ok x \<longleftrightarrow> i < length xs \<and> x = xs ! i"
  by (auto simp: index_def)

lemma index_eq_Err [outcome_simps, simp]: "index xs i \<noteq> Err e"
  by (simp add: index_def)

lemma index_in_range [simp]: "i < length xs \<Longrightarrow> index xs i = Ok (xs ! i)"
  by (simp add: index_def)

lemma index_no_panic [no_panic]: "i < length xs \<Longrightarrow> index xs i \<noteq> Panic"
  by (simp add: index_def)

lemma slice_in_range [simp]:
  "a \<le> b \<Longrightarrow> b \<le> length xs \<Longrightarrow> slice xs a b = Ok (take (b - a) (drop a xs))"
  by (simp add: slice_def)

lemma slice_eq_Ok [outcome_simps]:
  "slice xs a b = Ok ys \<longleftrightarrow> a \<le> b \<and> b \<le> length xs \<and> ys = take (b - a) (drop a xs)"
  by (auto simp: slice_def)

lemma get_at_eq_Some [simp]: "get_at xs i = Some x \<longleftrightarrow> i < length xs \<and> x = xs ! i"
  by (auto simp: get_at_def)

lemma get_at_eq_None [simp]: "get_at xs i = None \<longleftrightarrow> length xs \<le> i"
  by (auto simp: get_at_def)

lemma first_eq_Some [simp]: "first xs = Some x \<longleftrightarrow> (\<exists>ys. xs = x # ys)"
  by (cases xs) (auto simp: first_def)

lemma first_Cons [simp]: "first (x # xs) = Some x"
  by simp

lemma first_Nil [simp]: "first [] = None"
  by (simp add: first_def)

lemma get_at_in_range [simp]: "i < length xs \<Longrightarrow> get_at xs i = Some (xs ! i)"
  by simp

lemma foldM_append:
  "foldM step s (xs @ ys) = andThen (foldM step s xs) (\<lambda>s'. foldM step s' ys)"
  by (induction xs arbitrary: s) (auto simp: andThen_assoc)

lemma foldM_append_Ok:
  "foldM step s (xs @ ys) = Ok t \<longleftrightarrow> (\<exists>r. foldM step s xs = Ok r \<and> foldM step r ys = Ok t)"
  by (simp add: foldM_append outcome_simps)

lemma mapM_eq_Ok: "mapM f xs = Ok ys \<longleftrightarrow> list_all2 (\<lambda>x y. f x = Ok y) xs ys"
  by (induction xs arbitrary: ys) (auto simp: outcome_simps list_all2_Cons1)

lemma mapM_Ok_nth:
  "mapM f xs = Ok ys \<Longrightarrow> length ys = length xs \<and> (\<forall>i < length xs. f (xs ! i) = Ok (ys ! i))"
  by (auto simp: mapM_eq_Ok list_all2_conv_all_nth)

lemma mapM_no_panic [no_panic]: "(\<And>x. x \<in> set xs \<Longrightarrow> f x \<noteq> Panic) \<Longrightarrow> mapM f xs \<noteq> Panic"
  by (induction xs) (auto simp: outcome_simps)

text \<open>\<open>ensures m P\<close>: the computation \<open>m\<close> does not panic, and if it returns a value then the value
  satisfies \<open>P\<close>. The equations push the contract through the combinators, so that the simplifier
  computes the condition under which a straight-line program meets it.\<close>

definition ensures :: "('e, 'a) outcome \<Rightarrow> ('a \<Rightarrow> bool) \<Rightarrow> bool" where
  "ensures m P \<longleftrightarrow> m \<noteq> Panic \<and> (\<forall>x. m = Ok x \<longrightarrow> P x)"

lemma ensures_Ok [ensures_simps]: "ensures (Ok x) P \<longleftrightarrow> P x"
  by (simp add: ensures_def)

lemma ensures_Err [ensures_simps]: "ensures (Err e) P"
  by (simp add: ensures_def)

lemma ensures_Panic [ensures_simps]: "\<not> ensures Panic P"
  by (simp add: ensures_def)

lemma ensures_andThen [ensures_simps]: "ensures (andThen m f) P \<longleftrightarrow> ensures m (\<lambda>x. ensures (f x) P)"
  by (cases m) (simp_all add: ensures_def)

lemma ensures_ok_or [ensures_simps]: "ensures (ok_or opt e) P \<longleftrightarrow> (\<forall>x. opt = Some x \<longrightarrow> P x)"
  by (auto simp: ensures_def outcome_simps)

lemma ensures_guard [ensures_simps]: "ensures (guard b e) P \<longleftrightarrow> (b \<longrightarrow> P ())"
  by (auto simp: ensures_def outcome_simps)

lemma ensures_index [ensures_simps]: "ensures (index xs i) P \<longleftrightarrow> i < length xs \<and> P (xs ! i)"
  by (simp add: ensures_def index_def)

lemma ensures_slice [ensures_simps]:
  "ensures (slice xs a b) P \<longleftrightarrow> a \<le> b \<and> b \<le> length xs \<and> P (take (b - a) (drop a xs))"
  by (auto simp: ensures_def slice_def)

lemma ensures_map_err [ensures_simps]: "ensures (map_err g m) P \<longleftrightarrow> ensures m P"
  by (cases m) (simp_all add: ensures_def)

lemma ensures_if: "(c \<Longrightarrow> ensures a P) \<Longrightarrow> (\<not> c \<Longrightarrow> ensures b P) \<Longrightarrow> ensures (if c then a else b) P"
  by simp

lemma ensures_mono: "ensures m P \<Longrightarrow> (\<And>x. m = Ok x \<Longrightarrow> P x \<Longrightarrow> Q x) \<Longrightarrow> ensures m Q"
  by (simp add: ensures_def)

lemma ensuresD: "ensures m P \<Longrightarrow> m = Ok x \<Longrightarrow> P x"
  by (simp add: ensures_def)

lemma ensures_no_panic: "ensures m P \<Longrightarrow> m \<noteq> Panic"
  by (simp add: ensures_def)

lemma ensures_bind:
  "ensures m Q \<Longrightarrow> (\<And>x. Q x \<Longrightarrow> ensures (f x) P) \<Longrightarrow> ensures (andThen m f) P"
  by (simp add: ensures_def outcome_simps) blast

lemma ensures_bind2:
  "ensures m (\<lambda>(a, b). Q a b) \<Longrightarrow> (\<And>a b. Q a b \<Longrightarrow> ensures (f a b) P) \<Longrightarrow>
   ensures (andThen m (\<lambda>(a, b). f a b)) P"
  by (auto simp: ensures_def outcome_simps)

lemma ensures_guardI: "ensures (guard b e) (\<lambda>u. b)"
  by (simp add: ensures_simps)

lemma ensures_case_prod [ensures_simps]:
  "ensures (case x of (a, b) \<Rightarrow> f a b) P \<longleftrightarrow> (case x of (a, b) \<Rightarrow> ensures (f a b) P)"
  by (cases x) simp

lemma ensures_enumerate:
  assumes "I n s"
    and "\<And>i s. n \<le> i \<Longrightarrow> i < n + length xs \<Longrightarrow> I i s \<Longrightarrow> ensures (step s (i, xs ! (i - n))) (I (i + 1))"
  shows "ensures (foldM step s (enumerate n xs)) (I (n + length xs))"
  using assms
proof (induction xs arbitrary: n s)
  case (Cons x xs)
  have "ensures (step s (n, x)) (I (n + 1))" using Cons.prems(2) [of n s] Cons.prems(1) by simp
  then have "ensures (step s (n, x)) (\<lambda>t. ensures (foldM step t (enumerate (n + 1) xs)) (I (n + 1 + length xs)))"
  proof (rule ensures_mono)
    fix t assume "I (n + 1) t"
    then show "ensures (foldM step t (enumerate (n + 1) xs)) (I (n + 1 + length xs))"
    proof (rule Cons.IH)
      fix i u assume "n + 1 \<le> i" "i < n + 1 + length xs" "I i u"
      then show "ensures (step u (i, xs ! (i - (n + 1)))) (I (i + 1))"
        using Cons.prems(2) [of i u] by (simp add: nth_Cons')
    qed
  qed
  then show ?case by (simp add: ensures_simps)
qed (simp add: ensures_simps)

text \<open>
  The contract of a loop: a body that keeps an invariant and does not panic while it holds gives a
  loop that keeps it and does not panic. Every validation pass of the sources is such a loop.
\<close>

locale checked_loop =
  fixes step :: "'s \<Rightarrow> 'a \<Rightarrow> ('e, 's) outcome"
    and inv :: "'s \<Rightarrow> bool"
    and elem :: "'a \<Rightarrow> bool"
  assumes step_inv: "inv s \<Longrightarrow> elem x \<Longrightarrow> step s x = Ok s' \<Longrightarrow> inv s'"
    and step_no_panic: "inv s \<Longrightarrow> elem x \<Longrightarrow> step s x \<noteq> Panic"
begin

lemma foldM_inv: "inv s \<Longrightarrow> list_all elem xs \<Longrightarrow> foldM step s xs = Ok t \<Longrightarrow> inv t"
  by (induction xs arbitrary: s) (auto simp: outcome_simps dest: step_inv)

lemma foldM_no_panic: "inv s \<Longrightarrow> list_all elem xs \<Longrightarrow> foldM step s xs \<noteq> Panic"
  by (induction xs arbitrary: s) (auto simp: outcome_simps dest: step_inv step_no_panic)

lemma foldM_ensures: "inv s \<Longrightarrow> list_all elem xs \<Longrightarrow> ensures (foldM step s xs) inv"
  using foldM_inv foldM_no_panic by (auto simp: ensures_def)

end

lemma checked_loopI:
  "(\<And>s x. I s \<Longrightarrow> E x \<Longrightarrow> ensures (step s x) I) \<Longrightarrow> checked_loop step I E"
  by unfold_locales (auto simp: ensures_def)

section \<open>Checked and saturating arithmetic\<close>

definition checked_add :: "'w::len word \<Rightarrow> 'w word \<Rightarrow> 'w word option" where
  "checked_add a b = (if unat a + unat b < 2 ^ LENGTH('w) then Some (a + b) else None)"

definition checked_mul :: "'w::len word \<Rightarrow> 'w word \<Rightarrow> 'w word option" where
  "checked_mul a b = (if unat a * unat b < 2 ^ LENGTH('w) then Some (a * b) else None)"

definition checked_sub :: "'w::len word \<Rightarrow> 'w word \<Rightarrow> 'w word option" where
  "checked_sub a b = (if b \<le> a then Some (a - b) else None)"

definition saturating_add :: "'w::len word \<Rightarrow> 'w word \<Rightarrow> 'w word" where
  "saturating_add a b = (if unat a + unat b < 2 ^ LENGTH('w) then a + b else - 1)"

definition saturating_sub :: "'w::len word \<Rightarrow> 'w word \<Rightarrow> 'w word" where
  "saturating_sub a b = (if b \<le> a then a - b else 0)"

definition usize_checked_add :: "usize \<Rightarrow> usize \<Rightarrow> usize option" where
  "usize_checked_add a b = (if a + b < 2 ^ 64 then Some (a + b) else None)"

definition usize_checked_mul :: "usize \<Rightarrow> usize \<Rightarrow> usize option" where
  "usize_checked_mul a b = (if a * b < 2 ^ 64 then Some (a * b) else None)"

lemma unat_bound: "unat (w :: 'w::len word) < 2 ^ LENGTH('w)"
  by simp

lemma unat_u32_bound: "unat (w :: u32) < 2 ^ 32"
  using unat_bound [of w] by simp

lemma unat_u64_bound: "unat (w :: u64) < 2 ^ 64"
  using unat_bound [of w] by simp

lemma unat_add_no_wrap:
  fixes a b :: "'w::len word"
  shows "unat a + unat b < 2 ^ LENGTH('w) \<Longrightarrow> unat (a + b) = unat a + unat b"
  by (simp add: unat_word_ariths)

lemma unat_mult_no_wrap:
  fixes a b :: "'w::len word"
  shows "unat a * unat b < 2 ^ LENGTH('w) \<Longrightarrow> unat (a * b) = unat a * unat b"
  by (simp add: unat_word_ariths)

lemma checked_add_SomeD:
  fixes a :: "'w::len word"
  assumes "checked_add a b = Some c"
  shows "unat c = unat a + unat b" and "c = a + b" and "unat a + unat b < 2 ^ LENGTH('w)"
  using assms by (auto simp: checked_add_def unat_add_no_wrap split: if_splits)

lemma checked_mul_SomeD:
  fixes a :: "'w::len word"
  assumes "checked_mul a b = Some c"
  shows "unat c = unat a * unat b" and "c = a * b" and "unat a * unat b < 2 ^ LENGTH('w)"
  using assms by (auto simp: checked_mul_def unat_mult_no_wrap split: if_splits)

lemma checked_sub_SomeD:
  fixes a :: "'w::len word"
  assumes "checked_sub a b = Some c"
  shows "unat c = unat a - unat b" and "unat b \<le> unat a"
  using assms by (auto simp: checked_sub_def unat_sub word_le_nat_alt split: if_splits)

lemma checked_add_eq_Some:
  fixes a :: "'w::len word"
  shows "checked_add a b = Some c \<longleftrightarrow> unat c = unat a + unat b"
proof
  assume "unat c = unat a + unat b"
  moreover have "unat c < 2 ^ LENGTH('w)"
    by simp
  ultimately show "checked_add a b = Some c"
    by (auto simp: checked_add_def unat_add_no_wrap intro!: word_unat_eq_iff [THEN iffD2])
qed (rule checked_add_SomeD)

lemma checked_mul_eq_Some:
  fixes a :: "'w::len word"
  shows "checked_mul a b = Some c \<longleftrightarrow> unat c = unat a * unat b"
proof
  assume "unat c = unat a * unat b"
  moreover have "unat c < 2 ^ LENGTH('w)"
    by simp
  ultimately show "checked_mul a b = Some c"
    by (auto simp: checked_mul_def unat_mult_no_wrap intro!: word_unat_eq_iff [THEN iffD2])
qed (rule checked_mul_SomeD)

lemma usize_checked_add_eq_Some [outcome_simps]:
  "usize_checked_add a b = Some c \<longleftrightarrow> a + b < 2 ^ 64 \<and> c = a + b"
  by (auto simp: usize_checked_add_def)

lemma usize_checked_mul_eq_Some [outcome_simps]:
  "usize_checked_mul a b = Some c \<longleftrightarrow> a * b < 2 ^ 64 \<and> c = a * b"
  by (auto simp: usize_checked_mul_def)

section \<open>Rounding up to a power of two\<close>

lemma round_up_bounds:
  fixes v a :: nat
  assumes "0 < a"
  shows "v \<le> (v + a - 1) div a * a" and "(v + a - 1) div a * a < v + a"
proof -
  have "(v + a - 1) div a * a + (v + a - 1) mod a = v + a - 1" and "(v + a - 1) mod a < a"
    using assms by (simp_all only: div_mult_mod_eq mod_less_divisor)
  then show "v \<le> (v + a - 1) div a * a" and "(v + a - 1) div a * a < v + a"
    using assms by linarith+
qed

lemma round_up_least:
  fixes v a m :: nat
  assumes "0 < a" "a dvd m" "v \<le> m"
  shows "(v + a - 1) div a * a \<le> m"
proof -
  from \<open>a dvd m\<close> obtain q where q: "m = a * q"
    by (rule dvdE)
  have "(v + a - 1) div a < Suc q"
    using assms unfolding q by (subst div_less_iff_less_mult) (simp_all add: mult.commute)
  then show ?thesis
    unfolding q by (simp add: mult.commute)
qed

text \<open>
  The three \<open>align_up\<close> routines of the sources (\<open>usize\<close>, \<open>u32\<close>, \<open>u64\<close>) share one contract: for a
  power-of-two alignment the result is the least multiple of the alignment that is not below the
  argument, or a failure when that overflows. \<open>val\<close> reads a value of the type as a number and
  \<open>limit\<close> is the number of values of the type.
\<close>

locale aligner =
  fixes align :: "'a \<Rightarrow> 'a \<Rightarrow> 'a option"
    and val :: "'a \<Rightarrow> nat"
    and limit :: nat
  assumes align_correct: "val a = 2 ^ k \<Longrightarrow> align v a = Some r \<Longrightarrow>
      val r = (val v + val a - 1) div val a * val a"
    and align_total: "val a = 2 ^ k \<Longrightarrow> val v + val a \<le> limit \<Longrightarrow> \<exists>r. align v a = Some r"
begin

lemma align_ge: "val a = 2 ^ k \<Longrightarrow> align v a = Some r \<Longrightarrow> val v \<le> val r"
  using align_correct [of a k v r] round_up_bounds(1) [of "val a" "val v"] by simp

lemma align_less: "val a = 2 ^ k \<Longrightarrow> align v a = Some r \<Longrightarrow> val r < val v + val a"
  using align_correct [of a k v r] round_up_bounds(2) [of "val a" "val v"] by simp

lemma align_dvd: "val a = 2 ^ k \<Longrightarrow> align v a = Some r \<Longrightarrow> val a dvd val r"
  using align_correct [of a k v r] by simp

lemma align_least:
  "val a = 2 ^ k \<Longrightarrow> align v a = Some r \<Longrightarrow> val a dvd m \<Longrightarrow> val v \<le> m \<Longrightarrow> val r \<le> m"
  using align_correct [of a k v r] round_up_least [of "val a" m "val v"] by simp

end

end
