(* ===== verification/Rust_Bytes.thy ===== *)
theory Rust_Bytes
  imports Rust_Prelude
begin

text \<open>
  Bit-level facts about words and the little-endian byte encodings \<open>to_le_bytes\<close> and
  \<open>from_le_bytes\<close> of the Rust integer types, with the accessors that the sources build on them:
  reading and writing one integer at a byte offset of a slice. The locale \<open>le_codec\<close> states what an
  integer codec promises; its interpretations at two, four and eight bytes give the accessor laws
  for \<open>u16\<close>, \<open>u32\<close> and \<open>u64\<close>.
\<close>

section \<open>Bits of bounded words\<close>

lemma word_bit_bound:
  fixes w :: "'w::len word"
  assumes "unat w < 2 ^ k" "bit w n"
  shows "n < k"
proof (rule ccontr)
  assume "\<not> n < k"
  then have "(2::nat) ^ k \<le> 2 ^ n"
    by (simp add: power_increasing)
  then have "unat w < 2 ^ n"
    using assms(1) by linarith
  then have "unat w div 2 ^ n = 0"
    by (rule div_less)
  moreover have "bit (unat w) n"
    using assms(2) by (simp add: bit_unsigned_iff)
  ultimately show False
    by (simp add: bit_iff_odd)
qed

lemma word_le_bit_bound:
  fixes w c :: "'w::len word"
  assumes "w \<le> c" "unat c < 2 ^ k" "bit w n"
  shows "n < k"
  using assms word_bit_bound [of w k n] by (simp add: word_le_nat_alt)

lemma unat_bounded_bits:
  fixes w :: "'w::len word"
  assumes "\<And>n. bit w n \<Longrightarrow> n < k"
  shows "unat w < 2 ^ k"
proof -
  have "take_bit k w = w"
    by (rule bit_word_eqI) (auto simp: bit_simps dest: assms)
  then have "unat w = take_bit k (unat w)"
    by (metis unsigned_take_bit_eq)
  then show ?thesis
    by (metis take_bit_nat_less_exp)
qed

lemma word_and_not_mask:
  fixes x :: "'w::len word"
  shows "x AND NOT (mask k) = push_bit k (drop_bit k x)"
  by (rule bit_word_eqI) (auto simp: bit_simps)

lemma unat_push_drop:
  fixes x :: "'w::len word"
  shows "unat (push_bit k (drop_bit k x)) = unat x div 2 ^ k * 2 ^ k"
proof -
  have "unat x div 2 ^ k * 2 ^ k \<le> unat x"
    by simp
  then have "unat x div 2 ^ k * 2 ^ k < 2 ^ LENGTH('w)"
    by (rule le_less_trans) simp
  then have "take_bit LENGTH('w) (push_bit k (drop_bit k (unat x))) = unat x div 2 ^ k * 2 ^ k"
    by (simp add: push_bit_eq_mult drop_bit_eq_div take_bit_nat_eq_self)
  then show ?thesis
    by (simp only: unsigned_push_bit_eq unat_drop_bit_eq)
qed

lemma unat_and_not_mask:
  fixes x :: "'w::len word"
  shows "unat (x AND NOT (mask k)) = unat x div 2 ^ k * 2 ^ k"
  by (simp add: word_and_not_mask unat_push_drop)

lemma unat_and_mask:
  fixes x :: "'w::len word"
  shows "unat (x AND mask k) = unat x mod 2 ^ k"
  by (metis take_bit_eq_mask take_bit_eq_mod unsigned_take_bit_eq)

lemma unat_drop_bit:
  fixes x :: "'w::len word"
  shows "unat (drop_bit k x) = unat x div 2 ^ k"
  by (simp only: unat_drop_bit_eq) (simp add: drop_bit_eq_div)

section \<open>Widening and narrowing casts\<close>

lemma unat_ucast_small:
  fixes w :: "'a::len word"
  assumes "unat w < 2 ^ LENGTH('b::len)"
  shows "unat (ucast w :: 'b word) = unat w"
  using assms by (simp add: unsigned_ucast_eq take_bit_nat_eq_self)

lemma unat_ucast_up:
  fixes w :: "'a::len word"
  assumes "LENGTH('a) \<le> LENGTH('b::len)"
  shows "unat (ucast w :: 'b word) = unat w"
proof (rule unat_ucast_small)
  have "unat w < 2 ^ LENGTH('a)" by simp
  also have "\<dots> \<le> 2 ^ LENGTH('b)" using assms by (simp add: power_increasing)
  finally show "unat w < 2 ^ LENGTH('b)" .
qed

lemma ucast_down_up:
  fixes w :: "'a::len word"
  assumes "unat w < 2 ^ LENGTH('b::len)"
  shows "ucast (ucast w :: 'b word) = w"
proof -
  have "unat (ucast (ucast w :: 'b word) :: 'a word) = unat w"
    using assms by (simp add: unat_ucast_small)
  then show ?thesis by (simp add: word_unat_eq_iff)
qed

lemma ucast_up_down:
  fixes w :: "'a::len word"
  assumes "LENGTH('a) \<le> LENGTH('b::len)"
  shows "ucast (ucast w :: 'b word) = w"
proof -
  have "unat (ucast (ucast w :: 'b word) :: 'a word) = unat w"
    by (subst unat_ucast_small) (simp_all add: unat_ucast_up [OF assms])
  then show ?thesis by (simp add: word_unat_eq_iff)
qed

section \<open>Little-endian encodings\<close>

definition to_le_bytes :: "usize \<Rightarrow> 'w::len word \<Rightarrow> u8 list" where
  "to_le_bytes n w = map (\<lambda>i. ucast (drop_bit (8 * i) w)) [0..<n]"

fun from_le_bytes :: "u8 list \<Rightarrow> 'w::len word" where
  "from_le_bytes [] = 0"
| "from_le_bytes (b # bs) = ucast b OR push_bit 8 (from_le_bytes bs)"

lemma length_to_le_bytes [simp]: "length (to_le_bytes n w) = n"
  by (simp add: to_le_bytes_def)

lemma bit_from_le_bytes:
  "bit (from_le_bytes bs :: 'w::len word) n \<longleftrightarrow>
     n < LENGTH('w) \<and> n div 8 < length bs \<and> bit (bs ! (n div 8)) (n mod 8)"
proof (induction bs arbitrary: n)
  case Nil
  then show ?case by simp
next
  case (Cons b bs)
  show ?case
  proof (cases "n < 8")
    case True
    then show ?thesis
      by (auto simp: bit_simps)
  next
    case False
    then have d: "n div 8 = Suc ((n - 8) div 8)" and m: "n mod 8 = (n - 8) mod 8"
      by (simp_all add: le_div_geq le_mod_geq)
    from False have "\<not> bit b n"
      using bit_imp_le_length [of b n] by auto
    with False Cons.IH [of "n - 8"] show ?thesis
      by (auto simp: bit_simps d m)
  qed
qed

lemma from_to_le_bytes:
  fixes w :: "'w::len word"
  assumes "LENGTH('w) = 8 * n"
  shows "from_le_bytes (to_le_bytes n w) = w"
proof (rule bit_word_eqI)
  fix k assume "k < LENGTH('w)"
  then show "bit (from_le_bytes (to_le_bytes n w) :: 'w word) k = bit w k"
    using assms by (auto simp: bit_from_le_bytes to_le_bytes_def bit_simps)
qed

lemma to_from_le_bytes:
  assumes "LENGTH('w::len) = 8 * length bs"
  shows "to_le_bytes (length bs) (from_le_bytes bs :: 'w word) = bs"
proof (rule nth_equalityI)
  fix i assume "i < length (to_le_bytes (length bs) (from_le_bytes bs :: 'w word))"
  then have i: "i < length bs" by simp
  show "to_le_bytes (length bs) (from_le_bytes bs :: 'w word) ! i = bs ! i"
  proof (rule bit_word_eqI)
    fix k assume "k < LENGTH(8)"
    then have "(8 * i + k) div 8 = i" "(8 * i + k) mod 8 = k" "8 * i + k < LENGTH('w)"
      using i assms by auto
    then show "bit (to_le_bytes (length bs) (from_le_bytes bs :: 'w word) ! i) k = bit (bs ! i) k"
      using i \<open>k < LENGTH(8)\<close> by (simp add: to_le_bytes_def bit_simps bit_from_le_bytes)
  qed
qed simp

section \<open>Integers at an offset of a byte slice\<close>

definition put_bytes :: "u8 list \<Rightarrow> usize \<Rightarrow> u8 list \<Rightarrow> ('e, u8 list) outcome" where
  "put_bytes out off bs =
     (if off + length bs \<le> length out
      then Ok (take off out @ bs @ drop (off + length bs) out) else Panic)"

text \<open>
  What an accessor pair for one integer type promises to its clients: in range it does not panic, a
  read returns what was written, and decoding is injective.
\<close>

locale le_codec =
  fixes width :: usize
    and enc :: "'w \<Rightarrow> u8 list"
    and dec :: "u8 list \<Rightarrow> 'w"
  assumes width_enc: "length (enc w) = width"
    and dec_enc: "dec (enc w) = w"
    and enc_dec: "length bs = width \<Longrightarrow> enc (dec bs) = bs"
begin

lemma put_in_place:
  assumes "length xs = off" "width \<le> length ys"
  shows "put_bytes (xs @ ys) off (enc w) = Ok (xs @ enc w @ drop width ys)"
  using assms by (simp add: put_bytes_def width_enc)

lemma get_in_place:
  "length xs = off \<Longrightarrow> dec (take width (drop off (xs @ enc w @ ys))) = w"
  by (simp add: width_enc dec_enc)

lemma enc_get:
  assumes "off + width \<le> length xs"
  shows "enc (dec (take width (drop off xs))) = take width (drop off xs)"
  using assms by (simp add: enc_dec)

lemma enc_inject: "enc v = enc w \<longleftrightarrow> v = w"
  using dec_enc by metis

end

interpretation le16: le_codec 2 "to_le_bytes 2 :: u16 \<Rightarrow> u8 list" from_le_bytes
proof unfold_locales
  fix bs :: "u8 list" assume "length bs = 2"
  then show "to_le_bytes 2 (from_le_bytes bs :: u16) = bs"
    using to_from_le_bytes [where 'w = 16, of bs] by simp
qed (simp_all add: from_to_le_bytes)

interpretation le32: le_codec 4 "to_le_bytes 4 :: u32 \<Rightarrow> u8 list" from_le_bytes
proof unfold_locales
  fix bs :: "u8 list" assume "length bs = 4"
  then show "to_le_bytes 4 (from_le_bytes bs :: u32) = bs"
    using to_from_le_bytes [where 'w = 32, of bs] by simp
qed (simp_all add: from_to_le_bytes)

interpretation le64: le_codec 8 "to_le_bytes 8 :: u64 \<Rightarrow> u8 list" from_le_bytes
proof unfold_locales
  fix bs :: "u8 list" assume "length bs = 8"
  then show "to_le_bytes 8 (from_le_bytes bs :: u64) = bs"
    using to_from_le_bytes [where 'w = 64, of bs] by simp
qed (simp_all add: from_to_le_bytes)

end
