(* ===== verification/Pm4.thy ===== *)
theory Pm4
  imports Rust_Bytes
begin

text \<open>
  The PM4 packet grammar of \<^verbatim>\<open>src/shared/adreno-a6xx-pm4/src/lib.rs\<close>: construction and decoding of
  type-4 (register write) and type-7 (opcode) headers with their odd-parity bits, and the iterator
  that cuts a dword stream into packets. The lemmas characterise the header codec bit by bit and
  the iterator by the relation \<open>framed\<close>, which says what it means for a list of packets to tile a
  stream.
\<close>

section \<open>Headers\<close>

definition TYPE4_TAG :: u32 where "TYPE4_TAG = push_bit 28 0x4"
definition TYPE7_TAG :: u32 where "TYPE7_TAG = push_bit 28 0x7"
definition TYPE4_MAX_COUNT :: u16 where "TYPE4_MAX_COUNT = 0x7e"
definition TYPE7_MAX_COUNT :: u16 where "TYPE7_MAX_COUNT = 0x3fff"
definition TYPE4_MAX_REGISTER :: u32 where "TYPE4_MAX_REGISTER = 0x3ffff"

datatype Header = Type4 (register: u32) (count: u16) | Type7 (opcode: u8) (count: u16)

datatype pm4_error = FieldOutOfRange | UnsupportedPacketType | InvalidParity | TruncatedPacket

text \<open>\<open>u32::count_ones\<close>.\<close>

definition count_ones :: "u32 \<Rightarrow> u32" where
  "count_ones v = of_nat (length (filter (bit v) [0..<32]))"

definition odd_parity_bit :: "u32 \<Rightarrow> u32" where
  "odd_parity_bit v = (count_ones v XOR 1) AND 1"

definition type4 :: "u32 \<Rightarrow> u16 \<Rightarrow> (pm4_error, u32) outcome" where
  "type4 reg cnt =
     (if reg = 0 \<or> reg > TYPE4_MAX_REGISTER \<or> cnt = 0 \<or> cnt > TYPE4_MAX_COUNT
      then Err FieldOutOfRange
      else let c = ucast cnt :: u32 in
        Ok (TYPE4_TAG OR c OR push_bit 7 (odd_parity_bit c) OR push_bit 8 reg
            OR push_bit 27 (odd_parity_bit reg)))"

definition type7 :: "u8 \<Rightarrow> u16 \<Rightarrow> (pm4_error, u32) outcome" where
  "type7 opc cnt =
     (if opc > 0x7f \<or> cnt > TYPE7_MAX_COUNT
      then Err FieldOutOfRange
      else let o7 = ucast opc :: u32; c = ucast cnt :: u32 in
        Ok (TYPE7_TAG OR c OR push_bit 15 (odd_parity_bit c) OR push_bit 16 o7
            OR push_bit 23 (odd_parity_bit o7)))"

definition decode_type4 :: "u32 \<Rightarrow> (pm4_error, Header) outcome" where
  "decode_type4 word =
     (let cnt = word AND 0x7f;
          count_parity = drop_bit 7 word AND 1;
          reg = drop_bit 8 word AND TYPE4_MAX_REGISTER;
          register_parity = drop_bit 27 word AND 1
      in if word AND push_bit 26 1 \<noteq> 0 \<or> reg = 0 \<or> cnt = 0 \<or> cnt > 0x7e then Err FieldOutOfRange
         else if count_parity \<noteq> odd_parity_bit cnt \<or> register_parity \<noteq> odd_parity_bit reg
         then Err InvalidParity
         else Ok (Type4 reg (ucast cnt)))"

definition decode_type7 :: "u32 \<Rightarrow> (pm4_error, Header) outcome" where
  "decode_type7 word =
     (let cnt = word AND 0x3fff;
          count_parity = drop_bit 15 word AND 1;
          opc = drop_bit 16 word AND 0x7f;
          opcode_parity = drop_bit 23 word AND 1
      in if word AND 0x0f000000 \<noteq> 0 then Err FieldOutOfRange
         else if count_parity \<noteq> odd_parity_bit cnt \<or> opcode_parity \<noteq> odd_parity_bit opc
         then Err InvalidParity
         else Ok (Type7 (ucast opc) (ucast cnt)))"

definition decode_header :: "u32 \<Rightarrow> (pm4_error, Header) outcome" where
  "decode_header word =
     (if drop_bit 28 word = 4 then decode_type4 word
      else if drop_bit 28 word = 7 then decode_type7 word
      else Err UnsupportedPacketType)"

text \<open>The type-7 opcodes the driver uses.\<close>

definition WAIT_MEM_WRITES :: u8 where "WAIT_MEM_WRITES = 0x12"
definition WAIT_FOR_ME :: u8 where "WAIT_FOR_ME = 0x13"
definition WAIT_FOR_IDLE :: u8 where "WAIT_FOR_IDLE = 0x26"
definition BLIT :: u8 where "BLIT = 0x2c"
definition EVENT_WRITE :: u8 where "EVENT_WRITE = 0x46"
definition ME_INIT :: u8 where "ME_INIT = 0x48"
definition SET_MARKER :: u8 where "SET_MARKER = 0x65"

lemmas opcode_defs = WAIT_MEM_WRITES_def WAIT_FOR_ME_def WAIT_FOR_IDLE_def BLIT_def EVENT_WRITE_def
  ME_INIT_def SET_MARKER_def

section \<open>The packet iterator\<close>

record packet =
  pkt_header :: Header
  payload :: "u32 list"
  word_offset :: u32

record packets =
  pk_words :: "u32 list"
  pk_offset :: usize
  pk_failed :: bool

definition packets_new :: "u32 list \<Rightarrow> packets" where
  "packets_new words = \<lparr>pk_words = words, pk_offset = 0, pk_failed = False\<rparr>"

text \<open>\<open>Iterator::next\<close>: the item, if any, and the iterator after the call. An item \<open>Some Panic\<close>
  stands for an out-of-range index inside the call.\<close>

definition packets_next :: "packets \<Rightarrow> (pm4_error, packet) outcome option \<times> packets" where
  "packets_next it =
     (if pk_failed it \<or> pk_offset it = length (pk_words it) then (None, it)
      else let start = pk_offset it in
        case andThen (index (pk_words it) start) decode_header of
          Panic \<Rightarrow> (Some Panic, it)
        | Err e \<Rightarrow> (Some (Err e), it\<lparr>pk_failed := True\<rparr>)
        | Ok hdr \<Rightarrow>
            (let cnt = unat (count hdr) in
             case Option.bind (usize_checked_add start 1) (\<lambda>v. usize_checked_add v cnt) of
               None \<Rightarrow> (Some (Err TruncatedPacket), it\<lparr>pk_failed := True\<rparr>)
             | Some fin \<Rightarrow>
                 if fin \<le> length (pk_words it)
                 then (Some (andThen (slice (pk_words it) (start + 1) fin) (\<lambda>body.
                         Ok \<lparr>pkt_header = hdr, payload = body, word_offset = of_nat start\<rparr>)),
                       it\<lparr>pk_offset := fin\<rparr>)
                 else (Some (Err TruncatedPacket), it\<lparr>pk_failed := True\<rparr>)))"

lemma packets_next_progress:
  assumes "packets_next it = (Some (Ok p), it')"
  shows "pk_words it' = pk_words it" and "pk_offset it < pk_offset it'"
    and "pk_offset it' \<le> length (pk_words it)" and "pk_failed it' = pk_failed it"
  using assms
  by (auto simp: packets_next_def Let_def outcome_simps bind_eq_Some_conv
      split: if_splits outcome.splits option.splits)

text \<open>Draining the iterator into a \<open>Result<Vec<_>, _>\<close>.\<close>

function collect_packets :: "packets \<Rightarrow> (pm4_error, packet list) outcome" where
  "collect_packets it =
     (case packets_next it of
        (None, it') \<Rightarrow> Ok []
      | (Some Panic, it') \<Rightarrow> Panic
      | (Some (Err e), it') \<Rightarrow> Err e
      | (Some (Ok p), it') \<Rightarrow> andThen (collect_packets it') (\<lambda>ps. Ok (p # ps)))"
  by pat_completeness auto
termination
proof (relation "measure (\<lambda>it. length (pk_words it) - pk_offset it)")
  fix it item it' oc p
  assume "(item, it') = packets_next it" "item = Some oc" "oc = Ok p"
  then have "packets_next it = (Some (Ok p), it')" by simp
  note packets_next_progress [OF this]
  then show "(it', it) \<in> measure (\<lambda>it. length (pk_words it) - pk_offset it)"
    by simp
qed simp

declare collect_packets.simps [simp del]

section \<open>The header codec\<close>

lemma u32_masks:
  "(0x7f :: u32) = mask 7" "(0x3fff :: u32) = mask 14" "(0x3ffff :: u32) = mask 18"
  "(0x0f000000 :: u32) = push_bit 24 (mask 4)"
  by (simp_all add: mask_eq_exp_minus_1)

lemma bit_odd_parity: "bit (odd_parity_bit v) n \<Longrightarrow> n = 0"
  by (auto simp: odd_parity_bit_def bit_simps)

lemma bit_tags: "bit TYPE4_TAG n \<Longrightarrow> 28 \<le> n" "bit TYPE7_TAG n \<Longrightarrow> 28 \<le> n"
  unfolding TYPE4_TAG_def TYPE7_TAG_def by (simp_all only: bit_push_bit_iff)

lemma drop_tags: "drop_bit 28 TYPE4_TAG = 4" "drop_bit 28 TYPE7_TAG = 7"
  unfolding TYPE4_TAG_def TYPE7_TAG_def by simp_all

text \<open>Extracting a field from a word assembled out of disjoint fields, for the type-4 layout (tag,
  register parity, reserved bit 26, register, count parity, count) and the type-7 layout (tag,
  reserved bits 24 to 27, opcode parity, opcode, count parity, reserved bit 14, count).\<close>

lemma type4_fields:
  fixes t c r p q :: u32
  assumes t: "\<And>n. bit t n \<Longrightarrow> 28 \<le> n" and c: "\<And>n. bit c n \<Longrightarrow> n < 7"
    and r: "\<And>n. bit r n \<Longrightarrow> n < 18" and p: "\<And>n. bit p n \<Longrightarrow> n = 0" and q: "\<And>n. bit q n \<Longrightarrow> n = 0"
  shows "drop_bit 28 (t OR c OR push_bit 7 p OR push_bit 8 r OR push_bit 27 q) = drop_bit 28 t"
    "(t OR c OR push_bit 7 p OR push_bit 8 r OR push_bit 27 q) AND mask 7 = c"
    "drop_bit 7 (t OR c OR push_bit 7 p OR push_bit 8 r OR push_bit 27 q) AND 1 = p"
    "drop_bit 8 (t OR c OR push_bit 7 p OR push_bit 8 r OR push_bit 27 q) AND mask 18 = r"
    "drop_bit 27 (t OR c OR push_bit 7 p OR push_bit 8 r OR push_bit 27 q) AND 1 = q"
    "\<not> bit (t OR c OR push_bit 7 p OR push_bit 8 r OR push_bit 27 q) 26"
  by ((rule bit_word_eqI; auto simp: bit_simps dest: t c r p q) | (auto simp: bit_simps dest: t c r p q))+

lemma type7_fields:
  fixes t c r p q :: u32
  assumes t: "\<And>n. bit t n \<Longrightarrow> 28 \<le> n" and c: "\<And>n. bit c n \<Longrightarrow> n < 14"
    and r: "\<And>n. bit r n \<Longrightarrow> n < 7" and p: "\<And>n. bit p n \<Longrightarrow> n = 0" and q: "\<And>n. bit q n \<Longrightarrow> n = 0"
  shows "drop_bit 28 (t OR c OR push_bit 15 p OR push_bit 16 r OR push_bit 23 q) = drop_bit 28 t"
    "(t OR c OR push_bit 15 p OR push_bit 16 r OR push_bit 23 q) AND mask 14 = c"
    "drop_bit 15 (t OR c OR push_bit 15 p OR push_bit 16 r OR push_bit 23 q) AND 1 = p"
    "drop_bit 16 (t OR c OR push_bit 15 p OR push_bit 16 r OR push_bit 23 q) AND mask 7 = r"
    "drop_bit 23 (t OR c OR push_bit 15 p OR push_bit 16 r OR push_bit 23 q) AND 1 = q"
    "(t OR c OR push_bit 15 p OR push_bit 16 r OR push_bit 23 q) AND push_bit 24 (mask 4) = 0"
  by ((rule bit_word_eqI; auto simp: bit_simps dest: t c r p q))+

lemma type4_assemble:
  fixes w :: u32
  assumes "\<not> bit w 26"
  shows "push_bit 28 (drop_bit 28 w) OR (w AND mask 7) OR push_bit 7 (drop_bit 7 w AND 1) OR
    push_bit 8 (drop_bit 8 w AND mask 18) OR push_bit 27 (drop_bit 27 w AND 1) = w" (is "?l = w")
proof (rule bit_word_eqI)
  fix n assume "n < LENGTH(32)"
  then consider "n < 7" | "n = 7" | "8 \<le> n" "n < 26" | "n = 26" | "n = 27" | "28 \<le> n" "n < 32"
    by fastforce
  then show "bit ?l n = bit w n"
    using assms by cases (auto simp: bit_simps)
qed

lemma type7_assemble:
  fixes w :: u32
  assumes "w AND push_bit 24 (mask 4) = 0"
  shows "push_bit 28 (drop_bit 28 w) OR (w AND mask 14) OR push_bit 15 (drop_bit 15 w AND 1) OR
    push_bit 16 (drop_bit 16 w AND mask 7) OR push_bit 23 (drop_bit 23 w AND 1)
      = w AND NOT (push_bit 14 1)" (is "?l = ?r")
proof (rule bit_word_eqI)
  have z: "\<not> bit w n" if "24 \<le> n" "n < 28" for n
  proof
    assume "bit w n"
    moreover have "n - 24 < 4"
      using that by linarith
    ultimately have "bit (w AND push_bit 24 (mask 4)) n"
      using that by (simp only: bit_simps) simp
    with assms show False by simp
  qed
  fix n assume "n < LENGTH(32)"
  then consider "n < 14" | "n = 14" | "n = 15" | "16 \<le> n" "n < 23" | "n = 23" | "24 \<le> n" "n < 28"
    | "28 \<le> n" "n < 32"
    by fastforce
  then show "bit ?l n = bit ?r n"
    using z by cases (simp_all only: bit_simps, auto)
qed

lemma type4_decodes:
  assumes "type4 reg cnt = Ok w"
  shows "decode_header w = Ok (Type4 reg cnt)"
proof -
  define c :: u32 where "c = ucast cnt"
  from assms have b: "reg \<noteq> 0" "reg \<le> mask 18" "cnt \<noteq> 0" "cnt \<le> 0x7e"
    and w: "w = TYPE4_TAG OR c OR push_bit 7 (odd_parity_bit c) OR push_bit 8 reg
            OR push_bit 27 (odd_parity_bit reg)"
    by (auto simp: type4_def Let_def c_def TYPE4_MAX_REGISTER_def TYPE4_MAX_COUNT_def u32_masks(3)
        split: if_splits)
  have u: "unat c = unat cnt" "unat cnt \<le> 0x7e" "0 < unat cnt"
    using b(3,4) by (simp_all add: c_def unat_ucast_up word_le_nat_alt unat_gt_0)
  have cb: "n < 7" if "bit c n" for n
    using word_bit_bound [of c 7 n] u that by simp
  have rb: "n < 18" if "bit reg n" for n
    using word_le_bit_bound [OF b(2) _ that, of 18] by (simp add: mask_eq_exp_minus_1)
  note F = type4_fields [of TYPE4_TAG c reg "odd_parity_bit c" "odd_parity_bit reg",
      OF bit_tags(1) cb rb bit_odd_parity bit_odd_parity, folded w]
  have "c \<noteq> 0" "\<not> c > 0x7e" "ucast c = cnt"
    using u by (auto simp: word_less_nat_alt unat_gt_0 [symmetric] c_def ucast_up_down)
  then show ?thesis
    using F b(1)
    by (simp add: decode_header_def decode_type4_def Let_def drop_tags TYPE4_MAX_REGISTER_def u32_masks
        bit_iff_and_push_bit_not_eq_0)
qed

lemma decodes_type4:
  assumes "decode_header w = Ok (Type4 reg cnt)"
  shows "type4 reg cnt = Ok w"
proof -
  let ?c = "w AND mask 7" and ?r = "drop_bit 8 w AND mask 18"
  from assms have tag: "drop_bit 28 w = 4" and b26: "\<not> bit w 26"
    and rc: "reg = ?r" "cnt = ucast ?c" "?r \<noteq> 0" "?c \<noteq> 0" "\<not> ?c > 0x7e"
    and par: "drop_bit 7 w AND 1 = odd_parity_bit ?c" "drop_bit 27 w AND 1 = odd_parity_bit ?r"
    by (auto simp: decode_header_def decode_type4_def decode_type7_def Let_def TYPE4_MAX_REGISTER_def
        u32_masks bit_iff_and_push_bit_not_eq_0 split: if_splits)
  have c: "unat ?c \<le> 0x7e" "ucast (ucast ?c :: u16) = ?c" "unat (ucast ?c :: u16) = unat ?c"
    using rc(5) by (simp_all add: word_less_nat_alt ucast_down_up unat_ucast_small)
  have r: "\<not> ?r > mask 18"
    by (simp add: word_and_le1 not_less)
  have "TYPE4_TAG = push_bit 28 (drop_bit 28 w)"
    by (simp add: tag TYPE4_TAG_def)
  then have "TYPE4_TAG OR ?c OR push_bit 7 (odd_parity_bit ?c) OR push_bit 8 ?r
      OR push_bit 27 (odd_parity_bit ?r) = w"
    using type4_assemble [OF b26] par by simp
  moreover have "cnt \<noteq> 0" "\<not> cnt > 0x7e"
    using rc(4) c by (auto simp: rc(2) word_less_nat_alt word_unat_eq_iff)
  ultimately show ?thesis
    using rc r c(2) by (simp add: type4_def Let_def TYPE4_MAX_REGISTER_def TYPE4_MAX_COUNT_def u32_masks(3))
qed

lemma type7_decodes:
  assumes "type7 opc cnt = Ok w"
  shows "decode_header w = Ok (Type7 opc cnt) \<and> \<not> bit w 14"
proof -
  define c :: u32 where "c = ucast cnt"
  define o7 :: u32 where "o7 = ucast opc"
  from assms have b: "opc \<le> 0x7f" "cnt \<le> 0x3fff"
    and w: "w = TYPE7_TAG OR c OR push_bit 15 (odd_parity_bit c) OR push_bit 16 o7
            OR push_bit 23 (odd_parity_bit o7)"
    by (auto simp: type7_def Let_def c_def o7_def TYPE7_MAX_COUNT_def split: if_splits)
  have u: "unat c \<le> 0x3fff" "unat o7 \<le> 0x7f"
    using b by (simp_all add: c_def o7_def unat_ucast_up word_le_nat_alt)
  have cb: "n < 14" if "bit c n" for n
    using word_bit_bound [of c 14 n] u that by simp
  have rb: "n < 7" if "bit o7 n" for n
    using word_bit_bound [of o7 7 n] u that by simp
  note F = type7_fields [of TYPE7_TAG c o7 "odd_parity_bit c" "odd_parity_bit o7",
      OF bit_tags(2) cb rb bit_odd_parity bit_odd_parity, folded w]
  have "\<not> bit w 14"
    unfolding w using cb [of 14] bit_tags(2) [of 14] by (auto simp: bit_simps)
  moreover have "ucast c = cnt" "ucast o7 = opc"
    by (simp_all add: c_def o7_def ucast_up_down)
  ultimately show ?thesis
    using F by (simp add: decode_header_def decode_type7_def Let_def drop_tags u32_masks)
qed

lemma decodes_type7:
  assumes "decode_header w = Ok (Type7 opc cnt)"
  shows "type7 opc cnt = Ok (w AND NOT (push_bit 14 1))"
proof -
  let ?c = "w AND mask 14" and ?o = "drop_bit 16 w AND mask 7"
  from assms have tag: "drop_bit 28 w = 7" and z: "w AND push_bit 24 (mask 4) = 0"
    and rc: "opc = ucast ?o" "cnt = ucast ?c"
    and par: "drop_bit 15 w AND 1 = odd_parity_bit ?c" "drop_bit 23 w AND 1 = odd_parity_bit ?o"
    by (auto simp: decode_header_def decode_type4_def decode_type7_def Let_def u32_masks split: if_splits)
  have c: "unat ?c \<le> 0x3fff" "unat ?o \<le> 0x7f"
    using word_and_le1 [of w "mask 14"] word_and_le1 [of "drop_bit 16 w" "mask 7"]
    by (simp_all add: word_le_nat_alt mask_eq_exp_minus_1)
  then have cc: "ucast (ucast ?c :: u16) = ?c" "unat (ucast ?c :: u16) \<le> 0x3fff"
    "ucast (ucast ?o :: u8) = ?o" "unat (ucast ?o :: u8) \<le> 0x7f"
    by (simp_all add: ucast_down_up unat_ucast_small)
  have "TYPE7_TAG = push_bit 28 (drop_bit 28 w)"
    by (simp add: tag TYPE7_TAG_def)
  then have "TYPE7_TAG OR ?c OR push_bit 15 (odd_parity_bit ?c) OR push_bit 16 ?o
      OR push_bit 23 (odd_parity_bit ?o) = w AND NOT (push_bit 14 1)"
    using type7_assemble [OF z] par by simp
  then show ?thesis
    using rc cc by (simp add: type7_def Let_def TYPE7_MAX_COUNT_def word_less_nat_alt)
qed

section \<open>Packet streams\<close>

text \<open>\<open>framed off ps ws\<close>: the packets \<open>ps\<close> tile the dwords \<open>ws\<close>, the first of which stands at
  offset \<open>off\<close> of the stream, with no dword left over.\<close>

fun framed :: "usize \<Rightarrow> packet list \<Rightarrow> u32 list \<Rightarrow> bool" where
  "framed off [] ws \<longleftrightarrow> ws = []"
| "framed off (p # ps) [] \<longleftrightarrow> False"
| "framed off (p # ps) (h # ws) \<longleftrightarrow>
     decode_header h = Ok (pkt_header p) \<and>
     unat (count (pkt_header p)) \<le> length ws \<and>
     payload p = take (unat (count (pkt_header p))) ws \<and>
     word_offset p = of_nat off \<and>
     framed (off + 1 + unat (count (pkt_header p))) ps (drop (unat (count (pkt_header p))) ws)"

definition packets_at :: "u32 list \<Rightarrow> usize \<Rightarrow> packets" where
  "packets_at ws off = \<lparr>pk_words = ws, pk_offset = off, pk_failed = False\<rparr>"

lemma packets_new_at: "packets_new ws = packets_at ws 0"
  by (simp add: packets_new_def packets_at_def)

lemma decode_header_no_panic [no_panic, simp]: "decode_header w \<noteq> Panic"
  by (simp add: decode_header_def decode_type4_def decode_type7_def Let_def)

lemma collect_packets_at:
  assumes "off \<le> length ws" "length ws < 2 ^ 64"
  shows "collect_packets (packets_at ws off) =
    (if off = length ws then Ok []
     else andThen (decode_header (ws ! off)) (\<lambda>h.
       if off + 1 + unat (count h) \<le> length ws
       then andThen (collect_packets (packets_at ws (off + 1 + unat (count h)))) (\<lambda>ps.
              Ok (\<lparr>pkt_header = h, payload = take (unat (count h)) (drop (off + 1) ws),
                   word_offset = of_nat off\<rparr> # ps))
       else Err TruncatedPacket))"
  using assms
  by (subst collect_packets.simps)
    (auto simp: packets_next_def packets_at_def Let_def usize_checked_add_def
      split: outcome.splits option.splits)

lemma collect_packets_framed:
  assumes "off \<le> length ws" "length ws < 2 ^ 64"
  shows "collect_packets (packets_at ws off) = Ok ps \<longleftrightarrow> framed off ps (drop off ws)"
  using assms
proof (induction "length ws - off" arbitrary: off ps rule: less_induct)
  case less
  show ?case
  proof (cases "off = length ws")
    case True
    then have "collect_packets (packets_at ws off) = Ok []"
      using less.prems collect_packets_at [of off ws] by simp
    with True show ?thesis
      by (cases ps) simp_all
  next
    case False
    then have off: "off < length ws" and d: "drop off ws = ws ! off # drop (off + 1) ws"
      using less.prems by (simp_all add: Cons_nth_drop_Suc)
    have IH: "collect_packets (packets_at ws (off + 1 + n)) = Ok qs \<longleftrightarrow>
        framed (off + 1 + n) qs (drop (off + 1 + n) ws)" if "off + 1 + n \<le> length ws" for n qs
      using less.hyps [of "off + 1 + n"] that off less.prems by simp
    show ?thesis
    proof (cases ps)
      case Nil
      then show ?thesis
        using off less.prems
        by (auto simp: collect_packets_at [of off ws] d outcome_simps split: if_splits)
    next
      case (Cons p qs)
      let ?n = "unat (count (pkt_header p))"
      show ?thesis
      proof (cases "decode_header (ws ! off) = Ok (pkt_header p) \<and> off + 1 + ?n \<le> length ws")
        case True
        have "drop ?n (drop (off + 1) ws) = drop (off + 1 + ?n) ws"
          by (simp add: add.commute)
        moreover have "?n \<le> length ws - Suc off"
          using True by linarith
        ultimately show ?thesis
          using True off less.prems IH [of ?n qs] Cons
          by (cases p) (simp add: collect_packets_at [of off ws] d outcome_simps del: drop_drop, auto)
      next
        case False
        have "collect_packets (packets_at ws off) \<noteq> Ok ps"
        proof
          assume "collect_packets (packets_at ws off) = Ok ps"
          then have "\<exists>h. decode_header (ws ! off) = Ok h \<and> off + 1 + unat (count h) \<le> length ws
              \<and> pkt_header p = h"
            unfolding collect_packets_at [OF less.prems] Cons using off
            by (cases "decode_header (ws ! off)") (auto simp: andThen_eq_Ok split: if_splits)
          with False show False by blast
        qed
        moreover have "\<not> framed off ps (drop off ws)"
          using False off by (auto simp: d Cons)
        ultimately show ?thesis by blast
      qed
    qed
  qed
qed

lemma collect_packets_no_panic:
  assumes "off \<le> length ws" "length ws < 2 ^ 64"
  shows "collect_packets (packets_at ws off) \<noteq> Panic"
  using assms
proof (induction "length ws - off" arbitrary: off rule: less_induct)
  case less
  then show ?case
    by (subst collect_packets_at) (auto simp: outcome_simps split: if_splits)
qed

lemma framed_length_payload:
  "framed off ps ws \<Longrightarrow> p \<in> set ps \<Longrightarrow> length (payload p) = unat (count (pkt_header p))"
  by (induction off ps ws rule: framed.induct) auto

lemma framed_length_words:
  "framed off ps ws \<Longrightarrow> length ws = sum_list (map (\<lambda>p. 1 + length (payload p)) ps)"
  by (induction off ps ws rule: framed.induct) auto

text \<open>The dword positions of the packet headers of a framed stream.\<close>

fun header_positions :: "usize \<Rightarrow> packet list \<Rightarrow> usize list" where
  "header_positions off [] = []"
| "header_positions off (p # ps) = off # header_positions (off + 1 + length (payload p)) ps"

lemma header_positions_ge: "i \<in> set (header_positions off ps) \<Longrightarrow> off \<le> i"
  by (induction off ps rule: header_positions.induct) auto

text \<open>A stream that agrees with a framed stream on every header dword is framed by packets with the
  same headers at the same offsets.\<close>

lemma framed_reframe:
  assumes "framed off ps ws" "length ws' = length ws"
    and "\<And>i. i \<in> set (header_positions off ps) \<Longrightarrow> ws' ! (i - off) = ws ! (i - off)"
  shows "\<exists>ps'. framed off ps' ws' \<and> map pkt_header ps' = map pkt_header ps
    \<and> map word_offset ps' = map word_offset ps"
  using assms
proof (induction off ps ws arbitrary: ws' rule: framed.induct)
  case (1 off ws)
  then show ?case by (intro exI [of _ "[]"]) simp
next
  case (2 off p ps)
  then show ?case by simp
next
  case (3 off p ps h ws)
  let ?n = "unat (count (pkt_header p))"
  from "3.prems"(2) obtain h' vs where ws': "ws' = h' # vs" and len: "length vs = length ws"
    by (cases ws') auto
  have h: "h' = h"
    using "3.prems"(3) [of off] ws' by simp
  have n: "?n \<le> length ws" "length (payload p) = ?n" "framed (off + 1 + ?n) ps (drop ?n ws)"
    using "3.prems"(1) by auto
  have "(drop ?n vs) ! (i - (off + 1 + ?n)) = (drop ?n ws) ! (i - (off + 1 + ?n))"
    if "i \<in> set (header_positions (off + 1 + ?n) ps)" for i
  proof -
    have ge: "off + 1 + ?n \<le> i"
      using that by (rule header_positions_ge)
    have "ws' ! (i - off) = (h # ws) ! (i - off)"
      using "3.prems"(3) [of i] that n(2) by simp
    moreover have "i - off = Suc (?n + (i - (off + 1 + ?n)))"
      using ge by simp
    ultimately show ?thesis
      using n len by (simp add: ws')
  qed
  then obtain qs where qs: "framed (off + 1 + ?n) qs (drop ?n vs)"
      "map pkt_header qs = map pkt_header ps" "map word_offset qs = map word_offset ps"
    using "3.IH" [of "drop ?n vs"] n len by auto
  let ?p = "p\<lparr>payload := take ?n vs\<rparr>"
  have "framed off (?p # qs) ws'"
    using "3.prems"(1) qs n len h by (simp add: ws')
  with qs show ?case
    by (intro exI [of _ "?p # qs"]) simp
qed

section \<open>Properties\<close>

lemma type7_ignores_bit14:
  fixes w b :: u32
  assumes b: "\<And>n. bit b n \<Longrightarrow> n = 14"
  shows "drop_bit 28 (w AND NOT b) = drop_bit 28 w" "(w AND NOT b) AND mask 14 = w AND mask 14"
    "drop_bit 15 (w AND NOT b) = drop_bit 15 w" "drop_bit 16 (w AND NOT b) = drop_bit 16 w"
    "drop_bit 23 (w AND NOT b) = drop_bit 23 w"
    "(w AND NOT b) AND push_bit 24 (mask 4) = w AND push_bit 24 (mask 4)"
  by ((rule bit_word_eqI; auto simp: bit_and_iff bit_not_iff bit_drop_bit_eq bit_mask_iff bit_push_bit_iff
        dest: b bit_imp_le_length))+

lemma decode_header_bit14:
  assumes "decode_header (w AND NOT (push_bit 14 1)) = Ok (Type7 opc cnt)"
  shows "decode_header w = Ok (Type7 opc cnt)"
proof -
  define b :: u32 where "b = push_bit 14 1"
  have bb: "n = 14" if "bit b n" for n
    using that unfolding b_def by (simp only: bit_push_bit_iff bit_1_iff) simp
  note B = type7_ignores_bit14 [where b = b and w = w, OF bb]
  from assms have "(if drop_bit 28 w = 4 then decode_type4 (w AND NOT b)
      else if drop_bit 28 w = 7 then decode_type7 (w AND NOT b)
      else Err UnsupportedPacketType) = Ok (Type7 opc cnt)"
    unfolding b_def [symmetric] by (simp only: decode_header_def B)
  then have "drop_bit 28 w = 7" "decode_type7 (w AND NOT b) = Ok (Type7 opc cnt)"
    by (auto simp: decode_type4_def Let_def split: if_splits)
  moreover have "decode_type7 (w AND NOT b) = decode_type7 w"
    by (simp only: decode_type7_def u32_masks B)
  ultimately show ?thesis
    by (simp add: decode_header_def)
qed

text \<open>Type-4 header codec: a dword decodes to a register-write header exactly when it is the dword
  the constructor builds for that header, so construction and decoding are mutually inverse and no
  two dwords decode to the same type-4 header.\<close>

theorem type4_codec: "decode_header w = Ok (Type4 reg cnt) \<longleftrightarrow> type4 reg cnt = Ok w"
  using type4_decodes decodes_type4 by blast

text \<open>C14. Type-7 header codec: a dword decodes to an opcode header exactly when the constructor builds
  it up to bit 14, which the decoder never looks at: clearing that bit of an accepted dword gives
  the constructor's dword, and setting it does not change what the dword decodes to.\<close>

theorem type7_codec:
  "decode_header w = Ok (Type7 opc cnt) \<longleftrightarrow> type7 opc cnt = Ok (w AND NOT (push_bit 14 1))"
  using type7_decodes decodes_type7 decode_header_bit14 by blast

text \<open>C15. The packet iterator, drained over a whole stream, returns packets exactly when they tile the
  stream: each header dword decodes to the packet's header, the payload is the counted number of
  dwords behind it, the offset is the header's position, and nothing is left over. It never panics.\<close>

theorem packets_tile_stream:
  assumes "length ws < 2 ^ 64"
  shows "(collect_packets (packets_new ws) = Ok ps \<longleftrightarrow> framed 0 ps ws) \<and>
    collect_packets (packets_new ws) \<noteq> Panic"
  using collect_packets_framed [of 0 ws ps] collect_packets_no_panic [of 0 ws] assms
  by (simp add: packets_new_at)

theorem packets_tile_stream_witness:
  "collect_packets (packets_new [0x70928000]) = Ok [\<lparr>pkt_header = Type7 0x12 0, payload = [], word_offset = 0\<rparr>]"
proof -
  have "length [0x70928000 :: u32] < 2 ^ 64" by simp
  moreover have "framed 0 [\<lparr>pkt_header = Type7 0x12 0, payload = [], word_offset = 0\<rparr>] [0x70928000]"
    by code_simp
  ultimately show ?thesis
    using packets_tile_stream by blast
qed

end
