(* ===== verification/Submit_Registers.thy ===== *)
theory Submit_Registers
  imports Pm4
begin

text \<open>
  Constants of the command validator \<^verbatim>\<open>src/drivers/gpu/qcom-adreno-a618/src/submit.rs\<close>: the opcodes,
  events, formats and register offsets it names, and its error messages, one constant for each
  distinct string literal.
\<close>

section \<open>Opcodes, events, formats and registers\<close>

definition CP_MEMCPY :: u8 where "CP_MEMCPY = 0x75"
definition CP_MEM_WRITE :: u8 where "CP_MEM_WRITE = 0x3d"
definition CP_MEMCPY_MAX_DWORDS :: u32 where "CP_MEMCPY_MAX_DWORDS = 128"
definition CP_SET_VISIBILITY_OVERRIDE :: u8 where "CP_SET_VISIBILITY_OVERRIDE = 0x64"
definition CP_REG_WRITE :: u8 where "CP_REG_WRITE = 0x6d"
definition CP_SKIP_IB2_ENABLE_GLOBAL :: u8 where "CP_SKIP_IB2_ENABLE_GLOBAL = 0x1d"
definition CP_SKIP_IB2_ENABLE_LOCAL :: u8 where "CP_SKIP_IB2_ENABLE_LOCAL = 0x23"
definition EVENT_CCU_INVALIDATE_DEPTH :: u32 where "EVENT_CCU_INVALIDATE_DEPTH = 0x18"
definition EVENT_CCU_FLUSH_COLOR_TS :: u32 where "EVENT_CCU_FLUSH_COLOR_TS = 0x1d"
definition EVENT_CCU_FLUSH_DEPTH_TS :: u32 where "EVENT_CCU_FLUSH_DEPTH_TS = 0x1c"
definition EVENT_WRITE_TIMESTAMP :: u32 where "EVENT_WRITE_TIMESTAMP = push_bit 30 1"
definition EVENT_CCU_INVALIDATE_COLOR :: u32 where "EVENT_CCU_INVALIDATE_COLOR = 0x19"
definition EVENT_CACHE_INVALIDATE :: u32 where "EVENT_CACHE_INVALIDATE = 0x31"
definition FORMAT_8_8_8_8_UNORM :: u32 where "FORMAT_8_8_8_8_UNORM = 0x30"
definition FORMAT_32_FLOAT :: u32 where "FORMAT_32_FLOAT = 0x4a"
definition DEPTH_FORMAT_32 :: u32 where "DEPTH_FORMAT_32 = 4"
definition A2D_IFMT_FLOAT32 :: u32 where "A2D_IFMT_FLOAT32 = 4"
definition A2D_COLOR_SWAP_WXYZ :: u32 where "A2D_COLOR_SWAP_WXYZ = push_bit 10 1"
definition MRT_COLOR_SWAP_WXYZ :: u32 where "MRT_COLOR_SWAP_WXYZ = push_bit 13 1"
definition RB_CCU_CNTL :: u32 where "RB_CCU_CNTL = 0x8e07"
definition RB_DBG_ECO_CNTL :: u32 where "RB_DBG_ECO_CNTL = 0x8e04"
definition RB_A2D_BLT_CNTL :: u32 where "RB_A2D_BLT_CNTL = 0x8c00"
definition RB_A2D_PIXEL_CNTL :: u32 where "RB_A2D_PIXEL_CNTL = 0x8c01"
definition RB_A2D_DEST_BUFFER_INFO :: u32 where "RB_A2D_DEST_BUFFER_INFO = 0x8c17"
definition RB_A2D_DEST_BUFFER_BASE :: u32 where "RB_A2D_DEST_BUFFER_BASE = 0x8c18"
definition RB_A2D_DEST_BUFFER_PITCH :: u32 where "RB_A2D_DEST_BUFFER_PITCH = 0x8c1a"
definition RB_A2D_CLEAR_COLOR_DW0 :: u32 where "RB_A2D_CLEAR_COLOR_DW0 = 0x8c2c"
definition GRAS_A2D_BLT_CNTL :: u32 where "GRAS_A2D_BLT_CNTL = 0x8400"
definition GRAS_A2D_SRC_XMIN :: u32 where "GRAS_A2D_SRC_XMIN = 0x8401"
definition GRAS_A2D_DEST_TL :: u32 where "GRAS_A2D_DEST_TL = 0x8405"
definition GRAS_A2D_SCISSOR_TL :: u32 where "GRAS_A2D_SCISSOR_TL = 0x840a"
definition SP_A2D_OUTPUT_INFO :: u32 where "SP_A2D_OUTPUT_INFO = 0xacc0"
definition TPL1_A2D_SRC_TEXTURE_INFO :: u32 where "TPL1_A2D_SRC_TEXTURE_INFO = 0xb4c0"
definition TPL1_A2D_SRC_TEXTURE_SIZE :: u32 where "TPL1_A2D_SRC_TEXTURE_SIZE = 0xb4c1"
definition TPL1_A2D_SRC_TEXTURE_BASE :: u32 where "TPL1_A2D_SRC_TEXTURE_BASE = 0xb4c2"
definition TPL1_A2D_SRC_TEXTURE_PITCH :: u32 where "TPL1_A2D_SRC_TEXTURE_PITCH = 0xb4c4"
definition CP_DRAW_INDX_OFFSET :: u8 where "CP_DRAW_INDX_OFFSET = 0x38"
definition CP_LOAD_STATE6_GEOM :: u8 where "CP_LOAD_STATE6_GEOM = 0x32"
definition CP_LOAD_STATE6_FRAG :: u8 where "CP_LOAD_STATE6_FRAG = 0x34"
definition TEX_DESCRIPTOR_BGRA_IDENTITY :: u32 where "TEX_DESCRIPTOR_BGRA_IDENTITY = 0x4c006880"
definition TEX_DESCRIPTOR_ALPHA_MASK :: u32 where "TEX_DESCRIPTOR_ALPHA_MASK = 0x4c0076d0"
definition GRAS_CL_CNTL :: u32 where "GRAS_CL_CNTL = 0x8000"
definition GRAS_CL_VS_CLIP_CULL_DISTANCE :: u32 where "GRAS_CL_VS_CLIP_CULL_DISTANCE = 0x8001"
definition GRAS_CL_ARRAY_SIZE :: u32 where "GRAS_CL_ARRAY_SIZE = 0x8004"
definition GRAS_CL_INTERP_CNTL :: u32 where "GRAS_CL_INTERP_CNTL = 0x8005"
definition GRAS_CL_GUARDBAND_CLIP_ADJ :: u32 where "GRAS_CL_GUARDBAND_CLIP_ADJ = 0x8006"
definition GRAS_CL_VIEWPORT_XOFFSET :: u32 where "GRAS_CL_VIEWPORT_XOFFSET = 0x8010"
definition GRAS_SU_CNTL :: u32 where "GRAS_SU_CNTL = 0x8090"
definition GRAS_SU_POINT_MINMAX :: u32 where "GRAS_SU_POINT_MINMAX = 0x8091"
definition GRAS_SU_POINT_SIZE :: u32 where "GRAS_SU_POINT_SIZE = 0x8092"
definition GRAS_SU_DEPTH_PLANE_CNTL :: u32 where "GRAS_SU_DEPTH_PLANE_CNTL = 0x8094"
definition GRAS_SU_POLY_OFFSET_SCALE :: u32 where "GRAS_SU_POLY_OFFSET_SCALE = 0x8095"
definition GRAS_SU_DEPTH_BUFFER_INFO :: u32 where "GRAS_SU_DEPTH_BUFFER_INFO = 0x8098"
definition GRAS_SU_VS_SIV_CNTL :: u32 where "GRAS_SU_VS_SIV_CNTL = 0x809b"
definition GRAS_SC_CNTL :: u32 where "GRAS_SC_CNTL = 0x80a0"
definition GRAS_SC_RAS_MSAA_CNTL :: u32 where "GRAS_SC_RAS_MSAA_CNTL = 0x80a2"
definition GRAS_SC_SCREEN_SCISSOR_CNTL :: u32 where "GRAS_SC_SCREEN_SCISSOR_CNTL = 0x80af"
definition GRAS_SC_SCREEN_SCISSOR_TL :: u32 where "GRAS_SC_SCREEN_SCISSOR_TL = 0x80b0"
definition GRAS_SC_VIEWPORT_SCISSOR_TL :: u32 where "GRAS_SC_VIEWPORT_SCISSOR_TL = 0x80d0"
definition GRAS_SC_WINDOW_SCISSOR_TL :: u32 where "GRAS_SC_WINDOW_SCISSOR_TL = 0x80f0"
definition GRAS_SC_BIN_CNTL :: u32 where "GRAS_SC_BIN_CNTL = 0x80a1"
definition GRAS_LRZ_CNTL :: u32 where "GRAS_LRZ_CNTL = 0x8100"
definition GRAS_LRZ_PS_INPUT_CNTL :: u32 where "GRAS_LRZ_PS_INPUT_CNTL = 0x8101"
definition GRAS_LRZ_MRT_BUFFER_INFO_0 :: u32 where "GRAS_LRZ_MRT_BUFFER_INFO_0 = 0x8102"
definition GRAS_LRZ_PS_SAMPLEFREQ_CNTL :: u32 where "GRAS_LRZ_PS_SAMPLEFREQ_CNTL = 0x8109"
definition GRAS_SU_DEPTH_CNTL :: u32 where "GRAS_SU_DEPTH_CNTL = 0x8114"
definition GRAS_SU_STENCIL_CNTL :: u32 where "GRAS_SU_STENCIL_CNTL = 0x8115"
definition RB_CNTL :: u32 where "RB_CNTL = 0x8800"
definition RB_RENDER_CNTL :: u32 where "RB_RENDER_CNTL = 0x8801"
definition RB_RAS_MSAA_CNTL :: u32 where "RB_RAS_MSAA_CNTL = 0x8802"
definition RB_INTERP_CNTL :: u32 where "RB_INTERP_CNTL = 0x8809"
definition RB_PS_INPUT_CNTL :: u32 where "RB_PS_INPUT_CNTL = 0x880a"
definition RB_PS_OUTPUT_CNTL :: u32 where "RB_PS_OUTPUT_CNTL = 0x880b"
definition RB_PS_MRT_CNTL :: u32 where "RB_PS_MRT_CNTL = 0x880c"
definition RB_PS_OUTPUT_MASK :: u32 where "RB_PS_OUTPUT_MASK = 0x880d"
definition RB_DITHER_CNTL :: u32 where "RB_DITHER_CNTL = 0x880e"
definition RB_SRGB_CNTL :: u32 where "RB_SRGB_CNTL = 0x880f"
definition RB_PS_SAMPLEFREQ_CNTL :: u32 where "RB_PS_SAMPLEFREQ_CNTL = 0x8810"
definition RB_MRT_CONTROL :: u32 where "RB_MRT_CONTROL = 0x8820"
definition RB_MRT_BUF_INFO :: u32 where "RB_MRT_BUF_INFO = 0x8822"
definition RB_MRT_PITCH :: u32 where "RB_MRT_PITCH = 0x8823"
definition RB_MRT_BASE :: u32 where "RB_MRT_BASE = 0x8825"
definition RB_MRT_BASE_GMEM :: u32 where "RB_MRT_BASE_GMEM = 0x8827"
definition RB_ALPHA_TEST_CNTL :: u32 where "RB_ALPHA_TEST_CNTL = 0x8864"
definition RB_BLEND_CNTL :: u32 where "RB_BLEND_CNTL = 0x8865"
definition RB_DEPTH_PLANE_CNTL :: u32 where "RB_DEPTH_PLANE_CNTL = 0x8870"
definition RB_DEPTH_CNTL :: u32 where "RB_DEPTH_CNTL = 0x8871"
definition RB_DEPTH_BUFFER_INFO :: u32 where "RB_DEPTH_BUFFER_INFO = 0x8872"
definition RB_DEPTH_BOUND_MIN :: u32 where "RB_DEPTH_BOUND_MIN = 0x8878"
definition RB_STENCIL_CNTL :: u32 where "RB_STENCIL_CNTL = 0x8880"
definition RB_STENCIL_BUFFER_INFO :: u32 where "RB_STENCIL_BUFFER_INFO = 0x8881"
definition RB_STENCIL_REF_CNTL :: u32 where "RB_STENCIL_REF_CNTL = 0x8887"
definition RB_STENCIL_MASK :: u32 where "RB_STENCIL_MASK = 0x8888"
definition RB_MODE_CNTL :: u32 where "RB_MODE_CNTL = 0x8811"
definition RB_WINDOW_OFFSET :: u32 where "RB_WINDOW_OFFSET = 0x8890"
definition RB_LRZ_CNTL :: u32 where "RB_LRZ_CNTL = 0x8898"
definition RB_BIN_CONTROL2 :: u32 where "RB_BIN_CONTROL2 = 0x88d3"
definition RB_WINDOW_OFFSET2 :: u32 where "RB_WINDOW_OFFSET2 = 0x88d4"
definition RB_RESOLVE_GMEM_BUFFER_INFO :: u32 where "RB_RESOLVE_GMEM_BUFFER_INFO = 0x88d5"
definition RB_COLOR_FLAG_BUFFER_ADDR :: u32 where "RB_COLOR_FLAG_BUFFER_ADDR = 0x8903"
definition RB_DEPTH_FLAG_BUFFER_BASE :: u32 where "RB_DEPTH_FLAG_BUFFER_BASE = 0x8900"
definition VPC_RAST_CNTL :: u32 where "VPC_RAST_CNTL = 0x9108"
definition VPC_VARYING_INTERP_MODE :: u32 where "VPC_VARYING_INTERP_MODE = 0x9200"
definition VPC_VARYING_REPLACE_MODE :: u32 where "VPC_VARYING_REPLACE_MODE = 0x9208"
definition VPC_VARYING_LM_TRANSFER_CNTL_DISABLE :: u32 where "VPC_VARYING_LM_TRANSFER_CNTL_DISABLE = 0x9212"
definition VPC_VS_CLIP_CULL_CNTL :: u32 where "VPC_VS_CLIP_CULL_CNTL = 0x9101"
definition VPC_VS_SIV_CNTL :: u32 where "VPC_VS_SIV_CNTL = 0x9104"
definition VPC_VS_CNTL :: u32 where "VPC_VS_CNTL = 0x9301"
definition VPC_PS_CNTL :: u32 where "VPC_PS_CNTL = 0x9304"
definition VPC_SO_OVERRIDE :: u32 where "VPC_SO_OVERRIDE = 0x9306"
definition VPC_VS_CLIP_CULL_CNTL_V2 :: u32 where "VPC_VS_CLIP_CULL_CNTL_V2 = 0x9311"
definition VPC_VS_SIV_CNTL_V2 :: u32 where "VPC_VS_SIV_CNTL_V2 = 0x9314"
definition PC_MODE_CNTL :: u32 where "PC_MODE_CNTL = 0x9804"
definition PC_PS_CNTL :: u32 where "PC_PS_CNTL = 0x9806"
definition PC_DGEN_RAST_CNTL :: u32 where "PC_DGEN_RAST_CNTL = 0x9981"
definition PC_CNTL :: u32 where "PC_CNTL = 0x9b00"
definition PC_VS_CNTL :: u32 where "PC_VS_CNTL = 0x9b01"
definition PC_STEREO_RENDERING_CNTL :: u32 where "PC_STEREO_RENDERING_CNTL = 0x9b07"
definition VFD_CNTL_0 :: u32 where "VFD_CNTL_0 = 0xa000"
definition VFD_CNTL_1 :: u32 where "VFD_CNTL_1 = 0xa001"
definition VFD_RENDER_MODE :: u32 where "VFD_RENDER_MODE = 0xa007"
definition VFD_MODE_CNTL :: u32 where "VFD_MODE_CNTL = 0xa009"
definition VFD_INDEX_OFFSET :: u32 where "VFD_INDEX_OFFSET = 0xa00e"
definition VFD_VERTEX_BUFFER_BASE :: u32 where "VFD_VERTEX_BUFFER_BASE = 0xa010"
definition VFD_VERTEX_BUFFER_SIZE :: u32 where "VFD_VERTEX_BUFFER_SIZE = 0xa012"
definition VFD_FETCH_INSTR :: u32 where "VFD_FETCH_INSTR = 0xa090"
definition VFD_DEST_CNTL :: u32 where "VFD_DEST_CNTL = 0xa0d0"
definition SP_VS_CNTL_0 :: u32 where "SP_VS_CNTL_0 = 0xa800"
definition SP_VS_OUTPUT_CNTL :: u32 where "SP_VS_OUTPUT_CNTL = 0xa802"
definition SP_VS_OUTPUT_REG :: u32 where "SP_VS_OUTPUT_REG = 0xa803"
definition SP_VS_VPC_DEST_REG :: u32 where "SP_VS_VPC_DEST_REG = 0xa813"
definition SP_VS_PROGRAM_COUNTER_OFFSET :: u32 where "SP_VS_PROGRAM_COUNTER_OFFSET = 0xa81b"
definition SP_VS_CONFIG :: u32 where "SP_VS_CONFIG = 0xa823"
definition SP_VS_INSTR_SIZE :: u32 where "SP_VS_INSTR_SIZE = 0xa824"
definition SP_VS_PVT_MEM_STACK_OFFSET :: u32 where "SP_VS_PVT_MEM_STACK_OFFSET = 0xa825"
definition SP_HS_CONFIG :: u32 where "SP_HS_CONFIG = 0xa83b"
definition SP_DS_CONFIG :: u32 where "SP_DS_CONFIG = 0xa863"
definition SP_GS_CONFIG :: u32 where "SP_GS_CONFIG = 0xa894"
definition SP_PS_CNTL_0 :: u32 where "SP_PS_CNTL_0 = 0xa980"
definition SP_PS_PROGRAM_COUNTER_OFFSET :: u32 where "SP_PS_PROGRAM_COUNTER_OFFSET = 0xa982"
definition SP_BLEND_CNTL :: u32 where "SP_BLEND_CNTL = 0xa989"
definition SP_SRGB_CNTL :: u32 where "SP_SRGB_CNTL = 0xa98a"
definition SP_PS_OUTPUT_MASK :: u32 where "SP_PS_OUTPUT_MASK = 0xa98b"
definition SP_PS_OUTPUT_CNTL :: u32 where "SP_PS_OUTPUT_CNTL = 0xa98c"
definition SP_PS_MRT_CNTL :: u32 where "SP_PS_MRT_CNTL = 0xa98d"
definition SP_PS_OUTPUT_REG :: u32 where "SP_PS_OUTPUT_REG = 0xa98e"
definition SP_PS_MRT_REG :: u32 where "SP_PS_MRT_REG = 0xa996"
definition SP_PS_INITIAL_TEX_LOAD_CNTL :: u32 where "SP_PS_INITIAL_TEX_LOAD_CNTL = 0xa99e"
definition SP_PS_INITIAL_TEX_INDEX_CMD :: u32 where "SP_PS_INITIAL_TEX_INDEX_CMD = 0xa9a3"
definition SP_PS_TSIZE :: u32 where "SP_PS_TSIZE = 0xa9a7"
definition SP_PS_PVT_MEM_STACK_OFFSET :: u32 where "SP_PS_PVT_MEM_STACK_OFFSET = 0xa9a9"
definition SP_PS_SAMPLER_BASE :: u32 where "SP_PS_SAMPLER_BASE = 0xa9e0"
definition SP_PS_TEXMEMOBJ_BASE :: u32 where "SP_PS_TEXMEMOBJ_BASE = 0xa9e4"
definition SP_PS_CONFIG :: u32 where "SP_PS_CONFIG = 0xab04"
definition SP_PS_INSTR_SIZE :: u32 where "SP_PS_INSTR_SIZE = 0xab05"
definition SP_MODE_CNTL :: u32 where "SP_MODE_CNTL = 0xab00"
definition SP_GFX_USIZE :: u32 where "SP_GFX_USIZE = 0xab20"
definition SP_VS_CONST_CONFIG :: u32 where "SP_VS_CONST_CONFIG = 0xb800"
definition SP_PS_WAVE_CNTL :: u32 where "SP_PS_WAVE_CNTL = 0xb980"
definition SP_LB_PARAM_LIMIT :: u32 where "SP_LB_PARAM_LIMIT = 0xb982"
definition SP_REG_PROG_ID_0 :: u32 where "SP_REG_PROG_ID_0 = 0xb983"
definition TPL1_RAS_MSAA_CNTL :: u32 where "TPL1_RAS_MSAA_CNTL = 0xb300"
definition TPL1_MSAA_SAMPLE_POS_CNTL :: u32 where "TPL1_MSAA_SAMPLE_POS_CNTL = 0xb304"
definition TPL1_WINDOW_OFFSET :: u32 where "TPL1_WINDOW_OFFSET = 0xb307"
definition TPL1_MODE_CNTL :: u32 where "TPL1_MODE_CNTL = 0xb309"
definition SP_WINDOW_OFFSET :: u32 where "SP_WINDOW_OFFSET = 0xb4d1"
definition SP_UPDATE_CNTL :: u32 where "SP_UPDATE_CNTL = 0xbb08"
definition SP_PS_CONST_CONFIG :: u32 where "SP_PS_CONST_CONFIG = 0xbb10"

lemmas register_defs =
  CP_MEMCPY_MAX_DWORDS_def EVENT_CCU_INVALIDATE_DEPTH_def EVENT_CCU_FLUSH_COLOR_TS_def
  EVENT_CCU_FLUSH_DEPTH_TS_def EVENT_WRITE_TIMESTAMP_def EVENT_CCU_INVALIDATE_COLOR_def
  EVENT_CACHE_INVALIDATE_def FORMAT_8_8_8_8_UNORM_def FORMAT_32_FLOAT_def DEPTH_FORMAT_32_def
  A2D_IFMT_FLOAT32_def A2D_COLOR_SWAP_WXYZ_def MRT_COLOR_SWAP_WXYZ_def RB_CCU_CNTL_def
  RB_DBG_ECO_CNTL_def RB_A2D_BLT_CNTL_def RB_A2D_PIXEL_CNTL_def RB_A2D_DEST_BUFFER_INFO_def
  RB_A2D_DEST_BUFFER_BASE_def RB_A2D_DEST_BUFFER_PITCH_def RB_A2D_CLEAR_COLOR_DW0_def
  GRAS_A2D_BLT_CNTL_def GRAS_A2D_SRC_XMIN_def GRAS_A2D_DEST_TL_def GRAS_A2D_SCISSOR_TL_def
  SP_A2D_OUTPUT_INFO_def TPL1_A2D_SRC_TEXTURE_INFO_def TPL1_A2D_SRC_TEXTURE_SIZE_def
  TPL1_A2D_SRC_TEXTURE_BASE_def TPL1_A2D_SRC_TEXTURE_PITCH_def TEX_DESCRIPTOR_BGRA_IDENTITY_def
  TEX_DESCRIPTOR_ALPHA_MASK_def GRAS_CL_CNTL_def GRAS_CL_VS_CLIP_CULL_DISTANCE_def
  GRAS_CL_ARRAY_SIZE_def GRAS_CL_INTERP_CNTL_def GRAS_CL_GUARDBAND_CLIP_ADJ_def
  GRAS_CL_VIEWPORT_XOFFSET_def GRAS_SU_CNTL_def GRAS_SU_POINT_MINMAX_def GRAS_SU_POINT_SIZE_def
  GRAS_SU_DEPTH_PLANE_CNTL_def GRAS_SU_POLY_OFFSET_SCALE_def GRAS_SU_DEPTH_BUFFER_INFO_def
  GRAS_SU_VS_SIV_CNTL_def GRAS_SC_CNTL_def GRAS_SC_RAS_MSAA_CNTL_def
  GRAS_SC_SCREEN_SCISSOR_CNTL_def GRAS_SC_SCREEN_SCISSOR_TL_def GRAS_SC_VIEWPORT_SCISSOR_TL_def
  GRAS_SC_WINDOW_SCISSOR_TL_def GRAS_SC_BIN_CNTL_def GRAS_LRZ_CNTL_def GRAS_LRZ_PS_INPUT_CNTL_def
  GRAS_LRZ_MRT_BUFFER_INFO_0_def GRAS_LRZ_PS_SAMPLEFREQ_CNTL_def GRAS_SU_DEPTH_CNTL_def
  GRAS_SU_STENCIL_CNTL_def RB_CNTL_def RB_RENDER_CNTL_def RB_RAS_MSAA_CNTL_def RB_INTERP_CNTL_def
  RB_PS_INPUT_CNTL_def RB_PS_OUTPUT_CNTL_def RB_PS_MRT_CNTL_def RB_PS_OUTPUT_MASK_def
  RB_DITHER_CNTL_def RB_SRGB_CNTL_def RB_PS_SAMPLEFREQ_CNTL_def RB_MRT_CONTROL_def
  RB_MRT_BUF_INFO_def RB_MRT_PITCH_def RB_MRT_BASE_def RB_MRT_BASE_GMEM_def RB_ALPHA_TEST_CNTL_def
  RB_BLEND_CNTL_def RB_DEPTH_PLANE_CNTL_def RB_DEPTH_CNTL_def RB_DEPTH_BUFFER_INFO_def
  RB_DEPTH_BOUND_MIN_def RB_STENCIL_CNTL_def RB_STENCIL_BUFFER_INFO_def RB_STENCIL_REF_CNTL_def
  RB_STENCIL_MASK_def RB_MODE_CNTL_def RB_WINDOW_OFFSET_def RB_LRZ_CNTL_def RB_BIN_CONTROL2_def
  RB_WINDOW_OFFSET2_def RB_RESOLVE_GMEM_BUFFER_INFO_def RB_COLOR_FLAG_BUFFER_ADDR_def
  RB_DEPTH_FLAG_BUFFER_BASE_def VPC_RAST_CNTL_def VPC_VARYING_INTERP_MODE_def
  VPC_VARYING_REPLACE_MODE_def VPC_VARYING_LM_TRANSFER_CNTL_DISABLE_def VPC_VS_CLIP_CULL_CNTL_def
  VPC_VS_SIV_CNTL_def VPC_VS_CNTL_def VPC_PS_CNTL_def VPC_SO_OVERRIDE_def
  VPC_VS_CLIP_CULL_CNTL_V2_def VPC_VS_SIV_CNTL_V2_def PC_MODE_CNTL_def PC_PS_CNTL_def
  PC_DGEN_RAST_CNTL_def PC_CNTL_def PC_VS_CNTL_def PC_STEREO_RENDERING_CNTL_def VFD_CNTL_0_def
  VFD_CNTL_1_def VFD_RENDER_MODE_def VFD_MODE_CNTL_def VFD_INDEX_OFFSET_def
  VFD_VERTEX_BUFFER_BASE_def VFD_VERTEX_BUFFER_SIZE_def VFD_FETCH_INSTR_def VFD_DEST_CNTL_def
  SP_VS_CNTL_0_def SP_VS_OUTPUT_CNTL_def SP_VS_OUTPUT_REG_def SP_VS_VPC_DEST_REG_def
  SP_VS_PROGRAM_COUNTER_OFFSET_def SP_VS_CONFIG_def SP_VS_INSTR_SIZE_def
  SP_VS_PVT_MEM_STACK_OFFSET_def SP_HS_CONFIG_def SP_DS_CONFIG_def SP_GS_CONFIG_def
  SP_PS_CNTL_0_def SP_PS_PROGRAM_COUNTER_OFFSET_def SP_BLEND_CNTL_def SP_SRGB_CNTL_def
  SP_PS_OUTPUT_MASK_def SP_PS_OUTPUT_CNTL_def SP_PS_MRT_CNTL_def SP_PS_OUTPUT_REG_def
  SP_PS_MRT_REG_def SP_PS_INITIAL_TEX_LOAD_CNTL_def SP_PS_INITIAL_TEX_INDEX_CMD_def
  SP_PS_TSIZE_def SP_PS_PVT_MEM_STACK_OFFSET_def SP_PS_SAMPLER_BASE_def SP_PS_TEXMEMOBJ_BASE_def
  SP_PS_CONFIG_def SP_PS_INSTR_SIZE_def SP_MODE_CNTL_def SP_GFX_USIZE_def SP_VS_CONST_CONFIG_def
  SP_PS_WAVE_CNTL_def SP_LB_PARAM_LIMIT_def SP_REG_PROG_ID_0_def TPL1_RAS_MSAA_CNTL_def
  TPL1_MSAA_SAMPLE_POS_CNTL_def TPL1_WINDOW_OFFSET_def TPL1_MODE_CNTL_def SP_WINDOW_OFFSET_def
  SP_UPDATE_CNTL_def SP_PS_CONST_CONFIG_def

lemmas cp_opcode_defs = opcode_defs
  CP_MEMCPY_def CP_MEM_WRITE_def CP_SET_VISIBILITY_OVERRIDE_def CP_REG_WRITE_def
  CP_SKIP_IB2_ENABLE_GLOBAL_def CP_SKIP_IB2_ENABLE_LOCAL_def CP_DRAW_INDX_OFFSET_def
  CP_LOAD_STATE6_GEOM_def CP_LOAD_STATE6_FRAG_def

section \<open>Error messages\<close>

definition E_unsafe_PM4_register_value :: string where
  "E_unsafe_PM4_register_value = ''qcom-adreno-a618: unsafe PM4 register value''"
definition E_PM4_validation_allocation_failed :: string where
  "E_PM4_validation_allocation_failed = ''qcom-adreno-a618: PM4 validation allocation failed''"
definition E_unsafe_VFD_fetch_instruction :: string where
  "E_unsafe_VFD_fetch_instruction = ''qcom-adreno-a618: unsafe VFD fetch instruction''"
definition E_PM4_register_write_is_not_allowlisted :: string where
  "E_PM4_register_write_is_not_allowlisted = ''qcom-adreno-a618: PM4 register write is not allowlisted''"
definition E_PM4_memcpy_size_overflows :: string where
  "E_PM4_memcpy_size_overflows = ''qcom-adreno-a618: PM4 memcpy size overflows''"
definition E_unsafe_indexed_draw_initiator :: string where
  "E_unsafe_indexed_draw_initiator = ''qcom-adreno-a618: unsafe indexed draw initiator''"
definition E_indexed_draw_range_overflows :: string where
  "E_indexed_draw_range_overflows = ''qcom-adreno-a618: indexed draw range overflows''"
definition E_unsafe_indexed_draw_range :: string where
  "E_unsafe_indexed_draw_range = ''qcom-adreno-a618: unsafe indexed draw range''"
definition E_index_buffer_size_overflows :: string where
  "E_index_buffer_size_overflows = ''qcom-adreno-a618: index buffer size overflows''"
definition E_PM4_opcode_is_not_allowlisted :: string where
  "E_PM4_opcode_is_not_allowlisted = ''qcom-adreno-a618: PM4 opcode is not allowlisted''"
definition E_CP_memory_write_must_be_followed_by_CP_WAIT_MEM_WRITES :: string where
  "E_CP_memory_write_must_be_followed_by_CP_WAIT_MEM_WRITES = ''qcom-adreno-a618: CP memory write must be followed by CP_WAIT_MEM_WRITES''"
definition E_invalid_CCU_clean_invalidate_ordering :: string where
  "E_invalid_CCU_clean_invalidate_ordering = ''qcom-adreno-a618: invalid CCU clean/invalidate ordering''"
definition E_CCU_clean_invalidate_sequence_is_not_contiguous :: string where
  "E_CCU_clean_invalidate_sequence_is_not_contiguous = ''qcom-adreno-a618: CCU clean/invalidate sequence is not contiguous''"
definition E_CCU_clean_is_missing_its_matching_invalidation :: string where
  "E_CCU_clean_is_missing_its_matching_invalidation = ''qcom-adreno-a618: CCU clean is missing its matching invalidation''"
definition E_clear_batch_lacks_sysmem_retirement :: string where
  "E_clear_batch_lacks_sysmem_retirement = ''qcom-adreno-a618: clear batch lacks sysmem retirement''"
definition E_rendering_operation_lacks_the_complete_A6xx_sysmem_epilogue :: string where
  "E_rendering_operation_lacks_the_complete_A6xx_sysmem_epilogue = ''qcom-adreno-a618: rendering operation lacks the complete A6xx sysmem epilogue''"
definition E_A2D_blit_is_not_idle_before_retirement :: string where
  "E_A2D_blit_is_not_idle_before_retirement = ''qcom-adreno-a618: A2D blit is not idle before retirement''"
definition E_sampled_blit_follows_an_unretired_clear :: string where
  "E_sampled_blit_follows_an_unretired_clear = ''qcom-adreno-a618: sampled blit follows an unretired clear''"
definition E_rendering_operation_lacks_sysmem_retirement :: string where
  "E_rendering_operation_lacks_sysmem_retirement = ''qcom-adreno-a618: rendering operation lacks sysmem retirement''"
definition E_A2D_address_lacks_relocation_metadata :: string where
  "E_A2D_address_lacks_relocation_metadata = ''qcom-adreno-a618: A2D address lacks relocation metadata''"
definition E_A2D_address_is_reused_by_multiple_blits :: string where
  "E_A2D_address_is_reused_by_multiple_blits = ''qcom-adreno-a618: A2D address is reused by multiple blits''"
definition E_inverted_A2D_destination_rectangle :: string where
  "E_inverted_A2D_destination_rectangle = ''qcom-adreno-a618: inverted A2D destination rectangle''"
definition E_inverted_A2D_scissor_rectangle :: string where
  "E_inverted_A2D_scissor_rectangle = ''qcom-adreno-a618: inverted A2D scissor rectangle''"
definition E_inverted_A2D_source_rectangle :: string where
  "E_inverted_A2D_source_rectangle = ''qcom-adreno-a618: inverted A2D source rectangle''"
definition E_incomplete_A2D_control_state :: string where
  "E_incomplete_A2D_control_state = ''qcom-adreno-a618: incomplete A2D control state''"
definition E_A2D_destination_rectangle_is_missing :: string where
  "E_A2D_destination_rectangle_is_missing = ''qcom-adreno-a618: A2D destination rectangle is missing''"
definition E_A2D_scissor_is_missing :: string where
  "E_A2D_scissor_is_missing = ''qcom-adreno-a618: A2D scissor is missing''"
definition E_A2D_scissor_exceeds_destination :: string where
  "E_A2D_scissor_exceeds_destination = ''qcom-adreno-a618: A2D scissor exceeds destination''"
definition E_A2D_destination_base_is_missing :: string where
  "E_A2D_destination_base_is_missing = ''qcom-adreno-a618: A2D destination base is missing''"
definition E_A2D_destination_format_is_missing :: string where
  "E_A2D_destination_format_is_missing = ''qcom-adreno-a618: A2D destination format is missing''"
definition E_A2D_destination_pitch_is_missing :: string where
  "E_A2D_destination_pitch_is_missing = ''qcom-adreno-a618: A2D destination pitch is missing''"
definition E_A2D_source_info_is_missing :: string where
  "E_A2D_source_info_is_missing = ''qcom-adreno-a618: A2D source info is missing''"
definition E_A2D_source_size_is_missing :: string where
  "E_A2D_source_size_is_missing = ''qcom-adreno-a618: A2D source size is missing''"
definition E_A2D_source_rectangle_is_missing :: string where
  "E_A2D_source_rectangle_is_missing = ''qcom-adreno-a618: A2D source rectangle is missing''"
definition E_A2D_source_rectangle_exceeds_texture :: string where
  "E_A2D_source_rectangle_exceeds_texture = ''qcom-adreno-a618: A2D source rectangle exceeds texture''"
definition E_A2D_source_base_is_missing :: string where
  "E_A2D_source_base_is_missing = ''qcom-adreno-a618: A2D source base is missing''"
definition E_A2D_source_pitch_is_missing :: string where
  "E_A2D_source_pitch_is_missing = ''qcom-adreno-a618: A2D source pitch is missing''"
definition E_A2D_solid_blit_clear_color_is_missing :: string where
  "E_A2D_solid_blit_clear_color_is_missing = ''qcom-adreno-a618: A2D solid blit clear color is missing''"
definition E_A2D_address_is_not_consumed_by_a_complete_blit :: string where
  "E_A2D_address_is_not_consumed_by_a_complete_blit = ''qcom-adreno-a618: A2D address is not consumed by a complete blit''"
definition E_3D_image_address_lacks_relocation_metadata :: string where
  "E_3D_image_address_lacks_relocation_metadata = ''qcom-adreno-a618: 3D image address lacks relocation metadata''"
definition E_3D_image_address_is_reused :: string where
  "E_3D_image_address_is_reused = ''qcom-adreno-a618: 3D image address is reused''"
definition E_ambiguous_canonical_3D_pipeline_state :: string where
  "E_ambiguous_canonical_3D_pipeline_state = ''qcom-adreno-a618: ambiguous canonical 3D pipeline state''"
definition E_incomplete_canonical_3D_pipeline_state :: string where
  "E_incomplete_canonical_3D_pipeline_state = ''qcom-adreno-a618: incomplete canonical 3D pipeline state''"
definition E_incomplete_shader_state_transition :: string where
  "E_incomplete_shader_state_transition = ''qcom-adreno-a618: incomplete shader state transition''"
definition E_MRT_layout_is_missing :: string where
  "E_MRT_layout_is_missing = ''qcom-adreno-a618: MRT layout is missing''"
definition E_MRT_base_is_missing :: string where
  "E_MRT_base_is_missing = ''qcom-adreno-a618: MRT base is missing''"
definition E_viewport_transform_is_missing :: string where
  "E_viewport_transform_is_missing = ''qcom-adreno-a618: viewport transform is missing''"
definition E_render_bounds_are_missing :: string where
  "E_render_bounds_are_missing = ''qcom-adreno-a618: render bounds are missing''"
definition E_viewport_scissor_is_missing :: string where
  "E_viewport_scissor_is_missing = ''qcom-adreno-a618: viewport scissor is missing''"
definition E_invalid_render_bounds :: string where
  "E_invalid_render_bounds = ''qcom-adreno-a618: invalid render bounds''"
definition E_invalid_viewport_scissor :: string where
  "E_invalid_viewport_scissor = ''qcom-adreno-a618: invalid viewport scissor''"
definition E_unsafe_3D_scissor_state :: string where
  "E_unsafe_3D_scissor_state = ''qcom-adreno-a618: unsafe 3D scissor state''"
definition E_invalid_viewport_transform :: string where
  "E_invalid_viewport_transform = ''qcom-adreno-a618: invalid viewport transform''"
definition E_unsafe_3D_viewport_transform :: string where
  "E_unsafe_3D_viewport_transform = ''qcom-adreno-a618: unsafe 3D viewport transform''"
definition E_MRT_pitch_overflows :: string where
  "E_MRT_pitch_overflows = ''qcom-adreno-a618: MRT pitch overflows''"
definition E_invalid_color_attachment_modifier :: string where
  "E_invalid_color_attachment_modifier = ''qcom-adreno-a618: invalid color attachment modifier''"
definition E_target_state_is_not_initialized :: string where
  "E_target_state_is_not_initialized = ''qcom-adreno-a618: target state is not initialized''"
definition E_incomplete_target_state_transition :: string where
  "E_incomplete_target_state_transition = ''qcom-adreno-a618: incomplete target state transition''"
definition E_incomplete_canonical_depth_state :: string where
  "E_incomplete_canonical_depth_state = ''qcom-adreno-a618: incomplete canonical depth state''"
definition E_depth_pitch_overflows :: string where
  "E_depth_pitch_overflows = ''qcom-adreno-a618: depth pitch overflows''"
definition E_depth_target_layout_overflows :: string where
  "E_depth_target_layout_overflows = ''qcom-adreno-a618: depth target layout overflows''"
definition E_depth_array_pitch_does_not_match_target :: string where
  "E_depth_array_pitch_does_not_match_target = ''qcom-adreno-a618: depth array pitch does not match target''"
definition E_depth_state_is_not_initialized :: string where
  "E_depth_state_is_not_initialized = ''qcom-adreno-a618: depth state is not initialized''"
definition E_window_scissor_is_missing :: string where
  "E_window_scissor_is_missing = ''qcom-adreno-a618: window scissor is missing''"
definition E_VFD_buffer_layout_is_missing :: string where
  "E_VFD_buffer_layout_is_missing = ''qcom-adreno-a618: VFD buffer layout is missing''"
definition E_VFD_vertex_offset_is_missing :: string where
  "E_VFD_vertex_offset_is_missing = ''qcom-adreno-a618: VFD vertex offset is missing''"
definition E_VFD_vertex_span_overflows :: string where
  "E_VFD_vertex_span_overflows = ''qcom-adreno-a618: VFD vertex span overflows''"
definition E_VFD_size_does_not_match_draw_span :: string where
  "E_VFD_size_does_not_match_draw_span = ''qcom-adreno-a618: VFD size does not match draw span''"
definition E_indexed_VFD_base_vertex_overflows :: string where
  "E_indexed_VFD_base_vertex_overflows = ''qcom-adreno-a618: indexed VFD base vertex overflows''"
definition E_indexed_VFD_base_vertex_is_out_of_bounds :: string where
  "E_indexed_VFD_base_vertex_is_out_of_bounds = ''qcom-adreno-a618: indexed VFD base vertex is out of bounds''"
definition E_VFD_buffer_base_is_missing :: string where
  "E_VFD_buffer_base_is_missing = ''qcom-adreno-a618: VFD buffer base is missing''"
definition E_VFD_address_lacks_relocation :: string where
  "E_VFD_address_lacks_relocation = ''qcom-adreno-a618: VFD address lacks relocation''"
definition E_texture_state_lacks_relocation :: string where
  "E_texture_state_lacks_relocation = ''qcom-adreno-a618: texture state lacks relocation''"
definition E_texture_state_is_not_an_attachment :: string where
  "E_texture_state_is_not_an_attachment = ''qcom-adreno-a618: texture state is not an attachment''"
definition E_texture_state_attachment_is_missing :: string where
  "E_texture_state_attachment_is_missing = ''qcom-adreno-a618: texture state attachment is missing''"
definition E_invalid_texture_state_offset :: string where
  "E_invalid_texture_state_offset = ''qcom-adreno-a618: invalid texture state offset''"
definition E_odd_NV12_extent :: string where
  "E_odd_NV12_extent = ''qcom-adreno-a618: odd NV12 extent''"
definition E_texture_state_lookup_precedes_initialization :: string where
  "E_texture_state_lookup_precedes_initialization = ''qcom-adreno-a618: texture state lookup precedes initialization''"
definition E_PM4_copy_allocation_failed :: string where
  "E_PM4_copy_allocation_failed = ''qcom-adreno-a618: PM4 copy allocation failed''"
definition E_PM4_table_changed_during_decode :: string where
  "E_PM4_table_changed_during_decode = ''qcom-adreno-a618: PM4 table changed during decode''"
definition E_malformed_PM4_packet_stream :: string where
  "E_malformed_PM4_packet_stream = ''qcom-adreno-a618: malformed PM4 packet stream''"
definition E_PM4_address_validation_allocation_failed :: string where
  "E_PM4_address_validation_allocation_failed = ''qcom-adreno-a618: PM4 address validation allocation failed''"
definition E_every_GPU_address_must_have_one_relocation :: string where
  "E_every_GPU_address_must_have_one_relocation = ''qcom-adreno-a618: every GPU address must have one relocation''"
definition E_GPU_address_fields_are_not_strictly_ordered :: string where
  "E_GPU_address_fields_are_not_strictly_ordered = ''qcom-adreno-a618: GPU address fields are not strictly ordered''"
definition E_relocation_does_not_match_its_PM4_address_field :: string where
  "E_relocation_does_not_match_its_PM4_address_field = ''qcom-adreno-a618: relocation does not match its PM4 address field''"
definition E_resource_GPU_VA_overflows :: string where
  "E_resource_GPU_VA_overflows = ''qcom-adreno-a618: resource GPU VA overflows''"
definition E_relocated_GPU_VA_overflows :: string where
  "E_relocated_GPU_VA_overflows = ''qcom-adreno-a618: relocated GPU VA overflows''"
definition E_relocated_range_overflows :: string where
  "E_relocated_range_overflows = ''qcom-adreno-a618: relocated range overflows''"
definition E_relocation_exceeds_attached_allocation :: string where
  "E_relocation_exceeds_attached_allocation = ''qcom-adreno-a618: relocation exceeds attached allocation''"
definition E_relocation_PM4_offset_is_invalid :: string where
  "E_relocation_PM4_offset_is_invalid = ''qcom-adreno-a618: relocation PM4 offset is invalid''"
definition E_texture_descriptor_address_is_invalid :: string where
  "E_texture_descriptor_address_is_invalid = ''qcom-adreno-a618: texture descriptor address is invalid''"
definition E_invalid_A6xx_submit_wire :: string where
  "E_invalid_A6xx_submit_wire = ''qcom-adreno-a618: invalid A6xx submit wire''"
definition E_resource_validation_allocation_failed :: string where
  "E_resource_validation_allocation_failed = ''qcom-adreno-a618: resource validation allocation failed''"
definition E_resource_table_is_incomplete :: string where
  "E_resource_table_is_incomplete = ''qcom-adreno-a618: resource table is incomplete''"
definition E_resource_is_not_attached_to_this_context :: string where
  "E_resource_is_not_attached_to_this_context = ''qcom-adreno-a618: resource is not attached to this context''"
definition E_resource_range_overflows :: string where
  "E_resource_range_overflows = ''qcom-adreno-a618: resource range overflows''"
definition E_submit_exceeds_attached_resource_access_authority :: string where
  "E_submit_exceeds_attached_resource_access_authority = ''qcom-adreno-a618: submit exceeds attached resource access authority''"
definition E_resource_range_exceeds_attached_allocation :: string where
  "E_resource_range_exceeds_attached_allocation = ''qcom-adreno-a618: resource range exceeds attached allocation''"
definition E_resource_range_GPU_VA_overflows :: string where
  "E_resource_range_GPU_VA_overflows = ''qcom-adreno-a618: resource range GPU VA overflows''"
definition E_relocation_validation_allocation_failed :: string where
  "E_relocation_validation_allocation_failed = ''qcom-adreno-a618: relocation validation allocation failed''"
definition E_relocation_table_is_incomplete :: string where
  "E_relocation_table_is_incomplete = ''qcom-adreno-a618: relocation table is incomplete''"
definition E_relocation_resource_index_is_invalid :: string where
  "E_relocation_resource_index_is_invalid = ''qcom-adreno-a618: relocation resource index is invalid''"
definition E_canonical_shader_is_unavailable :: string where
  "E_canonical_shader_is_unavailable = ''qcom-adreno-a618: canonical shader is unavailable''"
definition E_relocation_exceeds_declared_resource_access :: string where
  "E_relocation_exceeds_declared_resource_access = ''qcom-adreno-a618: relocation exceeds declared resource access''"
definition E_relocation_size_does_not_match_PM4_operation :: string where
  "E_relocation_size_does_not_match_PM4_operation = ''qcom-adreno-a618: relocation size does not match PM4 operation''"
definition E_A2D_address_must_cover_one_complete_linear_image :: string where
  "E_A2D_address_must_cover_one_complete_linear_image = ''qcom-adreno-a618: A2D address must cover one complete linear image''"
definition E_image_row_size_overflows :: string where
  "E_image_row_size_overflows = ''qcom-adreno-a618: image row size overflows''"
definition E_image_layout_is_not_supported :: string where
  "E_image_layout_is_not_supported = ''qcom-adreno-a618: image layout is not supported''"
definition E_A2D_relocation_does_not_match_image_layout :: string where
  "E_A2D_relocation_does_not_match_image_layout = ''qcom-adreno-a618: A2D relocation does not match image layout''"
definition E_A2D_relocation_lacks_semantic_bounds :: string where
  "E_A2D_relocation_lacks_semantic_bounds = ''qcom-adreno-a618: A2D relocation lacks semantic bounds''"
definition E_A2D_byte_range_overflows :: string where
  "E_A2D_byte_range_overflows = ''qcom-adreno-a618: A2D byte range overflows''"
definition E_A2D_state_exceeds_the_authorized_image_layout :: string where
  "E_A2D_state_exceeds_the_authorized_image_layout = ''qcom-adreno-a618: A2D state exceeds the authorized image layout''"
definition E_3D_image_address_must_cover_one_complete_linear_image :: string where
  "E_3D_image_address_must_cover_one_complete_linear_image = ''qcom-adreno-a618: 3D image address must cover one complete linear image''"
definition E_3D_image_layout_is_not_supported :: string where
  "E_3D_image_layout_is_not_supported = ''qcom-adreno-a618: 3D image layout is not supported''"
definition E_3D_row_size_overflows :: string where
  "E_3D_row_size_overflows = ''qcom-adreno-a618: 3D row size overflows''"
definition E_3D_descriptor_does_not_match_attached_image_metadata :: string where
  "E_3D_descriptor_does_not_match_attached_image_metadata = ''qcom-adreno-a618: 3D descriptor does not match attached image metadata''"

end
