(* ===== verification/Shader_Pack.thy ===== *)
theory Shader_Pack
  imports Rust_Bytes
begin

text \<open>
  The canonical shader pack of \<^verbatim>\<open>src/shared/adreno-a6xx-shader-pack/src/lib.rs\<close>: the stable program
  identities, their generated register payloads, the pipeline variants with their shader linkage
  and fixed state, and the routine that lays the programs out in one allocation. The program bytes
  are those of the \<^verbatim>\<open>.bin\<close> artifacts the source includes. The lemmas show that identities and
  offsets are dense and disjoint, and that the copied pack holds every program.
\<close>

section \<open>Program identities\<close>

definition SHADER_ALIGNMENT :: usize where "SHADER_ALIGNMENT = 128"
definition SHADER_SIZE :: usize where "SHADER_SIZE = 128"

datatype ShaderVariant =
    VsStride16Pos2
  | VsStride16Pos2Uv2
  | VsStride40Pos4
  | VsStride40Pos4Color4
  | VsStride40Pos4Color4Uv2
  | FsSolid
  | FsVertexColor
  | FsTextureRgba
  | FsTextureAlphaMask
  | FsTextureVertexColorRgba
  | VsStride24Pos4Uv2
  | VsStride28Pos4Color3
  | FsTextureRgbIgnoreAlpha
  | FsNv12
  | FsNv12VertexColor

definition ShaderVariant_ALL :: "ShaderVariant list" where
  "ShaderVariant_ALL = [
    VsStride16Pos2,
    VsStride16Pos2Uv2,
    VsStride40Pos4,
    VsStride40Pos4Color4,
    VsStride40Pos4Color4Uv2,
    FsSolid,
    FsVertexColor,
    FsTextureRgba,
    FsTextureAlphaMask,
    FsTextureVertexColorRgba,
    VsStride24Pos4Uv2,
    VsStride28Pos4Color3,
    FsTextureRgbIgnoreAlpha,
    FsNv12,
    FsNv12VertexColor]"

fun raw_index :: "ShaderVariant \<Rightarrow> nat" where
  "raw_index VsStride16Pos2 = 0"
| "raw_index VsStride16Pos2Uv2 = 1"
| "raw_index VsStride40Pos4 = 2"
| "raw_index VsStride40Pos4Color4 = 3"
| "raw_index VsStride40Pos4Color4Uv2 = 4"
| "raw_index FsSolid = 5"
| "raw_index FsVertexColor = 6"
| "raw_index FsTextureRgba = 7"
| "raw_index FsTextureAlphaMask = 8"
| "raw_index FsTextureVertexColorRgba = 9"
| "raw_index VsStride24Pos4Uv2 = 10"
| "raw_index VsStride28Pos4Color3 = 11"
| "raw_index FsTextureRgbIgnoreAlpha = 12"
| "raw_index FsNv12 = 13"
| "raw_index FsNv12VertexColor = 14"

definition shader_raw :: "ShaderVariant \<Rightarrow> u16" where
  "shader_raw v = of_nat (raw_index v)"

definition shader_from_raw :: "u16 \<Rightarrow> ShaderVariant option" where
  "shader_from_raw raw =
     (if raw < of_nat (length ShaderVariant_ALL) then Some (ShaderVariant_ALL ! unat raw) else None)"

definition shader_offset :: "ShaderVariant \<Rightarrow> usize" where
  "shader_offset v =
     (if raw_index v \<le> 13 then raw_index v * SHADER_ALIGNMENT else 15 * SHADER_ALIGNMENT)"

fun is_vertex :: "ShaderVariant \<Rightarrow> bool" where
  "is_vertex VsStride16Pos2 = True"
| "is_vertex VsStride16Pos2Uv2 = True"
| "is_vertex VsStride40Pos4 = True"
| "is_vertex VsStride40Pos4Color4 = True"
| "is_vertex VsStride40Pos4Color4Uv2 = True"
| "is_vertex VsStride24Pos4Uv2 = True"
| "is_vertex VsStride28Pos4Color3 = True"
| "is_vertex _ = False"

text \<open>The artifact bytes, one constant for each included file.\<close>

definition vs_stride16_pos2_bin :: "u8 list" where
  "vs_stride16_pos2_bin = [
    4, 16, 12, 48, 2, 139, 128, 99, 0, 16, 2, 32, 6, 11, 128, 99,
    0, 0, 0, 0, 0, 0, 0, 3, 0, 0, 0, 0, 0, 0, 0, 0,
    0, 0, 0, 0, 0, 0, 0, 0, 0, 0, 0, 0, 0, 0, 0, 0,
    0, 0, 0, 0, 0, 0, 0, 0, 0, 0, 0, 0, 0, 0, 0, 0,
    0, 0, 0, 0, 0, 0, 0, 0, 0, 0, 0, 0, 0, 0, 0, 0,
    0, 0, 0, 0, 0, 0, 0, 0, 0, 0, 0, 0, 0, 0, 0, 0,
    0, 0, 0, 0, 0, 0, 0, 0, 0, 0, 0, 0, 0, 0, 0, 0,
    0, 0, 0, 0, 0, 0, 0, 0, 0, 0, 0, 0, 0, 0, 0, 0]"

definition vs_stride16_pos2_uv2_bin :: "u8 list" where
  "vs_stride16_pos2_uv2_bin = [
    4, 16, 12, 48, 4, 139, 128, 99, 0, 16, 4, 32, 8, 11, 128, 99,
    0, 0, 0, 0, 0, 0, 0, 3, 0, 0, 0, 0, 0, 0, 0, 0,
    0, 0, 0, 0, 0, 0, 0, 0, 0, 0, 0, 0, 0, 0, 0, 0,
    0, 0, 0, 0, 0, 0, 0, 0, 0, 0, 0, 0, 0, 0, 0, 0,
    0, 0, 0, 0, 0, 0, 0, 0, 0, 0, 0, 0, 0, 0, 0, 0,
    0, 0, 0, 0, 0, 0, 0, 0, 0, 0, 0, 0, 0, 0, 0, 0,
    0, 0, 0, 0, 0, 0, 0, 0, 0, 0, 0, 0, 0, 0, 0, 0,
    0, 0, 0, 0, 0, 0, 0, 0, 0, 0, 0, 0, 0, 0, 0, 0]"

definition vs_stride40_pos4_bin :: "u8 list" where
  "vs_stride40_pos4_bin = [
    0, 16, 0, 0, 4, 11, 112, 64, 4, 16, 4, 32, 4, 139, 128, 99,
    8, 16, 4, 32, 4, 11, 129, 99, 12, 16, 4, 32, 8, 139, 129, 99,
    0, 0, 0, 0, 0, 0, 0, 3, 0, 0, 0, 0, 0, 0, 0, 0,
    0, 0, 0, 0, 0, 0, 0, 0, 0, 0, 0, 0, 0, 0, 0, 0,
    0, 0, 0, 0, 0, 0, 0, 0, 0, 0, 0, 0, 0, 0, 0, 0,
    0, 0, 0, 0, 0, 0, 0, 0, 0, 0, 0, 0, 0, 0, 0, 0,
    0, 0, 0, 0, 0, 0, 0, 0, 0, 0, 0, 0, 0, 0, 0, 0,
    0, 0, 0, 0, 0, 0, 0, 0, 0, 0, 0, 0, 0, 0, 0, 0]"

definition vs_stride40_pos4_color4_bin :: "u8 list" where
  "vs_stride40_pos4_color4_bin = [
    0, 16, 0, 0, 8, 11, 112, 64, 4, 16, 8, 32, 8, 139, 128, 99,
    8, 16, 8, 32, 8, 11, 129, 99, 12, 16, 8, 32, 12, 139, 129, 99,
    0, 0, 0, 0, 0, 0, 0, 3, 0, 0, 0, 0, 0, 0, 0, 0,
    0, 0, 0, 0, 0, 0, 0, 0, 0, 0, 0, 0, 0, 0, 0, 0,
    0, 0, 0, 0, 0, 0, 0, 0, 0, 0, 0, 0, 0, 0, 0, 0,
    0, 0, 0, 0, 0, 0, 0, 0, 0, 0, 0, 0, 0, 0, 0, 0,
    0, 0, 0, 0, 0, 0, 0, 0, 0, 0, 0, 0, 0, 0, 0, 0,
    0, 0, 0, 0, 0, 0, 0, 0, 0, 0, 0, 0, 0, 0, 0, 0]"

definition vs_stride40_pos4_color4_uv2_bin :: "u8 list" where
  "vs_stride40_pos4_color4_uv2_bin = [
    0, 16, 0, 0, 10, 11, 112, 64, 4, 16, 10, 32, 10, 139, 128, 99,
    8, 16, 10, 32, 10, 11, 129, 99, 12, 16, 10, 32, 14, 139, 129, 99,
    0, 0, 0, 0, 0, 0, 0, 3, 0, 0, 0, 0, 0, 0, 0, 0,
    0, 0, 0, 0, 0, 0, 0, 0, 0, 0, 0, 0, 0, 0, 0, 0,
    0, 0, 0, 0, 0, 0, 0, 0, 0, 0, 0, 0, 0, 0, 0, 0,
    0, 0, 0, 0, 0, 0, 0, 0, 0, 0, 0, 0, 0, 0, 0, 0,
    0, 0, 0, 0, 0, 0, 0, 0, 0, 0, 0, 0, 0, 0, 0, 0,
    0, 0, 0, 0, 0, 0, 0, 0, 0, 0, 0, 0, 0, 0, 0, 0]"

definition fs_solid_bin :: "u8 list" where
  "fs_solid_bin = [
    16, 0, 0, 0, 0, 192, 44, 32, 17, 0, 0, 0, 1, 192, 44, 32,
    18, 0, 0, 0, 2, 192, 44, 32, 19, 0, 0, 0, 3, 192, 44, 32,
    0, 0, 0, 0, 0, 0, 0, 3, 0, 0, 0, 0, 0, 0, 0, 0,
    0, 0, 0, 0, 0, 0, 0, 0, 0, 0, 0, 0, 0, 0, 0, 0,
    0, 0, 0, 0, 0, 0, 0, 0, 0, 0, 0, 0, 0, 0, 0, 0,
    0, 0, 0, 0, 0, 0, 0, 0, 0, 0, 0, 0, 0, 0, 0, 0,
    0, 0, 0, 0, 0, 0, 0, 0, 0, 0, 0, 0, 0, 0, 0, 0,
    0, 0, 0, 0, 0, 0, 0, 0, 0, 0, 0, 0, 0, 0, 0, 0]"

definition fs_vertex_color_bin :: "u8 list" where
  "fs_vertex_color_bin = [
    0, 32, 0, 0, 2, 139, 48, 71, 2, 0, 16, 16, 6, 11, 120, 64,
    0, 0, 0, 0, 0, 0, 0, 3, 0, 0, 0, 0, 0, 0, 0, 0,
    0, 0, 0, 0, 0, 0, 0, 0, 0, 0, 0, 0, 0, 0, 0, 0,
    0, 0, 0, 0, 0, 0, 0, 0, 0, 0, 0, 0, 0, 0, 0, 0,
    0, 0, 0, 0, 0, 0, 0, 0, 0, 0, 0, 0, 0, 0, 0, 0,
    0, 0, 0, 0, 0, 0, 0, 0, 0, 0, 0, 0, 0, 0, 0, 0,
    0, 0, 0, 0, 0, 0, 0, 0, 0, 0, 0, 0, 0, 0, 0, 0,
    0, 0, 0, 0, 0, 0, 0, 0, 0, 0, 0, 0, 0, 0, 0, 0]"

definition fs_texture_rgba_bin :: "u8 list" where
  "fs_texture_rgba_bin = [
    0, 32, 0, 0, 252, 128, 48, 71, 2, 0, 16, 16, 6, 11, 120, 80,
    0, 0, 0, 0, 0, 0, 0, 3, 0, 0, 0, 0, 0, 0, 0, 0,
    0, 0, 0, 0, 0, 0, 0, 0, 0, 0, 0, 0, 0, 0, 0, 0,
    0, 0, 0, 0, 0, 0, 0, 0, 0, 0, 0, 0, 0, 0, 0, 0,
    0, 0, 0, 0, 0, 0, 0, 0, 0, 0, 0, 0, 0, 0, 0, 0,
    0, 0, 0, 0, 0, 0, 0, 0, 0, 0, 0, 0, 0, 0, 0, 0,
    0, 0, 0, 0, 0, 0, 0, 0, 0, 0, 0, 0, 0, 0, 0, 0,
    0, 0, 0, 0, 0, 0, 0, 0, 0, 0, 0, 0, 0, 0, 0, 0]"

definition fs_texture_alpha_mask_bin :: "u8 list" where
  "fs_texture_alpha_mask_bin = [
    0, 32, 0, 0, 252, 128, 48, 71, 16, 0, 0, 0, 6, 192, 44, 32,
    17, 0, 0, 0, 7, 192, 44, 32, 18, 0, 0, 0, 8, 192, 44, 32,
    5, 0, 19, 16, 9, 0, 112, 80, 0, 0, 0, 0, 0, 0, 0, 3,
    0, 0, 0, 0, 0, 0, 0, 0, 0, 0, 0, 0, 0, 0, 0, 0,
    0, 0, 0, 0, 0, 0, 0, 0, 0, 0, 0, 0, 0, 0, 0, 0,
    0, 0, 0, 0, 0, 0, 0, 0, 0, 0, 0, 0, 0, 0, 0, 0,
    0, 0, 0, 0, 0, 0, 0, 0, 0, 0, 0, 0, 0, 0, 0, 0,
    0, 0, 0, 0, 0, 0, 0, 0, 0, 0, 0, 0, 0, 0, 0, 0]"

definition fs_texture_vertex_color_rgba_bin :: "u8 list" where
  "fs_texture_vertex_color_rgba_bin = [
    0, 32, 0, 0, 6, 139, 48, 71, 2, 0, 6, 0, 2, 11, 120, 80,
    2, 0, 16, 16, 10, 11, 120, 64, 0, 0, 0, 0, 0, 0, 0, 3,
    0, 0, 0, 0, 0, 0, 0, 0, 0, 0, 0, 0, 0, 0, 0, 0,
    0, 0, 0, 0, 0, 0, 0, 0, 0, 0, 0, 0, 0, 0, 0, 0,
    0, 0, 0, 0, 0, 0, 0, 0, 0, 0, 0, 0, 0, 0, 0, 0,
    0, 0, 0, 0, 0, 0, 0, 0, 0, 0, 0, 0, 0, 0, 0, 0,
    0, 0, 0, 0, 0, 0, 0, 0, 0, 0, 0, 0, 0, 0, 0, 0,
    0, 0, 0, 0, 0, 0, 0, 0, 0, 0, 0, 0, 0, 0, 0, 0]"

definition vs_stride24_pos4_uv2_bin :: "u8 list" where
  "vs_stride24_pos4_uv2_bin = [
    0, 16, 0, 0, 6, 11, 112, 64, 4, 16, 6, 32, 6, 139, 128, 99,
    8, 16, 6, 32, 6, 11, 129, 99, 12, 16, 6, 32, 10, 139, 129, 99,
    0, 0, 0, 0, 0, 0, 0, 3, 0, 0, 0, 0, 0, 0, 0, 0,
    0, 0, 0, 0, 0, 0, 0, 0, 0, 0, 0, 0, 0, 0, 0, 0,
    0, 0, 0, 0, 0, 0, 0, 0, 0, 0, 0, 0, 0, 0, 0, 0,
    0, 0, 0, 0, 0, 0, 0, 0, 0, 0, 0, 0, 0, 0, 0, 0,
    0, 0, 0, 0, 0, 0, 0, 0, 0, 0, 0, 0, 0, 0, 0, 0,
    0, 0, 0, 0, 0, 0, 0, 0, 0, 0, 0, 0, 0, 0, 0, 0]"

definition vs_stride28_pos4_color3_bin :: "u8 list" where
  "vs_stride28_pos4_color3_bin = [
    0, 16, 0, 0, 8, 11, 112, 64, 4, 16, 8, 32, 8, 139, 128, 99,
    8, 16, 8, 32, 8, 11, 129, 99, 0, 0, 128, 63, 7, 192, 76, 32,
    12, 16, 8, 32, 12, 139, 129, 99, 0, 0, 0, 0, 0, 0, 0, 3,
    0, 0, 0, 0, 0, 0, 0, 0, 0, 0, 0, 0, 0, 0, 0, 0,
    0, 0, 0, 0, 0, 0, 0, 0, 0, 0, 0, 0, 0, 0, 0, 0,
    0, 0, 0, 0, 0, 0, 0, 0, 0, 0, 0, 0, 0, 0, 0, 0,
    0, 0, 0, 0, 0, 0, 0, 0, 0, 0, 0, 0, 0, 0, 0, 0,
    0, 0, 0, 0, 0, 0, 0, 0, 0, 0, 0, 0, 0, 0, 0, 0]"

definition fs_texture_rgb_ignore_alpha_bin :: "u8 list" where
  "fs_texture_rgb_ignore_alpha_bin = [
    0, 32, 0, 0, 252, 128, 48, 71, 19, 0, 0, 0, 8, 192, 44, 32,
    2, 0, 16, 16, 5, 10, 120, 80, 0, 0, 0, 0, 0, 0, 0, 3,
    0, 0, 0, 0, 0, 0, 0, 0, 0, 0, 0, 0, 0, 0, 0, 0,
    0, 0, 0, 0, 0, 0, 0, 0, 0, 0, 0, 0, 0, 0, 0, 0,
    0, 0, 0, 0, 0, 0, 0, 0, 0, 0, 0, 0, 0, 0, 0, 0,
    0, 0, 0, 0, 0, 0, 0, 0, 0, 0, 0, 0, 0, 0, 0, 0,
    0, 0, 0, 0, 0, 0, 0, 0, 0, 0, 0, 0, 0, 0, 0, 0,
    0, 0, 0, 0, 0, 0, 0, 0, 0, 0, 0, 0, 0, 0, 0, 0]"

definition fs_nv12_bin :: "u8 list" where
  "fs_nv12_bin = [
    0, 32, 0, 0, 252, 128, 48, 71, 19, 0, 0, 0, 10, 192, 44, 32,
    20, 16, 23, 16, 5, 0, 129, 115, 24, 16, 27, 16, 6, 0, 129, 99,
    28, 16, 31, 16, 2, 0, 129, 99, 21, 16, 5, 0, 5, 128, 129, 99,
    25, 16, 6, 0, 6, 128, 129, 99, 29, 16, 2, 0, 3, 128, 129, 99,
    22, 16, 5, 0, 5, 4, 130, 99, 26, 16, 6, 0, 6, 4, 130, 99,
    30, 16, 3, 0, 4, 12, 130, 99, 5, 0, 16, 16, 7, 0, 112, 64,
    6, 0, 17, 16, 8, 0, 112, 64, 4, 0, 18, 16, 9, 0, 112, 64,
    0, 0, 0, 0, 0, 0, 0, 3, 0, 0, 0, 0, 0, 0, 0, 0,
    0, 0, 0, 0, 0, 0, 0, 0, 0, 0, 0, 0, 0, 0, 0, 0,
    0, 0, 0, 0, 0, 0, 0, 0]"

definition fs_nv12_vertex_color_bin :: "u8 list" where
  "fs_nv12_vertex_color_bin = [
    0, 32, 0, 0, 5, 139, 48, 71, 0, 0, 0, 0, 0, 2, 0, 0,
    19, 16, 8, 0, 14, 0, 112, 64, 20, 16, 23, 16, 9, 0, 129, 115,
    24, 16, 27, 16, 10, 0, 129, 99, 28, 16, 31, 16, 2, 0, 129, 99,
    21, 16, 9, 0, 9, 128, 129, 99, 25, 16, 10, 0, 10, 128, 129, 99,
    29, 16, 2, 0, 3, 128, 129, 99, 22, 16, 9, 0, 9, 4, 130, 99,
    26, 16, 10, 0, 10, 4, 130, 99, 30, 16, 3, 0, 4, 12, 130, 99,
    9, 0, 16, 16, 9, 0, 112, 64, 10, 0, 17, 16, 10, 0, 112, 64,
    4, 0, 18, 16, 4, 8, 112, 64, 9, 0, 5, 0, 11, 0, 112, 64,
    10, 0, 6, 0, 12, 0, 112, 64, 4, 0, 7, 0, 13, 0, 112, 64,
    0, 0, 0, 0, 0, 0, 0, 3, 0, 0, 0, 0, 0, 0, 0, 0,
    0, 0, 0, 0, 0, 0, 0, 0, 0, 0, 0, 0, 0, 0, 0, 0,
    0, 0, 0, 0, 0, 0, 0, 0, 0, 0, 0, 0, 0, 0, 0, 0,
    0, 0, 0, 0, 0, 0, 0, 0, 0, 0, 0, 0, 0, 0, 0, 0,
    0, 0, 0, 0, 0, 0, 0, 0, 0, 0, 0, 0, 0, 0, 0, 0,
    0, 0, 0, 0, 0, 0, 0, 0, 0, 0, 0, 0, 0, 0, 0, 0,
    0, 0, 0, 0, 0, 0, 0, 0, 0, 0, 0, 0, 0, 0, 0, 0]"

fun shader_bytes :: "ShaderVariant \<Rightarrow> u8 list" where
  "shader_bytes FsNv12 = fs_nv12_bin"
| "shader_bytes FsNv12VertexColor = fs_nv12_vertex_color_bin"
| "shader_bytes VsStride16Pos2 = vs_stride16_pos2_bin"
| "shader_bytes VsStride16Pos2Uv2 = vs_stride16_pos2_uv2_bin"
| "shader_bytes VsStride40Pos4 = vs_stride40_pos4_bin"
| "shader_bytes VsStride40Pos4Color4 = vs_stride40_pos4_color4_bin"
| "shader_bytes VsStride40Pos4Color4Uv2 = vs_stride40_pos4_color4_uv2_bin"
| "shader_bytes FsSolid = fs_solid_bin"
| "shader_bytes FsVertexColor = fs_vertex_color_bin"
| "shader_bytes FsTextureRgba = fs_texture_rgba_bin"
| "shader_bytes FsTextureAlphaMask = fs_texture_alpha_mask_bin"
| "shader_bytes FsTextureVertexColorRgba = fs_texture_vertex_color_rgba_bin"
| "shader_bytes VsStride24Pos4Uv2 = vs_stride24_pos4_uv2_bin"
| "shader_bytes VsStride28Pos4Color3 = vs_stride28_pos4_color3_bin"
| "shader_bytes FsTextureRgbIgnoreAlpha = fs_texture_rgb_ignore_alpha_bin"

definition shader_size :: "ShaderVariant \<Rightarrow> usize" where
  "shader_size v = unat ((of_nat (length (shader_bytes v) + 127) :: u64) AND NOT 127)"

section \<open>Program metadata\<close>

record VertexMeta =
  sp_vs_cntl_0 :: u32
  sp_vs_instr_size :: u32
  sp_vs_const_config :: u32
  sp_vs_config :: u32
  vfd_dest_cntl :: "u32 list"
  vfd_cntl_1_6 :: "u32 list"

record FragmentMeta =
  sp_ps_cntl_0 :: u32
  sp_ps_instr_size :: u32
  sp_ps_const_config :: u32
  sp_ps_config :: u32
  sp_ps_wave_cntl :: u32
  gras_cl_interp_cntl :: u32
  rb_interp_cntl :: u32
  rb_ps_input_cntl :: u32
  initial_tex_load_cntl :: u32
  initial_tex_load_cmd :: "u32 list"
  sp_reg_prog_id :: "u32 list"
  sp_ps_output_cntl :: u32
  sp_ps_output_reg :: "u32 list"
  sp_ps_output_mask :: u32
  rb_ps_output_cntl :: u32
  rb_ps_output_mask :: u32

datatype ShaderMeta = Vertex VertexMeta | Fragment FragmentMeta

definition PROG_ID_SOLID :: "u32 list" where
  "PROG_ID_SOLID = [0xfcfcfcfc, 0xfcfcfcfc, 0xfcfcfcfc, 0xfcfc]"
definition PROG_ID_VARYING :: "u32 list" where
  "PROG_ID_VARYING = [0xfcfcfcfc, 0xfcfcfc00, 0xfcfcfcfc, 0xfcfc]"
definition VFD_CNTL_1_6_NO_SYSVALS :: "u32 list" where
  "VFD_CNTL_1_6_NO_SYSVALS = [0xfcfcfcfc, 0x0000fcfc, 0xfcfcfcfc, 0x000000fc, 0x0000fcfc, 0]"

definition fragment_varying :: "u32 \<Rightarrow> u32 \<Rightarrow> u32 list \<Rightarrow> u32 list \<Rightarrow> ShaderMeta" where
  "fragment_varying cntl tex_cntl tex_cmd output = Fragment \<lparr>
     sp_ps_cntl_0 = cntl, sp_ps_instr_size = 1, sp_ps_const_config = 0x102,
     sp_ps_config = (if tex_cntl = 0 then 0x100 else 0x20300), sp_ps_wave_cntl = 3,
     gras_cl_interp_cntl = 1, rb_interp_cntl = 0x401, rb_ps_input_cntl = 0,
     initial_tex_load_cntl = tex_cntl, initial_tex_load_cmd = tex_cmd,
     sp_reg_prog_id = PROG_ID_VARYING, sp_ps_output_cntl = 0xfcfcfc00, sp_ps_output_reg = output,
     sp_ps_output_mask = 15, rb_ps_output_cntl = 0, rb_ps_output_mask = 15\<rparr>"

fun shader_meta :: "ShaderVariant \<Rightarrow> ShaderMeta" where
  "shader_meta VsStride16Pos2 = Vertex \<lparr>sp_vs_cntl_0 = 0x00100180, sp_vs_instr_size = 1, sp_vs_const_config =
     0x103, sp_vs_config = 0x100, vfd_dest_cntl = [3], vfd_cntl_1_6 =
     VFD_CNTL_1_6_NO_SYSVALS\<rparr>"
| "shader_meta VsStride16Pos2Uv2 = Vertex \<lparr>sp_vs_cntl_0 = 0x00100180, sp_vs_instr_size = 1, sp_vs_const_config =
     0x103, sp_vs_config = 0x100, vfd_dest_cntl = [3, 35], vfd_cntl_1_6 =
     VFD_CNTL_1_6_NO_SYSVALS\<rparr>"
| "shader_meta VsStride40Pos4 = Vertex \<lparr>sp_vs_cntl_0 = 0x00100180, sp_vs_instr_size = 1, sp_vs_const_config =
     0x103, sp_vs_config = 0x100, vfd_dest_cntl = [15], vfd_cntl_1_6 =
     VFD_CNTL_1_6_NO_SYSVALS\<rparr>"
| "shader_meta VsStride40Pos4Color4 = Vertex \<lparr>sp_vs_cntl_0 = 0x00100200, sp_vs_instr_size = 1, sp_vs_const_config =
     0x103, sp_vs_config = 0x100, vfd_dest_cntl = [15, 79], vfd_cntl_1_6 =
     VFD_CNTL_1_6_NO_SYSVALS\<rparr>"
| "shader_meta VsStride40Pos4Color4Uv2 = Vertex \<lparr>sp_vs_cntl_0 = 0x00100280, sp_vs_instr_size = 1, sp_vs_const_config =
     0x103, sp_vs_config = 0x100, vfd_dest_cntl = [15, 79, 131], vfd_cntl_1_6 =
     VFD_CNTL_1_6_NO_SYSVALS\<rparr>"
| "shader_meta VsStride24Pos4Uv2 = Vertex \<lparr>sp_vs_cntl_0 = 0x00100200, sp_vs_instr_size = 1, sp_vs_const_config =
     0x103, sp_vs_config = 0x100, vfd_dest_cntl = [15, 67], vfd_cntl_1_6 =
     VFD_CNTL_1_6_NO_SYSVALS\<rparr>"
| "shader_meta VsStride28Pos4Color3 = Vertex \<lparr>sp_vs_cntl_0 = 0x00100200, sp_vs_instr_size = 1, sp_vs_const_config =
     0x103, sp_vs_config = 0x100, vfd_dest_cntl = [15, 71], vfd_cntl_1_6 =
     VFD_CNTL_1_6_NO_SYSVALS\<rparr>"
| "shader_meta FsNv12 = Fragment \<lparr>sp_ps_cntl_0 = 2169504128, sp_ps_instr_size = 1, sp_ps_const_config =
     258, sp_ps_config = 131840, sp_ps_wave_cntl = 3, gras_cl_interp_cntl = 1, rb_interp_cntl
     = 1025, rb_ps_input_cntl = 0, initial_tex_load_cntl = 1, initial_tex_load_cmd =
     [566362112], sp_reg_prog_id = [4244438268, 4244438016, 4244438268, 64764],
     sp_ps_output_cntl = 4244438016, sp_ps_output_reg = [7], sp_ps_output_mask = 15,
     rb_ps_output_cntl = 0, rb_ps_output_mask = 15\<rparr>"
| "shader_meta FsNv12VertexColor = Fragment \<lparr>sp_ps_cntl_0 = 2169504256, sp_ps_instr_size = 2, sp_ps_const_config =
     258, sp_ps_config = 131840, sp_ps_wave_cntl = 3, gras_cl_interp_cntl = 1, rb_interp_cntl
     = 1025, rb_ps_input_cntl = 0, initial_tex_load_cntl = 1, initial_tex_load_cmd =
     [566362116], sp_reg_prog_id = [4244438268, 4244438016, 4244438268, 64764],
     sp_ps_output_cntl = 4244438016, sp_ps_output_reg = [11], sp_ps_output_mask = 15,
     rb_ps_output_cntl = 0, rb_ps_output_mask = 15\<rparr>"
| "shader_meta FsSolid = Fragment \<lparr>sp_ps_cntl_0 = 0x81100080, sp_ps_instr_size = 1, sp_ps_const_config =
     0x102, sp_ps_config = 0x100, sp_ps_wave_cntl = 1, gras_cl_interp_cntl = 0,
     rb_interp_cntl = 0, rb_ps_input_cntl = 0, initial_tex_load_cntl = 8,
     initial_tex_load_cmd = [], sp_reg_prog_id = PROG_ID_SOLID, sp_ps_output_cntl =
     0xfcfcfc00, sp_ps_output_reg = [0], sp_ps_output_mask = 15, rb_ps_output_cntl = 0,
     rb_ps_output_mask = 15\<rparr>"
| "shader_meta FsVertexColor = fragment_varying 0x81500180 0 [] [6]"
| "shader_meta FsTextureRgba = fragment_varying 0x81500180 1 [0x23c20000] [6]"
| "shader_meta FsTextureAlphaMask = fragment_varying 0x81500180 1 [0x22020000] [6]"
| "shader_meta FsTextureVertexColorRgba = fragment_varying 0x81500200 1 [0x23c20004] [10]"
| "shader_meta FsTextureRgbIgnoreAlpha = fragment_varying 0x81500180 1 [0x21c20000] [5]"

section \<open>Pipelines\<close>

record LinkMeta =
  link_vs :: ShaderVariant
  link_fs :: ShaderVariant
  sp_vs_output_reg :: "u32 list"
  sp_vs_vpc_dest_reg :: "u32 list"
  vpc_vs_cntl :: u32
  pc_vs_cntl :: u32
  sp_vs_output_cntl :: u32
  lm_transfer_disable :: "u32 list"
  vpc_ps_cntl :: u32

datatype PipelineVariant =
    Stride16Solid
  | Stride16TextureRgba
  | Stride16TextureAlphaMask
  | Stride40Solid
  | Stride40VertexColor
  | Stride40TextureVertexColorRgba
  | Stride24Solid
  | Stride24TextureRgba
  | Stride24TextureRgbIgnoreAlpha
  | Stride28VertexColor
  | Stride32Solid
  | Stride32VertexColor
  | Stride24TextureAlphaMask
  | Stride16Nv12
  | Stride24Nv12
  | Stride40Nv12VertexColor

definition PipelineVariant_ALL :: "PipelineVariant list" where
  "PipelineVariant_ALL = [
    Stride16Solid,
    Stride16TextureRgba,
    Stride16TextureAlphaMask,
    Stride40Solid,
    Stride40VertexColor,
    Stride40TextureVertexColorRgba,
    Stride24Solid,
    Stride24TextureRgba,
    Stride24TextureRgbIgnoreAlpha,
    Stride28VertexColor,
    Stride32Solid,
    Stride32VertexColor,
    Stride24TextureAlphaMask,
    Stride16Nv12,
    Stride24Nv12,
    Stride40Nv12VertexColor]"

record PipelineStateMeta =
  stride :: u32
  vfd_fetch :: "u32 list"
  uses_sampler :: bool
  source_over :: bool

definition SAMPLER_CLAMP_NEAREST :: "u32 list" where "SAMPLER_CLAMP_NEAREST = [0x920, 0x40, 0, 0]"
definition SAMPLER_CLAMP_LINEAR :: "u32 list" where "SAMPLER_CLAMP_LINEAR = [0x92a, 0x40, 0x20, 0]"

definition fixed :: "u32 \<Rightarrow> u32 list \<Rightarrow> bool \<Rightarrow> bool \<Rightarrow> PipelineStateMeta" where
  "fixed strd fetch sampler over =
     \<lparr>stride = strd, vfd_fetch = fetch, uses_sampler = sampler, source_over = over\<rparr>"

definition POS2 :: "u32 list" where "POS2 = [0xc6700000, 1]"
definition POS2_UV2 :: "u32 list" where "POS2_UV2 = [0xc6700000, 1, 0xc6700100, 1]"
definition POS4 :: "u32 list" where "POS4 = [0xc8200000, 1]"
definition POS4_UV2 :: "u32 list" where "POS4_UV2 = [0xc8200000, 1, 0xc6700200, 1]"
definition POS4_COLOR3 :: "u32 list" where "POS4_COLOR3 = [0xc8200000, 1, 0xc7400200, 1]"
definition POS4_COLOR4 :: "u32 list" where "POS4_COLOR4 = [0xc8200000, 1, 0xc8200200, 1]"
definition POS4_COLOR4_UV2 :: "u32 list" where "POS4_COLOR4_UV2 = [0xc8200000, 1, 0xc8200200, 1, 0xc6700400, 1]"

fun pipeline_state_meta :: "PipelineVariant \<Rightarrow> PipelineStateMeta" where
  "pipeline_state_meta Stride16Solid = fixed 16 POS2 False True"
| "pipeline_state_meta Stride16Nv12 = fixed 16 POS2_UV2 True True"
| "pipeline_state_meta Stride16TextureRgba = fixed 16 POS2_UV2 True True"
| "pipeline_state_meta Stride16TextureAlphaMask = fixed 16 POS2_UV2 True True"
| "pipeline_state_meta Stride40Solid = fixed 40 POS4 False True"
| "pipeline_state_meta Stride40VertexColor = fixed 40 POS4_COLOR4 False True"
| "pipeline_state_meta Stride40Nv12VertexColor = fixed 40 POS4_COLOR4_UV2 True True"
| "pipeline_state_meta Stride40TextureVertexColorRgba = fixed 40 POS4_COLOR4_UV2 True True"
| "pipeline_state_meta Stride24Solid = fixed 24 POS4 False True"
| "pipeline_state_meta Stride24Nv12 = fixed 24 POS4_UV2 True True"
| "pipeline_state_meta Stride24TextureRgba = fixed 24 POS4_UV2 True True"
| "pipeline_state_meta Stride24TextureRgbIgnoreAlpha = fixed 24 POS4_UV2 True True"
| "pipeline_state_meta Stride24TextureAlphaMask = fixed 24 POS4_UV2 True True"
| "pipeline_state_meta Stride28VertexColor = fixed 28 POS4_COLOR3 False False"
| "pipeline_state_meta Stride32Solid = fixed 32 POS4 False True"
| "pipeline_state_meta Stride32VertexColor = fixed 32 POS4_COLOR4 False True"

definition link :: "ShaderVariant \<Rightarrow> ShaderVariant \<Rightarrow> u32 list \<Rightarrow> u32 list \<Rightarrow> u32 \<Rightarrow> u32 \<Rightarrow> u32 \<Rightarrow>
    u32 list \<Rightarrow> u32 \<Rightarrow> LinkMeta" where
  "link vs fs outputs destinations vpc_vs pc_vs output_count lm_disable vpc_ps =
     \<lparr>link_vs = vs, link_fs = fs, sp_vs_output_reg = outputs, sp_vs_vpc_dest_reg = destinations,
      vpc_vs_cntl = vpc_vs, pc_vs_cntl = pc_vs, sp_vs_output_cntl = output_count,
      lm_transfer_disable = lm_disable, vpc_ps_cntl = vpc_ps\<rparr>"

fun link_meta :: "PipelineVariant \<Rightarrow> LinkMeta" where
  "link_meta Stride16Nv12 =
     link VsStride16Pos2Uv2 FsNv12 [252183298] [512] 16712198 6 2 [4294967292, 4294967295,
       4294967295, 4294967295] 4278320898"
| "link_meta Stride24Nv12 =
     link VsStride24Pos4Uv2 FsNv12 [252314372] [512] 16712198 6 2 [4294967292, 4294967295,
       4294967295, 4294967295] 4278320898"
| "link_meta Stride40Nv12VertexColor =
     link VsStride40Pos4Color4Uv2 FsNv12VertexColor [50859780, 3854] [394240] 16713226 10 3
       [4294967232, 4294967295, 4294967295, 4294967295] 4278320902"
| "link_meta Stride16Solid =
     link VsStride16Pos2 FsSolid [3846] [0] 0x00ff0004 4 1 [0xffffffff, 0xffffffff,
       0xffffffff, 0xffffffff] 0xff00ff00"
| "link_meta Stride16TextureRgba =
     link VsStride16Pos2Uv2 FsTextureRgba [0x0f080302] [512] 0x00ff0206 6 2 [0xfffffffc,
       0xffffffff, 0xffffffff, 0xffffffff] 0xff01ff02"
| "link_meta Stride16TextureAlphaMask =
     link VsStride16Pos2Uv2 FsTextureAlphaMask [0x0f080302] [512] 0x00ff0206 6 2 [0xfffffffc,
       0xffffffff, 0xffffffff, 0xffffffff] 0xff01ff02"
| "link_meta Stride40Solid =
     link VsStride40Pos4 FsSolid [3848] [0] 0x00ff0004 4 1 [0xffffffff, 0xffffffff,
       0xffffffff, 0xffffffff] 0xff00ff00"
| "link_meta Stride40VertexColor =
     link VsStride40Pos4Color4 FsVertexColor [0x0f0c0f04] [1024] 0x00ff0408 8 2 [0xfffffff0,
       0xffffffff, 0xffffffff, 0xffffffff] 0xff01ff04"
| "link_meta Stride40TextureVertexColorRgba =
     link VsStride40Pos4Color4Uv2 FsTextureVertexColorRgba [0x03080f04, 3854] [394240]
       0x00ff060a 10 3 [0xffffffc0, 0xffffffff, 0xffffffff, 0xffffffff] 0xff01ff06"
| "link_meta Stride24Solid =
     link VsStride40Pos4 FsSolid [3848] [0] 0x00ff0004 4 1 [0xffffffff, 0xffffffff,
       0xffffffff, 0xffffffff] 0xff00ff00"
| "link_meta Stride24TextureRgba =
     link VsStride24Pos4Uv2 FsTextureRgba [0x0f0a0304] [512] 0x00ff0206 6 2 [0xfffffffc,
       0xffffffff, 0xffffffff, 0xffffffff] 0xff01ff02"
| "link_meta Stride24TextureRgbIgnoreAlpha =
     link VsStride24Pos4Uv2 FsTextureRgbIgnoreAlpha [0x0f0a0304] [512] 0x00ff0206 6 2
       [0xfffffffc, 0xffffffff, 0xffffffff, 0xffffffff] 0xff01ff02"
| "link_meta Stride24TextureAlphaMask =
     link VsStride24Pos4Uv2 FsTextureAlphaMask [0x0f0a0304] [512] 0x00ff0206 6 2 [0xfffffffc,
       0xffffffff, 0xffffffff, 0xffffffff] 0xff01ff02"
| "link_meta Stride28VertexColor =
     link VsStride28Pos4Color3 FsVertexColor [0x0f0c0f04] [1024] 0x00ff0408 8 2 [0xfffffff0,
       0xffffffff, 0xffffffff, 0xffffffff] 0xff01ff04"
| "link_meta Stride32Solid =
     link VsStride40Pos4 FsSolid [3848] [0] 0x00ff0004 4 1 [0xffffffff, 0xffffffff,
       0xffffffff, 0xffffffff] 0xff00ff00"
| "link_meta Stride32VertexColor =
     link VsStride40Pos4Color4 FsVertexColor [0x0f0c0f04] [1024] 0x00ff0408 8 2 [0xfffffff0,
       0xffffffff, 0xffffffff, 0xffffffff] 0xff01ff04"

section \<open>The pack allocation\<close>

definition PACK_SIZE :: usize where "PACK_SIZE = 17 * SHADER_ALIGNMENT"

text \<open>One iteration of the copy loop: clear the program's slots, then copy its bytes.\<close>

definition copy_program :: "u8 list \<Rightarrow> ShaderVariant \<Rightarrow> (unit, u8 list) outcome" where
  "copy_program destination v =
     andThen (put_bytes destination (shader_offset v) (replicate (shader_size v) 0)) (\<lambda>cleared.
     put_bytes cleared (shader_offset v) (shader_bytes v))"

text \<open>\<open>copy_pack\<close> returns whether it copied, and the destination afterwards.\<close>

definition copy_pack :: "u8 list \<Rightarrow> (unit, bool \<times> u8 list) outcome" where
  "copy_pack destination =
     (if length destination < PACK_SIZE then Ok (False, destination)
      else andThen (foldM copy_program destination ShaderVariant_ALL) (\<lambda>out. Ok (True, out)))"

section \<open>Identities and slots\<close>

lemmas artifact_defs =
  vs_stride16_pos2_bin_def vs_stride16_pos2_uv2_bin_def vs_stride40_pos4_bin_def
  vs_stride40_pos4_color4_bin_def vs_stride40_pos4_color4_uv2_bin_def fs_solid_bin_def
  fs_vertex_color_bin_def fs_texture_rgba_bin_def fs_texture_alpha_mask_bin_def
  fs_texture_vertex_color_rgba_bin_def vs_stride24_pos4_uv2_bin_def vs_stride28_pos4_color3_bin_def
  fs_texture_rgb_ignore_alpha_bin_def fs_nv12_bin_def fs_nv12_vertex_color_bin_def

lemmas pack_sizes = SHADER_ALIGNMENT_def SHADER_SIZE_def PACK_SIZE_def

lemma length_shader_bytes:
  "length (shader_bytes v) = (if v = FsNv12 then 152 else if v = FsNv12VertexColor then 256 else 128)"
  by (cases v) (simp_all add: artifact_defs)

lemma shader_size_value:
  "shader_size v = (if v = FsNv12 \<or> v = FsNv12VertexColor then 256 else 128)"
  by (simp add: shader_size_def length_shader_bytes)

lemma length_le_shader_size: "length (shader_bytes v) \<le> shader_size v"
  by (simp add: length_shader_bytes shader_size_value)

lemma shader_variants_complete: "set ShaderVariant_ALL = UNIV"
proof -
  have "v \<in> set ShaderVariant_ALL" for v
    by (cases v) (simp_all add: ShaderVariant_ALL_def)
  then show ?thesis by blast
qed

lemma length_shader_variants: "length ShaderVariant_ALL = 15"
  by (simp add: ShaderVariant_ALL_def)

lemma shader_variants_nth: "ShaderVariant_ALL ! raw_index v = v"
  by (cases v) (simp_all add: ShaderVariant_ALL_def)

lemma raw_index_bound: "raw_index v < 15"
  by (cases v) simp_all

lemma raw_index_nth: "i < 15 \<Longrightarrow> raw_index (ShaderVariant_ALL ! i) = i"
proof -
  assume "i < 15"
  then have "i \<in> set [0..<15]" by simp
  moreover have "\<forall>i\<in>set [0..<15]. raw_index (ShaderVariant_ALL ! i) = i"
    by (simp add: ShaderVariant_ALL_def upt_rec)
  ultimately show ?thesis by blast
qed

lemma raw_index_inj: "raw_index v = raw_index w \<Longrightarrow> v = w"
  by (metis shader_variants_nth)

lemma unat_shader_raw: "unat (shader_raw v) = raw_index v"
  using raw_index_bound [of v] by (simp add: shader_raw_def unat_of_nat)

text \<open>Program identities are stable and dense: decoding an identity inverts encoding it, every
identity below the number of programs names exactly one program, and every other identity is
rejected.\<close>

lemma shader_identity_codec:
  "shader_from_raw (shader_raw v) = Some v \<and>
   (shader_from_raw r = Some v \<longleftrightarrow> r = shader_raw v) \<and>
   (shader_from_raw r = None \<longleftrightarrow> 15 \<le> unat r)"
proof -
  have less: "r < 15 \<longleftrightarrow> unat r < 15" for r :: u16 by (simp add: word_less_nat_alt)
  have inv: "unat r < 15 \<Longrightarrow> ShaderVariant_ALL ! unat r = v \<longleftrightarrow> r = shader_raw v"
    by (metis raw_index_nth shader_variants_nth unat_shader_raw word_unat_eq_iff)
  show ?thesis
    using inv raw_index_bound [of v]
    by (auto simp: shader_from_raw_def length_shader_variants less unat_shader_raw shader_variants_nth)
qed

fun instr_units :: "ShaderMeta \<Rightarrow> u32" where
  "instr_units (Vertex m) = sp_vs_instr_size m"
| "instr_units (Fragment m) = sp_ps_instr_size m"

lemma slot_end: "shader_offset v + shader_size v =
   (if v = FsNv12VertexColor then 2176 else if v = FsNv12 then 1920 else 128 * (raw_index v + 1))"
  by (cases v) (simp_all add: shader_offset_def shader_size_value pack_sizes)

lemma slot_order: "raw_index v < raw_index w \<Longrightarrow> shader_offset v + shader_size v \<le> shader_offset w"
  by (cases v; cases w; simp add: shader_offset_def shader_size_value pack_sizes)

text \<open>The slots of the pack are aligned, lie inside the pack allocation and never overlap, and
the instruction count programmed into the hardware stays inside the program's slot.\<close>

theorem shader_slots_disjoint:
  "SHADER_ALIGNMENT dvd shader_offset v \<and>
   shader_offset v + shader_size v \<le> PACK_SIZE \<and>
   unat (instr_units (shader_meta v)) * SHADER_ALIGNMENT \<le> shader_size v \<and>
   (v = w \<or> shader_offset v + shader_size v \<le> shader_offset w \<or>
    shader_offset w + shader_size w \<le> shader_offset v)"
proof (intro conjI)
  show "SHADER_ALIGNMENT dvd shader_offset v"
    by (simp add: shader_offset_def)
  show "shader_offset v + shader_size v \<le> PACK_SIZE"
    by (cases v) (simp_all add: slot_end pack_sizes)
  show "unat (instr_units (shader_meta v)) * SHADER_ALIGNMENT \<le> shader_size v"
    by (cases v) (simp_all add: shader_size_value pack_sizes fragment_varying_def)
  show "v = w \<or> shader_offset v + shader_size v \<le> shader_offset w \<or>
    shader_offset w + shader_size w \<le> shader_offset v"
    using slot_order raw_index_inj by (metis nat_neq_iff)
qed

section \<open>Copying the pack\<close>

definition padded_program :: "ShaderVariant \<Rightarrow> u8 list" where
  "padded_program v = shader_bytes v @ replicate (shader_size v - length (shader_bytes v)) 0"

definition pack_image :: "ShaderVariant list \<Rightarrow> u8 list" where
  "pack_image vs = concat (map padded_program vs)"

lemma length_padded_program: "length (padded_program v) = shader_size v"
  using length_le_shader_size by (simp add: padded_program_def)

lemma copy_program_in_place:
  assumes "length xs = shader_offset v" "shader_size v \<le> length ys"
  shows "copy_program (xs @ ys) v = Ok (xs @ padded_program v @ drop (shader_size v) ys)"
  using assms length_le_shader_size [of v]
  by (simp add: copy_program_def put_bytes_def padded_program_def)

lemma copy_program_fits:
  assumes "PACK_SIZE \<le> length d"
  shows "copy_program d v = Ok (take (shader_offset v) d @ padded_program v @
           drop (shader_offset v + shader_size v) d)"
proof -
  have "shader_offset v + shader_size v \<le> PACK_SIZE"
    by (cases v) (simp_all add: slot_end pack_sizes)
  then have "shader_offset v \<le> length d" "shader_size v \<le> length (drop (shader_offset v) d)"
    using assms by simp_all
  then show ?thesis
    using copy_program_in_place [of "take (shader_offset v) d" v "drop (shader_offset v) d"]
    by (simp add: add.commute)
qed

interpretation copy_loop: checked_loop copy_program "\<lambda>d. PACK_SIZE \<le> length d" "\<lambda>v. True"
proof unfold_locales
  fix d :: "u8 list" and v t
  assume "PACK_SIZE \<le> length d" "copy_program d v = Ok t"
  moreover have "shader_offset v + shader_size v \<le> PACK_SIZE"
    by (cases v) (simp_all add: slot_end pack_sizes)
  ultimately show "PACK_SIZE \<le> length t"
    by (auto simp: copy_program_fits length_padded_program)
qed (simp add: copy_program_fits)

lemma pack_offsets: "n < 15 \<Longrightarrow>
  length (pack_image (take n ShaderVariant_ALL)) = shader_offset (ShaderVariant_ALL ! n)"
proof -
  assume "n < 15"
  then have "n \<in> set [0..<15]" by simp
  moreover have "\<forall>n\<in>set [0..<15].
      length (pack_image (take n ShaderVariant_ALL)) = shader_offset (ShaderVariant_ALL ! n)"
    by (simp add: ShaderVariant_ALL_def upt_rec pack_image_def length_padded_program
          shader_size_value shader_offset_def pack_sizes)
  ultimately show ?thesis by blast
qed

lemma copy_prefix:
  assumes "PACK_SIZE \<le> length d" "n \<le> 15"
  shows "foldM copy_program d (take n ShaderVariant_ALL) =
    Ok (pack_image (take n ShaderVariant_ALL) @
        drop (length (pack_image (take n ShaderVariant_ALL))) d)"
  using assms(2)
proof (induction n)
  case 0
  then show ?case by (simp add: pack_image_def)
next
  case (Suc n)
  let ?v = "ShaderVariant_ALL ! n" and ?xs = "pack_image (take n ShaderVariant_ALL)"
  have step: "take (Suc n) ShaderVariant_ALL = take n ShaderVariant_ALL @ [?v]"
    using Suc.prems by (simp add: take_Suc_conv_app_nth length_shader_variants)
  have off: "length ?xs = shader_offset ?v"
    using Suc.prems by (intro pack_offsets) simp
  have "shader_offset ?v + shader_size ?v \<le> PACK_SIZE"
    by (cases ?v) (simp_all add: slot_end pack_sizes)
  then have "copy_program (?xs @ drop (length ?xs) d) ?v =
      Ok (?xs @ padded_program ?v @ drop (shader_size ?v) (drop (length ?xs) d))"
    using off assms(1) by (intro copy_program_in_place) simp_all
  moreover have "pack_image (take n ShaderVariant_ALL @ [?v]) = ?xs @ padded_program ?v"
    by (simp add: pack_image_def)
  ultimately show ?case
    using Suc.IH Suc.prems
    by (simp add: step foldM_append length_padded_program add.commute)
qed

lemma length_pack_image: "length (pack_image ShaderVariant_ALL) = PACK_SIZE"
  by (simp add: ShaderVariant_ALL_def pack_image_def length_padded_program shader_size_value pack_sizes)

lemma copy_pack_value:
  "(copy_pack d :: (unit, bool \<times> u8 list) outcome) = (if length d < PACK_SIZE then Ok (False, d)
     else Ok (True, pack_image ShaderVariant_ALL @ drop PACK_SIZE d))"
proof (cases "length d < PACK_SIZE")
  case False
  have "take 15 ShaderVariant_ALL = ShaderVariant_ALL"
    by (simp add: length_shader_variants)
  then have "foldM copy_program d ShaderVariant_ALL =
      (Ok (pack_image ShaderVariant_ALL @ drop PACK_SIZE d) :: (unit, u8 list) outcome)"
    using False copy_prefix [of d 15] by (simp add: length_pack_image)
  then show ?thesis
    using False by (simp add: copy_pack_def)
qed (simp add: copy_pack_def)

lemma pack_image_split:
  "pack_image ShaderVariant_ALL = pack_image (take (raw_index v) ShaderVariant_ALL) @
     padded_program v @ pack_image (drop (Suc (raw_index v)) ShaderVariant_ALL)"
proof -
  have "ShaderVariant_ALL = take (raw_index v) ShaderVariant_ALL @ v #
      drop (Suc (raw_index v)) ShaderVariant_ALL"
    using raw_index_bound [of v] id_take_nth_drop [of "raw_index v" ShaderVariant_ALL]
    by (simp add: shader_variants_nth length_shader_variants)
  then show ?thesis
    by (metis (no_types, lifting) pack_image_def concat.simps(2) concat_append list.simps(9)
        map_append)
qed

text \<open>C17. Copying the pack never panics. A destination that is too small is left alone and the
call reports failure. Otherwise the call succeeds, the slot of every program holds exactly its
bytes followed by zeros, and nothing beyond the pack changes.\<close>

theorem copy_pack_places_programs:
  "\<exists>copied out. copy_pack d = Ok (copied, out) \<and> length out = length d \<and>
     (copied \<longleftrightarrow> PACK_SIZE \<le> length d) \<and>
     drop PACK_SIZE out = drop PACK_SIZE d \<and>
     (if copied then
        take (shader_size v) (drop (shader_offset v) out) =
          shader_bytes v @ replicate (shader_size v - length (shader_bytes v)) 0
      else out = d)"
proof (cases "length d < PACK_SIZE")
  case False
  have off: "length (pack_image (take (raw_index v) ShaderVariant_ALL)) = shader_offset v"
    using pack_offsets [OF raw_index_bound] by (simp add: shader_variants_nth)
  have "take (shader_size v) (drop (shader_offset v)
          (pack_image ShaderVariant_ALL @ drop PACK_SIZE d)) = padded_program v"
    by (subst pack_image_split [of v]) (simp add: off length_padded_program)
  moreover have "copy_pack d = Ok (True, pack_image ShaderVariant_ALL @ drop PACK_SIZE d)"
    using False by (simp add: copy_pack_value)
  ultimately show ?thesis
    using False by (intro exI [of _ True] exI [of _ "pack_image ShaderVariant_ALL @ drop PACK_SIZE d"])
      (simp_all add: length_pack_image padded_program_def)
next
  case True
  then show ?thesis
    by (intro exI [of _ False] exI [of _ d]) (simp add: copy_pack_value)
qed

section \<open>Pipelines\<close>

lemma pipeline_variants_complete: "set PipelineVariant_ALL = UNIV"
proof -
  have "p \<in> set PipelineVariant_ALL" for p
    by (cases p) (simp_all add: PipelineVariant_ALL_def)
  then show ?thesis by blast
qed

lemma pipeline_variants_distinct: "distinct PipelineVariant_ALL"
  by (simp add: PipelineVariant_ALL_def)

text \<open>Every pipeline links a vertex program to a fragment program. It fetches one attribute
(a fetch word and a step rate) for each destination of the vertex program, it samples exactly
when its fragment program preloads a texture, and its vertex stride is a positive multiple of
four bytes.\<close>

lemma pipeline_link_consistent:
  "is_vertex (link_vs (link_meta p)) \<and> \<not> is_vertex (link_fs (link_meta p)) \<and>
   (\<exists>vm fm. shader_meta (link_vs (link_meta p)) = Vertex vm \<and>
      shader_meta (link_fs (link_meta p)) = Fragment fm \<and>
      length (vfd_fetch (pipeline_state_meta p)) = 2 * length (vfd_dest_cntl vm) \<and>
      (uses_sampler (pipeline_state_meta p) \<longleftrightarrow> initial_tex_load_cmd fm \<noteq> []) \<and>
      length (lm_transfer_disable (link_meta p)) = 4 \<and>
      unat (stride (pipeline_state_meta p)) \<in> {16, 24, 28, 32, 40})"
  by (cases p) (simp_all add: link_def fixed_def fragment_varying_def POS2_def POS2_UV2_def POS4_def
    POS4_UV2_def POS4_COLOR3_def POS4_COLOR4_def POS4_COLOR4_UV2_def)

end
