(* ===== verification/Submit_Wire.thy ===== *)
theory Submit_Wire
  imports Shader_Pack
begin

text \<open>
  The submit wire format of \<^verbatim>\<open>src/shared/adreno-a6xx-submit-wire/src/lib.rs\<close>: the payload that
  userspace encodes and the kernel driver decodes. The definitions follow the source in its order;
  every slice access that could abort returns \<open>Panic\<close> when it is out of range. The lemmas about
  them are in \<open>Wire_Format\<close>.
\<close>

section \<open>Constants and data\<close>

definition MAGIC :: u32 where "MAGIC = from_le_bytes [0x41, 0x36, 0x58, 0x53]"
definition VERSION_MAJOR :: u16 where "VERSION_MAJOR = 1"
definition VERSION_MINOR :: u16 where "VERSION_MINOR = 1"
definition HEADER_SIZE :: usize where "HEADER_SIZE = 64"
definition RESOURCE_SIZE :: usize where "RESOURCE_SIZE = 32"
definition RELOCATION_SIZE :: usize where "RELOCATION_SIZE = 32"
definition MAX_SUBMIT_SIZE :: usize where "MAX_SUBMIT_SIZE = 2 * 1024 * 1024"
definition MAX_RESOURCES :: usize where "MAX_RESOURCES = 1024"
definition MAX_RELOCATIONS :: usize where "MAX_RELOCATIONS = 8192"
definition ACCESS_READ :: u32 where "ACCESS_READ = push_bit 0 1"
definition ACCESS_WRITE :: u32 where "ACCESS_WRITE = push_bit 1 1"
definition ACCESS_MASK :: u32 where "ACCESS_MASK = ACCESS_READ OR ACCESS_WRITE"

datatype wire_error =
    Overflow
  | InvalidSize
  | UnsupportedVersion
  | InvalidField
  | ReservedNotZero
  | InvalidTable
  | RelocationsNotSorted
  | RelocationOutOfBounds
  | NonZeroPlaceholder

record Resource =
  attachment_token :: u64
  range_offset :: u64
  range_size :: u64
  res_access :: u32

datatype AddressEncoding = GpuVa64 | GpuVa49TexDescriptor

fun encoding_raw :: "AddressEncoding \<Rightarrow> u16" where
  "encoding_raw GpuVa64 = 1"
| "encoding_raw GpuVa49TexDescriptor = 3"

definition encoding_from_raw :: "u16 \<Rightarrow> (wire_error, AddressEncoding) outcome" where
  "encoding_from_raw v =
     (if v = 1 then Ok GpuVa64 else if v = 3 then Ok GpuVa49TexDescriptor else Err InvalidField)"

fun word_count :: "AddressEncoding \<Rightarrow> u32" where
  "word_count GpuVa64 = 2"
| "word_count GpuVa49TexDescriptor = 2"

fun placeholder_is_valid :: "AddressEncoding \<Rightarrow> u32 list \<Rightarrow> bool" where
  "placeholder_is_valid GpuVa64 words = (words = [0, 0])"
| "placeholder_is_valid GpuVa49TexDescriptor words =
     (length words = 2 \<and> words ! 0 = 0 \<and> words ! 1 AND 0x1ffff = 0)"

datatype RelocationSource = Attachment u32 | CanonicalShader ShaderVariant

record Relocation =
  pm4_word_offset :: u32
  rel_source :: RelocationSource
  resource_offset :: u64
  required_size :: u64
  rel_access :: u32
  rel_encoding :: AddressEncoding

record Submit =
  sub_pm4 :: "u32 list"
  sub_resources :: "Resource list"
  sub_relocations :: "Relocation list"

record Layout =
  lay_total :: usize
  lay_pm4_offset :: usize
  lay_resources_offset :: usize
  lay_relocations_offset :: usize

section \<open>Table layout\<close>

definition align_up :: "usize \<Rightarrow> usize \<Rightarrow> (wire_error, usize) outcome" where
  "align_up val alignment =
     (case usize_checked_add val (alignment - 1) of
        Some v \<Rightarrow> Ok (unat ((of_nat v :: u64) AND NOT (of_nat (alignment - 1))))
      | None \<Rightarrow> Err Overflow)"

definition layout :: "usize \<Rightarrow> usize \<Rightarrow> usize \<Rightarrow> (wire_error, Layout) outcome" where
  "layout pm4_count resource_count relocation_count =
     (if pm4_count = 0 \<or> resource_count > MAX_RESOURCES \<or> relocation_count > MAX_RELOCATIONS
      then Err InvalidSize
      else
        andThen (ok_or (usize_checked_mul pm4_count 4) Overflow) (\<lambda>pm4_size.
        andThen (ok_or (usize_checked_mul resource_count RESOURCE_SIZE) Overflow) (\<lambda>resources_size.
        andThen (ok_or (usize_checked_mul relocation_count RELOCATION_SIZE) Overflow)
          (\<lambda>relocations_size.
        andThen (andThen (ok_or (usize_checked_add HEADER_SIZE pm4_size) Overflow)
                   (\<lambda>pm4_end. align_up pm4_end 8)) (\<lambda>resources_offset.
        andThen (ok_or (usize_checked_add resources_offset resources_size) Overflow)
          (\<lambda>relocations_offset.
        andThen (ok_or (usize_checked_add relocations_offset relocations_size) Overflow) (\<lambda>total.
        if total > MAX_SUBMIT_SIZE \<or> total > 0xffffffff then Err InvalidSize
        else Ok \<lparr>lay_total = total, lay_pm4_offset = HEADER_SIZE,
                 lay_resources_offset = resources_offset,
                 lay_relocations_offset = relocations_offset\<rparr>)))))))"

definition encoded_len_for_counts :: "usize \<Rightarrow> usize \<Rightarrow> usize \<Rightarrow> (wire_error, usize) outcome" where
  "encoded_len_for_counts pm4 resources relocations =
     andThen (layout pm4 resources relocations) (\<lambda>l. Ok (lay_total l))"

definition encoded_len :: "Submit \<Rightarrow> (wire_error, usize) outcome" where
  "encoded_len s =
     andThen (layout (length (sub_pm4 s)) (length (sub_resources s)) (length (sub_relocations s)))
       (\<lambda>l. Ok (lay_total l))"

section \<open>Little-endian accessors\<close>

definition put_u16 :: "u8 list \<Rightarrow> usize \<Rightarrow> u16 \<Rightarrow> (wire_error, u8 list) outcome" where
  "put_u16 output off v = put_bytes output off (to_le_bytes 2 v)"

definition put_u32 :: "u8 list \<Rightarrow> usize \<Rightarrow> u32 \<Rightarrow> (wire_error, u8 list) outcome" where
  "put_u32 output off v = put_bytes output off (to_le_bytes 4 v)"

definition put_u64 :: "u8 list \<Rightarrow> usize \<Rightarrow> u64 \<Rightarrow> (wire_error, u8 list) outcome" where
  "put_u64 output off v = put_bytes output off (to_le_bytes 8 v)"

text \<open>The array literal of the source indexes byte after byte.\<close>

definition get_bytes :: "u8 list \<Rightarrow> usize \<Rightarrow> usize \<Rightarrow> (wire_error, u8 list) outcome" where
  "get_bytes input off n = mapM (\<lambda>i. index input (off + i)) [0..<n]"

definition get_u16 :: "u8 list \<Rightarrow> usize \<Rightarrow> (wire_error, u16) outcome" where
  "get_u16 input off = andThen (get_bytes input off 2) (\<lambda>bs. Ok (from_le_bytes bs))"

definition get_u32 :: "u8 list \<Rightarrow> usize \<Rightarrow> (wire_error, u32) outcome" where
  "get_u32 input off = andThen (get_bytes input off 4) (\<lambda>bs. Ok (from_le_bytes bs))"

definition get_u64 :: "u8 list \<Rightarrow> usize \<Rightarrow> (wire_error, u64) outcome" where
  "get_u64 input off = andThen (get_bytes input off 8) (\<lambda>bs. Ok (from_le_bytes bs))"

section \<open>Record validation\<close>

definition validate_access :: "u32 \<Rightarrow> (wire_error, unit) outcome" where
  "validate_access access =
     (if access = 0 \<or> access AND NOT ACCESS_MASK \<noteq> 0 then Err InvalidField else Ok ())"

definition validate_resource :: "Resource \<Rightarrow> (wire_error, unit) outcome" where
  "validate_resource r =
     andThen (validate_access (res_access r)) (\<lambda>_.
       if attachment_token r = 0 \<or> range_size r = 0 \<or>
          checked_add (range_offset r) (range_size r) = None
       then Err InvalidField else Ok ())"

text \<open>The source match shared by encoding and decoding; \<open>lookup\<close> is the access to the resource
  table, which only \<open>decode\<close> can make fail.\<close>

definition validate_source ::
  "Relocation \<Rightarrow> (usize \<Rightarrow> (wire_error, Resource option) outcome) \<Rightarrow> (wire_error, unit) outcome" where
  "validate_source rel lookup =
     (case rel_source rel of
        Attachment resource_index \<Rightarrow>
          andThen (lookup (unat resource_index)) (\<lambda>found.
          andThen (ok_or found RelocationOutOfBounds) (\<lambda>resource.
          if rel_access rel AND NOT (res_access resource) \<noteq> 0 \<or> required_size rel = 0
          then Err RelocationOutOfBounds
          else andThen (ok_or (checked_add (resource_offset rel) (required_size rel)) Overflow)
            (\<lambda>range_end. if range_end > range_size resource then Err RelocationOutOfBounds
              else Ok ())))
      | CanonicalShader variant \<Rightarrow>
          if resource_offset rel \<noteq> 0 \<or> required_size rel \<noteq> of_nat (shader_size variant) \<or>
             rel_access rel \<noteq> ACCESS_READ \<or> rel_encoding rel \<noteq> GpuVa64
          then Err RelocationOutOfBounds else Ok ())"

definition previous_exceeds :: "u32 option \<Rightarrow> u32 \<Rightarrow> bool" where
  "previous_exceeds previous_end off =
     (case previous_end of Some previous \<Rightarrow> previous > off | None \<Rightarrow> False)"

definition validate_relocation ::
  "Relocation \<Rightarrow> u32 option \<Rightarrow> u32 list \<Rightarrow> Resource list \<Rightarrow> (wire_error, unit) outcome" where
  "validate_relocation rel previous_end pm4 resources =
     andThen (validate_access (rel_access rel)) (\<lambda>_.
     if previous_exceeds previous_end (pm4_word_offset rel) then Err RelocationsNotSorted
     else
       andThen (validate_source rel (\<lambda>i. Ok (get_at resources i))) (\<lambda>_.
       andThen (ok_or (checked_add (pm4_word_offset rel) (word_count (rel_encoding rel))) Overflow)
         (\<lambda>word_end.
       if unat word_end > length pm4 then Err RelocationOutOfBounds
       else
         andThen (slice pm4 (unat (pm4_word_offset rel)) (unat word_end)) (\<lambda>words.
         if \<not> placeholder_is_valid (rel_encoding rel) words then Err NonZeroPlaceholder
         else Ok ()))))"

section \<open>Encoding\<close>

text \<open>The loop body that checks one relocation and remembers where it ends.\<close>

definition encode_check ::
  "Submit \<Rightarrow> u32 option \<Rightarrow> Relocation \<Rightarrow> (wire_error, u32 option) outcome" where
  "encode_check s previous_end rel =
     andThen (validate_relocation rel previous_end (sub_pm4 s) (sub_resources s)) (\<lambda>_.
       Ok (checked_add (pm4_word_offset rel) (word_count (rel_encoding rel))))"

definition put_header :: "Layout \<Rightarrow> Submit \<Rightarrow> u8 list \<Rightarrow> (wire_error, u8 list) outcome" where
  "put_header l s output =
     andThen (put_u32 output 0 MAGIC) (\<lambda>o1.
     andThen (put_u16 o1 4 VERSION_MAJOR) (\<lambda>o2.
     andThen (put_u16 o2 6 VERSION_MINOR) (\<lambda>o3.
     andThen (put_u16 o3 8 (of_nat HEADER_SIZE)) (\<lambda>o4.
     andThen (put_u16 o4 10 0) (\<lambda>o5.
     andThen (put_u32 o5 12 (of_nat (lay_total l))) (\<lambda>o6.
     andThen (put_u32 o6 16 (of_nat (lay_pm4_offset l))) (\<lambda>o7.
     andThen (put_u32 o7 20 (of_nat (length (sub_pm4 s)))) (\<lambda>o8.
     andThen (put_u32 o8 24 (of_nat (lay_resources_offset l))) (\<lambda>o9.
     andThen (put_u32 o9 28 (of_nat (length (sub_resources s)))) (\<lambda>o10.
     andThen (put_u32 o10 32 (of_nat (lay_relocations_offset l))) (\<lambda>o11.
     put_u32 o11 36 (of_nat (length (sub_relocations s))))))))))))))"

definition put_resource :: "u8 list \<Rightarrow> usize \<Rightarrow> Resource \<Rightarrow> (wire_error, u8 list) outcome" where
  "put_resource output off r =
     andThen (put_u64 output off (attachment_token r)) (\<lambda>o1.
     andThen (put_u64 o1 (off + 8) (range_offset r)) (\<lambda>o2.
     andThen (put_u64 o2 (off + 16) (range_size r)) (\<lambda>o3.
     put_u32 o3 (off + 24) (res_access r))))"

fun source_fields :: "RelocationSource \<Rightarrow> u16 \<times> u32" where
  "source_fields (Attachment i) = (0, i)"
| "source_fields (CanonicalShader variant) = (1, ucast (shader_raw variant))"

definition put_relocation :: "u8 list \<Rightarrow> usize \<Rightarrow> Relocation \<Rightarrow> (wire_error, u8 list) outcome" where
  "put_relocation output off rel =
     (case source_fields (rel_source rel) of (source_kind, source_index) \<Rightarrow>
     andThen (put_u32 output off (pm4_word_offset rel)) (\<lambda>o1.
     andThen (put_u32 o1 (off + 4) source_index) (\<lambda>o2.
     andThen (put_u64 o2 (off + 8) (resource_offset rel)) (\<lambda>o3.
     andThen (put_u64 o3 (off + 16) (required_size rel)) (\<lambda>o4.
     andThen (put_u32 o4 (off + 24) (rel_access rel)) (\<lambda>o5.
     andThen (put_u16 o5 (off + 28) (encoding_raw (rel_encoding rel))) (\<lambda>o6.
     put_u16 o6 (off + 30) source_kind)))))))"

text \<open>A \<open>for (index, record) in records.iter().enumerate()\<close> loop that writes fixed-size records.\<close>

definition put_table ::
  "(u8 list \<Rightarrow> usize \<Rightarrow> 'r \<Rightarrow> (wire_error, u8 list) outcome) \<Rightarrow> usize \<Rightarrow> usize \<Rightarrow> 'r list \<Rightarrow>
   u8 list \<Rightarrow> (wire_error, u8 list) outcome" where
  "put_table put base rsize records output =
     foldM (\<lambda>out (i, r). put out (base + i * rsize) r) output (enumerate 0 records)"

definition encode :: "Submit \<Rightarrow> u8 list \<Rightarrow> (wire_error, u8 list) outcome" where
  "encode s output =
     andThen (layout (length (sub_pm4 s)) (length (sub_resources s)) (length (sub_relocations s)))
       (\<lambda>l.
     if length output \<noteq> lay_total l then Err InvalidSize
     else
       andThen (foldM (\<lambda>_ r. validate_resource r) () (sub_resources s)) (\<lambda>_.
       andThen (foldM (encode_check s) None (sub_relocations s)) (\<lambda>_.
       andThen (put_header l s (replicate (length output) 0)) (\<lambda>o1.
       andThen (put_table put_u32 (lay_pm4_offset l) 4 (sub_pm4 s) o1) (\<lambda>o2.
       andThen (put_table put_resource (lay_resources_offset l) RESOURCE_SIZE (sub_resources s) o2)
         (\<lambda>o3.
       put_table put_relocation (lay_relocations_offset l) RELOCATION_SIZE (sub_relocations s) o3))))))"

section \<open>Decoding\<close>

record DecodedSubmit =
  ds_bytes :: "u8 list"
  ds_layout :: Layout
  ds_pm4_count :: usize
  ds_resource_count :: usize
  ds_relocation_count :: usize

definition pm4_len :: "DecodedSubmit \<Rightarrow> usize" where "pm4_len d = ds_pm4_count d"

definition pm4_word :: "DecodedSubmit \<Rightarrow> usize \<Rightarrow> (wire_error, u32 option) outcome" where
  "pm4_word d i =
     (if i < ds_pm4_count d
      then andThen (get_u32 (ds_bytes d) (lay_pm4_offset (ds_layout d) + i * 4)) (\<lambda>w. Ok (Some w))
      else Ok None)"

definition resource_len :: "DecodedSubmit \<Rightarrow> usize" where "resource_len d = ds_resource_count d"

definition resource :: "DecodedSubmit \<Rightarrow> usize \<Rightarrow> (wire_error, Resource option) outcome" where
  "resource d i =
     (if i \<ge> ds_resource_count d then Ok None
      else
        let off = lay_resources_offset (ds_layout d) + i * RESOURCE_SIZE in
        andThen (get_u64 (ds_bytes d) off) (\<lambda>token.
        andThen (get_u64 (ds_bytes d) (off + 8)) (\<lambda>roff.
        andThen (get_u64 (ds_bytes d) (off + 16)) (\<lambda>rsize.
        andThen (get_u32 (ds_bytes d) (off + 24)) (\<lambda>access.
        Ok (Some \<lparr>attachment_token = token, range_offset = roff, range_size = rsize,
                  res_access = access\<rparr>))))))"

definition relocation_len :: "DecodedSubmit \<Rightarrow> usize" where
  "relocation_len d = ds_relocation_count d"

definition u16_try_from :: "u32 \<Rightarrow> u16 option" where
  "u16_try_from w = (if w \<le> 0xffff then Some (ucast w) else None)"

definition relocation_source_at ::
  "u8 list \<Rightarrow> usize \<Rightarrow> (wire_error, RelocationSource option) outcome" where
  "relocation_source_at bytes off =
     andThen (get_u16 bytes (off + 30)) (\<lambda>kind.
     if kind = 0 then andThen (get_u32 bytes (off + 4)) (\<lambda>i. Ok (Some (Attachment i)))
     else if kind = 1 then
       andThen (get_u16 bytes 6) (\<lambda>minor.
       if minor \<ge> 1 then
         andThen (get_u32 bytes (off + 4)) (\<lambda>raw.
         Ok (map_option CanonicalShader (Option.bind (u16_try_from raw) shader_from_raw)))
       else Ok None)
     else Ok None)"

definition relocation :: "DecodedSubmit \<Rightarrow> usize \<Rightarrow> (wire_error, Relocation option) outcome" where
  "relocation d i =
     (if i \<ge> ds_relocation_count d then Ok None
      else
        let off = lay_relocations_offset (ds_layout d) + i * RELOCATION_SIZE; bytes = ds_bytes d in
        andThen (relocation_source_at bytes off) (\<lambda>src. case src of None \<Rightarrow> Ok None | Some source \<Rightarrow>
        andThen (get_u32 bytes off) (\<lambda>word_offset.
        andThen (get_u64 bytes (off + 8)) (\<lambda>roff.
        andThen (get_u64 bytes (off + 16)) (\<lambda>rsize.
        andThen (get_u32 bytes (off + 24)) (\<lambda>access.
        andThen (get_u16 bytes (off + 28)) (\<lambda>raw.
        case encoding_from_raw raw of
          Ok enc \<Rightarrow> Ok (Some \<lparr>pm4_word_offset = word_offset, rel_source = source,
            resource_offset = roff, required_size = rsize, rel_access = access,
            rel_encoding = enc\<rparr>)
        | _ \<Rightarrow> Ok None)))))))"

definition decode_resource_step :: "DecodedSubmit \<Rightarrow> unit \<Rightarrow> usize \<Rightarrow> (wire_error, unit) outcome" where
  "decode_resource_step d _ i =
     (let off = lay_resources_offset (ds_layout d) + i * RESOURCE_SIZE in
      andThen (get_u32 (ds_bytes d) (off + 28)) (\<lambda>reserved.
      if reserved \<noteq> 0 then Err ReservedNotZero
      else andThen (resource d i) (\<lambda>found.
        andThen (ok_or found InvalidTable) validate_resource)))"

definition placeholder_words ::
  "DecodedSubmit \<Rightarrow> u32 \<Rightarrow> u32 \<Rightarrow> (wire_error, u32 list) outcome" where
  "placeholder_words d word_start word_end =
     foldM (\<lambda>ph (k, word).
        andThen (pm4_word d word) (\<lambda>found.
        andThen (ok_or found RelocationOutOfBounds) (\<lambda>v. Ok (ph[k := v]))))
       [0, 0] (zip [0..<2] [unat word_start..<unat word_end])"

definition decode_relocation_step ::
  "DecodedSubmit \<Rightarrow> u32 option \<Rightarrow> usize \<Rightarrow> (wire_error, u32 option) outcome" where
  "decode_relocation_step d previous_end i =
     andThen (relocation d i) (\<lambda>found.
     andThen (ok_or found InvalidField) (\<lambda>rel.
     andThen (validate_access (rel_access rel)) (\<lambda>_.
     if previous_exceeds previous_end (pm4_word_offset rel) then Err RelocationsNotSorted
     else
       andThen (validate_source rel (resource d)) (\<lambda>_.
       andThen (ok_or (checked_add (pm4_word_offset rel) (word_count (rel_encoding rel))) Overflow)
         (\<lambda>word_end.
       if unat word_end > ds_pm4_count d then Err RelocationOutOfBounds
       else
         andThen (placeholder_words d (pm4_word_offset rel) word_end) (\<lambda>placeholder.
         andThen (slice placeholder 0 (unat (word_count (rel_encoding rel)))) (\<lambda>words.
         if \<not> placeholder_is_valid (rel_encoding rel) words then Err NonZeroPlaceholder
         else Ok (Some word_end))))))))"

text \<open>The header checks before the table layout is known, in the order of the source.\<close>

definition decode_header_checks :: "u8 list \<Rightarrow> (wire_error, unit) outcome" where
  "decode_header_checks bytes =
     (if length bytes < HEADER_SIZE \<or> length bytes > MAX_SUBMIT_SIZE then Err InvalidSize
      else
        andThen (get_u32 bytes 0) (\<lambda>magic.
        andThen (get_u16 bytes 4) (\<lambda>major.
        if magic \<noteq> MAGIC \<or> major \<noteq> VERSION_MAJOR then Err UnsupportedVersion
        else
          andThen (get_u16 bytes 6) (\<lambda>minor.
          andThen (get_u16 bytes 8) (\<lambda>header_size.
          if minor > VERSION_MINOR \<or> unat header_size \<noteq> HEADER_SIZE then Err UnsupportedVersion
          else
            andThen (get_u16 bytes 10) (\<lambda>flags.
            andThen (slice bytes 40 HEADER_SIZE) (\<lambda>reserved.
            if flags \<noteq> 0 \<or> list_ex (\<lambda>b. b \<noteq> 0) reserved then Err ReservedNotZero
            else
              andThen (get_u32 bytes 12) (\<lambda>total.
              if unat total \<noteq> length bytes then Err InvalidSize else Ok ()))))))))"

definition decode :: "u8 list \<Rightarrow> (wire_error, DecodedSubmit) outcome" where
  "decode bytes =
     andThen (decode_header_checks bytes) (\<lambda>_.
     andThen (get_u32 bytes 16) (\<lambda>pm4_offset.
     andThen (get_u32 bytes 20) (\<lambda>pm4_count.
     andThen (get_u32 bytes 24) (\<lambda>resources_offset.
     andThen (get_u32 bytes 28) (\<lambda>resource_count.
     andThen (get_u32 bytes 32) (\<lambda>relocations_offset.
     andThen (get_u32 bytes 36) (\<lambda>relocation_count.
     andThen (layout (unat pm4_count) (unat resource_count) (unat relocation_count)) (\<lambda>expected.
     if unat pm4_offset \<noteq> lay_pm4_offset expected \<or>
        unat resources_offset \<noteq> lay_resources_offset expected \<or>
        unat relocations_offset \<noteq> lay_relocations_offset expected \<or>
        lay_total expected \<noteq> length bytes
     then Err InvalidTable
     else
       andThen (ok_or (usize_checked_mul (unat pm4_count) 4) Overflow) (\<lambda>pm4_size.
       andThen (ok_or (usize_checked_add (lay_pm4_offset expected) pm4_size) Overflow)
         (\<lambda>pm4_padding_start.
       andThen (slice bytes pm4_padding_start (lay_resources_offset expected)) (\<lambda>padding.
       if list_ex (\<lambda>b. b \<noteq> 0) padding then Err ReservedNotZero
       else
         let decoded = \<lparr>ds_bytes = bytes, ds_layout = expected, ds_pm4_count = unat pm4_count,
               ds_resource_count = unat resource_count,
               ds_relocation_count = unat relocation_count\<rparr> in
         andThen (foldM (decode_resource_step decoded) () [0..<unat resource_count]) (\<lambda>_.
         andThen (foldM (decode_relocation_step decoded) None [0..<unat relocation_count]) (\<lambda>_.
         Ok decoded)))))))))))))"

end
