(* ===== verification/A6xx_Layout.thy ===== *)
theory A6xx_Layout
  imports Rust_Bytes
begin

text \<open>
  The immutable image layouts of \<^verbatim>\<open>src/shared/adreno-a6xx-layout/src/lib.rs\<close>: layer-first linear
  textures with mip chains, and the single-level tiled depth layout. The lemmas read the checked
  word arithmetic as arithmetic on numbers and show that subresources are in bounds, disjoint and
  wide enough for their texels.
\<close>

section \<open>Definitions\<close>

definition IMAGE_MODIFIER_TILE6_3_DEPTH :: u64 where
  "IMAGE_MODIFIER_TILE6_3_DEPTH = from_le_bytes [0x41, 0x36, 0x44, 0x33, 0x54, 0x49, 0x4c, 0x45]"
definition IMAGE_MODIFIER_TILE6_3_COLOR :: u64 where
  "IMAGE_MODIFIER_TILE6_3_COLOR = from_le_bytes [0x41, 0x36, 0x43, 0x33, 0x54, 0x49, 0x4c, 0x45]"
definition TILE_MODE_3 :: u32 where "TILE_MODE_3 = 3"
definition DEPTH32_PITCH_ALIGNMENT :: u32 where "DEPTH32_PITCH_ALIGNMENT = 256"
definition DEPTH32_HEIGHT_ALIGNMENT :: u32 where "DEPTH32_HEIGHT_ALIGNMENT = 16"
definition DEPTH32_LAYER_ALIGNMENT :: u64 where "DEPTH32_LAYER_ALIGNMENT = 4096"

record Depth32Tile6Layout =
  d32_row_pitch :: u32
  d32_padded_height :: u32
  d32_layer_size :: u64

definition align_up_u32 :: "u32 \<Rightarrow> u32 \<Rightarrow> u32 option" where
  "align_up_u32 value alignment =
     (case checked_add value (alignment - 1) of
        Some v \<Rightarrow> Some (v AND NOT (alignment - 1))
      | None \<Rightarrow> None)"

definition align_up_u64 :: "u64 \<Rightarrow> u64 \<Rightarrow> u64 option" where
  "align_up_u64 value alignment =
     (case checked_add value (alignment - 1) of
        Some v \<Rightarrow> Some (v AND NOT (alignment - 1))
      | None \<Rightarrow> None)"

record LinearTextureLayout =
  tex_width :: u32
  tex_height :: u32
  mip_levels :: u32
  array_layers :: u32
  tex_row_pitch :: u32
  layer_stride :: u32
  total_size :: u64

record LinearSubresource =
  sub_offset :: u64
  sub_width :: u32
  sub_height :: u32
  sub_row_pitch :: u32
  sub_size :: u64

text \<open>\<open>u32::leading_zeros\<close> and \<open>u32::try_from(u64)\<close>.\<close>

definition leading_zeros :: "u32 \<Rightarrow> u32" where
  "leading_zeros w = of_nat (length (takeWhile (\<lambda>n. \<not> bit w n) (rev [0..<32])))"

definition u32_try_from :: "u64 \<Rightarrow> u32 option" where
  "u32_try_from x = (if unat x < 2 ^ 32 then Some (ucast x) else None)"

text \<open>The \<open>for level in 0..mip_levels\<close> loop of \<open>LinearTextureLayout::new\<close>, over the remaining levels.\<close>

fun chain_size_loop :: "u32 \<Rightarrow> u32 \<Rightarrow> u32 \<Rightarrow> nat list \<Rightarrow> u64 \<Rightarrow> u64 option" where
  "chain_size_loop row_pitch height levels [] chain_size = Some chain_size"
| "chain_size_loop row_pitch height levels (level # rest) chain_size =
     Option.bind (align_up_u32 (max (drop_bit level row_pitch) 1) 64) (\<lambda>pitch.
     Option.bind (if level = unat (levels - 1) then align_up_u32 (max (drop_bit level height) 1) 4
                  else Some (max (drop_bit level height) 1)) (\<lambda>rows.
     Option.bind (checked_add chain_size (ucast pitch * ucast rows)) (\<lambda>chain_size'.
     chain_size_loop row_pitch height levels rest chain_size')))"

definition texture_params_ok :: "u32 \<Rightarrow> u32 \<Rightarrow> u32 \<Rightarrow> u32 \<Rightarrow> bool" where
  "texture_params_ok width height levels layers \<longleftrightarrow>
     \<not> (width = 0 \<or> height = 0 \<or> width > 0x7fff \<or> height > 0x7fff \<or> levels = 0
        \<or> levels > 32 - leading_zeros (max width height) \<or> layers = 0 \<or> layers > 2048)"

definition linear_texture_new :: "u32 \<Rightarrow> u32 \<Rightarrow> u32 \<Rightarrow> u32 \<Rightarrow> LinearTextureLayout option" where
  "linear_texture_new width height levels layers =
     (if \<not> texture_params_ok width height levels layers then None
      else Option.bind (checked_mul width 4) (\<lambda>row_bytes.
        Option.bind (align_up_u32 row_bytes 64) (\<lambda>row_pitch.
        Option.bind (chain_size_loop row_pitch height levels [0..<unat levels] 0) (\<lambda>chain_size.
        Option.bind (align_up_u64 chain_size 4096) (\<lambda>aligned.
        Option.bind (u32_try_from aligned) (\<lambda>stride.
        Option.bind (checked_mul (ucast stride) (ucast layers)) (\<lambda>total.
        Some \<lparr>tex_width = width, tex_height = height, mip_levels = levels, array_layers = layers,
              tex_row_pitch = row_pitch, layer_stride = stride, total_size = total\<rparr>)))))))"

text \<open>The \<open>for level in 0..mip_level\<close> loop of \<open>subresource\<close>; its additions are not checked.\<close>

fun level_offset_loop :: "u32 \<Rightarrow> u32 \<Rightarrow> nat list \<Rightarrow> u64 \<Rightarrow> u64 option" where
  "level_offset_loop row_pitch height [] offset = Some offset"
| "level_offset_loop row_pitch height (level # rest) offset =
     Option.bind (align_up_u32 (max (drop_bit level row_pitch) 1) 64) (\<lambda>pitch.
     level_offset_loop row_pitch height rest
       (offset + ucast pitch * ucast (max (drop_bit level height) 1)))"

definition subresource :: "LinearTextureLayout \<Rightarrow> u32 \<Rightarrow> u32 \<Rightarrow> LinearSubresource option" where
  "subresource self mip_level array_layer =
     (if mip_level \<ge> mip_levels self \<or> array_layer \<ge> array_layers self then None
      else Option.bind (level_offset_loop (tex_row_pitch self) (tex_height self) [0..<unat mip_level]
                          (ucast array_layer * ucast (layer_stride self))) (\<lambda>offset.
        Option.bind (align_up_u32 (max (drop_bit (unat mip_level) (tex_row_pitch self)) 1) 64) (\<lambda>pitch.
        let height = max (drop_bit (unat mip_level) (tex_height self)) 1 in
        Some \<lparr>sub_offset = offset, sub_width = max (drop_bit (unat mip_level) (tex_width self)) 1,
              sub_height = height, sub_row_pitch = pitch, sub_size = ucast pitch * ucast height\<rparr>)))"

definition depth32_tile6_3_layout :: "u32 \<Rightarrow> u32 \<Rightarrow> Depth32Tile6Layout option" where
  "depth32_tile6_3_layout width height =
     (if width = 0 \<or> height = 0 then None
      else Option.bind (checked_mul width 4) (\<lambda>row_bytes.
        Option.bind (align_up_u32 row_bytes DEPTH32_PITCH_ALIGNMENT) (\<lambda>row_pitch.
        Option.bind (align_up_u32 height DEPTH32_HEIGHT_ALIGNMENT) (\<lambda>padded_height.
        Option.bind (checked_mul (ucast row_pitch) (ucast padded_height)) (\<lambda>unaligned_size.
        Option.bind (align_up_u64 unaligned_size DEPTH32_LAYER_ALIGNMENT) (\<lambda>layer_size.
        Some \<lparr>d32_row_pitch = row_pitch, d32_padded_height = padded_height,
              d32_layer_size = layer_size\<rparr>))))))"

definition is_depth32_tile6_3_layout :: "u32 \<Rightarrow> u32 \<Rightarrow> u32 \<Rightarrow> u64 \<Rightarrow> bool" where
  "is_depth32_tile6_3_layout width height row_pitch layer_size =
     (case depth32_tile6_3_layout width height of
        Some layout \<Rightarrow> d32_row_pitch layout = row_pitch \<and> d32_layer_size layout = layer_size
      | None \<Rightarrow> False)"

section \<open>Alignment\<close>

lemma word_minus_1_mask:
  fixes a :: "'w::len word"
  assumes "unat a = 2 ^ k"
  shows "a - 1 = mask k" "unat (a - 1) = 2 ^ k - 1" "k < LENGTH('w)"
proof -
  have "a \<noteq> 0" using assms by auto
  then show u: "unat (a - 1) = 2 ^ k - 1"
    using assms by (simp add: unat_minus_one)
  have "2 ^ k < (2 :: nat) ^ LENGTH('w)"
    using assms by (metis unsigned_less)
  then show k: "k < LENGTH('w)" by simp
  have "a = of_nat (unat a)" by simp
  also have "\<dots> = 2 ^ k" by (simp add: assms)
  finally show "a - 1 = mask k"
    by (simp add: mask_eq_exp_minus_1)
qed

lemma align_up_word:
  fixes v a :: "'w::len word"
  assumes "unat a = 2 ^ k"
  shows "checked_add v (a - 1) = Some s \<Longrightarrow>
      unat (s AND NOT (a - 1)) = (unat v + unat a - 1) div unat a * unat a"
    and "unat v + unat a \<le> 2 ^ LENGTH('w) \<Longrightarrow> \<exists>s. checked_add v (a - 1) = Some s"
proof -
  assume "checked_add v (a - 1) = Some s"
  then have "unat s = unat v + (2 ^ k - 1)"
    using word_minus_1_mask(2) [OF assms] by (simp add: checked_add_eq_Some)
  then show "unat (s AND NOT (a - 1)) = (unat v + unat a - 1) div unat a * unat a"
    by (simp add: word_minus_1_mask(1) [OF assms] unat_and_not_mask assms)
next
  have pos: "0 < (2 :: nat) ^ k" by simp
  assume "unat v + unat a \<le> 2 ^ LENGTH('w)"
  then have "unat v + unat (a - 1) < 2 ^ LENGTH('w)"
    using word_minus_1_mask(2) [OF assms] assms pos by linarith
  then show "\<exists>s. checked_add v (a - 1) = Some s"
    by (simp add: checked_add_def)
qed

interpretation al32: aligner align_up_u32 unat "2 ^ 32"
proof unfold_locales
  fix a v r :: u32 and k assume "unat a = 2 ^ k" "align_up_u32 v a = Some r"
  then show "unat r = (unat v + unat a - 1) div unat a * unat a"
    by (auto simp: align_up_u32_def align_up_word(1) split: option.splits)
next
  fix a v :: u32 and k assume "unat a = 2 ^ k" "unat v + unat a \<le> 2 ^ 32"
  then show "\<exists>r. align_up_u32 v a = Some r"
    using align_up_word(2) [of a k v] by (auto simp: align_up_u32_def)
qed

interpretation al64: aligner align_up_u64 unat "2 ^ 64"
proof unfold_locales
  fix a v r :: u64 and k assume "unat a = 2 ^ k" "align_up_u64 v a = Some r"
  then show "unat r = (unat v + unat a - 1) div unat a * unat a"
    by (auto simp: align_up_u64_def align_up_word(1) split: option.splits)
next
  fix a v :: u64 and k assume "unat a = 2 ^ k" "unat v + unat a \<le> 2 ^ 64"
  then show "\<exists>r. align_up_u64 v a = Some r"
    using align_up_word(2) [of a k v] by (auto simp: align_up_u64_def)
qed

section \<open>Word arithmetic read as numbers\<close>

lemma unat_max: "unat (max a b) = max (unat a) (unat (b :: 'w::len word))"
  by (simp add: max_def word_le_nat_alt)

lemma unat_mult_u32_u64: "unat (ucast (a :: u32) * ucast (b :: u32) :: u64) = unat a * unat b"
proof -
  have "unat a * unat b < 2 ^ 32 * 2 ^ 32"
    by (intro mult_strict_mono) (use unsigned_less [of a] unsigned_less [of b] in simp_all)
  then show ?thesis
    by (subst unat_mult_no_wrap) (simp_all add: unat_ucast_up)
qed

definition round_up :: "nat \<Rightarrow> nat \<Rightarrow> nat" where
  "round_up v a = (v + a - 1) div a * a"

definition level_pitch :: "nat \<Rightarrow> nat \<Rightarrow> nat" where
  "level_pitch row_pitch level = round_up (max (row_pitch div 2 ^ level) 1) 64"

definition level_rows :: "nat \<Rightarrow> nat \<Rightarrow> nat" where
  "level_rows height level = max (height div 2 ^ level) 1"

definition level_bytes :: "nat \<Rightarrow> nat \<Rightarrow> nat \<Rightarrow> nat" where
  "level_bytes row_pitch height level = level_pitch row_pitch level * level_rows height level"

lemma level_pitch_total:
  assumes "unat row_pitch \<le> 2 ^ 31"
  shows "\<exists>p. align_up_u32 (max (drop_bit level row_pitch) 1) 64 = Some p \<and>
    unat p = level_pitch (unat row_pitch) level"
proof -
  have a: "unat (64 :: u32) = 2 ^ 6" by simp
  have v: "unat (max (drop_bit level row_pitch) 1) = max (unat row_pitch div 2 ^ level) 1"
    by (simp add: unat_max unat_drop_bit)
  have "unat row_pitch div 2 ^ level \<le> 2 ^ 31"
    using assms div_le_dividend le_trans by blast
  with v have "unat (max (drop_bit level row_pitch) 1) + unat (64 :: u32) \<le> 2 ^ 32"
    by simp
  then obtain p where "align_up_u32 (max (drop_bit level row_pitch) 1) 64 = Some p"
    using al32.align_total [OF a] by blast
  then show ?thesis
    using al32.align_correct [OF a] v by (simp add: level_pitch_def round_up_def)
qed

lemma level_pitch_Some:
  "align_up_u32 (max (drop_bit level row_pitch) 1) 64 = Some p \<Longrightarrow>
    unat p = level_pitch (unat row_pitch) level"
  using al32.align_correct [of 64 6 "max (drop_bit level row_pitch) 1" p]
  by (simp add: unat_max unat_drop_bit level_pitch_def round_up_def)

lemma unat_level_rows: "unat (max (drop_bit level height) 1) = level_rows (unat height) level"
  by (simp add: unat_max unat_drop_bit level_rows_def)

lemma level_offset_loop_sum:
  assumes "unat row_pitch \<le> 2 ^ 31"
    and "unat offset + sum_list (map (level_bytes (unat row_pitch) (unat height)) ls) < 2 ^ 64"
  shows "\<exists>r. level_offset_loop row_pitch height ls offset = Some r \<and>
    unat r = unat offset + sum_list (map (level_bytes (unat row_pitch) (unat height)) ls)"
  using assms(2)
proof (induction ls arbitrary: offset)
  case Nil
  then show ?case by simp
next
  case (Cons l ls)
  obtain p where p: "align_up_u32 (max (drop_bit l row_pitch) 1) 64 = Some p"
      "unat p = level_pitch (unat row_pitch) l"
    using level_pitch_total [OF assms(1)] by blast
  let ?o = "offset + ucast p * ucast (max (drop_bit l height) 1)"
  have m: "unat (ucast p * ucast (max (drop_bit l height) 1) :: u64)
      = level_bytes (unat row_pitch) (unat height) l"
    by (simp only: unat_mult_u32_u64 unat_level_rows p(2) level_bytes_def)
  have "unat ?o = unat offset + level_bytes (unat row_pitch) (unat height) l"
    using Cons.prems m by (subst unat_add_no_wrap) simp_all
  with Cons.IH [of ?o] Cons.prems p show ?case
    by (simp add: add.assoc)
qed

lemma chain_size_loop_sum:
  assumes "chain_size_loop row_pitch height levels ls acc = Some r"
  shows "unat acc + sum_list (map (level_bytes (unat row_pitch) (unat height)) ls) \<le> unat r"
  using assms
proof (induction ls arbitrary: acc)
  case Nil
  then show ?case by simp
next
  case (Cons l ls)
  from Cons.prems obtain p rows acc' where
    p: "align_up_u32 (max (drop_bit l row_pitch) 1) 64 = Some p" and
    rows: "(if l = unat (levels - 1) then align_up_u32 (max (drop_bit l height) 1) 4
            else Some (max (drop_bit l height) 1)) = Some rows" and
    acc': "checked_add acc (ucast p * ucast rows) = Some acc'" and
    rest: "chain_size_loop row_pitch height levels ls acc' = Some r"
    unfolding chain_size_loop.simps bind_eq_Some_conv by blast
  have "level_rows (unat height) l \<le> unat rows"
  proof (cases "l = unat (levels - 1)")
    case True
    with rows have "align_up_u32 (max (drop_bit l height) 1) 4 = Some rows" by (simp only: simp_thms if_True)
    moreover have "unat (4 :: u32) = 2 ^ 2" by simp
    ultimately have "unat (max (drop_bit l height) 1) \<le> unat rows"
      using al32.align_ge by blast
    then show ?thesis by (simp only: unat_level_rows)
  next
    case False
    with rows have "max (drop_bit l height) 1 = rows" by (simp only: if_False option.inject)
    then show ?thesis by (simp only: unat_level_rows [symmetric] order_refl)
  qed
  then have "level_bytes (unat row_pitch) (unat height) l \<le> unat p * unat rows"
    by (simp add: level_bytes_def level_pitch_Some [OF p])
  moreover have "unat acc' = unat acc + unat p * unat rows"
    using checked_add_SomeD(1) [OF acc'] by (simp only: unat_mult_u32_u64)
  ultimately show ?case
    using Cons.IH [OF rest] by simp
qed


lemma u32_try_from_Some: "u32_try_from x = Some y \<Longrightarrow> unat y = unat x"
  using unat_ucast_small [of x, where 'b = 32] by (auto simp: u32_try_from_def split: if_splits)

section \<open>Linear textures\<close>

definition texture_wf :: "LinearTextureLayout \<Rightarrow> bool" where
  "texture_wf t \<longleftrightarrow>
     linear_texture_new (tex_width t) (tex_height t) (mip_levels t) (array_layers t) = Some t"

lemma linear_texture_new_wf: "linear_texture_new w h m a = Some t \<Longrightarrow> texture_wf t"
  by (auto simp: texture_wf_def linear_texture_new_def bind_eq_Some_conv split: if_splits)

lemma texture_params:
  assumes "texture_wf t"
  shows "texture_params_ok (tex_width t) (tex_height t) (mip_levels t) (array_layers t)"
  using assms by (auto simp: texture_wf_def linear_texture_new_def split: if_splits)

lemma texture_row_pitch:
  assumes "texture_wf t"
  shows "unat (tex_row_pitch t) = round_up (4 * unat (tex_width t)) 64"
    and "unat (tex_row_pitch t) \<le> 2 ^ 31"
proof -
  from assms obtain b where b: "checked_mul (tex_width t) 4 = Some b"
      "align_up_u32 b 64 = Some (tex_row_pitch t)"
    by (cases t) (auto simp: texture_wf_def linear_texture_new_def bind_eq_Some_conv split: if_splits)
  have "unat b = 4 * unat (tex_width t)"
    using checked_mul_SomeD(1) [OF b(1)] by simp
  with al32.align_correct [of 64 6, OF _ b(2)]
  show *: "unat (tex_row_pitch t) = round_up (4 * unat (tex_width t)) 64"
    by (simp add: round_up_def)
  have "unat (tex_width t) \<le> 0x7fff"
    using texture_params [OF assms] by (simp add: texture_params_ok_def word_less_nat_alt not_less)
  moreover have "round_up (4 * unat (tex_width t)) 64 < 4 * unat (tex_width t) + 64"
    using round_up_bounds(2) [of 64] by (simp add: round_up_def)
  ultimately show "unat (tex_row_pitch t) \<le> 2 ^ 31"
    unfolding * by simp
qed

lemma texture_stride:
  assumes "texture_wf t"
  shows "sum_list (map (level_bytes (unat (tex_row_pitch t)) (unat (tex_height t))) [0..<unat (mip_levels t)])
      \<le> unat (layer_stride t)"
    and "unat (total_size t) = unat (layer_stride t) * unat (array_layers t)"
    and "4096 dvd unat (layer_stride t)"
proof -
  from assms obtain c al where c:
      "chain_size_loop (tex_row_pitch t) (tex_height t) (mip_levels t) [0..<unat (mip_levels t)] 0 = Some c"
      "align_up_u64 c 4096 = Some al" "u32_try_from al = Some (layer_stride t)"
      "checked_mul (ucast (layer_stride t)) (ucast (array_layers t)) = Some (total_size t)"
    by (cases t) (auto simp: texture_wf_def linear_texture_new_def bind_eq_Some_conv split: if_splits)
  have st: "unat (layer_stride t) = unat al"
    using c(3) by (rule u32_try_from_Some)
  have k: "unat (4096 :: u64) = 2 ^ 12" by simp
  show "sum_list (map (level_bytes (unat (tex_row_pitch t)) (unat (tex_height t))) [0..<unat (mip_levels t)])
      \<le> unat (layer_stride t)"
    using chain_size_loop_sum [OF c(1)] al64.align_ge [OF k c(2)] st by simp
  show "4096 dvd unat (layer_stride t)"
    using al64.align_dvd [OF k c(2)] st by simp
  show "unat (total_size t) = unat (layer_stride t) * unat (array_layers t)"
    using checked_mul_SomeD(1) [OF c(4)] by (simp add: unat_ucast_up)
qed

lemma level_pitch_ge: "64 \<le> level_pitch p l"
proof -
  have "1 \<le> level_pitch p l" "64 dvd level_pitch p l"
    using round_up_bounds(1) [of 64 "max (p div 2 ^ l) 1"] by (simp_all add: level_pitch_def round_up_def)
  then show ?thesis
    by (auto elim!: dvdE)
qed

definition level_start :: "LinearTextureLayout \<Rightarrow> nat \<Rightarrow> nat" where
  "level_start t l = sum_list (map (level_bytes (unat (tex_row_pitch t)) (unat (tex_height t))) [0..<l])"

lemma level_start_Suc:
  "level_start t (Suc l) = level_start t l + level_bytes (unat (tex_row_pitch t)) (unat (tex_height t)) l"
  by (simp add: level_start_def)

lemma level_start_mono: "l \<le> m \<Longrightarrow> level_start t l \<le> level_start t m"
  by (rule lift_Suc_mono_le [of "level_start t"]) (simp_all add: level_start_Suc)

lemma level_start_stride: "texture_wf t \<Longrightarrow> level_start t (unat (mip_levels t)) \<le> unat (layer_stride t)"
  using texture_stride(1) by (simp add: level_start_def)

lemma layer_fits:
  assumes "texture_wf t" "a < array_layers t"
  shows "(unat a + 1) * unat (layer_stride t) \<le> unat (total_size t)"
    and "(unat a + 1) * unat (layer_stride t) < 2 ^ 64"
proof -
  have "unat a + 1 \<le> unat (array_layers t)"
    using assms(2) by (simp add: word_less_nat_alt)
  then show *: "(unat a + 1) * unat (layer_stride t) \<le> unat (total_size t)"
    unfolding texture_stride(2) [OF assms(1)] mult.commute [of "unat (layer_stride t)"]
    by (rule mult_le_mono1)
  show "(unat a + 1) * unat (layer_stride t) < 2 ^ 64"
    using * unat_u64_bound [of "total_size t"] by linarith
qed

lemma subresource_value:
  assumes wf: "texture_wf t" and l: "l < mip_levels t" and a: "a < array_layers t"
  obtains s where "subresource t l a = Some s"
    and "unat (sub_offset s) = unat a * unat (layer_stride t) + level_start t (unat l)"
    and "unat (sub_size s) = level_bytes (unat (tex_row_pitch t)) (unat (tex_height t)) (unat l)"
    and "unat (sub_row_pitch s) = level_pitch (unat (tex_row_pitch t)) (unat l)"
    and "unat (sub_width s) = max (unat (tex_width t) div 2 ^ unat l) 1"
proof -
  let ?rp = "tex_row_pitch t" and ?h = "tex_height t"
  have base: "unat (ucast a * ucast (layer_stride t) :: u64) = unat a * unat (layer_stride t)"
    by (rule unat_mult_u32_u64)
  have "level_start t (unat l) \<le> unat (layer_stride t)"
    using level_start_mono [of "unat l" "unat (mip_levels t)" t] level_start_stride [OF wf] l
    by (simp add: word_less_nat_alt)
  then have "unat a * unat (layer_stride t) + level_start t (unat l) < 2 ^ 64"
    using layer_fits(2) [OF wf a] by simp
  then obtain off where off: "level_offset_loop ?rp ?h [0..<unat l] (ucast a * ucast (layer_stride t)) = Some off"
      "unat off = unat a * unat (layer_stride t) + level_start t (unat l)"
    using level_offset_loop_sum [OF texture_row_pitch(2) [OF wf],
        of "ucast a * ucast (layer_stride t)" ?h "[0..<unat l]"] base
    by (auto simp: level_start_def)
  obtain p where p: "align_up_u32 (max (drop_bit (unat l) ?rp) 1) 64 = Some p"
      "unat p = level_pitch (unat ?rp) (unat l)"
    using level_pitch_total [OF texture_row_pitch(2) [OF wf]] by blast
  have sz: "unat (ucast p * ucast (max (drop_bit (unat l) ?h) 1) :: u64)
      = level_bytes (unat ?rp) (unat ?h) (unat l)"
    by (simp only: unat_mult_u32_u64 unat_level_rows p(2) level_bytes_def)
  have w: "unat (max (drop_bit (unat l) (tex_width t)) 1) = max (unat (tex_width t) div 2 ^ unat l) 1"
    by (simp add: unat_max unat_drop_bit)
  let ?s = "\<lparr>sub_offset = off, sub_width = max (drop_bit (unat l) (tex_width t)) 1,
      sub_height = max (drop_bit (unat l) ?h) 1, sub_row_pitch = p,
      sub_size = ucast p * ucast (max (drop_bit (unat l) ?h) 1)\<rparr>"
  have "subresource t l a = Some ?s"
    using l a off(1) p(1) by (simp add: subresource_def not_le Let_def)
  then show thesis
    by (rule that) (simp_all only: LinearSubresource.simps off(2) sz p(2) w)
qed


lemma subresource_defined:
  assumes "linear_texture_new width height levels layers = Some t"
  shows "(\<exists>s. subresource t l a = Some s) \<longleftrightarrow> l < levels \<and> a < layers"
proof -
  have t: "mip_levels t = levels" "array_layers t = layers"
    using assms by (auto simp: linear_texture_new_def bind_eq_Some_conv split: if_splits)
  have "subresource t l a = None" if "\<not> (l < levels \<and> a < layers)"
    using that by (auto simp: subresource_def t)
  then show ?thesis
    using subresource_value [OF linear_texture_new_wf [OF assms], of l a] t
    by (metis option.distinct(1))
qed

lemma subresource_position:
  assumes "linear_texture_new width height levels layers = Some t" "subresource t l a = Some s"
  shows "unat (sub_offset s) = unat a * unat (layer_stride t) + level_start t (unat l)"
    and "unat (sub_size s) = level_bytes (unat (tex_row_pitch t)) (unat (tex_height t)) (unat l)"
    and "unat (sub_row_pitch s) = level_pitch (unat (tex_row_pitch t)) (unat l)"
    and "unat (sub_width s) = max (unat (tex_width t) div 2 ^ unat l) 1"
    and "unat (sub_size s) = unat (sub_row_pitch s) * unat (sub_height s)"
    and "level_start t (Suc (unat l)) \<le> unat (layer_stride t)"
    and "(unat a + 1) * unat (layer_stride t) \<le> unat (total_size t)"
proof -
  have wf: "texture_wf t"
    using assms(1) by (rule linear_texture_new_wf)
  have la: "l < mip_levels t" "a < array_layers t"
    using assms(2) by (auto simp: subresource_def not_le split: if_splits)
  show "unat (sub_offset s) = unat a * unat (layer_stride t) + level_start t (unat l)"
    and sz: "unat (sub_size s) = level_bytes (unat (tex_row_pitch t)) (unat (tex_height t)) (unat l)"
    and rp: "unat (sub_row_pitch s) = level_pitch (unat (tex_row_pitch t)) (unat l)"
    and "unat (sub_width s) = max (unat (tex_width t) div 2 ^ unat l) 1"
    using subresource_value [OF wf la] assms(2) by auto
  have "sub_height s = max (drop_bit (unat l) (tex_height t)) 1"
    using assms(2) by (auto simp: subresource_def bind_eq_Some_conv Let_def split: if_splits)
  then show "unat (sub_size s) = unat (sub_row_pitch s) * unat (sub_height s)"
    using sz rp by (simp only: level_bytes_def unat_level_rows)
  show "level_start t (Suc (unat l)) \<le> unat (layer_stride t)"
    using level_start_mono [of "Suc (unat l)" "unat (mip_levels t)" t] level_start_stride [OF wf] la
    by (simp add: word_less_nat_alt)
  show "(unat a + 1) * unat (layer_stride t) \<le> unat (total_size t)"
    using layer_fits(1) [OF wf la(2)] .
qed

lemma subresource_bounds:
  assumes "linear_texture_new width height levels layers = Some t" "subresource t l a = Some s"
  shows "unat a * unat (layer_stride t) \<le> unat (sub_offset s) \<and>
      unat (sub_offset s) + unat (sub_size s) \<le> (unat a + 1) * unat (layer_stride t) \<and>
      (unat a + 1) * unat (layer_stride t) \<le> unat (total_size t)"
  using subresource_position [OF assms] by (simp add: level_start_Suc)

lemmas layout_eval = linear_texture_new_def texture_params_ok_def leading_zeros_def subresource_def
  checked_mul_def checked_add_def align_up_u32_def align_up_u64_def u32_try_from_def upt_rec
  word_le_nat_alt

section \<open>Properties\<close>

text \<open>Linear texture layouts are in bounds: for a layout built by the constructor, every selectable
  mip level and array layer has a subresource, its byte range lies inside that layer's stride, and
  the layer lies inside the image. No addition of the unchecked loop wraps.\<close>

theorem subresource_in_bounds:
  assumes "linear_texture_new width height levels layers = Some t"
  shows "((\<exists>s. subresource t l a = Some s) \<longleftrightarrow> l < levels \<and> a < layers) \<and>
    (\<forall>s. subresource t l a = Some s \<longrightarrow>
      unat a * unat (layer_stride t) \<le> unat (sub_offset s) \<and>
      unat (sub_offset s) + unat (sub_size s) \<le> (unat a + 1) * unat (layer_stride t) \<and>
      (unat a + 1) * unat (layer_stride t) \<le> unat (total_size t))"
  using subresource_defined [OF assms] subresource_bounds [OF assms] by blast

theorem subresource_in_bounds_witness:
  "\<exists>t s. linear_texture_new 65 17 4 6 = Some t \<and> subresource t 1 5 = Some s \<and>
     unat (sub_offset s) = 46400 \<and> unat (total_size t) = 49152 \<and>
     unat (sub_offset s) + unat (sub_size s) \<le> unat (total_size t)"
proof -
  let ?t = "\<lparr>tex_width = 65, tex_height = 17, mip_levels = 4, array_layers = 6,
      tex_row_pitch = 320, layer_stride = 8192, total_size = 49152\<rparr>"
  have t: "linear_texture_new 65 17 4 6 = Some ?t"
    by (simp add: layout_eval)
  have s: "subresource ?t 1 5 = Some \<lparr>sub_offset = 46400, sub_width = 32, sub_height = 8,
      sub_row_pitch = 192, sub_size = 1536\<rparr>"
    by (simp add: layout_eval)
  show ?thesis
    using subresource_in_bounds [OF t, of 1 5] s t by auto
qed

text \<open>C16. Subresources do not overlap: the byte ranges of two different mip levels or array layers of
  one layout are disjoint.\<close>

theorem subresources_disjoint:
  assumes "linear_texture_new width height levels layers = Some t"
    and "subresource t l a = Some s" "subresource t l' a' = Some s'" "(l, a) \<noteq> (l', a')"
  shows "unat (sub_offset s) + unat (sub_size s) \<le> unat (sub_offset s') \<or>
    unat (sub_offset s') + unat (sub_size s') \<le> unat (sub_offset s)"
proof (cases "a = a'")
  case False
  then consider "unat a + 1 \<le> unat a'" | "unat a' + 1 \<le> unat a"
    by (metis Suc_eq_plus1 less_eq_Suc_le nat_neq_iff word_unat_eq_iff)
  then show ?thesis
    using subresource_bounds [OF assms(1,2)] subresource_bounds [OF assms(1,3)]
    by cases (meson le_trans mult_le_mono1)+
next
  case True
  with assms(4) consider "Suc (unat l) \<le> unat l'" | "Suc (unat l') \<le> unat l"
    by (metis less_eq_Suc_le nat_neq_iff word_unat_eq_iff)
  then show ?thesis
    using subresource_position [OF assms(1,2)] subresource_position [OF assms(1,3)] True
      level_start_mono [of "Suc (unat l)" "unat l'" t] level_start_mono [of "Suc (unat l')" "unat l" t]
    by cases (simp_all add: level_start_Suc)
qed

theorem subresources_disjoint_witness:
  "\<exists>t s s'. linear_texture_new 65 17 4 6 = Some t \<and> subresource t 0 0 = Some s \<and>
     subresource t 1 0 = Some s' \<and> unat (sub_size s) = 5440 \<and> unat (sub_offset s') = 5440 \<and>
     (unat (sub_offset s) + unat (sub_size s) \<le> unat (sub_offset s') \<or>
      unat (sub_offset s') + unat (sub_size s') \<le> unat (sub_offset s))"
proof -
  let ?t = "\<lparr>tex_width = 65, tex_height = 17, mip_levels = 4, array_layers = 6,
      tex_row_pitch = 320, layer_stride = 8192, total_size = 49152\<rparr>"
  have t: "linear_texture_new 65 17 4 6 = Some ?t"
    by (simp add: layout_eval)
  have s: "subresource ?t 0 0 = Some \<lparr>sub_offset = 0, sub_width = 65, sub_height = 17,
      sub_row_pitch = 320, sub_size = 5440\<rparr>"
    by (simp add: layout_eval)
  have s': "subresource ?t 1 0 = Some \<lparr>sub_offset = 5440, sub_width = 32, sub_height = 8,
      sub_row_pitch = 192, sub_size = 1536\<rparr>"
    by (simp add: layout_eval)
  show ?thesis
    using subresources_disjoint [OF t s s'] s s' t by auto
qed

text \<open>Every row of a subresource holds its texels: four bytes per texel fit in the row pitch at
  every mip level, and the subresource is exactly its rows.\<close>

lemma subresource_rows_fit:
  assumes "linear_texture_new width height levels layers = Some t" "subresource t l a = Some s"
  shows "4 * unat (sub_width s) \<le> unat (sub_row_pitch s) \<and>
    unat (sub_size s) = unat (sub_row_pitch s) * unat (sub_height s)"
proof -
  have wf: "texture_wf t"
    using assms(1) by (rule linear_texture_new_wf)
  let ?w = "unat (tex_width t)" and ?l = "unat l"
  have "4 * (?w div 2 ^ ?l) \<le> 4 * ?w div 2 ^ ?l"
    by (simp add: less_eq_div_iff_mult_less_eq)
  also have "\<dots> \<le> unat (tex_row_pitch t) div 2 ^ ?l"
    using round_up_bounds(1) [of 64 "4 * ?w"] texture_row_pitch(1) [OF wf]
    by (intro div_le_mono) (simp add: round_up_def)
  also have "\<dots> \<le> level_pitch (unat (tex_row_pitch t)) ?l"
    using round_up_bounds(1) [of 64 "max (unat (tex_row_pitch t) div 2 ^ ?l) 1"]
    by (simp add: level_pitch_def round_up_def)
  finally have "4 * max (?w div 2 ^ ?l) 1 \<le> level_pitch (unat (tex_row_pitch t)) ?l"
    using level_pitch_ge [of "unat (tex_row_pitch t)" ?l] by (simp add: max_def)
  then show ?thesis
    using subresource_position [OF assms] by simp
qed

theorem subresource_rows_fit_witness:
  "\<exists>t s. linear_texture_new 65 17 4 6 = Some t \<and> subresource t 3 0 = Some s \<and>
     4 * unat (sub_width s) \<le> unat (sub_row_pitch s) \<and> unat (sub_row_pitch s) = 64 \<and>
     unat (sub_size s) = unat (sub_row_pitch s) * unat (sub_height s)"
proof -
  let ?t = "\<lparr>tex_width = 65, tex_height = 17, mip_levels = 4, array_layers = 6,
      tex_row_pitch = 320, layer_stride = 8192, total_size = 49152\<rparr>"
  have t: "linear_texture_new 65 17 4 6 = Some ?t"
    by (simp add: layout_eval)
  have s: "subresource ?t 3 0 = Some \<lparr>sub_offset = 7488, sub_width = 8, sub_height = 2,
      sub_row_pitch = 64, sub_size = 128\<rparr>"
    by (simp add: layout_eval)
  show ?thesis
    using subresource_rows_fit [OF t s] s t by auto
qed

lemma depth32_layoutD:
  assumes "depth32_tile6_3_layout w h = Some d"
  shows "unat (d32_row_pitch d) = round_up (4 * unat w) 256"
    and "unat (d32_padded_height d) = round_up (unat h) 16"
    and "unat (d32_layer_size d) = round_up (unat (d32_row_pitch d) * unat (d32_padded_height d)) 4096"
    and "0 < unat w" "0 < unat h"
proof -
  from assms obtain b sz where b: "checked_mul w 4 = Some b" "align_up_u32 b 256 = Some (d32_row_pitch d)"
      "align_up_u32 h 16 = Some (d32_padded_height d)"
      "checked_mul (ucast (d32_row_pitch d)) (ucast (d32_padded_height d)) = Some sz"
      "align_up_u64 sz 4096 = Some (d32_layer_size d)" and "w \<noteq> 0" "h \<noteq> 0"
    by (auto simp: depth32_tile6_3_layout_def bind_eq_Some_conv DEPTH32_PITCH_ALIGNMENT_def
        DEPTH32_HEIGHT_ALIGNMENT_def DEPTH32_LAYER_ALIGNMENT_def split: if_splits)
  then show "0 < unat w" "0 < unat h"
    by (simp_all add: unat_gt_0)
  have "unat b = 4 * unat w" "unat sz = unat (d32_row_pitch d) * unat (d32_padded_height d)"
    using checked_mul_SomeD(1) [OF b(1)] checked_mul_SomeD(1) [OF b(4)] by (simp_all add: unat_ucast_up)
  then show "unat (d32_row_pitch d) = round_up (4 * unat w) 256"
    and "unat (d32_padded_height d) = round_up (unat h) 16"
    and "unat (d32_layer_size d) = round_up (unat (d32_row_pitch d) * unat (d32_padded_height d)) 4096"
    using al32.align_correct [of 256 8, OF _ b(2)] al32.align_correct [of 16 4, OF _ b(3)]
      al64.align_correct [of 4096 12, OF _ b(5)] by (simp_all add: round_up_def)
qed

lemma round_up_facts:
  assumes "0 < a"
  shows "v \<le> round_up v a" "round_up v a < v + a" "a dvd round_up v a"
  using round_up_bounds [OF assms, of v] by (simp_all add: round_up_def)

text \<open>The tiled depth layout: whenever the layout exists, a row holds its four-byte samples, the
  padded height covers the image, and the layer is the smallest whole number of pages that holds
  the padded rows, so in particular it is never empty; metadata is accepted exactly when it is this
  layout's pitch and size.\<close>

theorem depth32_layout_covers:
  assumes "depth32_tile6_3_layout w h = Some d"
  shows "4 * unat w \<le> unat (d32_row_pitch d) \<and> 256 dvd unat (d32_row_pitch d) \<and>
    unat h \<le> unat (d32_padded_height d) \<and> 16 dvd unat (d32_padded_height d) \<and>
    unat (d32_row_pitch d) * unat (d32_padded_height d) \<le> unat (d32_layer_size d) \<and>
    unat (d32_layer_size d) < unat (d32_row_pitch d) * unat (d32_padded_height d) + 4096 \<and>
    4096 dvd unat (d32_layer_size d) \<and> 0 < unat (d32_layer_size d) \<and>
    (is_depth32_tile6_3_layout w h rp sz \<longleftrightarrow> rp = d32_row_pitch d \<and> sz = d32_layer_size d)"
proof -
  note D = depth32_layoutD [OF assms]
  have "0 < unat (d32_row_pitch d)" "0 < unat (d32_padded_height d)"
    using D(4,5) round_up_facts(1) [of 256 "4 * unat w"] round_up_facts(1) [of 16 "unat h"]
    by (simp_all add: D(1,2))
  then have "0 < unat (d32_row_pitch d) * unat (d32_padded_height d)"
    by simp
  then have "0 < unat (d32_layer_size d)"
    using round_up_facts(1) [of 4096] unfolding D(3) by (metis less_le_trans zero_less_numeral)
  then show ?thesis
    using round_up_facts [of 256 "4 * unat w"] round_up_facts [of 16 "unat h"]
      round_up_facts [of 4096 "unat (d32_row_pitch d) * unat (d32_padded_height d)"] assms
    by (auto simp: D(1,2) D(3) is_depth32_tile6_3_layout_def)
qed

theorem depth32_layout_covers_witness:
  "\<exists>d. depth32_tile6_3_layout 2200 1520 = Some d \<and> unat (d32_layer_size d) = 13619200 \<and>
     unat (d32_row_pitch d) * unat (d32_padded_height d) \<le> unat (d32_layer_size d)"
proof -
  have d: "depth32_tile6_3_layout 2200 1520 = Some \<lparr>d32_row_pitch = 8960, d32_padded_height = 1520,
      d32_layer_size = 13619200\<rparr>"
    by (simp add: depth32_tile6_3_layout_def layout_eval DEPTH32_PITCH_ALIGNMENT_def
        DEPTH32_HEIGHT_ALIGNMENT_def DEPTH32_LAYER_ALIGNMENT_def)
  show ?thesis
    using depth32_layout_covers [OF d, of 0 0] d by auto
qed

end
