(* ===== verification/Rust_F32.thy ===== *)
theory Rust_F32
  imports Rust_Bytes
begin

text \<open>
  The part of Rust's \<open>f32\<close> (IEEE 754 binary32) that the command validator uses: reading a bit
  pattern, finiteness, absolute value, addition and subtraction rounded to nearest even, the
  comparisons, and the conversion from \<open>u32\<close>. A finite value is an integer multiple of the smallest
  subnormal, two to the power of minus 149; the sign of zero is not kept, since none of these
  operations and comparisons lets the validator see it.
\<close>

section \<open>Values\<close>

datatype f32 = NaN | Inf bool | Fin int

text \<open>Sign, exponent and fraction of a bit pattern.\<close>

definition f32_from_bits :: "u32 \<Rightarrow> f32" where
  "f32_from_bits w =
     (let negative = bit w 31;
          expo = unat (drop_bit 23 w AND 0xff);
          frac = int (unat (w AND 0x7fffff));
          mag = (if expo = 0 then frac else (frac + 2 ^ 23) * 2 ^ (expo - 1))
      in if expo = 255 then (if frac = 0 then Inf negative else NaN)
         else Fin (if negative then - mag else mag))"

fun f32_is_finite :: "f32 \<Rightarrow> bool" where
  "f32_is_finite (Fin x) = True"
| "f32_is_finite _ = False"

fun f32_abs :: "f32 \<Rightarrow> f32" where
  "f32_abs (Fin x) = Fin \<bar>x\<bar>"
| "f32_abs (Inf s) = Inf False"
| "f32_abs NaN = NaN"

section \<open>Rounding\<close>

text \<open>Number of binary digits of a natural number.\<close>

fun bit_len :: "nat \<Rightarrow> nat" where
  "bit_len n = (if n = 0 then 0 else Suc (bit_len (n div 2)))"

declare bit_len.simps [simp del]

text \<open>Rounding a magnitude to 24 significant bits, ties to even.\<close>

definition round_mag :: "nat \<Rightarrow> nat" where
  "round_mag a =
     (if a < 2 ^ 24 then a
      else let e = bit_len a - 24; q = a div 2 ^ e; r = a mod 2 ^ e; half = 2 ^ (e - 1)
        in (if half < r \<or> (r = half \<and> odd q) then q + 1 else q) * 2 ^ e)"

definition f32_round :: "int \<Rightarrow> f32" where
  "f32_round x =
     (let m = round_mag (nat \<bar>x\<bar>)
      in if m < 2 ^ 277 then Fin (if x < 0 then - int m else int m) else Inf (x < 0))"

fun f32_add :: "f32 \<Rightarrow> f32 \<Rightarrow> f32" where
  "f32_add (Fin x) (Fin y) = f32_round (x + y)"
| "f32_add NaN _ = NaN"
| "f32_add _ NaN = NaN"
| "f32_add (Inf s) (Inf t) = (if s = t then Inf s else NaN)"
| "f32_add (Inf s) (Fin y) = Inf s"
| "f32_add (Fin x) (Inf t) = Inf t"

fun f32_neg :: "f32 \<Rightarrow> f32" where
  "f32_neg (Fin x) = Fin (- x)"
| "f32_neg (Inf s) = Inf (\<not> s)"
| "f32_neg NaN = NaN"

definition f32_sub :: "f32 \<Rightarrow> f32 \<Rightarrow> f32" where
  "f32_sub x y = f32_add x (f32_neg y)"

fun f32_less :: "f32 \<Rightarrow> f32 \<Rightarrow> bool" where
  "f32_less (Fin x) (Fin y) = (x < y)"
| "f32_less NaN _ = False"
| "f32_less _ NaN = False"
| "f32_less (Inf s) (Inf t) = (s \<and> \<not> t)"
| "f32_less (Inf s) (Fin y) = s"
| "f32_less (Fin x) (Inf t) = (\<not> t)"

text \<open>\<open>x <= y\<close>: less or equal, false when a NaN takes part.\<close>

fun f32_eq :: "f32 \<Rightarrow> f32 \<Rightarrow> bool" where
  "f32_eq NaN _ = False"
| "f32_eq _ NaN = False"
| "f32_eq x y = (x = y)"

definition f32_le :: "f32 \<Rightarrow> f32 \<Rightarrow> bool" where
  "f32_le x y = (f32_less x y \<or> f32_eq x y)"

definition f32_of_u32 :: "u32 \<Rightarrow> f32" where
  "f32_of_u32 w = f32_round (int (unat w) * 2 ^ 149)"

definition f32_zero :: f32 where "f32_zero = Fin 0"
definition f32_one :: f32 where "f32_one = Fin (2 ^ 149)"

section \<open>Rounding keeps sign and order\<close>

lemma bit_len_bounds: "0 < n \<Longrightarrow> 2 ^ (bit_len n - 1) \<le> n \<and> n < 2 ^ bit_len n"
proof (induction n rule: bit_len.induct)
  case (1 n)
  show ?case
  proof (cases "n div 2 = 0")
    case True
    then have "n = 1" using "1.prems" by auto
    then show ?thesis by (simp add: bit_len.simps)
  next
    case False
    then have IH: "2 ^ (bit_len (n div 2) - 1) \<le> n div 2" "n div 2 < 2 ^ bit_len (n div 2)"
      using "1.IH" "1.prems" by auto
    obtain k where k: "bit_len (n div 2) = Suc k"
      using False by (metis bit_len.simps)
    have "bit_len n = Suc (Suc k)" using "1.prems" k by (subst bit_len.simps) simp
    then show ?thesis using IH k by simp linarith
  qed
qed

lemma bit_len_ge: "2 ^ k \<le> n \<Longrightarrow> k < bit_len n"
proof (rule ccontr)
  assume "2 ^ k \<le> n" "\<not> k < bit_len n"
  then have "0 < n" by (metis gr0I le_zero_eq power_not_zero zero_neq_numeral)
  then have "n < 2 ^ bit_len n" using bit_len_bounds by blast
  also have "\<dots> \<le> 2 ^ k" using \<open>\<not> k < bit_len n\<close> by (simp add: power_increasing)
  finally show False using \<open>2 ^ k \<le> n\<close> by simp
qed

text \<open>A rounded magnitude is at most one part in two to the 24 away from the exact one.\<close>

lemma round_mag_error: "\<bar>int (round_mag a) - int a\<bar> * 2 ^ 24 \<le> int a"
proof (cases "a < 2 ^ 24")
  case True
  then show ?thesis by (simp add: round_mag_def)
next
  case False
  define e where "e = bit_len a - 24"
  define q where "q = a div 2 ^ e"
  define r where "r = a mod 2 ^ e"
  have len: "24 < bit_len a" using False bit_len_ge [of 24 a] by simp
  then obtain k where k: "e = Suc k" unfolding e_def by (metis Suc_diff_Suc Suc_eq_plus1 add_diff_cancel_right')
  have a: "a = q * 2 ^ e + r" unfolding q_def r_def by (simp only: div_mult_mod_eq)
  then have ia: "int a = int q * 2 ^ e + int r"
    by (metis of_nat_add of_nat_mult of_nat_numeral of_nat_power)
  have r: "r < 2 ^ e" unfolding r_def by simp
  have "2 ^ (bit_len a - 1) \<le> a" using False bit_len_bounds [of a] by simp
  moreover have "bit_len a - 1 = 24 + k" using len k unfolding e_def by simp
  ultimately have lo: "2 ^ 24 * 2 ^ k \<le> a" by (simp only: power_add)
  define up where "up \<longleftrightarrow> 2 ^ k < r \<or> (r = 2 ^ k \<and> odd q)"
  have m: "round_mag a = (if up then q + 1 else q) * 2 ^ e"
    using False unfolding round_mag_def Let_def by (simp add: e_def [symmetric] q_def r_def up_def k)
  have "\<bar>int (round_mag a) - int a\<bar> \<le> 2 ^ k"
  proof (cases up)
    case True
    then have "int (2 ^ k) \<le> int r" unfolding up_def by (auto simp only: of_nat_le_iff)
    moreover have "int r < int (2 ^ e)" using r by (simp only: of_nat_less_iff)
    moreover have "int (round_mag a) - int a = 2 ^ e - int r"
      using True ia unfolding m by (simp add: algebra_simps)
    ultimately show ?thesis using k by simp
  next
    case False
    then have "r \<le> 2 ^ k" unfolding up_def by auto
    moreover have "int (round_mag a) - int a = - int r"
      using False ia unfolding m by simp
    ultimately show ?thesis by simp
  qed
  then have "\<bar>int (round_mag a) - int a\<bar> * 2 ^ 24 \<le> 2 ^ k * 2 ^ 24"
    by simp
  also have "2 ^ k * 2 ^ 24 = int (2 ^ 24 * 2 ^ k)" by simp
  also have "\<dots> \<le> int a" using lo by (simp only: of_nat_le_iff)
  finally show ?thesis .
qed

lemma round_mag_exact: "2 ^ (bit_len a - 24) dvd a \<Longrightarrow> round_mag a = a"
  by (simp add: round_mag_def Let_def)

lemma round_mag_pos: "round_mag a = 0 \<longleftrightarrow> a = 0"
proof
  assume "round_mag a = 0"
  then have "int a * 2 ^ 24 \<le> int a" using round_mag_error [of a] by simp
  then show "a = 0" by simp
qed (simp add: round_mag_def)

text \<open>A difference that is not negative after rounding was not negative before.\<close>

lemma f32_sub_nonneg: "\<not> f32_less (f32_sub (Fin x) (Fin y)) f32_zero \<Longrightarrow> y \<le> x"
proof (rule ccontr)
  assume a: "\<not> f32_less (f32_sub (Fin x) (Fin y)) f32_zero" "\<not> y \<le> x"
  then have "0 < round_mag (nat \<bar>x - y\<bar>)" using round_mag_pos [of "nat \<bar>x - y\<bar>"] by linarith
  then show False
    using a by (auto simp: f32_sub_def f32_round_def f32_zero_def Let_def split: if_splits)
qed

text \<open>A sum of non-negative values that does not exceed a bound after rounding exceeds it by at
  most one part in two to the 24 before.\<close>

lemma f32_add_bound:
  assumes "\<not> f32_less (Fin b) (f32_add (Fin x) (Fin y))" "0 \<le> x + y"
  shows "(x + y) * (2 ^ 24 - 1) \<le> b * 2 ^ 24"
proof -
  let ?m = "round_mag (nat (x + y))"
  have "int ?m \<le> b"
    using assms by (auto simp: f32_round_def Let_def split: if_splits)
  moreover have "(x + y - int ?m) * 2 ^ 24 \<le> x + y"
  proof -
    have "(x + y - int ?m) * 2 ^ 24 \<le> \<bar>int ?m - (x + y)\<bar> * 2 ^ 24"
      by (intro mult_right_mono) auto
    also have "\<dots> \<le> x + y"
      using round_mag_error [of "nat (x + y)"] assms(2) by simp
    finally show ?thesis .
  qed
  ultimately show ?thesis by (simp add: algebra_simps)
qed

lemma f32_of_u32_exact:
  assumes "unat w < 2 ^ 24"
  shows "f32_of_u32 w = Fin (int (unat w) * 2 ^ 149)"
proof -
  define n where "n = unat w"
  let ?a = "n * 2 ^ 149"
  have "round_mag ?a = ?a"
  proof (cases "?a < 2 ^ 24")
    case False
    then have "0 < n" by (cases n) auto
    define e where "e = bit_len ?a - 24"
    have "?a < 2 ^ (24 + 149)"
      using assms unfolding n_def by (simp add: power_add)
    moreover have "2 ^ (bit_len ?a - 1) \<le> ?a"
      using \<open>0 < n\<close> bit_len_bounds [of ?a] by simp
    ultimately have "2 ^ (bit_len ?a - 1) < (2::nat) ^ (24 + 149)" by (rule le_less_trans [rotated])
    then have "bit_len ?a - 1 < 24 + 149" by (rule power_less_imp_less_exp [rotated]) simp
    then have "e \<le> 149" unfolding e_def by simp
    then have "2 ^ e dvd ?a" by (meson dvd_mult le_imp_power_dvd)
    then show ?thesis
      unfolding e_def by (rule round_mag_exact)
  qed (simp add: round_mag_def)
  moreover have "?a < 2 ^ 277"
  proof -
    have "?a < 2 ^ (24 + 149)" using assms unfolding n_def by (simp add: power_add)
    also have "\<dots> \<le> (2::nat) ^ 277" by (rule power_increasing) simp_all
    finally show ?thesis .
  qed
  ultimately show ?thesis
    by (simp add: f32_of_u32_def f32_round_def Let_def n_def nat_mult_distrib nat_power_eq)
qed

end
