(* ===== verification/Submit_Types.thy ===== *)
theory Submit_Types
  imports Submit_Registers Submit_Wire A6xx_Layout Rust_F32
begin

text \<open>
  The data of the command validator \<^verbatim>\<open>src/drivers/gpu/qcom-adreno-a618/src/submit.rs\<close>: GPU address
  fields with the expectations the sequence checks attach to them, images and resolved resources,
  and the register-value classifiers (texture descriptors, samplers, 2D formats, depth control).
  Fallible allocations are a parameter \<open>alloc\<close>, which says for each reservation and length whether
  it succeeds.
\<close>

section \<open>Descriptors and samplers\<close>

definition is_nv12_descriptor :: "u32 \<Rightarrow> bool" where
  "is_nv12_descriptor word \<longleftrightarrow> word AND NOT 0x00050000 = 0x23806880"

definition supported_texture_descriptor :: "u32 \<Rightarrow> bool" where
  "supported_texture_descriptor word \<longleftrightarrow>
     (if is_nv12_descriptor word then True
      else word AND NOT 0x000f0000 \<in>
        {TEX_DESCRIPTOR_BGRA_IDENTITY, TEX_DESCRIPTOR_ALPHA_MASK, 0x0c006883})"

definition supported_sampler :: "u32 list \<Rightarrow> u32 \<Rightarrow> bool" where
  "supported_sampler ws last_mip \<longleftrightarrow>
     (if length ws \<noteq> 4 then False
      else let base = ws ! 0 AND NOT 1; min_lod = drop_bit 20 (ws ! 1);
               max_lod = drop_bit 8 (ws ! 1) AND 0xfff
        in base \<in> {0x920, 0x92a} \<and> ws ! 1 AND 0xff = (if max_lod = 0 then 0x40 else 0) \<and>
           min_lod \<le> max_lod \<and> max_lod \<le> last_mip * 256 \<and> ws ! 3 = 0 \<and>
           ws ! 2 = (if base = 0x92a then 0x20 else 0))"

section \<open>Address fields\<close>

datatype ShaderStage = VertexStage | FragmentStage

datatype AddressSource = AttachmentField | ShaderField ShaderStage

datatype LinearImageFormat =
    Nv12 (uv_offset: u64) (uv_size: u64)
  | Nv12Y
  | Nv12Uv
  | Bgra8Unorm
  | Depth32Float

datatype ImageModifier = Linear | Tile6_3Depth | Tile6_3Color

record A2dExpectation =
  a2d_format :: LinearImageFormat
  a2d_modifier :: ImageModifier
  a2d_row_pitch :: u32
  a2d_required_width :: u32
  a2d_required_height :: u32

record ArrayPitchExpectation =
  ap_bytes :: u64
  ap_alignment :: u64

record ImageExpectation =
  ie_mip_levels :: u32
  ie_format :: LinearImageFormat
  ie_modifier :: ImageModifier
  ie_row_pitch :: u32
  ie_width :: u32
  ie_height :: u32
  ie_exact_extent :: bool
  ie_pitch_align :: "u32 option"
  ie_array_pitch :: "ArrayPitchExpectation option"

record AddressField =
  af_word_offset :: u32
  af_access :: u32
  af_complete :: bool
  af_required_size :: "u64 option"
  af_encoding :: AddressEncoding
  af_source :: AddressSource
  af_a2d :: "A2dExpectation option"
  af_image :: "ImageExpectation option"

definition address_source_matches :: "AddressSource \<Rightarrow> RelocationSource \<Rightarrow> bool" where
  "address_source_matches source rel =
     (case (source, rel) of
        (AttachmentField, Attachment _) \<Rightarrow> True
      | (ShaderField VertexStage, CanonicalShader actual) \<Rightarrow> is_vertex actual
      | (ShaderField FragmentStage, CanonicalShader actual) \<Rightarrow> \<not> is_vertex actual
      | _ \<Rightarrow> False)"

section \<open>Images, resources and diagnostics\<close>

record LinearImage =
  img_texture :: "LinearTextureLayout option"
  img_format :: LinearImageFormat
  img_modifier :: ImageModifier
  img_width :: u32
  img_height :: u32
  img_row_pitch :: u32
  img_visible_size :: u64

record ResolvedResource =
  rr_attachment_token :: u64
  rr_gpu_va :: u64
  rr_allocation_size :: u64
  rr_allowed_access :: u32
  rr_linear_image :: "LinearImage option"

datatype RejectedPacketKind = RejectedType4 | RejectedType7

fun rejected_label :: "RejectedPacketKind \<Rightarrow> string" where
  "rejected_label RejectedType4 = ''type4''"
| "rejected_label RejectedType7 = ''type7''"

record RejectedPacket =
  rp_kind :: RejectedPacketKind
  rp_word_offset :: u32
  rp_selector :: u32
  rp_payload_len :: u32
  rp_first_value :: "u32 option"

text \<open>The fallible reservations of the driver; \<open>alloc site n\<close> says whether the vector of that site
  can grow to length \<open>n\<close>.\<close>

datatype alloc_site = PM4_COPY | ADDRESS_TABLE | ADDRESS_FIELD | RESOURCE_TABLE | RELOCATION_TABLE

type_synonym allocator = "alloc_site \<Rightarrow> usize \<Rightarrow> bool"

type_synonym 'a checked = "(string, 'a) outcome"

section \<open>Register value classes\<close>

definition exact :: "u32 list \<Rightarrow> u32 list \<Rightarrow> unit checked" where
  "exact values expected = (if values = expected then Ok () else Err E_unsafe_PM4_register_value)"

definition a2d_control_format :: "u32 \<Rightarrow> LinearImageFormat option" where
  "a2d_control_format v =
     (let common = push_bit 20 0xf OR push_bit 16 1;
          color = push_bit 8 FORMAT_8_8_8_8_UNORM OR common;
          depth = push_bit 24 A2D_IFMT_FLOAT32 OR push_bit 8 FORMAT_32_FLOAT OR common OR push_bit 7 1
      in if v AND 7 \<notin> {0, 2, 4, 5} then None
         else if v AND NOT 7 = color \<or> v AND NOT 7 = color OR push_bit 7 1 then Some Bgra8Unorm
         else if v AND NOT 7 = depth then Some Depth32Float
         else None)"

definition color_target_modifier :: "u32 \<Rightarrow> ImageModifier option" where
  "color_target_modifier v =
     (if v = FORMAT_8_8_8_8_UNORM OR MRT_COLOR_SWAP_WXYZ then Some Linear
      else if v = FORMAT_8_8_8_8_UNORM OR push_bit 8 3 then Some Tile6_3Color
      else None)"

definition a2d_destination_format :: "u32 \<Rightarrow> (LinearImageFormat \<times> ImageModifier) option" where
  "a2d_destination_format v =
     (if v = FORMAT_8_8_8_8_UNORM OR A2D_COLOR_SWAP_WXYZ then Some (Bgra8Unorm, Linear)
      else if v = FORMAT_8_8_8_8_UNORM OR push_bit 8 3 then Some (Bgra8Unorm, Tile6_3Color)
      else if v = FORMAT_32_FLOAT OR push_bit 8 TILE_MODE_3 then Some (Depth32Float, Tile6_3Depth)
      else None)"

definition a2d_output_format :: "u32 \<Rightarrow> LinearImageFormat option" where
  "a2d_output_format v =
     (if v = push_bit 3 FORMAT_8_8_8_8_UNORM OR push_bit 12 0xf then Some Bgra8Unorm
      else if v = push_bit 3 FORMAT_32_FLOAT OR push_bit 12 0xf then Some Depth32Float
      else None)"

definition safe_depth_control :: "u32 \<Rightarrow> bool" where
  "safe_depth_control v \<longleftrightarrow>
     (if v = 0 then True
      else let compare = drop_bit 2 v AND 7; expected_read = compare \<notin> {0, 7}
        in v AND NOT 0x5f = 0 \<and> v AND 1 \<noteq> 0 \<and> (v AND push_bit 6 1 \<noteq> 0) = expected_read)"

end
