(* ===== verification/Submit_Packets.thy ===== *)
theory Submit_Packets
  imports Submit_Types
begin

text \<open>
  Per-packet validation of \<^verbatim>\<open>src/drivers/gpu/qcom-adreno-a618/src/submit.rs\<close>: the register allowlist
  \<open>validate_type4\<close> and the opcode allowlist \<open>validate_type7\<close>, which also collect the GPU address
  fields of the packet. The match arms of the source are the branches of the conditionals, in the
  same order; a payload is indexed only in an arm whose pattern fixes its length.
\<close>

section \<open>Collecting address fields\<close>

definition address_field_encoded ::
  "allocator \<Rightarrow> AddressField list \<Rightarrow> u32 \<Rightarrow> u32 \<Rightarrow> bool \<Rightarrow> u64 option \<Rightarrow> AddressEncoding \<Rightarrow>
   AddressField list checked" where
  "address_field_encoded alloc flds off access complete req enc =
     andThen (guard (alloc ADDRESS_FIELD (length flds + 1)) E_PM4_validation_allocation_failed) (\<lambda>_.
     Ok (flds @ [\<lparr>af_word_offset = off, af_access = access, af_complete = complete,
       af_required_size = req, af_encoding = enc, af_source = AttachmentField, af_a2d = None,
       af_image = None\<rparr>]))"

definition address_field ::
  "allocator \<Rightarrow> AddressField list \<Rightarrow> u32 \<Rightarrow> u32 \<Rightarrow> bool \<Rightarrow> u64 option \<Rightarrow> AddressField list checked" where
  "address_field alloc flds off access complete req =
     address_field_encoded alloc flds off access complete req GpuVa64"

definition canonical_address_field ::
  "allocator \<Rightarrow> AddressField list \<Rightarrow> u32 \<Rightarrow> ShaderStage \<Rightarrow> AddressField list checked" where
  "canonical_address_field alloc flds off stage =
     andThen (guard (alloc ADDRESS_FIELD (length flds + 1)) E_PM4_validation_allocation_failed) (\<lambda>_.
     Ok (flds @ [\<lparr>af_word_offset = off, af_access = ACCESS_READ, af_complete = False,
       af_required_size = None, af_encoding = GpuVa64, af_source = ShaderField stage,
       af_a2d = None, af_image = None\<rparr>]))"

section \<open>Register writes\<close>

definition shader_payload :: "u32 \<Rightarrow> u32 list \<Rightarrow> ShaderMeta \<Rightarrow> bool" where
  "shader_payload reg pl sm =
     (case sm of
        Vertex m \<Rightarrow>
          if reg = SP_VS_CNTL_0 then pl = [sp_vs_cntl_0 m]
          else if reg = SP_VS_INSTR_SIZE then pl = [sp_vs_instr_size m]
          else if reg = SP_VS_CONST_CONFIG then pl = [sp_vs_const_config m, 0, 0, 0]
          else if reg = SP_VS_CONFIG then pl = [sp_vs_config m]
          else if reg = VFD_CNTL_1 then pl = vfd_cntl_1_6 m
          else if reg = VFD_DEST_CNTL then pl = vfd_dest_cntl m
          else False
      | Fragment m \<Rightarrow>
          if reg = SP_PS_CNTL_0 then pl = [sp_ps_cntl_0 m]
          else if reg = SP_PS_INSTR_SIZE then pl = [sp_ps_instr_size m]
          else if reg = SP_PS_CONST_CONFIG then pl = [sp_ps_const_config m]
          else if reg = SP_PS_CONFIG then pl = [sp_ps_config m]
          else if reg = SP_PS_WAVE_CNTL then pl = [sp_ps_wave_cntl m]
          else if reg = GRAS_CL_INTERP_CNTL then pl = [gras_cl_interp_cntl m]
          else if reg = RB_INTERP_CNTL then pl = [rb_interp_cntl m]
          else if reg = RB_PS_INPUT_CNTL then pl = [rb_ps_input_cntl m]
          else if reg = SP_PS_INITIAL_TEX_LOAD_CNTL then
            first pl = Some (initial_tex_load_cntl m) \<and>
            get_range pl 1 (length pl) = Some (initial_tex_load_cmd m)
          else if reg = SP_REG_PROG_ID_0 then pl = sp_reg_prog_id m
          else if reg = SP_PS_OUTPUT_CNTL then pl = [sp_ps_output_cntl m]
          else if reg = SP_PS_OUTPUT_REG then pl = sp_ps_output_reg m
          else if reg = SP_PS_OUTPUT_MASK then pl = [sp_ps_output_mask m]
          else if reg = RB_PS_OUTPUT_CNTL then pl = [rb_ps_output_cntl m]
          else if reg = RB_PS_OUTPUT_MASK then pl = [rb_ps_output_mask m]
          else False)"

definition any_shader_payload :: "u32 \<Rightarrow> u32 list \<Rightarrow> bool" where
  "any_shader_payload reg pl \<longleftrightarrow>
     list_ex (\<lambda>variant. shader_payload reg pl (shader_meta variant)) ShaderVariant_ALL"

text \<open>The pairs of a slice of even length, as \<open>chunks_exact(2)\<close> gives them.\<close>

fun chunks2 :: "'a list \<Rightarrow> ('a \<times> 'a) list" where
  "chunks2 (a # b # xs) = (a, b) # chunks2 xs"
| "chunks2 _ = []"

definition ZERO_REGISTERS :: "u32 list" where
  "ZERO_REGISTERS = [
     GRAS_LRZ_CNTL, RB_LRZ_CNTL, RB_BIN_CONTROL2, RB_WINDOW_OFFSET, RB_WINDOW_OFFSET2,
     RB_RESOLVE_GMEM_BUFFER_INFO, SP_WINDOW_OFFSET, TPL1_WINDOW_OFFSET,
     GRAS_SC_SCREEN_SCISSOR_CNTL, VFD_RENDER_MODE, GRAS_CL_ARRAY_SIZE,
     GRAS_CL_VS_CLIP_CULL_DISTANCE, GRAS_SU_VS_SIV_CNTL, GRAS_SU_STENCIL_CNTL,
     GRAS_LRZ_PS_INPUT_CNTL, GRAS_LRZ_PS_SAMPLEFREQ_CNTL, RB_PS_SAMPLEFREQ_CNTL, RB_DITHER_CNTL,
     RB_SRGB_CNTL, RB_MRT_BASE_GMEM, RB_ALPHA_TEST_CNTL, RB_DEPTH_PLANE_CNTL, RB_STENCIL_CNTL,
     RB_STENCIL_BUFFER_INFO, RB_STENCIL_REF_CNTL, PC_PS_CNTL, PC_CNTL, PC_STEREO_RENDERING_CNTL,
     SP_SRGB_CNTL, SP_VS_PVT_MEM_STACK_OFFSET, SP_PS_PVT_MEM_STACK_OFFSET, SP_GFX_USIZE]"

definition SHADER_REGISTERS :: "u32 list" where
  "SHADER_REGISTERS = [
     SP_VS_CNTL_0, SP_VS_INSTR_SIZE, SP_VS_CONST_CONFIG, SP_VS_CONFIG, SP_PS_CNTL_0,
     SP_PS_INSTR_SIZE, SP_PS_CONST_CONFIG, SP_PS_CONFIG, SP_PS_WAVE_CNTL, GRAS_CL_INTERP_CNTL,
     RB_INTERP_CNTL, RB_PS_INPUT_CNTL, SP_PS_INITIAL_TEX_LOAD_CNTL, SP_REG_PROG_ID_0,
     SP_PS_OUTPUT_CNTL, SP_PS_OUTPUT_REG, SP_PS_OUTPUT_MASK, RB_PS_OUTPUT_CNTL,
     RB_PS_OUTPUT_MASK]"

definition clear_color_ok :: "u32 list \<Rightarrow> bool" where
  "clear_color_ok pl \<longleftrightarrow>
     list_all (\<lambda>word. word \<le> 0xff) pl \<or>
     (drop 1 pl = [0, 0, 0] \<and> f32_is_finite (f32_from_bits (pl ! 0)) \<and>
      f32_le f32_zero (f32_from_bits (pl ! 0)) \<and> f32_le (f32_from_bits (pl ! 0)) f32_one)"

text \<open>The arms of \<open>validate_type4\<close> that name the 2D engine, up to the source texture pitch.\<close>

definition validate_type4_a2d ::
  "allocator \<Rightarrow> u32 \<Rightarrow> u32 list \<Rightarrow> u32 \<Rightarrow> AddressField list \<Rightarrow> AddressField list checked \<Rightarrow>
   AddressField list checked" where
  "validate_type4_a2d alloc reg pl packet_word addresses rest =
     (let n = length pl; keep = (\<lambda>r. andThen r (\<lambda>_. Ok addresses)) in
      if reg = RB_CCU_CNTL \<and> n = 1 then keep (exact pl [0x08000000])
      else if reg = RB_DBG_ECO_CNTL \<and> n = 1 then keep (exact pl [0x04100000])
      else if (reg = RB_A2D_BLT_CNTL \<and> n = 1 \<or> reg = GRAS_A2D_BLT_CNTL \<and> n = 1) \<and>
        a2d_control_format (pl ! 0) \<noteq> None then Ok addresses
      else if reg = RB_A2D_PIXEL_CNTL \<and> n = 1 then keep (exact pl [0])
      else if reg = RB_A2D_DEST_BUFFER_INFO \<and> n = 1 \<and> a2d_destination_format (pl ! 0) \<noteq> None
        then Ok addresses
      else if reg = RB_A2D_DEST_BUFFER_BASE \<and> n = 2
        then address_field alloc addresses (packet_word + 1) ACCESS_WRITE True None
      else if reg = RB_A2D_DEST_BUFFER_PITCH \<and> n = 1 \<and> pl ! 0 \<noteq> 0 \<and> pl ! 0 AND NOT 0x3fff = 0
        then Ok addresses
      else if reg = RB_A2D_CLEAR_COLOR_DW0 \<and> n = 4 \<and> clear_color_ok pl then Ok addresses
      else if reg = GRAS_A2D_SRC_XMIN \<and> n = 4 \<and> list_all (\<lambda>v. v AND 0xff = 0) pl then Ok addresses
      else if reg = GRAS_A2D_DEST_TL \<and> n = 2 \<or> reg = GRAS_A2D_SCISSOR_TL \<and> n = 2 then Ok addresses
      else if reg = SP_A2D_OUTPUT_INFO \<and> n = 1 \<and> a2d_output_format (pl ! 0) \<noteq> None then Ok addresses
      else if reg = TPL1_A2D_SRC_TEXTURE_INFO \<and> n = 1 \<and>
        pl ! 0 AND NOT (push_bit 16 1) =
          FORMAT_8_8_8_8_UNORM OR A2D_COLOR_SWAP_WXYZ OR push_bit 20 1 OR push_bit 22 1
        then Ok addresses
      else if reg = TPL1_A2D_SRC_TEXTURE_SIZE \<and> n = 1 \<and> pl ! 0 \<noteq> 0 \<and> pl ! 0 AND 0xc0000000 = 0
        then Ok addresses
      else if reg = TPL1_A2D_SRC_TEXTURE_BASE \<and> n = 2
        then address_field alloc addresses (packet_word + 1) ACCESS_READ True None
      else if reg = TPL1_A2D_SRC_TEXTURE_PITCH \<and> n = 1 \<and> pl ! 0 \<noteq> 0 \<and> pl ! 0 AND 0x1ff = 0 \<and>
        drop_bit 9 (pl ! 0) \<le> 0x3fff then Ok addresses
      else rest)"

text \<open>The arms for fixed raster, shader and attachment state, up to the render target base.\<close>

definition validate_type4_state ::
  "allocator \<Rightarrow> u32 \<Rightarrow> u32 list \<Rightarrow> u32 \<Rightarrow> AddressField list \<Rightarrow> AddressField list checked \<Rightarrow>
   AddressField list checked" where
  "validate_type4_state alloc reg pl packet_word addresses rest =
     (let n = length pl; keep = (\<lambda>r. andThen r (\<lambda>_. Ok addresses)) in
      if reg = GRAS_SC_CNTL \<and> n = 1 then keep (exact pl [2])
      else if (reg = GRAS_SC_BIN_CNTL \<or> reg = RB_CNTL) \<and> n = 1 then keep (exact pl [0x00c00000])
      else if reg \<in> set ZERO_REGISTERS \<and> n = 1 then keep (exact pl [0])
      else if reg = GRAS_SU_DEPTH_BUFFER_INFO \<and> n = 1 \<and> pl ! 0 \<in> {0, DEPTH_FORMAT_32} then Ok addresses
      else if reg = GRAS_SU_DEPTH_CNTL \<and> n = 1 \<and> pl ! 0 \<in> {0, 1} then Ok addresses
      else if reg = RB_DEPTH_CNTL \<and> n = 1 \<and> safe_depth_control (pl ! 0) then Ok addresses
      else if reg = VFD_MODE_CNTL \<and> n = 1 then keep (exact pl [3])
      else if reg = VPC_SO_OVERRIDE \<and> n = 1 then keep (exact pl [0])
      else if reg = PC_MODE_CNTL \<and> n = 1 then keep (exact pl [0x1f])
      else if reg = SP_MODE_CNTL \<and> n = 1 then keep (exact pl [5])
      else if reg = TPL1_MODE_CNTL \<and> n = 1 then keep (exact pl [0xa2])
      else if reg = RB_MODE_CNTL \<and> n = 1 then keep (exact pl [0x10])
      else if reg = SP_UPDATE_CNTL \<and> n = 1 then keep (exact pl [0x000000ff])
      else if (reg = SP_HS_CONFIG \<or> reg = SP_DS_CONFIG \<or> reg = SP_GS_CONFIG) \<and> n = 1
        then keep (exact pl [0])
      else if reg = SP_VS_PROGRAM_COUNTER_OFFSET \<and> n = 7 \<and> pl ! 0 = 0 \<and> drop 3 pl = [0, 0, 0, 0]
        then canonical_address_field alloc addresses (packet_word + 2) VertexStage
      else if reg = SP_PS_PROGRAM_COUNTER_OFFSET \<and> n = 7 \<and> pl ! 0 = 0 \<and> drop 3 pl = [0, 0, 0, 0]
        then canonical_address_field alloc addresses (packet_word + 2) FragmentStage
      else if reg = SP_LB_PARAM_LIMIT \<and> n = 1 then keep (exact pl [7])
      else if reg = GRAS_CL_CNTL \<and> n = 1 then keep (exact pl [0x80])
      else if reg = GRAS_CL_GUARDBAND_CLIP_ADJ \<and> n = 1 \<and>
        pl ! 0 AND NOT (0x1ff OR push_bit 10 0x1ff) = 0 then Ok addresses
      else if reg = GRAS_SU_POINT_MINMAX \<and> n = 1 then keep (exact pl [0x00100010])
      else if reg = GRAS_SU_POINT_SIZE \<and> n = 1 then keep (exact pl [0x10])
      else if reg = GRAS_SU_POLY_OFFSET_SCALE \<and> n = 3 then keep (exact pl [0, 0, 0])
      else if reg = GRAS_SU_DEPTH_PLANE_CNTL \<and> n = 1 then keep (exact pl [0])
      else if reg = GRAS_LRZ_MRT_BUFFER_INFO_0 \<and> n = 1 then keep (exact pl [FORMAT_8_8_8_8_UNORM])
      else if reg = TPL1_RAS_MSAA_CNTL \<and> n = 2 then keep (exact pl [0, 4])
      else if (reg = GRAS_SC_RAS_MSAA_CNTL \<or> reg = RB_RAS_MSAA_CNTL) \<and> n = 3
        then keep (exact pl [0, 4, 0])
      else if reg = TPL1_MSAA_SAMPLE_POS_CNTL \<and> n = 1 then keep (exact pl [0])
      else if reg = RB_DEPTH_BUFFER_INFO \<and> n = 6 \<and> pl = [0, 0, 0, 0, 0, 0] then Ok addresses
      else if reg = RB_DEPTH_BUFFER_INFO \<and> n = 6 \<and> pl ! 0 = DEPTH_FORMAT_32 \<and> pl ! 1 \<noteq> 0 \<and>
        pl ! 1 \<le> 0x3fff \<and> pl ! 2 \<noteq> 0 \<and> pl ! 2 \<le> 0x0fffffff \<and> drop 3 pl = [0, 0, 0]
        then address_field alloc addresses (packet_word + 4) (ACCESS_READ OR ACCESS_WRITE) False None
      else if reg = RB_DEPTH_BOUND_MIN \<and> n = 2 then keep (exact pl [0, 0x3f800000])
      else if reg = RB_STENCIL_MASK \<and> n = 2 then keep (exact pl [0, 0])
      else if reg = RB_COLOR_FLAG_BUFFER_ADDR \<and> n = 3 then keep (exact pl [0, 0, 0])
      else if reg = RB_DEPTH_FLAG_BUFFER_BASE \<and> n = 3 then keep (exact pl [0, 0, 0])
      else if (reg = VPC_VARYING_INTERP_MODE \<or> reg = VPC_VARYING_REPLACE_MODE) \<and> n = 8
        then keep (exact pl [0, 0, 0, 0, 0, 0, 0, 0])
      else if reg = RB_MRT_CONTROL \<and> n = 2 \<and> pl \<in> {[0x7e0, 0x00010001], [0x7e3, 0x07010706]}
        then Ok addresses
      else if reg = RB_MRT_BUF_INFO \<and> n = 1 \<and> color_target_modifier (pl ! 0) \<noteq> None then Ok addresses
      else if reg = RB_MRT_PITCH \<and> n = 2 \<and> pl ! 0 \<noteq> 0 \<and> pl ! 0 \<le> 0xffff \<and> pl ! 1 \<noteq> 0 \<and>
        pl ! 1 \<le> 0x1fffffff then Ok addresses
      else if reg = RB_MRT_BASE \<and> n = 2
        then address_field alloc addresses (packet_word + 1) ACCESS_WRITE False None
      else rest)"

text \<open>The remaining arms, from the blend control to the default.\<close>

definition validate_type4_draw ::
  "allocator \<Rightarrow> u32 \<Rightarrow> u32 list \<Rightarrow> u32 \<Rightarrow> AddressField list \<Rightarrow> AddressField list checked" where
  "validate_type4_draw alloc reg pl packet_word addresses =
     (let n = length pl; keep = (\<lambda>r. andThen r (\<lambda>_. Ok addresses)) in
      if reg = RB_BLEND_CNTL \<and> n = 1 \<and> pl ! 0 \<in> {0xffff0000, 0xffff0001} then Ok addresses
      else if reg = SP_BLEND_CNTL \<and> n = 1 \<and> pl ! 0 \<in> {0, 1} then Ok addresses
      else if (reg = SP_PS_MRT_CNTL \<or> reg = RB_PS_MRT_CNTL) \<and> n = 1 then keep (exact pl [1])
      else if reg = SP_PS_MRT_REG \<and> n = 1 then keep (exact pl [FORMAT_8_8_8_8_UNORM])
      else if reg = GRAS_CL_VIEWPORT_XOFFSET \<and> n = 6 then Ok addresses
      else if (reg = GRAS_SC_SCREEN_SCISSOR_TL \<or> reg = GRAS_SC_VIEWPORT_SCISSOR_TL \<or>
        reg = GRAS_SC_WINDOW_SCISSOR_TL) \<and> n = 2 then Ok addresses
      else if reg = GRAS_SU_CNTL \<and> n = 1 \<and> pl ! 0 AND NOT 0x2017 = 0 \<and> pl ! 0 AND 0x2010 = 0x2010
        then Ok addresses
      else if (reg = VPC_RAST_CNTL \<or> reg = PC_DGEN_RAST_CNTL) \<and> n = 1 then keep (exact pl [3])
      else if reg = VFD_CNTL_0 \<and> n = 1 \<and> pl ! 0 AND 0xffff0000 = 0 \<and>
        pl ! 0 AND 0xff = drop_bit 8 (pl ! 0) then Ok addresses
      else if reg = VFD_CNTL_1 \<and> n = 6 \<and> any_shader_payload reg pl then Ok addresses
      else if reg = VFD_INDEX_OFFSET \<and> n = 2 then keep (exact (drop 1 pl) [0])
      else if reg = VFD_VERTEX_BUFFER_BASE \<and> n = 2
        then address_field alloc addresses (packet_word + 1) ACCESS_READ False None
      else if reg = VFD_VERTEX_BUFFER_SIZE \<and> n = 2 \<and> pl ! 0 \<noteq> 0 \<and> pl ! 1 \<in> {16, 24, 28, 32, 40}
        then Ok addresses
      else if reg = VFD_FETCH_INSTR \<and> 2 \<le> n \<and> n \<le> 6 \<and> even n
        then (if list_all (\<lambda>(a, b). b = 1 \<and> a AND 0x40000000 \<noteq> 0) (chunks2 pl) then Ok addresses
              else Err E_unsafe_VFD_fetch_instruction)
      else if reg = VFD_DEST_CNTL \<and> any_shader_payload reg pl then Ok addresses
      else if reg \<in> set SHADER_REGISTERS \<and> any_shader_payload reg pl then Ok addresses
      else if reg = SP_PS_INITIAL_TEX_INDEX_CMD \<and> n = 1 then keep (exact pl [0])
      else if reg = SP_PS_TSIZE \<and> n = 1 \<and> pl ! 0 \<in> {0, 1} then Ok addresses
      else if reg = SP_PS_SAMPLER_BASE \<and> n = 2
        then address_field alloc addresses (packet_word + 1) ACCESS_READ False (Some 16)
      else if reg = SP_PS_TEXMEMOBJ_BASE \<and> n = 2
        then address_field alloc addresses (packet_word + 1) ACCESS_READ False (Some 64)
      else if (reg = SP_VS_OUTPUT_CNTL \<or> reg = VPC_VS_CNTL \<or> reg = VPC_PS_CNTL \<or> reg = PC_VS_CNTL) \<and>
        n = 1 then Ok addresses
      else if (reg = SP_VS_OUTPUT_REG \<or> reg = SP_VS_VPC_DEST_REG) \<and> n \<le> 2 then Ok addresses
      else if reg = VPC_VARYING_LM_TRANSFER_CNTL_DISABLE \<and> n = 4 then Ok addresses
      else if (reg = VPC_VS_CLIP_CULL_CNTL \<or> reg = VPC_VS_CLIP_CULL_CNTL_V2) \<and> n = 1
        then keep (exact pl [0x00ffff00])
      else if (reg = VPC_VS_SIV_CNTL \<or> reg = VPC_VS_SIV_CNTL_V2) \<and> n = 1
        then keep (exact pl [0x0000ffff])
      else Err E_PM4_register_write_is_not_allowlisted)"

definition validate_type4 ::
  "allocator \<Rightarrow> u32 \<Rightarrow> u32 list \<Rightarrow> u32 \<Rightarrow> AddressField list \<Rightarrow> AddressField list checked" where
  "validate_type4 alloc reg pl packet_word addresses =
     validate_type4_a2d alloc reg pl packet_word addresses
       (validate_type4_state alloc reg pl packet_word addresses
         (validate_type4_draw alloc reg pl packet_word addresses))"

section \<open>Opcodes\<close>

text \<open>The guard of the \<open>CP_MEM_WRITE\<close> arm: the texture descriptor and sampler it writes.\<close>

definition mem_write_ok :: "u32 list \<Rightarrow> bool" where
  "mem_write_ok pl \<longleftrightarrow>
     take 2 pl = [0, 0] \<and> supported_texture_descriptor (pl ! 2) \<and>
     pl ! 3 AND 0xc0000000 = 0 \<and> pl ! 3 AND 0x7fff \<noteq> 0 \<and> drop_bit 15 (pl ! 3) AND 0x7fff \<noteq> 0 \<and>
     pl ! 4 AND 0x7f = (if pl ! 2 AND 3 = 3 then 2 else 0) \<and> drop_bit 29 (pl ! 4) = 1 \<and>
     pl ! 5 AND NOT 0x007fffff = 0 \<and> pl ! 7 = push_bit 17 1 \<and>
     (if is_nv12_descriptor (pl ! 2)
      then pl ! 8 = push_bit 8 (drop_bit 7 (pl ! 4) AND 0x3fffff) \<and>
           take 9 (drop 9 pl) = replicate 9 0
      else take 10 (drop 8 pl) = replicate 10 0) \<and>
     supported_sampler (drop 18 pl)
       (if is_nv12_descriptor (pl ! 2) then 0 else drop_bit 16 (pl ! 2) AND 15)"

text \<open>The indexed draw arm.\<close>

definition validate_indexed_draw ::
  "allocator \<Rightarrow> u32 list \<Rightarrow> u32 \<Rightarrow> AddressField list \<Rightarrow> AddressField list checked" where
  "validate_indexed_draw alloc pl packet_word addresses =
     andThen (if pl ! 0 = 0x404 then Ok 2 else if pl ! 0 = 0x804 then Ok (4 :: u64)
              else Err E_unsafe_indexed_draw_initiator) (\<lambda>index_size.
     andThen (ok_or (checked_add (pl ! 3) (pl ! 2)) E_indexed_draw_range_overflows) (\<lambda>end_index.
     if pl ! 1 \<noteq> 1 \<or> pl ! 2 = 0 \<or> unat (pl ! 2) mod 3 \<noteq> 0 \<or> pl ! 6 = 0 \<or> end_index > pl ! 6 \<or>
        take 2 (drop 4 pl) \<noteq> [0, 0]
     then Err E_unsafe_indexed_draw_range
     else
       andThen (ok_or (checked_mul (ucast (pl ! 6)) index_size) E_index_buffer_size_overflows)
         (\<lambda>req. address_field alloc addresses (packet_word + 5) ACCESS_READ False (Some req))))"

definition validate_memcpy ::
  "allocator \<Rightarrow> u32 list \<Rightarrow> u32 \<Rightarrow> AddressField list \<Rightarrow> AddressField list checked" where
  "validate_memcpy alloc pl packet_word addresses =
     andThen (ok_or (checked_mul (ucast (pl ! 0)) (4 :: u64)) E_PM4_memcpy_size_overflows) (\<lambda>bytes.
     andThen (address_field alloc addresses (packet_word + 2) ACCESS_READ False (Some bytes)) (\<lambda>fs.
     address_field alloc fs (packet_word + 4) ACCESS_WRITE False (Some bytes)))"

definition validate_mem_write ::
  "allocator \<Rightarrow> u32 list \<Rightarrow> u32 \<Rightarrow> AddressField list \<Rightarrow> AddressField list checked" where
  "validate_mem_write alloc pl packet_word addresses =
     andThen (address_field alloc addresses (packet_word + 1) ACCESS_WRITE False (Some 80)) (\<lambda>fs.
     andThen (address_field_encoded alloc fs (packet_word + 7) ACCESS_READ False None
                GpuVa49TexDescriptor) (\<lambda>fs'.
     if is_nv12_descriptor (pl ! 2)
     then address_field alloc fs' (packet_word + 10) ACCESS_READ False None
     else Ok fs'))"

definition validate_type7 ::
  "allocator \<Rightarrow> u8 \<Rightarrow> u32 list \<Rightarrow> u32 \<Rightarrow> AddressField list \<Rightarrow> AddressField list checked" where
  "validate_type7 alloc opc pl packet_word addresses =
     (let n = length pl; keep = (\<lambda>r. andThen r (\<lambda>_. Ok addresses)) in
      if opc = WAIT_MEM_WRITES \<and> n = 0 then Ok addresses
      else if opc = WAIT_FOR_IDLE \<and> n = 0 then Ok addresses
      else if opc = EVENT_WRITE \<and> n = 1 \<and>
        pl ! 0 \<in> {EVENT_CCU_INVALIDATE_COLOR, EVENT_CCU_INVALIDATE_DEPTH, EVENT_CACHE_INVALIDATE}
        then Ok addresses
      else if opc = EVENT_WRITE \<and> n = 4 \<and>
        pl ! 0 \<in> {EVENT_CCU_FLUSH_COLOR_TS OR EVENT_WRITE_TIMESTAMP,
                  EVENT_CCU_FLUSH_DEPTH_TS OR EVENT_WRITE_TIMESTAMP} \<and>
        take 2 (drop 1 pl) = [0, 0] \<and> pl ! 3 \<noteq> 0
        then address_field alloc addresses (packet_word + 2) ACCESS_WRITE False (Some 4)
      else if opc = SET_MARKER \<and> n = 1 \<and> pl ! 0 \<in> {1, 12} then Ok addresses
      else if opc = CP_SKIP_IB2_ENABLE_GLOBAL \<and> n = 1 then keep (exact pl [0])
      else if opc = CP_SKIP_IB2_ENABLE_LOCAL \<and> n = 1 then keep (exact pl [1])
      else if opc = CP_SET_VISIBILITY_OVERRIDE \<and> n = 1 then keep (exact pl [1])
      else if opc = CP_REG_WRITE \<and> n = 3 then keep (exact pl [2, RB_RENDER_CNTL, 0x10])
      else if opc = BLIT \<and> n = 1 then keep (exact pl [3])
      else if opc = CP_MEMCPY \<and> n = 5 \<and> 1 \<le> pl ! 0 \<and> pl ! 0 \<le> CP_MEMCPY_MAX_DWORDS
        then validate_memcpy alloc pl packet_word addresses
      else if opc = CP_MEM_WRITE \<and> n = 22 \<and> mem_write_ok pl
        then validate_mem_write alloc pl packet_word addresses
      else if opc = CP_LOAD_STATE6_GEOM \<and> n = 3 \<and>
        pl ! 0 = push_bit 16 2 OR push_bit 18 8 OR push_bit 22 1 \<and> take 2 (drop 1 pl) = [0, 0]
        then canonical_address_field alloc addresses (packet_word + 2) VertexStage
      else if opc = CP_LOAD_STATE6_FRAG \<and> n = 3 \<and> drop_bit 22 (pl ! 0) \<in> {1, 2} \<and>
        pl ! 0 AND (push_bit 22 1 - 1) = push_bit 16 2 OR push_bit 18 12 \<and>
        take 2 (drop 1 pl) = [0, 0]
        then canonical_address_field alloc addresses (packet_word + 2) FragmentStage
      else if opc = CP_LOAD_STATE6_GEOM \<and> n = 23 \<and>
        pl ! 0 = push_bit 14 1 OR push_bit 18 8 OR push_bit 22 5 \<and> take 2 (drop 1 pl) = [0, 0]
        then Ok addresses
      else if opc = CP_LOAD_STATE6_FRAG \<and> n = 35 \<and>
        pl ! 0 = push_bit 14 1 OR push_bit 18 12 OR push_bit 22 8 \<and> take 2 (drop 1 pl) = [0, 0]
        then Ok addresses
      else if opc = CP_LOAD_STATE6_FRAG \<and> n = 23 \<and>
        pl ! 0 = push_bit 14 1 OR push_bit 18 12 OR push_bit 22 5 \<and> take 2 (drop 1 pl) = [0, 0]
        then Ok addresses
      else if opc = CP_LOAD_STATE6_FRAG \<and> n = 3 \<and>
        pl ! 0 = push_bit 16 2 OR push_bit 18 4 OR push_bit 22 1 \<and> take 2 (drop 1 pl) = [0, 0]
        then address_field alloc addresses (packet_word + 2) ACCESS_READ False (Some 16)
      else if opc = CP_LOAD_STATE6_FRAG \<and> n = 3 \<and>
        pl ! 0 = push_bit 14 1 OR push_bit 16 2 OR push_bit 18 4 OR push_bit 22 1 \<and>
        take 2 (drop 1 pl) = [0, 0]
        then address_field alloc addresses (packet_word + 2) ACCESS_READ False (Some 64)
      else if opc = CP_DRAW_INDX_OFFSET \<and> n = 3 \<and> pl ! 0 = 0x84 \<and> pl ! 1 = 1 \<and> pl ! 2 \<noteq> 0 \<and>
        unat (pl ! 2) mod 3 = 0 then Ok addresses
      else if opc = CP_DRAW_INDX_OFFSET \<and> n = 7
        then validate_indexed_draw alloc pl packet_word addresses
      else Err E_PM4_opcode_is_not_allowlisted)"

text \<open>The body of the packet loop of \<open>validate_pm4\<close>.\<close>

definition validate_packet ::
  "allocator \<Rightarrow> AddressField list \<Rightarrow> packet \<Rightarrow> AddressField list checked" where
  "validate_packet alloc addresses p =
     (case pkt_header p of
        Type4 reg cnt \<Rightarrow> validate_type4 alloc reg (payload p) (word_offset p) addresses
      | Type7 opc cnt \<Rightarrow> validate_type7 alloc opc (payload p) (word_offset p) addresses)"

end
