(* ===== verification/Submit_A2d.thy ===== *)
theory Submit_A2d
  imports Submit_Order
begin

text \<open>
  The 2D engine check of \<^verbatim>\<open>src/drivers/gpu/qcom-adreno-a618/src/submit.rs\<close>: \<open>validate_a2d_sequences\<close>
  follows the 2D register state through the stream and, at every blit, records on the destination
  and source address fields what rectangle of what image layout the blit touches.
\<close>

section \<open>Looking up an address field\<close>

text \<open>\<open>binary_search_by_key\<close> over a vector whose keys are strictly increasing finds the entry with
  the key when there is one; the callers run after \<open>validate_pm4\<close> has checked that order.\<close>

definition address_index :: "AddressField list \<Rightarrow> u32 \<Rightarrow> usize option" where
  "address_index addresses word =
     (let i = length (takeWhile (\<lambda>a. af_word_offset a < word) addresses)
      in case get_at addresses i of
           Some a \<Rightarrow> if af_word_offset a = word then Some i else None
         | None \<Rightarrow> None)"

definition set_a2d_expectation ::
  "AddressField list \<Rightarrow> u32 \<Rightarrow> A2dExpectation \<Rightarrow> AddressField list checked" where
  "set_a2d_expectation addresses word expectation =
     andThen (ok_or (address_index addresses word) E_A2D_address_lacks_relocation_metadata) (\<lambda>i.
     if af_a2d (addresses ! i) \<noteq> None then Err E_A2D_address_is_reused_by_multiple_blits
     else Ok (addresses[i := (addresses ! i)\<lparr>af_a2d := Some expectation\<rparr>]))"

section \<open>2D state\<close>

record A2dState =
  render_mode :: "u32 option"
  solid :: "bool option"
  gras_control :: "u32 option"
  rb_control :: "u32 option"
  control_format :: "LinearImageFormat option"
  pixel_control :: bool
  output_format :: "LinearImageFormat option"
  destination_format :: "(LinearImageFormat \<times> ImageModifier) option"
  destination_word :: "u32 option"
  destination_pitch :: "u32 option"
  destination_tl :: "u32 option"
  destination_br :: "u32 option"
  scissor_tl :: "u32 option"
  scissor_br :: "u32 option"
  source_info :: bool
  source_word :: "u32 option"
  source_pitch :: "u32 option"
  source_size :: "u32 option"
  source_xmin :: "u32 option"
  source_ymin :: "u32 option"
  source_xmax :: "u32 option"
  source_ymax :: "u32 option"
  clear_color :: bool

definition A2dState_default :: A2dState where
  "A2dState_default = \<lparr>render_mode = None, solid = None, gras_control = None, rb_control = None,
     control_format = None, pixel_control = False, output_format = None, destination_format = None,
     destination_word = None, destination_pitch = None, destination_tl = None, destination_br = None,
     scissor_tl = None, scissor_br = None, source_info = False, source_word = None,
     source_pitch = None, source_size = None, source_xmin = None, source_ymin = None,
     source_xmax = None, source_ymax = None, clear_color = False\<rparr>"

definition x_of :: "u32 \<Rightarrow> u32" where "x_of word = word AND 0xffff"
definition y_of :: "u32 \<Rightarrow> u32" where "y_of word = drop_bit 16 word"

text \<open>The register arms: one register write updates the state.\<close>

definition a2d_register :: "A2dState \<Rightarrow> packet \<Rightarrow> u32 \<Rightarrow> A2dState checked" where
  "a2d_register st p reg =
     (let word = index (payload p) in
      if reg = RB_A2D_BLT_CNTL then
        andThen (word 0) (\<lambda>w. Ok (st\<lparr>rb_control := Some w, solid := Some (w AND push_bit 7 1 \<noteq> 0),
          control_format := a2d_control_format w\<rparr>))
      else if reg = GRAS_A2D_BLT_CNTL then andThen (word 0) (\<lambda>w. Ok (st\<lparr>gras_control := Some w\<rparr>))
      else if reg = RB_A2D_PIXEL_CNTL then Ok (st\<lparr>pixel_control := True\<rparr>)
      else if reg = SP_A2D_OUTPUT_INFO then
        andThen (word 0) (\<lambda>w. Ok (st\<lparr>output_format := a2d_output_format w\<rparr>))
      else if reg = RB_A2D_DEST_BUFFER_INFO then
        andThen (word 0) (\<lambda>w. Ok (st\<lparr>destination_format := a2d_destination_format w\<rparr>))
      else if reg = RB_A2D_CLEAR_COLOR_DW0 then Ok (st\<lparr>clear_color := True\<rparr>)
      else if reg = RB_A2D_DEST_BUFFER_BASE then
        Ok (st\<lparr>destination_word := Some (word_offset p + 1)\<rparr>)
      else if reg = RB_A2D_DEST_BUFFER_PITCH then
        andThen (word 0) (\<lambda>w. Ok (st\<lparr>destination_pitch := checked_mul w 64\<rparr>))
      else if reg = GRAS_A2D_DEST_TL then
        andThen (word 0) (\<lambda>tl. andThen (word 1) (\<lambda>br.
        if x_of tl > x_of br \<or> y_of tl > y_of br then Err E_inverted_A2D_destination_rectangle
        else Ok (st\<lparr>destination_tl := Some tl, destination_br := Some br\<rparr>)))
      else if reg = GRAS_A2D_SCISSOR_TL then
        andThen (word 0) (\<lambda>tl. andThen (word 1) (\<lambda>br.
        if x_of tl > x_of br \<or> y_of tl > y_of br then Err E_inverted_A2D_scissor_rectangle
        else Ok (st\<lparr>scissor_tl := Some tl, scissor_br := Some br\<rparr>)))
      else if reg = TPL1_A2D_SRC_TEXTURE_INFO then Ok (st\<lparr>source_info := True\<rparr>)
      else if reg = TPL1_A2D_SRC_TEXTURE_BASE then Ok (st\<lparr>source_word := Some (word_offset p + 1)\<rparr>)
      else if reg = TPL1_A2D_SRC_TEXTURE_PITCH then
        andThen (word 0) (\<lambda>w. Ok (st\<lparr>source_pitch := checked_mul (drop_bit 9 w) 64\<rparr>))
      else if reg = TPL1_A2D_SRC_TEXTURE_SIZE then
        andThen (word 0) (\<lambda>w. Ok (st\<lparr>source_size := Some w\<rparr>))
      else if reg = GRAS_A2D_SRC_XMIN then
        andThen (word 0) (\<lambda>w0. andThen (word 1) (\<lambda>w1.
        andThen (if w0 > w1 then Ok True
                 else andThen (word 2) (\<lambda>w2. andThen (word 3) (\<lambda>w3. Ok (w2 > w3)))) (\<lambda>inverted.
        if inverted then Err E_inverted_A2D_source_rectangle
        else andThen (word 2) (\<lambda>w2. andThen (word 3) (\<lambda>w3.
          Ok (st\<lparr>source_xmin := Some (drop_bit 8 w0), source_ymin := Some (drop_bit 8 w2),
            source_xmax := Some (saturating_add (drop_bit 8 w1) 1),
            source_ymax := Some (saturating_add (drop_bit 8 w3) 1)\<rparr>))))))
      else Ok st)"

section \<open>Blits\<close>

definition a2d_control_complete :: "A2dState \<Rightarrow> bool" where
  "a2d_control_complete st \<longleftrightarrow>
     \<not> (render_mode st \<noteq> Some 12 \<or> rb_control st = None \<or> gras_control st \<noteq> rb_control st \<or>
        solid st = None \<or> \<not> pixel_control st \<or> control_format st = None \<or>
        output_format st \<noteq> control_format st \<or>
        map_option fst (destination_format st) \<noteq> control_format st)"

definition a2d_destination :: "A2dState \<Rightarrow> AddressField list \<Rightarrow> AddressField list checked" where
  "a2d_destination st addresses =
     andThen (ok_or (destination_tl st) E_A2D_destination_rectangle_is_missing) (\<lambda>tl.
     andThen (ok_or (destination_br st) E_A2D_destination_rectangle_is_missing) (\<lambda>br.
     andThen (ok_or (scissor_tl st) E_A2D_scissor_is_missing) (\<lambda>stl.
     andThen (ok_or (scissor_br st) E_A2D_scissor_is_missing) (\<lambda>sbr.
     if x_of stl < x_of tl \<or> y_of stl < y_of tl \<or> x_of sbr > x_of br \<or> y_of sbr > y_of br
     then Err E_A2D_scissor_exceeds_destination
     else
       andThen (ok_or (destination_word st) E_A2D_destination_base_is_missing) (\<lambda>word.
       andThen (ok_or (destination_format st) E_A2D_destination_format_is_missing) (\<lambda>fmt.
       andThen (ok_or (destination_pitch st) E_A2D_destination_pitch_is_missing) (\<lambda>pitch.
       set_a2d_expectation addresses word
         \<lparr>a2d_format = fst fmt, a2d_modifier = snd fmt, a2d_row_pitch = pitch,
          a2d_required_width = saturating_add (x_of br) 1,
          a2d_required_height = saturating_add (y_of br) 1\<rparr>)))))))"

definition a2d_source :: "A2dState \<Rightarrow> AddressField list \<Rightarrow> AddressField list checked" where
  "a2d_source st addresses =
     (if \<not> source_info st then Err E_A2D_source_info_is_missing
      else
        andThen (ok_or (source_size st) E_A2D_source_size_is_missing) (\<lambda>ssize.
        let width = ssize AND 0x7fff; height = drop_bit 15 ssize in
        andThen (ok_or (source_xmax st) E_A2D_source_rectangle_is_missing) (\<lambda>required_width.
        andThen (ok_or (source_ymax st) E_A2D_source_rectangle_is_missing) (\<lambda>required_height.
        andThen (ok_or (source_xmin st) E_A2D_source_rectangle_is_missing) (\<lambda>xmin.
        andThen (ok_or (source_ymin st) E_A2D_source_rectangle_is_missing) (\<lambda>ymin.
        if width = 0 \<or> height = 0 \<or> xmin \<ge> required_width \<or> ymin \<ge> required_height \<or>
           required_width > width \<or> required_height > height
        then Err E_A2D_source_rectangle_exceeds_texture
        else
          andThen (ok_or (source_word st) E_A2D_source_base_is_missing) (\<lambda>word.
          andThen (ok_or (source_pitch st) E_A2D_source_pitch_is_missing) (\<lambda>pitch.
          set_a2d_expectation addresses word
            \<lparr>a2d_format = Bgra8Unorm, a2d_modifier = Linear, a2d_row_pitch = pitch,
             a2d_required_width = width, a2d_required_height = height\<rparr>))))))))"

definition a2d_blit ::
  "A2dState \<Rightarrow> AddressField list \<Rightarrow> (A2dState \<times> AddressField list) checked" where
  "a2d_blit st addresses =
     (if \<not> a2d_control_complete st then Err E_incomplete_A2D_control_state
      else
        andThen (a2d_destination st addresses) (\<lambda>fs.
        andThen (if solid st = Some False then a2d_source st fs
                 else if \<not> clear_color st then Err E_A2D_solid_blit_clear_color_is_missing
                 else Ok fs) (\<lambda>fs'.
        Ok (A2dState_default\<lparr>render_mode := render_mode st\<rparr>, fs'))))"

definition a2d_step ::
  "A2dState \<times> AddressField list \<Rightarrow> packet \<Rightarrow> (A2dState \<times> AddressField list) checked" where
  "a2d_step s p =
     (case s of (st, addresses) \<Rightarrow>
        case pkt_header p of
          Type4 reg _ \<Rightarrow> andThen (a2d_register st p reg) (\<lambda>st'. Ok (st', addresses))
        | Type7 opc _ \<Rightarrow>
            if opc = SET_MARKER then Ok (st\<lparr>render_mode := first (payload p)\<rparr>, addresses)
            else if opc = BLIT then a2d_blit st addresses
            else Ok (st, addresses))"

definition validate_a2d_sequences ::
  "packet list \<Rightarrow> AddressField list \<Rightarrow> AddressField list checked" where
  "validate_a2d_sequences ps addresses =
     andThen (foldM a2d_step (A2dState_default, addresses) ps) (\<lambda>(st, fs).
     if list_ex (\<lambda>a. af_complete a \<and> af_a2d a = None) fs
     then Err E_A2D_address_is_not_consumed_by_a_complete_blit
     else Ok fs)"

end
