(* ===== verification/Submit_Draw.thy ===== *)
theory Submit_Draw
  imports Submit_A2d
begin

text \<open>
  The 3D check of \<^verbatim>\<open>src/drivers/gpu/qcom-adreno-a618/src/submit.rs\<close>: the register index of a draw
  segment, the canonical pipeline matcher and its prefilter, and \<open>validate_3d_sequences\<close>, which
  walks the draws of a stream and records on the address fields what each draw touches.
\<close>

section \<open>The segment index\<close>

record SegmentRegister =
  sr_register :: u32
  sr_word_offset :: u32
  sr_payload :: "u32 list"

record SegmentIndex =
  si_packets :: "packet list"
  si_registers :: "SegmentRegister list"

definition segment_register :: "packet \<Rightarrow> SegmentRegister option" where
  "segment_register p =
     (case pkt_header p of
        Type4 reg _ \<Rightarrow> Some \<lparr>sr_register = reg, sr_word_offset = word_offset p, sr_payload = payload p\<rparr>
      | _ \<Rightarrow> None)"

definition segment_index :: "packet list \<Rightarrow> SegmentIndex" where
  "segment_index ps = \<lparr>si_packets = ps,
     si_registers = sort_key sr_register (List.map_filter segment_register ps)\<rparr>"

definition segment_reg :: "SegmentIndex \<Rightarrow> u32 \<Rightarrow> (u32 \<times> u32 list) option" where
  "segment_reg si wanted =
     (let i = length (takeWhile (\<lambda>e. sr_register e < wanted) (si_registers si))
      in case get_at (si_registers si) i of
           None \<Rightarrow> None
         | Some e \<Rightarrow>
             if sr_register e \<noteq> wanted \<or>
                (case get_at (si_registers si) (i + 1) of
                   Some nxt \<Rightarrow> sr_register nxt = wanted | None \<Rightarrow> False)
             then None
             else Some (sr_word_offset e, sr_payload e))"

definition reg_payload :: "SegmentIndex \<Rightarrow> u32 \<Rightarrow> u32 list option" where
  "reg_payload si wanted = map_option snd (segment_reg si wanted)"

section \<open>Shader programs and relocations\<close>

definition segment_shader_program_layout :: "SegmentIndex \<Rightarrow> u32 \<Rightarrow> (u32 \<times> u32) option" where
  "segment_shader_program_layout si first_exec_register =
     (case segment_reg si first_exec_register of
        None \<Rightarrow> None
      | Some (off, pl) \<Rightarrow>
          if length pl \<noteq> 7 \<or> pl ! 0 \<noteq> 0 \<or> drop 3 pl \<noteq> [0, 0, 0, 0] then None
          else Some (off, off + 2))"

definition is_opcode :: "packet \<Rightarrow> u8 \<Rightarrow> bool" where
  "is_opcode p wanted \<longleftrightarrow> (case pkt_header p of Type7 opc _ \<Rightarrow> opc = wanted | _ \<Rightarrow> False)"

definition segment_shader_preload_word :: "SegmentIndex \<Rightarrow> u8 \<Rightarrow> u32 \<Rightarrow> u32 option" where
  "segment_shader_preload_word si wanted_opcode wanted_block =
     map_option (\<lambda>p. word_offset p + 2)
       (find (\<lambda>p. is_opcode p wanted_opcode \<and> length (payload p) = 3 \<and>
          drop_bit 14 (payload p ! 0) AND 3 = 0 \<and> drop_bit 16 (payload p ! 0) AND 3 = 2 \<and>
          drop_bit 18 (payload p ! 0) AND 0xf = wanted_block) (si_packets si))"

definition relocation_is_shader :: "Relocation list \<Rightarrow> u32 \<Rightarrow> ShaderVariant \<Rightarrow> bool" where
  "relocation_is_shader rels word expected \<longleftrightarrow>
     list_ex (\<lambda>r. pm4_word_offset r = word \<and> rel_source r = CanonicalShader expected) rels"

definition segment_shader_relocations_match ::
  "SegmentIndex \<Rightarrow> Relocation list \<Rightarrow> PipelineVariant \<Rightarrow> bool" where
  "segment_shader_relocations_match si rels variant =
     (let lnk = link_meta variant in
      case segment_shader_program_layout si SP_VS_PROGRAM_COUNTER_OFFSET of None \<Rightarrow> False
      | Some (_, vs_program) \<Rightarrow>
      case segment_shader_program_layout si SP_PS_PROGRAM_COUNTER_OFFSET of None \<Rightarrow> False
      | Some (_, fs_program) \<Rightarrow>
      case segment_shader_preload_word si CP_LOAD_STATE6_GEOM 8 of None \<Rightarrow> False
      | Some vs_preload \<Rightarrow>
      case segment_shader_preload_word si CP_LOAD_STATE6_FRAG 12 of None \<Rightarrow> False
      | Some fs_preload \<Rightarrow>
        relocation_is_shader rels vs_program (link_vs lnk) \<and>
        relocation_is_shader rels vs_preload (link_vs lnk) \<and>
        relocation_is_shader rels fs_program (link_fs lnk) \<and>
        relocation_is_shader rels fs_preload (link_fs lnk))"

definition retained_allows :: "packet \<Rightarrow> bool" where
  "retained_allows p =
     (let pl = payload p in
      case pkt_header p of
        Type4 reg _ \<Rightarrow> reg \<in> {RB_MRT_PITCH, RB_MRT_BASE, GRAS_CL_VIEWPORT_XOFFSET,
          GRAS_SC_SCREEN_SCISSOR_TL, GRAS_SC_VIEWPORT_SCISSOR_TL, GRAS_SC_WINDOW_SCISSOR_TL,
          VFD_INDEX_OFFSET, VFD_VERTEX_BUFFER_BASE, VFD_VERTEX_BUFFER_SIZE, SP_PS_SAMPLER_BASE,
          SP_PS_TEXMEMOBJ_BASE}
      | Type7 opc _ \<Rightarrow>
          if opc = CP_LOAD_STATE6_GEOM then
            length pl = 23 \<and> pl ! 0 = push_bit 14 1 OR push_bit 18 8 OR push_bit 22 5 \<and>
            take 2 (drop 1 pl) = [0, 0]
          else if opc = CP_LOAD_STATE6_FRAG then
            (length pl = 23 \<and> pl ! 0 = push_bit 14 1 OR push_bit 18 12 OR push_bit 22 5 \<or>
             length pl = 35 \<and> pl ! 0 = push_bit 14 1 OR push_bit 18 12 OR push_bit 22 8) \<and>
             take 2 (drop 1 pl) = [0, 0] \<or>
            length pl = 3 \<and>
             (pl ! 0 = push_bit 16 2 OR push_bit 18 4 OR push_bit 22 1 \<or>
              pl ! 0 = push_bit 14 1 OR push_bit 16 2 OR push_bit 18 4 OR push_bit 22 1) \<and>
             take 2 (drop 1 pl) = [0, 0]
          else if opc = CP_MEM_WRITE then True
          else if opc = WAIT_FOR_IDLE \<or> opc = WAIT_MEM_WRITES then True
          else if opc = EVENT_WRITE then pl = [EVENT_CACHE_INVALIDATE]
          else False)"

definition segment_matches_retained_pipeline :: "SegmentIndex \<Rightarrow> bool" where
  "segment_matches_retained_pipeline si = list_all retained_allows (si_packets si)"

definition segment_depth_state_is_canonical :: "SegmentIndex \<Rightarrow> bool" where
  "segment_depth_state_is_canonical si =
     (let reg = reg_payload si in
      if reg RB_DEPTH_PLANE_CNTL \<noteq> Some [0] \<or> reg GRAS_SU_DEPTH_PLANE_CNTL \<noteq> Some [0] \<or>
         reg RB_DEPTH_BOUND_MIN \<noteq> Some [0, 0x3f800000] \<or> reg RB_STENCIL_BUFFER_INFO \<noteq> Some [0]
      then False
      else case reg RB_DEPTH_BUFFER_INFO of
        None \<Rightarrow> False
      | Some info \<Rightarrow>
          if info = [0, 0, 0, 0, 0, 0] then
            reg RB_DEPTH_CNTL = Some [0] \<and> reg GRAS_SU_DEPTH_CNTL = Some [0] \<and>
            reg GRAS_SU_DEPTH_BUFFER_INFO = Some [0] \<and> reg RB_DEPTH_FLAG_BUFFER_BASE = None
          else
            length info = 6 \<and> info ! 0 = DEPTH_FORMAT_32 \<and> info ! 1 \<noteq> 0 \<and> info ! 1 \<le> 0x3fff \<and>
            info ! 2 \<noteq> 0 \<and> info ! 2 \<le> 0x0fffffff \<and> drop 3 info = [0, 0, 0] \<and>
            (case reg RB_DEPTH_CNTL of
               Some control \<Rightarrow> length control = 1 \<and> control ! 0 \<noteq> 0 \<and> safe_depth_control (control ! 0)
             | None \<Rightarrow> False) \<and>
            reg GRAS_SU_DEPTH_CNTL = Some [1] \<and>
            reg GRAS_SU_DEPTH_BUFFER_INFO = Some [DEPTH_FORMAT_32] \<and>
            reg RB_DEPTH_FLAG_BUFFER_BASE = Some [0, 0, 0])"

section \<open>The canonical pipeline matcher\<close>

definition load_count :: "packet list \<Rightarrow> u8 \<Rightarrow> u32 \<Rightarrow> u32 \<Rightarrow> usize" where
  "load_count ps opc block state_type =
     length (filter (\<lambda>p. is_opcode p opc \<and>
       (case first (payload p) of
          Some word \<Rightarrow> drop_bit 18 word AND 0xf = block \<and> drop_bit 14 word AND 3 = state_type
        | None \<Rightarrow> False)) ps)"

definition type7_count :: "packet list \<Rightarrow> u8 \<Rightarrow> u32 list \<Rightarrow> usize" where
  "type7_count ps opc pl = length (filter (\<lambda>p. is_opcode p opc \<and> payload p = pl) ps)"

definition last_marker :: "packet list \<Rightarrow> u32 option" where
  "last_marker ps =
     (case rev (List.map_filter (\<lambda>p. if is_opcode p SET_MARKER then first (payload p) else None) ps) of
        [] \<Rightarrow> None | m # _ \<Rightarrow> Some m)"

text \<open>The markers and mode registers of the conjunction, up to the stereo control.\<close>

definition matches_mode_state :: "SegmentIndex \<Rightarrow> bool" where
  "matches_mode_state si =
     (let ps = si_packets si; reg = reg_payload si in
      type7_count ps SET_MARKER [1] = 1 \<and> last_marker ps = Some 1 \<and>
      type7_count ps CP_SKIP_IB2_ENABLE_GLOBAL [0] = 1 \<and>
      type7_count ps CP_SKIP_IB2_ENABLE_LOCAL [1] = 1 \<and>
      type7_count ps CP_SET_VISIBILITY_OVERRIDE [1] = 1 \<and>
      type7_count ps CP_REG_WRITE [2, RB_RENDER_CNTL, 0x10] = 1 \<and>
      reg SP_UPDATE_CNTL = Some [0x000000ff] \<and> reg GRAS_SC_CNTL = Some [2] \<and>
      reg GRAS_SC_BIN_CNTL = Some [0x00c00000] \<and> reg RB_CNTL = Some [0x00c00000] \<and>
      reg RB_MODE_CNTL = Some [0x10] \<and> reg RB_BIN_CONTROL2 = Some [0] \<and>
      reg RB_WINDOW_OFFSET = Some [0] \<and> reg RB_WINDOW_OFFSET2 = Some [0] \<and>
      reg SP_WINDOW_OFFSET = Some [0] \<and> reg TPL1_WINDOW_OFFSET = Some [0] \<and>
      reg GRAS_SC_SCREEN_SCISSOR_CNTL = Some [0] \<and> reg VPC_SO_OVERRIDE = Some [0] \<and>
      reg PC_STEREO_RENDERING_CNTL = Some [0])"

text \<open>The shader stage registers, up to the fragment output and texture preload state.\<close>

definition matches_shader_state ::
  "SegmentIndex \<Rightarrow> VertexMeta \<Rightarrow> FragmentMeta \<Rightarrow> LinkMeta \<Rightarrow> bool" where
  "matches_shader_state si vs fs lnk =
     (let reg = reg_payload si in
      reg SP_VS_CNTL_0 = Some [sp_vs_cntl_0 vs] \<and>
      reg SP_VS_CONST_CONFIG = Some [sp_vs_const_config vs, 0, 0, 0] \<and>
      reg SP_PS_CONST_CONFIG = Some [sp_ps_const_config fs] \<and>
      reg SP_HS_CONFIG = Some [0] \<and> reg SP_DS_CONFIG = Some [0] \<and> reg SP_GS_CONFIG = Some [0] \<and>
      reg SP_GFX_USIZE = Some [0] \<and> reg VFD_CNTL_1 = Some (vfd_cntl_1_6 vs) \<and>
      reg VFD_DEST_CNTL = Some (vfd_dest_cntl vs) \<and>
      reg SP_VS_OUTPUT_CNTL = Some [sp_vs_output_cntl lnk] \<and>
      reg SP_VS_OUTPUT_REG = Some (sp_vs_output_reg lnk) \<and>
      reg SP_VS_VPC_DEST_REG = Some (sp_vs_vpc_dest_reg lnk) \<and>
      reg VPC_VS_CNTL = Some [vpc_vs_cntl lnk] \<and>
      reg VPC_VS_CLIP_CULL_CNTL = Some [0x00ffff00] \<and>
      reg VPC_VS_CLIP_CULL_CNTL_V2 = Some [0x00ffff00] \<and>
      reg GRAS_CL_VS_CLIP_CULL_DISTANCE = Some [0] \<and> reg VPC_VS_SIV_CNTL = Some [0x0000ffff] \<and>
      reg VPC_VS_SIV_CNTL_V2 = Some [0x0000ffff] \<and> reg GRAS_SU_VS_SIV_CNTL = Some [0] \<and>
      reg PC_PS_CNTL = Some [0] \<and> reg VPC_PS_CNTL = Some [vpc_ps_cntl lnk] \<and>
      reg PC_VS_CNTL = Some [pc_vs_cntl lnk] \<and>
      reg VPC_VARYING_LM_TRANSFER_CNTL_DISABLE = Some (lm_transfer_disable lnk) \<and>
      reg SP_PS_CNTL_0 = Some [sp_ps_cntl_0 fs] \<and> reg SP_PS_WAVE_CNTL = Some [sp_ps_wave_cntl fs] \<and>
      reg SP_LB_PARAM_LIMIT = Some [7] \<and> reg GRAS_CL_INTERP_CNTL = Some [gras_cl_interp_cntl fs] \<and>
      reg RB_INTERP_CNTL = Some [rb_interp_cntl fs] \<and>
      reg RB_PS_INPUT_CNTL = Some [rb_ps_input_cntl fs] \<and> reg RB_PS_SAMPLEFREQ_CNTL = Some [0] \<and>
      reg GRAS_LRZ_PS_INPUT_CNTL = Some [0] \<and> reg GRAS_LRZ_PS_SAMPLEFREQ_CNTL = Some [0] \<and>
      reg VPC_VARYING_INTERP_MODE = Some [0, 0, 0, 0, 0, 0, 0, 0] \<and>
      reg VPC_VARYING_REPLACE_MODE = Some [0, 0, 0, 0, 0, 0, 0, 0] \<and>
      reg SP_PS_OUTPUT_REG = Some (sp_ps_output_reg fs) \<and>
      reg SP_VS_INSTR_SIZE = Some [sp_vs_instr_size vs] \<and> reg SP_VS_CONFIG = Some [sp_vs_config vs] \<and>
      reg SP_PS_INSTR_SIZE = Some [sp_ps_instr_size fs] \<and> reg SP_PS_CONFIG = Some [sp_ps_config fs] \<and>
      segment_shader_program_layout si SP_VS_PROGRAM_COUNTER_OFFSET \<noteq> None \<and>
      reg SP_VS_PVT_MEM_STACK_OFFSET = Some [0] \<and>
      segment_shader_program_layout si SP_PS_PROGRAM_COUNTER_OFFSET \<noteq> None \<and>
      reg SP_PS_PVT_MEM_STACK_OFFSET = Some [0] \<and>
      reg SP_REG_PROG_ID_0 = Some (sp_reg_prog_id fs) \<and>
      reg SP_PS_OUTPUT_CNTL = Some [sp_ps_output_cntl fs] \<and>
      reg SP_PS_OUTPUT_MASK = Some [sp_ps_output_mask fs] \<and>
      reg RB_PS_OUTPUT_CNTL = Some [rb_ps_output_cntl fs] \<and>
      reg RB_PS_OUTPUT_MASK = Some [rb_ps_output_mask fs] \<and>
      (case reg SP_PS_INITIAL_TEX_LOAD_CNTL of
         Some p \<Rightarrow> first p = Some (initial_tex_load_cntl fs) \<and>
           get_range p 1 (length p) = Some (initial_tex_load_cmd fs)
       | None \<Rightarrow> False))"

definition u32_of_bool :: "bool \<Rightarrow> u32" where "u32_of_bool b = (if b then 1 else 0)"

text \<open>Sampling, vertex fetch and render target state.\<close>

definition matches_fixed_state :: "SegmentIndex \<Rightarrow> FragmentMeta \<Rightarrow> PipelineStateMeta \<Rightarrow> bool" where
  "matches_fixed_state si fs fx =
     (let reg = reg_payload si in
      reg SP_PS_TSIZE = Some [u32_of_bool (uses_sampler fx)] \<and>
      reg SP_PS_OUTPUT_REG = Some (sp_ps_output_reg fs) \<and>
      (if uses_sampler fx
       then reg SP_PS_INITIAL_TEX_INDEX_CMD = Some [0] \<and> reg SP_PS_SAMPLER_BASE \<noteq> None \<and>
            reg SP_PS_TEXMEMOBJ_BASE \<noteq> None
       else reg SP_PS_INITIAL_TEX_INDEX_CMD = None \<and> reg SP_PS_SAMPLER_BASE = None \<and>
            reg SP_PS_TEXMEMOBJ_BASE = None) \<and>
      (case reg VFD_VERTEX_BUFFER_SIZE of
         Some p \<Rightarrow> length p = 2 \<and> p ! 1 = stride fx | None \<Rightarrow> False) \<and>
      reg VFD_FETCH_INSTR = Some (vfd_fetch fx) \<and>
      reg VFD_CNTL_0 = Some [of_nat (length (vfd_fetch fx)) div 2 OR
        push_bit 8 (of_nat (length (vfd_fetch fx)) div 2)] \<and>
      (case reg RB_MRT_BUF_INFO of
         Some p \<Rightarrow> length p = 1 \<and> color_target_modifier (p ! 0) \<noteq> None | None \<Rightarrow> False) \<and>
      reg RB_MRT_BASE_GMEM = Some [0] \<and> reg RB_COLOR_FLAG_BUFFER_ADDR = Some [0, 0, 0] \<and>
      reg GRAS_LRZ_MRT_BUFFER_INFO_0 = Some [FORMAT_8_8_8_8_UNORM] \<and> reg RB_SRGB_CNTL = Some [0] \<and>
      reg SP_SRGB_CNTL = Some [0] \<and> reg GRAS_CL_ARRAY_SIZE = Some [0] \<and>
      reg RB_MRT_CONTROL =
        Some (if source_over fx then [0x7e3, 0x07010706] else [0x7e0, 0x00010001]) \<and>
      reg RB_BLEND_CNTL = Some [if source_over fx then 0xffff0001 else 0xffff0000] \<and>
      reg SP_BLEND_CNTL = Some [u32_of_bool (source_over fx)] \<and> reg RB_DITHER_CNTL = Some [0] \<and>
      reg RB_ALPHA_TEST_CNTL = Some [0] \<and> reg RB_STENCIL_CNTL = Some [0] \<and>
      reg GRAS_SU_STENCIL_CNTL = Some [0] \<and> reg RB_STENCIL_REF_CNTL = Some [0] \<and>
      reg RB_STENCIL_MASK = Some [0, 0])"

text \<open>Depth, multisampling, rasterisation and the state loads.\<close>

definition matches_raster_state :: "SegmentIndex \<Rightarrow> PipelineStateMeta \<Rightarrow> bool" where
  "matches_raster_state si fx =
     (let ps = si_packets si; reg = reg_payload si in
      segment_depth_state_is_canonical si \<and> reg TPL1_RAS_MSAA_CNTL = Some [0, 4] \<and>
      reg GRAS_SC_RAS_MSAA_CNTL = Some [0, 4, 0] \<and> reg RB_RAS_MSAA_CNTL = Some [0, 4, 0] \<and>
      reg TPL1_MSAA_SAMPLE_POS_CNTL = Some [0] \<and> reg RB_RESOLVE_GMEM_BUFFER_INFO = Some [0] \<and>
      reg GRAS_CL_CNTL = Some [0x80] \<and>
      (case reg GRAS_CL_GUARDBAND_CLIP_ADJ of
         Some p \<Rightarrow> length p = 1 \<and> p ! 0 AND NOT (0x1ff OR push_bit 10 0x1ff) = 0 | None \<Rightarrow> False) \<and>
      (case reg GRAS_SU_CNTL of
         Some p \<Rightarrow> length p = 1 \<and>
           (if stride fx = 28 then p ! 0 AND NOT 0x2017 = 0 \<and> p ! 0 AND 0x2010 = 0x2010
            else if stride fx = 40 then p ! 0 \<in> {0x2010, 0x2012}
            else p ! 0 = 0x2010)
       | None \<Rightarrow> False) \<and>
      reg GRAS_SU_POINT_MINMAX = Some [0x00100010] \<and> reg GRAS_SU_POINT_SIZE = Some [0x10] \<and>
      reg GRAS_SU_POLY_OFFSET_SCALE = Some [0, 0, 0] \<and> reg PC_CNTL = Some [0] \<and>
      reg VPC_RAST_CNTL = Some [3] \<and> reg PC_DGEN_RAST_CNTL = Some [3] \<and>
      load_count ps CP_LOAD_STATE6_GEOM 8 1 = 1 \<and> load_count ps CP_LOAD_STATE6_FRAG 12 1 = 1 \<and>
      load_count ps CP_LOAD_STATE6_GEOM 8 0 = 1 \<and> load_count ps CP_LOAD_STATE6_FRAG 12 0 = 1 \<and>
      load_count ps CP_LOAD_STATE6_FRAG 4 1 = of_bool (uses_sampler fx) \<and>
      load_count ps CP_LOAD_STATE6_FRAG 4 0 = of_bool (uses_sampler fx) \<and>
      (\<not> uses_sampler fx \<or> (reg SP_PS_SAMPLER_BASE \<noteq> None \<and> reg SP_PS_TEXMEMOBJ_BASE \<noteq> None)))"

definition segment_matches_pipeline :: "SegmentIndex \<Rightarrow> PipelineVariant \<Rightarrow> bool" where
  "segment_matches_pipeline si variant =
     (let lnk = link_meta variant; fx = pipeline_state_meta variant in
      case (shader_meta (link_vs lnk), shader_meta (link_fs lnk)) of
        (Vertex vs, Fragment fs) \<Rightarrow>
          matches_mode_state si \<and> matches_shader_state si vs fs lnk \<and> matches_fixed_state si fs fx \<and>
          matches_raster_state si fx
      | _ \<Rightarrow> False)"

definition segment_may_match_pipeline :: "SegmentIndex \<Rightarrow> PipelineVariant \<Rightarrow> bool" where
  "segment_may_match_pipeline si variant =
     (let fx = pipeline_state_meta variant; reg = reg_payload si in
      case shader_meta (link_fs (link_meta variant)) of
        Fragment fs \<Rightarrow>
          (case reg VFD_VERTEX_BUFFER_SIZE of
             Some p \<Rightarrow> length p = 2 \<and> p ! 1 = stride fx | None \<Rightarrow> False) \<and>
          reg VFD_FETCH_INSTR = Some (vfd_fetch fx) \<and>
          reg SP_PS_TSIZE = Some [u32_of_bool (uses_sampler fx)] \<and>
          reg SP_PS_OUTPUT_REG = Some (sp_ps_output_reg fs) \<and>
          (case reg SP_PS_INITIAL_TEX_LOAD_CNTL of
             Some p \<Rightarrow> first p = Some (initial_tex_load_cntl fs) \<and>
               get_range p 1 (length p) = Some (initial_tex_load_cmd fs)
           | None \<Rightarrow> False) \<and>
          reg RB_MRT_CONTROL =
            Some (if source_over fx then [0x7e3, 0x07010706] else [0x7e0, 0x00010001])
      | _ \<Rightarrow> False)"

section \<open>Draws\<close>

definition set_image_expectation ::
  "AddressField list \<Rightarrow> u32 \<Rightarrow> ImageExpectation \<Rightarrow> AddressField list checked" where
  "set_image_expectation addresses word expectation =
     andThen (ok_or (address_index addresses word) E_3D_image_address_lacks_relocation_metadata) (\<lambda>i.
     if af_image (addresses ! i) \<noteq> None then Err E_3D_image_address_is_reused
     else Ok (addresses[i := (addresses ! i)\<lparr>af_image := Some expectation\<rparr>]))"

record ValidatedTargetState =
  vt_screen :: "u32 list"
  vt_viewport :: "u32 list"

text \<open>The candidate loop over the pipelines, and the pipeline retained for the draw.\<close>

definition candidate_step ::
  "SegmentIndex \<Rightarrow> Relocation list \<Rightarrow> PipelineVariant option \<Rightarrow> PipelineVariant \<Rightarrow>
   PipelineVariant option checked" where
  "candidate_step si rels matched candidate =
     (if segment_may_match_pipeline si candidate \<and> segment_matches_pipeline si candidate \<and>
         segment_shader_relocations_match si rels candidate
      then (if matched \<noteq> None then Err E_ambiguous_canonical_3D_pipeline_state else Ok (Some candidate))
      else Ok matched)"

definition retain_pipeline ::
  "bool \<Rightarrow> SegmentIndex \<Rightarrow> Relocation list \<Rightarrow> PipelineVariant option \<Rightarrow> bool \<Rightarrow>
   PipelineVariant option checked" where
  "retain_pipeline strict si rels retained retained_delta =
     (if strict then
        andThen (foldM (candidate_step si rels) None PipelineVariant_ALL) (\<lambda>matched.
        case matched of
          Some variant \<Rightarrow> Ok (Some variant)
        | None \<Rightarrow> if retained \<noteq> None \<and> retained_delta then Ok retained
                 else Err E_incomplete_canonical_3D_pipeline_state)
      else Ok retained)"

definition shader_transition :: "SegmentIndex \<Rightarrow> bool \<Rightarrow> bool \<Rightarrow> bool checked" where
  "shader_transition si initialized retained_delta =
     (let present = [
        segment_shader_program_layout si SP_VS_PROGRAM_COUNTER_OFFSET \<noteq> None,
        segment_shader_program_layout si SP_PS_PROGRAM_COUNTER_OFFSET \<noteq> None,
        segment_shader_preload_word si CP_LOAD_STATE6_GEOM 8 \<noteq> None,
        segment_shader_preload_word si CP_LOAD_STATE6_FRAG 12 \<noteq> None]
      in if list_all (\<lambda>b. b) present then Ok True
         else if \<not> (list_all (\<lambda>b. \<not> b) present \<and> initialized \<and> retained_delta)
         then Err E_incomplete_shader_state_transition
         else Ok initialized)"

text \<open>The scissor and viewport bounds of a target.\<close>

definition scissor_unsafe :: "u32 list \<Rightarrow> u32 list \<Rightarrow> bool" where
  "scissor_unsafe screen viewport \<longleftrightarrow>
     viewport ! 0 \<noteq> 0 \<or> x_of (viewport ! 0) > x_of (viewport ! 1) \<or>
     y_of (viewport ! 0) > y_of (viewport ! 1) \<or> x_of (screen ! 0) > x_of (screen ! 1) \<or>
     y_of (screen ! 0) > y_of (screen ! 1) \<or> x_of (screen ! 0) < x_of (viewport ! 0) \<or>
     y_of (screen ! 0) < y_of (viewport ! 0) \<or> x_of (screen ! 1) > x_of (viewport ! 1) \<or>
     y_of (screen ! 1) > y_of (viewport ! 1)"

definition viewport_unsafe :: "u32 list \<Rightarrow> u32 list \<Rightarrow> bool" where
  "viewport_unsafe viewport transform \<longleftrightarrow>
     (let width = f32_of_u32 (x_of (viewport ! 1) + 1); height = f32_of_u32 (y_of (viewport ! 1) + 1);
          v = map f32_from_bits transform;
          xo = v ! 0; xs = v ! 1; yo = v ! 2; ys = v ! 3; zo = v ! 4; zs = v ! 5
      in \<not> list_all f32_is_finite v \<or> f32_le xs f32_zero \<or> f32_less (f32_sub xo xs) f32_zero \<or>
         f32_less width (f32_add xo xs) \<or> f32_less (f32_sub yo (f32_abs ys)) f32_zero \<or>
         f32_less height (f32_add yo (f32_abs ys)) \<or> f32_less (f32_sub zo (f32_abs zs)) f32_zero \<or>
         f32_less f32_one (f32_add zo (f32_abs zs)))"

definition target_initialize ::
  "SegmentIndex \<Rightarrow> AddressField list \<Rightarrow> (ValidatedTargetState \<times> AddressField list) checked" where
  "target_initialize si addresses =
     andThen (ok_or (segment_reg si RB_MRT_PITCH) E_MRT_layout_is_missing) (\<lambda>(_, pitch).
     andThen (ok_or (segment_reg si RB_MRT_BASE) E_MRT_base_is_missing) (\<lambda>(base_packet, _).
     andThen (ok_or (segment_reg si GRAS_CL_VIEWPORT_XOFFSET) E_viewport_transform_is_missing)
       (\<lambda>(_, clip_transform).
     andThen (ok_or (segment_reg si GRAS_SC_SCREEN_SCISSOR_TL) E_render_bounds_are_missing)
       (\<lambda>(_, screen).
     andThen (ok_or (segment_reg si GRAS_SC_VIEWPORT_SCISSOR_TL) E_viewport_scissor_is_missing)
       (\<lambda>(_, viewport).
     andThen (guard (length screen = 2) E_invalid_render_bounds) (\<lambda>_.
     andThen (guard (length viewport = 2) E_invalid_viewport_scissor) (\<lambda>_.
     if scissor_unsafe screen viewport then Err E_unsafe_3D_scissor_state
     else
       andThen (guard (length clip_transform = 6) E_invalid_viewport_transform) (\<lambda>_.
       if viewport_unsafe viewport clip_transform then Err E_unsafe_3D_viewport_transform
       else
         andThen (index pitch 0) (\<lambda>pitch0.
         andThen (ok_or (checked_mul pitch0 64) E_MRT_pitch_overflows) (\<lambda>row_pitch.
         andThen (ok_or (Option.bind (segment_reg si RB_MRT_BUF_INFO) (\<lambda>(_, values).
                    Option.bind (first values) color_target_modifier))
                  E_invalid_color_attachment_modifier) (\<lambda>mdf.
         andThen (index pitch 1) (\<lambda>pitch1.
         andThen (set_image_expectation addresses (base_packet + 1)
           \<lparr>ie_mip_levels = 1, ie_format = Bgra8Unorm, ie_modifier = mdf, ie_row_pitch = row_pitch,
            ie_width = saturating_add (x_of (viewport ! 1)) 1,
            ie_height = saturating_add (y_of (viewport ! 1)) 1, ie_exact_extent = True,
            ie_pitch_align = None,
            ie_array_pitch = Some \<lparr>ap_bytes = push_bit 6 (ucast pitch1), ap_alignment = 64\<rparr>\<rparr>) (\<lambda>fs.
         Ok (\<lparr>vt_screen = screen, vt_viewport = viewport\<rparr>, fs))))))))))))))"

definition target_transition ::
  "SegmentIndex \<Rightarrow> AddressField list \<Rightarrow> ValidatedTargetState option \<Rightarrow> bool \<Rightarrow>
   (ValidatedTargetState \<times> AddressField list) checked" where
  "target_transition si addresses target_state retained_delta =
     (let present = [
        segment_reg si RB_MRT_PITCH \<noteq> None, segment_reg si RB_MRT_BASE \<noteq> None,
        segment_reg si GRAS_CL_VIEWPORT_XOFFSET \<noteq> None,
        segment_reg si GRAS_SC_SCREEN_SCISSOR_TL \<noteq> None,
        segment_reg si GRAS_SC_VIEWPORT_SCISSOR_TL \<noteq> None]
      in if list_all (\<lambda>b. b) present then target_initialize si addresses
         else if list_all (\<lambda>b. \<not> b) present \<and> retained_delta
         then andThen (ok_or target_state E_target_state_is_not_initialized) (\<lambda>t. Ok (t, addresses))
         else Err E_incomplete_target_state_transition)"

definition depth_transition ::
  "SegmentIndex \<Rightarrow> ValidatedTargetState \<Rightarrow> AddressField list \<Rightarrow> bool \<Rightarrow> bool \<Rightarrow>
   (bool \<times> AddressField list) checked" where
  "depth_transition si target addresses initialized retained_delta =
     (case segment_reg si RB_DEPTH_BUFFER_INFO of
        Some (depth_packet, depth_info) \<Rightarrow>
          if \<not> segment_depth_state_is_canonical si then Err E_incomplete_canonical_depth_state
          else if depth_info \<noteq> [0, 0, 0, 0, 0, 0] then
            (let width = saturating_add (x_of (vt_viewport target ! 1)) 1;
                 height = saturating_add (y_of (vt_viewport target ! 1)) 1 in
             andThen (index depth_info 1) (\<lambda>info1.
             andThen (ok_or (checked_mul info1 64) E_depth_pitch_overflows) (\<lambda>row_pitch.
             andThen (index depth_info 2) (\<lambda>info2.
             let array_pitch = push_bit 6 (ucast info2 :: u64) in
             andThen (ok_or (depth32_tile6_3_layout width height) E_depth_target_layout_overflows)
               (\<lambda>lay.
             if row_pitch \<noteq> d32_row_pitch lay \<or> array_pitch \<noteq> d32_layer_size lay
             then Err E_depth_array_pitch_does_not_match_target
             else
               andThen (set_image_expectation addresses (depth_packet + 4)
                 \<lparr>ie_mip_levels = 1, ie_format = Depth32Float, ie_modifier = Tile6_3Depth,
                  ie_row_pitch = row_pitch, ie_width = width, ie_height = height,
                  ie_exact_extent = True, ie_pitch_align = None,
                  ie_array_pitch = Some \<lparr>ap_bytes = array_pitch,
                    ap_alignment = DEPTH32_LAYER_ALIGNMENT\<rparr>\<rparr>) (\<lambda>fs. Ok (True, fs)))))))
          else Ok (True, addresses)
      | None \<Rightarrow>
          if \<not> (retained_delta \<and> initialized) then Err E_depth_state_is_not_initialized
          else Ok (initialized, addresses))"

definition window_check :: "SegmentIndex \<Rightarrow> ValidatedTargetState \<Rightarrow> unit checked" where
  "window_check si target =
     andThen (ok_or (segment_reg si GRAS_SC_WINDOW_SCISSOR_TL) E_window_scissor_is_missing)
       (\<lambda>(_, window).
     andThen (index window 0) (\<lambda>w0. andThen (index window 1) (\<lambda>w1.
     if x_of w0 > x_of w1 \<or> y_of w0 > y_of w1 \<or>
        x_of w0 < x_of (vt_screen target ! 0) \<or> y_of w0 < y_of (vt_screen target ! 0) \<or>
        x_of w1 > x_of (vt_screen target ! 1) \<or> y_of w1 > y_of (vt_screen target ! 1) \<or>
        x_of w1 > x_of (vt_viewport target ! 1) \<or> y_of w1 > y_of (vt_viewport target ! 1)
     then Err E_unsafe_3D_scissor_state else Ok ())))"

text \<open>The vertex buffer of a draw: its span, and the size it puts on the address field.\<close>

definition vertex_check ::
  "SegmentIndex \<Rightarrow> packet \<Rightarrow> AddressField list \<Rightarrow> AddressField list checked" where
  "vertex_check si p addresses =
     andThen (ok_or (segment_reg si VFD_VERTEX_BUFFER_SIZE) E_VFD_buffer_layout_is_missing)
       (\<lambda>(_, vertex_layout).
     andThen (ok_or (segment_reg si VFD_INDEX_OFFSET) E_VFD_vertex_offset_is_missing)
       (\<lambda>(_, vertex_offset).
     andThen (if length (payload p) = 3 then
         andThen (index (payload p) 2) (\<lambda>vcount.
         andThen (index vertex_offset 0) (\<lambda>base_vertex.
         andThen (ok_or (checked_add vcount base_vertex) E_VFD_vertex_span_overflows) (\<lambda>cnt.
         andThen (index vertex_layout 1) (\<lambda>vstride.
         andThen (ok_or (checked_mul cnt vstride) E_VFD_vertex_span_overflows) (\<lambda>required.
         andThen (index vertex_layout 0) (\<lambda>vsize.
         guard (vsize = required) E_VFD_size_does_not_match_draw_span))))))
       else
         andThen (index vertex_offset 0) (\<lambda>base_vertex.
         andThen (ok_or (checked_add base_vertex 1) E_indexed_VFD_base_vertex_overflows) (\<lambda>cnt.
         andThen (index vertex_layout 1) (\<lambda>vstride.
         andThen (ok_or (checked_mul cnt vstride) E_indexed_VFD_base_vertex_overflows) (\<lambda>minimum.
         andThen (index vertex_layout 0) (\<lambda>vsize.
         guard (minimum \<le> vsize) E_indexed_VFD_base_vertex_is_out_of_bounds)))))) (\<lambda>_.
     andThen (ok_or (segment_reg si VFD_VERTEX_BUFFER_BASE) E_VFD_buffer_base_is_missing)
       (\<lambda>(vertex_base, _).
     andThen (ok_or (address_index addresses (vertex_base + 1)) E_VFD_address_lacks_relocation) (\<lambda>i.
     andThen (index vertex_layout 0) (\<lambda>vsize.
     Ok (addresses[i := (addresses ! i)\<lparr>af_required_size := Some (ucast vsize)\<rparr>])))))))"

text \<open>The inline texture descriptor of a segment, if it has one.\<close>

definition inline_descriptor :: "packet list \<Rightarrow> packet option" where
  "inline_descriptor ps =
     find (\<lambda>p. is_opcode p CP_LOAD_STATE6_FRAG \<and> length (payload p) = 19 \<and>
       payload p ! 0 = push_bit 14 1 OR push_bit 18 4 OR push_bit 22 1) ps"

definition descriptor_check :: "SegmentIndex \<Rightarrow> AddressField list \<Rightarrow> AddressField list checked" where
  "descriptor_check si addresses =
     (case inline_descriptor (si_packets si) of
        None \<Rightarrow> Ok addresses
      | Some p \<Rightarrow>
          let d = payload p in
          set_image_expectation addresses (word_offset p + 8)
            \<lparr>ie_mip_levels = (drop_bit 16 (d ! 2) AND 0xf) + 1, ie_format = Bgra8Unorm,
             ie_modifier = (if d ! 2 AND 3 = 3 then Tile6_3Color else Linear),
             ie_row_pitch = drop_bit 7 (d ! 5) AND 0x3fffff, ie_width = d ! 4 AND 0x7fff,
             ie_height = drop_bit 15 (d ! 4) AND 0x7fff, ie_exact_extent = True,
             ie_pitch_align = Some (d ! 5 AND 0xf),
             ie_array_pitch = Some \<lparr>ap_bytes = push_bit 12 (ucast (d ! 6 AND 0x7fffff)),
               ap_alignment = 4096\<rparr>\<rparr>)"

record draw_state =
  segment_start :: usize
  retained_pipeline :: "PipelineVariant option"
  shader_state_initialized :: bool
  target_state :: "ValidatedTargetState option"
  depth_state_initialized :: bool

definition draw_state_new :: draw_state where
  "draw_state_new = \<lparr>segment_start = 0, retained_pipeline = None, shader_state_initialized = False,
     target_state = None, depth_state_initialized = False\<rparr>"

definition draw_step ::
  "bool \<Rightarrow> packet list \<Rightarrow> Relocation list \<Rightarrow> draw_state \<times> AddressField list \<Rightarrow> usize \<times> packet \<Rightarrow>
   (draw_state \<times> AddressField list) checked" where
  "draw_step strict ps rels s ip =
     (case s of (st, addresses) \<Rightarrow> case ip of (packet_index, p) \<Rightarrow>
      if \<not> is_draw p then Ok (st, addresses)
      else
        andThen (slice ps (segment_start st) packet_index) (\<lambda>seg.
        let si = segment_index seg; retained_delta = segment_matches_retained_pipeline si in
        andThen (retain_pipeline strict si rels (retained_pipeline st) retained_delta) (\<lambda>pipeline.
        andThen (shader_transition si (shader_state_initialized st) retained_delta) (\<lambda>shaders.
        andThen (target_transition si addresses (target_state st) retained_delta) (\<lambda>(target, fs1).
        andThen (depth_transition si target fs1 (depth_state_initialized st) retained_delta)
          (\<lambda>(depth, fs2).
        andThen (window_check si target) (\<lambda>_.
        andThen (vertex_check si p fs2) (\<lambda>fs3.
        andThen (descriptor_check si fs3) (\<lambda>fs4.
        Ok (\<lparr>segment_start = packet_index + 1, retained_pipeline = pipeline,
             shader_state_initialized = shaders, target_state = Some target,
             depth_state_initialized = depth\<rparr>, fs4))))))))))"

definition validate_3d_sequences ::
  "bool \<Rightarrow> packet list \<Rightarrow> AddressField list \<Rightarrow> Relocation list \<Rightarrow> AddressField list checked" where
  "validate_3d_sequences strict ps addresses rels =
     andThen (foldM (draw_step strict ps rels) (draw_state_new, addresses) (enumerate 0 ps))
       (\<lambda>(_, fs). Ok fs)"

end
