(* ===== verification/Submit_Reloc.thy ===== *)
theory Submit_Reloc
  imports Submit_Draw
begin

text \<open>
  Texture initialization, packet stream validation, relocation and the entry points of
  \<^verbatim>\<open>src/drivers/gpu/qcom-adreno-a618/src/submit.rs\<close>. The kernel's resource tables are the parameters
  \<open>resolve\<close> and \<open>resolve_shader\<close>, the closures the driver passes; \<open>strict\<close> is the build feature
  \<^verbatim>\<open>strict-command-validation\<close>.
\<close>

section \<open>Texture initialization\<close>

text \<open>The accessors of a decoded submit return no error of their own; \<open>accessor\<close> only changes the
  error type.\<close>

definition accessor :: "(wire_error, 'a) outcome \<Rightarrow> 'a checked" where
  "accessor m = map_err (\<lambda>_. E_invalid_A6xx_submit_wire) m"

definition texture_location ::
  "DecodedSubmit \<Rightarrow> Relocation list \<Rightarrow> u32 \<Rightarrow> u64 \<Rightarrow> (u64 \<times> u64) checked" where
  "texture_location d rels word field_offset =
     (let i = length (takeWhile (\<lambda>r. pm4_word_offset r < word) rels) in
      andThen (ok_or (case get_at rels i of
          Some r \<Rightarrow> if pm4_word_offset r = word then Some r else None | None \<Rightarrow> None)
        E_texture_state_lacks_relocation) (\<lambda>rel.
      case rel_source rel of
        CanonicalShader _ \<Rightarrow> Err E_texture_state_is_not_an_attachment
      | Attachment ri \<Rightarrow>
          andThen (accessor (resource d (unat ri))) (\<lambda>found.
          andThen (ok_or found E_texture_state_attachment_is_missing) (\<lambda>res.
          andThen (ok_or (Option.bind (checked_add (range_offset res) (resource_offset rel))
                     (\<lambda>off. checked_sub off field_offset)) E_invalid_texture_state_offset) (\<lambda>off.
          Ok (attachment_token res, off))))))"

text \<open>The expectations that a descriptor write puts on its image addresses.\<close>

definition descriptor_expectations ::
  "AddressField list \<Rightarrow> packet \<Rightarrow> AddressField list checked" where
  "descriptor_expectations addresses p =
     andThen (index (payload p) 2) (\<lambda>d2.
     andThen (index (payload p) 3) (\<lambda>d3.
     andThen (index (payload p) 4) (\<lambda>d4.
     andThen (index (payload p) 5) (\<lambda>d5.
     let nv12 = is_nv12_descriptor d2; width = d3 AND 0x7fff; height = drop_bit 15 d3 AND 0x7fff in
     andThen (set_image_expectation addresses (word_offset p + 7)
       \<lparr>ie_mip_levels = (if nv12 then 1 else (drop_bit 16 d2 AND 0xf) + 1),
        ie_format = (if nv12 then Nv12Y else Bgra8Unorm),
        ie_modifier = (if d2 AND 3 = 3 then Tile6_3Color else Linear),
        ie_row_pitch = drop_bit 7 d4 AND 0x3fffff, ie_width = width, ie_height = height,
        ie_exact_extent = True, ie_pitch_align = Some (d4 AND 0xf),
        ie_array_pitch = Some \<lparr>ap_bytes = push_bit 12 (ucast (d5 AND 0x7fffff)),
          ap_alignment = 4096\<rparr>\<rparr>) (\<lambda>fs.
     if nv12 then
       (if unat width mod 2 \<noteq> 0 \<or> unat height mod 2 \<noteq> 0 then Err E_odd_NV12_extent
        else andThen (index (payload p) 8) (\<lambda>d8.
          set_image_expectation fs (word_offset p + 10)
            \<lparr>ie_mip_levels = 1, ie_format = Nv12Uv, ie_modifier = Linear,
             ie_row_pitch = drop_bit 8 d8, ie_width = width div 2, ie_height = height div 2,
             ie_exact_extent = True, ie_pitch_align = None, ie_array_pitch = None\<rparr>))
     else Ok fs)))))"

text \<open>The lookups: which state address a packet reads, and at what offset of its descriptor.\<close>

definition texture_lookup :: "packet \<Rightarrow> (u32 \<times> u64) option" where
  "texture_lookup p =
     (case pkt_header p of
        Type4 reg _ \<Rightarrow>
          if reg = SP_PS_TEXMEMOBJ_BASE then Some (word_offset p + 1, 0)
          else if reg = SP_PS_SAMPLER_BASE then Some (word_offset p + 1, 64)
          else None
      | Type7 opc _ \<Rightarrow>
          if opc = CP_LOAD_STATE6_FRAG \<and> length (payload p) = 3 \<and>
             drop_bit 18 (payload p ! 0) AND 0xf = 4
          then Some (word_offset p + 2,
                     if drop_bit 14 (payload p ! 0) AND 3 = 0 then 64 else 0)
          else None)"

definition texture_step ::
  "DecodedSubmit \<Rightarrow> Relocation list \<Rightarrow> (u64 \<times> u64) set \<times> AddressField list \<Rightarrow> packet \<Rightarrow>
   ((u64 \<times> u64) set \<times> AddressField list) checked" where
  "texture_step d rels s p =
     (case s of (initialized, addresses) \<Rightarrow>
      if is_opcode p CP_MEM_WRITE then
        andThen (descriptor_expectations addresses p) (\<lambda>fs.
        andThen (texture_location d rels (word_offset p + 1) 0) (\<lambda>loc.
        Ok (insert loc initialized, fs)))
      else case texture_lookup p of
        None \<Rightarrow> Ok (initialized, addresses)
      | Some (word, off) \<Rightarrow>
          andThen (texture_location d rels word off) (\<lambda>loc.
          if loc \<notin> initialized then Err E_texture_state_lookup_precedes_initialization
          else Ok (initialized, addresses)))"

definition validate_texture_initialization ::
  "DecodedSubmit \<Rightarrow> packet list \<Rightarrow> AddressField list \<Rightarrow> Relocation list \<Rightarrow> AddressField list checked" where
  "validate_texture_initialization d ps addresses rels =
     andThen (foldM (texture_step d rels) ({}, addresses) ps) (\<lambda>(_, fs). Ok fs)"

section \<open>Stream validation\<close>

definition copy_pm4 :: "allocator \<Rightarrow> DecodedSubmit \<Rightarrow> u32 list checked" where
  "copy_pm4 alloc d =
     andThen (guard (alloc PM4_COPY (pm4_len d)) E_PM4_copy_allocation_failed) (\<lambda>_.
     mapM (\<lambda>i. andThen (accessor (pm4_word d i)) (\<lambda>w. ok_or w E_PM4_table_changed_during_decode))
       [0..<pm4_len d])"

definition rejected_packet :: "packet \<Rightarrow> RejectedPacket" where
  "rejected_packet p =
     \<lparr>rp_kind = (case pkt_header p of Type4 _ _ \<Rightarrow> RejectedType4 | Type7 _ _ \<Rightarrow> RejectedType7),
      rp_word_offset = word_offset p,
      rp_selector = (case pkt_header p of Type4 reg _ \<Rightarrow> reg | Type7 opc _ \<Rightarrow> ucast opc),
      rp_payload_len = of_nat (length (payload p)), rp_first_value = first (payload p)\<rparr>"

text \<open>The loop of \<open>diagnose_rejected_packet\<close> over the packet iterator.\<close>

function diagnose_loop ::
  "allocator \<Rightarrow> packets \<Rightarrow> AddressField list \<Rightarrow> RejectedPacket option checked" where
  "diagnose_loop alloc it addresses =
     (case packets_next it of
        (None, it') \<Rightarrow> Ok None
      | (Some Panic, it') \<Rightarrow> Panic
      | (Some (Err e), it') \<Rightarrow> Ok None
      | (Some (Ok p), it') \<Rightarrow>
          (case validate_packet alloc addresses p of
             Ok fs \<Rightarrow> diagnose_loop alloc it' fs
           | Err e \<Rightarrow> Ok (Some (rejected_packet p))
           | Panic \<Rightarrow> Panic))"
  by pat_completeness auto
termination
proof (relation "measure (\<lambda>(alloc, it, addresses). length (pk_words it) - pk_offset it)")
  fix alloc :: allocator and it item it' oc p fs and addresses :: "AddressField list"
  assume "(item, it') = packets_next it" "item = Some oc" "oc = Ok p"
  then have "packets_next it = (Some (Ok p), it')" by simp
  note packets_next_progress [OF this]
  then show "((alloc, it', fs), alloc, it, addresses)
      \<in> measure (\<lambda>(alloc, it, addresses). length (pk_words it) - pk_offset it)"
    by simp
qed simp

definition diagnose_rejected_packet :: "allocator \<Rightarrow> u8 list \<Rightarrow> RejectedPacket option checked" where
  "diagnose_rejected_packet alloc bytes =
     (case decode bytes of
        Ok d \<Rightarrow>
          (case copy_pm4 alloc d of
             Ok words \<Rightarrow> diagnose_loop alloc (packets_new words) []
           | Err _ \<Rightarrow> Ok None
           | Panic \<Rightarrow> Panic)
      | Err _ \<Rightarrow> Ok None
      | Panic \<Rightarrow> Panic)"

definition strictly_ordered :: "AddressField list \<Rightarrow> bool" where
  "strictly_ordered fs \<longleftrightarrow>
     list_all (\<lambda>(a, b). af_word_offset a < af_word_offset b) (zip fs (tl fs))"

definition field_matches :: "AddressField \<times> Relocation \<Rightarrow> bool" where
  "field_matches ar =
     (case ar of (a, r) \<Rightarrow>
        \<not> (pm4_word_offset r \<noteq> af_word_offset a \<or> rel_access r \<noteq> af_access a \<or>
           rel_encoding r \<noteq> af_encoding a \<or> \<not> address_source_matches (af_source a) (rel_source r)))"

definition validate_pm4 ::
  "allocator \<Rightarrow> bool \<Rightarrow> DecodedSubmit \<Rightarrow> Relocation list \<Rightarrow> (u32 list \<times> AddressField list) checked" where
  "validate_pm4 alloc strict d rels =
     andThen (copy_pm4 alloc d) (\<lambda>words.
     andThen (map_err (\<lambda>_. E_malformed_PM4_packet_stream) (collect_packets (packets_new words))) (\<lambda>ps.
     andThen (guard (alloc ADDRESS_TABLE (relocation_len d))
                E_PM4_address_validation_allocation_failed) (\<lambda>_.
     andThen (foldM (validate_packet alloc) [] ps) (\<lambda>addresses.
     andThen (guard (length addresses = length rels) E_every_GPU_address_must_have_one_relocation)
       (\<lambda>_.
     andThen (guard (strictly_ordered addresses) E_GPU_address_fields_are_not_strictly_ordered) (\<lambda>_.
     andThen (validate_memcpy_barriers ps) (\<lambda>_.
     andThen (validate_ccu_transitions ps) (\<lambda>_.
     andThen (validate_render_retirement ps) (\<lambda>_.
     andThen (validate_a2d_sequences ps addresses) (\<lambda>fs1.
     andThen (validate_texture_initialization d ps fs1 rels) (\<lambda>fs2.
     andThen (validate_3d_sequences strict ps fs2 rels) (\<lambda>fs3.
     andThen (guard (list_all field_matches (zip fs3 rels))
                E_relocation_does_not_match_its_PM4_address_field) (\<lambda>_.
     Ok (words, fs3))))))))))))))"

section \<open>Relocation\<close>

definition relocate_one :: "u32 list \<Rightarrow> Relocation \<Rightarrow> ResolvedResource \<Rightarrow> u32 list checked" where
  "relocate_one words rel res =
     andThen (ok_or (checked_add (rr_gpu_va res) (rr_allocation_size res)) E_resource_GPU_VA_overflows)
       (\<lambda>end_va.
     andThen (ok_or (checked_add (rr_gpu_va res) (resource_offset rel)) E_relocated_GPU_VA_overflows)
       (\<lambda>address.
     andThen (ok_or (checked_add address (required_size rel)) E_relocated_range_overflows)
       (\<lambda>required_end.
     if required_end > end_va then Err E_relocation_exceeds_attached_allocation
     else let i = unat (pm4_word_offset rel) in
       case rel_encoding rel of
         GpuVa64 \<Rightarrow>
           andThen (ok_or (get_range words i (i + 2)) E_relocation_PM4_offset_is_invalid) (\<lambda>_.
           Ok (words[i := ucast address, i + 1 := ucast (drop_bit 32 address)]))
       | GpuVa49TexDescriptor \<Rightarrow>
           if address AND 0x1f \<noteq> 0 \<or> address \<ge> push_bit 49 1
           then Err E_texture_descriptor_address_is_invalid
           else
             andThen (ok_or (get_range words i (i + 2)) E_relocation_PM4_offset_is_invalid) (\<lambda>_.
             Ok (words[i := (words ! i AND 0x1f) OR (ucast address AND NOT 0x1f),
                       i + 1 := (words ! (i + 1) AND NOT 0x1ffff) OR
                         (ucast (drop_bit 32 address) AND 0x1ffff)])))))"

definition image_footprint :: "LinearImage \<Rightarrow> u64 option" where
  "image_footprint img =
     (case img_texture img of
        Some texture \<Rightarrow> Some (total_size texture)
      | None \<Rightarrow>
          if (img_format img = Bgra8Unorm \<or> img_format img = Nv12Y \<or> img_format img = Nv12Uv) \<and>
             img_modifier img = Linear
          then checked_mul (ucast (img_row_pitch img)) (ucast (img_height img))
          else if img_format img = Depth32Float \<and> img_modifier img = Tile6_3Depth \<or>
                  img_format img = Bgra8Unorm \<and> img_modifier img = Tile6_3Color
          then Option.bind (depth32_tile6_3_layout (img_width img) (img_height img)) (\<lambda>lay.
                 if d32_row_pitch lay = img_row_pitch img then Some (d32_layer_size lay) else None)
          else None)"

text \<open>The level loop of \<open>image_range\<close>: the first level whose range is the requested one.\<close>

fun find_level :: "LinearTextureLayout \<Rightarrow> u32 \<Rightarrow> u64 \<Rightarrow> u64 \<Rightarrow> nat list \<Rightarrow> LinearSubresource option" where
  "find_level texture layer off bytes [] = None"
| "find_level texture layer off bytes (level # levels) =
     (case subresource texture (of_nat level) layer of
        None \<Rightarrow> None
      | Some sub \<Rightarrow>
          if sub_offset sub = off \<and> sub_size sub = bytes then Some sub
          else find_level texture layer off bytes levels)"

definition image_range :: "LinearImage \<Rightarrow> u64 \<Rightarrow> u64 \<Rightarrow> LinearImage option checked" where
  "image_range img off bytes =
     (case img_format img of
        Nv12 uvo uvs \<Rightarrow>
          if off = 0 \<and> bytes = img_visible_size img then Ok (Some img)
          else if off = 0 \<and> bytes = ucast (img_row_pitch img) * ucast (img_height img)
          then Ok (Some (img\<lparr>img_format := Nv12Y, img_visible_size := bytes\<rparr>))
          else if off = uvo \<and> bytes = uvs
          then Ok (Some (img\<lparr>img_format := Nv12Uv, img_width := img_width img div 2,
                 img_height := img_height img div 2, img_visible_size := bytes\<rparr>))
          else Ok None
      | fmt \<Rightarrow>
          if off = 0 \<and> bytes = img_visible_size img then Ok (Some img)
          else if fmt = Depth32Float then
            (case image_footprint img of
               None \<Rightarrow> Ok None
             | Some layer_size \<Rightarrow>
                 if bytes \<noteq> layer_size then Ok None
                 else if layer_size = 0 then Panic
                 else if unat off mod unat layer_size \<noteq> 0 then Ok None
                 else (case checked_add off bytes of
                     None \<Rightarrow> Ok None
                   | Some fin \<Rightarrow>
                       if fin \<le> img_visible_size img then Ok (Some (img\<lparr>img_visible_size := bytes\<rparr>))
                       else Ok None))
          else (case img_texture img of
              None \<Rightarrow> Ok None
            | Some texture \<Rightarrow>
                if layer_stride texture = 0 then Panic
                else (case u32_try_from (off div ucast (layer_stride texture)) of
                    None \<Rightarrow> Ok None
                  | Some layer \<Rightarrow>
                      if layer < array_layers texture then
                        Ok (map_option (\<lambda>sub. img\<lparr>img_texture := None, img_width := sub_width sub,
                              img_height := sub_height sub, img_row_pitch := sub_row_pitch sub,
                              img_visible_size := sub_size sub\<rparr>)
                            (find_level texture layer off bytes [0..<unat (mip_levels texture)]))
                      else Ok None)))"

section \<open>The entry point\<close>

definition optional_range :: "LinearImage option \<Rightarrow> u64 \<Rightarrow> u64 \<Rightarrow> LinearImage option checked" where
  "optional_range img off bytes =
     (case img of None \<Rightarrow> Ok None | Some i \<Rightarrow> image_range i off bytes)"

definition resolve_resource ::
  "(u64 \<Rightarrow> ResolvedResource option) \<Rightarrow> DecodedSubmit \<Rightarrow> usize \<Rightarrow> ResolvedResource checked" where
  "resolve_resource resolve d i =
     andThen (accessor (resource d i)) (\<lambda>found.
     andThen (ok_or found E_resource_table_is_incomplete) (\<lambda>wire.
     andThen (ok_or (resolve (attachment_token wire)) E_resource_is_not_attached_to_this_context)
       (\<lambda>resolved.
     andThen (ok_or (checked_add (range_offset wire) (range_size wire)) E_resource_range_overflows)
       (\<lambda>range_end.
     if res_access wire AND NOT (rr_allowed_access resolved) \<noteq> 0
     then Err E_submit_exceeds_attached_resource_access_authority
     else if range_end > rr_allocation_size resolved
     then Err E_resource_range_exceeds_attached_allocation
     else
       andThen (ok_or (checked_add (rr_gpu_va resolved) (range_offset wire))
                  E_resource_range_GPU_VA_overflows) (\<lambda>va.
       andThen (optional_range (rr_linear_image resolved) (range_offset wire) (range_size wire)) (\<lambda>img.
       Ok \<lparr>rr_attachment_token = rr_attachment_token resolved, rr_gpu_va = va,
           rr_allocation_size = range_size wire, rr_allowed_access = res_access wire,
           rr_linear_image = img\<rparr>))))))"

text \<open>The bytes a blit touches, from its expectation on the image.\<close>

definition a2d_accessed_bytes :: "LinearImage \<Rightarrow> A2dExpectation \<Rightarrow> u64 option" where
  "a2d_accessed_bytes img expectation =
     (if img_modifier img = Linear then
        Option.bind (checked_mul (ucast (saturating_sub (a2d_required_height expectation) 1))
                       (ucast (a2d_row_pitch expectation))) (\<lambda>bytes.
        Option.bind (checked_mul (ucast (a2d_required_width expectation)) 4) (\<lambda>row.
        checked_add bytes row))
      else Some (img_visible_size img))"

definition check_a2d_image ::
  "AddressField \<Rightarrow> Relocation \<Rightarrow> ResolvedResource \<Rightarrow> unit checked" where
  "check_a2d_image a rel res =
     andThen (optional_range (rr_linear_image res) (resource_offset rel) (required_size rel)) (\<lambda>found.
     andThen (ok_or found E_A2D_address_must_cover_one_complete_linear_image) (\<lambda>img.
     andThen (ok_or (checked_mul (img_width img) 4) E_image_row_size_overflows) (\<lambda>row_bytes.
     andThen (ok_or (image_footprint img) E_image_layout_is_not_supported) (\<lambda>layout_size.
     if img_width img = 0 \<or> img_height img = 0 \<or> img_row_pitch img < row_bytes \<or>
        layout_size \<noteq> img_visible_size img \<or> required_size rel \<noteq> img_visible_size img
     then Err E_A2D_relocation_does_not_match_image_layout
     else
       andThen (ok_or (af_a2d a) E_A2D_relocation_lacks_semantic_bounds) (\<lambda>expectation.
       andThen (ok_or (a2d_accessed_bytes img expectation) E_A2D_byte_range_overflows) (\<lambda>accessed.
       guard (\<not> (a2d_row_pitch expectation \<noteq> img_row_pitch img \<or>
                 a2d_format expectation \<noteq> img_format img \<or>
                 a2d_modifier expectation \<noteq> img_modifier img \<or>
                 a2d_required_width expectation = 0 \<or> a2d_required_height expectation = 0 \<or>
                 a2d_required_width expectation > img_width img \<or>
                 a2d_required_height expectation > img_height img \<or>
                 accessed > required_size rel))
         E_A2D_state_exceeds_the_authorized_image_layout))))))"

fun texel_bytes :: "LinearImageFormat \<Rightarrow> u32" where
  "texel_bytes Nv12Y = 1"
| "texel_bytes Nv12Uv = 2"
| "texel_bytes _ = 4"

definition array_pitch_differs :: "LinearImage \<Rightarrow> ArrayPitchExpectation \<Rightarrow> bool" where
  "array_pitch_differs img pitch \<longleftrightarrow>
     map_option (\<lambda>bytes. bytes AND NOT (ap_alignment pitch - 1))
       (checked_add (case img_texture img of Some t \<Rightarrow> ucast (layer_stride t)
                     | None \<Rightarrow> img_visible_size img) (ap_alignment pitch - 1))
     \<noteq> Some (ap_bytes pitch)"

definition image_mismatch :: "LinearImage \<Rightarrow> ImageExpectation \<Rightarrow> u64 \<Rightarrow> u64 \<Rightarrow> bool" where
  "image_mismatch img expectation layout_size required \<longleftrightarrow>
     layout_size \<noteq> img_visible_size img \<or> required \<noteq> img_visible_size img \<or>
     ie_mip_levels expectation \<noteq> (case img_texture img of Some t \<Rightarrow> mip_levels t | None \<Rightarrow> 1) \<or>
     ie_format expectation \<noteq> img_format img \<or> ie_modifier expectation \<noteq> img_modifier img \<or>
     ie_row_pitch expectation \<noteq> img_row_pitch img \<or> ie_width expectation = 0 \<or>
     ie_height expectation = 0 \<or> ie_width expectation > img_width img \<or>
     ie_height expectation > img_height img \<or>
     (ie_exact_extent expectation \<and>
      (ie_width expectation \<noteq> img_width img \<or> ie_height expectation \<noteq> img_height img)) \<or>
     (case ie_pitch_align expectation of
        Some align \<Rightarrow> align \<noteq> (if img_modifier img = Tile6_3Color then 2 else 0) | None \<Rightarrow> False) \<or>
     (case ie_array_pitch expectation of
        Some pitch \<Rightarrow> array_pitch_differs img pitch | None \<Rightarrow> False)"

definition check_3d_image ::
  "ImageExpectation \<Rightarrow> Relocation \<Rightarrow> ResolvedResource \<Rightarrow> unit checked" where
  "check_3d_image expectation rel res =
     andThen (optional_range (rr_linear_image res) (resource_offset rel) (required_size rel)) (\<lambda>found.
     andThen (ok_or found E_3D_image_address_must_cover_one_complete_linear_image) (\<lambda>img.
     andThen (ok_or (image_footprint img) E_3D_image_layout_is_not_supported) (\<lambda>layout_size.
     if img_width img = 0 \<or> img_height img = 0
     then Err E_3D_descriptor_does_not_match_attached_image_metadata
     else
       andThen (ok_or (checked_mul (img_width img) (texel_bytes (img_format img)))
                  E_3D_row_size_overflows) (\<lambda>row_bytes.
       if img_row_pitch img < row_bytes \<or>
          image_mismatch img expectation layout_size (required_size rel)
       then Err E_3D_descriptor_does_not_match_attached_image_metadata
       else Ok ()))))"

definition relocation_resource ::
  "(ShaderVariant \<Rightarrow> ResolvedResource option) \<Rightarrow> ResolvedResource list \<Rightarrow> Relocation \<Rightarrow>
   ResolvedResource checked" where
  "relocation_resource resolve_shader resources rel =
     (case rel_source rel of
        Attachment ri \<Rightarrow> ok_or (get_at resources (unat ri)) E_relocation_resource_index_is_invalid
      | CanonicalShader variant \<Rightarrow>
          ok_or (resolve_shader variant) E_canonical_shader_is_unavailable)"

definition relocate_step ::
  "(ShaderVariant \<Rightarrow> ResolvedResource option) \<Rightarrow> ResolvedResource list \<Rightarrow> AddressField list \<Rightarrow>
   u32 list \<Rightarrow> usize \<times> Relocation \<Rightarrow> u32 list checked" where
  "relocate_step resolve_shader resources addresses words ir =
     (case ir of (i, rel) \<Rightarrow>
      andThen (relocation_resource resolve_shader resources rel) (\<lambda>res.
      if rel_access rel AND NOT (rr_allowed_access res) \<noteq> 0
      then Err E_relocation_exceeds_declared_resource_access
      else
        andThen (index addresses i) (\<lambda>a.
        if (case af_required_size a of Some req \<Rightarrow> required_size rel \<noteq> req | None \<Rightarrow> False)
        then Err E_relocation_size_does_not_match_PM4_operation
        else
          andThen (if af_complete a then check_a2d_image a rel res else Ok ()) (\<lambda>_.
          andThen (case af_image a of Some e \<Rightarrow> check_3d_image e rel res | None \<Rightarrow> Ok ()) (\<lambda>_.
          relocate_one words rel res)))))"

definition decoded_relocations :: "DecodedSubmit \<Rightarrow> Relocation list checked" where
  "decoded_relocations d =
     mapM (\<lambda>i. andThen (accessor (relocation d i)) (\<lambda>r. ok_or r E_relocation_table_is_incomplete))
       [0..<relocation_len d]"

definition validate_and_relocate ::
  "allocator \<Rightarrow> bool \<Rightarrow> u8 list \<Rightarrow> (u64 \<Rightarrow> ResolvedResource option) \<Rightarrow>
   (ShaderVariant \<Rightarrow> ResolvedResource option) \<Rightarrow> u32 list checked" where
  "validate_and_relocate alloc strict bytes resolve resolve_shader =
     andThen (map_err (\<lambda>_. E_invalid_A6xx_submit_wire) (decode bytes)) (\<lambda>d.
     andThen (guard (alloc RESOURCE_TABLE (resource_len d)) E_resource_validation_allocation_failed)
       (\<lambda>_.
     andThen (mapM (resolve_resource resolve d) [0..<resource_len d]) (\<lambda>resources.
     andThen (guard (alloc RELOCATION_TABLE (relocation_len d))
                E_relocation_validation_allocation_failed) (\<lambda>_.
     andThen (decoded_relocations d) (\<lambda>rels.
     andThen (validate_pm4 alloc strict d rels) (\<lambda>(words, addresses).
     foldM (relocate_step resolve_shader resources addresses) words (enumerate 0 rels)))))))"

end
