(* ===== verification/Wire_Format.thy ===== *)
theory Wire_Format
  imports Submit_Wire
begin

text \<open>
  Correctness of the submit wire format (\<open>Submit_Wire\<close>). \<open>wire_image\<close> is the abstract format: the
  header and the word, resource and relocation tables as one concatenation; \<open>submit_wf\<close> is what a
  submit must satisfy. The locale \<open>record_writer\<close> carries the table loops; its interpretations
  \<open>word_table\<close>, \<open>resource_table\<close> and \<open>relocation_table\<close> are the three tables. The properties:
  encoding writes exactly the image, decoding accepts exactly the images and never panics, a
  submit survives the round trip, and decoded relocations are confined.
\<close>

section \<open>Layout facts\<close>

lemmas wire_sizes = HEADER_SIZE_def RESOURCE_SIZE_def RELOCATION_SIZE_def MAX_SUBMIT_SIZE_def
  MAX_RESOURCES_def MAX_RELOCATIONS_def

lemma align_up_value:
  assumes "a = 2 ^ k"
  shows "align_up v a = Ok r \<longleftrightarrow> v + (a - 1) < 2 ^ 64 \<and> r = (v + a - 1) div a * a"
proof -
  have "1 \<le> a" using assms by simp
  have "of_nat (a - 1) = (mask k :: u64)"
    using assms by (simp add: mask_eq_exp_minus_1 of_nat_diff)
  then have "unat ((of_nat w :: u64) AND NOT (of_nat (a - 1))) = w div a * a" if "w < 2 ^ 64" for w
    using that assms by (simp add: unat_and_not_mask unat_of_nat del: of_nat_diff)
  from this [of "v + (a - 1)"] show ?thesis
    using \<open>1 \<le> a\<close> by (auto simp: align_up_def usize_checked_add_def simp del: of_nat_diff of_nat_add)
qed

definition align_up_opt :: "usize \<Rightarrow> usize \<Rightarrow> usize option" where
  "align_up_opt v a = (case align_up v a of Ok r \<Rightarrow> Some r | _ \<Rightarrow> None)"

lemma align_up_opt_eq: "align_up_opt v a = Some r \<longleftrightarrow> align_up v a = Ok r"
  by (simp add: align_up_opt_def split: outcome.split)

interpretation al_wire: aligner align_up_opt id "2 ^ 64"
proof unfold_locales
  fix a k v r :: nat
  assume "id a = 2 ^ k" "align_up_opt v a = Some r"
  then show "id r = (id v + id a - 1) div id a * id a"
    using align_up_value [of a k v r] by (simp add: align_up_opt_eq)
next
  fix a k v :: nat
  assume "id a = 2 ^ k" "id v + id a \<le> 2 ^ 64"
  moreover have "(1::nat) \<le> 2 ^ k" by simp
  ultimately have "v + (a - 1) < 2 ^ 64" by (simp del: one_le_power)
  then show "\<exists>r. align_up_opt v a = Some r"
    using \<open>id a = 2 ^ k\<close> align_up_value [of a k v] by (simp add: align_up_opt_eq)
qed

definition pad_len :: "usize \<Rightarrow> usize" where
  "pad_len n = (if odd n then 4 else 0)"

definition resources_start :: "usize \<Rightarrow> usize" where
  "resources_start n = 64 + 4 * n + pad_len n"

definition table_total :: "usize \<Rightarrow> usize \<Rightarrow> usize \<Rightarrow> usize" where
  "table_total n r q = resources_start n + 32 * r + 32 * q"

definition counts_ok :: "usize \<Rightarrow> usize \<Rightarrow> usize \<Rightarrow> bool" where
  "counts_ok n r q \<longleftrightarrow> n \<noteq> 0 \<and> r \<le> MAX_RESOURCES \<and> q \<le> MAX_RELOCATIONS \<and>
     table_total n r q \<le> MAX_SUBMIT_SIZE"

definition table_layout :: "usize \<Rightarrow> usize \<Rightarrow> usize \<Rightarrow> Layout" where
  "table_layout n r q = \<lparr>lay_total = table_total n r q, lay_pm4_offset = 64,
     lay_resources_offset = resources_start n,
     lay_relocations_offset = resources_start n + 32 * r\<rparr>"

lemma resources_start_round: "resources_start n = (71 + n * 4) div 8 * 8"
  by (cases "odd n") (auto elim!: oddE evenE simp: resources_start_def pad_len_def)

lemma layout_eq_Ok: "layout n r q = Ok l \<longleftrightarrow> counts_ok n r q \<and> l = table_layout n r q"
proof -
  have al: "align_up v 8 = Ok x \<longleftrightarrow> v + 7 < 2 ^ 64 \<and> x = (v + 8 - 1) div 8 * 8" for v x
    using align_up_value [of 8 3 v x] by simp
  show ?thesis
    by (auto simp: layout_def counts_ok_def table_layout_def table_total_def al outcome_simps
        wire_sizes resources_start_round mult.commute)
qed

lemma layout_no_panic: "layout n r q \<noteq> Panic"
  by (auto simp: layout_def align_up_def outcome_simps split: option.splits)

section \<open>Accessor laws\<close>

lemma get_bytes_value:
  "get_bytes input off n =
     (if off + n \<le> length input \<or> n = 0 then Ok (take n (drop off input)) else Panic)"
proof (induction n)
  case 0
  then show ?case by (simp add: get_bytes_def)
next
  case (Suc n)
  have app: "mapM f (xs @ [x]) = andThen (mapM f xs) (\<lambda>ys. andThen (f x) (\<lambda>y. Ok (ys @ [y])))"
    for f :: "nat \<Rightarrow> (wire_error, u8) outcome" and xs x
    by (induction xs) (simp_all add: andThen_assoc)
  show ?case
    using Suc.IH
    by (cases "off + Suc n \<le> length input")
      (auto simp: get_bytes_def app index_def take_Suc_conv_app_nth split: if_splits)
qed

lemma get_u16_value:
  "get_u16 input off =
     (if off + 2 \<le> length input then Ok (from_le_bytes (take 2 (drop off input))) else Panic)"
  by (simp add: get_u16_def get_bytes_value)

lemma get_u32_value:
  "get_u32 input off =
     (if off + 4 \<le> length input then Ok (from_le_bytes (take 4 (drop off input))) else Panic)"
  by (simp add: get_u32_def get_bytes_value)

lemma get_u64_value:
  "get_u64 input off =
     (if off + 8 \<le> length input then Ok (from_le_bytes (take 8 (drop off input))) else Panic)"
  by (simp add: get_u64_def get_bytes_value)

lemma take_drop_split: "take (m + n) (drop k xs) = take m (drop k xs) @ take n (drop (k + m) xs)"
  by (simp add: take_add add.commute)

lemma put_blank:
  "length xs = off \<Longrightarrow> length bs \<le> k \<Longrightarrow>
   put_bytes (xs @ replicate k 0) off bs = Ok (xs @ bs @ replicate (k - length bs) 0)"
  by (simp add: put_bytes_def)

lemma put_u16_blank: "length xs = off \<Longrightarrow> 2 \<le> k \<Longrightarrow>
   put_u16 (xs @ replicate k 0) off v = Ok ((xs @ to_le_bytes 2 v) @ replicate (k - 2) 0)"
  by (simp add: put_u16_def put_blank)

lemma put_u32_blank: "length xs = off \<Longrightarrow> 4 \<le> k \<Longrightarrow>
   put_u32 (xs @ replicate k 0) off v = Ok ((xs @ to_le_bytes 4 v) @ replicate (k - 4) 0)"
  by (simp add: put_u32_def put_blank)

lemma put_u64_blank: "length xs = off \<Longrightarrow> 8 \<le> k \<Longrightarrow>
   put_u64 (xs @ replicate k 0) off v = Ok ((xs @ to_le_bytes 8 v) @ replicate (k - 8) 0)"
  by (simp add: put_u64_def put_blank)

lemmas put_int_blank = put_u16_blank put_u32_blank put_u64_blank

section \<open>Tables of fixed-size records\<close>

text \<open>
  What a record writer promises to the table loops: it writes the record's bytes into a blank
  area and leaves the rest blank.
\<close>

locale record_writer =
  fixes rsize :: usize
    and put :: "u8 list \<Rightarrow> usize \<Rightarrow> 'r \<Rightarrow> (wire_error, u8 list) outcome"
    and enc :: "'r \<Rightarrow> u8 list"
  assumes length_enc: "length (enc r) = rsize"
    and put_record: "length xs = off \<Longrightarrow> rsize \<le> k \<Longrightarrow>
      put (xs @ replicate k 0) off r = Ok ((xs @ enc r) @ replicate (k - rsize) 0)"
begin

lemma put_records:
  "length xs = base + n * rsize \<Longrightarrow> rsize * length rs \<le> k \<Longrightarrow>
   foldM (\<lambda>out (i, r). put out (base + i * rsize) r) (xs @ replicate k 0) (enumerate n rs) =
     Ok ((xs @ concat (map enc rs)) @ replicate (k - rsize * length rs) 0)"
proof (induction rs arbitrary: xs n k)
  case (Cons r rs)
  have "length (xs @ enc r) = base + Suc n * rsize"
    using Cons.prems by (simp add: length_enc)
  moreover have "rsize * length rs \<le> k - rsize"
    using Cons.prems by simp
  ultimately show ?case
    using Cons.prems Cons.IH [of "xs @ enc r" "Suc n" "k - rsize"] by (simp add: put_record)
qed simp

lemma put_table_blank:
  "length xs = base \<Longrightarrow> rsize * length rs \<le> k \<Longrightarrow>
   put_table put base rsize rs (xs @ replicate k 0) =
     Ok ((xs @ concat (map enc rs)) @ replicate (k - rsize * length rs) 0)"
  using put_records [of xs base 0] by (simp add: put_table_def)

lemma length_table: "length (concat (map enc rs)) = rsize * length rs"
  by (induction rs) (simp_all add: length_enc)

lemma table_nth:
  "i < length rs \<Longrightarrow> drop (i * rsize) (concat (map enc rs)) =
     enc (rs ! i) @ concat (map enc (drop (Suc i) rs))"
proof (induction rs arbitrary: i)
  case (Cons r rs)
  then show ?case by (cases i) (simp_all add: length_enc)
qed simp

lemma table_of_chunks:
  "length zs = rsize * n \<Longrightarrow> (\<And>i. i < n \<Longrightarrow> take rsize (drop (i * rsize) zs) = enc (f i)) \<Longrightarrow>
   concat (map enc (map f [0..<n])) = zs"
proof (induction n arbitrary: zs)
  case (Suc n)
  have "drop (rsize * n) zs = enc (f n)"
    using Suc.prems(1) Suc.prems(2) [of n] by (simp add: mult.commute)
  moreover have "concat (map enc (map f [0..<n])) = take (rsize * n) zs"
  proof (rule Suc.IH)
    show "length (take (rsize * n) zs) = rsize * n" using Suc.prems(1) by simp
    fix i assume "i < n"
    then have "i * rsize + rsize \<le> rsize * n"
      by (metis Suc_leI add.commute mult.commute mult_Suc mult_le_mono2)
    then have "rsize \<le> rsize * n - i * rsize"
      by linarith
    then show "take rsize (drop (i * rsize) (take (rsize * n) zs)) = enc (f i)"
      using Suc.prems(2) [of i] \<open>i < n\<close> by (simp add: drop_take min_def)
  qed
  ultimately show ?case
    using append_take_drop_id [of "rsize * n" zs] by simp
qed simp

lemma table_iff:
  assumes "length zs = rsize * length rs"
  shows "zs = concat (map enc rs) \<longleftrightarrow>
    (\<forall>i < length rs. take rsize (drop (i * rsize) zs) = enc (rs ! i))"
proof
  assume "zs = concat (map enc rs)"
  then show "\<forall>i < length rs. take rsize (drop (i * rsize) zs) = enc (rs ! i)"
    by (simp add: table_nth length_enc)
next
  assume "\<forall>i < length rs. take rsize (drop (i * rsize) zs) = enc (rs ! i)"
  then have "concat (map enc (map ((!) rs) [0..<length rs])) = zs"
    using assms by (intro table_of_chunks) simp_all
  then show "zs = concat (map enc rs)"
    by (simp only: map_nth)
qed

end

definition resource_bytes :: "Resource \<Rightarrow> u8 list" where
  "resource_bytes r = to_le_bytes 8 (attachment_token r) @ to_le_bytes 8 (range_offset r) @
     to_le_bytes 8 (range_size r) @ to_le_bytes 4 (res_access r) @ replicate 4 0"

definition relocation_bytes :: "Relocation \<Rightarrow> u8 list" where
  "relocation_bytes rel = to_le_bytes 4 (pm4_word_offset rel) @
     to_le_bytes 4 (snd (source_fields (rel_source rel))) @ to_le_bytes 8 (resource_offset rel) @
     to_le_bytes 8 (required_size rel) @ to_le_bytes 4 (rel_access rel) @
     to_le_bytes 2 (encoding_raw (rel_encoding rel)) @
     to_le_bytes 2 (fst (source_fields (rel_source rel)))"

interpretation word_table: record_writer 4 put_u32 "to_le_bytes 4"
  by unfold_locales (simp_all only: put_u32_blank length_to_le_bytes)

lemma replicate_split: "m \<le> k \<Longrightarrow> replicate k x = replicate m x @ replicate (k - m) x"
  by (simp flip: replicate_add)

interpretation resource_table: record_writer 32 put_resource resource_bytes
proof unfold_locales
  fix xs :: "u8 list" and off k :: nat and r
  assume a: "length xs = off" "32 \<le> k"
  have "put_resource (xs @ replicate k 0) off r = Ok ((xs @ to_le_bytes 8 (attachment_token r) @
     to_le_bytes 8 (range_offset r) @ to_le_bytes 8 (range_size r) @ to_le_bytes 4 (res_access r)) @
     replicate (k - 28) 0)"
    using a by (simp add: put_resource_def put_int_blank del: append_assoc)
  then show "put_resource (xs @ replicate k 0) off r =
      Ok ((xs @ resource_bytes r) @ replicate (k - 32) 0)"
    using a replicate_split [of 4 "k - 28" "0::u8"] by (simp add: resource_bytes_def)
qed (simp add: resource_bytes_def)

interpretation relocation_table: record_writer 32 put_relocation relocation_bytes
proof unfold_locales
  fix xs :: "u8 list" and off k :: nat and rel
  assume "length xs = off" "32 \<le> k"
  then show "put_relocation (xs @ replicate k 0) off rel =
      Ok ((xs @ relocation_bytes rel) @ replicate (k - 32) 0)"
    by (simp add: put_relocation_def put_int_blank case_prod_beta relocation_bytes_def
        del: append_assoc)
qed (simp add: relocation_bytes_def)

section \<open>The abstract format\<close>

definition header_bytes :: "u16 \<Rightarrow> usize \<Rightarrow> usize \<Rightarrow> usize \<Rightarrow> u8 list" where
  "header_bytes minor n r q =
     to_le_bytes 4 MAGIC @ to_le_bytes 2 VERSION_MAJOR @ to_le_bytes 2 minor @
     to_le_bytes 2 (64 :: u16) @ to_le_bytes 2 (0 :: u16) @
     to_le_bytes 4 (of_nat (table_total n r q) :: u32) @ to_le_bytes 4 (64 :: u32) @
     to_le_bytes 4 (of_nat n :: u32) @ to_le_bytes 4 (of_nat (resources_start n) :: u32) @
     to_le_bytes 4 (of_nat r :: u32) @ to_le_bytes 4 (of_nat (resources_start n + 32 * r) :: u32) @
     to_le_bytes 4 (of_nat q :: u32) @ replicate 24 0"

definition wire_image :: "u16 \<Rightarrow> Submit \<Rightarrow> u8 list" where
  "wire_image minor s =
     header_bytes minor (length (sub_pm4 s)) (length (sub_resources s)) (length (sub_relocations s)) @
     concat (map (to_le_bytes 4) (sub_pm4 s)) @ replicate (pad_len (length (sub_pm4 s))) 0 @
     concat (map resource_bytes (sub_resources s)) @
     concat (map relocation_bytes (sub_relocations s))"

definition access_ok :: "u32 \<Rightarrow> bool" where
  "access_ok a \<longleftrightarrow> a \<noteq> 0 \<and> a AND NOT ACCESS_MASK = 0"

definition resource_ok :: "Resource \<Rightarrow> bool" where
  "resource_ok r \<longleftrightarrow> access_ok (res_access r) \<and> attachment_token r \<noteq> 0 \<and> range_size r \<noteq> 0 \<and>
     unat (range_offset r) + unat (range_size r) < 2 ^ 64"

definition source_ok :: "Resource list \<Rightarrow> Relocation \<Rightarrow> bool" where
  "source_ok resources rel \<longleftrightarrow>
     (case rel_source rel of
        Attachment i \<Rightarrow> unat i < length resources \<and>
          rel_access rel AND NOT (res_access (resources ! unat i)) = 0 \<and> required_size rel \<noteq> 0 \<and>
          unat (resource_offset rel) + unat (required_size rel)
            \<le> unat (range_size (resources ! unat i))
      | CanonicalShader v \<Rightarrow> resource_offset rel = 0 \<and>
          required_size rel = of_nat (shader_size v) \<and> rel_access rel = ACCESS_READ \<and>
          rel_encoding rel = GpuVa64)"

definition relocation_ok :: "u32 list \<Rightarrow> Resource list \<Rightarrow> Relocation \<Rightarrow> bool" where
  "relocation_ok pm4 resources rel \<longleftrightarrow>
     access_ok (rel_access rel) \<and> source_ok resources rel \<and>
     unat (pm4_word_offset rel) + 2 < 2 ^ 32 \<and> unat (pm4_word_offset rel) + 2 \<le> length pm4 \<and>
     placeholder_is_valid (rel_encoding rel)
       [pm4 ! unat (pm4_word_offset rel), pm4 ! (unat (pm4_word_offset rel) + 1)]"

definition rel_before :: "Relocation \<Rightarrow> Relocation \<Rightarrow> bool" where
  "rel_before a b \<longleftrightarrow> unat (pm4_word_offset a) + 2 \<le> unat (pm4_word_offset b)"

definition submit_wf :: "Submit \<Rightarrow> bool" where
  "submit_wf s \<longleftrightarrow>
     counts_ok (length (sub_pm4 s)) (length (sub_resources s)) (length (sub_relocations s)) \<and>
     list_all resource_ok (sub_resources s) \<and>
     list_all (relocation_ok (sub_pm4 s) (sub_resources s)) (sub_relocations s) \<and>
     sorted_wrt rel_before (sub_relocations s)"

section \<open>Validation against the specification\<close>

lemma validate_access_eq: "validate_access a = (if access_ok a then Ok () else Err InvalidField)"
  by (simp add: validate_access_def access_ok_def)

lemma validate_resource_eq:
  "validate_resource r = (if resource_ok r then Ok () else Err InvalidField)"
  by (auto simp: validate_resource_def validate_access_eq resource_ok_def checked_add_def)

lemma word_count_two [simp]: "word_count e = 2"
  by (cases e) simp_all

lemma validate_source_eq_Ok:
  assumes "\<And>i. lookup i = Ok (get_at resources i)"
  shows "validate_source rel lookup = Ok () \<longleftrightarrow> source_ok resources rel"
proof (cases "rel_source rel")
  case (Attachment i)
  have "(\<exists>z. checked_add (resource_offset rel) (required_size rel) = Some z \<and> \<not> bnd < z) \<longleftrightarrow>
      unat (resource_offset rel) + unat (required_size rel) \<le> unat bnd" for bnd
    using unat_u64_bound [of bnd] by (auto simp: checked_add_def word_less_nat_alt unat_add_no_wrap)
  then show ?thesis
    by (auto simp: validate_source_def source_ok_def assms Attachment outcome_simps)
qed (simp add: validate_source_def source_ok_def)

lemma validate_source_no_panic:
  assumes "\<And>i. lookup i = Ok (get_at resources i)"
  shows "validate_source rel lookup \<noteq> Panic"
  by (auto simp: validate_source_def assms outcome_simps split: RelocationSource.splits)

lemma take_two: "i + 2 \<le> length xs \<Longrightarrow> take 2 (drop i xs) = [xs ! i, xs ! (i + 1)]"
  by (simp add: numeral_2_eq_2 take_Suc_conv_app_nth)

lemma word_end_eq:
  "checked_add off 2 = Some e \<longleftrightarrow> unat (off :: u32) + 2 < 2 ^ 32 \<and> e = off + 2"
  by (auto simp: checked_add_def)

lemma unat_word_end: "unat (off :: u32) + 2 < 2 ^ 32 \<Longrightarrow> unat (off + 2) = unat off + 2"
  using unat_add_no_wrap [of off 2] by simp

lemma validate_relocation_eq_Ok:
  "validate_relocation rel prev pm4 resources = Ok () \<longleftrightarrow>
     relocation_ok pm4 resources rel \<and> \<not> previous_exceeds prev (pm4_word_offset rel)"
  by (auto simp: validate_relocation_def validate_access_eq relocation_ok_def word_end_eq
      unat_word_end outcome_simps take_two validate_source_eq_Ok)

lemma validate_relocation_no_panic: "validate_relocation rel prev pm4 resources \<noteq> Panic"
  by (auto simp: validate_relocation_def validate_access_eq word_end_eq unat_word_end
      outcome_simps validate_source_no_panic)

lemma not_previous_exceeds:
  "unat (off :: u32) + 2 < 2 ^ 32 \<Longrightarrow> \<not> previous_exceeds (Some (off + 2)) p \<longleftrightarrow> unat off + 2 \<le> unat p"
  by (auto simp: previous_exceeds_def word_less_nat_alt unat_word_end)

lemma encode_check_eq_Ok:
  "encode_check s prev rel = Ok p \<longleftrightarrow> relocation_ok (sub_pm4 s) (sub_resources s) rel \<and>
     \<not> previous_exceeds prev (pm4_word_offset rel) \<and> p = checked_add (pm4_word_offset rel) 2"
  by (auto simp: encode_check_def outcome_simps validate_relocation_eq_Ok)

lemma encode_check_loop:
  "(\<exists>p. foldM (encode_check s) prev rels = Ok p) \<longleftrightarrow>
     list_all (relocation_ok (sub_pm4 s) (sub_resources s)) rels \<and> sorted_wrt rel_before rels \<and>
     (\<forall>rel\<in>set rels. \<not> previous_exceeds prev (pm4_word_offset rel))"
proof (induction rels arbitrary: prev)
  case (Cons rel rels)
  let ?p = "checked_add (pm4_word_offset rel) 2"
  have mono: "\<not> previous_exceeds prev (pm4_word_offset x)"
    if "\<not> previous_exceeds prev (pm4_word_offset rel)" "rel_before rel x" for x
    using that by (auto simp: previous_exceeds_def rel_before_def word_less_nat_alt split: option.splits)
  have "relocation_ok (sub_pm4 s) (sub_resources s) rel \<Longrightarrow>
      \<not> previous_exceeds ?p (pm4_word_offset x) \<longleftrightarrow> rel_before rel x" for x
    by (simp add: relocation_ok_def checked_add_def not_previous_exceeds rel_before_def)
  then show ?case
    using mono by (auto simp: outcome_simps encode_check_eq_Ok Cons.IH)
qed simp

lemma encode_check_no_panic: "foldM (encode_check s) prev rels \<noteq> Panic"
  by (induction rels arbitrary: prev)
    (auto simp: encode_check_def outcome_simps validate_relocation_no_panic)

lemma resource_loop:
  "foldM (\<lambda>_ r. validate_resource r) () rs = Ok () \<longleftrightarrow> list_all resource_ok rs"
  by (induction rs) (auto simp: validate_resource_eq)

lemma resource_loop_no_panic: "foldM (\<lambda>_ r. validate_resource r) () rs \<noteq> Panic"
  by (induction rs) (auto simp: validate_resource_eq)

section \<open>Encoding writes the image\<close>

lemma put_header_blank:
  assumes "64 \<le> k" "l = table_layout (length (sub_pm4 s)) (length (sub_resources s))
    (length (sub_relocations s))"
  shows "put_header l s (replicate k 0) = Ok (header_bytes 1 (length (sub_pm4 s))
    (length (sub_resources s)) (length (sub_relocations s)) @ replicate (k - 64) 0)"
proof -
  let ?h = "take 40 (header_bytes 1 (length (sub_pm4 s)) (length (sub_resources s))
      (length (sub_relocations s)))"
  have "put_u32 (replicate k 0) 0 MAGIC = Ok (to_le_bytes 4 MAGIC @ replicate (k - 4) 0)"
    using assms put_u32_blank [of "[]" 0 k MAGIC] by simp
  then have "put_header l s (replicate k 0) = Ok (?h @ replicate (k - 40) 0)"
    using assms
    by (simp add: put_header_def put_int_blank header_bytes_def table_layout_def HEADER_SIZE_def
        VERSION_MINOR_def del: append_assoc)
  also have "replicate (k - 40) (0::u8) = replicate 24 0 @ replicate (k - 64) 0"
    using assms replicate_split [of 24 "k - 40" "0::u8"] by simp
  also have "?h @ replicate 24 0 @ replicate (k - 64) 0 = header_bytes 1 (length (sub_pm4 s))
    (length (sub_resources s)) (length (sub_relocations s)) @ replicate (k - 64) 0"
    by (simp add: header_bytes_def)
  finally show ?thesis .
qed

lemma length_header_bytes: "length (header_bytes m n r q) = 64"
  by (simp add: header_bytes_def)

lemma length_wire_image:
  "length (wire_image m s) =
     table_total (length (sub_pm4 s)) (length (sub_resources s)) (length (sub_relocations s))"
  by (simp add: wire_image_def length_header_bytes word_table.length_table
      resource_table.length_table relocation_table.length_table table_total_def resources_start_def
      del: map_concat length_concat)

lemma encode_eq_Ok:
  "encode s output = Ok bytes \<longleftrightarrow>
     submit_wf s \<and> length output = length (wire_image 1 s) \<and> bytes = wire_image 1 s"
proof -
  let ?n = "length (sub_pm4 s)" and ?r = "length (sub_resources s)"
    and ?q = "length (sub_relocations s)"
  let ?l = "table_layout ?n ?r ?q" and ?k = "table_total ?n ?r ?q"
  let ?h = "header_bytes 1 ?n ?r ?q" and ?w = "concat (map (to_le_bytes 4) (sub_pm4 s))"
    and ?rs = "concat (map resource_bytes (sub_resources s))"
    and ?pad = "replicate (pad_len ?n) (0::u8)"
  note lens = length_header_bytes word_table.length_table resource_table.length_table
  have k: "?k = 64 + 4 * ?n + pad_len ?n + 32 * ?r + 32 * ?q"
    by (simp add: table_total_def resources_start_def)
  have o1: "put_header ?l s (replicate ?k 0) = Ok (?h @ replicate (?k - 64) 0)"
    by (intro put_header_blank) (simp_all add: k)
  have o2: "put_table put_u32 (lay_pm4_offset ?l) 4 (sub_pm4 s) (?h @ replicate (?k - 64) 0) =
      Ok ((?h @ ?w) @ replicate (?k - 64 - 4 * ?n) 0)"
    by (intro word_table.put_table_blank) (simp_all add: k lens table_layout_def)
  have "?k - 64 - 4 * ?n = pad_len ?n + (32 * ?r + 32 * ?q)" by (simp add: k)
  then have pad: "(?h @ ?w) @ replicate (?k - 64 - 4 * ?n) 0 =
      (?h @ ?w @ ?pad) @ replicate (32 * ?r + 32 * ?q) 0"
    by (simp add: replicate_add)
  have o3: "put_table put_resource (lay_resources_offset ?l) RESOURCE_SIZE (sub_resources s)
      ((?h @ ?w @ ?pad) @ replicate (32 * ?r + 32 * ?q) 0) =
      Ok (((?h @ ?w @ ?pad) @ ?rs) @ replicate (32 * ?r + 32 * ?q - 32 * ?r) 0)"
    unfolding RESOURCE_SIZE_def
    by (intro resource_table.put_table_blank) (simp_all add: lens table_layout_def resources_start_def)
  have o4: "put_table put_relocation (lay_relocations_offset ?l) RELOCATION_SIZE (sub_relocations s)
      (((?h @ ?w @ ?pad) @ ?rs) @ replicate (32 * ?q) 0) =
      Ok ((((?h @ ?w @ ?pad) @ ?rs) @ concat (map relocation_bytes (sub_relocations s))) @
        replicate (32 * ?q - 32 * ?q) 0)"
    unfolding RELOCATION_SIZE_def
    by (intro relocation_table.put_table_blank) (simp_all add: lens table_layout_def resources_start_def)
  have chain: "andThen (put_header ?l s (replicate ?k 0)) (\<lambda>o1.
       andThen (put_table put_u32 (lay_pm4_offset ?l) 4 (sub_pm4 s) o1) (\<lambda>o2.
       andThen (put_table put_resource (lay_resources_offset ?l) RESOURCE_SIZE (sub_resources s) o2)
         (\<lambda>o3.
       put_table put_relocation (lay_relocations_offset ?l) RELOCATION_SIZE (sub_relocations s) o3))) =
       Ok (wire_image 1 s)"
    by (simp only: o1 o2 pad o3 o4 andThen.simps add_diff_cancel_left') (simp add: wire_image_def)
  have ex: "(\<exists>p. foldM (encode_check s) None (sub_relocations s) = Ok p) \<longleftrightarrow>
      list_all (relocation_ok (sub_pm4 s) (sub_resources s)) (sub_relocations s) \<and>
      sorted_wrt rel_before (sub_relocations s)"
    by (simp add: encode_check_loop previous_exceeds_def)
  show ?thesis
  proof (cases "counts_ok ?n ?r ?q \<and> length output = ?k")
    case True
    have total: "lay_total ?l = ?k" by (simp add: table_layout_def)
    have "encode s output = andThen (foldM (\<lambda>_ r. validate_resource r) () (sub_resources s)) (\<lambda>_.
       andThen (foldM (encode_check s) None (sub_relocations s)) (\<lambda>_. Ok (wire_image 1 s)))"
      using True layout_eq_Ok [of ?n ?r ?q ?l] chain by (simp add: encode_def total)
    then show ?thesis
      using True ex resource_loop [of "sub_resources s"]
      by (auto simp: outcome_simps submit_wf_def length_wire_image)
  next
    case False
    then show ?thesis
      by (auto simp: encode_def outcome_simps layout_eq_Ok submit_wf_def length_wire_image
          table_layout_def)
  qed
qed

lemma encode_no_panic: "encode s output \<noteq> Panic"
proof
  assume p: "encode s output = Panic"
  let ?n = "length (sub_pm4 s)" and ?r = "length (sub_resources s)"
    and ?q = "length (sub_relocations s)"
  have "counts_ok ?n ?r ?q" "length output = table_total ?n ?r ?q"
    "list_all resource_ok (sub_resources s)"
    "\<exists>p. foldM (encode_check s) None (sub_relocations s) = Ok p"
    using p resource_loop [of "sub_resources s"]
    by (auto simp: encode_def outcome_simps layout_eq_Ok layout_no_panic resource_loop_no_panic
        encode_check_no_panic table_layout_def split: if_splits)
  then have "submit_wf s"
    by (simp add: submit_wf_def encode_check_loop previous_exceeds_def)
  with \<open>length output = _\<close> have "encode s output = Ok (wire_image 1 s)"
    by (simp add: encode_eq_Ok length_wire_image)
  with p show False by simp
qed

section \<open>Decoded views\<close>

definition word_at :: "u8 list \<Rightarrow> usize \<Rightarrow> u32" where
  "word_at bytes off = from_le_bytes (take 4 (drop off bytes))"

definition half_at :: "u8 list \<Rightarrow> usize \<Rightarrow> u16" where
  "half_at bytes off = from_le_bytes (take 2 (drop off bytes))"

definition long_at :: "u8 list \<Rightarrow> usize \<Rightarrow> u64" where
  "long_at bytes off = from_le_bytes (take 8 (drop off bytes))"

definition resource_at :: "u8 list \<Rightarrow> usize \<Rightarrow> Resource" where
  "resource_at bytes off = \<lparr>attachment_token = long_at bytes off, range_offset = long_at bytes (off + 8),
     range_size = long_at bytes (off + 16), res_access = word_at bytes (off + 24)\<rparr>"

definition source_at :: "u8 list \<Rightarrow> usize \<Rightarrow> RelocationSource option" where
  "source_at bytes off =
     (if half_at bytes (off + 30) = 0 then Some (Attachment (word_at bytes (off + 4)))
      else if half_at bytes (off + 30) = 1 \<and> 1 \<le> half_at bytes 6
      then map_option CanonicalShader
        (Option.bind (u16_try_from (word_at bytes (off + 4))) shader_from_raw)
      else None)"

definition encoding_at :: "u8 list \<Rightarrow> usize \<Rightarrow> AddressEncoding option" where
  "encoding_at bytes off =
     (if half_at bytes (off + 28) = 1 then Some GpuVa64
      else if half_at bytes (off + 28) = 3 then Some GpuVa49TexDescriptor else None)"

definition relocation_at :: "u8 list \<Rightarrow> usize \<Rightarrow> Relocation option" where
  "relocation_at bytes off =
     (case (source_at bytes off, encoding_at bytes off) of
        (Some source, Some enc) \<Rightarrow> Some \<lparr>pm4_word_offset = word_at bytes off, rel_source = source,
          resource_offset = long_at bytes (off + 8), required_size = long_at bytes (off + 16),
          rel_access = word_at bytes (off + 24), rel_encoding = enc\<rparr>
      | _ \<Rightarrow> None)"

definition decoded_ok :: "DecodedSubmit \<Rightarrow> bool" where
  "decoded_ok d \<longleftrightarrow>
     ds_layout d = table_layout (ds_pm4_count d) (ds_resource_count d) (ds_relocation_count d) \<and>
     length (ds_bytes d) = table_total (ds_pm4_count d) (ds_resource_count d) (ds_relocation_count d)"

definition view_pm4 :: "DecodedSubmit \<Rightarrow> u32 list" where
  "view_pm4 d = map (\<lambda>i. word_at (ds_bytes d) (64 + i * 4)) [0..<ds_pm4_count d]"

definition resources_base :: "DecodedSubmit \<Rightarrow> usize" where
  "resources_base d = resources_start (ds_pm4_count d)"

definition relocations_base :: "DecodedSubmit \<Rightarrow> usize" where
  "relocations_base d = resources_base d + 32 * ds_resource_count d"

definition view_resources :: "DecodedSubmit \<Rightarrow> Resource list" where
  "view_resources d =
     map (\<lambda>i. resource_at (ds_bytes d) (resources_base d + i * 32)) [0..<ds_resource_count d]"

definition view_relocation :: "DecodedSubmit \<Rightarrow> usize \<Rightarrow> Relocation option" where
  "view_relocation d i = relocation_at (ds_bytes d) (relocations_base d + i * 32)"

lemma decoded_bounds:
  assumes "decoded_ok d"
  shows "i < ds_pm4_count d \<Longrightarrow> 64 + i * 4 + 4 \<le> length (ds_bytes d)"
    and "i < ds_resource_count d \<Longrightarrow> resources_base d + i * 32 + 32 \<le> length (ds_bytes d)"
    and "i < ds_relocation_count d \<Longrightarrow> relocations_base d + i * 32 + 32 \<le> length (ds_bytes d)"
  using assms
  by (simp_all add: decoded_ok_def table_total_def resources_start_def resources_base_def
      relocations_base_def)

lemma pm4_word_view: "decoded_ok d \<Longrightarrow> pm4_word d i = Ok (get_at (view_pm4 d) i)"
  using decoded_bounds(1) [of d i]
  by (auto simp: pm4_word_def decoded_ok_def table_layout_def get_u32_value get_at_def view_pm4_def
      word_at_def)

lemma resource_view: "decoded_ok d \<Longrightarrow> resource d i = Ok (get_at (view_resources d) i)"
  using decoded_bounds(2) [of d i]
  by (cases "i < ds_resource_count d") (simp_all add: resource_def decoded_ok_def table_layout_def get_u32_value get_u64_value get_at_def
      view_resources_def resource_at_def Let_def word_at_def long_at_def RESOURCE_SIZE_def resources_base_def)

lemma relocation_view:
  assumes "decoded_ok d"
  shows "relocation d i = Ok (if i < ds_relocation_count d then view_relocation d i else None)"
proof (cases "i < ds_relocation_count d")
  case True
  let ?off = "relocations_base d + i * 32"
  have b: "?off + 32 \<le> length (ds_bytes d)" "64 \<le> length (ds_bytes d)"
    using decoded_bounds(3) [OF assms True] by (simp_all add: relocations_base_def resources_base_def
        resources_start_def)
  have src: "relocation_source_at (ds_bytes d) ?off = Ok (source_at (ds_bytes d) ?off)"
    using b by (auto simp: relocation_source_at_def source_at_def get_u16_value get_u32_value
        word_at_def half_at_def)
  have off: "lay_relocations_offset (ds_layout d) + i * RELOCATION_SIZE = ?off"
    using assms by (simp add: decoded_ok_def table_layout_def RELOCATION_SIZE_def relocations_base_def
        resources_base_def)
  show ?thesis
    using True b
    by (simp add: relocation_def off src view_relocation_def relocation_at_def get_u16_value
        get_u32_value get_u64_value encoding_at_def encoding_from_raw_def word_at_def half_at_def
        long_at_def Let_def split: option.split)
qed (simp add: relocation_def)

section \<open>Record codecs\<close>

lemma take_drop_inner: "i + m \<le> n \<Longrightarrow> take m (drop i (take n xs)) = take m (drop i xs)"
  by (simp add: drop_take min_def)

lemma field_of_chunk:
  assumes "take n (drop off bytes) = xs" "i + m \<le> n"
  shows "take m (drop (off + i) bytes) = take m (drop i xs)"
  using assms take_drop_inner [of i m n "drop off bytes"] by (auto simp: add.commute)

lemma le_at_inject:
  assumes "off + 2 \<le> length bytes" shows "to_le_bytes 2 (half_at bytes off) = take 2 (drop off bytes)"
  using le16.enc_get [OF assms] by (simp add: half_at_def)

lemma le_at_inject4:
  assumes "off + 4 \<le> length bytes" shows "to_le_bytes 4 (word_at bytes off) = take 4 (drop off bytes)"
  using le32.enc_get [OF assms] by (simp add: word_at_def)

lemma le_at_inject8:
  assumes "off + 8 \<le> length bytes" shows "to_le_bytes 8 (long_at bytes off) = take 8 (drop off bytes)"
  using le64.enc_get [OF assms] by (simp add: long_at_def)

lemmas le_at = le_at_inject le_at_inject4 le_at_inject8

lemma take_32_fields:
  "take 32 (drop off bytes) = take 8 (drop off bytes) @ take 8 (drop (off + 8) bytes) @
     take 8 (drop (off + 16) bytes) @ take 4 (drop (off + 24) bytes) @ take 4 (drop (off + 28) bytes)"
  "take 32 (drop off bytes) = take 4 (drop off bytes) @ take 4 (drop (off + 4) bytes) @
     take 8 (drop (off + 8) bytes) @ take 8 (drop (off + 16) bytes) @ take 4 (drop (off + 24) bytes) @
     take 2 (drop (off + 28) bytes) @ take 2 (drop (off + 30) bytes)"
  using take_drop_split [of 8 24 off bytes] take_drop_split [of 8 16 "off + 8" bytes]
    take_drop_split [of 8 8 "off + 16" bytes] take_drop_split [of 4 4 "off + 24" bytes]
    take_drop_split [of 4 4 off bytes] take_drop_split [of 2 2 "off + 28" bytes]
  by (simp_all add: add.assoc add.commute [of 30 off])

lemma resource_at_iff:
  assumes "off + 32 \<le> length bytes"
  shows "word_at bytes (off + 28) = 0 \<and> resource_at bytes off = r \<longleftrightarrow>
    take 32 (drop off bytes) = resource_bytes r"
proof
  assume a: "word_at bytes (off + 28) = 0 \<and> resource_at bytes off = r"
  have "take 4 (drop (off + 28) bytes) = to_le_bytes 4 (0 :: u32)"
    using a assms le_at_inject4 [of "off + 28" bytes] by simp
  also have "\<dots> = replicate 4 0"
    by (simp add: to_le_bytes_def numeral_eq_Suc)
  finally show "take 32 (drop off bytes) = resource_bytes r"
    using a assms by (auto simp: take_32_fields(1) resource_bytes_def resource_at_def le_at)
next
  assume a: "take 32 (drop off bytes) = resource_bytes r"
  note f = field_of_chunk [OF a]
  have "replicate 4 0 = to_le_bytes 4 (0 :: u32)"
    by (simp add: to_le_bytes_def numeral_eq_Suc)
  then have "word_at bytes (off + 28) = 0"
    using f [of 28 4] le32.dec_enc [of 0] by (simp add: word_at_def resource_bytes_def)
  moreover have "long_at bytes off = attachment_token r"
    using f [of 0 8] by (simp add: long_at_def resource_bytes_def le64.dec_enc)
  moreover have "long_at bytes (off + 8) = range_offset r" "long_at bytes (off + 16) = range_size r"
    using f [of 8 8] f [of 16 8] by (simp_all add: long_at_def resource_bytes_def le64.dec_enc)
  moreover have "word_at bytes (off + 24) = res_access r"
    using f [of 24 4] by (simp add: word_at_def resource_bytes_def le32.dec_enc)
  ultimately show "word_at bytes (off + 28) = 0 \<and> resource_at bytes off = r"
    by (simp add: resource_at_def)
qed

fun is_attachment :: "RelocationSource \<Rightarrow> bool" where
  "is_attachment (Attachment i) = True"
| "is_attachment (CanonicalShader v) = False"

lemma u16_try_from_eq: "u16_try_from w = Some v \<longleftrightarrow> w = ucast v"
proof
  assume "u16_try_from w = Some v"
  then have "unat w < 2 ^ LENGTH(16)" "v = ucast w"
    by (auto simp: u16_try_from_def word_le_nat_alt split: if_splits)
  then show "w = ucast v" using ucast_down_up [of w, where 'b = 16] by simp
next
  assume "w = ucast v"
  moreover have "unat (ucast v :: u32) = unat v" by (rule unat_ucast_up) simp
  moreover have "unat v < 2 ^ 16" using unat_bound [of v] by simp
  ultimately show "u16_try_from w = Some v"
    using ucast_up_down [of v, where 'b = 32] by (simp add: u16_try_from_def word_le_nat_alt)
qed

lemma shader_from_raw_eq: "shader_from_raw r = Some v \<longleftrightarrow> r = shader_raw v"
proof -
  have less: "r < 15 \<longleftrightarrow> unat r < 15" by (simp add: word_less_nat_alt)
  have "unat r < 15 \<Longrightarrow> ShaderVariant_ALL ! unat r = v \<longleftrightarrow> r = shader_raw v"
    by (metis raw_index_nth shader_variants_nth unat_shader_raw word_unat_eq_iff)
  then show ?thesis
    using raw_index_bound [of v]
    by (auto simp: shader_from_raw_def length_shader_variants less unat_shader_raw)
qed

lemma source_at_eq:
  "source_at bytes off = Some src \<longleftrightarrow>
     source_fields src = (half_at bytes (off + 30), word_at bytes (off + 4)) \<and>
     (is_attachment src \<or> half_at bytes 6 \<noteq> 0)"
proof -
  have pos: "1 \<le> (w :: u16) \<longleftrightarrow> w \<noteq> 0" for w
    by (metis linorder_not_le word_less_1)
  show ?thesis
    by (cases src)
      (auto simp: source_at_def pos u16_try_from_eq shader_from_raw_eq bind_eq_Some_conv)
qed

lemma encoding_at_eq: "encoding_at bytes off = Some e \<longleftrightarrow> encoding_raw e = half_at bytes (off + 28)"
  by (cases e) (auto simp: encoding_at_def)

lemma relocation_at_fields:
  "relocation_at bytes off = Some rel \<longleftrightarrow>
     source_fields (rel_source rel) = (half_at bytes (off + 30), word_at bytes (off + 4)) \<and>
     (is_attachment (rel_source rel) \<or> half_at bytes 6 \<noteq> 0) \<and>
     encoding_raw (rel_encoding rel) = half_at bytes (off + 28) \<and>
     pm4_word_offset rel = word_at bytes off \<and> resource_offset rel = long_at bytes (off + 8) \<and>
     required_size rel = long_at bytes (off + 16) \<and> rel_access rel = word_at bytes (off + 24)"
proof -
  have "relocation_at bytes off = Some rel \<longleftrightarrow>
      (\<exists>src e. source_at bytes off = Some src \<and> encoding_at bytes off = Some e \<and>
        rel = \<lparr>pm4_word_offset = word_at bytes off, rel_source = src,
          resource_offset = long_at bytes (off + 8), required_size = long_at bytes (off + 16),
          rel_access = word_at bytes (off + 24), rel_encoding = e\<rparr>)"
    by (auto simp: relocation_at_def split: option.splits)
  then show ?thesis
    by (cases rel) (auto simp: source_at_eq encoding_at_eq)
qed

lemma relocation_at_iff:
  assumes "off + 32 \<le> length bytes"
  shows "relocation_at bytes off = Some rel \<longleftrightarrow>
    take 32 (drop off bytes) = relocation_bytes rel \<and>
    (is_attachment (rel_source rel) \<or> half_at bytes 6 \<noteq> 0)"
proof -
  have "take 32 (drop off bytes) = relocation_bytes rel \<longleftrightarrow>
     pm4_word_offset rel = word_at bytes off \<and>
     source_fields (rel_source rel) = (half_at bytes (off + 30), word_at bytes (off + 4)) \<and>
     resource_offset rel = long_at bytes (off + 8) \<and>
     required_size rel = long_at bytes (off + 16) \<and> rel_access rel = word_at bytes (off + 24) \<and>
     encoding_raw (rel_encoding rel) = half_at bytes (off + 28)"
    using assms
    by (auto simp: take_32_fields(2) relocation_bytes_def prod_eq_iff le16.enc_inject le32.enc_inject
        le64.enc_inject simp flip: le_at)
  then show ?thesis
    by (auto simp: relocation_at_fields)
qed

section \<open>Images and their parts\<close>

lemma append_segments:
  assumes "length as = k"
  shows "zs = as @ bs \<longleftrightarrow> take k zs = as \<and> drop k zs = bs"
  using assms by (metis append_eq_conv_conj)

lemma wire_image_iff:
  assumes "length (sub_pm4 s) = n" "length (sub_resources s) = r" "length (sub_relocations s) = q"
    and "length bytes = table_total n r q"
  shows "bytes = wire_image m s \<longleftrightarrow>
    take 64 bytes = header_bytes m n r q \<and>
    (\<forall>i < n. take 4 (drop (64 + i * 4) bytes) = to_le_bytes 4 (sub_pm4 s ! i)) \<and>
    take (pad_len n) (drop (64 + 4 * n) bytes) = replicate (pad_len n) 0 \<and>
    (\<forall>i < r. take 32 (drop (resources_start n + i * 32) bytes) =
       resource_bytes (sub_resources s ! i)) \<and>
    (\<forall>i < q. take 32 (drop (resources_start n + 32 * r + i * 32) bytes) =
       relocation_bytes (sub_relocations s ! i))"
proof -
  let ?w = "concat (map (to_le_bytes 4) (sub_pm4 s))"
    and ?rs = "concat (map resource_bytes (sub_resources s))"
    and ?qs = "concat (map relocation_bytes (sub_relocations s))"
    and ?pad = "replicate (pad_len n) (0::u8)"
  let ?b = "resources_start n" let ?c = "?b + 32 * r"
  have len: "length bytes = 64 + 4 * n + pad_len n + 32 * r + 32 * q" "?b = 64 + 4 * n + pad_len n"
    using assms(4) by (simp_all add: table_total_def resources_start_def)
  have parts: "bytes = wire_image m s \<longleftrightarrow> take 64 bytes = header_bytes m n r q \<and>
      take (4 * n) (drop 64 bytes) = ?w \<and> take (pad_len n) (drop (64 + 4 * n) bytes) = ?pad \<and>
      take (32 * r) (drop ?b bytes) = ?rs \<and> drop ?c bytes = ?qs"
    unfolding wire_image_def assms(1-3) len(2)
    by (subst append_segments [of _ 64], simp add: length_header_bytes)
      (subst append_segments [of _ "4 * n"], simp add: word_table.length_table assms,
       subst append_segments [of _ "pad_len n"], simp,
       subst append_segments [of _ "32 * r"], simp add: resource_table.length_table assms,
       simp add: add_ac)
  have "take (4 * n) (drop 64 bytes) = ?w \<longleftrightarrow>
      (\<forall>i < n. take 4 (drop (64 + i * 4) bytes) = to_le_bytes 4 (sub_pm4 s ! i))"
    using len assms
    by (subst word_table.table_iff) (auto simp: take_drop_inner add_ac)
  moreover have "take (32 * r) (drop ?b bytes) = ?rs \<longleftrightarrow>
      (\<forall>i < r. take 32 (drop (?b + i * 32) bytes) = resource_bytes (sub_resources s ! i))"
    using len assms
    by (subst resource_table.table_iff) (auto simp: take_drop_inner add_ac)
  moreover have "drop ?c bytes = ?qs \<longleftrightarrow>
      (\<forall>i < q. take 32 (drop (?c + i * 32) bytes) = relocation_bytes (sub_relocations s ! i))"
    using len assms
    by (subst relocation_table.table_iff) (auto simp: add_ac)
  ultimately show ?thesis
    unfolding parts by blast
qed

lemma take_64_fields:
  "take 64 bytes = take 4 (drop 0 bytes) @ take 2 (drop 4 bytes) @ take 2 (drop 6 bytes) @
     take 2 (drop 8 bytes) @ take 2 (drop 10 bytes) @ take 4 (drop 12 bytes) @
     take 4 (drop 16 bytes) @ take 4 (drop 20 bytes) @ take 4 (drop 24 bytes) @
     take 4 (drop 28 bytes) @ take 4 (drop 32 bytes) @ take 4 (drop 36 bytes) @
     take 24 (drop 40 bytes)"
  using take_drop_split [of 4 60 0 bytes] take_drop_split [of 2 58 4 bytes]
    take_drop_split [of 2 56 6 bytes] take_drop_split [of 2 54 8 bytes]
    take_drop_split [of 2 52 10 bytes] take_drop_split [of 4 48 12 bytes]
    take_drop_split [of 4 44 16 bytes] take_drop_split [of 4 40 20 bytes]
    take_drop_split [of 4 36 24 bytes] take_drop_split [of 4 32 28 bytes]
    take_drop_split [of 4 28 32 bytes] take_drop_split [of 4 24 36 bytes]
  by simp

lemma header_iff:
  assumes "64 \<le> length bytes"
  shows "take 64 bytes = header_bytes m n r q \<longleftrightarrow>
    word_at bytes 0 = MAGIC \<and> half_at bytes 4 = VERSION_MAJOR \<and> half_at bytes 6 = m \<and>
    half_at bytes 8 = 64 \<and> half_at bytes 10 = 0 \<and>
    word_at bytes 12 = of_nat (table_total n r q) \<and> word_at bytes 16 = 64 \<and>
    word_at bytes 20 = of_nat n \<and> word_at bytes 24 = of_nat (resources_start n) \<and>
    word_at bytes 28 = of_nat r \<and> word_at bytes 32 = of_nat (resources_start n + 32 * r) \<and>
    word_at bytes 36 = of_nat q \<and> take 24 (drop 40 bytes) = replicate 24 0"
proof -
  have l4: "take 4 (drop k bytes) = to_le_bytes 4 (word_at bytes k)" if "k + 4 \<le> 64" for k
    using le_at_inject4 [of k bytes] that assms by simp
  have l2: "take 2 (drop k bytes) = to_le_bytes 2 (half_at bytes k)" if "k + 2 \<le> 64" for k
    using le_at_inject [of k bytes] that assms by simp
  have l0: "take 4 bytes = to_le_bytes 4 (word_at bytes 0)"
    using l4 [of 0] by simp
  show ?thesis
    unfolding take_64_fields header_bytes_def
    by (simp add: l0 l4 l2 le16.enc_inject le32.enc_inject del: of_nat_add of_nat_mult)
qed

section \<open>Decoding accepts exactly the images\<close>

lemma all_zero_iff: "\<not> list_ex (\<lambda>b. b \<noteq> 0) xs \<longleftrightarrow> xs = replicate (length xs) 0"
  by (induction xs) auto

lemma header_checks_eq_Ok:
  "decode_header_checks bytes = Ok () \<longleftrightarrow>
     64 \<le> length bytes \<and> length bytes \<le> MAX_SUBMIT_SIZE \<and>
     word_at bytes 0 = MAGIC \<and> half_at bytes 4 = VERSION_MAJOR \<and> half_at bytes 6 \<le> 1 \<and>
     half_at bytes 8 = 64 \<and> half_at bytes 10 = 0 \<and> take 24 (drop 40 bytes) = replicate 24 0 \<and>
     unat (word_at bytes 12) = length bytes"
proof (cases "64 \<le> length bytes \<and> length bytes \<le> MAX_SUBMIT_SIZE")
  case True
  have h: "unat w = 64 \<longleftrightarrow> w = 64" for w :: u16
    using word_unat_eq_iff [of w 64] by simp
  show ?thesis
    using True all_zero_iff [of "take 24 (drop 40 bytes)"]
    by (auto simp: decode_header_checks_def HEADER_SIZE_def get_u16_value get_u32_value h
        word_at_def half_at_def VERSION_MINOR_def outcome_simps not_less)
next
  case False
  then show ?thesis by (auto simp: decode_header_checks_def HEADER_SIZE_def)
qed

lemma resource_step_value:
  assumes "decoded_ok d" "i < ds_resource_count d"
  shows "decode_resource_step d u i =
    (if word_at (ds_bytes d) (resources_base d + i * 32 + 28) \<noteq> 0 then Err ReservedNotZero
     else validate_resource (view_resources d ! i))"
proof -
  have "lay_resources_offset (ds_layout d) + i * RESOURCE_SIZE = resources_base d + i * 32"
    using assms by (simp add: decoded_ok_def table_layout_def RESOURCE_SIZE_def resources_base_def)
  moreover have "get_at (view_resources d) i = Some (view_resources d ! i)"
    using assms by (simp add: get_at_def view_resources_def)
  moreover have "resources_base d + i * 32 + 28 + 4 \<le> length (ds_bytes d)"
    using decoded_bounds(2) [OF assms] by simp
  ultimately show ?thesis
    using assms by (simp add: decode_resource_step_def Let_def get_u32_value word_at_def resource_view)
qed

lemma resource_steps_ok:
  assumes "decoded_ok d" "list_all (\<lambda>i. i < ds_resource_count d) xs"
  shows "foldM (decode_resource_step d) () xs \<noteq> Panic \<and>
    (foldM (decode_resource_step d) () xs = Ok () \<longleftrightarrow>
      (\<forall>i\<in>set xs. word_at (ds_bytes d) (resources_base d + i * 32 + 28) = 0 \<and>
         resource_ok (view_resources d ! i)))"
  using assms(2)
  by (induction xs) (auto simp: resource_step_value [OF assms(1)] validate_resource_eq)

lemma placeholder_words_value:
  assumes "decoded_ok d" "unat off + 2 < 2 ^ 32" "unat off + 2 \<le> ds_pm4_count d"
  shows "placeholder_words d off (off + 2) = Ok [view_pm4 d ! unat off, view_pm4 d ! (unat off + 1)]"
proof -
  have "[unat off..<unat (off + 2)] = [unat off, unat off + 1]"
    using assms(2) by (simp add: unat_word_end upt_rec)
  moreover have "get_at (view_pm4 d) (unat off) = Some (view_pm4 d ! unat off)"
    "get_at (view_pm4 d) (Suc (unat off)) = Some (view_pm4 d ! Suc (unat off))"
    using assms(3) by (simp_all add: get_at_def view_pm4_def)
  ultimately show ?thesis
    using assms(1) by (simp add: placeholder_words_def pm4_word_view numeral_2_eq_2)
qed

lemma relocation_step_value:
  assumes "decoded_ok d" "i < ds_relocation_count d"
  shows "decode_relocation_step d prev i =
    (case view_relocation d i of
       None \<Rightarrow> Err InvalidField
     | Some rel \<Rightarrow> andThen (validate_relocation rel prev (view_pm4 d) (view_resources d))
         (\<lambda>_. Ok (checked_add (pm4_word_offset rel) 2)))"
proof (cases "view_relocation d i")
  case None
  then show ?thesis using assms by (simp add: decode_relocation_step_def relocation_view)
next
  case (Some rel)
  let ?off = "pm4_word_offset rel"
  have len: "length (view_pm4 d) = ds_pm4_count d" by (simp add: view_pm4_def)
  have lookup: "resource d = (\<lambda>i. Ok (get_at (view_resources d) i))"
    using assms resource_view by blast
  show ?thesis
  proof (cases "checked_add ?off 2")
    case None
    then show ?thesis
      using assms Some
      by (simp add: decode_relocation_step_def relocation_view validate_relocation_def lookup
          andThen_assoc andThen_if)
  next
    case e: (Some e)
    then have "e = ?off + 2" "unat ?off + 2 < 2 ^ 32"
      by (simp_all add: word_end_eq)
    then have "(if unat e > ds_pm4_count d then Err RelocationOutOfBounds else
        andThen (placeholder_words d ?off e) (\<lambda>placeholder.
        andThen (slice placeholder 0 (unat (2 :: u32))) (\<lambda>words.
        if \<not> placeholder_is_valid (rel_encoding rel) words then Err NonZeroPlaceholder
        else Ok (Some e)))) =
      (if unat e > length (view_pm4 d) then Err RelocationOutOfBounds else
        andThen (slice (view_pm4 d) (unat ?off) (unat e)) (\<lambda>words.
        if \<not> placeholder_is_valid (rel_encoding rel) words then Err NonZeroPlaceholder
        else Ok (Some e)))"
      using placeholder_words_value [OF assms(1), of ?off] by (simp add: len unat_word_end take_two)
    then show ?thesis
      using assms Some e
      by (simp only: decode_relocation_step_def relocation_view validate_relocation_def lookup
          andThen_assoc andThen_if andThen.simps ok_or.simps word_count_two option.case if_True)
  qed
qed

lemma relocation_steps_ok:
  assumes "decoded_ok d" "list_all (\<lambda>i. i < ds_relocation_count d) xs"
    and "sub_pm4 s = view_pm4 d" "sub_resources s = view_resources d"
  shows "foldM (decode_relocation_step d) prev xs \<noteq> Panic"
    and "foldM (decode_relocation_step d) prev xs = Ok p \<longleftrightarrow>
      (\<exists>rels. map (view_relocation d) xs = map Some rels \<and> foldM (encode_check s) prev rels = Ok p)"
proof -
  have step: "decode_relocation_step d prev i = (case view_relocation d i of
       None \<Rightarrow> Err InvalidField | Some rel \<Rightarrow> encode_check s prev rel)"
    if "i < ds_relocation_count d" for i prev
    using relocation_step_value [OF assms(1) that]
    by (simp add: encode_check_def assms(3,4) split: option.split)
  show "foldM (decode_relocation_step d) prev xs \<noteq> Panic"
    using assms(2)
    by (induction xs arbitrary: prev)
      (auto simp: step outcome_simps encode_check_def validate_relocation_no_panic split: option.splits)
  show "foldM (decode_relocation_step d) prev xs = Ok p \<longleftrightarrow>
      (\<exists>rels. map (view_relocation d) xs = map Some rels \<and> foldM (encode_check s) prev rels = Ok p)"
    using assms(2)
  proof (induction xs arbitrary: prev)
    case (Cons i xs)
    show ?case
    proof (cases "view_relocation d i")
      case None
      then show ?thesis using Cons.prems by (auto simp: step)
    next
      case (Some rel)
      have "(\<exists>rels. map (view_relocation d) (i # xs) = map Some rels \<and>
            foldM (encode_check s) prev rels = Ok p) \<longleftrightarrow>
          (\<exists>rels. map (view_relocation d) xs = map Some rels \<and>
            foldM (encode_check s) prev (rel # rels) = Ok p)"
        using Some by (auto simp: map_eq_Cons_conv Cons_eq_map_conv)
      then show ?thesis
        using Cons Some by (auto simp: step outcome_simps)
    qed
  qed simp
qed

definition decoded_of :: "u8 list \<Rightarrow> usize \<Rightarrow> usize \<Rightarrow> usize \<Rightarrow> DecodedSubmit" where
  "decoded_of bytes n r q = \<lparr>ds_bytes = bytes, ds_layout = table_layout n r q, ds_pm4_count = n,
     ds_resource_count = r, ds_relocation_count = q\<rparr>"

lemma decoded_of_ok: "length bytes = table_total n r q \<Longrightarrow> decoded_ok (decoded_of bytes n r q)"
  by (simp add: decoded_ok_def decoded_of_def)

text \<open>The table loops of \<open>decode\<close>, after the header and the padding are accepted.\<close>

definition decode_tables :: "DecodedSubmit \<Rightarrow> (wire_error, DecodedSubmit) outcome" where
  "decode_tables d =
     andThen (foldM (decode_resource_step d) () [0..<ds_resource_count d]) (\<lambda>_.
     andThen (foldM (decode_relocation_step d) None [0..<ds_relocation_count d]) (\<lambda>_. Ok d))"

definition offsets_match :: "u8 list \<Rightarrow> usize \<Rightarrow> usize \<Rightarrow> usize \<Rightarrow> bool" where
  "offsets_match bytes n r q \<longleftrightarrow> length bytes = table_total n r q \<and>
     unat (word_at bytes 16) = 64 \<and> unat (word_at bytes 24) = resources_start n \<and>
     unat (word_at bytes 32) = resources_start n + 32 * r"

lemma decode_after_header:
  assumes "decode_header_checks bytes = Ok ()"
    and "n = unat (word_at bytes 20)" "r = unat (word_at bytes 28)" "q = unat (word_at bytes 36)"
    and "counts_ok n r q"
  shows "decode bytes =
    (if \<not> offsets_match bytes n r q then Err InvalidTable
     else if take (pad_len n) (drop (64 + 4 * n) bytes) \<noteq> replicate (pad_len n) 0
     then Err ReservedNotZero
     else decode_tables (decoded_of bytes n r q))"
proof -
  have len: "64 \<le> length bytes"
    using assms(1) by (simp add: header_checks_eq_Ok)
  have lay: "layout n r q = Ok (table_layout n r q)"
    using assms(5) by (simp add: layout_eq_Ok)
  have n: "64 + n * 4 < 2 ^ 64"
    using assms(5) by (simp add: counts_ok_def table_total_def resources_start_def MAX_SUBMIT_SIZE_def)
  have pad: "(slice bytes (64 + n * 4) (resources_start n) :: (wire_error, u8 list) outcome) =
      Ok (take (pad_len n) (drop (64 + 4 * n) bytes))"
    if "offsets_match bytes n r q"
    using that by (simp add: offsets_match_def table_total_def resources_start_def add_ac mult.commute)
  have zero: "list_ex (\<lambda>b. b \<noteq> 0) (take (pad_len n) (drop (64 + 4 * n) bytes)) \<longleftrightarrow>
      take (pad_len n) (drop (64 + 4 * n) bytes) \<noteq> replicate (pad_len n) 0"
    if "offsets_match bytes n r q"
  proof -
    have "length (take (pad_len n) (drop (64 + 4 * n) bytes)) = pad_len n"
      using that by (auto simp: offsets_match_def table_total_def resources_start_def)
    then show ?thesis
      using all_zero_iff [of "take (pad_len n) (drop (64 + 4 * n) bytes)"] by metis
  qed
  have "lay_pm4_offset (table_layout n r q) = 64"
    "lay_resources_offset (table_layout n r q) = resources_start n"
    "lay_relocations_offset (table_layout n r q) = resources_start n + 32 * r"
    "lay_total (table_layout n r q) = table_total n r q"
    by (simp_all add: table_layout_def)
  note fields = this
  have mul: "usize_checked_mul n 4 = Some (n * 4)" "usize_checked_add 64 (n * 4) = Some (64 + n * 4)"
    using n by (simp_all add: usize_checked_mul_def usize_checked_add_def)
  have words: "get_u32 bytes k = Ok (word_at bytes k)" if "k + 4 \<le> 64" for k
    using that len by (simp add: get_u32_value word_at_def)
  show ?thesis
  proof (cases "offsets_match bytes n r q")
    case True
    then have "unat (word_at bytes 16) = 64" "unat (word_at bytes 24) = resources_start n"
      "unat (word_at bytes 32) = resources_start n + 32 * r" "table_total n r q = length bytes"
      by (simp_all add: offsets_match_def)
    then show ?thesis
      using pad [OF True] zero [OF True] True
      by (simp add: decode_def assms(1) words lay fields mul decode_tables_def decoded_of_def Let_def
          flip: assms(2-4))
  next
    case False
    then have "unat (word_at bytes 16) \<noteq> 64 \<or> unat (word_at bytes 24) \<noteq> resources_start n \<or>
        unat (word_at bytes 32) \<noteq> resources_start n + 32 * r \<or> table_total n r q \<noteq> length bytes"
      by (auto simp: offsets_match_def)
    with False show ?thesis
      by (simp only: decode_def assms(1) words lay andThen.simps fields if_True not_False_eq_True
          flip: assms(2-4))
  qed
qed

lemma decode_not_ok:
  assumes "decode_header_checks bytes = Ok ()"
    and "n = unat (word_at bytes 20)" "r = unat (word_at bytes 28)" "q = unat (word_at bytes 36)"
    and "\<not> counts_ok n r q"
  shows "\<exists>e. decode bytes = Err e"
proof -
  have "64 \<le> length bytes"
    using assms(1) by (simp add: header_checks_eq_Ok)
  then have words: "get_u32 bytes k = Ok (word_at bytes k)" if "k + 4 \<le> 64" for k
    using that by (simp add: get_u32_value word_at_def)
  obtain e where "layout n r q = Err e"
    using assms(5) layout_no_panic [of n r q] layout_eq_Ok [of n r q] by (cases "layout n r q") auto
  then show ?thesis
    by (simp add: decode_def assms(1) words flip: assms(2-4))
qed

lemma header_checks_no_panic: "decode_header_checks bytes \<noteq> Panic"
  by (auto simp: decode_header_checks_def HEADER_SIZE_def get_u16_value get_u32_value outcome_simps)

lemma decode_tables_no_panic: "decoded_ok d \<Longrightarrow> decode_tables d \<noteq> Panic"
  using resource_steps_ok [of d "[0..<ds_resource_count d]"]
    relocation_steps_ok(1) [of d "[0..<ds_relocation_count d]"
      "\<lparr>sub_pm4 = view_pm4 d, sub_resources = view_resources d, sub_relocations = []\<rparr>"]
  by (auto simp: decode_tables_def outcome_simps list_all_iff)

lemma decode_never_panics: "decode bytes \<noteq> Panic"
proof (cases "decode_header_checks bytes")
  case (Ok u)
  let ?n = "unat (word_at bytes 20)" and ?r = "unat (word_at bytes 28)"
    and ?q = "unat (word_at bytes 36)"
  have ok: "decode_header_checks bytes = Ok ()" using Ok by simp
  show ?thesis
  proof (cases "counts_ok ?n ?r ?q")
    case True
    then show ?thesis
      using decode_tables_no_panic [OF decoded_of_ok [of bytes ?n ?r ?q]]
      by (simp add: decode_after_header [OF ok refl refl refl] offsets_match_def)
  next
    case False
    then show ?thesis using decode_not_ok [OF ok refl refl refl] by auto
  qed
qed (simp_all add: decode_def header_checks_no_panic)

lemma decode_tables_eq_Ok:
  assumes "decoded_ok d"
  shows "decode_tables d = Ok d' \<longleftrightarrow> d' = d \<and>
    (\<forall>i < ds_resource_count d. word_at (ds_bytes d) (resources_base d + i * 32 + 28) = 0) \<and>
    list_all resource_ok (view_resources d) \<and>
    (\<exists>rels. map (view_relocation d) [0..<ds_relocation_count d] = map Some rels \<and>
       list_all (relocation_ok (view_pm4 d) (view_resources d)) rels \<and> sorted_wrt rel_before rels)"
proof -
  let ?s = "\<lparr>sub_pm4 = view_pm4 d, sub_resources = view_resources d, sub_relocations = []\<rparr>"
  have res: "foldM (decode_resource_step d) () [0..<ds_resource_count d] = Ok () \<longleftrightarrow>
      (\<forall>i < ds_resource_count d. word_at (ds_bytes d) (resources_base d + i * 32 + 28) = 0) \<and>
      list_all resource_ok (view_resources d)"
    using resource_steps_ok [OF assms, of "[0..<ds_resource_count d]"]
    by (auto simp: list_all_iff view_resources_def)
  have "(\<exists>p. foldM (decode_relocation_step d) None [0..<ds_relocation_count d] = Ok p) \<longleftrightarrow>
     (\<exists>rels. map (view_relocation d) [0..<ds_relocation_count d] = map Some rels \<and>
       (\<exists>p. foldM (encode_check ?s) None rels = Ok p))"
    using relocation_steps_ok(2) [OF assms, of "[0..<ds_relocation_count d]" ?s]
    by (auto simp: list_all_iff)
  then show ?thesis
    by (auto simp: decode_tables_def outcome_simps res encode_check_loop previous_exceeds_def)
qed

definition minor_allows :: "u16 \<Rightarrow> Relocation \<Rightarrow> bool" where
  "minor_allows minor rel \<longleftrightarrow> is_attachment (rel_source rel) \<or> minor = 1"

lemma counts_small:
  assumes "counts_ok n r q"
  shows "n < 2 ^ 32" "r < 2 ^ 32" "q < 2 ^ 32" "resources_start n < 2 ^ 32"
    "resources_start n + 32 * r < 2 ^ 32" "table_total n r q < 2 ^ 32"
  using assms by (simp_all add: counts_ok_def table_total_def resources_start_def wire_sizes)

lemma unat_word_iff: "k < 2 ^ 32 \<Longrightarrow> unat (w :: u32) = k \<longleftrightarrow> w = of_nat k"
  by (auto simp: unat_of_nat)

lemma header_accepts:
  assumes "counts_ok n r q" "length bytes = table_total n r q"
  shows "decode_header_checks bytes = Ok () \<and> offsets_match bytes n r q \<and>
      unat (word_at bytes 20) = n \<and> unat (word_at bytes 28) = r \<and> unat (word_at bytes 36) = q \<longleftrightarrow>
    (\<exists>m \<le> 1. take 64 bytes = header_bytes m n r q)"
proof -
  have "64 \<le> length bytes" "length bytes \<le> MAX_SUBMIT_SIZE"
    using assms by (simp_all add: counts_ok_def table_total_def resources_start_def)
  moreover have "unat w = 64 \<longleftrightarrow> w = 64" for w :: u32
    using unat_word_iff [of 64 w] by simp
  ultimately show ?thesis
    using counts_small [OF assms(1)] assms(2)
    by (auto simp: header_checks_eq_Ok offsets_match_def header_iff unat_word_iff
        simp del: of_nat_add of_nat_mult)
qed

lemma view_lengths [simp]:
  "length (view_pm4 d) = ds_pm4_count d" "length (view_resources d) = ds_resource_count d"
  by (simp_all add: view_pm4_def view_resources_def)

lemma decoded_of_simps [simp]:
  "ds_bytes (decoded_of bytes n r q) = bytes" "ds_pm4_count (decoded_of bytes n r q) = n"
  "ds_resource_count (decoded_of bytes n r q) = r"
  "ds_relocation_count (decoded_of bytes n r q) = q"
  "resources_base (decoded_of bytes n r q) = resources_start n"
  "relocations_base (decoded_of bytes n r q) = resources_start n + 32 * r"
  by (simp_all add: decoded_of_def resources_base_def relocations_base_def)

lemma view_pm4_iff:
  assumes "decoded_ok d" "length ws = ds_pm4_count d"
  shows "view_pm4 d = ws \<longleftrightarrow>
    (\<forall>i < ds_pm4_count d. take 4 (drop (64 + i * 4) (ds_bytes d)) = to_le_bytes 4 (ws ! i))"
proof -
  have "take 4 (drop (64 + i * 4) (ds_bytes d)) = to_le_bytes 4 (view_pm4 d ! i)"
    if "i < ds_pm4_count d" for i
    using that decoded_bounds(1) [OF assms(1) that] by (simp add: view_pm4_def le_at_inject4)
  then show ?thesis
    using assms(2) by (auto simp: list_eq_iff_nth_eq [of "view_pm4 d"] le32.enc_inject)
qed

lemma view_resources_iff:
  assumes "decoded_ok d" "length rs = ds_resource_count d"
  shows "view_resources d = rs \<and>
      (\<forall>i < ds_resource_count d. word_at (ds_bytes d) (resources_base d + i * 32 + 28) = 0) \<longleftrightarrow>
    (\<forall>i < ds_resource_count d. take 32 (drop (resources_base d + i * 32) (ds_bytes d)) =
       resource_bytes (rs ! i))"
proof -
  have "view_resources d ! i = resource_at (ds_bytes d) (resources_base d + i * 32)"
    if "i < ds_resource_count d" for i
    using that by (simp add: view_resources_def)
  then show ?thesis
    using assms(2) resource_at_iff [OF decoded_bounds(2) [OF assms(1)]]
    by (auto simp: list_eq_iff_nth_eq [of "view_resources d"])
qed

lemma view_relocations_iff:
  assumes "decoded_ok d" "length rels = ds_relocation_count d" "half_at (ds_bytes d) 6 = m" "m \<le> 1"
  shows "map (view_relocation d) [0..<ds_relocation_count d] = map Some rels \<longleftrightarrow>
    (\<forall>i < ds_relocation_count d. take 32 (drop (relocations_base d + i * 32) (ds_bytes d)) =
       relocation_bytes (rels ! i)) \<and> list_all (minor_allows m) rels"
proof -
  have m: "m \<noteq> 0 \<longleftrightarrow> m = 1"
    using assms(4) by (metis antisym linorder_not_le word_less_1 zero_neq_one)
  show ?thesis
    using assms(2,3) relocation_at_iff [OF decoded_bounds(3) [OF assms(1)]] m
    by (auto simp: list_eq_iff_nth_eq [of "map (view_relocation d) [0..<ds_relocation_count d]"]
        view_relocation_def list_all_length minor_allows_def)
qed

lemma decode_eq_Ok:
  "decode bytes = Ok d \<longleftrightarrow>
    (\<exists>m s. m \<le> 1 \<and> submit_wf s \<and> list_all (minor_allows m) (sub_relocations s) \<and>
       bytes = wire_image m s \<and>
       d = decoded_of bytes (length (sub_pm4 s)) (length (sub_resources s)) (length (sub_relocations s)))"
proof
  assume dec: "decode bytes = Ok d"
  let ?n = "unat (word_at bytes 20)" and ?r = "unat (word_at bytes 28)"
    and ?q = "unat (word_at bytes 36)"
  have head: "decode_header_checks bytes = Ok ()"
    using dec by (auto simp: decode_def outcome_simps)
  then have counts: "counts_ok ?n ?r ?q"
    using dec decode_not_ok [OF head refl refl refl] by auto
  note body = decode_after_header [OF head refl refl refl counts]
  let ?d = "decoded_of bytes ?n ?r ?q"
  have off: "offsets_match bytes ?n ?r ?q"
    and pad: "take (pad_len ?n) (drop (64 + 4 * ?n) bytes) = replicate (pad_len ?n) 0"
    and tab: "decode_tables ?d = Ok d"
    using dec body by (auto split: if_splits)
  have len: "length bytes = table_total ?n ?r ?q"
    using off by (simp add: offsets_match_def)
  obtain m where m: "m \<le> 1" "take 64 bytes = header_bytes m ?n ?r ?q"
    using header_accepts [OF counts len] head off by blast
  have ok: "decoded_ok ?d" using len by (rule decoded_of_ok)
  obtain rels where d: "d = ?d"
    and res: "\<forall>i < ?r. word_at bytes (resources_start ?n + i * 32 + 28) = 0"
      "list_all resource_ok (view_resources ?d)"
    and rels: "map (view_relocation ?d) [0..<?q] = map Some rels"
      "list_all (relocation_ok (view_pm4 ?d) (view_resources ?d)) rels" "sorted_wrt rel_before rels"
    using tab decode_tables_eq_Ok [OF ok] by auto
  have "length (map (view_relocation ?d) [0..<?q]) = length (map Some rels)"
    using rels(1) by simp
  then have q: "length rels = ?q" by simp
  have minor: "half_at bytes 6 = m"
    using m(2) header_iff [of bytes m ?n ?r ?q] len
    by (simp add: table_total_def resources_start_def)
  let ?s = "\<lparr>sub_pm4 = view_pm4 ?d, sub_resources = view_resources ?d, sub_relocations = rels\<rparr>"
  have "submit_wf ?s"
    using counts res rels q by (simp add: submit_wf_def)
  moreover have vr: "(\<forall>i < ?q. take 32 (drop (resources_start ?n + 32 * ?r + i * 32) bytes) =
       relocation_bytes (rels ! i)) \<and> list_all (minor_allows m) rels"
    using view_relocations_iff [OF ok, of rels m] rels(1) q minor m(1) by simp
  moreover have "bytes = wire_image m ?s"
    using wire_image_iff [of ?s ?n ?r ?q bytes m] len q m(2) pad vr
      view_pm4_iff [OF ok, of "view_pm4 ?d"] view_resources_iff [OF ok, of "view_resources ?d"] res(1)
    by simp
  ultimately show "\<exists>m s. m \<le> 1 \<and> submit_wf s \<and> list_all (minor_allows m) (sub_relocations s) \<and>
       bytes = wire_image m s \<and>
       d = decoded_of bytes (length (sub_pm4 s)) (length (sub_resources s)) (length (sub_relocations s))"
    using m(1) d q by (intro exI [of _ m] exI [of _ ?s]) simp
next
  assume "\<exists>m s. m \<le> 1 \<and> submit_wf s \<and> list_all (minor_allows m) (sub_relocations s) \<and>
       bytes = wire_image m s \<and>
       d = decoded_of bytes (length (sub_pm4 s)) (length (sub_resources s)) (length (sub_relocations s))"
  then obtain m s where m: "m \<le> 1" and wf: "submit_wf s"
    and minor: "list_all (minor_allows m) (sub_relocations s)" and img: "bytes = wire_image m s"
    and d: "d = decoded_of bytes (length (sub_pm4 s)) (length (sub_resources s)) (length (sub_relocations s))"
    by blast
  let ?n = "length (sub_pm4 s)" and ?r = "length (sub_resources s)"
    and ?q = "length (sub_relocations s)"
  have counts: "counts_ok ?n ?r ?q" using wf by (simp add: submit_wf_def)
  have len: "length bytes = table_total ?n ?r ?q" by (simp add: img length_wire_image)
  note parts = wire_image_iff [OF refl refl refl len, of m, THEN iffD1, OF img]
  have ok: "decoded_ok d" unfolding d using len by (rule decoded_of_ok)
  have head: "decode_header_checks bytes = Ok ()" "offsets_match bytes ?n ?r ?q"
    "?n = unat (word_at bytes 20)" "?r = unat (word_at bytes 28)" "?q = unat (word_at bytes 36)"
    using header_accepts [OF counts len] parts m by auto
  have h6: "half_at bytes 6 = m"
    using parts header_iff [of bytes m ?n ?r ?q] len
    by (simp add: table_total_def resources_start_def)
  have "view_pm4 d = sub_pm4 s"
    using view_pm4_iff [OF ok, of "sub_pm4 s"] parts by (simp add: d)
  moreover have "view_resources d = sub_resources s \<and>
      (\<forall>i < ?r. word_at bytes (resources_start ?n + i * 32 + 28) = 0)"
    using view_resources_iff [OF ok, of "sub_resources s"] parts by (simp add: d)
  moreover have "map (view_relocation d) [0..<?q] = map Some (sub_relocations s)"
    using view_relocations_iff [OF ok, of "sub_relocations s" m] parts h6 m minor by (simp add: d)
  ultimately have "decode_tables d = Ok d"
    using wf decode_tables_eq_Ok [OF ok] by (auto simp: d submit_wf_def)
  then show "decode bytes = Ok d"
    using decode_after_header [OF head(1,3,4,5) counts] head(2) parts by (simp add: d)
qed

section \<open>Properties\<close>

lemma decoded_views:
  assumes "submit_wf s" "m \<le> 1" "list_all (minor_allows m) (sub_relocations s)"
    "bytes = wire_image m s"
    "d = decoded_of bytes (length (sub_pm4 s)) (length (sub_resources s)) (length (sub_relocations s))"
  shows "pm4_word d i = Ok (get_at (sub_pm4 s) i)"
    and "resource d i = Ok (get_at (sub_resources s) i)"
    and "relocation d i = Ok (get_at (sub_relocations s) i)"
proof -
  let ?n = "length (sub_pm4 s)" and ?r = "length (sub_resources s)"
    and ?q = "length (sub_relocations s)"
  have len: "length bytes = table_total ?n ?r ?q" by (simp add: assms(4) length_wire_image)
  have ok: "decoded_ok d" unfolding assms(5) using len by (rule decoded_of_ok)
  note parts = wire_image_iff [OF refl refl refl len, of m, THEN iffD1, OF assms(4)]
  have h6: "half_at bytes 6 = m"
    using parts header_iff [of bytes m ?n ?r ?q] len
    by (simp add: table_total_def resources_start_def)
  have "view_pm4 d = sub_pm4 s" "view_resources d = sub_resources s"
    using view_pm4_iff [OF ok, of "sub_pm4 s"] view_resources_iff [OF ok, of "sub_resources s"] parts
    by (simp_all add: assms(5))
  then show "pm4_word d i = Ok (get_at (sub_pm4 s) i)"
    and "resource d i = Ok (get_at (sub_resources s) i)"
    using ok by (simp_all add: pm4_word_view resource_view)
  have "map (view_relocation d) [0..<?q] = map Some (sub_relocations s)"
    using view_relocations_iff [OF ok, of "sub_relocations s" m] parts h6 assms(2,3)
    by (simp add: assms(5))
  then have "map (view_relocation d) [0..<?q] ! i = map Some (sub_relocations s) ! i"
    by (rule arg_cong)
  then have "i < ?q \<Longrightarrow> view_relocation d i = Some (sub_relocations s ! i)"
    by simp
  moreover have "ds_relocation_count d = ?q" by (simp add: assms(5))
  ultimately show "relocation d i = Ok (get_at (sub_relocations s) i)"
    using ok by (simp add: relocation_view get_at_def)
qed

text \<open>C18. Encoding never panics. It succeeds exactly for well-formed submits and a destination of
the announced length, and then overwrites the whole destination with the image of the submit,
whatever the destination held.\<close>

theorem encode_writes_image:
  "encode s out \<noteq> Panic \<and>
   (encode s out = Ok bytes \<longleftrightarrow>
     submit_wf s \<and> length out = length (wire_image VERSION_MINOR s) \<and>
     bytes = wire_image VERSION_MINOR s) \<and>
   (encoded_len s = Ok len \<longleftrightarrow>
     counts_ok (length (sub_pm4 s)) (length (sub_resources s)) (length (sub_relocations s)) \<and>
     len = length (wire_image VERSION_MINOR s))"
proof -
  have "encoded_len s = Ok len \<longleftrightarrow>
     counts_ok (length (sub_pm4 s)) (length (sub_resources s)) (length (sub_relocations s)) \<and>
     len = length (wire_image VERSION_MINOR s)"
    by (auto simp: encoded_len_def outcome_simps layout_eq_Ok table_layout_def length_wire_image)
  then show ?thesis
    using encode_no_panic [of s out] encode_eq_Ok [of s out bytes]
    by (simp add: VERSION_MINOR_def)
qed

text \<open>C13. Decoding arbitrary bytes never panics, and it accepts a byte string exactly when it is
the image, at a supported minor version, of a well-formed submit whose relocation sources that
version allows. There is no second encoding of the same submit at the same version.\<close>

theorem decode_accepts_images:
  "decode bytes \<noteq> Panic \<and>
   (decode bytes = Ok d \<longleftrightarrow>
    (\<exists>m s. m \<le> VERSION_MINOR \<and> submit_wf s \<and> list_all (minor_allows m) (sub_relocations s) \<and>
       bytes = wire_image m s \<and>
       d = decoded_of bytes (length (sub_pm4 s)) (length (sub_resources s))
         (length (sub_relocations s))))"
  unfolding VERSION_MINOR_def by (intro conjI decode_never_panics decode_eq_Ok)

text \<open>C19. A submit survives the trip over the wire: what the kernel decodes from an encoded payload
has the same command words, resources and relocations, and indexing beyond a table gives nothing.\<close>

theorem wire_round_trip:
  assumes "encode s out = Ok bytes"
  shows "\<exists>d. decode bytes = Ok d \<and> pm4_len d = length (sub_pm4 s) \<and>
    resource_len d = length (sub_resources s) \<and> relocation_len d = length (sub_relocations s) \<and>
    (\<forall>i. pm4_word d i = Ok (get_at (sub_pm4 s) i) \<and> resource d i = Ok (get_at (sub_resources s) i) \<and>
       relocation d i = Ok (get_at (sub_relocations s) i))"
proof -
  have wf: "submit_wf s" and img: "bytes = wire_image 1 s"
    using assms by (simp_all add: encode_eq_Ok)
  let ?d = "decoded_of bytes (length (sub_pm4 s)) (length (sub_resources s)) (length (sub_relocations s))"
  have minor: "list_all (minor_allows 1) (sub_relocations s)"
    by (simp add: list_all_iff minor_allows_def)
  then have "decode bytes = Ok ?d"
    unfolding decode_eq_Ok using wf img by (intro exI [of _ 1] exI [of _ s]) simp
  then show ?thesis
    using decoded_views [OF wf order.refl minor img refl]
    by (intro exI [of _ ?d]) (simp add: pm4_len_def resource_len_def relocation_len_def)
qed

definition sample_submit :: Submit where
  "sample_submit = \<lparr>sub_pm4 = [0x70000001, 0, 0, 7],
     sub_resources = [\<lparr>attachment_token = 9, range_offset = 64, range_size = 256, res_access = 3\<rparr>],
     sub_relocations = [\<lparr>pm4_word_offset = 1, rel_source = Attachment 0, resource_offset = 16,
       required_size = 32, rel_access = 1, rel_encoding = GpuVa64\<rparr>]\<rparr>"

lemma sample_submit_wf: "submit_wf sample_submit"
  by (simp add: sample_submit_def submit_wf_def counts_ok_def wire_sizes table_total_def
      resources_start_def pad_len_def resource_ok_def access_ok_def ACCESS_MASK_def ACCESS_READ_def
      ACCESS_WRITE_def relocation_ok_def source_ok_def)

theorem wire_round_trip_witness:
  "\<exists>d. encode sample_submit (replicate 144 0xff) = Ok (wire_image 1 sample_submit) \<and>
    decode (wire_image 1 sample_submit) = Ok d \<and>
    relocation d 0 = Ok (get_at (sub_relocations sample_submit) 0)"
proof -
  have "encode sample_submit (replicate 144 0xff) = Ok (wire_image 1 sample_submit)"
    using sample_submit_wf
    by (simp add: encode_eq_Ok length_wire_image)
      (simp add: sample_submit_def table_total_def resources_start_def pad_len_def)
  with wire_round_trip [OF this] show ?thesis by blast
qed

definition pair_first :: Relocation where
  "pair_first = \<lparr>pm4_word_offset = 1, rel_source = Attachment 0, resource_offset = 16,
     required_size = 32, rel_access = 1, rel_encoding = GpuVa64\<rparr>"

definition pair_second :: Relocation where
  "pair_second = \<lparr>pm4_word_offset = 4, rel_source = CanonicalShader FsSolid, resource_offset = 0,
     required_size = 128, rel_access = 1, rel_encoding = GpuVa64\<rparr>"

definition pair_submit :: Submit where
  "pair_submit = \<lparr>sub_pm4 = [0x70000001, 0, 0, 7, 0, 0],
     sub_resources = [\<lparr>attachment_token = 9, range_offset = 64, range_size = 256, res_access = 3\<rparr>],
     sub_relocations = [pair_first, pair_second]\<rparr>"

lemma pair_submit_wf: "submit_wf pair_submit"
  by (simp add: pair_submit_def pair_first_def pair_second_def submit_wf_def counts_ok_def wire_sizes
      table_total_def resources_start_def pad_len_def resource_ok_def access_ok_def ACCESS_MASK_def
      ACCESS_READ_def ACCESS_WRITE_def relocation_ok_def source_ok_def rel_before_def
      shader_size_value)

text \<open>Every relocation of a decoded payload is confined: its placeholder lies inside the command
stream and holds no address bits, its range lies inside the authorised range of an existing
resource that grants the access, or it names a canonical program exactly, and the placeholders of
different relocations do not overlap.\<close>

theorem decoded_relocations_confined:
  assumes "decode bytes = Ok d" "relocation d i = Ok (Some rel)" "relocation d j = Ok (Some rel')" "i < j"
  shows "unat (pm4_word_offset rel) + 2 \<le> unat (pm4_word_offset rel') \<and>
    unat (pm4_word_offset rel') + 2 \<le> pm4_len d \<and> access_ok (rel_access rel) \<and>
    (case rel_source rel of
       Attachment k \<Rightarrow> \<exists>res. resource d (unat k) = Ok (Some res) \<and> resource_ok res \<and>
         rel_access rel AND NOT (res_access res) = 0 \<and>
         unat (resource_offset rel) + unat (required_size rel) \<le> unat (range_size res)
     | CanonicalShader v \<Rightarrow> resource_offset rel = 0 \<and> unat (required_size rel) = shader_size v \<and>
         rel_access rel = ACCESS_READ)"
proof -
  obtain m s where m: "m \<le> 1" and wf: "submit_wf s"
    and minor: "list_all (minor_allows m) (sub_relocations s)" and img: "bytes = wire_image m s"
    and d: "d = decoded_of bytes (length (sub_pm4 s)) (length (sub_resources s)) (length (sub_relocations s))"
    using assms(1) unfolding decode_eq_Ok by blast
  note views = decoded_views [OF wf m minor img d]
  have i: "i < length (sub_relocations s)" "rel = sub_relocations s ! i"
    and j: "j < length (sub_relocations s)" "rel' = sub_relocations s ! j"
    using assms(2,3) by (simp_all add: views(3))
  have ok: "relocation_ok (sub_pm4 s) (sub_resources s) rel"
    "relocation_ok (sub_pm4 s) (sub_resources s) rel'"
    using wf i j by (simp_all add: submit_wf_def list_all_length)
  have "rel_before rel rel'"
    using wf i j assms(4) by (simp add: submit_wf_def sorted_wrt_iff_nth_less)
  then have "unat (pm4_word_offset rel) + 2 \<le> unat (pm4_word_offset rel') \<and>
      unat (pm4_word_offset rel') + 2 \<le> pm4_len d \<and> access_ok (rel_access rel)"
    using ok by (simp add: relocation_ok_def rel_before_def d pm4_len_def)
  moreover have "source_ok (sub_resources s) rel"
    using ok(1) by (simp add: relocation_ok_def)
  moreover have "resource_ok (sub_resources s ! k)" if "k < length (sub_resources s)" for k
    using wf that by (simp add: submit_wf_def list_all_length)
  moreover have "unat (of_nat (shader_size v) :: u64) = shader_size v" for v
    by (simp add: shader_size_value)
  ultimately show ?thesis
    by (cases "rel_source rel") (simp_all add: source_ok_def views(2))
qed

theorem decoded_relocations_confined_witness:
  "\<exists>d. decode (wire_image 1 pair_submit) = Ok d \<and> relocation d 0 = Ok (Some pair_first) \<and>
    relocation d 1 = Ok (Some pair_second) \<and>
    unat (pm4_word_offset pair_first) + 2 \<le> unat (pm4_word_offset pair_second)"
proof -
  let ?s = pair_submit
  let ?d = "decoded_of (wire_image 1 ?s) (length (sub_pm4 ?s)) (length (sub_resources ?s))
    (length (sub_relocations ?s))"
  have minor: "list_all (minor_allows 1) (sub_relocations ?s)"
    by (simp add: list_all_iff minor_allows_def)
  have dec: "decode (wire_image 1 ?s) = Ok ?d"
    unfolding decode_eq_Ok using pair_submit_wf minor by (intro exI [of _ 1] exI [of _ ?s]) simp
  have "get_at (sub_relocations ?s) 0 = Some pair_first" "get_at (sub_relocations ?s) 1 = Some pair_second"
    by (simp_all add: pair_submit_def)
  then have rel: "relocation ?d 0 = Ok (Some pair_first)" "relocation ?d 1 = Ok (Some pair_second)"
    by (simp_all only: decoded_views(3) [OF pair_submit_wf order.refl minor refl refl])
  show ?thesis
    using decoded_relocations_confined [OF dec rel zero_less_one] dec rel by blast
qed

end
