(* ===== verification/Packet_Rules.thy ===== *)
theory Packet_Rules
  imports Submit_Reloc Wire_Format
begin

text \<open>
  The packet rules of \<open>Submit_Packets\<close>: what an accepted packet looks like and what it adds to the
  address table. \<open>appends\<close> and \<open>allows\<close> are the two contracts of a match arm; their rules walk down
  the arms of \<open>validate_type4\<close> and \<open>validate_type7\<close>. \<open>stream_fields\<close> lifts the first to a whole
  framed stream, \<open>accepted_stream_allowed\<close> the second.
\<close>

section \<open>What one packet adds to the address table\<close>

text \<open>\<open>fields_at w cs new\<close>: the fields \<open>new\<close> are fresh and stand at the payload positions \<open>cs\<close> of the
  packet whose header is at \<open>w\<close>; position one is the first payload dword.\<close>

definition fresh_field :: "AddressField \<Rightarrow> bool" where
  "fresh_field a \<longleftrightarrow> af_a2d a = None \<and> af_image a = None \<and>
     (af_source a = AttachmentField \<or> (af_encoding a = GpuVa64 \<and> af_access a = ACCESS_READ))"

definition fields_at :: "u32 \<Rightarrow> nat list \<Rightarrow> AddressField list \<Rightarrow> bool" where
  "fields_at w cs new \<longleftrightarrow> map af_word_offset new = map (\<lambda>c. w + of_nat c) cs \<and> list_all fresh_field new"

definition slots_ok :: "nat \<Rightarrow> nat list \<Rightarrow> bool" where
  "slots_ok n cs \<longleftrightarrow> sorted_wrt (\<lambda>a b. a + 2 \<le> b) cs \<and> list_all (\<lambda>c. 1 \<le> c \<and> c + 1 \<le> n) cs"

definition appends :: "nat \<Rightarrow> u32 \<Rightarrow> AddressField list \<Rightarrow> AddressField list checked \<Rightarrow> bool" where
  "appends n w fs m \<longleftrightarrow> m \<noteq> Panic \<and>
     (\<forall>fs'. m = Ok fs' \<longrightarrow> (\<exists>cs new. fs' = fs @ new \<and> fields_at w cs new \<and> slots_ok n cs))"

lemma appends_Err [simp]: "appends n w fs (Err e)"
  by (simp add: appends_def)

lemma appends_same [simp]: "appends n w fs (Ok fs)"
proof -
  have "fields_at w [] [] \<and> slots_ok n []" by (simp add: fields_at_def slots_ok_def)
  then show ?thesis by (auto simp: appends_def)
qed

lemma appends_exact [simp]: "appends n w fs (andThen (exact vs es) (\<lambda>_. Ok fs))"
  by (simp add: exact_def)

lemma appends_if: "(c \<Longrightarrow> appends n w fs a) \<Longrightarrow> appends n w fs b \<Longrightarrow> appends n w fs (if c then a else b)"
  by simp

lemma appendsI:
  "fields_at w cs new \<Longrightarrow> slots_ok n cs \<Longrightarrow> appends n w fs (Ok (fs @ new))"
  by (auto simp: appends_def)

lemma appends_field:
  assumes "1 \<le> c" "c + 1 \<le> n" "off = w + of_nat c"
  shows "appends n w fs (address_field_encoded alloc fs off acc cmp req enc)"
    and "appends n w fs (address_field alloc fs off acc cmp req)"
    and "appends n w fs (canonical_address_field alloc fs off stage)"
  using assms
  by (auto simp: address_field_encoded_def address_field_def canonical_address_field_def appends_def
      fields_at_def slots_ok_def fresh_field_def outcome_simps intro!: exI [of _ "[c]"])

lemma appends_type4_a2d:
  assumes "appends (length pl) w fs rest"
  shows "appends (length pl) w fs (validate_type4_a2d alloc reg pl w fs rest)"
  unfolding validate_type4_a2d_def Let_def
  by (intro appends_if appends_same appends_exact appends_field(2) [where c = 1] assms) simp_all

lemma appends_type4_state:
  assumes "appends (length pl) w fs rest"
  shows "appends (length pl) w fs (validate_type4_state alloc reg pl w fs rest)"
  unfolding validate_type4_state_def Let_def
  by (intro appends_if appends_same appends_exact appends_field(3) [where c = 2] assms
      appends_field(2) [where c = 1] appends_field(2) [where c = 4])
    simp_all

lemma appends_type4_draw:
  "appends (length pl) w fs (validate_type4_draw alloc reg pl w fs)"
  unfolding validate_type4_draw_def Let_def
  by (intro appends_if appends_same appends_exact appends_Err appends_field(2) [where c = 1]) simp_all

lemma appends_type4: "appends (length pl) w fs (validate_type4 alloc reg pl w fs)"
  unfolding validate_type4_def
  by (intro appends_type4_a2d appends_type4_state appends_type4_draw)

lemma appends_memcpy: "length pl = 5 \<Longrightarrow> appends (length pl) w fs (validate_memcpy alloc pl w fs)"
  by (auto simp: validate_memcpy_def address_field_def address_field_encoded_def appends_def
      fields_at_def slots_ok_def fresh_field_def outcome_simps intro!: exI [of _ "[2, 4]"])

lemma appends_mem_write:
  "length pl = 22 \<Longrightarrow> appends (length pl) w fs (validate_mem_write alloc pl w fs)"
  by (cases "is_nv12_descriptor (pl ! 2)")
    (auto simp: validate_mem_write_def address_field_def address_field_encoded_def appends_def
      fields_at_def slots_ok_def fresh_field_def outcome_simps
      intro: exI [of _ "[1, 7, 10]"] exI [of _ "[1, 7]"])

lemma appends_indexed_draw:
  "length pl = 7 \<Longrightarrow> appends (length pl) w fs (validate_indexed_draw alloc pl w fs)"
  by (auto simp: validate_indexed_draw_def address_field_def address_field_encoded_def appends_def
      fields_at_def slots_ok_def fresh_field_def outcome_simps intro!: exI [of _ "[5]"])

lemma appends_type7: "appends (length pl) w fs (validate_type7 alloc opc pl w fs)"
  unfolding validate_type7_def Let_def
  by (intro appends_if appends_same appends_exact appends_Err appends_field(3) [where c = 2]
      appends_field(2) [where c = 2] appends_memcpy appends_mem_write appends_indexed_draw)
    simp_all

lemma appends_packet: "appends (length (payload p)) (word_offset p) fs (validate_packet alloc fs p)"
  using appends_type4 appends_type7 by (simp add: validate_packet_def split: Header.split)

interpretation packet_loop: checked_loop "validate_packet alloc" "list_all fresh_field" "\<lambda>p. True"
proof unfold_locales
  fix fs fs' :: "AddressField list" and p
  assume "list_all fresh_field fs" "validate_packet alloc fs p = Ok fs'"
  then show "list_all fresh_field fs'"
    using appends_packet [of p fs alloc] by (auto simp: appends_def fields_at_def)
next
  fix fs :: "AddressField list" and p
  show "validate_packet alloc fs p \<noteq> Panic"
    using appends_packet [of p fs alloc] by (simp add: appends_def)
qed

section \<open>The address table of a stream\<close>

lemma framed_word_offset:
  "framed off (p # ps) ws \<Longrightarrow> word_offset p = of_nat off \<and> ws \<noteq> []"
  by (cases ws) auto

text \<open>The fields of a framed stream stand strictly in order, at least two dwords apart, each inside
  the payload of a packet.\<close>

lemma stream_fields:
  assumes "framed off ps ws" "off + length ws < 2 ^ 32" "foldM (validate_packet alloc) fs ps = Ok fs'"
  shows "\<exists>new. fs' = fs @ new \<and> list_all fresh_field new \<and>
    sorted_wrt (\<lambda>a b. unat (af_word_offset a) + 2 \<le> unat (af_word_offset b)) new \<and>
    (\<forall>a\<in>set new. off < unat (af_word_offset a) \<and> unat (af_word_offset a) + 2 \<le> off + length ws \<and>
       unat (af_word_offset a) \<notin> set (header_positions off ps) \<and>
       unat (af_word_offset a) + 1 \<notin> set (header_positions off ps))"
  using assms
proof (induction ps arbitrary: off ws fs)
  case Nil
  then show ?case by simp
next
  case (Cons p ps)
  let ?n = "length (payload p)"
  obtain h vs where ws: "ws = h # vs" using Cons.prems(1) by (cases ws) auto
  have n: "?n = unat (count (pkt_header p))"
    using framed_length_payload [OF Cons.prems(1)] by simp
  have le: "?n \<le> length vs" and off: "word_offset p = of_nat off"
    and fr: "framed (off + 1 + ?n) ps (drop ?n vs)"
    using Cons.prems(1) unfolding ws n by auto
  obtain fs1 where fs1: "validate_packet alloc fs p = Ok fs1"
    and rest: "foldM (validate_packet alloc) fs1 ps = Ok fs'"
    using Cons.prems(3) by (auto simp: outcome_simps)
  obtain cs new where new: "fs1 = fs @ new" "fields_at (word_offset p) cs new" "slots_ok ?n cs"
    using appends_packet [of p fs alloc] fs1 by (auto simp: appends_def)
  have "off + 1 + ?n + length (drop ?n vs) < 2 ^ 32"
    using Cons.prems(2) le by (simp add: ws)
  then obtain new' where new': "fs' = fs1 @ new'" "list_all fresh_field new'"
      "sorted_wrt (\<lambda>a b. unat (af_word_offset a) + 2 \<le> unat (af_word_offset b)) new'"
      "\<forall>a\<in>set new'. off + 1 + ?n < unat (af_word_offset a) \<and>
         unat (af_word_offset a) + 2 \<le> off + 1 + ?n + length (drop ?n vs) \<and>
         unat (af_word_offset a) \<notin> set (header_positions (off + 1 + ?n) ps) \<and>
         unat (af_word_offset a) + 1 \<notin> set (header_positions (off + 1 + ?n) ps)"
    using Cons.IH [OF fr _ rest] by blast
  have pos: "unat (word_offset p + of_nat c) = off + c" if "c \<in> set cs" for c
  proof -
    have "c + 1 \<le> ?n" using new(3) that by (auto simp: slots_ok_def list_all_iff)
    then have "off + c < 2 ^ 32" using Cons.prems(2) le by (simp add: ws)
    then show ?thesis by (simp add: off unat_of_nat flip: of_nat_add)
  qed
  have mem: "\<exists>c\<in>set cs. unat (af_word_offset a) = off + c" if "a \<in> set new" for a
  proof -
    have "af_word_offset a \<in> set (map af_word_offset new)" using that by (simp only: set_map imageI)
    then have "af_word_offset a \<in> set (map (\<lambda>c. word_offset p + of_nat c) cs)"
      using new(2) by (simp only: fields_at_def)
    then show ?thesis using pos by auto
  qed
  have range: "1 \<le> c \<and> c + 1 \<le> ?n" if "c \<in> set cs" for c
    using new(3) that by (auto simp: slots_ok_def list_all_iff)
  have "sorted_wrt (\<lambda>a b. a + 2 \<le> b) (map unat (map af_word_offset new))"
  proof -
    have "map unat (map af_word_offset new) = map ((+) off) cs"
      using new(2) pos by (simp add: fields_at_def)
    moreover have "sorted_wrt (\<lambda>a b. a + 2 \<le> b) (map ((+) off) cs)"
      using new(3) by (simp add: slots_ok_def sorted_wrt_map)
    ultimately show ?thesis by (simp only:)
  qed
  then have s1: "sorted_wrt (\<lambda>a b. unat (af_word_offset a) + 2 \<le> unat (af_word_offset b)) new"
    by (simp add: sorted_wrt_map)
  have cross: "unat (af_word_offset a) + 2 \<le> unat (af_word_offset b)"
    if "a \<in> set new" "b \<in> set new'" for a b
    using mem [OF that(1)] range new'(4) that(2) by fastforce
  have hp: "i \<notin> set (header_positions (off + 1 + ?n) ps)" if "i < off + 1 + ?n" for i
    using that header_positions_ge by fastforce
  have here: "off < unat (af_word_offset a) \<and> unat (af_word_offset a) + 2 \<le> off + length ws \<and>
       unat (af_word_offset a) \<notin> set (header_positions off (p # ps)) \<and>
       unat (af_word_offset a) + 1 \<notin> set (header_positions off (p # ps))" if "a \<in> set new" for a
  proof -
    obtain c where c: "c \<in> set cs" "unat (af_word_offset a) = off + c" using mem [OF \<open>a \<in> set new\<close>] by blast
    show ?thesis using c range [OF c(1)] le hp by (auto simp: ws)
  qed
  have there: "off < unat (af_word_offset a) \<and> unat (af_word_offset a) + 2 \<le> off + length ws \<and>
       unat (af_word_offset a) \<notin> set (header_positions off (p # ps)) \<and>
       unat (af_word_offset a) + 1 \<notin> set (header_positions off (p # ps))" if "a \<in> set new'" for a
    using that new'(4) le by (auto simp: ws)
  show ?case
    using new new' s1 cross here there
    by (intro exI [of _ "new @ new'"]) (auto simp: sorted_wrt_append fields_at_def)
qed

section \<open>What an accepted packet looks like\<close>

text \<open>\<open>allows Q m\<close>: if the check \<open>m\<close> succeeds then \<open>Q\<close> holds. The rules walk down the arms of a match
  and keep only the condition of the arm that was taken.\<close>

definition allows :: "bool \<Rightarrow> 'a checked \<Rightarrow> bool" where
  "allows Q m \<longleftrightarrow> (\<forall>x. m = Ok x \<longrightarrow> Q)"

lemma allows_Err: "allows Q (Err e)"
  by (simp add: allows_def)

lemma allowsI: "Q \<Longrightarrow> allows Q m"
  by (simp add: allows_def)

lemma allows_if: "(c \<Longrightarrow> allows Q a) \<Longrightarrow> allows Q b \<Longrightarrow> allows Q (if c then a else b)"
  by simp

lemma allowsD: "allows Q m \<Longrightarrow> m = Ok x \<Longrightarrow> Q"
  by (simp add: allows_def)

text \<open>The payload lengths that the sequence checks rely on.\<close>

definition register_arity :: "u32 \<Rightarrow> nat option" where
  "register_arity reg =
     (if reg \<in> {RB_A2D_BLT_CNTL, GRAS_A2D_BLT_CNTL, SP_A2D_OUTPUT_INFO, RB_A2D_DEST_BUFFER_INFO,
                RB_A2D_DEST_BUFFER_PITCH, TPL1_A2D_SRC_TEXTURE_PITCH, TPL1_A2D_SRC_TEXTURE_SIZE}
      then Some 1
      else if reg \<in> {GRAS_A2D_DEST_TL, GRAS_A2D_SCISSOR_TL, RB_MRT_PITCH, GRAS_SC_WINDOW_SCISSOR_TL,
                     VFD_VERTEX_BUFFER_SIZE, VFD_INDEX_OFFSET}
      then Some 2
      else if reg = GRAS_A2D_SRC_XMIN then Some 4
      else if reg = RB_DEPTH_BUFFER_INFO then Some 6
      else None)"

definition register_allowed :: "u32 \<Rightarrow> nat \<Rightarrow> bool" where
  "register_allowed reg n \<longleftrightarrow>
     0x8000 \<le> reg \<and> reg \<le> 0xbb10 \<and> (register_arity reg = None \<or> register_arity reg = Some n)"

lemmas register_facts = register_allowed_def register_arity_def register_defs

lemma zero_registers_allowed: "reg \<in> set ZERO_REGISTERS \<Longrightarrow> register_allowed reg n"
proof -
  have "list_all (\<lambda>r. 0x8000 \<le> r \<and> r \<le> 0xbb10 \<and> register_arity r = None) ZERO_REGISTERS"
    by (simp add: ZERO_REGISTERS_def register_facts)
  then show "reg \<in> set ZERO_REGISTERS \<Longrightarrow> register_allowed reg n"
    by (simp add: list_all_iff register_allowed_def)
qed

lemma shader_registers_allowed: "reg \<in> set SHADER_REGISTERS \<Longrightarrow> register_allowed reg n"
proof -
  have "list_all (\<lambda>r. 0x8000 \<le> r \<and> r \<le> 0xbb10 \<and> register_arity r = None) SHADER_REGISTERS"
    by (simp add: SHADER_REGISTERS_def register_facts)
  then show "reg \<in> set SHADER_REGISTERS \<Longrightarrow> register_allowed reg n"
    by (simp add: list_all_iff register_allowed_def)
qed

lemma type4_a2d_allows:
  "allows (register_allowed reg (length pl)) rest \<Longrightarrow>
   allows (register_allowed reg (length pl)) (validate_type4_a2d alloc reg pl w fs rest)"
  unfolding validate_type4_a2d_def Let_def
  by (intro allows_if; (elim disjE conjE)?;
      (assumption | (rule allowsI, simp add: register_facts)))

lemma type4_state_allows:
  "allows (register_allowed reg (length pl)) rest \<Longrightarrow>
   allows (register_allowed reg (length pl)) (validate_type4_state alloc reg pl w fs rest)"
  unfolding validate_type4_state_def Let_def
  by (intro allows_if; (elim disjE conjE)?;
      (assumption | (rule allowsI, (erule zero_registers_allowed | simp add: register_facts))))

lemma type4_draw_allows:
  "allows (register_allowed reg (length pl)) (validate_type4_draw alloc reg pl w fs)"
  unfolding validate_type4_draw_def Let_def
  by (intro allows_if allows_Err; (elim disjE conjE)?;
      (rule allowsI, (erule shader_registers_allowed | simp add: register_facts)))

lemma type4_allows:
  "validate_type4 alloc reg pl w fs = Ok fs' \<Longrightarrow> register_allowed reg (length pl)"
  unfolding validate_type4_def
  by (erule allowsD [OF type4_a2d_allows [OF type4_state_allows [OF type4_draw_allows]]])

definition opcode_allowed :: "u8 \<Rightarrow> u32 list \<Rightarrow> bool" where
  "opcode_allowed opc pl \<longleftrightarrow>
     opc \<in> {WAIT_MEM_WRITES, WAIT_FOR_IDLE, EVENT_WRITE, SET_MARKER, BLIT, CP_MEMCPY, CP_MEM_WRITE,
            CP_SET_VISIBILITY_OVERRIDE, CP_REG_WRITE, CP_SKIP_IB2_ENABLE_GLOBAL,
            CP_SKIP_IB2_ENABLE_LOCAL, CP_DRAW_INDX_OFFSET, CP_LOAD_STATE6_GEOM,
            CP_LOAD_STATE6_FRAG} \<and>
     (if opc = CP_REG_WRITE then pl = [2, RB_RENDER_CNTL, 0x10]
      else if opc = CP_MEM_WRITE then length pl = 22
      else if opc = CP_DRAW_INDX_OFFSET then length pl \<in> {3, 7}
      else if opc = CP_LOAD_STATE6_FRAG then length pl \<in> {3, 23, 35}
      else True)"

lemma allows_exact: "(vs = es \<Longrightarrow> Q) \<Longrightarrow> allows Q (andThen (exact vs es) f)"
  by (auto simp: allows_def exact_def split: if_splits)

lemma type7_allows:
  assumes "validate_type7 alloc opc pl w fs = Ok fs'"
  shows "opcode_allowed opc pl"
proof -
  have "allows (opcode_allowed opc pl) (validate_type7 alloc opc pl w fs)"
    unfolding validate_type7_def Let_def
    by (intro allows_if allows_Err; (rule allows_exact)?; (rule allowsI)?;
        (auto simp: opcode_allowed_def cp_opcode_defs)[1])
  then show ?thesis using assms by (rule allowsD)
qed

definition packet_allowed :: "packet \<Rightarrow> bool" where
  "packet_allowed p =
     (case pkt_header p of
        Type4 reg _ \<Rightarrow> register_allowed reg (length (payload p))
      | Type7 opc _ \<Rightarrow> opcode_allowed opc (payload p))"

lemma accepted_packet_allowed: "validate_packet alloc fs p = Ok fs' \<Longrightarrow> packet_allowed p"
  by (auto simp: validate_packet_def packet_allowed_def split: Header.splits
      dest: type4_allows type7_allows)

lemma accepted_stream_allowed:
  "foldM (validate_packet alloc) fs ps = Ok fs' \<Longrightarrow> list_all packet_allowed ps"
  by (induction ps arbitrary: fs) (auto simp: outcome_simps dest: accepted_packet_allowed)

text \<open>Fields two dwords apart are strictly ordered.\<close>

lemma fields_strictly_ordered:
  "sorted_wrt (\<lambda>a b. unat (af_word_offset a) + 2 \<le> unat (af_word_offset b)) fs \<Longrightarrow> strictly_ordered fs"
proof (induction fs)
  case (Cons a fs)
  then show ?case by (cases fs) (auto simp: strictly_ordered_def word_less_nat_alt)
qed (simp add: strictly_ordered_def)

section \<open>Properties\<close>

text \<open>C7. No accepted packet is privileged: a register write starts inside the graphics register
  window 0x8000 to 0xbb10, an opcode is one of the fourteen rendering opcodes, and the one opcode that
  names a register in its payload only writes \<open>RB_RENDER_CNTL\<close> with the sysmem value.\<close>

theorem accepted_packets_unprivileged:
  assumes "validate_packet alloc fs p = Ok fs'"
  shows "case pkt_header p of
     Type4 reg cnt \<Rightarrow> 0x8000 \<le> reg \<and> reg \<le> 0xbb10
   | Type7 opc cnt \<Rightarrow>
       opc \<in> {WAIT_MEM_WRITES, WAIT_FOR_IDLE, EVENT_WRITE, SET_MARKER, BLIT, CP_MEMCPY, CP_MEM_WRITE,
              CP_SET_VISIBILITY_OVERRIDE, CP_REG_WRITE, CP_SKIP_IB2_ENABLE_GLOBAL,
              CP_SKIP_IB2_ENABLE_LOCAL, CP_DRAW_INDX_OFFSET, CP_LOAD_STATE6_GEOM,
              CP_LOAD_STATE6_FRAG} \<and>
       (opc = CP_REG_WRITE \<longrightarrow> payload p = [2, RB_RENDER_CNTL, 0x10])"
  using accepted_packet_allowed [OF assms]
  by (simp add: packet_allowed_def register_allowed_def opcode_allowed_def split: Header.splits)

definition render_control_packet :: packet where
  "render_control_packet =
     \<lparr>pkt_header = Type7 CP_REG_WRITE 3, payload = [2, RB_RENDER_CNTL, 0x10], word_offset = 0\<rparr>"

theorem accepted_packets_unprivileged_witness:
  "validate_packet (\<lambda>_ _. True) [] render_control_packet = Ok [] \<and>
   payload render_control_packet = [2, RB_RENDER_CNTL, 0x10]"
proof -
  have "validate_packet (\<lambda>_ _. True) [] render_control_packet = Ok []"
    by (simp add: validate_packet_def render_control_packet_def validate_type7_def cp_opcode_defs
        exact_def)
  with accepted_packets_unprivileged [OF this] show ?thesis
    by (simp add: render_control_packet_def)
qed

text \<open>C20. The address fields that the packet loop collects from a stream stand strictly in order, at
  least two dwords apart, each with both of its dwords inside the payload of one packet and so never on
  a packet header. The ordering check that follows the loop therefore never fails.\<close>

theorem address_fields_inside_payloads:
  assumes "framed 0 ps ws" "length ws < 2 ^ 32" "foldM (validate_packet alloc) [] ps = Ok fs"
  shows "strictly_ordered fs \<and>
    sorted_wrt (\<lambda>a b. unat (af_word_offset a) + 2 \<le> unat (af_word_offset b)) fs \<and>
    (\<forall>a\<in>set fs. unat (af_word_offset a) + 2 \<le> length ws \<and>
       unat (af_word_offset a) \<notin> set (header_positions 0 ps) \<and>
       unat (af_word_offset a) + 1 \<notin> set (header_positions 0 ps))"
proof -
  have fs: "sorted_wrt (\<lambda>a b. unat (af_word_offset a) + 2 \<le> unat (af_word_offset b)) fs"
    "\<forall>a\<in>set fs. unat (af_word_offset a) + 2 \<le> length ws \<and>
       unat (af_word_offset a) \<notin> set (header_positions 0 ps) \<and>
       unat (af_word_offset a) + 1 \<notin> set (header_positions 0 ps)"
    using stream_fields [OF assms(1) _ assms(3)] assms(2) by auto
  from fs(1) have "strictly_ordered fs" by (rule fields_strictly_ordered)
  with fs show ?thesis by blast
qed

definition target_base_packet :: packet where
  "target_base_packet = \<lparr>pkt_header = Type4 RB_MRT_BASE 2, payload = [0, 0], word_offset = 0\<rparr>"

theorem address_fields_inside_payloads_witness:
  "\<exists>fs. foldM (validate_packet (\<lambda>_ _. True)) [] [target_base_packet] = Ok fs \<and>
     strictly_ordered fs \<and> map af_word_offset fs = [1]"
proof -
  let ?f = "\<lparr>af_word_offset = 1, af_access = ACCESS_WRITE, af_complete = False, af_required_size = None,
    af_encoding = GpuVa64, af_source = AttachmentField, af_a2d = None, af_image = None\<rparr>"
  have framed: "framed 0 [target_base_packet] [0x40882502, 0, 0]"
    unfolding target_base_packet_def RB_MRT_BASE_def by code_simp
  have run: "foldM (validate_packet (\<lambda>_ _. True)) [] [target_base_packet] = Ok [?f]"
    by (simp add: target_base_packet_def validate_packet_def validate_type4_def
        validate_type4_a2d_def validate_type4_state_def register_defs ZERO_REGISTERS_def
        address_field_def address_field_encoded_def outcome_simps)
  show ?thesis using run address_fields_inside_payloads [OF framed _ run] by simp
qed

end
