(* ===== verification/Order_Rules.thy ===== *)
theory Order_Rules
  imports Packet_Rules
begin

text \<open>
  The ordering checks of \<open>Submit_Order\<close>: each pass has an independent specification, a condition on
  neighbouring packets for the memory-write barriers, a grammar of packet blocks for the cache
  transitions, and the retirement of every draw and blit. No pass panics on accepted packets.
\<close>

section \<open>Memory-write barriers\<close>

text \<open>A barrier packet, and the specification: every memory write has one right behind it.\<close>

definition is_write_barrier :: "packet \<Rightarrow> bool" where
  "is_write_barrier p \<longleftrightarrow>
     (case pkt_header p of Type7 opc cnt \<Rightarrow> opc = WAIT_MEM_WRITES \<and> cnt = 0 | _ \<Rightarrow> False) \<and> payload p = []"

definition writes_fenced :: "packet list \<Rightarrow> bool" where
  "writes_fenced ps \<longleftrightarrow>
     (\<forall>i < length ps. is_memory_write (pkt_header (ps ! i)) \<longrightarrow>
        i + 1 < length ps \<and> is_write_barrier (ps ! (i + 1)))"

lemma barrier_not_write: "is_write_barrier p \<Longrightarrow> \<not> is_memory_write (pkt_header p)"
  by (auto simp: is_write_barrier_def is_memory_write_def opcode_defs cp_opcode_defs split: Header.splits)

lemma memcpy_barrier_step_eq:
  "memcpy_barrier_step False p = Ok (is_memory_write (pkt_header p))"
  "memcpy_barrier_step True p =
     (if is_write_barrier p then Ok False
      else Err E_CP_memory_write_must_be_followed_by_CP_WAIT_MEM_WRITES)"
  by (auto simp: memcpy_barrier_step_def is_write_barrier_def split: Header.splits)

lemma writes_fenced_Cons:
  "writes_fenced (p # ps) \<longleftrightarrow>
     (is_memory_write (pkt_header p) \<longrightarrow> ps \<noteq> [] \<and> is_write_barrier (hd ps)) \<and> writes_fenced ps"
  unfolding writes_fenced_def by (cases ps) (auto simp: All_less_Suc2)

lemma memcpy_barriers_from:
  "foldM memcpy_barrier_step w ps = Ok False \<longleftrightarrow>
     (w \<longrightarrow> ps \<noteq> [] \<and> is_write_barrier (hd ps)) \<and> writes_fenced ps"
proof (induction ps arbitrary: w)
  case Nil
  then show ?case by (simp add: writes_fenced_def)
next
  case (Cons p ps)
  then show ?case
    using barrier_not_write [of p]
    by (cases w) (auto simp: outcome_simps memcpy_barrier_step_eq writes_fenced_Cons)
qed

section \<open>Cache transitions\<close>

text \<open>The blocks a stream is made of: a packet that is no cache event, a colour flush with its
  invalidation, or the full flush of both caches with both invalidations.\<close>

definition is_ccu_event :: "packet \<Rightarrow> bool" where
  "is_ccu_event p \<longleftrightarrow>
     is_addressed_event p EVENT_CCU_FLUSH_COLOR_TS \<or> is_addressed_event p EVENT_CCU_FLUSH_DEPTH_TS \<or>
     is_plain_event p EVENT_CCU_INVALIDATE_COLOR \<or> is_plain_event p EVENT_CCU_INVALIDATE_DEPTH"

inductive ccu_blocks :: "packet list \<Rightarrow> bool" where
  ccu_done: "ccu_blocks []"
| ccu_other: "\<not> is_ccu_event p \<Longrightarrow> ccu_blocks ps \<Longrightarrow> ccu_blocks (p # ps)"
| ccu_color: "is_addressed_event p EVENT_CCU_FLUSH_COLOR_TS \<Longrightarrow>
    is_plain_event q EVENT_CCU_INVALIDATE_COLOR \<Longrightarrow> ccu_blocks ps \<Longrightarrow> ccu_blocks (p # q # ps)"
| ccu_full: "is_addressed_event p EVENT_CCU_FLUSH_COLOR_TS \<Longrightarrow>
    is_addressed_event q EVENT_CCU_FLUSH_DEPTH_TS \<Longrightarrow> is_plain_event r EVENT_CCU_INVALIDATE_COLOR \<Longrightarrow>
    is_plain_event s EVENT_CCU_INVALIDATE_DEPTH \<Longrightarrow> ccu_blocks ps \<Longrightarrow> ccu_blocks (p # q # r # s # ps)"

inductive_simps ccu_blocks_Nil: "ccu_blocks []"
inductive_simps ccu_blocks_Cons: "ccu_blocks (p # ps)"

text \<open>The four cache events exclude each other.\<close>

lemma ccu_events_disjoint:
  "is_addressed_event p EVENT_CCU_FLUSH_COLOR_TS \<Longrightarrow> \<not> is_addressed_event p EVENT_CCU_FLUSH_DEPTH_TS"
  "is_addressed_event p e \<Longrightarrow> \<not> is_plain_event p f"
  "is_plain_event p EVENT_CCU_INVALIDATE_COLOR \<Longrightarrow> \<not> is_plain_event p EVENT_CCU_INVALIDATE_DEPTH"
  by (auto simp: is_addressed_event_def is_plain_event_def register_defs split: Header.splits)


lemma ccu_step_cases:
  "ccu_step Idle p = (if is_addressed_event p EVENT_CCU_FLUSH_COLOR_TS then Ok ColorClean
     else if is_ccu_event p then Err E_invalid_CCU_clean_invalidate_ordering else Ok Idle)"
  "ccu_step ColorClean p = (if is_addressed_event p EVENT_CCU_FLUSH_DEPTH_TS then Ok ColorAndDepthClean
     else if is_plain_event p EVENT_CCU_INVALIDATE_COLOR then Ok Idle
     else if is_ccu_event p then Err E_invalid_CCU_clean_invalidate_ordering
     else Err E_CCU_clean_invalidate_sequence_is_not_contiguous)"
  "ccu_step ColorAndDepthClean p =
    (if is_plain_event p EVENT_CCU_INVALIDATE_COLOR then Ok DepthInvalidatePending
     else if is_ccu_event p then Err E_invalid_CCU_clean_invalidate_ordering
     else Err E_CCU_clean_invalidate_sequence_is_not_contiguous)"
  "ccu_step DepthInvalidatePending p =
    (if is_plain_event p EVENT_CCU_INVALIDATE_DEPTH then Ok Idle
     else if is_ccu_event p then Err E_invalid_CCU_clean_invalidate_ordering
     else Err E_CCU_clean_invalidate_sequence_is_not_contiguous)"
  using ccu_events_disjoint [of p]
  by (auto simp: ccu_step_def is_ccu_event_def Let_def split: bool.splits)

text \<open>What may follow in each state for the pass to end in the idle state.\<close>

fun ccu_rest :: "Transition \<Rightarrow> packet list \<Rightarrow> bool" where
  "ccu_rest Idle ps = ccu_blocks ps"
| "ccu_rest ColorClean ps =
     ((\<exists>q rest. ps = q # rest \<and> is_plain_event q EVENT_CCU_INVALIDATE_COLOR \<and> ccu_blocks rest) \<or>
      (\<exists>q r s rest. ps = q # r # s # rest \<and> is_addressed_event q EVENT_CCU_FLUSH_DEPTH_TS \<and>
        is_plain_event r EVENT_CCU_INVALIDATE_COLOR \<and> is_plain_event s EVENT_CCU_INVALIDATE_DEPTH \<and>
        ccu_blocks rest))"
| "ccu_rest ColorAndDepthClean ps =
     (\<exists>r s rest. ps = r # s # rest \<and> is_plain_event r EVENT_CCU_INVALIDATE_COLOR \<and>
        is_plain_event s EVENT_CCU_INVALIDATE_DEPTH \<and> ccu_blocks rest)"
| "ccu_rest DepthInvalidatePending ps =
     (\<exists>s rest. ps = s # rest \<and> is_plain_event s EVENT_CCU_INVALIDATE_DEPTH \<and> ccu_blocks rest)"

lemma ccu_blocks_unfold:
  "ccu_blocks (p # ps) \<longleftrightarrow>
     (if is_addressed_event p EVENT_CCU_FLUSH_COLOR_TS then ccu_rest ColorClean ps
      else \<not> is_ccu_event p \<and> ccu_blocks ps)"
  by (subst ccu_blocks_Cons) (auto simp: is_ccu_event_def)

lemma ccu_rest_step:
  "ccu_rest t (p # ps) \<longleftrightarrow> (\<exists>t'. ccu_step t p = Ok t' \<and> ccu_rest t' ps)"
  using ccu_events_disjoint [of p]
  by (cases t) (auto simp: ccu_step_cases ccu_blocks_unfold)

lemma ccu_pass: "foldM ccu_step t ps = Ok Idle \<longleftrightarrow> ccu_rest t ps"
proof (induction ps arbitrary: t)
  case Nil
  then show ?case by (cases t) (simp_all add: ccu_blocks_Nil)
next
  case (Cons p ps)
  then show ?case by (simp add: ccu_rest_step outcome_simps del: ccu_rest.simps)
qed

section \<open>Render retirement\<close>

text \<open>\<open>retires ok ps\<close>: a complete sysmem retirement stands in \<open>ps\<close> and every packet before it is \<open>ok\<close>.\<close>

primrec retires :: "(packet \<Rightarrow> bool) \<Rightarrow> packet list \<Rightarrow> bool" where
  "retires ok [] = False"
| "retires ok (p # ps) = (is_sysmem_retirement (take 5 (p # ps)) \<or> ok p \<and> retires ok ps)"

text \<open>Every draw is retired before the next blit; every blit is followed by a wait for idle and then
  retired with only clear batch packets in between.\<close>

primrec renders_retired :: "packet list \<Rightarrow> bool" where
  "renders_retired [] = True"
| "renders_retired (p # ps) =
     ((is_draw p \<longrightarrow> retires (\<lambda>q. \<not> is_blit q) ps) \<and>
      (is_blit p \<longrightarrow> ps \<noteq> [] \<and> is_wfi (hd ps) \<and> retires (\<lambda>q. clear_batch_allows (pkt_header q)) (tl ps)) \<and>
      renders_retired ps)"

definition neutral_packet :: "packet \<Rightarrow> bool" where
  "neutral_packet p \<longleftrightarrow> \<not> is_draw p \<and> \<not> is_blit p"

lemma wfi_neutral: "is_wfi p \<Longrightarrow> neutral_packet p \<and> clear_batch_allows (pkt_header p)"
  by (auto simp: is_wfi_def neutral_packet_def is_draw_def is_blit_def clear_batch_allows_def
      cp_opcode_defs split: Header.splits)

lemma event_neutral:
  "is_addressed_event p e \<Longrightarrow> neutral_packet p" "is_plain_event p e \<Longrightarrow> neutral_packet p"
  by (auto simp: is_addressed_event_def is_plain_event_def neutral_packet_def is_draw_def is_blit_def
      cp_opcode_defs split: Header.splits)

lemma retirement_neutral: "is_sysmem_retirement r \<Longrightarrow> list_all neutral_packet r"
  by (auto simp: is_sysmem_retirement_def list_all_length less_Suc_eq numeral_eq_Suc
      dest: event_neutral wfi_neutral)

lemma renders_retired_neutral:
  "list_all neutral_packet qs \<Longrightarrow> renders_retired (qs @ ps) = renders_retired ps"
  by (induction qs) (auto simp: neutral_packet_def)

lemma retires_here:
  assumes "is_sysmem_retirement r"
  shows "retires ok (r @ ps)"
proof -
  have "length r = 5" using assms by (simp add: is_sysmem_retirement_def)
  then have "r @ ps \<noteq> []" "take 5 (r @ ps) = r" by auto
  then show ?thesis using assms by (cases "r @ ps") auto
qed

lemma draw_not_blit: "is_draw p \<Longrightarrow> \<not> is_blit p"
  by (auto simp: is_draw_def is_blit_def cp_opcode_defs split: Header.splits)

lemma retirement_sound:
  "retirement_loop pd pc sb ps = Ok () \<Longrightarrow>
     (pd \<longrightarrow> retires (\<lambda>q. \<not> is_blit q) ps) \<and>
     (pc \<longrightarrow> retires (\<lambda>q. clear_batch_allows (pkt_header q)) ps) \<and> renders_retired ps"
proof (induction "length ps" arbitrary: pd pc sb ps rule: less_induct)
  case less
  let ?ca = "\<lambda>q. clear_batch_allows (pkt_header q)" and ?nb = "\<lambda>q. \<not> is_blit q"
  show ?case
  proof (cases ps)
    case Nil
    then show ?thesis using less.prems by (simp split: if_splits)
  next
    case (Cons p qs)
    note run = less.prems [unfolded Cons]
    have IH: "(a \<longrightarrow> retires ?nb rest) \<and> (b \<longrightarrow> retires ?ca rest) \<and> renders_retired rest"
      if "retirement_loop a b c rest = Ok ()" "length rest \<le> length qs" for a b c rest
      using less.hyps [OF _ that(1)] that(2) Cons by simp
    show ?thesis
    proof (cases "(pd \<or> pc) \<and> 5 \<le> length (p # qs) \<and> is_sysmem_retirement (take 5 (p # qs))")
      case True
      define r where "r = take 5 (p # qs)"
      have eq: "ps = r @ drop 4 qs" and r: "is_sysmem_retirement r"
        using True Cons by (simp_all add: r_def)
      have "retirement_loop False False sb (drop 4 qs) = Ok ()"
        using run True by (simp del: take_Suc_Cons)
      then have "renders_retired ps"
        unfolding eq using renders_retired_neutral [OF retirement_neutral [OF r]] IH by simp
      moreover have "retires ok ps" for ok unfolding eq using r by (rule retires_here)
      ultimately show ?thesis by blast
    next
      case False
      obtain sol where sol: "solid_blit_after sb p = Ok sol"
        using run False by (auto simp: outcome_simps)
      note run' = run [unfolded retirement_loop.simps if_not_P [OF False] sol andThen.simps]
      have ca: "pc \<longrightarrow> ?ca p" using run' by (auto split: if_splits)
      consider (draw) "is_draw p" | (blit) "is_blit p" "\<not> is_draw p" | (other) "\<not> is_draw p" "\<not> is_blit p"
        by blast
      then show ?thesis
      proof cases
        case draw
        then have "retirement_loop True pc sol qs = Ok ()" using run' by (simp split: if_splits)
        from IH [OF this] show ?thesis using draw ca by (auto simp: draw_not_blit Cons)
      next
        case other
        then have "retirement_loop pd pc sol qs = Ok ()" using run' by (simp split: if_splits)
        from IH [OF this] show ?thesis using other ca by (auto simp: Cons)
      next
        case blit
        then have pd: "\<not> pd" using run' by (auto split: if_splits)
        have idle: "case get_at qs 0 of Some q \<Rightarrow> is_wfi q | None \<Rightarrow> False"
          using run' blit pd by (auto split: if_splits)
        then obtain w rest where qs: "qs = w # rest" and w: "is_wfi w"
          by (cases qs) (auto simp: get_at_def)
        note neutral = wfi_neutral [OF w]
        show ?thesis
        proof (cases sol)
          case True
          then have "retirement_loop pd True sol rest = Ok ()"
            using run' blit pd w by (simp add: qs get_at_def split: if_splits)
          from IH [OF this] show ?thesis
            using blit ca neutral pd w by (auto simp: Cons qs neutral_packet_def)
        next
          case False
          obtain r where r: "get_range (p # qs) 2 7 = Some r" "is_sysmem_retirement r" "\<not> pc"
            "retirement_loop pd pc sol (drop 6 qs) = Ok ()"
            using run' blit pd w False by (auto simp: qs get_at_def split: if_splits option.splits)
          have rest: "rest = r @ drop 6 qs"
            using r(1) by (auto simp: get_range_def qs split: if_splits)
          have "renders_retired (drop 6 qs)" using IH [OF r(4)] by simp
          then have "renders_retired rest"
            unfolding rest using renders_retired_neutral [OF retirement_neutral [OF r(2)]] by simp
          moreover have "retires ?ca rest" unfolding rest using r(2) by (rule retires_here)
          ultimately show ?thesis
            using blit pd r(3) w neutral by (simp add: Cons qs neutral_packet_def)
        qed
      qed
    qed
  qed
qed

section \<open>No panics\<close>

interpretation barrier_loop: checked_loop memcpy_barrier_step "\<lambda>w. True" "\<lambda>p. True"
proof unfold_locales
  fix w p show "memcpy_barrier_step w p \<noteq> Panic" by (cases w) (simp_all add: memcpy_barrier_step_eq)
qed simp

interpretation ccu_loop: checked_loop ccu_step "\<lambda>t. True" "\<lambda>p. True"
proof unfold_locales
  fix t p show "ccu_step t p \<noteq> Panic" by (cases t) (simp_all add: ccu_step_cases)
qed simp

lemma memcpy_barriers_no_panic: "validate_memcpy_barriers ps \<noteq> Panic"
  using barrier_loop.foldM_no_panic [of ps False]
  by (auto simp: validate_memcpy_barriers_def outcome_simps list_all_iff)

lemma ccu_transitions_no_panic: "validate_ccu_transitions ps \<noteq> Panic"
  using ccu_loop.foldM_no_panic [of ps Idle]
  by (auto simp: validate_ccu_transitions_def outcome_simps list_all_iff)

lemma solid_blit_after_ok:
  assumes "packet_allowed p"
  shows "\<exists>b. solid_blit_after s p = Ok b"
proof (cases "\<exists>cnt. pkt_header p = Type4 RB_A2D_BLT_CNTL cnt")
  case True
  then have "length (payload p) = 1"
    using assms by (auto simp: packet_allowed_def register_facts)
  then show ?thesis by (auto simp: solid_blit_after_def index_def split: Header.splits)
next
  case False
  then show ?thesis by (auto simp: solid_blit_after_def split: Header.splits)
qed

lemma retirement_no_panic:
  "list_all packet_allowed ps \<Longrightarrow> retirement_loop pd pc sb ps \<noteq> Panic"
proof (induction "length ps" arbitrary: pd pc sb ps rule: less_induct)
  case less
  have IH: "retirement_loop a b c rest \<noteq> Panic"
    if "length rest < length ps" "list_all packet_allowed rest" for a b c rest
    using less.hyps that by blast
  show ?case
  proof (cases ps)
    case (Cons p qs)
    obtain sol where "solid_blit_after sb p = Ok sol"
      using solid_blit_after_ok less.prems Cons by fastforce
    moreover have "retirement_loop a b c (drop n qs) \<noteq> Panic" for a b c n
      using IH [of "drop n qs"] less.prems by (simp add: Cons list_all_iff in_set_dropD)
    moreover note this [of _ _ _ 0]
    ultimately show ?thesis by (simp add: Cons split: option.split)
  qed simp
qed

section \<open>Properties\<close>

text \<open>C21. The barrier pass accepts a stream exactly when every \<open>CP_MEMCPY\<close> and \<open>CP_MEM_WRITE\<close> packet has
  a \<open>CP_WAIT_MEM_WRITES\<close> packet right behind it.\<close>

theorem memory_writes_fenced: "validate_memcpy_barriers ps = Ok () \<longleftrightarrow> writes_fenced ps"
  using memcpy_barriers_from [of False ps]
  by (auto simp: validate_memcpy_barriers_def outcome_simps)

text \<open>C22. The cache pass accepts a stream exactly when its cache events form blocks: a colour flush
  immediately followed by its invalidation, or colour flush, depth flush, colour invalidation and
  depth invalidation in that order with nothing in between.\<close>

theorem cache_transitions_blocked: "validate_ccu_transitions ps = Ok () \<longleftrightarrow> ccu_blocks ps"
  using ccu_pass [of Idle ps] by (auto simp: validate_ccu_transitions_def outcome_simps)

text \<open>C12. In an accepted stream every draw is followed by a complete sysmem retirement with no blit in
  between, and every blit by a wait for idle and then a complete sysmem retirement with nothing but
  clear batch packets in between.\<close>

theorem rendering_is_retired:
  assumes "validate_render_retirement ps = Ok ()"
  shows "renders_retired ps"
  using retirement_sound assms unfolding validate_render_retirement_def by blast

definition retired_draw :: "packet list" where
  "retired_draw =
     [\<lparr>pkt_header = Type7 CP_DRAW_INDX_OFFSET 3, payload = [0x84, 1, 3], word_offset = 0\<rparr>,
      \<lparr>pkt_header = Type7 EVENT_WRITE 4, payload = [0x4000001d, 0, 0, 1], word_offset = 4\<rparr>,
      \<lparr>pkt_header = Type7 EVENT_WRITE 4, payload = [0x4000001c, 0, 0, 1], word_offset = 9\<rparr>,
      \<lparr>pkt_header = Type7 EVENT_WRITE 1, payload = [0x19], word_offset = 14\<rparr>,
      \<lparr>pkt_header = Type7 EVENT_WRITE 1, payload = [0x18], word_offset = 16\<rparr>,
      \<lparr>pkt_header = Type7 WAIT_FOR_IDLE 0, payload = [], word_offset = 18\<rparr>]"

theorem rendering_is_retired_witness:
  "validate_render_retirement retired_draw = Ok () \<and> renders_retired retired_draw"
proof -
  have "validate_render_retirement retired_draw = Ok ()" by code_simp
  with rendering_is_retired [OF this] show ?thesis by blast
qed

end
