(* ===== verification/Sequence_Rules.thy ===== *)
theory Sequence_Rules
  imports Order_Rules "HOL-Library.Multiset"
begin

text \<open>
  The sequence checks of \<open>Submit_A2d\<close>, \<open>Submit_Draw\<close> and \<open>Submit_Reloc\<close> under the contract \<open>ensures\<close>:
  no pass panics on accepted packets, every pass keeps the skeleton of the address fields (position,
  access, encoding, source), and the register index of a draw segment is a linear search. \<open>views\<close> is
  the interface of a decoded submit, \<open>stream_accepted\<close> collects what \<open>validate_pm4\<close> establishes.
\<close>

section \<open>What the sequence passes keep of an address field\<close>

definition skeleton :: "AddressField \<Rightarrow> u32 \<times> u32 \<times> bool \<times> AddressEncoding \<times> AddressSource" where
  "skeleton a = (af_word_offset a, af_access a, af_complete a, af_encoding a, af_source a)"

definition skeletons :: "AddressField list \<Rightarrow> (u32 \<times> u32 \<times> bool \<times> AddressEncoding \<times> AddressSource) list" where
  "skeletons fs = map skeleton fs"

lemma skeleton_updates [simp]:
  "skeleton (a\<lparr>af_a2d := x\<rparr>) = skeleton a" "skeleton (a\<lparr>af_image := y\<rparr>) = skeleton a"
  "skeleton (a\<lparr>af_required_size := z\<rparr>) = skeleton a"
  by (simp_all add: skeleton_def)

lemma skeletons_update [simp]:
  "skeleton b = skeleton (fs ! i) \<Longrightarrow> skeletons (fs[i := b]) = skeletons fs"
  by (cases "i < length fs") (simp_all add: skeletons_def map_update list_update_same_conv list_update_beyond)

lemma skeletons_length: "skeletons fs = skeletons fs' \<Longrightarrow> length fs = length fs'"
  by (auto simp: skeletons_def dest: map_eq_imp_length_eq)

lemma skeletons_nth:
  "skeletons fs = skeletons fs' \<Longrightarrow> i < length fs' \<Longrightarrow> skeleton (fs ! i) = skeleton (fs' ! i)"
  using skeletons_length [of fs fs'] by (metis nth_map skeletons_def)

lemma address_index_Some:
  "address_index fs w = Some i \<Longrightarrow> i < length fs \<and> af_word_offset (fs ! i) = w"
  by (auto simp: address_index_def Let_def get_at_def split: option.splits if_splits)

section \<open>The 2D pass\<close>

lemma set_a2d_expectation_ensures [ensures_simps]:
  "ensures (set_a2d_expectation fs w e) P \<longleftrightarrow>
     (\<forall>i. address_index fs w = Some i \<longrightarrow> af_a2d (fs ! i) = None \<longrightarrow>
        P (fs[i := (fs ! i)\<lparr>af_a2d := Some e\<rparr>]))"
  by (auto simp: set_a2d_expectation_def ensures_simps)

lemma ensures_arm:
  "(c \<Longrightarrow> ensures a P) \<Longrightarrow> ensures b P \<Longrightarrow> ensures (if c then a else b) P"
  by simp

lemma a2d_register_ensures:
  assumes "register_allowed reg (length (payload p))"
  shows "ensures (a2d_register st p reg) (\<lambda>st'. True)"
  unfolding a2d_register_def Let_def
  by (intro ensures_arm; (use assms in \<open>auto simp: ensures_simps register_facts\<close>))

lemma a2d_destination_ensures: "ensures (a2d_destination st fs) (\<lambda>fs'. skeletons fs' = skeletons fs)"
  by (simp add: a2d_destination_def ensures_simps)

lemma a2d_source_ensures: "ensures (a2d_source st fs) (\<lambda>fs'. skeletons fs' = skeletons fs)"
  by (simp add: a2d_source_def ensures_simps Let_def)

lemma a2d_blit_ensures: "ensures (a2d_blit st fs) (\<lambda>(st', fs'). skeletons fs' = skeletons fs)"
proof -
  have "ensures (a2d_source st fs') (\<lambda>fs''. skeletons fs'' = skeletons fs)"
    if "skeletons fs' = skeletons fs" for fs'
    using a2d_source_ensures [of st fs'] by (simp add: that)
  then show ?thesis
    unfolding a2d_blit_def
    by (auto simp: ensures_simps intro!: ensures_mono [OF a2d_destination_ensures])
qed

lemma a2d_step_ensures:
  assumes "packet_allowed p"
  shows "ensures (a2d_step (st, fs) p) (\<lambda>(st', fs'). skeletons fs' = skeletons fs)"
proof (cases "pkt_header p")
  case (Type4 reg cnt)
  then have "register_allowed reg (length (payload p))" using assms by (simp add: packet_allowed_def)
  from ensures_no_panic [OF a2d_register_ensures [OF this]] show ?thesis
    by (simp add: a2d_step_def Type4 ensures_simps) (simp add: ensures_def)
next
  case (Type7 opc cnt)
  then show ?thesis using a2d_blit_ensures [of st fs] by (simp add: a2d_step_def ensures_simps)
qed

interpretation a2d_loop: checked_loop a2d_step "\<lambda>(st, fs). skeletons fs = k" packet_allowed
proof (rule checked_loopI)
  fix s :: "A2dState \<times> AddressField list" and p
  assume "case s of (st, fs) \<Rightarrow> skeletons fs = k" "packet_allowed p"
  then show "ensures (a2d_step s p) (\<lambda>(st, fs). skeletons fs = k)"
    using a2d_step_ensures [of p "fst s" "snd s"] by (auto simp: case_prod_beta)
qed

lemma a2d_sequences_ensures:
  assumes "list_all packet_allowed ps"
  shows "ensures (validate_a2d_sequences ps fs)
    (\<lambda>fs'. skeletons fs' = skeletons fs \<and> list_all (\<lambda>a. af_complete a \<longrightarrow> af_a2d a \<noteq> None) fs')"
  using a2d_loop.foldM_ensures [of "skeletons fs" "(A2dState_default, fs)" ps] assms
  by (auto simp: validate_a2d_sequences_def ensures_simps list_all_iff list_ex_iff elim!: ensures_mono)

section \<open>The decoded submit\<close>

text \<open>\<open>views d s\<close>: the accessors of the decoded submit \<open>d\<close> read the well-formed submit \<open>s\<close>. The
  validator uses a decoded submit only through these accessors.\<close>

definition views :: "DecodedSubmit \<Rightarrow> Submit \<Rightarrow> bool" where
  "views d s \<longleftrightarrow> submit_wf s \<and> pm4_len d = length (sub_pm4 s) \<and> resource_len d = length (sub_resources s) \<and>
     relocation_len d = length (sub_relocations s) \<and> (\<forall>i. pm4_word d i = Ok (get_at (sub_pm4 s) i)) \<and>
     (\<forall>i. resource d i = Ok (get_at (sub_resources s) i)) \<and>
     (\<forall>i. relocation d i = Ok (get_at (sub_relocations s) i))"

lemma decode_views:
  assumes "decode bytes = Ok d"
  shows "\<exists>s. views d s"
proof -
  obtain m s where s: "m \<le> 1" "submit_wf s" "list_all (minor_allows m) (sub_relocations s)"
    "bytes = wire_image m s"
    "d = decoded_of bytes (length (sub_pm4 s)) (length (sub_resources s)) (length (sub_relocations s))"
    using assms unfolding decode_eq_Ok by blast
  have "views d s"
    using s(2) decoded_views [OF s(2,1,3,4,5)]
    by (simp add: views_def s(5) pm4_len_def resource_len_def relocation_len_def)
  then show ?thesis ..
qed

lemma accessor_Ok [simp]: "accessor (Ok x) = Ok x"
  by (simp add: accessor_def)

lemma mapM_all: "(\<And>i. i < length ys \<Longrightarrow> f i = Ok (ys ! i)) \<Longrightarrow> mapM f [0..<length ys] = Ok ys"
  by (simp add: mapM_eq_Ok list_all2_conv_all_nth)

lemma copy_pm4_views:
  "views d s \<Longrightarrow> copy_pm4 alloc d =
     (if alloc PM4_COPY (length (sub_pm4 s)) then Ok (sub_pm4 s) else Err E_PM4_copy_allocation_failed)"
  by (simp add: copy_pm4_def views_def mapM_all guard_def)

lemma decoded_relocations_views: "views d s \<Longrightarrow> decoded_relocations d = Ok (sub_relocations s)"
  by (simp add: decoded_relocations_def views_def mapM_all)

section \<open>The texture pass\<close>

text \<open>Behind the 2D pass the fields also keep their 2D expectation.\<close>

definition frames :: "AddressField list \<Rightarrow> ((u32 \<times> u32 \<times> bool \<times> AddressEncoding \<times> AddressSource) \<times> A2dExpectation option) list" where
  "frames fs = map (\<lambda>a. (skeleton a, af_a2d a)) fs"

lemma frames_update [simp]:
  "skeleton b = skeleton (fs ! i) \<Longrightarrow> af_a2d b = af_a2d (fs ! i) \<Longrightarrow> frames (fs[i := b]) = frames fs"
  by (cases "i < length fs") (simp_all add: frames_def map_update list_update_same_conv list_update_beyond)

lemma frames_nth:
  "frames fs = frames fs' \<Longrightarrow> length fs = length fs' \<and>
    (\<forall>i < length fs'. skeleton (fs ! i) = skeleton (fs' ! i) \<and> af_a2d (fs ! i) = af_a2d (fs' ! i))"
  by (fastforce simp: frames_def list_eq_iff_nth_eq [of "map (\<lambda>a. (skeleton a, af_a2d a)) fs"])

lemma set_image_expectation_ensures [ensures_simps]:
  "ensures (set_image_expectation fs w e) P \<longleftrightarrow>
     (\<forall>i. address_index fs w = Some i \<longrightarrow> af_image (fs ! i) = None \<longrightarrow>
        P (fs[i := (fs ! i)\<lparr>af_image := Some e\<rparr>]))"
  by (auto simp: set_image_expectation_def ensures_simps)

lemma descriptor_expectations_ensures:
  "length (payload p) = 22 \<Longrightarrow>
   ensures (descriptor_expectations fs p) (\<lambda>fs'. frames fs' = frames fs)"
  by (simp add: descriptor_expectations_def ensures_simps Let_def)

lemma texture_location_ensures:
  assumes "views d s"
  shows "ensures (texture_location d rels w off) (\<lambda>loc. True)"
  using assms
  by (auto simp: texture_location_def ensures_simps Let_def views_def split: RelocationSource.splits)

lemma texture_step_ensures:
  assumes "views d s" "packet_allowed p"
  shows "ensures (texture_step d rels (ini, fs) p) (\<lambda>(ini', fs'). frames fs' = frames fs)"
proof -
  note loc = texture_location_ensures [OF assms(1), THEN ensures_no_panic]
  have "is_opcode p CP_MEM_WRITE \<Longrightarrow> length (payload p) = 22"
    using assms(2) by (auto simp: packet_allowed_def opcode_allowed_def is_opcode_def cp_opcode_defs
        split: Header.splits)
  then show ?thesis
    using loc descriptor_expectations_ensures [of p fs]
    by (auto simp: texture_step_def ensures_def outcome_simps split: option.splits)
qed

interpretation texture_loop: checked_loop "texture_step d rels" "\<lambda>(ini, fs). frames fs = k \<and> (\<exists>s. views d s)"
  packet_allowed
proof (rule checked_loopI)
  fix s :: "(u64 \<times> u64) set \<times> AddressField list" and p
  assume "case s of (ini, fs) \<Rightarrow> frames fs = k \<and> (\<exists>s. views d s)" "packet_allowed p"
  then show "ensures (texture_step d rels s p) (\<lambda>(ini, fs). frames fs = k \<and> (\<exists>s. views d s))"
    using texture_step_ensures [of d _ p rels "fst s" "snd s"] by (auto simp: case_prod_beta)
qed

lemma texture_initialization_ensures:
  assumes "views d s" "list_all packet_allowed ps"
  shows "ensures (validate_texture_initialization d ps fs rels) (\<lambda>fs'. frames fs' = frames fs)"
  using texture_loop.foldM_ensures [of "frames fs" d "({}, fs)" ps rels] assms
  by (auto simp: validate_texture_initialization_def ensures_simps)

section \<open>The register index of a draw segment\<close>

definition register_writes :: "u32 \<Rightarrow> packet \<Rightarrow> bool" where
  "register_writes r p \<longleftrightarrow> (case pkt_header p of Type4 reg _ \<Rightarrow> reg = r | _ \<Rightarrow> False)"

lemma sorted_dropWhile:
  "sorted (map key xs) \<Longrightarrow>
   dropWhile (\<lambda>e. key e < (r :: 'k::linorder)) xs = filter (\<lambda>e. key e = r) xs @ filter (\<lambda>e. r < key e) xs"
proof (induction xs)
  case (Cons x xs)
  show ?case
  proof (cases "key x < r")
    case False
    then have ge: "\<forall>e\<in>set xs. r \<le> key e" using Cons.prems by fastforce
    then have "dropWhile (\<lambda>e. key e < r) xs = xs" by (cases xs) auto
    then have xs: "filter (\<lambda>e. key e = r) xs @ filter (\<lambda>e. r < key e) xs = xs"
      using Cons by simp
    have "filter (\<lambda>e. key e = r) xs = []" if "key x \<noteq> r"
      using that False Cons.prems by (auto simp: filter_empty_conv)
    then show ?thesis using False xs by auto
  qed (use Cons in auto)
qed simp

lemma get_at_append: "get_at (as @ bs) (length as + k) = get_at bs k"
  by (simp add: get_at_def nth_append)

lemma get_at_after: "get_at xs (length (takeWhile P xs) + k) = get_at (dropWhile P xs) k"
  using get_at_append [of "takeWhile P xs" "dropWhile P xs" k] by (simp only: takeWhile_dropWhile_id)

lemma segment_reg_sorted:
  assumes "sorted (map sr_register (si_registers si))"
  shows "segment_reg si r = (case filter (\<lambda>e. sr_register e = r) (si_registers si) of
     [e] \<Rightarrow> Some (sr_word_offset e, sr_payload e) | _ \<Rightarrow> None)"
proof -
  let ?rs = "si_registers si"
  let ?i = "length (takeWhile (\<lambda>e. sr_register e < r) ?rs)"
  let ?eq = "filter (\<lambda>e. sr_register e = r) ?rs" and ?gt = "filter (\<lambda>e. r < sr_register e) ?rs"
  have at: "get_at ?rs ?i = get_at (?eq @ ?gt) 0" "get_at ?rs (?i + 1) = get_at (?eq @ ?gt) 1"
    using get_at_after [of ?rs "\<lambda>e. sr_register e < r" 0] get_at_after [of ?rs "\<lambda>e. sr_register e < r" 1]
    by (simp_all add: sorted_dropWhile [OF assms])
  have eq: "\<forall>e\<in>set ?eq. sr_register e = r" and gt: "\<forall>e\<in>set ?gt. sr_register e \<noteq> r" by auto
  have lookup: "(case get_at (es @ gs) 0 of None \<Rightarrow> None
      | Some e \<Rightarrow> if sr_register e \<noteq> r \<or>
           (case get_at (es @ gs) 1 of Some nxt \<Rightarrow> sr_register nxt = r | None \<Rightarrow> False)
         then None else Some (sr_word_offset e, sr_payload e)) =
      (case es of [e] \<Rightarrow> Some (sr_word_offset e, sr_payload e) | _ \<Rightarrow> None)"
    if "\<forall>e\<in>set es. sr_register e = r" "\<forall>e\<in>set gs. sr_register e \<noteq> r" for es gs
  proof (cases es)
    case Nil
    then show ?thesis using that by (cases gs) (simp_all add: get_at_def)
  next
    case (Cons e es')
    show ?thesis
    proof (cases es')
      case Nil
      then show ?thesis using that Cons by (cases gs) (simp_all add: get_at_def)
    next
      case (Cons e' es'')
      then show ?thesis using that \<open>es = e # es'\<close> by (simp add: get_at_def)
    qed
  qed
  show ?thesis unfolding segment_reg_def Let_def at by (rule lookup [OF eq gt])
qed

lemma register_entries:
  "filter (\<lambda>e. sr_register e = r) (List.map_filter segment_register ps) =
   map (\<lambda>p. \<lparr>sr_register = r, sr_word_offset = word_offset p, sr_payload = payload p\<rparr>)
     (filter (register_writes r) ps)"
  by (induction ps) (auto simp: List.map_filter_simps segment_register_def register_writes_def
      split: Header.splits)

lemma segment_reg_linear:
  assumes "mset regs = mset (List.map_filter segment_register ps)" "sorted (map sr_register regs)"
  shows "segment_reg \<lparr>si_packets = ps, si_registers = regs\<rparr> r =
    (case filter (register_writes r) ps of [p] \<Rightarrow> Some (word_offset p, payload p) | _ \<Rightarrow> None)"
proof -
  let ?es = "filter (\<lambda>e. sr_register e = r) regs"
  let ?f = "\<lambda>p. \<lparr>sr_register = r, sr_word_offset = word_offset p, sr_payload = payload p\<rparr>"
  have "mset ?es = mset (filter (\<lambda>e. sr_register e = r) (List.map_filter segment_register ps))"
    using assms(1) by (simp add: mset_filter)
  then have m: "mset ?es = mset (map ?f (filter (register_writes r) ps))"
    by (simp only: register_entries)
  have len: "length ?es = length (filter (register_writes r) ps)"
    using mset_eq_length [OF m] by simp
  show ?thesis
  proof (cases "\<exists>p. filter (register_writes r) ps = [p]")
    case True
    then obtain p where p: "filter (register_writes r) ps = [p]" by blast
    have "mset ?es = {#?f p#}" using m by (simp only: p list.map mset.simps)
    then have "?es = [?f p]" by (simp only: mset_single_iff)
    then show ?thesis using assms(2) p by (simp add: segment_reg_sorted)
  next
    case False
    then have "length ?es \<noteq> 1" unfolding len by (auto simp: length_Suc_conv)
    then have none: "(case ?es of [e] \<Rightarrow> Some (sr_word_offset e, sr_payload e) | _ \<Rightarrow> None) = None"
      by (auto split: list.split)
    have "(case filter (register_writes r) ps of [p] \<Rightarrow> Some (word_offset p, payload p) | _ \<Rightarrow> None) = None"
      using False by (auto split: list.split)
    then show ?thesis using assms(2) none by (simp add: segment_reg_sorted)
  qed
qed

lemma segment_reg_index:
  "segment_reg (segment_index ps) r =
    (case filter (register_writes r) ps of [p] \<Rightarrow> Some (word_offset p, payload p) | _ \<Rightarrow> None)"
  unfolding segment_index_def by (rule segment_reg_linear) simp_all

lemma segment_reg_Some:
  assumes "segment_reg (segment_index ps) r = Some (off, pl)"
  obtains p cnt where "p \<in> set ps" "pkt_header p = Type4 r cnt" "word_offset p = off" "payload p = pl"
proof -
  obtain p where p: "filter (register_writes r) ps = [p]" "word_offset p = off" "payload p = pl"
    using assms by (auto simp: segment_reg_index split: list.splits)
  then have "p \<in> set (filter (register_writes r) ps)" by simp
  then have "p \<in> set ps" "register_writes r p" by simp_all
  then show ?thesis using p that by (auto simp: register_writes_def split: Header.splits)
qed

lemma segment_reg_length:
  assumes "segment_reg (segment_index ps) r = Some (off, pl)" "list_all packet_allowed ps"
    "register_arity r = Some n"
  shows "length pl = n"
proof -
  obtain p cnt where "p \<in> set ps" "pkt_header p = Type4 r cnt" "payload p = pl"
    using assms(1) by (rule segment_reg_Some)
  then show ?thesis using assms(2,3) by (auto simp: list_all_iff packet_allowed_def register_allowed_def)
qed

section \<open>The 3D pass\<close>

definition target_ok :: "ValidatedTargetState \<Rightarrow> bool" where
  "target_ok t \<longleftrightarrow> length (vt_screen t) = 2 \<and> length (vt_viewport t) = 2 \<and>
     \<not> scissor_unsafe (vt_screen t) (vt_viewport t)"

interpretation candidate_loop: checked_loop "candidate_step si rels" "\<lambda>m. True" "\<lambda>v. True"
  by (rule checked_loopI) (simp add: candidate_step_def ensures_simps)

lemma retain_pipeline_ensures: "ensures (retain_pipeline strict si rels retained delta) (\<lambda>v. True)"
  using candidate_loop.foldM_no_panic [of PipelineVariant_ALL]
  by (auto simp: retain_pipeline_def ensures_def outcome_simps list_all_iff split: option.splits)

lemma shader_transition_ensures: "ensures (shader_transition si ini delta) (\<lambda>b. True)"
  by (simp add: shader_transition_def ensures_simps Let_def)

lemma target_initialize_ensures:
  assumes "list_all packet_allowed seg"
  shows "ensures (target_initialize (segment_index seg) fs)
    (\<lambda>(t, fs'). target_ok t \<and> frames fs' = frames fs)"
proof -
  have "register_arity RB_MRT_PITCH = Some 2" by (simp add: register_facts)
  note pitch = segment_reg_length [OF _ assms this]
  show ?thesis
    by (auto simp: target_initialize_def ensures_simps target_ok_def dest!: pitch)
qed

lemma target_transition_ensures:
  assumes "list_all packet_allowed seg" "\<And>t. ts = Some t \<Longrightarrow> target_ok t"
  shows "ensures (target_transition (segment_index seg) fs ts delta)
    (\<lambda>(t, fs'). target_ok t \<and> frames fs' = frames fs)"
  unfolding target_transition_def Let_def
proof (intro ensures_if)
  show "ensures (target_initialize (segment_index seg) fs) (\<lambda>(t, fs'). target_ok t \<and> frames fs' = frames fs)"
    using assms(1) by (rule target_initialize_ensures)
qed (simp_all add: ensures_simps assms(2))

lemma depth_transition_ensures:
  assumes "list_all packet_allowed seg"
  shows "ensures (depth_transition (segment_index seg) t fs ini delta) (\<lambda>(b, fs'). frames fs' = frames fs)"
proof -
  have "register_arity RB_DEPTH_BUFFER_INFO = Some 6" by (simp add: register_facts)
  note info = segment_reg_length [OF _ assms this]
  show ?thesis
    by (auto simp: depth_transition_def ensures_simps Let_def dest!: info split: option.splits)
qed

lemma window_check_ensures:
  assumes "list_all packet_allowed seg"
  shows "ensures (window_check (segment_index seg) t) (\<lambda>u. True)"
proof -
  have "register_arity GRAS_SC_WINDOW_SCISSOR_TL = Some 2" by (simp add: register_facts)
  note window = segment_reg_length [OF _ assms this]
  show ?thesis by (auto simp: window_check_def ensures_simps dest!: window)
qed

lemma vertex_check_ensures:
  assumes "list_all packet_allowed seg" "packet_allowed p" "is_draw p"
  shows "ensures (vertex_check (segment_index seg) p fs) (\<lambda>fs'. frames fs' = frames fs)"
proof -
  have "register_arity VFD_VERTEX_BUFFER_SIZE = Some 2" "register_arity VFD_INDEX_OFFSET = Some 2"
    by (simp_all add: register_facts)
  note arity = segment_reg_length [OF _ assms(1) this(1)] segment_reg_length [OF _ assms(1) this(2)]
  show ?thesis
    by (auto simp: vertex_check_def ensures_simps dest!: arity)
qed

lemma descriptor_check_ensures:
  "ensures (descriptor_check si fs) (\<lambda>fs'. frames fs' = frames fs)"
  by (simp add: descriptor_check_def ensures_simps Let_def split: option.splits)

definition draw_inv ::
  "((u32 \<times> u32 \<times> bool \<times> AddressEncoding \<times> AddressSource) \<times> A2dExpectation option) list \<Rightarrow>
   usize \<Rightarrow> draw_state \<times> AddressField list \<Rightarrow> bool" where
  "draw_inv k i s \<longleftrightarrow> segment_start (fst s) \<le> i \<and> frames (snd s) = k \<and>
     (\<forall>t. target_state (fst s) = Some t \<longrightarrow> target_ok t)"

lemma draw_step_ensures:
  assumes "list_all packet_allowed ps" "i < length ps" "draw_inv k i s"
  shows "ensures (draw_step strict ps rels s (i, ps ! i)) (draw_inv k (i + 1))"
proof (cases "is_draw (ps ! i)")
  case False
  then show ?thesis using assms(3) by (cases s) (simp add: draw_step_def ensures_simps draw_inv_def)
next
  case True
  obtain st fs where s: "s = (st, fs)" by (cases s)
  let ?seg = "take (i - segment_start st) (drop (segment_start st) ps)"
  have seg: "list_all packet_allowed ?seg" "packet_allowed (ps ! i)"
    using assms(1,2) by (auto simp: list_all_iff dest: in_set_takeD in_set_dropD)
  have inv: "segment_start st \<le> i" "frames fs = k" "\<And>t. target_state st = Some t \<Longrightarrow> target_ok t"
    using assms(3) by (simp_all add: s draw_inv_def)
  note target = target_transition_ensures [OF seg(1) inv(3)]
  note depth = depth_transition_ensures [OF seg(1)]
  note window = window_check_ensures [OF seg(1)]
  note vertex = vertex_check_ensures [OF seg True]
  have slice: "slice ps (segment_start st) i = Ok ?seg"
    using inv(1) assms(2) by (simp add: slice_def)
  have nd: "\<not> \<not> is_draw (ps ! i)" using True by simp
  show ?thesis
    unfolding s draw_step_def Let_def prod.case if_not_P [OF nd] slice andThen.simps
    apply (rule ensures_bind [OF retain_pipeline_ensures])
    apply (rule ensures_bind [OF shader_transition_ensures])
    apply (rule ensures_bind2 [OF target], assumption)
    apply (rule ensures_bind2 [OF depth])
    apply (rule ensures_bind [OF window])
    apply (rule ensures_bind [OF vertex])
    apply (rule ensures_bind [OF descriptor_check_ensures])
    using inv(2) apply (simp add: ensures_simps draw_inv_def)
    done
qed

lemma sequences_3d_ensures:
  assumes "list_all packet_allowed ps"
  shows "ensures (validate_3d_sequences strict ps fs rels) (\<lambda>fs'. frames fs' = frames fs)"
proof -
  have "ensures (foldM (draw_step strict ps rels) (draw_state_new, fs) (enumerate 0 ps))
    (draw_inv (frames fs) (0 + length ps))"
  proof (rule ensures_enumerate)
    show "draw_inv (frames fs) 0 (draw_state_new, fs)" by (simp add: draw_inv_def draw_state_new_def)
  qed (use draw_step_ensures [OF assms] in simp)
  then show ?thesis
    by (auto simp: validate_3d_sequences_def ensures_simps draw_inv_def case_prod_beta elim!: ensures_mono)
qed

section \<open>The accepted stream\<close>

text \<open>What \<open>validate_pm4\<close> establishes of the stream, its packets and its address fields.\<close>

definition stream_accepted ::
  "allocator \<Rightarrow> u32 list \<Rightarrow> Relocation list \<Rightarrow> packet list \<Rightarrow> AddressField list \<Rightarrow> bool" where
  "stream_accepted alloc words rels ps fs \<longleftrightarrow>
     framed 0 ps words \<and> list_all packet_allowed ps \<and>
     (\<exists>fs0. foldM (validate_packet alloc) [] ps = Ok fs0 \<and> skeletons fs = skeletons fs0) \<and>
     length fs = length rels \<and> list_all field_matches (zip fs rels) \<and>
     list_all (\<lambda>a. af_complete a \<longrightarrow> af_a2d a \<noteq> None) fs \<and>
     writes_fenced ps \<and> ccu_blocks ps \<and> renders_retired ps"

lemma views_small: "views d s \<Longrightarrow> length (sub_pm4 s) < 2 ^ 32"
  by (auto simp: views_def submit_wf_def counts_ok_def table_total_def resources_start_def wire_sizes)

lemma frames_skeletons: "frames fs = frames fs' \<Longrightarrow> skeletons fs = skeletons fs'"
proof -
  have "skeletons gs = map fst (frames gs)" for gs by (simp add: skeletons_def frames_def)
  then show "frames fs = frames fs' \<Longrightarrow> skeletons fs = skeletons fs'" by simp
qed

lemma frames_consumed:
  assumes "frames fs = frames fs'" "list_all (\<lambda>a. af_complete a \<longrightarrow> af_a2d a \<noteq> None) fs'"
  shows "list_all (\<lambda>a. af_complete a \<longrightarrow> af_a2d a \<noteq> None) fs"
  using frames_nth [OF assms(1)] assms(2) by (simp add: list_all_length skeleton_def)

lemma collect_ensures:
  assumes "length ws < 2 ^ 32"
  shows "ensures (collect_packets (packets_new ws)) (\<lambda>ps. framed 0 ps ws)"
  using collect_packets_framed [of 0 ws] collect_packets_no_panic [of 0 ws] assms
  by (auto simp: ensures_def packets_new_at)

lemma packet_loop_ensures:
  "ensures (foldM (validate_packet alloc) [] ps)
     (\<lambda>fs. foldM (validate_packet alloc) [] ps = Ok fs \<and> list_all packet_allowed ps)"
  using packet_loop.foldM_no_panic [of "[]" ps alloc]
  by (auto simp: ensures_def list_all_iff dest: accepted_stream_allowed [unfolded list_all_iff])

lemma order_ensures:
  "ensures (validate_memcpy_barriers ps) (\<lambda>u. writes_fenced ps)"
  "ensures (validate_ccu_transitions ps) (\<lambda>u. ccu_blocks ps)"
  "list_all packet_allowed ps \<Longrightarrow> ensures (validate_render_retirement ps) (\<lambda>u. renders_retired ps)"
  using memcpy_barriers_no_panic [of ps] memcpy_barriers_from [of False ps]
    ccu_transitions_no_panic [of ps] ccu_pass [of Idle ps]
    retirement_no_panic [of ps False False False] retirement_sound [of False False False ps]
  by (auto simp: ensures_def validate_memcpy_barriers_def validate_ccu_transitions_def
      validate_render_retirement_def outcome_simps)

lemma validate_pm4_ensures:
  assumes "views d s"
  shows "ensures (validate_pm4 alloc strict d rels)
    (\<lambda>(words, fs). words = sub_pm4 s \<and> (\<exists>ps. stream_accepted alloc words rels ps fs))"
proof -
  note small = views_small [OF assms]
  note copy = copy_pm4_views [OF assms, of alloc]
  show ?thesis
  proof (cases "alloc PM4_COPY (length (sub_pm4 s))")
    case False
    then show ?thesis by (simp add: validate_pm4_def copy ensures_simps)
  next
    case True
    have accepted: "stream_accepted alloc words rels ps fs3"
      if "framed 0 ps words" "foldM (validate_packet alloc) [] ps = Ok fs0" "list_all packet_allowed ps"
        "length fs0 = length rels" "writes_fenced ps" "ccu_blocks ps" "renders_retired ps"
        "skeletons fs1 = skeletons fs0" "list_all (\<lambda>a. af_complete a \<longrightarrow> af_a2d a \<noteq> None) fs1"
        "frames fs2 = frames fs1" "frames fs3 = frames fs2" "list_all field_matches (zip fs3 rels)"
      for words ps fs0 fs1 fs2 fs3
    proof -
      have "skeletons fs3 = skeletons fs0" "length fs3 = length fs0"
        using that(8,10,11) frames_skeletons skeletons_length by metis+
      then show ?thesis
        using that frames_consumed [of fs3 fs1] by (auto simp: stream_accepted_def)
    qed
    show ?thesis
      unfolding validate_pm4_def copy if_P [OF True] andThen.simps
      apply (rule ensures_bind [OF ensures_map_err [THEN iffD2, OF collect_ensures [OF small]]])
      apply (rule ensures_bind [OF ensures_guardI])
      apply (rule ensures_bind [OF packet_loop_ensures], erule conjE)
      apply (rule ensures_bind [OF ensures_guardI])
      apply (rule ensures_bind [OF ensures_guardI])
      apply (rule ensures_bind [OF order_ensures(1)])
      apply (rule ensures_bind [OF order_ensures(2)])
      apply (rule ensures_bind [OF order_ensures(3)], assumption)
      apply (rule ensures_bind [OF a2d_sequences_ensures], assumption, erule conjE)
      apply (rule ensures_bind [OF texture_initialization_ensures [OF assms]], assumption)
      apply (rule ensures_bind [OF sequences_3d_ensures], assumption)
      apply (rule ensures_bind [OF ensures_guardI])
      apply (unfold ensures_Ok prod.case, intro conjI refl exI)
      by (rule accepted; assumption)
  qed
qed

section \<open>Properties\<close>

text \<open>C23. The sorted register index of a draw segment, built with any sorting order of equal keys, finds
  exactly what a scan of the segment finds: the packet that writes the register if it is the only one,
  and nothing if the register is written twice or never.\<close>

theorem segment_index_is_linear_search:
  assumes "mset regs = mset (List.map_filter segment_register ps)" "sorted (map sr_register regs)"
  shows "segment_reg \<lparr>si_packets = ps, si_registers = regs\<rparr> r =
    (case filter (register_writes r) ps of [p] \<Rightarrow> Some (word_offset p, payload p) | _ \<Rightarrow> None)"
  using assms by (rule segment_reg_linear)

definition two_writes :: "packet list" where
  "two_writes =
     [\<lparr>pkt_header = Type4 RB_MRT_BASE 2, payload = [0, 0], word_offset = 0\<rparr>,
      \<lparr>pkt_header = Type4 RB_MRT_PITCH 2, payload = [4, 8], word_offset = 3\<rparr>]"

theorem segment_index_is_linear_search_witness:
  "segment_reg \<lparr>si_packets = two_writes, si_registers =
     [\<lparr>sr_register = RB_MRT_PITCH, sr_word_offset = 3, sr_payload = [4, 8]\<rparr>,
      \<lparr>sr_register = RB_MRT_BASE, sr_word_offset = 0, sr_payload = [0, 0]\<rparr>]\<rparr> RB_MRT_PITCH =
   Some (3, [4, 8])"
proof -
  let ?rs = "[\<lparr>sr_register = RB_MRT_PITCH, sr_word_offset = 3, sr_payload = [4, 8]\<rparr>,
      \<lparr>sr_register = RB_MRT_BASE, sr_word_offset = 0, sr_payload = [0, 0]\<rparr>]"
  have "mset ?rs = mset (List.map_filter segment_register two_writes)"
    by (simp add: two_writes_def List.map_filter_simps segment_register_def)
  moreover have "sorted (map sr_register ?rs)" by (simp add: register_defs)
  ultimately show ?thesis
    by (subst segment_index_is_linear_search)
      (simp_all add: two_writes_def register_writes_def register_defs)
qed

end
