(* ===== verification/Gpu_Isolation.thy ===== *)
theory Gpu_Isolation
  imports Sequence_Rules
begin

text \<open>
  Memory isolation of \<open>validate_and_relocate\<close>, the entry point of
  \<^verbatim>\<open>src/drivers/gpu/qcom-adreno-a618/src/submit.rs\<close>. \<open>relocate_one_ensures\<close> is the effect of one
  relocation, \<open>relocated\<close> the invariant of the relocation loop, \<open>run_of\<close> what a successful run
  consists of. The properties state where every address of the relocated stream points, that nothing
  else of the stream changes, and that no input makes the validator panic.
\<close>

section \<open>One relocation\<close>

text \<open>The GPU address that a relocated stream holds in the two dwords of a relocation.\<close>

definition placed_address :: "u32 list \<Rightarrow> Relocation \<Rightarrow> nat" where
  "placed_address ws rel =
     (let i = unat (pm4_word_offset rel) in
      case rel_encoding rel of
        GpuVa64 \<Rightarrow> unat (ws ! i) + 2 ^ 32 * unat (ws ! (i + 1))
      | GpuVa49TexDescriptor \<Rightarrow>
          unat (ws ! i AND NOT 0x1f) + 2 ^ 32 * unat (ws ! (i + 1) AND 0x1ffff))"

lemma unat_high: "unat (drop_bit 32 (a :: u64)) = unat a div 2 ^ 32"
  using drop_bit_eq_div [of 32 "unat a"] by (simp only: unat_drop_bit_eq)

lemma unat_halves: "unat (ucast a :: u32) + 2 ^ 32 * unat (ucast (drop_bit 32 a) :: u32) = unat (a :: u64)"
proof -
  have "unat a < 2 ^ 64" using unsigned_less [of a, where ?'a = nat] by simp
  then have "unat (drop_bit 32 a) < 2 ^ 32" by (simp add: unat_high)
  then have "unat (ucast (drop_bit 32 a) :: u32) = unat a div 2 ^ 32"
    by (simp add: unsigned_ucast_eq take_bit_eq_mod unat_high)
  moreover have "unat (ucast a :: u32) = unat a mod 2 ^ 32" by (simp add: unsigned_ucast_eq take_bit_eq_mod)
  ultimately show ?thesis by simp
qed

lemma merge_masked: "((w AND m) OR (a AND NOT m)) AND NOT m = a AND NOT (m :: u32)"
  by (rule bit_word_eqI) (auto simp: bit_simps)

lemma merge_masked': "((w AND NOT m) OR (a AND m)) AND m = a AND (m :: u32)"
  by (rule bit_word_eqI) (auto simp: bit_simps)

lemma low_clear:
  assumes "(a :: u64) AND 0x1f = 0"
  shows "(ucast a :: u32) AND NOT 0x1f = ucast a"
proof -
  have "(ucast a :: u32) AND 0x1f = ucast (a AND 0x1f)" by (rule bit_word_eqI) (auto simp: bit_simps)
  then have z: "(ucast a :: u32) AND 0x1f = 0" using assms by simp
  have "(ucast a :: u32) = ((ucast a AND 0x1f) OR (ucast a AND NOT 0x1f))"
    by (rule bit_word_eqI) (auto simp: bit_simps)
  then show ?thesis using z by simp
qed

lemma high_small:
  assumes "(a :: u64) < push_bit 49 1"
  shows "(ucast (drop_bit 32 a) :: u32) AND 0x1ffff = ucast (drop_bit 32 a)"
proof -
  have "unat a < 2 ^ 49" using assms by (simp add: word_less_nat_alt)
  then have "unat a div 2 ^ 32 < 2 ^ 17" by (simp add: less_mult_imp_div_less)
  moreover have "unat (ucast (drop_bit 32 a) :: u32) = unat a div 2 ^ 32 mod 2 ^ 32"
    by (simp add: unsigned_ucast_eq take_bit_eq_mod unat_high)
  ultimately have "take_bit 17 (unat (ucast (drop_bit 32 a) :: u32)) = unat (ucast (drop_bit 32 a) :: u32)"
    by (simp add: take_bit_nat_eq_self)
  then have "unat (take_bit 17 (ucast (drop_bit 32 a) :: u32)) = unat (ucast (drop_bit 32 a) :: u32)"
    by (simp only: unsigned_take_bit_eq)
  then have "take_bit 17 (ucast (drop_bit 32 a) :: u32) = ucast (drop_bit 32 a)"
    by (simp only: unsigned_word_eqI)
  moreover have "(0x1ffff :: u32) = mask 17" by (simp add: mask_eq_exp_minus_1)
  ultimately show ?thesis by (simp only: take_bit_eq_mask)
qed

lemma checked_add_Some:
  "checked_add (a :: 'w::len word) b = Some c \<longleftrightarrow> c = a + b \<and> unat a + unat b < 2 ^ LENGTH('w)"
  by (auto simp: checked_add_def)

lemma placed_va64:
  assumes "rel_encoding rel = GpuVa64" "i = unat (pm4_word_offset rel)" "i + 2 \<le> length words"
  shows "placed_address (words[i := ucast a, Suc i := ucast (drop_bit 32 a)]) rel = unat (a :: u64)"
  using assms by (simp add: placed_address_def Let_def unat_halves [simplified])

lemma placed_va49:
  assumes "rel_encoding rel = GpuVa49TexDescriptor" "i = unat (pm4_word_offset rel)" "i + 2 \<le> length words"
    "a AND 0x1f = 0" "a < push_bit 49 1"
  shows "placed_address (words[i := (words ! i AND 0x1f) OR (ucast a AND NOT 0x1f),
      Suc i := (words ! Suc i AND NOT 0x1ffff) OR (ucast (drop_bit 32 a) AND 0x1ffff)]) rel = unat (a :: u64)"
proof -
  have lo: "((words ! i AND 0x1f) OR (ucast a AND NOT 0x1f)) AND NOT 0x1f = ucast a"
    by (rule trans [OF merge_masked low_clear [OF assms(4)]])
  have hi: "((words ! Suc i AND NOT 0x1ffff) OR (ucast (drop_bit 32 a) AND 0x1ffff)) AND 0x1ffff =
      ucast (drop_bit 32 a)"
    by (rule trans [OF merge_masked' high_small [OF assms(5)]])
  have "i < length words" "Suc i < length words" using assms(3) by simp_all
  then show ?thesis
    unfolding placed_address_def Let_def assms(1) AddressEncoding.case assms(2) [symmetric]
    by (simp only: nth_list_update_eq nth_list_update_neq length_list_update Suc_eq_plus1 [symmetric] n_not_Suc_n lo hi
        unat_halves not_False_eq_True)
qed

lemma relocate_one_ensures:
  assumes "unat (pm4_word_offset rel) + 2 \<le> length words"
  shows "ensures (relocate_one words rel res) (\<lambda>ws. length ws = length words \<and>
    (\<forall>k. k \<noteq> unat (pm4_word_offset rel) \<longrightarrow> k \<noteq> unat (pm4_word_offset rel) + 1 \<longrightarrow> ws ! k = words ! k) \<and>
    placed_address ws rel = unat (rr_gpu_va res) + unat (resource_offset rel) \<and>
    placed_address ws rel + unat (required_size rel) \<le> unat (rr_gpu_va res) + unat (rr_allocation_size res) \<and>
    unat (rr_gpu_va res) + unat (rr_allocation_size res) < 2 ^ 64)"
proof -
  let ?i = "unat (pm4_word_offset rel)" and ?a = "rr_gpu_va res + resource_offset rel"
  have sum: "unat (x + y) = unat x + unat y" if "unat x + unat y < 2 ^ 64" for x y :: u64
    using that by (simp add: unat_word_ariths)
  note va64 = placed_va64 [OF _ refl assms, of ?a] and va49 = placed_va49 [OF _ refl assms, of ?a, simplified]
  show ?thesis
    unfolding relocate_one_def Let_def
    by (simp add: ensures_simps checked_add_Some split: AddressEncoding.split)
      (auto simp: sum word_less_nat_alt not_le va64 va49)
qed

section \<open>Image ranges\<close>

definition image_ok :: "LinearImage \<Rightarrow> bool" where
  "image_ok img \<longleftrightarrow> (\<forall>t. img_texture img = Some t \<longrightarrow> layer_stride t \<noteq> 0)"

lemma image_range_ensures:
  assumes "image_ok img" "bytes \<noteq> 0"
  shows "ensures (image_range img off bytes) (\<lambda>found. \<forall>i. found = Some i \<longrightarrow> image_ok i)"
proof -
  have upd: "image_ok (img\<lparr>img_format := f\<rparr>)" "image_ok (img\<lparr>img_visible_size := v\<rparr>)"
    "image_ok (img\<lparr>img_format := f, img_visible_size := v\<rparr>)"
    "image_ok (img\<lparr>img_format := f, img_width := w, img_height := h, img_visible_size := v\<rparr>)"
    "image_ok (img\<lparr>img_texture := None, img_width := w, img_height := h, img_row_pitch := p, img_visible_size := v\<rparr>)"
    for f v w h p
    using assms(1) by (simp_all add: image_ok_def)
  have "img_texture img = Some t \<Longrightarrow> layer_stride t \<noteq> 0" for t
    using assms(1) by (simp add: image_ok_def)
  then show ?thesis
    using assms upd unfolding image_range_def
    by (cases "img_format img") (simp_all add: ensures_simps split: option.split, blast+)
qed

lemma optional_range_ensures:
  assumes "\<And>img. opt = Some img \<Longrightarrow> image_ok img" "bytes \<noteq> 0"
  shows "ensures (optional_range opt off bytes) (\<lambda>found. \<forall>i. found = Some i \<longrightarrow> image_ok i)"
  using assms by (cases opt) (simp_all add: optional_range_def ensures_simps image_range_ensures)

section \<open>The resource table\<close>

definition resource_images_ok :: "ResolvedResource \<Rightarrow> bool" where
  "resource_images_ok res \<longleftrightarrow> (\<forall>img. rr_linear_image res = Some img \<longrightarrow> image_ok img)"

text \<open>A resolved table entry is the submitted range of an attached resource: its address is the start of
  the range, its size and access are those of the wire, and both stay inside the attachment.\<close>

definition entry_of :: "(u64 \<Rightarrow> ResolvedResource option) \<Rightarrow> Resource \<Rightarrow> ResolvedResource \<Rightarrow> bool" where
  "entry_of resolve wire entry \<longleftrightarrow>
     (\<exists>res. resolve (attachment_token wire) = Some res \<and>
        res_access wire AND NOT (rr_allowed_access res) = 0 \<and> rr_allowed_access entry = res_access wire \<and>
        unat (rr_gpu_va entry) = unat (rr_gpu_va res) + unat (range_offset wire) \<and>
        rr_allocation_size entry = range_size wire \<and>
        unat (range_offset wire) + unat (range_size wire) \<le> unat (rr_allocation_size res))"

lemma resolve_resource_value:
  assumes "views d s" "i < resource_len d" "resolve_resource resolve d i = Ok entry"
  shows "entry_of resolve (sub_resources s ! i) entry"
proof -
  let ?w = "sub_resources s ! i"
  have i: "resource d i = Ok (Some ?w)" using assms(1,2) by (simp add: views_def)
  show ?thesis
    using assms(3)
    by (auto simp: resolve_resource_def i outcome_simps checked_add_Some entry_of_def not_less
        word_le_nat_alt unat_word_ariths split: if_splits)
qed

lemma resolve_resource_ensures:
  assumes "views d s" "i < resource_len d" "\<And>t res. resolve t = Some res \<Longrightarrow> resource_images_ok res"
  shows "ensures (resolve_resource resolve d i) resource_images_ok"
proof -
  let ?w = "sub_resources s ! i"
  have i: "resource d i = Ok (Some ?w)" using assms(1,2) by (simp add: views_def)
  have "resource_ok ?w"
    using assms(1,2) by (simp add: views_def submit_wf_def list_all_length)
  then have "range_size ?w \<noteq> 0" by (simp add: resource_ok_def)
  then have range: "ensures (optional_range (rr_linear_image res) (range_offset ?w) (range_size ?w))
      (\<lambda>found. \<forall>i. found = Some i \<longrightarrow> image_ok i)" if "resolve t = Some res" for t res
    using assms(3) [OF that] by (intro optional_range_ensures) (simp_all add: resource_images_ok_def)
  show ?thesis
    unfolding resolve_resource_def i
    by (auto simp: ensures_simps resource_images_ok_def intro!: ensures_mono [OF range])
qed

section \<open>The relocation loop\<close>

text \<open>A relocation is placed when the stream holds the address of its resource at its offset, the whole
  required range lies inside the resource, and the resource grants the access. \<open>checks\<close> are the image
  checks of the address field.\<close>

definition image_checks :: "AddressField \<Rightarrow> Relocation \<Rightarrow> ResolvedResource \<Rightarrow> bool" where
  "image_checks a rel res \<longleftrightarrow>
     (\<forall>req. af_required_size a = Some req \<longrightarrow> required_size rel = req) \<and>
     (af_complete a \<longrightarrow> check_a2d_image a rel res = Ok ()) \<and>
     (\<forall>e. af_image a = Some e \<longrightarrow> check_3d_image e rel res = Ok ())"

definition placed ::
  "(ShaderVariant \<Rightarrow> ResolvedResource option) \<Rightarrow> ResolvedResource list \<Rightarrow> u32 list \<Rightarrow> AddressField \<Rightarrow>
   Relocation \<Rightarrow> bool" where
  "placed resolve_shader resources ws a rel \<longleftrightarrow>
     (\<exists>res. relocation_resource resolve_shader resources rel = Ok res \<and>
        rel_access rel AND NOT (rr_allowed_access res) = 0 \<and> image_checks a rel res \<and>
        placed_address ws rel = unat (rr_gpu_va res) + unat (resource_offset rel) \<and>
        placed_address ws rel + unat (required_size rel) \<le> unat (rr_gpu_va res) + unat (rr_allocation_size res) \<and>
        unat (rr_gpu_va res) + unat (rr_allocation_size res) < 2 ^ 64)"

definition slot :: "Relocation \<Rightarrow> nat set" where
  "slot rel = {unat (pm4_word_offset rel), unat (pm4_word_offset rel) + 1}"

lemma placed_address_slot:
  "(\<And>k. k \<in> slot rel \<Longrightarrow> ws' ! k = ws ! k) \<Longrightarrow> placed_address ws' rel = placed_address ws rel"
  by (simp add: placed_address_def slot_def Let_def split: AddressEncoding.split)

lemma slots_disjoint: "rel_before r r' \<Longrightarrow> k \<in> slot r \<Longrightarrow> k \<notin> slot r'"
  by (auto simp: rel_before_def slot_def)

lemma check_a2d_image_ensures:
  assumes "resource_images_ok res" "required_size rel \<noteq> 0"
  shows "ensures (check_a2d_image a rel res) (\<lambda>u. True)"
proof -
  have "ensures (optional_range (rr_linear_image res) (resource_offset rel) (required_size rel))
    (\<lambda>found. \<forall>i. found = Some i \<longrightarrow> image_ok i)"
    using assms by (intro optional_range_ensures) (simp_all add: resource_images_ok_def)
  from ensures_no_panic [OF this] show ?thesis
    unfolding check_a2d_image_def by (auto simp: ensures_def outcome_simps split: if_splits)
qed

lemma check_3d_image_ensures:
  assumes "resource_images_ok res" "required_size rel \<noteq> 0"
  shows "ensures (check_3d_image e rel res) (\<lambda>u. True)"
proof -
  have "ensures (optional_range (rr_linear_image res) (resource_offset rel) (required_size rel))
    (\<lambda>found. \<forall>i. found = Some i \<longrightarrow> image_ok i)"
    using assms by (intro optional_range_ensures) (simp_all add: resource_images_ok_def)
  from ensures_no_panic [OF this] show ?thesis
    unfolding check_3d_image_def by (auto simp: ensures_def outcome_simps split: if_splits)
qed

lemma relocate_step_value:
  assumes "relocate_step resolve_shader resources fs ws (i, rel) = Ok ws'"
    "unat (pm4_word_offset rel) + 2 \<le> length ws" "i < length fs"
  shows "length ws' = length ws" and "\<And>k. k \<notin> slot rel \<Longrightarrow> ws' ! k = ws ! k"
    and "placed resolve_shader resources ws' (fs ! i) rel"
proof -
  obtain res where res: "relocation_resource resolve_shader resources rel = Ok res"
    "rel_access rel AND NOT (rr_allowed_access res) = 0" "image_checks (fs ! i) rel res"
    "relocate_one ws rel res = Ok ws'"
    using assms(1,3)
    by (auto simp: relocate_step_def outcome_simps image_checks_def split: if_splits option.splits)
  note r = ensuresD [OF relocate_one_ensures [OF assms(2)] res(4)]
  show "length ws' = length ws" using r by blast
  show "ws' ! k = ws ! k" if "k \<notin> slot rel" for k using r that by (simp add: slot_def)
  show "placed resolve_shader resources ws' (fs ! i) rel" unfolding placed_def using r res by blast
qed

lemma relocate_step_no_panic:
  assumes "i < length fs" "unat (pm4_word_offset rel) + 2 \<le> length ws" "required_size rel \<noteq> 0"
    "\<And>res. relocation_resource resolve_shader resources rel = Ok res \<Longrightarrow> resource_images_ok res"
  shows "relocate_step resolve_shader resources fs ws (i, rel) \<noteq> Panic"
proof -
  have res: "relocation_resource resolve_shader resources rel \<noteq> Panic"
    by (simp add: relocation_resource_def split: RelocationSource.split)
  have "relocate_one ws rel r \<noteq> Panic" for r
    using ensures_no_panic [OF relocate_one_ensures [OF assms(2)]] by blast
  moreover have "check_a2d_image a rel r \<noteq> Panic" "check_3d_image e rel r \<noteq> Panic"
    if "relocation_resource resolve_shader resources rel = Ok r" for a e r
    using check_a2d_image_ensures [OF assms(4) [OF that] assms(3)]
      check_3d_image_ensures [OF assms(4) [OF that] assms(3)] ensures_no_panic by blast+
  ultimately show ?thesis
    using res assms(1) by (auto simp: relocate_step_def outcome_simps index_def split: if_splits option.splits)
qed

text \<open>After \<open>n\<close> steps the first \<open>n\<close> relocations are placed and the rest of the stream is untouched.\<close>

definition relocated ::
  "(ShaderVariant \<Rightarrow> ResolvedResource option) \<Rightarrow> ResolvedResource list \<Rightarrow> AddressField list \<Rightarrow>
   Relocation list \<Rightarrow> u32 list \<Rightarrow> nat \<Rightarrow> u32 list \<Rightarrow> bool" where
  "relocated resolve_shader resources fs rels words n ws \<longleftrightarrow>
     length ws = length words \<and> (\<forall>k. (\<forall>j < n. k \<notin> slot (rels ! j)) \<longrightarrow> ws ! k = words ! k) \<and>
     (\<forall>j < n. placed resolve_shader resources ws (fs ! j) (rels ! j))"

lemma relocated_step:
  assumes "sorted_wrt rel_before rels" "n < length rels" "length fs = length rels"
    "unat (pm4_word_offset (rels ! n)) + 2 \<le> length words"
    "relocated resolve_shader resources fs rels words n ws"
    "relocate_step resolve_shader resources fs ws (n, rels ! n) = Ok ws'"
  shows "relocated resolve_shader resources fs rels words (n + 1) ws'"
proof -
  have len: "length ws = length words" using assms(5) by (simp add: relocated_def)
  note v = relocate_step_value [OF assms(6), unfolded len assms(3), OF assms(4) assms(2)]
  have "placed resolve_shader resources ws' (fs ! j) (rels ! j)" if "j < n" for j
  proof -
    have "rel_before (rels ! j) (rels ! n)"
      using assms(1,2) that by (simp add: sorted_wrt_iff_nth_less)
    then have "ws' ! k = ws ! k" if "k \<in> slot (rels ! j)" for k
      using that v(2) slots_disjoint by blast
    then have "placed_address ws' (rels ! j) = placed_address ws (rels ! j)"
      by (rule placed_address_slot)
    then show ?thesis using assms(5) that by (simp add: relocated_def placed_def)
  qed
  then show ?thesis
    using assms(5) v by (auto simp: relocated_def less_Suc_eq len)
qed

section \<open>The entry point\<close>

lemma views_relocations:
  assumes "views d s" "rel \<in> set (sub_relocations s)"
  shows "relocation_ok (sub_pm4 s) (sub_resources s) rel"
    and "unat (pm4_word_offset rel) + 2 \<le> length (sub_pm4 s)"
    and "required_size rel \<noteq> 0"
proof -
  show ok: "relocation_ok (sub_pm4 s) (sub_resources s) rel"
    using assms by (simp add: views_def submit_wf_def list_all_iff)
  then show "unat (pm4_word_offset rel) + 2 \<le> length (sub_pm4 s)" by (simp add: relocation_ok_def)
  have "unat (of_nat (shader_size v) :: u64) = shader_size v" for v
    by (simp add: shader_size_value)
  moreover have "shader_size v \<noteq> 0" for v by (simp add: shader_size_value)
  ultimately have "(of_nat (shader_size v) :: u64) \<noteq> 0" for v by (metis unat_0)
  then show "required_size rel \<noteq> 0"
    using ok by (auto simp: relocation_ok_def source_ok_def split: RelocationSource.splits)
qed

text \<open>What a successful run consists of.\<close>

definition run_of ::
  "allocator \<Rightarrow> bool \<Rightarrow> u8 list \<Rightarrow> (u64 \<Rightarrow> ResolvedResource option) \<Rightarrow> (ShaderVariant \<Rightarrow> ResolvedResource option) \<Rightarrow>
   u32 list \<Rightarrow> DecodedSubmit \<Rightarrow> Submit \<Rightarrow> packet list \<Rightarrow> AddressField list \<Rightarrow> ResolvedResource list \<Rightarrow> bool" where
  "run_of alloc strict bytes resolve resolve_shader out d s ps fs entries \<longleftrightarrow>
     decode bytes = Ok d \<and> views d s \<and> length entries = length (sub_resources s) \<and>
     (\<forall>i < length entries. entry_of resolve (sub_resources s ! i) (entries ! i)) \<and>
     validate_pm4 alloc strict d (sub_relocations s) = Ok (sub_pm4 s, fs) \<and>
     stream_accepted alloc (sub_pm4 s) (sub_relocations s) ps fs \<and>
     relocated resolve_shader entries fs (sub_relocations s) (sub_pm4 s) (length (sub_relocations s)) out"

lemma relocation_loop_value:
  assumes "views d s" "length fs = length (sub_relocations s)"
    "foldM (relocate_step resolve_shader entries fs) (sub_pm4 s) (enumerate 0 (sub_relocations s)) = Ok out"
  shows "relocated resolve_shader entries fs (sub_relocations s) (sub_pm4 s) (length (sub_relocations s)) out"
proof -
  let ?rels = "sub_relocations s" and ?words = "sub_pm4 s"
  let ?step = "relocate_step resolve_shader entries fs"
  have sorted: "sorted_wrt rel_before ?rels" using assms(1) by (simp add: views_def submit_wf_def)
  have "relocated resolve_shader entries fs ?rels ?words (n + length qs) out"
    if "foldM ?step ws (enumerate n qs) = Ok out" "qs = drop n ?rels" "n \<le> length ?rels"
      "relocated resolve_shader entries fs ?rels ?words n ws" for n qs ws
    using that
  proof (induction qs arbitrary: n ws)
    case (Cons q qs)
    have n: "n < length ?rels" using Cons.prems(2) by (cases "n < length ?rels") auto
    then have q: "q = ?rels ! n" "qs = drop (n + 1) ?rels"
      using Cons.prems(2) by (simp_all add: Cons_nth_drop_Suc [symmetric])
    obtain ws' where ws': "?step ws (n, ?rels ! n) = Ok ws'" "foldM ?step ws' (enumerate (n + 1) qs) = Ok out"
      using Cons.prems(1) q by (auto simp: outcome_simps)
    have "unat (pm4_word_offset (?rels ! n)) + 2 \<le> length ?words"
      using views_relocations(2) [OF assms(1)] n by simp
    from relocated_step [OF sorted n assms(2) this Cons.prems(4) ws'(1)]
    show ?case using Cons.IH [OF ws'(2) q(2)] n by simp
  qed simp
  from this [OF assms(3), of] show ?thesis by (simp add: relocated_def)
qed

lemma validate_and_relocate_run:
  assumes "validate_and_relocate alloc strict bytes resolve resolve_shader = Ok out"
  shows "\<exists>d s ps fs entries. run_of alloc strict bytes resolve resolve_shader out d s ps fs entries"
proof -
  obtain d entries rels words fs where d: "decode bytes = Ok d"
    and entries: "mapM (resolve_resource resolve d) [0..<resource_len d] = Ok entries"
    and rels: "decoded_relocations d = Ok rels"
    and pm4: "validate_pm4 alloc strict d rels = Ok (words, fs)"
    and loop: "foldM (relocate_step resolve_shader entries fs) words (enumerate 0 rels) = Ok out"
    using assms unfolding validate_and_relocate_def by (auto simp: outcome_simps)
  obtain s where s: "views d s" using decode_views [OF d] ..
  have rels_eq: "rels = sub_relocations s" using rels decoded_relocations_views [OF s] by simp
  obtain ps where ps: "words = sub_pm4 s" "stream_accepted alloc (sub_pm4 s) (sub_relocations s) ps fs"
    using ensuresD [OF validate_pm4_ensures [OF s] pm4] by (auto simp: rels_eq)
  have len: "resource_len d = length (sub_resources s)" using s by (simp add: views_def)
  note e = mapM_Ok_nth [OF entries, simplified]
  have "entry_of resolve (sub_resources s ! i) (entries ! i)" if "i < length entries" for i
    using resolve_resource_value [OF s] e that by simp
  moreover have len_fs: "length fs = length (sub_relocations s)" using ps(2) by (simp add: stream_accepted_def)
  have "relocated resolve_shader entries fs (sub_relocations s) (sub_pm4 s) (length (sub_relocations s)) out"
    using relocation_loop_value [OF s len_fs] loop by (simp add: rels_eq ps(1))
  ultimately have "run_of alloc strict bytes resolve resolve_shader out d s ps fs entries"
    using d s ps e len pm4 by (simp add: run_of_def rels_eq)
  then show ?thesis by blast
qed

section \<open>No panics\<close>

lemma relocation_loop_no_panic:
  assumes "views d s" "length fs = length (sub_relocations s)"
    "\<And>rel res. relocation_resource resolve_shader entries rel = Ok res \<Longrightarrow> resource_images_ok res"
  shows "foldM (relocate_step resolve_shader entries fs) (sub_pm4 s) (enumerate 0 (sub_relocations s)) \<noteq> Panic"
proof -
  let ?rels = "sub_relocations s"
  have "ensures (foldM (relocate_step resolve_shader entries fs) (sub_pm4 s) (enumerate 0 ?rels))
      (\<lambda>ws. length ws = length (sub_pm4 s))"
  proof (rule ensures_enumerate)
    fix i :: nat and ws :: "u32 list"
    assume i: "0 \<le> i" "i < 0 + length ?rels" and ws: "length ws = length (sub_pm4 s)"
    then have rel: "?rels ! (i - 0) \<in> set ?rels" "i < length fs" using assms(2) by simp_all
    note ok = views_relocations [OF assms(1) rel(1)]
    show "ensures (relocate_step resolve_shader entries fs ws (i, ?rels ! (i - 0))) (\<lambda>ws. length ws = length (sub_pm4 s))"
      using relocate_step_no_panic [OF rel(2) _ ok(3) assms(3)] relocate_step_value(1) [OF _ _ rel(2)] ok(2) ws
      by (auto simp: ensures_def)
  qed simp
  then show ?thesis by (rule ensures_no_panic)
qed

lemma validate_and_relocate_no_panic:
  assumes "\<And>t res. resolve t = Some res \<Longrightarrow> resource_images_ok res"
    "\<And>v res. resolve_shader v = Some res \<Longrightarrow> resource_images_ok res"
  shows "validate_and_relocate alloc strict bytes resolve resolve_shader \<noteq> Panic"
proof (cases "decode bytes")
  case (Ok d)
  obtain s where s: "views d s" using decode_views [OF Ok] ..
  have entry: "ensures (resolve_resource resolve d i) resource_images_ok" if "i < resource_len d" for i
    by (rule resolve_resource_ensures [OF s that]) (rule assms(1))
  have entries: "mapM (resolve_resource resolve d) [0..<resource_len d] \<noteq> Panic"
    using ensures_no_panic [OF entry] by (intro mapM_no_panic) simp
  have images: "resource_images_ok res"
    if "mapM (resolve_resource resolve d) [0..<resource_len d] = Ok es"
      "relocation_resource resolve_shader es rel = Ok res" for es rel res
  proof (cases "rel_source rel")
    case (Attachment k)
    then have "unat k < length es" "res = es ! unat k"
      using that(2) by (auto simp: relocation_resource_def outcome_simps get_at_def split: if_splits)
    moreover note e = mapM_Ok_nth [OF that(1), simplified]
    ultimately have "unat k < resource_len d" "resolve_resource resolve d (unat k) = Ok res" by simp_all
    then show ?thesis using ensuresD [OF entry] by blast
  next
    case (CanonicalShader v)
    then show ?thesis using that(2) assms(2) by (auto simp: relocation_resource_def outcome_simps)
  qed
  have pm4: "validate_pm4 alloc strict d (sub_relocations s) \<noteq> Panic"
    by (rule ensures_no_panic [OF validate_pm4_ensures [OF s]])
  have loop: "foldM (relocate_step resolve_shader es fs) words (enumerate 0 (sub_relocations s)) \<noteq> Panic"
    if "mapM (resolve_resource resolve d) [0..<resource_len d] = Ok es"
      "validate_pm4 alloc strict d (sub_relocations s) = Ok (words, fs)" for es words fs
  proof -
    have "words = sub_pm4 s" "length fs = length (sub_relocations s)"
      using ensuresD [OF validate_pm4_ensures [OF s] that(2)] by (auto simp: stream_accepted_def)
    then show ?thesis using relocation_loop_no_panic [OF s _ images [OF that(1)]] by simp
  qed
  show ?thesis
    using entries pm4 loop
    by (auto simp: validate_and_relocate_def Ok decoded_relocations_views [OF s] outcome_simps)
next
  case Panic
  then show ?thesis using decode_never_panics by simp
qed (simp add: validate_and_relocate_def)

section \<open>A run\<close>

text \<open>A submit that clears a linear 64 by 64 image with a solid 2D blit and retires it, with the
  timestamps of the two cache flushes written to a second attachment.\<close>

definition clear_submit :: Submit where
  "clear_submit = \<lparr>
     sub_pm4 = [
       0x70e50001, 0xc, 0x408c0001, 0xf13080, 0x48840001, 0xf13080, 0x488c0101, 0, 0x48acc001,
       0xf180, 0x488c2c04, 0, 0, 0, 0xff, 0x408c1701, 0x430, 0x408c1802, 0, 0, 0x488c1a01, 4,
       0x48840502, 0, 0x3f003f, 0x48840a02, 0, 0x3f003f, 0x702c0001, 3, 0x70268000,
       0x70460004, 0x4000001d, 0, 0, 1, 0x70460004, 0x4000001c, 0, 0, 1, 0x70460001, 0x19,
       0x70460001, 0x18, 0x70268000],
     sub_resources = [
      \<lparr>attachment_token = 7, range_offset = 0, range_size = 0x4000, res_access = ACCESS_WRITE\<rparr>,
      \<lparr>attachment_token = 8, range_offset = 16, range_size = 64, res_access = ACCESS_WRITE\<rparr>],
     sub_relocations = [
      \<lparr>pm4_word_offset = 18, rel_source = Attachment 0, resource_offset = 0,
       required_size = 0x4000, rel_access = ACCESS_WRITE, rel_encoding = GpuVa64\<rparr>,
      \<lparr>pm4_word_offset = 33, rel_source = Attachment 1, resource_offset = 0,
       required_size = 4, rel_access = ACCESS_WRITE, rel_encoding = GpuVa64\<rparr>,
      \<lparr>pm4_word_offset = 38, rel_source = Attachment 1, resource_offset = 4,
       required_size = 4, rel_access = ACCESS_WRITE, rel_encoding = GpuVa64\<rparr>]\<rparr>"

definition clear_packets :: "packet list" where
  "clear_packets =
     [\<lparr>pkt_header = Type7 SET_MARKER 1, payload = [0xc], word_offset = 0\<rparr>,
      \<lparr>pkt_header = Type4 RB_A2D_BLT_CNTL 1, payload = [0xf13080], word_offset = 2\<rparr>,
      \<lparr>pkt_header = Type4 GRAS_A2D_BLT_CNTL 1, payload = [0xf13080], word_offset = 4\<rparr>,
      \<lparr>pkt_header = Type4 RB_A2D_PIXEL_CNTL 1, payload = [0], word_offset = 6\<rparr>,
      \<lparr>pkt_header = Type4 SP_A2D_OUTPUT_INFO 1, payload = [0xf180], word_offset = 8\<rparr>,
      \<lparr>pkt_header = Type4 RB_A2D_CLEAR_COLOR_DW0 4, payload = [0, 0, 0, 0xff], word_offset = 10\<rparr>,
      \<lparr>pkt_header = Type4 RB_A2D_DEST_BUFFER_INFO 1, payload = [0x430], word_offset = 15\<rparr>,
      \<lparr>pkt_header = Type4 RB_A2D_DEST_BUFFER_BASE 2, payload = [0, 0], word_offset = 17\<rparr>,
      \<lparr>pkt_header = Type4 RB_A2D_DEST_BUFFER_PITCH 1, payload = [4], word_offset = 20\<rparr>,
      \<lparr>pkt_header = Type4 GRAS_A2D_DEST_TL 2, payload = [0, 0x3f003f], word_offset = 22\<rparr>,
      \<lparr>pkt_header = Type4 GRAS_A2D_SCISSOR_TL 2, payload = [0, 0x3f003f], word_offset = 25\<rparr>,
      \<lparr>pkt_header = Type7 BLIT 1, payload = [3], word_offset = 28\<rparr>,
      \<lparr>pkt_header = Type7 WAIT_FOR_IDLE 0, payload = [], word_offset = 30\<rparr>,
      \<lparr>pkt_header = Type7 EVENT_WRITE 4, payload = [0x4000001d, 0, 0, 1], word_offset = 31\<rparr>,
      \<lparr>pkt_header = Type7 EVENT_WRITE 4, payload = [0x4000001c, 0, 0, 1], word_offset = 36\<rparr>,
      \<lparr>pkt_header = Type7 EVENT_WRITE 1, payload = [0x19], word_offset = 41\<rparr>,
      \<lparr>pkt_header = Type7 EVENT_WRITE 1, payload = [0x18], word_offset = 43\<rparr>,
      \<lparr>pkt_header = Type7 WAIT_FOR_IDLE 0, payload = [], word_offset = 45\<rparr>]"

definition clear_targets :: "u64 \<Rightarrow> ResolvedResource option" where
  "clear_targets token =
     (if token = 7 then Some \<lparr>rr_attachment_token = 7, rr_gpu_va = 0x100000000, rr_allocation_size = 0x4000,
        rr_allowed_access = ACCESS_READ OR ACCESS_WRITE, rr_linear_image = Some \<lparr>img_texture = None, img_format = Bgra8Unorm, img_modifier = Linear, img_width = 64,
       img_height = 64, img_row_pitch = 256, img_visible_size = 0x4000\<rparr>\<rparr>
      else if token = 8 then Some \<lparr>rr_attachment_token = 8, rr_gpu_va = 0x200000000, rr_allocation_size = 0x1000,
        rr_allowed_access = ACCESS_READ OR ACCESS_WRITE, rr_linear_image = None\<rparr>
      else None)"

definition clear_words :: "u32 list" where
  "clear_words = [
       0x70e50001, 0xc, 0x408c0001, 0xf13080, 0x48840001, 0xf13080, 0x488c0101, 0, 0x48acc001,
       0xf180, 0x488c2c04, 0, 0, 0, 0xff, 0x408c1701, 0x430, 0x408c1802, 0, 1, 0x488c1a01, 4,
       0x48840502, 0, 0x3f003f, 0x48840a02, 0, 0x3f003f, 0x702c0001, 3, 0x70268000,
       0x70460004, 0x4000001d, 0x10, 2, 1, 0x70460004, 0x4000001c, 0x14, 2, 1, 0x70460001,
       0x19, 0x70460001, 0x18, 0x70268000]"

lemma clear_submit_wf: "submit_wf clear_submit"
  by (simp add: submit_wf_def clear_submit_def counts_ok_def table_total_def resources_start_def pad_len_def
      wire_sizes resource_ok_def relocation_ok_def access_ok_def source_ok_def rel_before_def
      ACCESS_WRITE_def ACCESS_MASK_def ACCESS_READ_def)

lemma image_views:
  assumes "submit_wf s" "list_all (minor_allows 1) (sub_relocations s)"
  shows "\<exists>d. decode (wire_image 1 s) = Ok d \<and> views d s"
proof -
  let ?d = "decoded_of (wire_image 1 s) (length (sub_pm4 s)) (length (sub_resources s)) (length (sub_relocations s))"
  have "decode (wire_image 1 s) = Ok ?d"
    unfolding decode_eq_Ok using assms by (intro exI [of _ 1] exI [of _ s]) simp
  moreover have "views ?d s"
    using assms(1) decoded_views [OF assms(1) _ assms(2) refl refl]
    by (simp add: views_def pm4_len_def resource_len_def relocation_len_def)
  ultimately show ?thesis by blast
qed

definition clear_extent :: A2dExpectation where
  "clear_extent = \<lparr>a2d_format = Bgra8Unorm, a2d_modifier = Linear, a2d_row_pitch = 256,
     a2d_required_width = 64, a2d_required_height = 64\<rparr>"

definition clear_fields :: "A2dExpectation option \<Rightarrow> AddressField list" where
  "clear_fields e = [
      \<lparr>af_word_offset = 18, af_access = ACCESS_WRITE, af_complete = True, af_required_size = None,
       af_encoding = GpuVa64, af_source = AttachmentField, af_a2d = e, af_image = None\<rparr>,
      \<lparr>af_word_offset = 33, af_access = ACCESS_WRITE, af_complete = False, af_required_size = Some 4,
       af_encoding = GpuVa64, af_source = AttachmentField, af_a2d = None, af_image = None\<rparr>,
      \<lparr>af_word_offset = 38, af_access = ACCESS_WRITE, af_complete = False, af_required_size = Some 4,
       af_encoding = GpuVa64, af_source = AttachmentField, af_a2d = None, af_image = None\<rparr>]"

lemma clear_packets_framed: "framed 0 clear_packets (sub_pm4 clear_submit)"
  by code_simp

lemma clear_pass1:
  "foldM (validate_packet (\<lambda>_ _. True)) [] clear_packets = Ok (clear_fields None)"
  by (simp add: clear_packets_def clear_fields_def validate_packet_def validate_type4_def
      validate_type4_a2d_def validate_type7_def register_defs cp_opcode_defs exact_def
      a2d_control_format_def a2d_destination_format_def a2d_output_format_def clear_color_ok_def
      address_field_def address_field_encoded_def guard_def Let_def)

lemma clear_pass2: "validate_memcpy_barriers clear_packets = Ok ()"
  by (simp add: validate_memcpy_barriers_def clear_packets_def memcpy_barrier_step_def
      is_memory_write_def cp_opcode_defs)

lemma clear_pass3: "validate_ccu_transitions clear_packets = Ok ()"
  by (simp add: validate_ccu_transitions_def clear_packets_def ccu_step_def is_addressed_event_def
      is_plain_event_def cp_opcode_defs register_defs)

lemma clear_pass4: "validate_render_retirement clear_packets = Ok ()"
  by (simp add: validate_render_retirement_def clear_packets_def is_sysmem_retirement_def
      is_addressed_event_def is_plain_event_def is_wfi_def solid_blit_after_def
      clear_batch_allows_def is_draw_def is_blit_def index_def get_at_def cp_opcode_defs
      register_defs)

lemma clear_pass5: "validate_a2d_sequences clear_packets (clear_fields None) = Ok (clear_fields (Some clear_extent))"
  by (simp add: validate_a2d_sequences_def clear_packets_def a2d_step_def a2d_register_def
      a2d_blit_def a2d_control_complete_def a2d_destination_def set_a2d_expectation_def
      address_index_def get_at_def clear_fields_def clear_extent_def A2dState_default_def index_def
      x_of_def y_of_def saturating_add_def checked_mul_def a2d_control_format_def
      a2d_destination_format_def a2d_output_format_def cp_opcode_defs register_defs Let_def)

lemma clear_pass6: "validate_3d_sequences True clear_packets fs rels = Ok fs"
  by (simp add: validate_3d_sequences_def clear_packets_def draw_step_def is_draw_def cp_opcode_defs
      draw_state_new_def)

lemmas clear_passes = clear_pass1 clear_pass2 clear_pass3 clear_pass4 clear_pass5 clear_pass6

lemma clear_validates:
  assumes "views d clear_submit"
  shows "validate_pm4 (\<lambda>_ _. True) True d (sub_relocations clear_submit) =
    Ok (sub_pm4 clear_submit, clear_fields (Some clear_extent))"
proof -
  have packets: "collect_packets (packets_new (sub_pm4 clear_submit)) = Ok clear_packets"
    using collect_packets_framed [of 0 "sub_pm4 clear_submit" clear_packets] clear_packets_framed
    by (simp add: packets_new_at clear_submit_def)
  have texture: "validate_texture_initialization d clear_packets fs rels = Ok fs" for fs rels
    by (simp add: validate_texture_initialization_def clear_packets_def texture_step_def is_opcode_def
        texture_lookup_def cp_opcode_defs register_defs)
  have "strictly_ordered (clear_fields None)"
    "list_all field_matches (zip (clear_fields (Some clear_extent)) (sub_relocations clear_submit))"
    "length (clear_fields None) = length (sub_relocations clear_submit)"
    by (simp_all add: strictly_ordered_def field_matches_def clear_fields_def clear_submit_def
        address_source_matches_def)
  then show ?thesis
    unfolding validate_pm4_def
    by (simp only: copy_pm4_views [OF assms] packets clear_passes texture if_True andThen.simps map_err.simps
        guard_def prod.case refl)
qed

lemma clear_runs:
  "validate_and_relocate (\<lambda>_ _. True) True (wire_image 1 clear_submit) clear_targets (\<lambda>_. None) = Ok clear_words"
proof -
  have "list_all (minor_allows 1) (sub_relocations clear_submit)"
    by (simp add: list_all_iff minor_allows_def)
  then obtain d where d: "decode (wire_image 1 clear_submit) = Ok d" "views d clear_submit"
    using image_views [OF clear_submit_wf] by blast
  let ?img = "\<lparr>img_texture = None, img_format = Bgra8Unorm, img_modifier = Linear, img_width = 64,
       img_height = 64, img_row_pitch = 256, img_visible_size = 0x4000\<rparr>"
  let ?e = "\<lparr>rr_attachment_token = 7, rr_gpu_va = 0x100000000, rr_allocation_size = 0x4000,
    rr_allowed_access = ACCESS_WRITE, rr_linear_image = Some ?img\<rparr>"
  let ?f = "\<lparr>rr_attachment_token = 8, rr_gpu_va = 0x200000010, rr_allocation_size = 64,
    rr_allowed_access = ACCESS_WRITE, rr_linear_image = None\<rparr>"
  have res: "resource d i = Ok (get_at (sub_resources clear_submit) i)" "resource_len d = 2" for i
    using d(2) by (simp_all add: views_def clear_submit_def)
  have "resolve_resource clear_targets d 0 = Ok ?e" "resolve_resource clear_targets d 1 = Ok ?f"
    unfolding resolve_resource_def res
    by (simp_all add: clear_submit_def clear_targets_def checked_add_def optional_range_def image_range_def
        get_at_def ACCESS_WRITE_def ACCESS_READ_def)
  then have entries: "mapM (resolve_resource clear_targets d) [0..<resource_len d] = Ok [?e, ?f]"
    by (simp add: res upt_rec)
  have "foldM (relocate_step (\<lambda>_. None) [?e, ?f] (clear_fields (Some clear_extent))) (sub_pm4 clear_submit)
      (enumerate 0 (sub_relocations clear_submit)) = Ok clear_words"
    by (simp add: clear_submit_def relocate_step_def relocation_resource_def clear_fields_def index_def
        relocate_one_def checked_add_def checked_mul_def get_range_def clear_words_def get_at_def ACCESS_WRITE_def
        ACCESS_READ_def check_a2d_image_def optional_range_def image_range_def image_footprint_def
        a2d_accessed_bytes_def clear_extent_def saturating_sub_def guard_def)
  then show ?thesis
    unfolding validate_and_relocate_def d(1)
    by (simp add: entries decoded_relocations_views [OF d(2)] clear_validates [OF d(2)] guard_def)
qed

section \<open>Properties\<close>

lemma access_trans:
  assumes "(a :: u32) AND NOT b = 0" "b AND NOT c = 0"
  shows "a AND NOT c = 0"
proof (rule bit_word_eqI)
  fix n
  assume "n < LENGTH(32)"
  moreover have "bit (a AND NOT b) n = False" "bit (b AND NOT c) n = False" using assms by simp_all
  ultimately show "bit (a AND NOT c) n = bit 0 n" by (auto simp: bit_simps)
qed

text \<open>What an attached relocation resolves to, in terms of the attachment.\<close>

lemma run_attachment:
  assumes "run_of alloc strict bytes resolve resolve_shader out d s ps fs entries"
    "j < length (sub_relocations s)" "rel = sub_relocations s ! j" "rel_source rel = Attachment k"
  shows "\<exists>wire res. resource d (unat k) = Ok (Some wire) \<and> resolve (attachment_token wire) = Some res \<and>
    rel_access rel AND NOT (rr_allowed_access res) = 0 \<and>
    placed_address out rel =
      unat (rr_gpu_va res) + unat (range_offset wire) + unat (resource_offset rel) \<and>
    placed_address out rel + unat (required_size rel) \<le> unat (rr_gpu_va res) + unat (rr_allocation_size res)"
proof -
  have s: "views d s" and len: "length entries = length (sub_resources s)"
    and es: "\<And>i. i < length entries \<Longrightarrow> entry_of resolve (sub_resources s ! i) (entries ! i)"
    and "placed resolve_shader entries out (fs ! j) rel"
    using assms by (auto simp: run_of_def relocated_def)
  then obtain entry where entry: "relocation_resource resolve_shader entries rel = Ok entry"
    "rel_access rel AND NOT (rr_allowed_access entry) = 0"
    "placed_address out rel = unat (rr_gpu_va entry) + unat (resource_offset rel)"
    "placed_address out rel + unat (required_size rel) \<le> unat (rr_gpu_va entry) + unat (rr_allocation_size entry)"
    by (auto simp: placed_def)
  then have k: "unat k < length entries" "entry = entries ! unat k"
    using assms(4) by (auto simp: relocation_resource_def outcome_simps get_at_def split: if_splits)
  let ?wire = "sub_resources s ! unat k"
  have wire: "resource d (unat k) = Ok (Some ?wire)"
    using s k(1) len by (simp add: views_def)
  have "entry_of resolve ?wire entry" using es [OF k(1)] k(2) by simp
  then show ?thesis
    using entry wire access_trans [of "rel_access rel" "res_access ?wire"]
    by (auto simp: entry_of_def intro!: exI [of _ ?wire])
qed

lemma run_shader:
  assumes "run_of alloc strict bytes resolve resolve_shader out d s ps fs entries"
    "j < length (sub_relocations s)" "rel = sub_relocations s ! j" "rel_source rel = CanonicalShader v"
  shows "\<exists>res. resolve_shader v = Some res \<and> rel_access rel = ACCESS_READ \<and>
    rel_access rel AND NOT (rr_allowed_access res) = 0 \<and>
    placed_address out rel = unat (rr_gpu_va res) \<and> shader_size v \<le> unat (rr_allocation_size res)"
proof -
  have s: "views d s" and "placed resolve_shader entries out (fs ! j) rel"
    using assms by (auto simp: run_of_def relocated_def)
  then obtain res where res: "relocation_resource resolve_shader entries rel = Ok res"
    "rel_access rel AND NOT (rr_allowed_access res) = 0"
    "placed_address out rel = unat (rr_gpu_va res) + unat (resource_offset rel)"
    "placed_address out rel + unat (required_size rel) \<le> unat (rr_gpu_va res) + unat (rr_allocation_size res)"
    by (auto simp: placed_def)
  have "rel \<in> set (sub_relocations s)" using assms(2,3) by simp
  then have "source_ok (sub_resources s) rel"
    using views_relocations(1) [OF s] by (simp add: relocation_ok_def)
  then have "resource_offset rel = 0" "required_size rel = of_nat (shader_size v)" "rel_access rel = ACCESS_READ"
    using assms(4) by (simp_all add: source_ok_def)
  moreover have "unat (of_nat (shader_size v) :: u64) = shader_size v" by (simp add: shader_size_value)
  ultimately show ?thesis
    using res assms(4) by (auto simp: relocation_resource_def outcome_simps)
qed

text \<open>C1. Memory isolation: in a relocated stream every relocated address points into the attachment that
  the submitting context resolved, at the submitted range and offset, with the whole required range
  inside the attached allocation and an access the attachment grants; a program address is the start of
  a canonical program whose allocation holds it, and it is only read.\<close>

theorem relocated_addresses_confined:
  assumes "validate_and_relocate alloc strict bytes resolve resolve_shader = Ok out"
  shows "\<exists>d. decode bytes = Ok d \<and> length out = pm4_len d \<and>
    (\<forall>i rel. relocation d i = Ok (Some rel) \<longrightarrow>
      (case rel_source rel of
         Attachment k \<Rightarrow> \<exists>wire res. resource d (unat k) = Ok (Some wire) \<and>
           resolve (attachment_token wire) = Some res \<and>
           rel_access rel AND NOT (rr_allowed_access res) = 0 \<and>
           placed_address out rel =
             unat (rr_gpu_va res) + unat (range_offset wire) + unat (resource_offset rel) \<and>
           placed_address out rel + unat (required_size rel)
             \<le> unat (rr_gpu_va res) + unat (rr_allocation_size res)
       | CanonicalShader v \<Rightarrow> \<exists>res. resolve_shader v = Some res \<and> rel_access rel = ACCESS_READ \<and>
           rel_access rel AND NOT (rr_allowed_access res) = 0 \<and>
           placed_address out rel = unat (rr_gpu_va res) \<and>
           shader_size v \<le> unat (rr_allocation_size res)))"
proof -
  obtain d s ps fs entries where run: "run_of alloc strict bytes resolve resolve_shader out d s ps fs entries"
    using validate_and_relocate_run [OF assms] by blast
  then have s: "views d s" and d: "decode bytes = Ok d" and len: "length out = length (sub_pm4 s)"
    by (simp_all add: run_of_def relocated_def)
  have "case rel_source rel of
      Attachment k \<Rightarrow> \<exists>wire res. resource d (unat k) = Ok (Some wire) \<and>
           resolve (attachment_token wire) = Some res \<and>
           rel_access rel AND NOT (rr_allowed_access res) = 0 \<and>
           placed_address out rel =
             unat (rr_gpu_va res) + unat (range_offset wire) + unat (resource_offset rel) \<and>
           placed_address out rel + unat (required_size rel)
             \<le> unat (rr_gpu_va res) + unat (rr_allocation_size res)
    | CanonicalShader v \<Rightarrow> \<exists>res. resolve_shader v = Some res \<and> rel_access rel = ACCESS_READ \<and>
           rel_access rel AND NOT (rr_allowed_access res) = 0 \<and>
           placed_address out rel = unat (rr_gpu_va res) \<and>
           shader_size v \<le> unat (rr_allocation_size res)" if "relocation d i = Ok (Some rel)" for i rel
  proof -
    have "i < length (sub_relocations s)" "rel = sub_relocations s ! i"
      using s that by (auto simp: views_def get_at_def split: if_splits)
    then show ?thesis
      using run_attachment [OF run] run_shader [OF run] by (cases "rel_source rel") auto
  qed
  moreover have "length out = pm4_len d" using s len by (simp add: views_def)
  ultimately show ?thesis using d by blast
qed

theorem relocated_addresses_confined_witness:
  "validate_and_relocate (\<lambda>_ _. True) True (wire_image 1 clear_submit) clear_targets (\<lambda>_. None) = Ok clear_words \<and>
   (\<exists>d. decode (wire_image 1 clear_submit) = Ok d \<and> length clear_words = pm4_len d)"
  using relocated_addresses_confined [OF clear_runs] clear_runs by (elim exE conjE, intro exI conjI)

text \<open>C4. Relocation touches nothing else: a dword that belongs to no relocation reaches the GPU as it was
  submitted, and the relocated stream still splits into packets with exactly the validated headers at
  the same positions. Every address that the packets of the stream carry belongs to a relocation of
  the same position, access and encoding, so that no submitted dword is used as an address.\<close>

theorem relocation_keeps_packets:
  assumes "validate_and_relocate alloc strict bytes resolve resolve_shader = Ok out"
  shows "\<exists>d words ps ps' fs rels. decode bytes = Ok d \<and> copy_pm4 alloc d = Ok words \<and>
    decoded_relocations d = Ok rels \<and> length out = length words \<and>
    (\<forall>k < length words. (\<forall>rel\<in>set rels. k \<notin> slot rel) \<longrightarrow> out ! k = words ! k) \<and>
    collect_packets (packets_new words) = Ok ps \<and> collect_packets (packets_new out) = Ok ps' \<and>
    map pkt_header ps' = map pkt_header ps \<and> map word_offset ps' = map word_offset ps \<and>
    foldM (validate_packet alloc) [] ps = Ok fs \<and>
    list_all2 (\<lambda>a rel. af_word_offset a = pm4_word_offset rel \<and> af_access a = rel_access rel \<and>
      af_encoding a = rel_encoding rel) fs rels"
proof -
  obtain d s ps fs entries where run: "run_of alloc strict bytes resolve resolve_shader out d s ps fs entries"
    using validate_and_relocate_run [OF assms] by blast
  let ?rels = "sub_relocations s" and ?words = "sub_pm4 s"
  have s: "views d s" and d: "decode bytes = Ok d" and len: "length out = length ?words"
    and keep: "\<And>k. (\<forall>j < length ?rels. k \<notin> slot (?rels ! j)) \<Longrightarrow> out ! k = ?words ! k"
    using run by (auto simp: run_of_def relocated_def)
  obtain fs0 where acc: "framed 0 ps ?words" "foldM (validate_packet alloc) [] ps = Ok fs0"
    "skeletons fs = skeletons fs0" "length fs = length ?rels" "list_all field_matches (zip fs ?rels)"
    using run by (auto simp: run_of_def stream_accepted_def)
  note small = views_small [OF s]
  have alloc: "copy_pm4 alloc d = Ok ?words"
    using assms d by (auto simp: validate_and_relocate_def validate_pm4_def outcome_simps
        copy_pm4_views [OF s] split: if_splits)
  have match: "af_word_offset (fs0 ! j) = pm4_word_offset (?rels ! j) \<and> af_access (fs0 ! j) = rel_access (?rels ! j) \<and>
      af_encoding (fs0 ! j) = rel_encoding (?rels ! j)" if "j < length ?rels" for j
    using skeletons_nth [OF acc(3), of j] skeletons_length [OF acc(3)] acc(4,5) that
    by (auto simp: list_all_length field_matches_def skeleton_def)
  have len0: "length fs0 = length ?rels" using skeletons_length [OF acc(3)] acc(4) by simp
  have fields: "\<forall>a\<in>set fs0. unat (af_word_offset a) \<notin> set (header_positions 0 ps) \<and>
       unat (af_word_offset a) + 1 \<notin> set (header_positions 0 ps)"
    using stream_fields [OF acc(1) _ acc(2)] small by auto
  have header: "out ! i = ?words ! i" if "i \<in> set (header_positions 0 ps)" for i
  proof (rule keep, intro allI impI)
    fix j assume j: "j < length ?rels"
    then have "fs0 ! j \<in> set fs0" using len0 by simp
    then show "i \<notin> slot (?rels ! j)"
      using fields match [OF j] that by (auto simp: slot_def)
  qed
  obtain ps' where ps': "framed 0 ps' out" "map pkt_header ps' = map pkt_header ps"
    "map word_offset ps' = map word_offset ps"
    using framed_reframe [OF acc(1) len] header by auto
  have collect: "collect_packets (packets_new ws) = Ok qs" if "framed 0 qs ws" "length ws < 2 ^ 32" for qs ws
    using collect_packets_framed [of 0 ws qs] that by (simp add: packets_new_at)
  have "\<forall>k < length ?words. (\<forall>rel\<in>set ?rels. k \<notin> slot rel) \<longrightarrow> out ! k = ?words ! k"
    using keep by simp
  moreover have "list_all2 (\<lambda>a rel. af_word_offset a = pm4_word_offset rel \<and> af_access a = rel_access rel \<and>
      af_encoding a = rel_encoding rel) fs0 ?rels"
    using match len0 by (simp add: list_all2_conv_all_nth)
  ultimately show ?thesis
    using d alloc decoded_relocations_views [OF s] len collect [OF acc(1) small]
      collect [OF ps'(1)] ps'(2,3) small acc(2)
    by (intro exI [of _ d] exI [of _ ?words] exI [of _ ps] exI [of _ ps'] exI [of _ fs0] exI [of _ ?rels] conjI)
      simp_all
qed

theorem relocation_keeps_packets_witness:
  "\<exists>d words ps'. decode (wire_image 1 clear_submit) = Ok d \<and> copy_pm4 (\<lambda>_ _. True) d = Ok words \<and>
     length clear_words = length words \<and> collect_packets (packets_new clear_words) = Ok ps'"
  using relocation_keeps_packets [OF clear_runs] by (elim exE conjE, intro exI conjI)

text \<open>The layout constructor makes no texture with layers of no bytes.\<close>

lemma texture_wf_stride:
  assumes "texture_wf t"
  shows "layer_stride t \<noteq> 0"
proof -
  let ?level = "level_bytes (unat (tex_row_pitch t)) (unat (tex_height t))"
  have "0 < unat (mip_levels t)" using texture_params [OF assms] by (simp add: texture_params_ok_def unat_gt_0)
  moreover have "0 < ?level 0" by (simp add: level_bytes_def level_pitch_def level_rows_def round_up_def max_def div_greater_zero_iff)
  ultimately have "0 < sum_list (map ?level [0..<unat (mip_levels t)])" by (simp add: upt_conv_Cons)
  then have "0 < unat (layer_stride t)" using texture_stride(1) [OF assms] by linarith
  then show ?thesis by (simp add: unat_gt_0)
qed

text \<open>C8. The entry point never panics, whatever the byte string and the allocation behaviour, when the layer
  stride of every texture the kernel resolves is nonzero. It divides by that stride. The textures that the layout constructor
  makes have a nonzero one.\<close>

theorem validate_and_relocate_total:
  assumes "\<And>t res img lay. resolve t = Some res \<Longrightarrow> rr_linear_image res = Some img \<Longrightarrow>
      img_texture img = Some lay \<Longrightarrow> layer_stride lay \<noteq> 0"
    and "\<And>v res img lay. resolve_shader v = Some res \<Longrightarrow> rr_linear_image res = Some img \<Longrightarrow>
      img_texture img = Some lay \<Longrightarrow> layer_stride lay \<noteq> 0"
  shows "validate_and_relocate alloc strict bytes resolve resolve_shader \<noteq> Panic"
  using assms
  by (intro validate_and_relocate_no_panic) (auto simp: resource_images_ok_def image_ok_def)

text \<open>The clear of the example, into a texture that the layout constructor made.\<close>

definition texture_targets :: "LinearTextureLayout \<Rightarrow> u64 \<Rightarrow> ResolvedResource option" where
  "texture_targets t token =
     (if token = 7 then Some \<lparr>rr_attachment_token = 7, rr_gpu_va = 0x100000000, rr_allocation_size = total_size t,
        rr_allowed_access = ACCESS_READ OR ACCESS_WRITE, rr_linear_image = Some \<lparr>img_texture = Some t, img_format = Bgra8Unorm,
        img_modifier = Linear, img_width = tex_width t, img_height = tex_height t, img_row_pitch = tex_row_pitch t,
        img_visible_size = total_size t\<rparr>\<rparr>
      else clear_targets token)"

theorem validate_and_relocate_total_witness:
  "\<exists>t. linear_texture_new 65 17 4 6 = Some t \<and>
     validate_and_relocate (\<lambda>_ _. True) True (wire_image 1 clear_submit) (texture_targets t) (\<lambda>_. None) \<noteq> Panic"
proof -
  obtain t where t: "linear_texture_new 65 17 4 6 = Some t" by (simp add: layout_eval)
  then have "texture_wf t" by (rule linear_texture_new_wf)
  then have "layer_stride t \<noteq> 0" by (rule texture_wf_stride)
  then have "validate_and_relocate (\<lambda>_ _. True) True (wire_image 1 clear_submit) (texture_targets t) (\<lambda>_. None) \<noteq> Panic"
    by (intro validate_and_relocate_total) (auto simp: texture_targets_def clear_targets_def split: if_splits)
  then show ?thesis using t by blast
qed

end
