(* ===== verification/Draw_Rules.thy ===== *)
theory Draw_Rules
  imports Gpu_Isolation
begin

text \<open>
  What the 2D, 3D and diagnosis parts of the validator mean for the hardware: the canonical pipeline
  of a draw is unique, every vertex of a draw without indices, every index of a draw with them, every pixel of a blit and
  every viewport stays inside the buffer or target whose size the relocation check enforces, and the diagnosis names the
  packet that the packet rules reject first.
\<close>

section \<open>Pipeline identity\<close>

text \<open>The state that identifies a pipeline: what the prefilter compares.\<close>

definition pipeline_key ::
  "PipelineVariant \<Rightarrow> u32 \<times> u32 list \<times> bool \<times> u32 list \<times> u32 \<times> u32 list \<times> bool" where
  "pipeline_key v =
     (let fx = pipeline_state_meta v in
      case shader_meta (link_fs (link_meta v)) of
        Fragment fs \<Rightarrow> (stride fx, vfd_fetch fx, uses_sampler fx, sp_ps_output_reg fs,
          initial_tex_load_cntl fs, initial_tex_load_cmd fs, source_over fx)
      | Vertex vs \<Rightarrow> (0, [], False, [], 0, [], False))"

lemma pipeline_keys_distinct: "distinct (map pipeline_key PipelineVariant_ALL)"
  by code_simp

lemma pipeline_key_inject: "pipeline_key v = pipeline_key w \<Longrightarrow> v = w"
  using pipeline_keys_distinct pipeline_variants_complete by (simp add: distinct_map inj_eq)

lemma fragment_stage: "\<exists>fs. shader_meta (link_fs (link_meta v)) = Fragment fs"
  by (cases v) (simp_all add: link_def fragment_varying_def)

lemma u32_of_bool_inject: "u32_of_bool a = u32_of_bool b \<longleftrightarrow> a = b"
  by (simp add: u32_of_bool_def)

lemma may_match_key:
  assumes "segment_may_match_pipeline si v" "segment_may_match_pipeline si w"
  shows "v = w"
proof -
  obtain fv fw where f: "shader_meta (link_fs (link_meta v)) = Fragment fv"
    "shader_meta (link_fs (link_meta w)) = Fragment fw"
    using fragment_stage by metis
  show ?thesis
    by (rule pipeline_key_inject)
      (use assms in \<open>auto simp: segment_may_match_pipeline_def pipeline_key_def Let_def f u32_of_bool_inject
        split: option.splits if_splits\<close>)
qed

lemma matches_may_match: "segment_matches_pipeline si v \<Longrightarrow> segment_may_match_pipeline si v"
  by (auto simp: segment_matches_pipeline_def segment_may_match_pipeline_def matches_fixed_state_def
      matches_shader_state_def Let_def split: ShaderMeta.splits)

lemma candidate_step_plain:
  "candidate_step si rels m v =
     (if segment_matches_pipeline si v \<and> segment_shader_relocations_match si rels v
      then (if m \<noteq> None then Err E_ambiguous_canonical_3D_pipeline_state else Ok (Some v)) else Ok m)"
  using matches_may_match [of si v] by (auto simp: candidate_step_def)

lemma candidate_loop_rest:
  "v \<notin> set vs \<Longrightarrow> segment_matches_pipeline si v \<Longrightarrow> foldM (candidate_step si rels) (Some v) vs = Ok (Some v)"
proof (induction vs)
  case (Cons w vs)
  then have "\<not> segment_matches_pipeline si w"
    using may_match_key [of si v w] matches_may_match by auto
  then show ?case using Cons by (simp add: candidate_step_plain)
qed simp

lemma candidate_loop_find:
  "distinct vs \<Longrightarrow> foldM (candidate_step si rels) None vs =
     Ok (find (\<lambda>v. segment_matches_pipeline si v \<and> segment_shader_relocations_match si rels v) vs)"
  by (induction vs) (auto simp: candidate_step_plain candidate_loop_rest)

section \<open>Vertex buffers\<close>



lemma unat_ucast_u32: "unat (ucast (w :: u32) :: u64) = unat w"
  by (simp add: unsigned_ucast_eq take_bit_nat_eq_self order_less_le_trans [OF unsigned_less])





definition vertex_field :: AddressField where
  "vertex_field = \<lparr>af_word_offset = 7, af_access = ACCESS_READ, af_complete = False,
     af_required_size = None, af_encoding = GpuVa64, af_source = AttachmentField, af_a2d = None,
     af_image = None\<rparr>"



section \<open>Blits\<close>

lemma x_of_bound: "unat (x_of w) < 2 ^ 16" "unat (y_of w) < 2 ^ 16"
proof -
  have "x_of w = take_bit 16 w" unfolding x_of_def take_bit_eq_mask by (simp add: mask_eq_exp_minus_1)
  then show "unat (x_of w) < 2 ^ 16" using take_bit_nat_less_exp [of 16 "unat w"] by (simp add: unsigned_take_bit_eq)
  have "unat w < 2 ^ 32" using unsigned_less [of w, where ?'a = nat] by simp
  then show "unat (y_of w) < 2 ^ 16"
    unfolding y_of_def unat_drop_bit_eq drop_bit_eq_div [where 'a = nat] by (simp add: less_mult_imp_div_less)
qed

lemma saturating_succ:
  assumes "unat (w :: u32) < 2 ^ 16"
  shows "unat (saturating_add w 1) = unat w + 1" "unat (w + 1) = unat w + 1"
  using assms unat_add_no_wrap [of w 1] by (simp_all add: saturating_add_def)

text \<open>A blit records on its destination address the row pitch of the destination and an extent that
  contains every pixel of the scissor, the rectangle the 2D engine writes.\<close>

theorem blit_covers_scissor:
  assumes "a2d_destination st fs = Ok fs'"
  shows "\<exists>w i e br. destination_word st = Some w \<and> address_index fs w = Some i \<and> af_a2d (fs' ! i) = Some e \<and>
    destination_pitch st = Some (a2d_row_pitch e) \<and> scissor_br st = Some br \<and>
    unat (x_of br) < unat (a2d_required_width e) \<and> unat (y_of br) < unat (a2d_required_height e)"
proof -
  obtain w i br dbr pitch fmt where *: "destination_word st = Some w" "address_index fs w = Some i"
    "scissor_br st = Some br" "x_of br \<le> x_of dbr" "y_of br \<le> y_of dbr" "destination_pitch st = Some pitch"
    "fs' = fs[i := (fs ! i)\<lparr>af_a2d := Some \<lparr>a2d_format = fst fmt, a2d_modifier = snd fmt, a2d_row_pitch = pitch,
          a2d_required_width = saturating_add (x_of dbr) 1,
          a2d_required_height = saturating_add (y_of dbr) 1\<rparr>\<rparr>]"
    using assms unfolding a2d_destination_def set_a2d_expectation_def
    by (auto simp: outcome_simps not_less split: if_splits)
  then show ?thesis
    using address_index_Some [OF *(2)]
    by (auto simp: saturating_succ(1) [OF x_of_bound(1)] saturating_succ(1) [OF x_of_bound(2)] word_le_nat_alt
        less_Suc_eq_le)
qed

definition blit_state :: A2dState where
  "blit_state = A2dState_default\<lparr>destination_tl := Some 0, destination_br := Some 0x003f003f,
     scissor_tl := Some 0, scissor_br := Some 0x001f003f, destination_word := Some 7,
     destination_format := Some (Bgra8Unorm, Linear), destination_pitch := Some 256\<rparr>"

theorem blit_covers_scissor_witness:
  "\<exists>e. a2d_destination blit_state [vertex_field] = Ok [vertex_field\<lparr>af_a2d := Some e\<rparr>] \<and>
     unat (x_of 0x001f003f) < unat (a2d_required_width e)"
proof -
  let ?e = "\<lparr>a2d_format = Bgra8Unorm, a2d_modifier = Linear, a2d_row_pitch = 256,
     a2d_required_width = 64, a2d_required_height = 64\<rparr>"
  have run: "a2d_destination blit_state [vertex_field] = Ok [vertex_field\<lparr>af_a2d := Some ?e\<rparr>]"
    by (simp add: a2d_destination_def blit_state_def A2dState_default_def x_of_def y_of_def
        set_a2d_expectation_def address_index_def vertex_field_def Let_def get_at_def saturating_add_def)
  show ?thesis
    using blit_covers_scissor [OF run] run
    by (auto simp: blit_state_def address_index_def vertex_field_def Let_def get_at_def)
qed

lemma checked_image_pixels:
  assumes "check_a2d_image a rel res = Ok ()"
  obtains e where "af_a2d a = Some e"
    and "\<And>x y. a2d_modifier e = Linear \<Longrightarrow> x < unat (a2d_required_width e) \<Longrightarrow>
      y < unat (a2d_required_height e) \<Longrightarrow> y * unat (a2d_row_pitch e) + 4 * x + 4 \<le> unat (required_size rel)"
proof -
  obtain img e n where e: "af_a2d a = Some e" "a2d_accessed_bytes img e = Some n" "n \<le> required_size rel"
    "a2d_modifier e = img_modifier img" "a2d_required_height e \<noteq> 0"
    using assms unfolding check_a2d_image_def by (auto simp: outcome_simps not_less split: if_splits)
  have "y * unat (a2d_row_pitch e) + 4 * x + 4 \<le> unat (required_size rel)"
    if lin: "a2d_modifier e = Linear" and x: "x < unat (a2d_required_width e)"
      and y: "y < unat (a2d_required_height e)" for x y
  proof -
    let ?h = "a2d_required_height e" and ?w = "a2d_required_width e" and ?p = "a2d_row_pitch e"
    obtain rows row where rows: "checked_mul (ucast (saturating_sub ?h 1)) (ucast ?p :: u64) = Some rows"
      and row: "checked_mul (ucast ?w :: u64) 4 = Some row" and n: "checked_add rows row = Some n"
      using e(2,4) lin by (auto simp: a2d_accessed_bytes_def Option.bind_eq_Some_conv)
    have "1 \<le> ?h" using e(5) by (simp add: word_le_nat_alt unat_gt_0 Suc_le_eq)
    then have h: "unat (saturating_sub ?h 1) = unat ?h - 1" by (simp add: saturating_sub_def unat_sub)
    have "unat n = (unat ?h - 1) * unat ?p + unat ?w * 4"
      using checked_mul_SomeD(1) [OF rows] checked_mul_SomeD(1) [OF row] checked_add_SomeD(1) [OF n]
      by (simp add: unat_ucast_u32 h)
    moreover have "unat n \<le> unat (required_size rel)" using e(3) by (simp add: word_le_nat_alt)
    moreover have "y * unat ?p \<le> (unat ?h - 1) * unat ?p" using y by (intro mult_right_mono) simp_all
    ultimately show ?thesis using x by linarith
  qed
  then show ?thesis using that e(1) by blast
qed

text \<open>C6. In a relocated stream every 2D image address has the extent that its blit recorded, and for a
  linear image every pixel of that extent lies inside the byte range that the relocation authorised.\<close>

theorem blit_pixels_confined:
  assumes "validate_and_relocate alloc strict bytes resolve resolve_shader = Ok out"
  shows "\<exists>d rels words fs. decode bytes = Ok d \<and> decoded_relocations d = Ok rels \<and>
    validate_pm4 alloc strict d rels = Ok (words, fs) \<and> length fs = length rels \<and>
    (\<forall>j < length rels. af_complete (fs ! j) \<longrightarrow>
      (\<exists>e. af_a2d (fs ! j) = Some e \<and>
        (a2d_modifier e = Linear \<longrightarrow>
          (\<forall>x < unat (a2d_required_width e). \<forall>y < unat (a2d_required_height e).
             y * unat (a2d_row_pitch e) + 4 * x + 4 \<le> unat (required_size (rels ! j))))))"
proof -
  obtain d s ps fs entries where run: "run_of alloc strict bytes resolve resolve_shader out d s ps fs entries"
    using validate_and_relocate_run [OF assms] by blast
  define rels words where "rels = sub_relocations s" and "words = sub_pm4 s"
  have d: "decode bytes = Ok d" "views d s" and pm4: "validate_pm4 alloc strict d rels = Ok (words, fs)"
    "length fs = length rels" and rel: "relocated resolve_shader entries fs rels words (length rels) out"
    using run by (simp_all add: run_of_def stream_accepted_def rels_def words_def)
  have "\<exists>e. af_a2d (fs ! j) = Some e \<and> (a2d_modifier e = Linear \<longrightarrow>
      (\<forall>x < unat (a2d_required_width e). \<forall>y < unat (a2d_required_height e).
         y * unat (a2d_row_pitch e) + 4 * x + 4 \<le> unat (required_size (rels ! j))))"
    if "j < length rels" "af_complete (fs ! j)" for j
  proof -
    have "placed resolve_shader entries out (fs ! j) (rels ! j)"
      using rel that(1) by (simp add: relocated_def)
    with that(2) obtain res where "check_a2d_image (fs ! j) (rels ! j) res = Ok ()"
      unfolding placed_def image_checks_def by blast
    then show ?thesis by (rule checked_image_pixels) blast
  qed
  then show ?thesis
    using d pm4 decoded_relocations_views [OF d(2), folded rels_def]
    by (intro exI [of _ d] exI [of _ rels] exI [of _ words] exI [of _ fs]) simp
qed

theorem blit_pixels_confined_witness:
  "\<exists>d. decode (wire_image 1 clear_submit) = Ok d \<and>
     validate_pm4 (\<lambda>_ _. True) True d (sub_relocations clear_submit) =
       Ok (sub_pm4 clear_submit, clear_fields (Some clear_extent)) \<and>
     63 * 256 + 4 * 63 + 4 \<le> unat (required_size (sub_relocations clear_submit ! 0))"
proof -
  have "list_all (minor_allows 1) (sub_relocations clear_submit)"
    by (simp add: list_all_iff minor_allows_def)
  then obtain d where d: "decode (wire_image 1 clear_submit) = Ok d" "views d clear_submit"
    using image_views [OF clear_submit_wf] by blast
  note run = clear_validates [OF d(2)] decoded_relocations_views [OF d(2)]
  obtain words fs where pm4: "validate_pm4 (\<lambda>_ _. True) True d (sub_relocations clear_submit) = Ok (words, fs)"
    and all: "\<forall>j < length (sub_relocations clear_submit). af_complete (fs ! j) \<longrightarrow>
      (\<exists>e. af_a2d (fs ! j) = Some e \<and>
        (a2d_modifier e = Linear \<longrightarrow>
          (\<forall>x < unat (a2d_required_width e). \<forall>y < unat (a2d_required_height e).
             y * unat (a2d_row_pitch e) + 4 * x + 4 \<le> unat (required_size (sub_relocations clear_submit ! j)))))"
    using blit_pixels_confined [OF clear_runs] d(1) run(2) by auto
  have fs: "fs = clear_fields (Some clear_extent)" using pm4 run(1) by simp
  have "0 < length (sub_relocations clear_submit)" "af_complete (fs ! 0)"
    by (simp_all add: clear_submit_def fs clear_fields_def)
  with all have px: "\<exists>e. af_a2d (fs ! 0) = Some e \<and> (a2d_modifier e = Linear \<longrightarrow>
          (\<forall>x < unat (a2d_required_width e). \<forall>y < unat (a2d_required_height e).
             y * unat (a2d_row_pitch e) + 4 * x + 4 \<le> unat (required_size (sub_relocations clear_submit ! 0))))"
    by blast
  have "af_a2d (fs ! 0) = Some clear_extent" by (simp add: fs clear_fields_def)
  with px have "\<forall>x < unat (a2d_required_width clear_extent). \<forall>y < unat (a2d_required_height clear_extent).
     y * unat (a2d_row_pitch clear_extent) + 4 * x + 4 \<le> unat (required_size (sub_relocations clear_submit ! 0))"
    by (simp add: clear_extent_def)
  then have "63 * unat (a2d_row_pitch clear_extent) + 4 * 63 + 4 \<le> unat (required_size (sub_relocations clear_submit ! 0))"
    by (elim allE [of _ 63] impE) (simp_all add: clear_extent_def)
  then show ?thesis using d(1) run(1) by (auto simp: clear_extent_def)
qed

section \<open>Pipelines and viewports\<close>

text \<open>C25. The search for the canonical pipeline of a draw is exact: with or without the prefilter, and
  without ever reporting an ambiguity, it returns the one pipeline whose complete register state and
  shader relocations the segment has, or nothing.\<close>

theorem pipeline_search_exact:
  "foldM (candidate_step si rels) None PipelineVariant_ALL =
     Ok (find (\<lambda>v. segment_matches_pipeline si v \<and> segment_shader_relocations_match si rels v)
           PipelineVariant_ALL)"
  using pipeline_variants_distinct by (rule candidate_loop_find)

lemma finite_Fin: "f32_is_finite x \<longleftrightarrow> (\<exists>v. x = Fin v)"
  by (cases x) simp_all

lemma extent_f32: "f32_of_u32 (x_of w + 1) = Fin ((int (unat (x_of w)) + 1) * 2 ^ 149)"
  "f32_of_u32 (y_of w + 1) = Fin ((int (unat (y_of w)) + 1) * 2 ^ 149)"
  using saturating_succ(2) [OF x_of_bound(1), of w] saturating_succ(2) [OF x_of_bound(2), of w]
    x_of_bound [of w] by (simp_all add: f32_of_u32_exact)

text \<open>An accepted viewport transform is finite and maps the clip cube onto the target: scale and offset
  bound each other exactly below, and above they exceed the extent of the target by at most one part
  in two to the 24, the rounding of one single-precision addition. Values are in units of the smallest
  single-precision number.\<close>

theorem accepted_viewport_inside_target:
  assumes "\<not> viewport_unsafe viewport transform" "length transform = 6"
  shows "\<exists>xo xs yo ys zo zs. map f32_from_bits transform = map Fin [xo, xs, yo, ys, zo, zs] \<and>
    0 < xs \<and> xs \<le> xo \<and> \<bar>ys\<bar> \<le> yo \<and> \<bar>zs\<bar> \<le> zo \<and>
    (xo + xs) * (2 ^ 24 - 1) \<le> (int (unat (x_of (viewport ! 1))) + 1) * 2 ^ 149 * 2 ^ 24 \<and>
    (yo + \<bar>ys\<bar>) * (2 ^ 24 - 1) \<le> (int (unat (y_of (viewport ! 1))) + 1) * 2 ^ 149 * 2 ^ 24 \<and>
    (zo + \<bar>zs\<bar>) * (2 ^ 24 - 1) \<le> 2 ^ 149 * 2 ^ 24"
proof -
  obtain a b c d e f where t: "transform = [a, b, c, d, e, f]"
    using assms(2) by (auto simp: numeral_eq_Suc length_Suc_conv)
  have "list_all f32_is_finite (map f32_from_bits transform)"
    using assms(1) unfolding viewport_unsafe_def Let_def by blast
  then obtain xo xs yo ys zo zs where v: "f32_from_bits a = Fin xo" "f32_from_bits b = Fin xs"
    "f32_from_bits c = Fin yo" "f32_from_bits d = Fin ys" "f32_from_bits e = Fin zo" "f32_from_bits f = Fin zs"
    by (auto simp: t finite_Fin)
  have safe: "\<not> f32_le (Fin xs) f32_zero" "\<not> f32_less (f32_sub (Fin xo) (Fin xs)) f32_zero"
    "\<not> f32_less (f32_of_u32 (x_of (viewport ! 1) + 1)) (f32_add (Fin xo) (Fin xs))"
    "\<not> f32_less (f32_sub (Fin yo) (Fin \<bar>ys\<bar>)) f32_zero"
    "\<not> f32_less (f32_of_u32 (y_of (viewport ! 1) + 1)) (f32_add (Fin yo) (Fin \<bar>ys\<bar>))"
    "\<not> f32_less (f32_sub (Fin zo) (Fin \<bar>zs\<bar>)) f32_zero" "\<not> f32_less f32_one (f32_add (Fin zo) (Fin \<bar>zs\<bar>))"
    using assms(1) unfolding viewport_unsafe_def Let_def t by (simp_all add: v)
  have "0 < xs" using safe(1) by (auto simp: f32_le_def f32_zero_def)
  moreover note lows = f32_sub_nonneg [OF safe(2)] f32_sub_nonneg [OF safe(4)] f32_sub_nonneg [OF safe(6)]
  moreover have "(xo + xs) * (2 ^ 24 - 1) \<le> (int (unat (x_of (viewport ! 1))) + 1) * 2 ^ 149 * 2 ^ 24"
    using f32_add_bound [OF safe(3) [unfolded extent_f32]] \<open>0 < xs\<close> lows by linarith
  moreover have "(yo + \<bar>ys\<bar>) * (2 ^ 24 - 1) \<le> (int (unat (y_of (viewport ! 1))) + 1) * 2 ^ 149 * 2 ^ 24"
    using f32_add_bound [OF safe(5) [unfolded extent_f32]] lows by linarith
  moreover have "(zo + \<bar>zs\<bar>) * (2 ^ 24 - 1) \<le> 2 ^ 149 * 2 ^ 24"
    using f32_add_bound [OF safe(7) [unfolded f32_one_def]] lows by linarith
  moreover have "map f32_from_bits transform = map Fin [xo, xs, yo, ys, zo, zs]" by (simp add: t v)
  ultimately show ?thesis by blast
qed

lemma bit_len_power: "bit_len (2 ^ n) = Suc n"
proof (induction n)
  case (Suc n)
  have "bit_len (2 ^ Suc n) = Suc (bit_len (2 ^ Suc n div 2))" by (subst bit_len.simps) simp
  then show ?case using Suc by simp
qed (simp add: bit_len.simps)

lemma f32_round_power:
  assumes "n < 277"
  shows "f32_round (2 ^ n) = Fin (2 ^ n)"
proof -
  have "2 ^ (bit_len (2 ^ n) - 24) dvd (2 ^ n :: nat)" by (simp add: bit_len_power le_imp_power_dvd)
  then have "round_mag (2 ^ n) = 2 ^ n" by (rule round_mag_exact)
  moreover have "nat \<bar>2 ^ n\<bar> = 2 ^ n" by (simp add: nat_power_eq)
  moreover have "(2 :: nat) ^ n < 2 ^ 277" using assms by (intro power_strict_increasing) simp_all
  ultimately show ?thesis unfolding f32_round_def Let_def by (simp add: nat_power_eq)
qed

definition full_viewport :: "u32 list" where
  "full_viewport = [0x42000000, 0x42000000, 0x42000000, 0xc2000000, 0x3f000000, 0x3f000000]"

lemma full_viewport_values:
  "map f32_from_bits full_viewport = map Fin [2 ^ 154, 2 ^ 154, 2 ^ 154, - (2 ^ 154), 2 ^ 148, 2 ^ 148]"
  by (simp add: full_viewport_def f32_from_bits_def bit_iff_odd_drop_bit flip: power_add)

lemma viewport_unsafe_values:
  assumes "map f32_from_bits transform = [xo, xs, yo, ys, zo, zs]"
  shows "viewport_unsafe viewport transform \<longleftrightarrow>
    \<not> list_all f32_is_finite [xo, xs, yo, ys, zo, zs] \<or> f32_le xs f32_zero \<or> f32_less (f32_sub xo xs) f32_zero \<or>
    f32_less (f32_of_u32 (x_of (viewport ! 1) + 1)) (f32_add xo xs) \<or> f32_less (f32_sub yo (f32_abs ys)) f32_zero \<or>
    f32_less (f32_of_u32 (y_of (viewport ! 1) + 1)) (f32_add yo (f32_abs ys)) \<or>
    f32_less (f32_sub zo (f32_abs zs)) f32_zero \<or> f32_less f32_one (f32_add zo (f32_abs zs))"
  unfolding viewport_unsafe_def Let_def assms by simp

lemma full_viewport_safe: "\<not> viewport_unsafe [0, 0x003f003f] full_viewport"
proof -
  have sums: "f32_add (Fin (2 ^ 154)) (Fin (2 ^ 154)) = Fin (2 ^ 155)"
    "f32_add (Fin (2 ^ 148)) (Fin (2 ^ 148)) = Fin (2 ^ 149)"
    using f32_round_power [of 155] f32_round_power [of 149] by simp_all
  have zero: "f32_sub (Fin a) (Fin a) = Fin 0" for a
    by (simp add: f32_sub_def f32_round_def round_mag_def)
  have extent: "f32_of_u32 (x_of 0x003f003f + 1) = Fin (2 ^ 155)" "f32_of_u32 (y_of 0x003f003f + 1) = Fin (2 ^ 155)"
    unfolding extent_f32 by (simp_all add: x_of_def y_of_def)
  note vals = viewport_unsafe_values [OF full_viewport_values [unfolded list.map]]
  show ?thesis
    unfolding vals
    by (simp only: f32_abs.simps abs_minus_cancel power_abs abs_numeral sums zero)
      (simp add: extent f32_le_def f32_zero_def f32_one_def)
qed

theorem accepted_viewport_inside_target_witness:
  "\<exists>xo xs yo ys zo zs. map f32_from_bits full_viewport = map Fin [xo, xs, yo, ys, zo, zs] \<and> 0 < xs \<and> xs \<le> xo \<and>
     \<not> viewport_unsafe [0, 0x003f003f] full_viewport"
proof -
  have "length full_viewport = 6" by (simp add: full_viewport_def)
  from accepted_viewport_inside_target [OF full_viewport_safe this] full_viewport_safe show ?thesis by blast
qed

section \<open>Diagnosis\<close>

text \<open>The first packet of a list that the packet rules reject, if any.\<close>

fun first_rejected :: "allocator \<Rightarrow> AddressField list \<Rightarrow> packet list \<Rightarrow> packet option" where
  "first_rejected alloc fs [] = None"
| "first_rejected alloc fs (p # ps) =
     (case validate_packet alloc fs p of Ok fs' \<Rightarrow> first_rejected alloc fs' ps | _ \<Rightarrow> Some p)"

declare diagnose_loop.simps [simp del]

lemma diagnose_collected:
  "collect_packets it = Ok ps \<Longrightarrow>
   diagnose_loop alloc it fs = Ok (map_option rejected_packet (first_rejected alloc fs ps))"
proof (induction alloc it fs arbitrary: ps rule: diagnose_loop.induct)
  case (1 alloc it fs)
  have np: "validate_packet alloc fs p \<noteq> Panic" for p
    using appends_packet [of p fs alloc] by (simp add: appends_def)
  show ?case
  proof (cases "packets_next it")
    case (Pair item it')
    consider "item = None" | p where "item = Some (Ok p)" | e where "item = Some (Err e)" | "item = Some Panic"
      by (metis option.exhaust outcome.exhaust)
    then show ?thesis
    proof cases
      case 1
      then show ?thesis using \<open>collect_packets it = Ok ps\<close> Pair
        by (simp add: diagnose_loop.simps collect_packets.simps)
    next
      case (2 p)
      then obtain qs where qs: "ps = p # qs" "collect_packets it' = Ok qs"
        using \<open>collect_packets it = Ok ps\<close> Pair
        by (subst (asm) collect_packets.simps) (auto simp: outcome_simps)
      show ?thesis
        using "1.IH" [OF Pair [symmetric]] 2 qs np [of p] Pair
        by (cases "validate_packet alloc fs p") (simp_all add: diagnose_loop.simps [of alloc it])
    next
      case 3
      then show ?thesis using \<open>collect_packets it = Ok ps\<close> Pair by (simp add: collect_packets.simps)
    next
      case 4
      then show ?thesis using \<open>collect_packets it = Ok ps\<close> Pair by (simp add: collect_packets.simps)
    qed
  qed
qed

lemma first_rejected_None:
  "first_rejected alloc fs ps = None \<longleftrightarrow> (\<exists>fs'. foldM (validate_packet alloc) fs ps = Ok fs')"
  by (induction ps arbitrary: fs) (auto simp: outcome_simps split: outcome.splits)

lemma first_rejected_Some:
  "first_rejected alloc fs ps = Some p \<Longrightarrow>
   \<exists>pre post fs' e. ps = pre @ p # post \<and> foldM (validate_packet alloc) fs pre = Ok fs' \<and>
     validate_packet alloc fs' p = Err e"
proof (induction ps arbitrary: fs)
  case (Cons q ps)
  show ?case
  proof (cases "validate_packet alloc fs q")
    case (Ok fs1)
    then obtain pre post fs' e where "ps = pre @ p # post" "foldM (validate_packet alloc) fs1 pre = Ok fs'"
      "validate_packet alloc fs' p = Err e"
      using Cons.IH [of fs1] Cons.prems by (simp add: Ok) blast
    then show ?thesis using Ok by (intro exI [of _ "q # pre"] exI [of _ post] exI [of _ fs'] exI [of _ e]) simp
  next
    case (Err e)
    then have "q = p" using Cons.prems by simp
    then show ?thesis using Err by (intro exI [of _ "[]"] exI [of _ ps] exI [of _ fs] exI [of _ e]) simp
  next
    case Panic
    then show ?thesis using appends_packet [of q fs alloc] by (simp add: appends_def)
  qed
qed simp

text \<open>The diagnosis of a well-framed stream reports a packet exactly when the packet rules reject one, and
  then it reports the first: every packet before it is accepted in order, and the packet itself is
  rejected with the address fields collected up to it.\<close>

theorem diagnosis_names_first_rejection:
  assumes "decode bytes = Ok d" "copy_pm4 alloc d = Ok words" "collect_packets (packets_new words) = Ok ps"
  shows "(diagnose_rejected_packet alloc bytes = Ok None \<longleftrightarrow>
      (\<exists>fs. foldM (validate_packet alloc) [] ps = Ok fs)) \<and>
    (\<forall>rp. diagnose_rejected_packet alloc bytes = Ok (Some rp) \<longrightarrow>
      (\<exists>pre p post fs e. ps = pre @ p # post \<and> foldM (validate_packet alloc) [] pre = Ok fs \<and>
         validate_packet alloc fs p = Err e \<and> rp = rejected_packet p))"
proof -
  have run: "diagnose_rejected_packet alloc bytes =
      Ok (map_option rejected_packet (first_rejected alloc [] ps))"
    using assms diagnose_collected [OF assms(3)] by (simp add: diagnose_rejected_packet_def)
  show ?thesis
    using first_rejected_None [of alloc "[]" ps] first_rejected_Some [of alloc "[]" ps]
    by (auto simp: run) blast
qed

theorem diagnosis_names_first_rejection_witness:
  "diagnose_rejected_packet (\<lambda>_ _. True) (wire_image 1 clear_submit) = Ok None"
proof -
  have "list_all (minor_allows 1) (sub_relocations clear_submit)"
    by (simp add: list_all_iff minor_allows_def)
  then obtain d where d: "decode (wire_image 1 clear_submit) = Ok d" "views d clear_submit"
    using image_views [OF clear_submit_wf] by blast
  have words: "copy_pm4 (\<lambda>_ _. True) d = Ok (sub_pm4 clear_submit)" using copy_pm4_views [OF d(2)] by simp
  have packets: "collect_packets (packets_new (sub_pm4 clear_submit)) = Ok clear_packets"
    using collect_packets_framed [of 0 "sub_pm4 clear_submit" clear_packets] clear_packets_framed
    by (simp add: packets_new_at clear_submit_def)
  show ?thesis using diagnosis_names_first_rejection [OF d(1) words packets] clear_passes(1) by blast
qed

end
