(* ===== verification/Pending_Queue.thy ===== *)
theory Pending_Queue
  imports Rust_Prelude
begin

text \<open>
  The admission queue of the GPU driver (\<open>drivers/gpu/qcom-adreno-a618/src/pending.rs\<close>):
  \<open>PendingQueue<T>\<close> as a record, its methods as functions that return the updated queue, and the
  retirement test \<open>fence_retired\<close>. \<open>reserve\<close> stands for \<open>VecDeque::try_reserve_exact\<close>.

  Every history of method calls is a derivation of \<open>pending_run\<close>, which records beside the queue
  what was admitted, what the worker was handed, how each turn ended, and when the CPU had exclusive access. The
  lemmas show that the queue hands out exactly the admitted values in order and one at a time, that its slot count is
  the number of values still reachable by the hardware, and that nothing but checkpoints is admitted during an exclusive access.
\<close>

section \<open>The queue\<close>

record 'a PendingQueue =
  queued :: "'a list"
  outstanding :: usize
  running :: bool
  capacity :: usize
  cpu_access :: bool

definition pending_try_new :: "(usize \<Rightarrow> bool) \<Rightarrow> usize \<Rightarrow> (string, 'a PendingQueue) outcome" where
  "pending_try_new reserve n =
    (if n = 0 then Err ''qcom-adreno-a618: pending queue capacity must be nonzero''
     else if \<not> reserve n then Err ''qcom-adreno-a618: pending queue allocation failed''
     else Ok \<lparr> queued = [], outstanding = 0, running = False, capacity = n, cpu_access = False \<rparr>)"

definition has_slot :: "'a PendingQueue \<Rightarrow> bool" where
  "has_slot q \<longleftrightarrow> outstanding q < capacity q"

definition has_capacity :: "'a PendingQueue \<Rightarrow> bool" where
  "has_capacity q \<longleftrightarrow> \<not> cpu_access q \<and> has_slot q"

definition try_begin_cpu_access :: "'a PendingQueue \<Rightarrow> bool \<times> 'a PendingQueue" where
  "try_begin_cpu_access q =
    (if cpu_access q then (False, q) else (True, q \<lparr> cpu_access := True \<rparr>))"

definition end_cpu_access :: "'a PendingQueue \<Rightarrow> 'a PendingQueue" where
  "end_cpu_access q = q \<lparr> cpu_access := False \<rparr>"

definition push_admitted :: "'a PendingQueue \<Rightarrow> 'a \<Rightarrow> 'a PendingQueue" where
  "push_admitted q v = q \<lparr> queued := queued q @ [v], outstanding := outstanding q + 1 \<rparr>"

text \<open>A rejected value is handed back as the error.\<close>

definition pending_push :: "'a PendingQueue \<Rightarrow> 'a \<Rightarrow> ('a, unit) outcome \<times> 'a PendingQueue" where
  "pending_push q v = (if \<not> has_capacity q then (Err v, q) else (Ok (), push_admitted q v))"

definition push_cpu_checkpoint :: "'a PendingQueue \<Rightarrow> 'a \<Rightarrow> ('a, unit) outcome \<times> 'a PendingQueue" where
  "push_cpu_checkpoint q v =
    (if \<not> cpu_access q \<or> \<not> has_slot q then (Err v, q) else (Ok (), push_admitted q v))"

definition start_next :: "'a PendingQueue \<Rightarrow> 'a option \<times> 'a PendingQueue" where
  "start_next q =
    (if running q then (None, q)
     else case queued q of
         [] \<Rightarrow> (None, q)
       | v # rest \<Rightarrow> (Some v, q \<lparr> queued := rest, running := True \<rparr>))"

text \<open>\<open>finish\<close> decrements the slot count; at zero the subtraction would abort.\<close>

definition pending_finish :: "'a PendingQueue \<Rightarrow> bool \<Rightarrow> (unit, 'a PendingQueue) outcome" where
  "pending_finish q retired =
    (if running q then
       (if retired then
          (if outstanding q = 0 then Panic
           else Ok (q \<lparr> running := False, outstanding := outstanding q - 1 \<rparr>))
        else Ok (q \<lparr> running := False \<rparr>))
     else Ok q)"

definition fence_retired :: "u32 \<Rightarrow> u32 \<Rightarrow> u32 \<Rightarrow> u32 \<Rightarrow> u32 \<Rightarrow> bool \<Rightarrow> bool" where
  "fence_retired expected dma_fence scratch read_pointer target_pointer idle \<longleftrightarrow>
    expected \<noteq> 0 \<and> dma_fence = expected \<and> scratch = expected \<and>
    read_pointer = target_pointer \<and> idle"

section \<open>Histories\<close>

text \<open>What happened to a queue: the values admitted, the values handed to the worker, for each
  finished turn whether its DMA was proven retired, and the order of admissions and of exclusive accesses of the CPU.\<close>

datatype 'a happened = Admitted 'a | Checkpoint 'a | Begun | Ended

record 'a history =
  admitted :: "'a list"
  started :: "'a list"
  turns :: "bool list"
  happened :: "'a happened list"

definition no_history :: "'a history" where
  "no_history = \<lparr> admitted = [], started = [], turns = [], happened = [] \<rparr>"

definition record_admission :: "('a \<Rightarrow> 'a happened) \<Rightarrow> 'a \<Rightarrow> 'a history \<Rightarrow> 'a history" where
  "record_admission kind v h = h \<lparr> admitted := admitted h @ [v], happened := happened h @ [kind v] \<rparr>"

inductive pending_run :: "usize \<Rightarrow> 'a history \<Rightarrow> 'a PendingQueue \<Rightarrow> bool" for n where
  created: "pending_try_new reserve n = Ok q \<Longrightarrow> pending_run n no_history q"
| pushed: "pending_run n h q \<Longrightarrow> pending_push q v = (Ok (), q') \<Longrightarrow> pending_run n (record_admission Admitted v h) q'"
| refused: "pending_run n h q \<Longrightarrow> pending_push q v = (Err w, q') \<Longrightarrow> pending_run n h q'"
| checkpointed: "pending_run n h q \<Longrightarrow> push_cpu_checkpoint q v = (Ok (), q') \<Longrightarrow>
    pending_run n (record_admission Checkpoint v h) q'"
| checkpoint_refused: "pending_run n h q \<Longrightarrow> push_cpu_checkpoint q v = (Err w, q') \<Longrightarrow> pending_run n h q'"
| access_begun: "pending_run n h q \<Longrightarrow> try_begin_cpu_access q = (True, q') \<Longrightarrow>
    pending_run n (h \<lparr> happened := happened h @ [Begun] \<rparr>) q'"
| access_refused: "pending_run n h q \<Longrightarrow> try_begin_cpu_access q = (False, q') \<Longrightarrow> pending_run n h q'"
| access_ended: "pending_run n h q \<Longrightarrow> pending_run n (h \<lparr> happened := happened h @ [Ended] \<rparr>) (end_cpu_access q)"
| taken: "pending_run n h q \<Longrightarrow> start_next q = (Some v, q') \<Longrightarrow>
    pending_run n (h \<lparr> started := started h @ [v] \<rparr>) q'"
| nothing_taken: "pending_run n h q \<Longrightarrow> start_next q = (None, q') \<Longrightarrow> pending_run n h q'"
| finished: "pending_run n h q \<Longrightarrow> running q \<Longrightarrow> pending_finish q retired = Ok q' \<Longrightarrow>
    pending_run n (h \<lparr> turns := turns h @ [retired] \<rparr>) q'"
| not_running: "pending_run n h q \<Longrightarrow> \<not> running q \<Longrightarrow> pending_finish q retired = Ok q' \<Longrightarrow> pending_run n h q'"

text \<open>The turns that ended without proof of retirement: their values are quarantined.\<close>

definition quarantined :: "'a history \<Rightarrow> nat" where
  "quarantined h = length (filter Not (turns h))"

text \<open>Exclusive access as the callers see it: no access begins during another one, ordinary values are admitted only outside of one
  and checkpoints only during one. The result says whether an access is going on at the end, and is \<open>None\<close> when the
  rule was broken.\<close>

fun exclusive :: "bool \<Rightarrow> 'a happened list \<Rightarrow> bool option" where
  "exclusive b [] = Some b"
| "exclusive b (Admitted v # es) = (if b then None else exclusive b es)"
| "exclusive b (Checkpoint v # es) = (if b then exclusive b es else None)"
| "exclusive b (Begun # es) = (if b then None else exclusive True es)"
| "exclusive b (Ended # es) = exclusive False es"

lemma exclusive_append: "exclusive b es = Some c \<Longrightarrow> exclusive b (es @ fs) = exclusive c fs"
  by (induction b es rule: exclusive.induct) (auto split: if_splits)

lemmas pending_ops = has_capacity_def has_slot_def try_begin_cpu_access_def end_cpu_access_def
  push_admitted_def pending_push_def push_cpu_checkpoint_def start_next_def pending_finish_def

definition pending_inv :: "usize \<Rightarrow> 'a history \<Rightarrow> 'a PendingQueue \<Rightarrow> bool" where
  "pending_inv n h q \<longleftrightarrow>
    capacity q = n \<and>
    admitted h = started h @ queued q \<and>
    length (started h) = length (turns h) + (if running q then 1 else 0) \<and>
    outstanding q = length (queued q) + (if running q then 1 else 0) + quarantined h \<and>
    outstanding q \<le> n \<and>
    exclusive False (happened h) = Some (cpu_access q)"

lemmas history_simps = pending_inv_def pending_ops quarantined_def record_admission_def exclusive_append

lemma pending_run_inv: "pending_run n h q \<Longrightarrow> pending_inv n h q"
proof (induction rule: pending_run.induct)
  case (created reserve q)
  then show ?case
    by (auto simp: pending_try_new_def pending_inv_def no_history_def quarantined_def split: if_splits)
next
  case (finished h q retired q')
  then show ?case by (cases retired) (auto simp: history_simps split: if_splits)
qed (auto simp: history_simps split: if_splits list.splits)

text \<open>C28. In every history of the admission queue the worker is handed the admitted values in the
  order of admission, none lost or repeated: what was handed out followed by what is queued is what
  was admitted. At most one value is running, and whenever none is and a value is left, the worker gets the next one, also during an
  exclusive access of the CPU. The slot count is the number of queued, running and quarantined values, and never
  exceeds the capacity. Exclusive accesses do not overlap, and during one no ordinary value is admitted and outside of one no
  checkpoint; a value is refused only during an exclusive access or when all slots are taken. Finishing a turn never aborts.\<close>

theorem pending_queue_history:
  assumes "pending_run n h q"
  shows "admitted h = started h @ queued q \<and>
    length (started h) = length (turns h) + (if running q then 1 else 0) \<and>
    (fst (start_next q) = None \<longleftrightarrow> length (started h) \<noteq> length (turns h) \<or> started h = admitted h) \<and>
    outstanding q = length (queued q) + (if running q then 1 else 0) + quarantined h \<and>
    outstanding q \<le> n \<and> capacity q = n \<and>
    exclusive False (happened h) = Some (cpu_access q) \<and>
    (fst (pending_push q v) = Ok () \<longleftrightarrow> exclusive False (happened h) = Some False \<and> outstanding q < n) \<and>
    pending_finish q retired \<noteq> Panic"
  using pending_run_inv [OF assms] by (cases "queued q") (auto simp: pending_inv_def pending_ops)

text \<open>Capacity four: two values are admitted, the first is started and its turn ends without proof of
  retirement, so that its slot stays taken. The CPU then gets exclusive access and admits a checkpoint. An ordinary value is
  refused although a slot is free, and the second value can be started.\<close>

definition sample_queue :: "nat PendingQueue" where
  "sample_queue = \<lparr> queued = [8, 9], outstanding = 3, running = False, capacity = 4, cpu_access = True \<rparr>"

definition sample_history :: "nat history" where
  "sample_history = \<lparr> admitted = [7, 8, 9], started = [7], turns = [False], happened = [Admitted 7, Admitted 8, Begun, Checkpoint 9] \<rparr>"

lemma sample_run: "pending_run 4 sample_history sample_queue"
proof -
  let ?q = "\<lambda>xs k r b. \<lparr> queued = xs, outstanding = k, running = r, capacity = 4, cpu_access = b \<rparr> :: nat PendingQueue"
  let ?h = "\<lambda>xs ys ts es. \<lparr> admitted = xs, started = ys, turns = ts, happened = es \<rparr> :: nat history"
  note simps = pending_ops no_history_def record_admission_def
  have "pending_run 4 no_history (?q [] 0 False False)"
    by (rule created [where reserve = "\<lambda>_. True"]) (simp add: pending_try_new_def)
  from pushed [OF this, of 7 "?q [7] 1 False False"]
  have "pending_run 4 (?h [7] [] [] [Admitted 7]) (?q [7] 1 False False)" by (simp add: simps)
  from pushed [OF this, of 8 "?q [7, 8] 2 False False"]
  have "pending_run 4 (?h [7, 8] [] [] [Admitted 7, Admitted 8]) (?q [7, 8] 2 False False)" by (simp add: simps)
  from taken [OF this, of 7 "?q [8] 2 True False"]
  have "pending_run 4 (?h [7, 8] [7] [] [Admitted 7, Admitted 8]) (?q [8] 2 True False)" by (simp add: simps)
  from finished [OF this, of False "?q [8] 2 False False"]
  have "pending_run 4 (?h [7, 8] [7] [False] [Admitted 7, Admitted 8]) (?q [8] 2 False False)" by (simp add: simps)
  from access_begun [OF this, of "?q [8] 2 False True"]
  have "pending_run 4 (?h [7, 8] [7] [False] [Admitted 7, Admitted 8, Begun]) (?q [8] 2 False True)" by (simp add: simps)
  from checkpointed [OF this, of 9 "?q [8, 9] 3 False True"]
  show ?thesis by (simp add: simps sample_history_def sample_queue_def)
qed

theorem pending_queue_history_witness:
  "pending_run 4 sample_history sample_queue \<and> quarantined sample_history = 1 \<and>
   fst (start_next sample_queue) \<noteq> None \<and> fst (pending_push sample_queue 10) \<noteq> Ok () \<and>
   outstanding sample_queue < 4 \<and> pending_finish sample_queue True \<noteq> Panic"
proof -
  have ran: "length (started sample_history) = length (turns sample_history)" "started sample_history \<noteq> admitted sample_history"
    and access: "exclusive False (happened sample_history) = Some True" and "quarantined sample_history = 1" "outstanding sample_queue < 4"
    by (simp_all add: quarantined_def sample_history_def sample_queue_def)
  then show ?thesis using sample_run pending_queue_history [OF sample_run, of 10 True] by simp
qed

end
