(* ===== verification/Dispatch_Scheduler.thy ===== *)
theory Dispatch_Scheduler
  imports Rust_Prelude "HOL-Library.Multiset" "HOL-Library.Sublist"
begin

text \<open>
  The user-space submission scheduler
  (\<open>userspace/sgfx-backend-scarlet-adreno/src/scheduler.rs\<close>).

  The \<open>Transport\<close> trait is a parameter: a record of its operations over a world \<open>'w\<close> that every
  call may change. \<open>io\<close> is the world with the log of the transport calls that mattered: chunks
  accepted, receipts reported retired and signals completed. \<open>reserve\<close> stands for the fallible
  \<open>try_reserve\<close> calls of \<open>enqueue\<close>. The loops of \<open>advance\<close> are recursive functions in the order of
  the source: poll every receipt, retire the finished prefix, submit the next chunks.
\<close>

section \<open>Data\<close>

definition MAX_SUBMISSIONS :: usize where "MAX_SUBMISSIONS = 16"
definition MAX_PENDING_BYTES :: usize where "MAX_PENDING_BYTES = 64 * 1024 * 1024"
definition MAX_NATIVE_IN_FLIGHT :: usize where "MAX_NATIVE_IN_FLIGHT = 16"

datatype 'e DispatchError = DispatchBusy | DispatchFailed 'e

datatype 'e AdmissionError = AdmissionBusy | TooLarge | OutOfMemory | AdmissionFailed 'e

text \<open>The trait. A fallible call returns \<open>Inl\<close> its error or \<open>Inr\<close> its value.\<close>

record ('c, 'o, 'r, 's, 'e, 'w) Transport =
  chunk_bytes :: "'c \<Rightarrow> usize"
  requires_idle :: "'c \<Rightarrow> bool"
  ready :: "'w \<Rightarrow> 'c \<Rightarrow> ('e + bool) \<times> 'w"
  submit :: "'w \<Rightarrow> 'o \<Rightarrow> 'c \<Rightarrow> ('e DispatchError + 'r) \<times> 'w"
  poll :: "'w \<Rightarrow> 'r \<Rightarrow> ('e + bool) \<times> 'w"
  complete :: "'w \<Rightarrow> 's \<Rightarrow> 'e + unit \<Rightarrow> 'w"

datatype ('c, 'o, 'r, 's, 'e) event =
  Accepted 'o 'c
| Retired 'r
| Completed 's "'e + unit"

record ('c, 'o, 'r, 's, 'e, 'w) io =
  world :: 'w
  log :: "('c, 'o, 'r, 's, 'e) event list"

record ('c, 'o, 'r, 's) Job =
  chunks :: "'c list"
  owner :: 'o
  signal :: 's
  next_chunk :: usize
  receipts :: "'r list"
  job_bytes :: usize

record ('c, 'o, 'r, 's, 'e) Scheduler =
  jobs :: "('c, 'o, 'r, 's) Job list"
  bytes :: usize
  failure :: "'e option"

definition scheduler_new :: "('c, 'o, 'r, 's, 'e) Scheduler" where
  "scheduler_new = \<lparr> jobs = [], bytes = 0, failure = None \<rparr>"

definition scheduler_is_empty :: "('c, 'o, 'r, 's, 'e) Scheduler \<Rightarrow> bool" where
  "scheduler_is_empty s \<longleftrightarrow> jobs s = []"

definition scheduler_receipts :: "('c, 'o, 'r, 's) Job list \<Rightarrow> 'r list" where
  "scheduler_receipts js = concat (map receipts js)"

definition last_signal :: "('c, 'o, 'r, 's, 'e) Scheduler \<Rightarrow> 's option" where
  "last_signal s = (if jobs s = [] then None else Some (signal (last (jobs s))))"

section \<open>Admission\<close>

fun total_bytes :: "('c \<Rightarrow> usize) \<Rightarrow> usize \<Rightarrow> 'c list \<Rightarrow> usize option" where
  "total_bytes sz n [] = Some n"
| "total_bytes sz n (c # cs) =
    (case usize_checked_add n (sz c) of None \<Rightarrow> None | Some m \<Rightarrow> total_bytes sz m cs)"

definition enqueue :: "('c, 'o, 'r, 's, 'e, 'w) Transport \<Rightarrow> (usize \<Rightarrow> bool) \<Rightarrow>
    ('c, 'o, 'r, 's, 'e) Scheduler \<Rightarrow> 'c list \<Rightarrow> 'o \<Rightarrow> 's \<Rightarrow>
    ('e AdmissionError, ('c, 'o, 'r, 's, 'e) Scheduler) outcome" where
  "enqueue T reserve s cs own sig =
    (case failure s of
       Some e \<Rightarrow> Err (AdmissionFailed e)
     | None \<Rightarrow>
         andThen (ok_or (case total_bytes (chunk_bytes T) 0 cs of
             Some n \<Rightarrow> if n \<le> MAX_PENDING_BYTES then Some n else None | None \<Rightarrow> None) TooLarge) (\<lambda>n.
         if length (jobs s) = MAX_SUBMISSIONS \<or> min (bytes s + n) (2 ^ 64 - 1) > MAX_PENDING_BYTES
         then Err AdmissionBusy
         else andThen (guard (reserve (min (length cs) MAX_NATIVE_IN_FLIGHT)) OutOfMemory) (\<lambda>_.
         andThen (guard (reserve 1) OutOfMemory) (\<lambda>_.
         Ok (s \<lparr> jobs := jobs s @ [\<lparr> chunks = cs, owner = own, signal = sig, next_chunk = 0,
                    receipts = [], job_bytes = n \<rparr>],
                 bytes := bytes s + n \<rparr>)))))"

section \<open>Failure\<close>

definition do_complete :: "('c, 'o, 'r, 's, 'e, 'w) Transport \<Rightarrow> ('c, 'o, 'r, 's, 'e, 'w) io \<Rightarrow> 
    's \<Rightarrow> 'e + unit \<Rightarrow> ('c, 'o, 'r, 's, 'e, 'w) io" where
  "do_complete T w sig res =
    \<lparr> world = complete T (world w) sig res, log = log w @ [Completed sig res] \<rparr>"

fun fail_jobs :: "('c, 'o, 'r, 's, 'e, 'w) Transport \<Rightarrow> 'e \<Rightarrow> 
    ('c, 'o, 'r, 's, 'e, 'w) io \<Rightarrow> ('c, 'o, 'r, 's) Job list \<Rightarrow> ('c, 'o, 'r, 's, 'e, 'w) io" where
  "fail_jobs T e w [] = w"
| "fail_jobs T e w (j # js) = fail_jobs T e (do_complete T w (signal j) (Inl e)) js"

definition fail :: "('c, 'o, 'r, 's, 'e, 'w) Transport \<Rightarrow> ('c, 'o, 'r, 's, 'e) Scheduler \<Rightarrow> 
    ('c, 'o, 'r, 's, 'e, 'w) io \<Rightarrow> 'e \<Rightarrow> ('c, 'o, 'r, 's, 'e) Scheduler \<times> ('c, 'o, 'r, 's, 'e, 'w) io" where
  "fail T s w e = (s \<lparr> failure := Some e, jobs := [], bytes := 0 \<rparr>, fail_jobs T e w (jobs s))"

section \<open>Polling\<close>

text \<open>The receipts of one job from index \<open>i\<close> on: the receipts kept, whether any retired, or the
  error of the first failed poll.\<close>

function poll_receipts :: "('c, 'o, 'r, 's, 'e, 'w) Transport \<Rightarrow> ('c, 'o, 'r, 's, 'e, 'w) io \<Rightarrow>
    'r list \<Rightarrow> usize \<Rightarrow> bool \<Rightarrow> ('e + 'r list \<times> bool) \<times> ('c, 'o, 'r, 's, 'e, 'w) io" where
  "poll_receipts T w rs i p =
    (case get_at rs i of
       None \<Rightarrow> (Inr (rs, p), w)
     | Some r \<Rightarrow>
         (case poll T (world w) r of
            (Inr True, w') \<Rightarrow> poll_receipts T \<lparr> world = w', log = log w @ [Retired r] \<rparr>
                               (take i rs @ drop (Suc i) rs) i True
          | (Inr False, w') \<Rightarrow> poll_receipts T (w \<lparr> world := w' \<rparr>) rs (Suc i) p
          | (Inl e, w') \<Rightarrow> (Inl e, w \<lparr> world := w' \<rparr>)))"
  by pat_completeness auto

termination
  by (relation "measure (\<lambda>(T, w, rs, i, p). length rs - i)") auto

fun poll_jobs :: "('c, 'o, 'r, 's, 'e, 'w) Transport \<Rightarrow> ('c, 'o, 'r, 's, 'e, 'w) io \<Rightarrow>
    ('c, 'o, 'r, 's) Job list \<Rightarrow> bool \<Rightarrow>
    ('e + ('c, 'o, 'r, 's) Job list \<times> bool) \<times> ('c, 'o, 'r, 's, 'e, 'w) io" where
  "poll_jobs T w [] p = (Inr ([], p), w)"
| "poll_jobs T w (j # js) p =
    (case poll_receipts T w (receipts j) 0 p of
       (Inl e, w') \<Rightarrow> (Inl e, w')
     | (Inr (rs, p'), w') \<Rightarrow>
         (case poll_jobs T w' js p' of
            (Inl e, w'') \<Rightarrow> (Inl e, w'')
          | (Inr (js', p''), w'') \<Rightarrow> (Inr (j \<lparr> receipts := rs \<rparr> # js', p''), w'')))"

section \<open>Retirement of the finished prefix\<close>

definition job_done :: "('c, 'o, 'r, 's) Job \<Rightarrow> bool" where
  "job_done j \<longleftrightarrow> next_chunk j = length (chunks j) \<and> receipts j = []"

text \<open>The byte count is decremented for every retired job; below zero the subtraction would abort.\<close>

fun retire_jobs :: "('c, 'o, 'r, 's, 'e, 'w) Transport \<Rightarrow> ('c, 'o, 'r, 's, 'e, 'w) io \<Rightarrow> 
    ('c, 'o, 'r, 's) Job list \<Rightarrow> usize \<Rightarrow> bool \<Rightarrow> 
    (unit, ('c, 'o, 'r, 's) Job list \<times> usize \<times> bool \<times> ('c, 'o, 'r, 's, 'e, 'w) io) outcome" where
  "retire_jobs T w [] n p = Ok ([], n, p, w)"
| "retire_jobs T w (j # js) n p =
    (if job_done j then
       (if n < job_bytes j then Panic
        else retire_jobs T (do_complete T w (signal j) (Inr ())) js (n - job_bytes j) True)
     else Ok (j # js, n, p, w))"

section \<open>Submission\<close>

text \<open>How the submission loop ends: the loop over the jobs goes on, the function returns, or the
  queue is poisoned.\<close>

datatype 'e flow = Continue | Return | Poison 'e

text \<open>The chunks of one job: at most \<open>length (chunks j) - next_chunk j\<close> iterations.\<close>

function submit_chunks :: "('c, 'o, 'r, 's, 'e, 'w) Transport \<Rightarrow> ('c, 'o, 'r, 's, 'e, 'w) io \<Rightarrow>
    ('c, 'o, 'r, 's) Job \<Rightarrow> usize \<Rightarrow> bool \<Rightarrow>
    'e flow \<times> ('c, 'o, 'r, 's) Job \<times> usize \<times> bool \<times> ('c, 'o, 'r, 's, 'e, 'w) io" where
  "submit_chunks T w j n p =
    (case get_at (chunks j) (next_chunk j) of
       None \<Rightarrow> (Continue, j, n, p, w)
     | Some c \<Rightarrow>
         if n = MAX_NATIVE_IN_FLIGHT \<or> n \<noteq> 0 \<and> requires_idle T c then (Return, j, n, p, w)
         else
           (case ready T (world w) c of
              (Inr False, w') \<Rightarrow> (Return, j, n, p, w \<lparr> world := w' \<rparr>)
            | (Inl e, w') \<Rightarrow> (Poison e, j, n, p, w \<lparr> world := w' \<rparr>)
            | (Inr True, w') \<Rightarrow>
                (case submit T w' (owner j) c of
                   (Inr r, w'') \<Rightarrow>
                     submit_chunks T \<lparr> world = w'', log = log w @ [Accepted (owner j) c] \<rparr>
                       (j \<lparr> receipts := receipts j @ [r], next_chunk := next_chunk j + 1 \<rparr>)
                       (n + 1) True
                 | (Inl DispatchBusy, w'') \<Rightarrow> (Return, j, n, p, w \<lparr> world := w'' \<rparr>)
                 | (Inl (DispatchFailed e), w'') \<Rightarrow> (Poison e, j, n, p, w \<lparr> world := w'' \<rparr>))))"
  by pat_completeness auto

termination
  by (relation "measure (\<lambda>(T, w, j, n, p). length (chunks j) - next_chunk j)") auto

fun submit_jobs :: "('c, 'o, 'r, 's, 'e, 'w) Transport \<Rightarrow> ('c, 'o, 'r, 's, 'e, 'w) io \<Rightarrow>
    ('c, 'o, 'r, 's) Job list \<Rightarrow> usize \<Rightarrow> bool \<Rightarrow>
    'e flow \<times> ('c, 'o, 'r, 's) Job list \<times> bool \<times> ('c, 'o, 'r, 's, 'e, 'w) io" where
  "submit_jobs T w [] n p = (Continue, [], p, w)"
| "submit_jobs T w (j # js) n p =
    (case submit_chunks T w j n p of
       (Continue, j', n', p', w') \<Rightarrow>
         (case submit_jobs T w' js n' p' of (f, js', p'', w'') \<Rightarrow> (f, j' # js', p'', w''))
     | (f, j', n', p', w') \<Rightarrow> (f, j' # js, p', w'))"

definition advance :: "('c, 'o, 'r, 's, 'e, 'w) Transport \<Rightarrow>
    ('c, 'o, 'r, 's, 'e) Scheduler \<Rightarrow> ('c, 'o, 'r, 's, 'e, 'w) io \<Rightarrow>
    (unit, bool \<times> ('c, 'o, 'r, 's, 'e) Scheduler \<times> ('c, 'o, 'r, 's, 'e, 'w) io) outcome" where
  "advance T s w =
    (case poll_jobs T w (jobs s) False of
       (Inl e, w1) \<Rightarrow> Ok (True, fail T s w1 e)
     | (Inr (js, p), w1) \<Rightarrow>
         andThen (retire_jobs T w1 js (bytes s) p) (\<lambda>(js1, n, p1, w2).
         case submit_jobs T w2 js1 (length (scheduler_receipts js1)) p1 of
           (Poison e, js2, p2, w3) \<Rightarrow> Ok (True, fail T (s \<lparr> jobs := js2, bytes := n \<rparr>) w3 e)
         | (_, js2, p2, w3) \<Rightarrow> Ok (p2, s \<lparr> jobs := js2, bytes := n \<rparr>, w3)))"


declare poll_receipts.simps [simp del] submit_chunks.simps [simp del]

lemma get_at_beyond [simp]: "length xs \<le> i \<Longrightarrow> get_at xs i = None"
  by simp

section \<open>Reading the log\<close>

fun accepted :: "('c, 'o, 'r, 's, 'e) event list \<Rightarrow> ('o \<times> 'c) list" where
  "accepted [] = []"
| "accepted (Accepted own c # es) = (own, c) # accepted es"
| "accepted (Retired r # es) = accepted es"
| "accepted (Completed sig res # es) = accepted es"

fun completions :: "('c, 'o, 'r, 's, 'e) event list \<Rightarrow> ('s \<times> ('e + unit)) list" where
  "completions [] = []"
| "completions (Accepted own c # es) = completions es"
| "completions (Retired r # es) = completions es"
| "completions (Completed sig res # es) = (sig, res) # completions es"

text \<open>The number of chunks in flight after a log that starts with \<open>n\<close> in flight.\<close>

fun in_flight :: "nat \<Rightarrow> ('c, 'o, 'r, 's, 'e) event list \<Rightarrow> nat" where
  "in_flight n [] = n"
| "in_flight n (Accepted own c # es) = in_flight (n + 1) es"
| "in_flight n (Retired r # es) = in_flight (n - 1) es"
| "in_flight n (Completed sig res # es) = in_flight n es"

text \<open>A log respects the window when every chunk is accepted with fewer than sixteen in flight, a
  chunk that requires an idle device with none in flight, and nothing retires twice.\<close>

fun windowed :: "('c, 'o, 'r, 's, 'e, 'w) Transport \<Rightarrow> nat \<Rightarrow> ('c, 'o, 'r, 's, 'e) event list \<Rightarrow> bool" where
  "windowed T n [] \<longleftrightarrow> True"
| "windowed T n (Accepted own c # es) \<longleftrightarrow>
    n < MAX_NATIVE_IN_FLIGHT \<and> (requires_idle T c \<longrightarrow> n = 0) \<and> windowed T (n + 1) es"
| "windowed T n (Retired r # es) \<longleftrightarrow> 0 < n \<and> windowed T (n - 1) es"
| "windowed T n (Completed sig res # es) \<longleftrightarrow> windowed T n es"

lemma accepted_append [simp]: "accepted (xs @ ys) = accepted xs @ accepted ys"
  by (induction xs rule: accepted.induct) auto

lemma completions_append [simp]: "completions (xs @ ys) = completions xs @ completions ys"
  by (induction xs rule: completions.induct) auto

lemma in_flight_append [simp]: "in_flight n (xs @ ys) = in_flight (in_flight n xs) ys"
  by (induction n xs rule: in_flight.induct) auto

lemma windowed_append [simp]:
  "windowed T n (xs @ ys) \<longleftrightarrow> windowed T n xs \<and> windowed T (in_flight n xs) ys"
  by (induction T n xs rule: windowed.induct) auto

lemma retired_log [simp]:
  "accepted (map Retired rs) = []" "completions (map Retired rs) = []"
  "in_flight n (map Retired rs) = n - length rs"
  "windowed T n (map Retired rs) \<longleftrightarrow> length rs \<le> n"
  by (induction rs arbitrary: n) auto

lemma completed_log [simp]:
  "accepted (map (\<lambda>j. Completed (f j) (g j)) js) = []"
  "completions (map (\<lambda>j. Completed (f j) (g j)) js) = map (\<lambda>j. (f j, g j)) js"
  "in_flight n (map (\<lambda>j. Completed (f j) (g j)) js) = n"
  "windowed T n (map (\<lambda>j. Completed (f j) (g j)) js)"
  by (induction js) auto

lemma accepted_log [simp]:
  "accepted (map (Accepted own) cs) = map (Pair own) cs" "completions (map (Accepted own) cs) = []"
  "in_flight n (map (Accepted own) cs) = n + length cs"
  by (induction cs arbitrary: n) auto

section \<open>The loops\<close>

lemma poll_receipts_retires:
  "poll_receipts T w rs i p = (res, w') \<Longrightarrow>
   \<exists>gone. log w' = log w @ map Retired gone \<and>
     (case res of
        Inl e \<Rightarrow> mset gone \<subseteq># mset rs
      | Inr (rs', p') \<Rightarrow> mset rs = mset rs' + mset gone \<and> p' = (p \<or> gone \<noteq> []) \<and> (gone = [] \<longrightarrow> rs' = rs))"
proof (induction T w rs i p arbitrary: res w' rule: poll_receipts.induct)
  case (1 T w rs i p)
  show ?case
  proof (cases "i < length rs")
    case False
    then have "get_at rs i = None" by simp
    with 1(3) show ?thesis by (auto simp: poll_receipts.simps [of T w rs i p] split: sum.splits)
  next
    case i: True
    obtain a v where a: "poll T (world w) (rs ! i) = (a, v)" by force
    have split: "mset rs = mset (take i rs @ drop (Suc i) rs) + {#rs ! i#}"
      using arg_cong [OF id_take_nth_drop [OF i], of mset] by simp
    consider (err) e where "a = Inl e" | (yes) "a = Inr True" | (no) "a = Inr False"
      by (cases a) auto
    then show ?thesis
    proof cases
      case err
      with 1(3) i a show ?thesis by (auto simp: poll_receipts.simps [of T w rs i p])
    next
      case no
      with 1(2) [of "rs ! i" a v False] 1(3) i a show ?thesis
        by (simp add: poll_receipts.simps [of T w rs i p])
    next
      case yes
      let ?rs = "take i rs @ drop (Suc i) rs"
      have "poll_receipts T \<lparr>world = v, log = log w @ [Retired (rs ! i)]\<rparr> ?rs i True = (res, w')"
        using 1(3) i a yes by (simp add: poll_receipts.simps [of T w rs i p])
      from 1(1) [OF _ a [symmetric] yes _ this] i
      obtain gone where g: "log w' = (log w @ [Retired (rs ! i)]) @ map Retired gone"
        and r: "case res of Inl e \<Rightarrow> mset gone \<subseteq># mset ?rs
          | Inr (rs', p') \<Rightarrow> mset ?rs = mset rs' + mset gone \<and> p' = (True \<or> gone \<noteq> []) \<and> (gone = [] \<longrightarrow> rs' = ?rs)"
        by auto
      show ?thesis
      proof (intro exI conjI)
        show "log w' = log w @ map Retired (rs ! i # gone)" using g by simp
        show "case res of Inl e \<Rightarrow> mset (rs ! i # gone) \<subseteq># mset rs
          | Inr (rs', p') \<Rightarrow> mset rs = mset rs' + mset (rs ! i # gone) \<and> p' = (p \<or> rs ! i # gone \<noteq> []) \<and>
              (rs ! i # gone = [] \<longrightarrow> rs' = rs)"
          using r unfolding split by (auto split: sum.splits)
      qed
    qed
  qed
qed


type_synonym ('s, 'o, 'c) admission = "'s \<times> 'o \<times> 'c list"

text \<open>The submission a job carries.\<close>

definition admission_of :: "('c, 'o, 'r, 's) Job \<Rightarrow> ('s, 'o, 'c) admission" where
  "admission_of j = (signal j, owner j, chunks j)"

text \<open>Two jobs that differ at most in their receipts.\<close>

definition same_job :: "('c, 'o, 'r, 's) Job \<Rightarrow> ('c, 'o, 'r, 's) Job \<Rightarrow> bool" where
  "same_job j j' \<longleftrightarrow> chunks j' = chunks j \<and> owner j' = owner j \<and> signal j' = signal j \<and>
    next_chunk j' = next_chunk j \<and> job_bytes j' = job_bytes j"

lemma poll_jobs_retires:
  "poll_jobs T w js p = (res, w') \<Longrightarrow>
   \<exists>gone. log w' = log w @ map Retired gone \<and>
     (case res of
        Inl e \<Rightarrow> mset gone \<subseteq># mset (scheduler_receipts js)
      | Inr (js', p') \<Rightarrow> list_all2 same_job js js' \<and> p' = (p \<or> gone \<noteq> []) \<and> (gone = [] \<longrightarrow> js' = js) \<and>
          mset (scheduler_receipts js) = mset (scheduler_receipts js') + mset gone)"
proof (induction js arbitrary: w p res w')
  case Nil
  then show ?case by (auto simp: scheduler_receipts_def)
next
  case (Cons j js)
  obtain a v where a: "poll_receipts T w (receipts j) 0 p = (a, v)" by force
  from poll_receipts_retires [OF this] obtain gone where
    g: "log v = log w @ map Retired gone" and
    r: "case a of Inl e \<Rightarrow> mset gone \<subseteq># mset (receipts j)
      | Inr (rs', p') \<Rightarrow> mset (receipts j) = mset rs' + mset gone \<and> p' = (p \<or> gone \<noteq> []) \<and>
          (gone = [] \<longrightarrow> rs' = receipts j)"
    by blast
  show ?case
  proof (cases a)
    case (Inl e)
    with r have "mset gone \<subseteq># mset (scheduler_receipts (j # js))"
      by (simp add: scheduler_receipts_def subset_mset.add_increasing2)
    with Inl Cons.prems a g show ?thesis by auto
  next
    case (Inr b)
    obtain rs q where b: "b = (rs, q)" by force
    obtain c u where c: "poll_jobs T v js q = (c, u)" by force
    from Cons.IH [OF this] obtain gone' where
      g': "log u = log v @ map Retired gone'" and
      r': "case c of Inl e \<Rightarrow> mset gone' \<subseteq># mset (scheduler_receipts js)
        | Inr (js', p') \<Rightarrow> list_all2 same_job js js' \<and> p' = (q \<or> gone' \<noteq> []) \<and> (gone' = [] \<longrightarrow> js' = js) \<and>
          mset (scheduler_receipts js) = mset (scheduler_receipts js') + mset gone'"
      by blast
    have w': "w' = u" and res: "res = (case c of Inl e \<Rightarrow> Inl e | Inr (js', p') \<Rightarrow> Inr (j \<lparr> receipts := rs \<rparr> # js', p'))"
      using Cons.prems a Inr b c by (auto split: sum.splits)
    show ?thesis
    proof (intro exI conjI)
      show "log w' = log w @ map Retired (gone @ gone')" using g g' w' by simp
      show "case res of Inl e \<Rightarrow> mset (gone @ gone') \<subseteq># mset (scheduler_receipts (j # js))
        | Inr (js', p') \<Rightarrow> list_all2 same_job (j # js) js' \<and> p' = (p \<or> gone @ gone' \<noteq> []) \<and>
            (gone @ gone' = [] \<longrightarrow> js' = j # js) \<and>
          mset (scheduler_receipts (j # js)) = mset (scheduler_receipts js') + mset (gone @ gone')"
        using r r' unfolding res Inr b
        by (auto simp: scheduler_receipts_def same_job_def subset_mset.add_increasing split: sum.splits)
    qed
  qed
qed

lemma retire_jobs_prefix:
  "retire_jobs T w js n p = Ok (js', n', p', w') \<Longrightarrow>
   \<exists>gone. js = gone @ js' \<and> list_all job_done gone \<and> n = n' + sum_list (map job_bytes gone) \<and>
     log w' = log w @ map (\<lambda>j. Completed (signal j) (Inr ())) gone \<and> p' = (p \<or> gone \<noteq> []) \<and>
     (js' = [] \<or> \<not> job_done (hd js'))"
proof (induction js arbitrary: w n p)
  case (Cons j js)
  show ?case
  proof (cases "job_done j")
    case True
    with Cons.prems have n: "job_bytes j \<le> n" and
      "retire_jobs T (do_complete T w (signal j) (Inr ())) js (n - job_bytes j) True = Ok (js', n', p', w')"
      by (auto split: if_splits)
    from Cons.IH [OF this(2)] obtain gone where
      "js = gone @ js'" "list_all job_done gone" "n - job_bytes j = n' + sum_list (map job_bytes gone)"
      "log w' = log (do_complete T w (signal j) (Inr ())) @ map (\<lambda>j. Completed (signal j) (Inr ())) gone"
      "p'" "js' = [] \<or> \<not> job_done (hd js')" by auto
    then show ?thesis
      using True n by (intro exI [of _ "j # gone"]) (auto simp: do_complete_def)
  qed (use Cons.prems in auto)
qed auto

lemma retire_jobs_no_panic:
  "sum_list (map job_bytes js) \<le> n \<Longrightarrow> retire_jobs T w js n p \<noteq> Panic"
  by (induction js arbitrary: w n p) auto

lemma retire_jobs_no_err: "retire_jobs T w js n p \<noteq> Err u"
  by (induction js arbitrary: w n p) auto

lemma retire_jobs_cases:
  assumes "retire_jobs T w js n p \<noteq> Panic"
  obtains js' n' p' w' where "retire_jobs T w js n p = Ok (js', n', p', w')"
  using assms retire_jobs_no_err [of T w js n p] by (cases "retire_jobs T w js n p") auto

lemma fail_jobs_log:
  "log (fail_jobs T e w js) = log w @ map (\<lambda>j. Completed (signal j) (Inl e)) js"
  by (induction js arbitrary: w) (auto simp: do_complete_def)


text \<open>What the submission loop of one job does: it accepts the next \<open>k\<close> chunks of the job, each
  inside the window.\<close>

lemma submit_chunks_accepts:
  assumes "submit_chunks T w j n p = (f, j', n', p', w')"
    and "next_chunk j \<le> length (chunks j)" and "n \<le> MAX_NATIVE_IN_FLIGHT"
  shows "\<exists>k rs. let cs = take k (drop (next_chunk j) (chunks j)) in
      length cs = k \<and> length rs = k \<and>
      j' = j \<lparr> receipts := receipts j @ rs, next_chunk := next_chunk j + k \<rparr> \<and>
      log w' = log w @ map (Accepted (owner j)) cs \<and> windowed T n (map (Accepted (owner j)) cs) \<and>
      n' = n + k \<and> n' \<le> MAX_NATIVE_IN_FLIGHT \<and> p' = (p \<or> k \<noteq> 0) \<and>
      (f = Continue \<longrightarrow> next_chunk j' = length (chunks j))"
  using assms
proof (induction T w j n p arbitrary: f j' n' p' w' rule: submit_chunks.induct)
  case (1 T w j n p)
  have stay: ?case if "j' = j" "n' = n" "p' = p" "log w' = log w"
    "f = Continue \<longrightarrow> next_chunk j = length (chunks j)"
    using that 1(4) by (intro exI [of _ 0] exI [of _ "[]"]) (simp add: Let_def)
  show ?case
  proof (cases "next_chunk j < length (chunks j)")
    case False
    with 1(2,3) show ?thesis
      by (intro stay) (auto simp: submit_chunks.simps [of T w j n p])
  next
    case lt: True
    let ?c = "chunks j ! next_chunk j"
    show ?thesis
    proof (cases "n = MAX_NATIVE_IN_FLIGHT \<or> n \<noteq> 0 \<and> requires_idle T ?c")
      case True
      with 1(2) lt show ?thesis by (intro stay) (auto simp: submit_chunks.simps [of T w j n p])
    next
      case free: False
      obtain a v where a: "ready T (world w) ?c = (a, v)" by force
      obtain b u where b: "submit T v (owner j) ?c = (b, u)" by force
      show ?thesis
      proof (cases "a = Inr True \<and> \<not> isl b")
        case False
        with 1(2) lt free a b show ?thesis
          by (intro stay)
            (auto simp: submit_chunks.simps [of T w j n p] split: sum.splits bool.splits DispatchError.splits)
      next
        case True
        then obtain r where r: "a = Inr True" "b = Inr r" by (cases b) auto
        let ?j = "j \<lparr> receipts := receipts j @ [r], next_chunk := next_chunk j + 1 \<rparr>"
        let ?w = "\<lparr> world = u, log = log w @ [Accepted (owner j) ?c] \<rparr>"
        have rec: "submit_chunks T ?w ?j (n + 1) True = (f, j', n', p', w')"
          using 1(2) lt free a b r by (auto simp: submit_chunks.simps [of T w j n p])
        from 1(1) [OF _ free a [symmetric] r(1) _ b [symmetric] r(2) rec] lt free 1(4)
        obtain k rs where k: "let cs = take k (drop (next_chunk ?j) (chunks ?j)) in
            length cs = k \<and> length rs = k \<and>
            j' = ?j \<lparr> receipts := receipts ?j @ rs, next_chunk := next_chunk ?j + k \<rparr> \<and>
            log w' = log ?w @ map (Accepted (owner ?j)) cs \<and> windowed T (n + 1) (map (Accepted (owner ?j)) cs) \<and>
            n' = (n + 1) + k \<and> n' \<le> MAX_NATIVE_IN_FLIGHT \<and> p' = (True \<or> k \<noteq> 0) \<and>
            (f = Continue \<longrightarrow> next_chunk j' = length (chunks ?j))"
          by auto
        have cons: "drop (next_chunk j) (chunks j) = ?c # drop (Suc (next_chunk j)) (chunks j)"
          using lt by (simp add: Cons_nth_drop_Suc)
        show ?thesis
          using k lt free 1(4)
          by (intro exI [of _ "Suc k"] exI [of _ "r # rs"]) (auto simp: Let_def cons)
      qed
    qed
  qed
qed


text \<open>The chunks of a list of jobs that are not submitted yet, in queue order.\<close>

definition pending :: "('c, 'o, 'r, 's) Job list \<Rightarrow> ('o \<times> 'c) list" where
  "pending js = concat (map (\<lambda>j. map (Pair (owner j)) (drop (next_chunk j) (chunks j))) js)"

definition job_ok :: "('c, 'o, 'r, 's) Job \<Rightarrow> bool" where
  "job_ok j \<longleftrightarrow> next_chunk j \<le> length (chunks j)"

text \<open>Two jobs that carry the same work.\<close>

definition same_work :: "('c, 'o, 'r, 's) Job \<Rightarrow> ('c, 'o, 'r, 's) Job \<Rightarrow> bool" where
  "same_work j j' \<longleftrightarrow> chunks j' = chunks j \<and> owner j' = owner j \<and> signal j' = signal j \<and>
    job_bytes j' = job_bytes j"

lemma same_work_refl [simp]: "same_work j j"
  by (simp add: same_work_def)

lemma submit_jobs_accepts:
  assumes "submit_jobs T w js n p = (f, js', p', w')"
    and "list_all job_ok js" and "n \<le> MAX_NATIVE_IN_FLIGHT"
  shows "\<exists>es. log w' = log w @ es \<and> completions es = [] \<and> windowed T n es \<and>
      accepted es @ pending js' = pending js \<and> list_all2 same_work js js' \<and> list_all job_ok js' \<and>
      length (scheduler_receipts js') = length (scheduler_receipts js) + length (accepted es) \<and>
      in_flight n es = n + length (accepted es) \<and> in_flight n es \<le> MAX_NATIVE_IN_FLIGHT \<and>
      p' = (p \<or> es \<noteq> []) \<and> (es = [] \<longrightarrow> js' = js)"
  using assms
proof (induction js arbitrary: w n p f js' p' w')
  case (Cons j js)
  obtain g j1 n1 p1 w1 where sub: "submit_chunks T w j n p = (g, j1, n1, p1, w1)"
    by (metis prod_cases5)
  from submit_chunks_accepts [OF this] Cons.prems(2,3) obtain k rs where
    k: "let cs = take k (drop (next_chunk j) (chunks j)) in
      length cs = k \<and> length rs = k \<and>
      j1 = j \<lparr> receipts := receipts j @ rs, next_chunk := next_chunk j + k \<rparr> \<and>
      log w1 = log w @ map (Accepted (owner j)) cs \<and> windowed T n (map (Accepted (owner j)) cs) \<and>
      n1 = n + k \<and> n1 \<le> MAX_NATIVE_IN_FLIGHT \<and> p1 = (p \<or> k \<noteq> 0) \<and>
      (g = Continue \<longrightarrow> next_chunk j1 = length (chunks j))"
    by (auto simp: job_ok_def)
  define cs where "cs = take k (drop (next_chunk j) (chunks j))"
  note k = k [folded cs_def, unfolded Let_def]
  have split: "drop (next_chunk j) (chunks j) = cs @ drop (next_chunk j1) (chunks j1)"
    unfolding cs_def using k by (simp add: add.commute flip: drop_drop)
  have ok1: "job_ok j1"
  proof -
    have "k \<le> length (chunks j) - next_chunk j" using k unfolding cs_def by (metis length_drop length_take min.absorb_iff2 min.commute)
    then show ?thesis using k Cons.prems(2) by (auto simp: job_ok_def)
  qed
  have work1: "same_work j j1" using k by (simp add: same_work_def)
  have own1: "owner j1 = owner j" using k by simp
  have pend: "pending (j # xs) = map (Pair (owner j)) cs @ pending (j1 # xs)" for xs
    using split own1 by (simp add: pending_def)
  have rec: "length (scheduler_receipts (j1 # xs)) = length (scheduler_receipts (j # xs)) + k" for xs
    using k by (simp add: scheduler_receipts_def)
  have len: "length cs = k" and log1: "log w1 = log w @ map (Accepted (owner j)) cs"
    and win: "windowed T n (map (Accepted (owner j)) cs)" and n1: "n1 = n + k" "n1 \<le> MAX_NATIVE_IN_FLIGHT"
    and p1: "p1 = (p \<or> k \<noteq> 0)" and same: "k = 0 \<longrightarrow> j1 = j"
    and all: "g = Continue \<longrightarrow> drop (next_chunk j1) (chunks j1) = []"
    using k by auto
  show ?case
  proof (cases "g = Continue")
    case False
    then have res: "f = g" "js' = j1 # js" "p' = p1" "w' = w1"
      using Cons.prems(1) sub by (cases g; auto)+
    show ?thesis
      unfolding res
      using len log1 win n1 p1 same ok1 work1 Cons.prems(2)
      by (intro exI [of _ "map (Accepted (owner j)) cs"]) (auto simp: pend rec list.rel_refl)
  next
    case True
    obtain h js1 p2 w2 where rest: "submit_jobs T w1 js n1 p1 = (h, js1, p2, w2)"
      by (metis prod_cases4)
    have res: "f = h" "js' = j1 # js1" "p' = p2" "w' = w2"
      using Cons.prems(1) sub True rest by auto
    from Cons.IH [OF rest] Cons.prems(2) k obtain es where es:
      "log w2 = log w1 @ es" "completions es = []" "windowed T n1 es"
      "accepted es @ pending js1 = pending js" "list_all2 same_work js js1" "list_all job_ok js1"
      "length (scheduler_receipts js1) = length (scheduler_receipts js) + length (accepted es)"
      "in_flight n1 es = n1 + length (accepted es)" "in_flight n1 es \<le> MAX_NATIVE_IN_FLIGHT"
      "p2 = (p1 \<or> es \<noteq> [])" "es = [] \<longrightarrow> js1 = js"
      by auto
    have fin: "pending (j1 # xs) = pending xs" for xs
      using all True by (simp add: pending_def)
    have rec': "length (scheduler_receipts (j1 # js1)) =
        length (scheduler_receipts (j # js)) + k + length (accepted es)"
      using rec [of js1] es(7) by (simp add: scheduler_receipts_def)
    show ?thesis
      unfolding res
      using len log1 win n1 p1 same ok1 work1 es
      by (intro exI [of _ "map (Accepted (owner j)) cs @ es"]) (auto simp: pend rec' fin)
  qed
qed (auto simp: pending_def scheduler_receipts_def)


section \<open>One call of advance\<close>

lemma same_jobs:
  assumes "list_all2 same_job js js'"
  shows "pending js' = pending js" "map admission_of js' = map admission_of js"
    "map job_bytes js' = map job_bytes js" "list_all job_ok js' = list_all job_ok js"
  using assms by (induction rule: list_all2_induct) (auto simp: same_job_def pending_def job_ok_def admission_of_def)

lemma same_works:
  assumes "list_all2 same_work js js'"
  shows "map admission_of js' = map admission_of js" "map job_bytes js' = map job_bytes js" "length js' = length js"
  using assms by (induction rule: list_all2_induct) (auto simp: same_work_def admission_of_def)

lemma pending_append [simp]: "pending (xs @ ys) = pending xs @ pending ys"
  by (simp add: pending_def)

lemma scheduler_receipts_append [simp]:
  "scheduler_receipts (xs @ ys) = scheduler_receipts xs @ scheduler_receipts ys"
  by (simp add: scheduler_receipts_def)

lemma jobs_done [simp]:
  assumes "list_all job_done js"
  shows "pending js = []" "scheduler_receipts js = []"
  using assms by (induction js) (auto simp: job_done_def pending_def scheduler_receipts_def)

text \<open>The invariant of the scheduler state.\<close>

definition sched_ok :: "('c, 'o, 'r, 's, 'e) Scheduler \<Rightarrow> bool" where
  "sched_ok s \<longleftrightarrow> list_all job_ok (jobs s) \<and> bytes s = sum_list (map job_bytes (jobs s)) \<and>
    bytes s \<le> MAX_PENDING_BYTES \<and> length (jobs s) \<le> MAX_SUBMISSIONS \<and>
    length (scheduler_receipts (jobs s)) \<le> MAX_NATIVE_IN_FLIGHT \<and>
    (failure s \<noteq> None \<longrightarrow> jobs s = [])"

text \<open>What one call does to the log: with \<open>new\<close> the events it adds, the first \<open>k\<close> jobs complete.\<close>

definition advanced :: "('c, 'o, 'r, 's, 'e, 'w) Transport \<Rightarrow> ('c, 'o, 'r, 's, 'e) Scheduler \<Rightarrow>
    bool \<Rightarrow> ('c, 'o, 'r, 's, 'e) Scheduler \<Rightarrow> ('c, 'o, 'r, 's, 'e) event list \<Rightarrow> nat \<Rightarrow> bool" where
  "advanced T s p s' new k \<longleftrightarrow>
    windowed T (length (scheduler_receipts (jobs s))) new \<and>
    (failure s' = failure s \<and> k + length (jobs s') = length (jobs s) \<and>
       map admission_of (jobs s') = map admission_of (drop k (jobs s)) \<and>
       completions new = map (\<lambda>j. (signal j, Inr ())) (take k (jobs s)) \<and>
       accepted new @ pending (jobs s') = pending (jobs s) \<and>
       in_flight (length (scheduler_receipts (jobs s))) new = length (scheduler_receipts (jobs s')) \<and>
       p = (new \<noteq> []) \<and> (new = [] \<longrightarrow> s' = s)
     \<or> p \<and> k \<le> length (jobs s) \<and> jobs s' = [] \<and>
       (\<exists>left :: ('c, 'o, 'r, 's) Job list. map admission_of left = map admission_of (drop k (jobs s)) \<and>
          accepted new @ pending left = pending (jobs s)) \<and>
       (\<exists>e. failure s' = Some e \<and>
          completions new = map (\<lambda>j. (signal j, Inr ())) (take k (jobs s)) @
            map (\<lambda>j. (signal j, Inl e)) (drop k (jobs s))))"

lemma map_signal_eq:
  assumes "map admission_of js = map admission_of js'"
  shows "map (\<lambda>j. (signal j, x)) js = map (\<lambda>j. (signal j, x)) js'"
  using arg_cong [OF assms, of "map (\<lambda>a. (fst a, x))"] by (simp add: comp_def admission_of_def)

lemma fail_ok: "sched_ok (fst (fail T s w e))"
  by (simp add: fail_def sched_ok_def scheduler_receipts_def)

lemma advance_poll_fails:
  assumes ok: "sched_ok s" and poll: "poll_jobs T w (jobs s) False = (Inl e, w1)"
  shows "\<exists>p s' w' new k. advance T s w = Ok (p, s', w') \<and> log w' = log w @ new \<and>
    advanced T s p s' new k \<and> sched_ok s'"
proof -
  from poll_jobs_retires [OF poll, unfolded sum.case] obtain gone where
    g: "log w1 = log w @ map Retired gone" "mset gone \<subseteq># mset (scheduler_receipts (jobs s))"
    by (elim exE conjE)
  have le: "length gone \<le> length (scheduler_receipts (jobs s))"
    using size_mset_mono [OF g(2)] by simp
  let ?new = "map Retired gone @ map (\<lambda>j. Completed (signal j) (Inl e)) (jobs s)"
  have "advance T s w = Ok (True, fst (fail T s w1 e), snd (fail T s w1 e))"
    using poll by (simp add: advance_def)
  moreover have "log (snd (fail T s w1 e)) = log w @ ?new"
    by (simp add: fail_def fail_jobs_log g)
  moreover have "advanced T s True (fst (fail T s w1 e)) ?new 0"
    using le by (auto simp: advanced_def fail_def)
  ultimately show ?thesis using fail_ok [of T s w1 e] by (intro exI conjI)
qed

lemma advance_advances:
  fixes T :: "('c, 'o, 'r, 's, 'e, 'w) Transport"
  assumes ok: "sched_ok s"
  shows "\<exists>p s' w' new k. advance T s w = Ok (p, s', w') \<and> log w' = log w @ new \<and>
    advanced T s p s' new k \<and> sched_ok s'"
proof (cases "\<exists>e w1. poll_jobs T w (jobs s) False = (Inl e, w1)")
  case True
  then show ?thesis using advance_poll_fails [OF ok] by blast
next
  case False
  then obtain js p w1 where poll: "poll_jobs T w (jobs s) False = (Inr (js, p), w1)"
    by (metis obj_sumE surj_pair)
  let ?n = "length (scheduler_receipts (jobs s))"
  from poll_jobs_retires [OF poll, unfolded sum.case prod.case] obtain gone where
    g: "log w1 = log w @ map Retired gone" "list_all2 same_job (jobs s) js" "p = (False \<or> gone \<noteq> [])"
      "gone = [] \<longrightarrow> js = jobs s"
      "mset (scheduler_receipts (jobs s)) = mset (scheduler_receipts js) + mset gone"
    by (elim exE conjE)
  note same = same_jobs [OF g(2)]
  have n: "?n = length (scheduler_receipts js) + length gone"
    using arg_cong [OF g(5), of size] by simp
  have "retire_jobs T w1 js (bytes s) p \<noteq> Panic"
    using ok same(3) by (intro retire_jobs_no_panic) (simp add: sched_ok_def)
  then obtain js1 m p1 w2 where retire: "retire_jobs T w1 js (bytes s) p = Ok (js1, m, p1, w2)"
    by (rule retire_jobs_cases)
  from retire_jobs_prefix [OF retire] obtain fin where
    f: "js = fin @ js1" "list_all job_done fin" "bytes s = m + sum_list (map job_bytes fin)"
      "log w2 = log w1 @ map (\<lambda>j. Completed (signal j) (Inr ())) fin" "p1 = (p \<or> fin \<noteq> [])"
    by blast
  let ?k = "length fin"
  obtain h js2 p2 w3 where sub: "submit_jobs T w2 js1 (length (scheduler_receipts js1)) p1 = (h, js2, p2, w3)"
    by (cases "submit_jobs T w2 js1 (length (scheduler_receipts js1)) p1")
  have r1: "length (scheduler_receipts js1) = length (scheduler_receipts js)" using f by simp
  have ok1: "list_all job_ok js1" using ok same(4) f(1) by (simp add: sched_ok_def)
  have le1: "length (scheduler_receipts js1) \<le> MAX_NATIVE_IN_FLIGHT"
    using ok n r1 by (simp add: sched_ok_def)
  from submit_jobs_accepts [OF sub ok1 le1] obtain es where
    e: "log w3 = log w2 @ es" "completions es = []" "windowed T (length (scheduler_receipts js1)) es"
      "accepted es @ pending js2 = pending js1" "list_all2 same_work js1 js2" "list_all job_ok js2"
      "length (scheduler_receipts js2) = length (scheduler_receipts js1) + length (accepted es)"
      "in_flight (length (scheduler_receipts js1)) es = length (scheduler_receipts js1) + length (accepted es)"
      "in_flight (length (scheduler_receipts js1)) es \<le> MAX_NATIVE_IN_FLIGHT"
      "p2 = (p1 \<or> es \<noteq> [])" "es = [] \<longrightarrow> js2 = js1"
    by blast
  note work = same_works [OF e(5)]
  let ?new = "map Retired gone @ map (\<lambda>j. Completed (signal j) (Inr ())) fin @ es"
  have log3: "log w3 = log w @ ?new" using g(1) f(4) e(1) by simp
  have "map admission_of fin @ map admission_of js1 = map admission_of (jobs s)"
    using same(2) f(1) by simp
  then have sig: "map admission_of fin = map admission_of (take ?k (jobs s))"
    "map admission_of js1 = map admission_of (drop ?k (jobs s))"
    by (simp_all add: append_eq_conv_conj take_map drop_map)
  have fins: "map (\<lambda>j. (signal j, x)) fin = map (\<lambda>j. (signal j, x)) (take ?k (jobs s))" for x :: "'e + unit"
    by (rule map_signal_eq [OF sig(1)])
  have len: "?k + length js1 = length (jobs s)" using g(2) f(1) by (auto dest: list_all2_lengthD)
  have pend: "accepted es @ pending js2 = pending (jobs s)" using e(4) f same(1) by simp
  have win: "windowed T ?n ?new" using e(3) n r1 by simp
  show ?thesis
  proof (cases "\<exists>x. h = Poison x")
    case True
    then obtain x where x: "h = Poison x" ..
    let ?s = "s \<lparr> jobs := js2, bytes := m \<rparr>"
    let ?all = "?new @ map (\<lambda>j. Completed (signal j) (Inl x)) js2"
    have rest: "map (\<lambda>j. (signal j, y)) js2 = map (\<lambda>j. (signal j, y)) (drop ?k (jobs s))" for y :: "'e + unit"
      using work(1) sig(2) by (intro map_signal_eq) simp
    have "advance T s w = Ok (True, fst (fail T ?s w3 x), snd (fail T ?s w3 x))"
      using poll retire sub x by (simp add: advance_def)
    moreover have "log (snd (fail T ?s w3 x)) = log w @ ?all"
      by (simp add: fail_def fail_jobs_log log3)
    moreover have "\<exists>left :: ('c, 'o, 'r, 's) Job list. map admission_of left = map admission_of (drop ?k (jobs s)) \<and>
        accepted ?all @ pending left = pending (jobs s)"
      using pend work(1) sig(2) by (intro exI [of _ js2]) simp
    then have "advanced T s True (fst (fail T ?s w3 x)) ?all ?k"
      using win len e(2) fins rest by (simp add: advanced_def fail_def)
    ultimately show ?thesis using fail_ok [of T ?s w3 x] by (intro exI conjI)
  next
    case False
    let ?s = "s \<lparr> jobs := js2, bytes := m \<rparr>"
    have "advance T s w = Ok (p2, ?s, w3)"
      using poll retire sub False by (cases h) (simp_all add: advance_def)
    moreover have "advanced T s p2 ?s ?new ?k"
    proof -
      have "p2 = (?new \<noteq> [])" using e(10) f(5) g(3) by auto
      moreover have "?new = [] \<longrightarrow> ?s = s" using e(11) f(1,3) g(4) by auto
      moreover have "in_flight ?n ?new = length (scheduler_receipts js2)" using n r1 e(7,8) by simp
      moreover have "map admission_of js2 = map admission_of (drop ?k (jobs s))" using work(1) sig(2) by simp
      ultimately show ?thesis
        using win len work(3) fins e(2) pend by (simp add: advanced_def)
    qed
    moreover have "sched_ok ?s"
    proof -
      have "bytes s = sum_list (map job_bytes fin) + sum_list (map job_bytes js1)"
        using ok same(3) f(1) by (simp add: sched_ok_def flip: same(3))
      then have "m = sum_list (map job_bytes js2)" "m \<le> bytes s" using f(3) work(2) by simp_all
      moreover have "failure s \<noteq> None \<longrightarrow> js2 = []"
        using ok len work(3) by (auto simp: sched_ok_def)
      ultimately show ?thesis
        using ok e(6,7,8,9) len work(3) by (simp add: sched_ok_def)
    qed
    ultimately show ?thesis using log3 by (intro exI conjI)
  qed
qed


section \<open>Runs\<close>

text \<open>The runs of the scheduler under its callers: admissions, calls of \<open>advance\<close> and \<open>fail\<close> by the
  worker, and changes of the world by the device in between. The list records the signal, owner and
  chunks of every admitted submission.\<close>

inductive sched_run :: "('c, 'o, 'r, 's, 'e, 'w) Transport \<Rightarrow> ('s, 'o, 'c) admission list \<Rightarrow>
    ('c, 'o, 'r, 's, 'e) Scheduler \<Rightarrow> ('c, 'o, 'r, 's, 'e, 'w) io \<Rightarrow> bool" for T where
  run_new: "sched_run T [] scheduler_new \<lparr> world = v, log = [] \<rparr>"
| run_enqueue: "sched_run T adm s w \<Longrightarrow> enqueue T reserve s cs own sig = Ok s' \<Longrightarrow>
    sched_run T (adm @ [(sig, own, cs)]) s' w"
| run_advance: "sched_run T adm s w \<Longrightarrow> advance T s w = Ok (p, s', w') \<Longrightarrow> sched_run T adm s' w'"
| run_fail: "sched_run T adm s w \<Longrightarrow> fail T s w e = (s', w') \<Longrightarrow> sched_run T adm s' w'"
| run_device: "sched_run T adm s w \<Longrightarrow> sched_run T adm s (w \<lparr> world := v \<rparr>)"

definition submitted_work :: "('s, 'o, 'c) admission list \<Rightarrow> ('o \<times> 'c) list" where
  "submitted_work adm = concat (map (\<lambda>(sig, own, cs). map (Pair own) cs) adm)"

text \<open>The outcome of a run: the first \<open>k\<close> submissions succeeded, and all their chunks had been
  accepted; the others are still queued, or all failed when the queue did.\<close>

definition completed_in_order :: "('s, 'o, 'c) admission list \<Rightarrow> ('c, 'o, 'r, 's, 'e) Scheduler \<Rightarrow>
    ('c, 'o, 'r, 's, 'e) event list \<Rightarrow> bool" where
  "completed_in_order adm s es \<longleftrightarrow> (\<exists>k \<le> length adm.
    prefix (submitted_work (take k adm)) (accepted es) \<and>
    (if failure s = None
     then completions es = map (\<lambda>a. (fst a, Inr ())) (take k adm) \<and> map admission_of (jobs s) = drop k adm
     else \<exists>e. completions es =
       map (\<lambda>a. (fst a, Inr ())) (take k adm) @ map (\<lambda>a. (fst a, Inl e)) (drop k adm)))"

definition run_inv :: "('c, 'o, 'r, 's, 'e, 'w) Transport \<Rightarrow> ('s, 'o, 'c) admission list \<Rightarrow>
    ('c, 'o, 'r, 's, 'e) Scheduler \<Rightarrow> ('c, 'o, 'r, 's, 'e, 'w) io \<Rightarrow> bool" where
  "run_inv T adm s w \<longleftrightarrow> sched_ok s \<and> windowed T 0 (log w) \<and>
    prefix (accepted (log w)) (submitted_work adm) \<and>
    (failure s = None \<longrightarrow> in_flight 0 (log w) = length (scheduler_receipts (jobs s)) \<and>
       accepted (log w) @ pending (jobs s) = submitted_work adm) \<and>
    completed_in_order adm s (log w)"

lemma total_bytes_sum: "total_bytes sz n cs = Some m \<Longrightarrow> m = n + sum_list (map sz cs)"
proof (induction cs arbitrary: n)
  case (Cons c cs)
  then have "total_bytes sz (n + sz c) cs = Some m"
    by (simp add: usize_checked_add_def split: if_splits)
  from Cons.IH [OF this] show ?case by simp
qed simp

lemma enqueue_Ok:
  assumes "enqueue T reserve s cs own sig = Ok s'"
  obtains n where "failure s = None" "n = sum_list (map (chunk_bytes T) cs)"
    "length (jobs s) \<noteq> MAX_SUBMISSIONS" "bytes s + n \<le> MAX_PENDING_BYTES"
    "s' = s \<lparr> jobs := jobs s @ [\<lparr> chunks = cs, owner = own, signal = sig, next_chunk = 0,
                    receipts = [], job_bytes = n \<rparr>], bytes := bytes s + n \<rparr>"
  using assms that
  by (auto simp: enqueue_def outcome_simps MAX_PENDING_BYTES_def dest!: total_bytes_sum
      split: option.splits if_splits)

lemma pending_le_work: "length (pending js) \<le> length (submitted_work (map admission_of js))"
  by (induction js) (auto simp: pending_def submitted_work_def admission_of_def)

lemma done_prefix:
  assumes acc: "acc @ pending js = submitted_work adm" and left: "map admission_of js = drop k adm"
  shows "prefix (submitted_work (take k adm)) acc"
proof -
  have "submitted_work adm = submitted_work (take k adm) @ submitted_work (drop k adm)"
    by (simp add: submitted_work_def flip: concat_append map_append)
  then have eq: "acc @ pending js = submitted_work (take k adm) @ submitted_work (drop k adm)"
    using acc by simp
  have "length (pending js) \<le> length (submitted_work (drop k adm))"
    using pending_le_work [of js] left by simp
  then have "length (submitted_work (take k adm)) \<le> length acc"
    using arg_cong [OF eq, of length] by simp
  moreover have "prefix acc (acc @ pending js)" "prefix (submitted_work (take k adm)) (acc @ pending js)"
    by (simp, simp add: eq)
  ultimately show ?thesis by (meson prefix_length_prefix)
qed

lemma run_inv_enqueue:
  assumes inv: "run_inv T adm s w" and enq: "enqueue T reserve s cs own sig = Ok s'"
  shows "run_inv T (adm @ [(sig, own, cs)]) s' w"
proof -
  from enq obtain n where n: "failure s = None" "n = sum_list (map (chunk_bytes T) cs)"
    "length (jobs s) \<noteq> MAX_SUBMISSIONS" "bytes s + n \<le> MAX_PENDING_BYTES"
    "s' = s \<lparr> jobs := jobs s @ [\<lparr> chunks = cs, owner = own, signal = sig, next_chunk = 0,
                    receipts = [], job_bytes = n \<rparr>], bytes := bytes s + n \<rparr>"
    by (rule enqueue_Ok)
  from inv n(1) obtain k where k: "k \<le> length adm"
    "completions (log w) = map (\<lambda>a. (fst a, Inr ())) (take k adm)" "map admission_of (jobs s) = drop k adm"
    "prefix (submitted_work (take k adm)) (accepted (log w))"
    by (auto simp: run_inv_def completed_in_order_def)
  have "completed_in_order (adm @ [(sig, own, cs)]) s' (log w)"
    unfolding completed_in_order_def using k n(1,5) by (intro exI [of _ k]) (simp add: admission_of_def)
  moreover have "sched_ok s'"
    using inv n by (auto simp: run_inv_def sched_ok_def job_ok_def scheduler_receipts_def)
  ultimately show ?thesis
    using inv n(1,5)
    by (auto simp: run_inv_def submitted_work_def pending_def scheduler_receipts_def prefix_def)
qed

lemma advance_idle: "jobs s = [] \<Longrightarrow> advance T s w = Ok (False, s, w)"
  by (simp add: advance_def)

lemma run_inv_fail:
  assumes inv: "run_inv T adm s w"
  shows "run_inv T adm (fst (fail T s w e)) (snd (fail T s w e))"
proof (cases "failure s")
  case None
  from inv None obtain k where k: "k \<le> length adm"
    "completions (log w) = map (\<lambda>a. (fst a, Inr ())) (take k adm)" "map admission_of (jobs s) = drop k adm"
    "prefix (submitted_work (take k adm)) (accepted (log w))"
    by (auto simp: run_inv_def completed_in_order_def)
  have "map (\<lambda>j. (signal j, Inl e)) (jobs s) = map (\<lambda>a. (fst a, Inl e)) (drop k adm)"
    by (simp add: admission_of_def comp_def flip: k(3))
  then have "completed_in_order adm (fst (fail T s w e)) (log (snd (fail T s w e)))"
    unfolding completed_in_order_def using k
    by (intro exI [of _ k]) (auto simp: fail_def fail_jobs_log)
  then show ?thesis
    using inv fail_ok [of T s w e] by (auto simp: run_inv_def fail_def fail_jobs_log)
next
  case (Some x)
  then show ?thesis
    using inv fail_ok [of T s w e]
    by (auto simp: run_inv_def fail_def sched_ok_def completed_in_order_def)
qed


lemma run_inv_advance:
  fixes T :: "('c, 'o, 'r, 's, 'e, 'w) Transport"
  assumes inv: "run_inv T adm s w" and adv: "advance T s w = Ok (p, s', w')"
  shows "run_inv T adm s' w'"
proof (cases "failure s")
  case (Some x)
  with inv have "jobs s = []" by (simp add: run_inv_def sched_ok_def)
  from advance_idle [OF this, of T w] adv inv show ?thesis by simp
next
  case None
  have ok: "sched_ok s" using inv by (simp add: run_inv_def)
  from advance_advances [OF ok, of T w] adv obtain new k where
    new: "log w' = log w @ new" "advanced T s p s' new k" "sched_ok s'" by auto
  from inv None obtain l where l: "l \<le> length adm"
    "completions (log w) = map (\<lambda>a. (fst a, Inr ())) (take l adm)" "map admission_of (jobs s) = drop l adm"
    "prefix (submitted_work (take l adm)) (accepted (log w))"
    by (auto simp: run_inv_def completed_in_order_def)
  have flight: "in_flight 0 (log w) = length (scheduler_receipts (jobs s))"
    and work: "accepted (log w) @ pending (jobs s) = submitted_work adm"
    and win: "windowed T 0 (log w)"
    using inv None by (auto simp: run_inv_def)
  have win': "windowed T 0 (log w')" using new(1,2) flight win by (auto simp: advanced_def)
  have len: "length (jobs s) = length adm - l" using arg_cong [OF l(3), of length] by simp
  have pair: "map (\<lambda>j. (signal j, x)) (jobs s) = map (\<lambda>a. (fst a, x)) (drop l adm)" for x :: "'e + unit"
    by (simp add: admission_of_def comp_def flip: l(3))
  have oks: "map (\<lambda>j. (signal j, Inr () :: 'e + unit)) (take k (jobs s)) = map (\<lambda>a. (fst a, Inr ())) (take k (drop l adm))"
    for k using pair [of "Inr ()"] by (simp flip: take_map)
  have errs: "map (\<lambda>j. (signal j, Inl e :: 'e + unit)) (drop k (jobs s)) = map (\<lambda>a. (fst a, Inl e)) (drop (l + k) adm)"
    for k and e :: 'e
    using arg_cong [OF pair [of "Inl e"], of "drop k"] by (simp add: drop_map add.commute)
  have prefix_ok: "map (\<lambda>a. (fst a, Inr ())) (take l adm) @ map (\<lambda>a. (fst a, Inr ())) (take k (drop l adm)) =
      map (\<lambda>a. (fst a, Inr () :: 'e + unit)) (take (l + k) adm)"
    by (simp add: take_add)
  consider (go) "failure s' = None" "k + length (jobs s') = length (jobs s)"
      "map admission_of (jobs s') = map admission_of (drop k (jobs s))"
      "completions new = map (\<lambda>j. (signal j, Inr ())) (take k (jobs s))"
      "accepted new @ pending (jobs s') = pending (jobs s)"
      "in_flight (length (scheduler_receipts (jobs s))) new = length (scheduler_receipts (jobs s'))"
    | (stop) e and left :: "('c, 'o, 'r, 's) Job list" where "k \<le> length (jobs s)" "map admission_of left = map admission_of (drop k (jobs s))"
      "accepted new @ pending left = pending (jobs s)"
      "failure s' = Some e"
      "completions new = map (\<lambda>j. (signal j, Inr ())) (take k (jobs s)) @
            map (\<lambda>j. (signal j, Inl e)) (drop k (jobs s))"
    using new(2) None by (auto simp: advanced_def)
  then show ?thesis
  proof cases
    case go
    have "l + k \<le> length adm" using go(2) len l(1) by linarith
    moreover have "completions (log w') = map (\<lambda>a. (fst a, Inr ())) (take (l + k) adm)"
      using new(1) l(2) go(4) by (simp add: oks prefix_ok)
    moreover have left: "map admission_of (jobs s') = drop (l + k) adm"
      using go(3) l(3) by (simp add: add.commute drop_map [symmetric])
    moreover have acc: "accepted (log w') @ pending (jobs s') = submitted_work adm"
      using new(1) go(5) work by simp
    moreover note done_prefix [OF acc left]
    ultimately have "completed_in_order adm s' (log w')"
      unfolding completed_in_order_def using go(1) by (intro exI [of _ "l + k"]) simp
    then show ?thesis
      using new(1,3) win' go(6) flight acc prefixI [OF acc [symmetric]] by (simp add: run_inv_def)
  next
    case stop
    have "l + k \<le> length adm" using stop(1) len l(1) by simp
    moreover have "completions (log w') = map (\<lambda>a. (fst a, Inr ())) (take (l + k) adm) @
        map (\<lambda>a. (fst a, Inl e)) (drop (l + k) adm)"
      using new(1) l(2) stop(5) by (simp add: oks errs) (simp flip: prefix_ok)
    moreover have rest: "map admission_of left = drop (l + k) adm"
      using stop(2) l(3) by (simp add: add.commute drop_map [symmetric])
    moreover have acc: "accepted (log w') @ pending left = submitted_work adm"
      using new(1) stop(3) work by simp
    moreover note done_prefix [OF acc rest]
    ultimately have "completed_in_order adm s' (log w')"
      unfolding completed_in_order_def using stop(4) by (intro exI [of _ "l + k"]) auto
    moreover have "prefix (accepted (log w')) (submitted_work adm)"
      by (rule prefixI [OF acc [symmetric]])
    ultimately show ?thesis
      using new(3) win' stop(4) by (simp add: run_inv_def)
  qed
qed

lemma sched_run_inv: "sched_run T adm s w \<Longrightarrow> run_inv T adm s w"
proof (induction rule: sched_run.induct)
  case (run_new v)
  show ?case
    by (simp add: run_inv_def sched_ok_def scheduler_new_def scheduler_receipts_def pending_def
        submitted_work_def completed_in_order_def)
next
  case (run_enqueue adm s w reserve cs own sig s')
  then show ?case by (blast intro: run_inv_enqueue)
next
  case (run_advance adm s w p s' w')
  then show ?case by (blast intro: run_inv_advance)
next
  case (run_fail adm s w e s' w')
  then show ?case using run_inv_fail [of T adm s w e] by simp
next
  case (run_device adm s w v)
  then show ?case by (simp add: run_inv_def)
qed


text \<open>C5. Along every run of the scheduler the chunks accepted by the device are the admitted chunks
  in order of admission, without a gap or a repetition: they are a prefix of the admitted work, and
  while nothing failed the rest is exactly what is still queued. Signals complete in order of
  admission, each at most once: a prefix of the submissions succeeds, each only after all its chunks
  and those of every earlier submission were accepted, and after a failure all the others fail.\<close>

theorem scheduler_keeps_order:
  assumes "sched_run T adm s w"
  shows "prefix (accepted (log w)) (submitted_work adm) \<and>
    (failure s = None \<longrightarrow> accepted (log w) @ pending (jobs s) = submitted_work adm) \<and>
    completed_in_order adm s (log w)"
  using sched_run_inv [OF assms] by (simp add: run_inv_def)

text \<open>Along every run at most sixteen chunks are in flight, a chunk that requires an idle device
  (a CPU write or a barrier) is only accepted when everything before it has retired, the admission
  bounds hold, and the byte accounting of \<open>advance\<close> never underflows.\<close>

theorem scheduler_window:
  assumes "sched_run T adm s w"
  shows "windowed T 0 (log w) \<and> length (scheduler_receipts (jobs s)) \<le> MAX_NATIVE_IN_FLIGHT \<and>
    length (jobs s) \<le> MAX_SUBMISSIONS \<and> bytes s = sum_list (map job_bytes (jobs s)) \<and>
    bytes s \<le> MAX_PENDING_BYTES \<and> advance T s w \<noteq> Panic"
proof -
  have inv: "run_inv T adm s w" by (rule sched_run_inv [OF assms])
  then have ok: "sched_ok s" by (simp add: run_inv_def)
  from advance_advances [OF ok, of T w] have "advance T s w \<noteq> Panic" by auto
  with inv show ?thesis by (simp add: run_inv_def sched_ok_def)
qed

section \<open>Progress\<close>

definition backlog :: "('c, 'o, 'r, 's, 'e) Scheduler \<Rightarrow> nat" where
  "backlog s = 2 * length (pending (jobs s)) + length (scheduler_receipts (jobs s)) + length (jobs s)"

lemma log_balance:
  "windowed T n es \<Longrightarrow>
   in_flight n es + length es = n + 2 * length (accepted es) + length (completions es)"
  by (induction T n es rule: windowed.induct) auto

lemma advance_backlog:
  assumes ok: "sched_ok s" and adv: "advance T s w = Ok (p, s', w')"
  shows "(p \<longrightarrow> backlog s' < backlog s) \<and> (\<not> p \<longrightarrow> s' = s)"
proof -
  from advance_advances [OF ok, of T w] adv obtain new k where
    new: "log w' = log w @ new" "advanced T s p s' new k" by auto
  have busy: "jobs s \<noteq> []" if p using advance_idle [of s T w] adv that by auto
  from log_balance [of T "length (scheduler_receipts (jobs s))" new] new(2)
  have bal: "in_flight (length (scheduler_receipts (jobs s))) new + length new =
      length (scheduler_receipts (jobs s)) + 2 * length (accepted new) + length (completions new)"
    by (simp add: advanced_def)
  from new(2) consider
    (go) "k + length (jobs s') = length (jobs s)"
      "completions new = map (\<lambda>j. (signal j, Inr ())) (take k (jobs s))"
      "accepted new @ pending (jobs s') = pending (jobs s)"
      "in_flight (length (scheduler_receipts (jobs s))) new = length (scheduler_receipts (jobs s'))"
      "p = (new \<noteq> [])" "new = [] \<longrightarrow> s' = s"
    | (stop) p "jobs s' = []"
    by (auto simp: advanced_def)
  then show ?thesis
  proof cases
    case go
    have "length (completions new) = k" using go(1,2) by simp
    moreover have "length (pending (jobs s)) = length (accepted new) + length (pending (jobs s'))"
      using arg_cong [OF go(3), of length] by simp
    ultimately show ?thesis
      using go(1,4,5,6) bal by (cases new) (simp_all add: backlog_def)
  next
    case stop
    then show ?thesis using busy by (simp add: backlog_def pending_def scheduler_receipts_def)
  qed
qed

text \<open>C26. A call of \<open>advance\<close> that reports progress strictly shrinks the backlog (two per chunk not yet
  submitted, one per chunk in flight, one per queued job), and a call that reports none leaves the
  queue as it was: the worker, which calls again at once only after progress, cannot spin.\<close>

theorem scheduler_progress:
  assumes "sched_run T adm s w" and "advance T s w = Ok (p, s', w')"
  shows "(p \<longrightarrow> backlog s' < backlog s) \<and> (\<not> p \<longrightarrow> s' = s)"
proof -
  have "sched_ok s" using sched_run_inv [OF assms(1)] by (simp add: run_inv_def)
  from advance_backlog [OF this assms(2)] show ?thesis .
qed

text \<open>A device that accepts every chunk and has retired every receipt by the next poll.\<close>

definition responsive :: "('c, 'o, 'r, 's, 'e, 'w) Transport \<Rightarrow> bool" where
  "responsive T \<longleftrightarrow> (\<forall>w r. fst (poll T w r) = Inr True) \<and> (\<forall>w c. fst (ready T w c) = Inr True) \<and>
    (\<forall>w own c. \<exists>r. fst (submit T w own c) = Inr r)"

lemma responsive_poll:
  assumes T: "responsive T"
  shows "\<exists>w'. poll_receipts T w rs 0 p = (Inr ([], p \<or> rs \<noteq> []), w')"
proof (induction rs arbitrary: w p)
  case Nil
  then show ?case by (simp add: poll_receipts.simps)
next
  case (Cons r rs)
  obtain v where "poll T (world w) r = (Inr True, v)"
    using T unfolding responsive_def by (metis prod.collapse)
  then have "poll_receipts T w (r # rs) 0 p =
      poll_receipts T \<lparr> world = v, log = log w @ [Retired r] \<rparr> rs 0 True"
    by (subst poll_receipts.simps) simp
  then show ?case using Cons [of "\<lparr> world = v, log = log w @ [Retired r] \<rparr>" True] by simp
qed

lemma responsive_poll_jobs:
  assumes T: "responsive T"
  shows "\<exists>js' p' w'. poll_jobs T w js p = (Inr (js', p'), w') \<and> list_all (\<lambda>j. receipts j = []) js'"
proof (induction js arbitrary: w p)
  case (Cons j js)
  obtain v where v: "poll_receipts T w (receipts j) 0 p = (Inr ([], p \<or> receipts j \<noteq> []), v)"
    using responsive_poll [OF T] by blast
  obtain js' q u where "poll_jobs T v js (p \<or> receipts j \<noteq> []) = (Inr (js', q), u)"
    "list_all (\<lambda>j. receipts j = []) js'" using Cons by blast
  with v show ?case by simp
qed simp

lemma responsive_submit:
  "responsive T \<Longrightarrow> fst (submit_chunks T w j n p) \<noteq> Poison e"
proof (induction T w j n p rule: submit_chunks.induct)
  case (1 T w j n p)
  show ?case
  proof (cases "next_chunk j < length (chunks j)")
    case lt: True
    let ?c = "chunks j ! next_chunk j"
    obtain v where v: "ready T (world w) ?c = (Inr True, v)"
      using 1(2) unfolding responsive_def by (metis prod.collapse)
    obtain r u where u: "submit T v (owner j) ?c = (Inr r, u)"
      using 1(2) unfolding responsive_def by (metis prod.collapse)
    show ?thesis
    proof (cases "n = MAX_NATIVE_IN_FLIGHT \<or> n \<noteq> 0 \<and> requires_idle T ?c")
      case False
      from 1(1) [OF _ False v [symmetric] refl _ u [symmetric] refl 1(2)] lt False v u show ?thesis
        by (subst submit_chunks.simps) simp
    qed (use lt in \<open>subst submit_chunks.simps, simp\<close>)
  qed (subst submit_chunks.simps, simp)
qed

lemma responsive_submit_jobs: "responsive T \<Longrightarrow> fst (submit_jobs T w js n p) \<noteq> Poison e"
proof (induction js arbitrary: w n p)
  case (Cons j js)
  obtain f j' n' p' w' where sub: "submit_chunks T w j n p = (f, j', n', p', w')"
    by (cases "submit_chunks T w j n p")
  with responsive_submit [OF Cons.prems, of w j n p] have "f \<noteq> Poison e" by auto
  with sub Cons.IH [OF Cons.prems, of w' n' p'] show ?case
    by (cases f) (auto split: prod.splits)
qed simp

text \<open>With nothing in flight the first unfinished job gets its next chunk accepted.\<close>

lemma responsive_accepts:
  assumes T: "responsive T" and lt: "next_chunk j < length (chunks j)"
    and ok: "list_all job_ok js"
    and sub: "submit_jobs T w (j # js) 0 p = (f, js', p', w')"
  shows p'
proof -
  let ?c = "chunks j ! next_chunk j"
  obtain v where v: "ready T (world w) ?c = (Inr True, v)"
    using T unfolding responsive_def by (metis prod.collapse)
  obtain r u where u: "submit T v (owner j) ?c = (Inr r, u)"
    using T unfolding responsive_def by (metis prod.collapse)
  let ?w = "\<lparr> world = u, log = log w @ [Accepted (owner j) ?c] \<rparr>"
  let ?j = "j \<lparr> receipts := receipts j @ [r], next_chunk := next_chunk j + 1 \<rparr>"
  have eq: "submit_chunks T w j 0 p = submit_chunks T ?w ?j 1 True"
    using lt v u by (subst submit_chunks.simps) (simp add: MAX_NATIVE_IN_FLIGHT_def)
  obtain g j1 n1 p1 w1 where s1: "submit_chunks T w j 0 p = (g, j1, n1, p1, w1)"
    by (cases "submit_chunks T w j 0 p")
  have lt': "next_chunk ?j \<le> length (chunks ?j)" using lt by simp
  have one: "1 \<le> MAX_NATIVE_IN_FLIGHT" by (simp add: MAX_NATIVE_IN_FLIGHT_def)
  from submit_chunks_accepts [OF s1 [unfolded eq] lt' one] have p1 and n1: "n1 \<le> MAX_NATIVE_IN_FLIGHT"
    unfolding Let_def by blast+
  show p'
  proof (cases "g = Continue")
    case False
    then show ?thesis using sub s1 \<open>p1\<close> by (cases g) auto
  next
    case True
    obtain h js1 p2 w2 where s2: "submit_jobs T w1 js n1 p1 = (h, js1, p2, w2)"
      by (cases "submit_jobs T w1 js n1 p1")
    from submit_jobs_accepts [OF s2 ok n1] \<open>p1\<close> have p2 by blast
    with sub s1 s2 True show ?thesis by auto
  qed
qed

lemma responsive_advance:
  assumes T: "responsive T" and ok: "sched_ok s" and busy: "jobs s \<noteq> []"
  obtains s' w' where "advance T s w = Ok (True, s', w')" "failure s' = failure s"
proof -
  obtain js p w1 where poll: "poll_jobs T w (jobs s) False = (Inr (js, p), w1)"
    and idle: "list_all (\<lambda>j. receipts j = []) js"
    using responsive_poll_jobs [OF T] by blast
  from poll_jobs_retires [OF poll, unfolded sum.case prod.case] have same: "list_all2 same_job (jobs s) js"
    by blast
  have bytes: "sum_list (map job_bytes js) \<le> bytes s" and oks: "list_all job_ok js"
    using ok same_jobs [OF same] by (simp_all add: sched_ok_def)
  obtain js1 m p1 w2 where retire: "retire_jobs T w1 js (bytes s) p = Ok (js1, m, p1, w2)"
    by (rule retire_jobs_cases [OF retire_jobs_no_panic [OF bytes]])
  from retire_jobs_prefix [OF retire] obtain fin where
    f: "js = fin @ js1" "p1 = (p \<or> fin \<noteq> [])" "js1 = [] \<or> \<not> job_done (hd js1)"
    by blast
  have none: "scheduler_receipts js1 = []" and ok1: "list_all job_ok js1"
    using idle oks f(1) by (auto simp: scheduler_receipts_def list_all_iff)
  obtain h js2 p2 w3 where sub: "submit_jobs T w2 js1 0 p1 = (h, js2, p2, w3)"
    by (cases "submit_jobs T w2 js1 0 p1")
  have "h \<noteq> Poison e" for e using responsive_submit_jobs [OF T, of w2 js1 0 p1 e] sub by simp
  then have adv: "advance T s w = Ok (p2, s \<lparr> jobs := js2, bytes := m \<rparr>, w3)"
    using poll retire sub none by (cases h) (auto simp: advance_def)
  have p2
  proof (cases js1)
    case Nil
    then have "fin \<noteq> []" using f(1) same busy by auto
    with f(2) sub Nil show ?thesis by simp
  next
    case (Cons j rest)
    then have lt: "next_chunk j < length (chunks j)" and rest: "list_all job_ok rest"
      using f(1,3) idle ok1 by (auto simp: job_done_def job_ok_def)
    from responsive_accepts [OF T lt rest sub [unfolded Cons]] show ?thesis .
  qed
  with adv that show ?thesis by simp
qed

text \<open>The worker loop: \<open>n\<close> calls of \<open>advance\<close>.\<close>

fun worker where
  "worker T 0 s w = Ok (s, w)"
| "worker T (Suc n) s w = andThen (advance T s w) (\<lambda>(p, s', w'). worker T n s' w')"

lemma worker_drains:
  assumes T: "responsive T"
  shows "sched_run T adm s w \<Longrightarrow> failure s = None \<Longrightarrow> backlog s \<le> n \<Longrightarrow>
    \<exists>s' w'. worker T n s w = Ok (s', w') \<and> sched_run T adm s' w' \<and> jobs s' = [] \<and> failure s' = None"
proof (induction n arbitrary: s w)
  case 0
  then show ?case by (auto simp: backlog_def)
next
  case (Suc n)
  have ok: "sched_ok s" using sched_run_inv [OF Suc.prems(1)] by (simp add: run_inv_def)
  show ?case
  proof (cases "jobs s = []")
    case True
    then have "backlog s \<le> n" by (simp add: backlog_def pending_def scheduler_receipts_def)
    from Suc.IH [OF Suc.prems(1,2) this] advance_idle [OF True, of T w] show ?thesis by simp
  next
    case False
    obtain s' w' where adv: "advance T s w = Ok (True, s', w')" and none: "failure s' = failure s"
      by (rule responsive_advance [OF T ok False])
    have "backlog s' \<le> n" using advance_backlog [OF ok adv] Suc.prems(3) by simp
    from Suc.IH [OF run_advance [OF Suc.prems(1) adv] _ this] none Suc.prems(2) adv show ?thesis by simp
  qed
qed

text \<open>C27. On a device that accepts every chunk and retires it by the next poll, as many calls of
  \<open>advance\<close> as the backlog empty the queue: every admitted chunk has been accepted, in order, and
  every admitted submission has completed successfully.\<close>

theorem scheduler_drains:
  assumes "responsive T" and "sched_run T adm s w" and "failure s = None"
  shows "\<exists>s' w'. worker T (backlog s) s w = Ok (s', w') \<and> jobs s' = [] \<and>
    accepted (log w') = submitted_work adm \<and>
    completions (log w') = map (\<lambda>a. (fst a, Inr ())) adm"
proof -
  from worker_drains [OF assms order_refl] obtain s' w' where
    s': "worker T (backlog s) s w = Ok (s', w')" "sched_run T adm s' w'" "jobs s' = []" "failure s' = None"
    by blast
  from sched_run_inv [OF s'(2)] s'(3,4) show ?thesis
    by (intro exI [of _ s'] exI [of _ w']) (auto simp: s' run_inv_def pending_def completed_in_order_def)
qed


section \<open>A sample run\<close>

text \<open>A device without state; chunk \<open>0\<close> requires an idle device.\<close>

definition sample_device :: "(nat, nat, nat, nat, nat, unit) Transport" where
  "sample_device = \<lparr> chunk_bytes = (\<lambda>c. c), requires_idle = (\<lambda>c. c = 0), ready = (\<lambda>w c. (Inr True, w)),
     submit = (\<lambda>w own c. (Inr c, w)), poll = (\<lambda>w r. (Inr True, w)), complete = (\<lambda>w sig res. w) \<rparr>"

definition sample_job :: "nat \<Rightarrow> nat list \<Rightarrow> nat \<Rightarrow> nat list \<Rightarrow> nat \<Rightarrow> (nat, nat, nat, nat) Job" where
  "sample_job sig cs k rs n =
    \<lparr> chunks = cs, owner = 3, signal = sig, next_chunk = k, receipts = rs, job_bytes = n \<rparr>"

definition sample_queued :: "(nat, nat, nat, nat, nat) Scheduler" where
  "sample_queued = \<lparr> jobs = [sample_job 1 [5] 0 [] 5, sample_job 2 [0, 7] 0 [] 7], bytes = 12, failure = None \<rparr>"

definition sample_sent :: "(nat, nat, nat, nat, nat) Scheduler" where
  "sample_sent = \<lparr> jobs = [sample_job 1 [5] 1 [5] 5, sample_job 2 [0, 7] 0 [] 7], bytes = 12, failure = None \<rparr>"

definition sample_idle :: "(nat, nat, nat, nat, nat, unit) io" where
  "sample_idle = \<lparr> world = (), log = [] \<rparr>"

definition sample_busy :: "(nat, nat, nat, nat, nat, unit) io" where
  "sample_busy = \<lparr> world = (), log = [Accepted 3 5] \<rparr>"

definition sample_admissions :: "(nat, nat, nat) admission list" where
  "sample_admissions = [(1, 3, [5]), (2, 3, [0, 7])]"

lemmas sample_defs = sample_device_def sample_job_def sample_queued_def sample_sent_def
  sample_idle_def sample_busy_def sample_admissions_def

lemma sample_queued_run: "sched_run sample_device sample_admissions sample_queued sample_idle"
proof -
  let ?s = "\<lparr> jobs = [sample_job 1 [5] 0 [] 5], bytes = 5, failure = None \<rparr> :: (nat, nat, nat, nat, nat) Scheduler"
  have "sched_run sample_device ([] @ [(1, 3, [5])]) ?s sample_idle"
    unfolding sample_idle_def
    by (rule run_enqueue [OF run_new, where reserve = "\<lambda>_. True"])
      (simp add: enqueue_def sample_defs scheduler_new_def usize_checked_add_def MAX_PENDING_BYTES_def
        MAX_SUBMISSIONS_def guard_def)
  from run_enqueue [OF this, of "\<lambda>_. True" "[0, 7]" 3 2 sample_queued] show ?thesis
    by (simp add: enqueue_def sample_defs usize_checked_add_def MAX_PENDING_BYTES_def
        MAX_SUBMISSIONS_def guard_def)
qed

lemma sample_advance: "advance sample_device sample_queued sample_idle = Ok (True, sample_sent, sample_busy)"
  by (simp add: advance_def sample_defs poll_receipts.simps submit_chunks.simps scheduler_receipts_def
      job_done_def MAX_NATIVE_IN_FLIGHT_def)

lemma sample_sent_run: "sched_run sample_device sample_admissions sample_sent sample_busy"
  by (rule run_advance [OF sample_queued_run sample_advance])

lemma sample_responsive: "responsive sample_device"
  by (simp add: responsive_def sample_device_def)

theorem scheduler_keeps_order_witness:
  "sched_run sample_device sample_admissions sample_sent sample_busy \<and>
   submitted_work sample_admissions = [(3, 5), (3, 0), (3, 7)] \<and>
   accepted (log sample_busy) = [(3, 5)] \<and>
   accepted (log sample_busy) @ pending (jobs sample_sent) = submitted_work sample_admissions"
  using sample_sent_run scheduler_keeps_order [OF sample_sent_run]
  by (simp add: sample_defs submitted_work_def)

theorem scheduler_window_witness:
  "sched_run sample_device sample_admissions sample_sent sample_busy \<and>
   windowed sample_device 0 (log sample_busy) \<and> advance sample_device sample_sent sample_busy \<noteq> Panic"
  using sample_sent_run scheduler_window [OF sample_sent_run] by blast

theorem scheduler_progress_witness:
  "sched_run sample_device sample_admissions sample_queued sample_idle \<and>
   advance sample_device sample_queued sample_idle = Ok (True, sample_sent, sample_busy) \<and>
   backlog sample_sent < backlog sample_queued"
  using sample_queued_run sample_advance scheduler_progress [OF sample_queued_run sample_advance] by simp

theorem scheduler_drains_witness:
  "responsive sample_device \<and> sched_run sample_device sample_admissions sample_sent sample_busy \<and>
   (\<exists>s' w'. worker sample_device (backlog sample_sent) sample_sent sample_busy = Ok (s', w') \<and> jobs s' = [] \<and>
     accepted (log w') = [(3, 5), (3, 0), (3, 7)] \<and> completions (log w') = [(1, Inr ()), (2, Inr ())])"
proof -
  have none: "failure sample_sent = None" by (simp add: sample_defs)
  show ?thesis
    using sample_responsive sample_sent_run scheduler_drains [OF sample_responsive sample_sent_run none]
    by (simp add: sample_admissions_def submitted_work_def)
qed

end
