(* ===== verification/Emit_Registers.thy ===== *)
theory Emit_Registers
  imports Rust_Prelude
begin

text \<open>
  The packet opcodes, event numbers, register numbers and field values of the code generator
  (\<open>userspace/sgfx-codegen-adreno-a6xx/src/emit.rs\<close>), in the order of the source.
\<close>

definition CP_MEMCPY :: u8 where "CP_MEMCPY = 0x75"
definition CP_MEM_WRITE :: u8 where "CP_MEM_WRITE = 0x3d"
definition CP_MEMCPY_MAX_DWORDS :: u32 where "CP_MEMCPY_MAX_DWORDS = 128"
definition CP_DRAW_INDX_OFFSET :: u8 where "CP_DRAW_INDX_OFFSET = 0x38"
definition CP_LOAD_STATE6_GEOM :: u8 where "CP_LOAD_STATE6_GEOM = 0x32"
definition CP_LOAD_STATE6_FRAG :: u8 where "CP_LOAD_STATE6_FRAG = 0x34"
definition CP_SET_VISIBILITY_OVERRIDE :: u8 where "CP_SET_VISIBILITY_OVERRIDE = 0x64"
definition CP_REG_WRITE :: u8 where "CP_REG_WRITE = 0x6d"
definition CP_SKIP_IB2_ENABLE_GLOBAL :: u8 where "CP_SKIP_IB2_ENABLE_GLOBAL = 0x1d"
definition CP_SKIP_IB2_ENABLE_LOCAL :: u8 where "CP_SKIP_IB2_ENABLE_LOCAL = 0x23"
definition EVENT_CCU_INVALIDATE_DEPTH :: u32 where "EVENT_CCU_INVALIDATE_DEPTH = 0x18"
definition EVENT_CCU_FLUSH_COLOR_TS :: u32 where "EVENT_CCU_FLUSH_COLOR_TS = 0x1d"
definition EVENT_CCU_FLUSH_DEPTH_TS :: u32 where "EVENT_CCU_FLUSH_DEPTH_TS = 0x1c"
definition EVENT_CCU_INVALIDATE_COLOR :: u32 where "EVENT_CCU_INVALIDATE_COLOR = 0x19"
definition EVENT_CACHE_INVALIDATE :: u32 where "EVENT_CACHE_INVALIDATE = 0x31"
definition EVENT_WRITE_TIMESTAMP :: u32 where "EVENT_WRITE_TIMESTAMP = push_bit 30 1"
definition FORMAT_8_8_8_8_UNORM :: u32 where "FORMAT_8_8_8_8_UNORM = 0x30"
definition FORMAT_32_FLOAT :: u32 where "FORMAT_32_FLOAT = 0x4a"
definition DEPTH_FORMAT_32 :: u32 where "DEPTH_FORMAT_32 = 4"
definition A2D_IFMT_FLOAT32 :: u32 where "A2D_IFMT_FLOAT32 = 4"
definition A2D_BGRA_COLOR_SWAP :: u32 where "A2D_BGRA_COLOR_SWAP = push_bit 10 1"
definition MRT_BGRA_COLOR_SWAP :: u32 where "MRT_BGRA_COLOR_SWAP = push_bit 13 1"
definition BLIT_CHANNEL_MASK :: u32 where "BLIT_CHANNEL_MASK = push_bit 20 0xf"
definition BLIT_SOLID_COLOR :: u32 where "BLIT_SOLID_COLOR = push_bit 7 1"
definition BLIT_SCISSOR :: u32 where "BLIT_SCISSOR = push_bit 16 1"
definition SOURCE_TEXTURE_REQUIRED :: u32 where "SOURCE_TEXTURE_REQUIRED = push_bit 20 1 OR push_bit 22 1"
definition RB_A2D_BLT_CNTL :: u32 where "RB_A2D_BLT_CNTL = 0x8c00"
definition RB_A2D_PIXEL_CNTL :: u32 where "RB_A2D_PIXEL_CNTL = 0x8c01"
definition RB_A2D_DEST_BUFFER_INFO :: u32 where "RB_A2D_DEST_BUFFER_INFO = 0x8c17"
definition RB_A2D_DEST_BUFFER_BASE :: u32 where "RB_A2D_DEST_BUFFER_BASE = 0x8c18"
definition RB_A2D_DEST_BUFFER_PITCH :: u32 where "RB_A2D_DEST_BUFFER_PITCH = 0x8c1a"
definition RB_A2D_CLEAR_COLOR_DW0 :: u32 where "RB_A2D_CLEAR_COLOR_DW0 = 0x8c2c"
definition GRAS_A2D_BLT_CNTL :: u32 where "GRAS_A2D_BLT_CNTL = 0x8400"
definition GRAS_A2D_SRC_XMIN :: u32 where "GRAS_A2D_SRC_XMIN = 0x8401"
definition GRAS_A2D_DEST_TL :: u32 where "GRAS_A2D_DEST_TL = 0x8405"
definition GRAS_A2D_SCISSOR_TL :: u32 where "GRAS_A2D_SCISSOR_TL = 0x840a"
definition RB_DBG_ECO_CNTL :: u32 where "RB_DBG_ECO_CNTL = 0x8e04"
definition RB_CCU_CNTL :: u32 where "RB_CCU_CNTL = 0x8e07"
definition SP_A2D_OUTPUT_INFO :: u32 where "SP_A2D_OUTPUT_INFO = 0xacc0"
definition TPL1_A2D_SRC_TEXTURE_INFO :: u32 where "TPL1_A2D_SRC_TEXTURE_INFO = 0xb4c0"
definition TPL1_A2D_SRC_TEXTURE_SIZE :: u32 where "TPL1_A2D_SRC_TEXTURE_SIZE = 0xb4c1"
definition TPL1_A2D_SRC_TEXTURE_BASE :: u32 where "TPL1_A2D_SRC_TEXTURE_BASE = 0xb4c2"
definition TPL1_A2D_SRC_TEXTURE_PITCH :: u32 where "TPL1_A2D_SRC_TEXTURE_PITCH = 0xb4c4"
definition GRAS_CL_CNTL :: u32 where "GRAS_CL_CNTL = 0x8000"
definition GRAS_CL_VS_CLIP_CULL_DISTANCE :: u32 where "GRAS_CL_VS_CLIP_CULL_DISTANCE = 0x8001"
definition GRAS_CL_ARRAY_SIZE :: u32 where "GRAS_CL_ARRAY_SIZE = 0x8004"
definition GRAS_CL_INTERP_CNTL :: u32 where "GRAS_CL_INTERP_CNTL = 0x8005"
definition GRAS_CL_GUARDBAND_CLIP_ADJ :: u32 where "GRAS_CL_GUARDBAND_CLIP_ADJ = 0x8006"
definition GRAS_CL_VIEWPORT_XOFFSET :: u32 where "GRAS_CL_VIEWPORT_XOFFSET = 0x8010"
definition GRAS_SU_POINT_MINMAX :: u32 where "GRAS_SU_POINT_MINMAX = 0x8091"
definition GRAS_SU_POINT_SIZE :: u32 where "GRAS_SU_POINT_SIZE = 0x8092"
definition GRAS_SU_POLY_OFFSET_SCALE :: u32 where "GRAS_SU_POLY_OFFSET_SCALE = 0x8095"
definition GRAS_SU_DEPTH_BUFFER_INFO :: u32 where "GRAS_SU_DEPTH_BUFFER_INFO = 0x8098"
definition GRAS_SC_CNTL :: u32 where "GRAS_SC_CNTL = 0x80a0"
definition GRAS_SC_RAS_MSAA_CNTL :: u32 where "GRAS_SC_RAS_MSAA_CNTL = 0x80a2"
definition GRAS_SC_SCREEN_SCISSOR_CNTL :: u32 where "GRAS_SC_SCREEN_SCISSOR_CNTL = 0x80af"
definition GRAS_SC_SCREEN_SCISSOR_TL :: u32 where "GRAS_SC_SCREEN_SCISSOR_TL = 0x80b0"
definition GRAS_SC_VIEWPORT_SCISSOR_TL :: u32 where "GRAS_SC_VIEWPORT_SCISSOR_TL = 0x80d0"
definition GRAS_SC_WINDOW_SCISSOR_TL :: u32 where "GRAS_SC_WINDOW_SCISSOR_TL = 0x80f0"
definition GRAS_SC_BIN_CNTL :: u32 where "GRAS_SC_BIN_CNTL = 0x80a1"
definition GRAS_LRZ_CNTL :: u32 where "GRAS_LRZ_CNTL = 0x8100"
definition GRAS_LRZ_MRT_BUFFER_INFO_0 :: u32 where "GRAS_LRZ_MRT_BUFFER_INFO_0 = 0x8102"
definition GRAS_SU_CNTL :: u32 where "GRAS_SU_CNTL = 0x8090"
definition GRAS_SU_DEPTH_PLANE_CNTL :: u32 where "GRAS_SU_DEPTH_PLANE_CNTL = 0x8094"
definition GRAS_SU_VS_SIV_CNTL :: u32 where "GRAS_SU_VS_SIV_CNTL = 0x809b"
definition GRAS_LRZ_PS_INPUT_CNTL :: u32 where "GRAS_LRZ_PS_INPUT_CNTL = 0x8101"
definition GRAS_LRZ_PS_SAMPLEFREQ_CNTL :: u32 where "GRAS_LRZ_PS_SAMPLEFREQ_CNTL = 0x8109"
definition GRAS_SU_DEPTH_CNTL :: u32 where "GRAS_SU_DEPTH_CNTL = 0x8114"
definition GRAS_SU_STENCIL_CNTL :: u32 where "GRAS_SU_STENCIL_CNTL = 0x8115"
definition RB_CNTL :: u32 where "RB_CNTL = 0x8800"
definition RB_RENDER_CNTL :: u32 where "RB_RENDER_CNTL = 0x8801"
definition RB_RAS_MSAA_CNTL :: u32 where "RB_RAS_MSAA_CNTL = 0x8802"
definition RB_INTERP_CNTL :: u32 where "RB_INTERP_CNTL = 0x8809"
definition RB_PS_INPUT_CNTL :: u32 where "RB_PS_INPUT_CNTL = 0x880a"
definition RB_PS_OUTPUT_CNTL :: u32 where "RB_PS_OUTPUT_CNTL = 0x880b"
definition RB_PS_MRT_CNTL :: u32 where "RB_PS_MRT_CNTL = 0x880c"
definition RB_PS_OUTPUT_MASK :: u32 where "RB_PS_OUTPUT_MASK = 0x880d"
definition RB_DITHER_CNTL :: u32 where "RB_DITHER_CNTL = 0x880e"
definition RB_SRGB_CNTL :: u32 where "RB_SRGB_CNTL = 0x880f"
definition RB_MRT_CONTROL :: u32 where "RB_MRT_CONTROL = 0x8820"
definition RB_MRT_BUF_INFO :: u32 where "RB_MRT_BUF_INFO = 0x8822"
definition RB_MRT_PITCH :: u32 where "RB_MRT_PITCH = 0x8823"
definition RB_MRT_BASE :: u32 where "RB_MRT_BASE = 0x8825"
definition RB_MRT_BASE_GMEM :: u32 where "RB_MRT_BASE_GMEM = 0x8827"
definition RB_ALPHA_TEST_CNTL :: u32 where "RB_ALPHA_TEST_CNTL = 0x8864"
definition RB_BLEND_CNTL :: u32 where "RB_BLEND_CNTL = 0x8865"
definition RB_DEPTH_PLANE_CNTL :: u32 where "RB_DEPTH_PLANE_CNTL = 0x8870"
definition RB_DEPTH_CNTL :: u32 where "RB_DEPTH_CNTL = 0x8871"
definition RB_DEPTH_BUFFER_INFO :: u32 where "RB_DEPTH_BUFFER_INFO = 0x8872"
definition RB_DEPTH_BOUND_MIN :: u32 where "RB_DEPTH_BOUND_MIN = 0x8878"
definition RB_STENCIL_CNTL :: u32 where "RB_STENCIL_CNTL = 0x8880"
definition RB_STENCIL_BUFFER_INFO :: u32 where "RB_STENCIL_BUFFER_INFO = 0x8881"
definition RB_STENCIL_REF_CNTL :: u32 where "RB_STENCIL_REF_CNTL = 0x8887"
definition RB_STENCIL_MASK :: u32 where "RB_STENCIL_MASK = 0x8888"
definition RB_MODE_CNTL :: u32 where "RB_MODE_CNTL = 0x8811"
definition RB_PS_SAMPLEFREQ_CNTL :: u32 where "RB_PS_SAMPLEFREQ_CNTL = 0x8810"
definition RB_WINDOW_OFFSET :: u32 where "RB_WINDOW_OFFSET = 0x8890"
definition RB_LRZ_CNTL :: u32 where "RB_LRZ_CNTL = 0x8898"
definition RB_BIN_CONTROL2 :: u32 where "RB_BIN_CONTROL2 = 0x88d3"
definition RB_WINDOW_OFFSET2 :: u32 where "RB_WINDOW_OFFSET2 = 0x88d4"
definition RB_RESOLVE_GMEM_BUFFER_INFO :: u32 where "RB_RESOLVE_GMEM_BUFFER_INFO = 0x88d5"
definition RB_COLOR_FLAG_BUFFER_ADDR :: u32 where "RB_COLOR_FLAG_BUFFER_ADDR = 0x8903"
definition RB_DEPTH_FLAG_BUFFER_BASE :: u32 where "RB_DEPTH_FLAG_BUFFER_BASE = 0x8900"
definition VPC_RAST_CNTL :: u32 where "VPC_RAST_CNTL = 0x9108"
definition VPC_VARYING_INTERP_MODE :: u32 where "VPC_VARYING_INTERP_MODE = 0x9200"
definition VPC_VARYING_REPLACE_MODE :: u32 where "VPC_VARYING_REPLACE_MODE = 0x9208"
definition VPC_VARYING_LM_TRANSFER_CNTL_DISABLE :: u32 where "VPC_VARYING_LM_TRANSFER_CNTL_DISABLE = 0x9212"
definition VPC_VS_CLIP_CULL_CNTL :: u32 where "VPC_VS_CLIP_CULL_CNTL = 0x9101"
definition VPC_VS_SIV_CNTL :: u32 where "VPC_VS_SIV_CNTL = 0x9104"
definition VPC_VS_CNTL :: u32 where "VPC_VS_CNTL = 0x9301"
definition VPC_PS_CNTL :: u32 where "VPC_PS_CNTL = 0x9304"
definition VPC_SO_OVERRIDE :: u32 where "VPC_SO_OVERRIDE = 0x9306"
definition VPC_VS_CLIP_CULL_CNTL_V2 :: u32 where "VPC_VS_CLIP_CULL_CNTL_V2 = 0x9311"
definition VPC_VS_SIV_CNTL_V2 :: u32 where "VPC_VS_SIV_CNTL_V2 = 0x9314"
definition PC_MODE_CNTL :: u32 where "PC_MODE_CNTL = 0x9804"
definition PC_PS_CNTL :: u32 where "PC_PS_CNTL = 0x9806"
definition PC_DGEN_RAST_CNTL :: u32 where "PC_DGEN_RAST_CNTL = 0x9981"
definition PC_CNTL :: u32 where "PC_CNTL = 0x9b00"
definition PC_VS_CNTL :: u32 where "PC_VS_CNTL = 0x9b01"
definition PC_STEREO_RENDERING_CNTL :: u32 where "PC_STEREO_RENDERING_CNTL = 0x9b07"
definition VFD_CNTL_0 :: u32 where "VFD_CNTL_0 = 0xa000"
definition VFD_CNTL_1 :: u32 where "VFD_CNTL_1 = 0xa001"
definition VFD_RENDER_MODE :: u32 where "VFD_RENDER_MODE = 0xa007"
definition VFD_MODE_CNTL :: u32 where "VFD_MODE_CNTL = 0xa009"
definition VFD_INDEX_OFFSET :: u32 where "VFD_INDEX_OFFSET = 0xa00e"
definition VFD_VERTEX_BUFFER_BASE :: u32 where "VFD_VERTEX_BUFFER_BASE = 0xa010"
definition VFD_VERTEX_BUFFER_SIZE :: u32 where "VFD_VERTEX_BUFFER_SIZE = 0xa012"
definition VFD_FETCH_INSTR :: u32 where "VFD_FETCH_INSTR = 0xa090"
definition VFD_DEST_CNTL :: u32 where "VFD_DEST_CNTL = 0xa0d0"
definition SP_VS_CNTL_0 :: u32 where "SP_VS_CNTL_0 = 0xa800"
definition SP_VS_OUTPUT_CNTL :: u32 where "SP_VS_OUTPUT_CNTL = 0xa802"
definition SP_VS_OUTPUT_REG :: u32 where "SP_VS_OUTPUT_REG = 0xa803"
definition SP_VS_VPC_DEST_REG :: u32 where "SP_VS_VPC_DEST_REG = 0xa813"
definition SP_VS_PROGRAM_COUNTER_OFFSET :: u32 where "SP_VS_PROGRAM_COUNTER_OFFSET = 0xa81b"
definition SP_VS_PVT_MEM_STACK_OFFSET :: u32 where "SP_VS_PVT_MEM_STACK_OFFSET = 0xa825"
definition SP_VS_CONFIG :: u32 where "SP_VS_CONFIG = 0xa823"
definition SP_VS_INSTR_SIZE :: u32 where "SP_VS_INSTR_SIZE = 0xa824"
definition SP_HS_CONFIG :: u32 where "SP_HS_CONFIG = 0xa83b"
definition SP_DS_CONFIG :: u32 where "SP_DS_CONFIG = 0xa863"
definition SP_GS_CONFIG :: u32 where "SP_GS_CONFIG = 0xa894"
definition SP_PS_CNTL_0 :: u32 where "SP_PS_CNTL_0 = 0xa980"
definition SP_PS_PROGRAM_COUNTER_OFFSET :: u32 where "SP_PS_PROGRAM_COUNTER_OFFSET = 0xa982"
definition SP_PS_PVT_MEM_STACK_OFFSET :: u32 where "SP_PS_PVT_MEM_STACK_OFFSET = 0xa9a9"
definition SP_BLEND_CNTL :: u32 where "SP_BLEND_CNTL = 0xa989"
definition SP_SRGB_CNTL :: u32 where "SP_SRGB_CNTL = 0xa98a"
definition SP_PS_OUTPUT_MASK :: u32 where "SP_PS_OUTPUT_MASK = 0xa98b"
definition SP_PS_OUTPUT_CNTL :: u32 where "SP_PS_OUTPUT_CNTL = 0xa98c"
definition SP_PS_MRT_CNTL :: u32 where "SP_PS_MRT_CNTL = 0xa98d"
definition SP_PS_OUTPUT_REG :: u32 where "SP_PS_OUTPUT_REG = 0xa98e"
definition SP_PS_MRT_REG :: u32 where "SP_PS_MRT_REG = 0xa996"
definition SP_PS_INITIAL_TEX_LOAD_CNTL :: u32 where "SP_PS_INITIAL_TEX_LOAD_CNTL = 0xa99e"
definition SP_PS_INITIAL_TEX_INDEX_CMD :: u32 where "SP_PS_INITIAL_TEX_INDEX_CMD = 0xa9a3"
definition SP_PS_TSIZE :: u32 where "SP_PS_TSIZE = 0xa9a7"
definition SP_PS_SAMPLER_BASE :: u32 where "SP_PS_SAMPLER_BASE = 0xa9e0"
definition SP_PS_TEXMEMOBJ_BASE :: u32 where "SP_PS_TEXMEMOBJ_BASE = 0xa9e4"
definition SP_PS_CONFIG :: u32 where "SP_PS_CONFIG = 0xab04"
definition SP_PS_INSTR_SIZE :: u32 where "SP_PS_INSTR_SIZE = 0xab05"
definition SP_MODE_CNTL :: u32 where "SP_MODE_CNTL = 0xab00"
definition SP_GFX_USIZE :: u32 where "SP_GFX_USIZE = 0xab20"
definition SP_VS_CONST_CONFIG :: u32 where "SP_VS_CONST_CONFIG = 0xb800"
definition SP_PS_WAVE_CNTL :: u32 where "SP_PS_WAVE_CNTL = 0xb980"
definition SP_LB_PARAM_LIMIT :: u32 where "SP_LB_PARAM_LIMIT = 0xb982"
definition SP_REG_PROG_ID_0 :: u32 where "SP_REG_PROG_ID_0 = 0xb983"
definition TPL1_RAS_MSAA_CNTL :: u32 where "TPL1_RAS_MSAA_CNTL = 0xb300"
definition TPL1_MSAA_SAMPLE_POS_CNTL :: u32 where "TPL1_MSAA_SAMPLE_POS_CNTL = 0xb304"
definition TPL1_WINDOW_OFFSET :: u32 where "TPL1_WINDOW_OFFSET = 0xb307"
definition TPL1_MODE_CNTL :: u32 where "TPL1_MODE_CNTL = 0xb309"
definition SP_WINDOW_OFFSET :: u32 where "SP_WINDOW_OFFSET = 0xb4d1"
definition SP_UPDATE_CNTL :: u32 where "SP_UPDATE_CNTL = 0xbb08"
definition SP_PS_CONST_CONFIG :: u32 where "SP_PS_CONST_CONFIG = 0xbb10"

lemmas emit_register_defs =
  CP_MEMCPY_def CP_MEM_WRITE_def CP_MEMCPY_MAX_DWORDS_def CP_DRAW_INDX_OFFSET_def
  CP_LOAD_STATE6_GEOM_def CP_LOAD_STATE6_FRAG_def CP_SET_VISIBILITY_OVERRIDE_def CP_REG_WRITE_def
  CP_SKIP_IB2_ENABLE_GLOBAL_def CP_SKIP_IB2_ENABLE_LOCAL_def EVENT_CCU_INVALIDATE_DEPTH_def
  EVENT_CCU_FLUSH_COLOR_TS_def EVENT_CCU_FLUSH_DEPTH_TS_def EVENT_CCU_INVALIDATE_COLOR_def
  EVENT_CACHE_INVALIDATE_def EVENT_WRITE_TIMESTAMP_def FORMAT_8_8_8_8_UNORM_def FORMAT_32_FLOAT_def
  DEPTH_FORMAT_32_def A2D_IFMT_FLOAT32_def A2D_BGRA_COLOR_SWAP_def MRT_BGRA_COLOR_SWAP_def
  BLIT_CHANNEL_MASK_def BLIT_SOLID_COLOR_def BLIT_SCISSOR_def SOURCE_TEXTURE_REQUIRED_def
  RB_A2D_BLT_CNTL_def RB_A2D_PIXEL_CNTL_def RB_A2D_DEST_BUFFER_INFO_def RB_A2D_DEST_BUFFER_BASE_def
  RB_A2D_DEST_BUFFER_PITCH_def RB_A2D_CLEAR_COLOR_DW0_def GRAS_A2D_BLT_CNTL_def
  GRAS_A2D_SRC_XMIN_def GRAS_A2D_DEST_TL_def GRAS_A2D_SCISSOR_TL_def RB_DBG_ECO_CNTL_def
  RB_CCU_CNTL_def SP_A2D_OUTPUT_INFO_def TPL1_A2D_SRC_TEXTURE_INFO_def
  TPL1_A2D_SRC_TEXTURE_SIZE_def TPL1_A2D_SRC_TEXTURE_BASE_def TPL1_A2D_SRC_TEXTURE_PITCH_def
  GRAS_CL_CNTL_def GRAS_CL_VS_CLIP_CULL_DISTANCE_def GRAS_CL_ARRAY_SIZE_def GRAS_CL_INTERP_CNTL_def
  GRAS_CL_GUARDBAND_CLIP_ADJ_def GRAS_CL_VIEWPORT_XOFFSET_def GRAS_SU_POINT_MINMAX_def
  GRAS_SU_POINT_SIZE_def GRAS_SU_POLY_OFFSET_SCALE_def GRAS_SU_DEPTH_BUFFER_INFO_def
  GRAS_SC_CNTL_def GRAS_SC_RAS_MSAA_CNTL_def GRAS_SC_SCREEN_SCISSOR_CNTL_def
  GRAS_SC_SCREEN_SCISSOR_TL_def GRAS_SC_VIEWPORT_SCISSOR_TL_def GRAS_SC_WINDOW_SCISSOR_TL_def
  GRAS_SC_BIN_CNTL_def GRAS_LRZ_CNTL_def GRAS_LRZ_MRT_BUFFER_INFO_0_def GRAS_SU_CNTL_def
  GRAS_SU_DEPTH_PLANE_CNTL_def GRAS_SU_VS_SIV_CNTL_def GRAS_LRZ_PS_INPUT_CNTL_def
  GRAS_LRZ_PS_SAMPLEFREQ_CNTL_def GRAS_SU_DEPTH_CNTL_def GRAS_SU_STENCIL_CNTL_def RB_CNTL_def
  RB_RENDER_CNTL_def RB_RAS_MSAA_CNTL_def RB_INTERP_CNTL_def RB_PS_INPUT_CNTL_def
  RB_PS_OUTPUT_CNTL_def RB_PS_MRT_CNTL_def RB_PS_OUTPUT_MASK_def RB_DITHER_CNTL_def
  RB_SRGB_CNTL_def RB_MRT_CONTROL_def RB_MRT_BUF_INFO_def RB_MRT_PITCH_def RB_MRT_BASE_def
  RB_MRT_BASE_GMEM_def RB_ALPHA_TEST_CNTL_def RB_BLEND_CNTL_def RB_DEPTH_PLANE_CNTL_def
  RB_DEPTH_CNTL_def RB_DEPTH_BUFFER_INFO_def RB_DEPTH_BOUND_MIN_def RB_STENCIL_CNTL_def
  RB_STENCIL_BUFFER_INFO_def RB_STENCIL_REF_CNTL_def RB_STENCIL_MASK_def RB_MODE_CNTL_def
  RB_PS_SAMPLEFREQ_CNTL_def RB_WINDOW_OFFSET_def RB_LRZ_CNTL_def RB_BIN_CONTROL2_def
  RB_WINDOW_OFFSET2_def RB_RESOLVE_GMEM_BUFFER_INFO_def RB_COLOR_FLAG_BUFFER_ADDR_def
  RB_DEPTH_FLAG_BUFFER_BASE_def VPC_RAST_CNTL_def VPC_VARYING_INTERP_MODE_def
  VPC_VARYING_REPLACE_MODE_def VPC_VARYING_LM_TRANSFER_CNTL_DISABLE_def VPC_VS_CLIP_CULL_CNTL_def
  VPC_VS_SIV_CNTL_def VPC_VS_CNTL_def VPC_PS_CNTL_def VPC_SO_OVERRIDE_def
  VPC_VS_CLIP_CULL_CNTL_V2_def VPC_VS_SIV_CNTL_V2_def PC_MODE_CNTL_def PC_PS_CNTL_def
  PC_DGEN_RAST_CNTL_def PC_CNTL_def PC_VS_CNTL_def PC_STEREO_RENDERING_CNTL_def VFD_CNTL_0_def
  VFD_CNTL_1_def VFD_RENDER_MODE_def VFD_MODE_CNTL_def VFD_INDEX_OFFSET_def
  VFD_VERTEX_BUFFER_BASE_def VFD_VERTEX_BUFFER_SIZE_def VFD_FETCH_INSTR_def VFD_DEST_CNTL_def
  SP_VS_CNTL_0_def SP_VS_OUTPUT_CNTL_def SP_VS_OUTPUT_REG_def SP_VS_VPC_DEST_REG_def
  SP_VS_PROGRAM_COUNTER_OFFSET_def SP_VS_PVT_MEM_STACK_OFFSET_def SP_VS_CONFIG_def
  SP_VS_INSTR_SIZE_def SP_HS_CONFIG_def SP_DS_CONFIG_def SP_GS_CONFIG_def SP_PS_CNTL_0_def
  SP_PS_PROGRAM_COUNTER_OFFSET_def SP_PS_PVT_MEM_STACK_OFFSET_def SP_BLEND_CNTL_def
  SP_SRGB_CNTL_def SP_PS_OUTPUT_MASK_def SP_PS_OUTPUT_CNTL_def SP_PS_MRT_CNTL_def
  SP_PS_OUTPUT_REG_def SP_PS_MRT_REG_def SP_PS_INITIAL_TEX_LOAD_CNTL_def
  SP_PS_INITIAL_TEX_INDEX_CMD_def SP_PS_TSIZE_def SP_PS_SAMPLER_BASE_def SP_PS_TEXMEMOBJ_BASE_def
  SP_PS_CONFIG_def SP_PS_INSTR_SIZE_def SP_MODE_CNTL_def SP_GFX_USIZE_def SP_VS_CONST_CONFIG_def
  SP_PS_WAVE_CNTL_def SP_LB_PARAM_LIMIT_def SP_REG_PROG_ID_0_def TPL1_RAS_MSAA_CNTL_def
  TPL1_MSAA_SAMPLE_POS_CNTL_def TPL1_WINDOW_OFFSET_def TPL1_MODE_CNTL_def SP_WINDOW_OFFSET_def
  SP_UPDATE_CNTL_def SP_PS_CONST_CONFIG_def

end
