(* ===== verification/Rust_Float.thy ===== *)
theory Rust_Float
  imports Rust_F32
begin

text \<open>
  The arithmetic of Rust's \<open>f32\<close> that the code generator uses, with the sign of zero, since the
  generator writes the bit patterns of its results into registers: addition, subtraction,
  multiplication and division rounded to nearest even, \<open>min\<close>, \<open>abs\<close>, \<open>clamp\<close>, the comparisons,
  \<open>to_bits\<close> and the saturating conversion to \<open>u32\<close>. A finite value is a sign and a magnitude in
  multiples of the smallest subnormal, two to the power of minus 149. \<open>to_bits\<close> of a NaN is the
  quiet NaN that the targets produce.
\<close>

datatype float32 = FNaN | FInf bool | FFin bool nat

text \<open>The quotient \<open>a / b\<close> rounded to 24 significant bits and to whole units, ties to even.\<close>

definition round_quotient :: "nat \<Rightarrow> nat \<Rightarrow> nat" where
  "round_quotient a b =
     (let e = bit_len (a div b) - 24; d = b * 2 ^ e; q = a div d; r = a mod d
      in (if d < 2 * r \<or> (d = 2 * r \<and> odd q) then q + 1 else q) * 2 ^ e)"

definition float_of :: "bool \<Rightarrow> nat \<Rightarrow> float32" where
  "float_of s m = (if m < 2 ^ 277 then FFin s m else FInf s)"

fun float_neg :: "float32 \<Rightarrow> float32" where
  "float_neg FNaN = FNaN"
| "float_neg (FInf s) = FInf (\<not> s)"
| "float_neg (FFin s m) = FFin (\<not> s) m"

fun float_add :: "float32 \<Rightarrow> float32 \<Rightarrow> float32" where
  "float_add (FFin s m) (FFin t n) =
     (if s = t then float_of s (round_quotient (m + n) 1)
      else if m = n then FFin False 0
      else if n < m then float_of s (round_quotient (m - n) 1)
      else float_of t (round_quotient (n - m) 1))"
| "float_add FNaN _ = FNaN"
| "float_add _ FNaN = FNaN"
| "float_add (FInf s) (FInf t) = (if s = t then FInf s else FNaN)"
| "float_add (FInf s) (FFin t n) = FInf s"
| "float_add (FFin s m) (FInf t) = FInf t"

definition float_sub :: "float32 \<Rightarrow> float32 \<Rightarrow> float32" where
  "float_sub x y = float_add x (float_neg y)"

fun float_mul :: "float32 \<Rightarrow> float32 \<Rightarrow> float32" where
  "float_mul (FFin s m) (FFin t n) = float_of (s \<noteq> t) (round_quotient (m * n) (2 ^ 149))"
| "float_mul FNaN _ = FNaN"
| "float_mul _ FNaN = FNaN"
| "float_mul (FInf s) (FInf t) = FInf (s \<noteq> t)"
| "float_mul (FInf s) (FFin t n) = (if n = 0 then FNaN else FInf (s \<noteq> t))"
| "float_mul (FFin s m) (FInf t) = (if m = 0 then FNaN else FInf (s \<noteq> t))"

fun float_div :: "float32 \<Rightarrow> float32 \<Rightarrow> float32" where
  "float_div (FFin s m) (FFin t n) =
     (if n = 0 then (if m = 0 then FNaN else FInf (s \<noteq> t))
      else float_of (s \<noteq> t) (round_quotient (m * 2 ^ 149) n))"
| "float_div FNaN _ = FNaN"
| "float_div _ FNaN = FNaN"
| "float_div (FInf s) (FInf t) = FNaN"
| "float_div (FInf s) (FFin t n) = FInf (s \<noteq> t)"
| "float_div (FFin s m) (FInf t) = FFin (s \<noteq> t) 0"

fun float_abs :: "float32 \<Rightarrow> float32" where
  "float_abs FNaN = FNaN"
| "float_abs (FInf s) = FInf False"
| "float_abs (FFin s m) = FFin False m"

fun float_is_finite :: "float32 \<Rightarrow> bool" where
  "float_is_finite (FFin s m) = True"
| "float_is_finite _ = False"

text \<open>The value without the sign of zero, for the comparisons of \<open>Rust_F32\<close>.\<close>

fun float_value :: "float32 \<Rightarrow> f32" where
  "float_value FNaN = NaN"
| "float_value (FInf s) = Inf s"
| "float_value (FFin s m) = Fin (if s then - int m else int m)"

definition float_less :: "float32 \<Rightarrow> float32 \<Rightarrow> bool" where
  "float_less x y = f32_less (float_value x) (float_value y)"

definition float_le :: "float32 \<Rightarrow> float32 \<Rightarrow> bool" where
  "float_le x y = f32_le (float_value x) (float_value y)"

text \<open>\<open>f32::min\<close> ignores one NaN; \<open>f32::clamp\<close> keeps it.\<close>

definition float_min :: "float32 \<Rightarrow> float32 \<Rightarrow> float32" where
  "float_min x y = (if x = FNaN then y else if y = FNaN then x else if float_less y x then y else x)"

definition float_clamp :: "float32 \<Rightarrow> float32 \<Rightarrow> float32 \<Rightarrow> float32" where
  "float_clamp x lo hi = (if float_less x lo then lo else if float_less hi x then hi else x)"

fun to_bits :: "float32 \<Rightarrow> u32" where
  "to_bits FNaN = 0x7fc00000"
| "to_bits (FInf s) = (if s then 0xff800000 else 0x7f800000)"
| "to_bits (FFin s m) =
     (if s then 0x80000000 else 0) OR
     of_nat (if m < 2 ^ 23 then m
             else (bit_len m - 23) * 2 ^ 23 + (m div 2 ^ (bit_len m - 24) - 2 ^ 23))"

text \<open>\<open>value as u32\<close> truncates and saturates.\<close>

fun float_as_u32 :: "float32 \<Rightarrow> u32" where
  "float_as_u32 FNaN = 0"
| "float_as_u32 (FInf s) = (if s then 0 else - 1)"
| "float_as_u32 (FFin s m) =
     (if s then 0 else if m div 2 ^ 149 < 2 ^ 32 then of_nat (m div 2 ^ 149) else - 1)"

text \<open>Literals: an integer divided by a power of two.\<close>

definition float_lit :: "int \<Rightarrow> nat \<Rightarrow> float32" where
  "float_lit x k = FFin (x < 0) (nat \<bar>x\<bar> * 2 ^ (149 - k))"

text \<open>The arithmetic on the values the sources use.\<close>

lemma float_literals:
  "to_bits (float_lit 1 0) = 0x3f800000" "to_bits (float_lit 1 1) = 0x3f000000"
  "to_bits (float_lit (- 32768) 0) = 0xc7000000"
  "to_bits (float_mul (float_lit 2160 0) (float_lit 1 1)) = 0x44870000"
  "to_bits (float_div (float_lit 1 0) (float_lit 3 0)) = 0x3eaaaaab"
  "float_as_u32 (float_add (float_mul (float_lit 1 1) (float_lit 255 0)) (float_lit 1 1)) = 128"
  by (simp_all add: float_lit_def float_of_def round_quotient_def bit_len.simps)

end
