(* ===== verification/Emit_Types.thy ===== *)
theory Emit_Types
  imports Emit_Registers Rust_Float Shader_Pack Pm4
begin

text \<open>
  The artifacts of the code generator (\<open>userspace/sgfx-codegen-adreno-a6xx/src/model.rs\<close>) and the
  state of its emitter (\<open>emit.rs\<close>). The types of the \<open>sgfx_core\<close> crate that reach the emitter
  (rectangles, colours, viewports, comparison functions, index formats, filters and colour
  conversions) are plain data read through their accessors. \<open>alloc n\<close> says whether a vector can be
  grown to \<open>n\<close> elements.
\<close>

section \<open>Artifacts\<close>

type_synonym Access = u8

definition ACC_READ :: Access where "ACC_READ = 1"
definition ACC_WRITE :: Access where "ACC_WRITE = 2"

definition access_contains :: "Access \<Rightarrow> Access \<Rightarrow> bool" where
  "access_contains a b \<longleftrightarrow> a AND b = b"

datatype ObjectRef = External u32 | Generated u32 | CanonicalProgram ShaderVariant

datatype PlaceholderEncoding = PlainVa | DescriptorVa

fun fixup_word_count :: "PlaceholderEncoding \<Rightarrow> u32" where
  "fixup_word_count PlainVa = 2"
| "fixup_word_count DescriptorVa = 2"

fun placeholder_valid :: "PlaceholderEncoding \<Rightarrow> u32 list \<Rightarrow> bool" where
  "placeholder_valid PlainVa ws = (ws = [0, 0])"
| "placeholder_valid DescriptorVa ws = (case ws of [a, b] \<Rightarrow> a = 0 \<and> b AND 0x1ffff = 0 | _ \<Rightarrow> False)"

record SymbolicAddress =
  fx_word_offset :: u32
  fx_object :: ObjectRef
  fx_object_offset :: u64
  fx_required_size :: u64
  fx_access :: Access
  fx_encoding :: PlaceholderEncoding

record ResourceAccess =
  ra_object :: ObjectRef
  ra_offset :: u64
  ra_size :: u64
  ra_access :: Access

datatype GeneratedObjectKind = Upload | CcuSequence | TextureState

record GeneratedObject =
  gen_id :: u32
  gen_alignment :: u64
  gen_bytes :: "u8 list"
  gen_access :: Access
  gen_kind :: GeneratedObjectKind

record RelocatablePm4 =
  rp_words :: "u32 list"
  rp_fixups :: "SymbolicAddress list"
  rp_accesses :: "ResourceAccess list"
  rp_generated_objects :: "GeneratedObject list"

datatype CompileError =
    InvalidIdentity | InvalidResource | OutOfBounds | CompileOverflow | InvalidState
  | UnsupportedFeature | CommandBudgetExceeded | CompileOutOfMemory | InvalidPm4

section \<open>Inputs of the emitter\<close>

record PixelRect =
  rect_x :: u32
  rect_y :: u32
  rect_width :: u32
  rect_height :: u32

type_synonym Color = "float32 \<times> float32 \<times> float32 \<times> float32"

record Viewport =
  vp_x :: float32
  vp_y :: float32
  vp_width :: float32
  vp_height :: float32
  vp_min_depth :: float32
  vp_max_depth :: float32

datatype CompareFunction = Never | Less | Equal | LessEqual | Greater | NotEqual | GreaterEqual | Always

datatype IndexFormat = Uint16 | Uint32

datatype FilterMode = Nearest | Linear

datatype YcbcrMatrix = Bt601 | Bt709
datatype YcbcrRange = Limited | Full
datatype ChromaLocation = Cosited | Midpoint

record YcbcrConversion =
  yc_matrix :: YcbcrMatrix
  yc_range :: YcbcrRange
  chroma_x :: ChromaLocation
  chroma_y :: ChromaLocation

record Nv12Surface =
  nv_conversion :: YcbcrConversion
  uv_offset :: u64
  uv_size :: u64

record Surface =
  sf_nv12 :: "Nv12Surface option"
  sf_mip_levels :: u32
  sf_array_pitch :: u64
  sf_object :: u32
  sf_plane_offset :: u64
  sf_plane_size :: u64
  sf_width :: u32
  sf_height :: u32
  sf_stride :: u32
  sf_tile_mode :: u32
  sf_alpha_mask :: bool

record DepthDrawState =
  dd_target :: Surface
  dd_compare :: CompareFunction
  dd_write_enabled :: bool

record IndexedDraw =
  ix_index :: u32
  ix_index_offset :: u64
  ix_index_size :: u64
  ix_format :: IndexFormat
  ix_index_count :: u32
  ix_first_index :: u32
  ix_base_vertex :: u32
  ix_max_indices :: u32
  ix_vertex_size :: u64

datatype DrawCall = NonIndexed (first_vertex: u32) (vertex_count: u32) | Indexed IndexedDraw

record DrawState =
  dr_variant :: PipelineVariant
  dr_target :: Surface
  dr_area :: PixelRect
  dr_scissor :: PixelRect
  dr_viewport :: Viewport
  dr_vertex :: u32
  dr_vertex_offset :: u64
  dr_vertex_size :: u64
  dr_stride :: u32
  dr_attributes :: "(u32 \<times> u32) list"
  dr_uniforms :: "u32 list"
  dr_texture :: "Surface option"
  dr_sampler :: "u32 list"
  dr_source_over :: bool
  dr_cull :: u32
  dr_depth :: "DepthDrawState option"
  dr_draw :: DrawCall

section \<open>The emitter\<close>

record Emitter =
  em_words :: "u32 list"
  em_fixups :: "SymbolicAddress list"
  em_texture_words :: "u32 list"
  em_texture_fixups :: "SymbolicAddress list"
  em_texture_states :: "(Surface \<times> u32 list \<times> u32) list"
  em_accesses :: "ResourceAccess list"
  em_generated :: "GeneratedObject list"
  em_ccu_sequence :: "u32 option"
  em_event_sequence :: u32
  em_draw_batch_active :: bool
  em_last_draw :: "DrawState option"
  em_max_words :: usize

definition emitter_new :: "u32 \<Rightarrow> Emitter" where
  "emitter_new max_words =
     \<lparr> em_words = [], em_fixups = [], em_texture_words = [], em_texture_fixups = [],
       em_texture_states = [], em_accesses = [], em_generated = [], em_ccu_sequence = None,
       em_event_sequence = 0, em_draw_batch_active = False, em_last_draw = None,
       em_max_words = unat max_words \<rparr>"

text \<open>An emitting method: it updates the emitter or fails. \<open>sequence\<close> runs methods one after the
  other, each followed by the question mark operator.\<close>

type_synonym emission = "Emitter \<Rightarrow> (CompileError, Emitter) outcome"

fun sequence :: "emission list \<Rightarrow> emission" where
  "sequence [] em = Ok em"
| "sequence (f # fs) em = andThen (f em) (sequence fs)"

section \<open>Words and packets\<close>

definition reserve_words :: "(usize \<Rightarrow> bool) \<Rightarrow> usize \<Rightarrow> Emitter \<Rightarrow> (CompileError, unit) outcome" where
  "reserve_words alloc additional em =
     (case Option.bind (usize_checked_add (length (em_words em)) (length (em_texture_words em)))
             (\<lambda>n. usize_checked_add n additional) of
        None \<Rightarrow> Err CommandBudgetExceeded
      | Some n \<Rightarrow>
          if n > em_max_words em then Err CommandBudgetExceeded
          else guard (alloc (length (em_words em) + additional)) CompileOutOfMemory)"

definition extend_words :: "(usize \<Rightarrow> bool) \<Rightarrow> u32 list \<Rightarrow> emission" where
  "extend_words alloc ws em =
     andThen (reserve_words alloc (length ws) em) (\<lambda>_. Ok (em \<lparr> em_words := em_words em @ ws \<rparr>))"

definition push_word :: "(usize \<Rightarrow> bool) \<Rightarrow> u32 \<Rightarrow> emission" where
  "push_word alloc w em =
     andThen (reserve_words alloc 1 em) (\<lambda>_. Ok (em \<lparr> em_words := em_words em @ [w] \<rparr>))"

text \<open>\<open>self.push_word(type4(register, n).map_err(..)?)?\<close> and its type-7 counterpart.\<close>

definition push_type4 :: "(usize \<Rightarrow> bool) \<Rightarrow> u32 \<Rightarrow> u16 \<Rightarrow> emission" where
  "push_type4 alloc reg n em =
     andThen (map_err (\<lambda>_. InvalidPm4) (type4 reg n)) (\<lambda>h. push_word alloc h em)"

definition push_type7 :: "(usize \<Rightarrow> bool) \<Rightarrow> u8 \<Rightarrow> u16 \<Rightarrow> emission" where
  "push_type7 alloc opc n em =
     andThen (map_err (\<lambda>_. InvalidPm4) (type7 opc n)) (\<lambda>h. push_word alloc h em)"

definition u16_of_len :: "'a list \<Rightarrow> (CompileError, u16) outcome" where
  "u16_of_len xs = (if length xs < 2 ^ 16 then Ok (of_nat (length xs)) else Err InvalidPm4)"

definition packet4 :: "(usize \<Rightarrow> bool) \<Rightarrow> u32 \<Rightarrow> u32 list \<Rightarrow> emission" where
  "packet4 alloc reg vs em =
     andThen (u16_of_len vs) (\<lambda>n. sequence [push_type4 alloc reg n, extend_words alloc vs] em)"

definition packet7 :: "(usize \<Rightarrow> bool) \<Rightarrow> u8 \<Rightarrow> u32 list \<Rightarrow> emission" where
  "packet7 alloc opc vs em =
     andThen (u16_of_len vs) (\<lambda>n. sequence [push_type7 alloc opc n, extend_words alloc vs] em)"

definition wait_for_idle :: "(usize \<Rightarrow> bool) \<Rightarrow> emission" where
  "wait_for_idle alloc = packet7 alloc WAIT_FOR_IDLE []"

section \<open>Accesses and addresses\<close>

text \<open>The merge loop of \<open>record_access\<close> from index \<open>i\<close> on, with the merged range so far.\<close>

function merge_accesses :: "ObjectRef \<Rightarrow> Access \<Rightarrow> ResourceAccess list \<Rightarrow> usize \<Rightarrow> u64 \<Rightarrow> u64 \<Rightarrow>
    (CompileError, ResourceAccess list \<times> u64 \<times> u64) outcome" where
  "merge_accesses obj acc xs i lo hi =
     (if i < length xs then
        let old = xs ! i in
        andThen (ok_or (checked_add (ra_offset old) (ra_size old)) CompileOverflow) (\<lambda>old_end.
        if ra_object old = obj \<and> ra_access old = acc \<and> ra_offset old \<le> hi \<and> lo \<le> old_end
        then merge_accesses obj acc (take i xs @ drop (Suc i) xs) i (min lo (ra_offset old)) (max hi old_end)
        else merge_accesses obj acc xs (Suc i) lo hi)
      else Ok (xs, lo, hi))"
  by pat_completeness auto

termination
  by (relation "measure (\<lambda>(obj, acc, xs, i, lo, hi). length xs - i)") auto

definition record_access :: "(usize \<Rightarrow> bool) \<Rightarrow> ObjectRef \<Rightarrow> u64 \<Rightarrow> u64 \<Rightarrow> Access \<Rightarrow> emission" where
  "record_access alloc obj off sz acc em =
     (case obj of
        CanonicalProgram v \<Rightarrow> Ok em
      | _ \<Rightarrow>
          andThen (ok_or (checked_add off sz) CompileOverflow) (\<lambda>e.
          andThen (merge_accesses obj acc (em_accesses em) 0 off e) (\<lambda>(xs, lo, hi).
          andThen (guard (alloc (length xs + 1)) CompileOutOfMemory) (\<lambda>_.
          andThen (ok_or (checked_sub hi lo) CompileOverflow) (\<lambda>n.
          Ok (em \<lparr> em_accesses := xs @ [\<lparr> ra_object = obj, ra_offset = lo, ra_size = n,
                     ra_access = acc \<rparr>] \<rparr>))))))"

definition u32_of_len :: "'a list \<Rightarrow> (CompileError, u32) outcome" where
  "u32_of_len xs = (if length xs < 2 ^ 32 then Ok (of_nat (length xs)) else Err CompileOverflow)"

text \<open>Two placeholder words with their fixup, shared by \<open>address_words\<close> and
  \<open>texture_descriptor_address\<close>.\<close>

definition placeholder :: "(usize \<Rightarrow> bool) \<Rightarrow> u32 list \<Rightarrow> PlaceholderEncoding \<Rightarrow> ObjectRef \<Rightarrow> u64 \<Rightarrow> u64 \<Rightarrow>
    Access \<Rightarrow> emission" where
  "placeholder alloc ws enc obj off sz acc em =
     andThen (u32_of_len (em_words em)) (\<lambda>at.
     andThen (extend_words alloc ws em) (\<lambda>em.
     andThen (guard (alloc (length (em_fixups em) + 1)) CompileOutOfMemory) (\<lambda>_.
     record_access alloc obj off sz acc
       (em \<lparr> em_fixups := em_fixups em @ [\<lparr> fx_word_offset = at, fx_object = obj,
          fx_object_offset = off, fx_required_size = sz, fx_access = acc, fx_encoding = enc \<rparr>] \<rparr>))))"

definition address_words :: "(usize \<Rightarrow> bool) \<Rightarrow> ObjectRef \<Rightarrow> u64 \<Rightarrow> u64 \<Rightarrow> Access \<Rightarrow> emission" where
  "address_words alloc obj off sz acc = placeholder alloc [0, 0] PlainVa obj off sz acc"

definition address_register :: "(usize \<Rightarrow> bool) \<Rightarrow> u32 \<Rightarrow> ObjectRef \<Rightarrow> u64 \<Rightarrow> u64 \<Rightarrow> Access \<Rightarrow> emission" where
  "address_register alloc reg obj off sz acc =
     sequence [push_type4 alloc reg 2, address_words alloc obj off sz acc]"

definition load_direct :: "(usize \<Rightarrow> bool) \<Rightarrow> u8 \<Rightarrow> u32 \<Rightarrow> u32 \<Rightarrow> u32 \<Rightarrow> u32 list \<Rightarrow> emission" where
  "load_direct alloc opc block state_type units vs em =
     andThen (guard (alloc (3 + length vs)) CompileOutOfMemory) (\<lambda>_.
     packet7 alloc opc
       ([push_bit 14 state_type OR push_bit 18 block OR push_bit 22 units] @ [0, 0] @ vs) em)"

definition preload_shader :: "(usize \<Rightarrow> bool) \<Rightarrow> u8 \<Rightarrow> u32 \<Rightarrow> u32 \<Rightarrow> ShaderVariant \<Rightarrow> emission" where
  "preload_shader alloc opc block units v =
     sequence [push_type7 alloc opc 3,
       push_word alloc (push_bit 16 2 OR push_bit 18 block OR push_bit 22 units),
       address_words alloc (CanonicalProgram v) 0 (of_nat (shader_size v)) ACC_READ]"

definition load_indirect :: "(usize \<Rightarrow> bool) \<Rightarrow> u8 \<Rightarrow> u32 \<Rightarrow> u32 \<Rightarrow> u32 \<Rightarrow> ObjectRef \<Rightarrow> u64 \<Rightarrow> u64 \<Rightarrow> emission" where
  "load_indirect alloc opc block state_type units obj off sz =
     sequence [push_type7 alloc opc 3,
       push_word alloc (push_bit 14 state_type OR push_bit 16 2 OR push_bit 18 block OR push_bit 22 units),
       address_words alloc obj off sz ACC_READ]"

definition add_generated :: "(usize \<Rightarrow> bool) \<Rightarrow> u8 list \<Rightarrow> u64 \<Rightarrow> Access \<Rightarrow> GeneratedObjectKind \<Rightarrow>
    Emitter \<Rightarrow> (CompileError, u32 \<times> Emitter) outcome" where
  "add_generated alloc bs alignment acc kind em =
     andThen (u32_of_len (em_generated em)) (\<lambda>raw.
     andThen (guard (alloc (length bs)) CompileOutOfMemory) (\<lambda>_.
     andThen (guard (alloc (length (em_generated em) + 1)) CompileOutOfMemory) (\<lambda>_.
     Ok (raw, em \<lparr> em_generated := em_generated em @ [\<lparr> gen_id = raw, gen_alignment = alignment,
           gen_bytes = bs, gen_access = acc, gen_kind = kind \<rparr>] \<rparr>))))"

end
