(* ===== verification/Emit_Commands.thy ===== *)
theory Emit_Commands
  imports Emit_Types
begin

text \<open>
  The commands of the emitter (\<open>userspace/sgfx-codegen-adreno-a6xx/src/emit.rs\<close>): texture state,
  draws, cache maintenance, clears, blits, uploads and \<open>finish\<close>. Each method is a definition in the
  order of its calls; \<open>u32\<close> arithmetic wraps as in the release build.
\<close>

section \<open>Field values\<close>

definition pack_xy :: "u32 \<Rightarrow> u32 \<Rightarrow> u32" where
  "pack_xy x y = x OR push_bit 16 y"

definition u32_of_u64 :: "u64 \<Rightarrow> (CompileError, u32) outcome" where
  "u32_of_u64 v = (if unat v < 2 ^ 32 then Ok (ucast v) else Err CompileOverflow)"

definition rect_tl :: "PixelRect \<Rightarrow> u32" where
  "rect_tl r = pack_xy (rect_x r) (rect_y r)"

definition rect_br :: "PixelRect \<Rightarrow> u32" where
  "rect_br r = pack_xy (rect_x r + rect_width r - 1) (rect_y r + rect_height r - 1)"

definition f32_bits :: "float32 \<Rightarrow> u32" where
  "f32_bits v = to_bits v"

definition viewport_transform :: "Viewport \<Rightarrow> u32 list" where
  "viewport_transform v =
     (let half = float_lit 1 1; x_scale = float_mul (vp_width v) half; y_scale = float_mul (vp_height v) half
      in [f32_bits (float_add (vp_x v) x_scale), f32_bits x_scale,
          f32_bits (float_add (vp_y v) y_scale), f32_bits (float_neg y_scale),
          f32_bits (float_mul (float_add (vp_max_depth v) (vp_min_depth v)) half),
          f32_bits (float_mul (float_sub (vp_max_depth v) (vp_min_depth v)) half)])"

definition MAX_GUARDBAND :: u32 where "MAX_GUARDBAND = 0x1ff"

definition guardband_axis :: "float32 \<Rightarrow> float32 \<Rightarrow> u32" where
  "guardband_axis off sc =
     (let scale = float_abs sc;
          minimum = float_div (float_sub (float_lit (- 32768) 0) off) scale;
          maximum = float_div (float_sub (float_lit 32767 0) off) scale;
          adjustment = float_min (float_neg minimum) maximum
      in if float_less adjustment (float_lit 1 0) \<or> \<not> float_is_finite adjustment then MAX_GUARDBAND
         else let bits = to_bits adjustment; exponent = int (unat (drop_bit 23 bits AND 0xff)) - 127
           in if \<not> (0 \<le> exponent \<and> exponent \<le> 7) then MAX_GUARDBAND
              else push_bit 6 (of_int exponent) OR (drop_bit 17 bits AND 0x3f))"

definition guardband_clip_adj :: "Viewport \<Rightarrow> u32" where
  "guardband_clip_adj v =
     (let x_scale = float_mul (vp_width v) (float_lit 1 1); y_scale = float_mul (vp_height v) (float_lit 1 1)
      in guardband_axis (float_add (vp_x v) x_scale) x_scale OR
         push_bit 10 (guardband_axis (float_add (vp_y v) y_scale) y_scale))"

definition unorm8 :: "float32 \<Rightarrow> u32" where
  "unorm8 v = float_as_u32 (float_add (float_mul (float_clamp v (float_lit 0 0) (float_lit 1 0))
     (float_lit 255 0)) (float_lit 1 1))"

section \<open>Texture state\<close>

definition texture_descriptor_prefix :: "Surface \<Rightarrow> (CompileError, u32 list) outcome" where
  "texture_descriptor_prefix t =
     (case sf_nv12 t of
        Some nv12 \<Rightarrow>
          Ok [push_bit 22 0x8e OR 0x6880
                OR (if chroma_x (nv_conversion nv12) = Midpoint then push_bit 16 1 else 0)
                OR (if chroma_y (nv_conversion nv12) = Midpoint then push_bit 18 1 else 0),
              sf_width t OR push_bit 15 (sf_height t),
              push_bit 7 (sf_stride t) OR push_bit 29 1,
              ucast (drop_bit 12 (sf_plane_size t + 4095))]
      | None \<Rightarrow>
          andThen (ok_or (checked_add (sf_array_pitch t) 0xfff) CompileOverflow) (\<lambda>pitch.
          andThen (u32_of_u64 (drop_bit 12 pitch)) (\<lambda>array_pitch.
          Ok [((if sf_alpha_mask t then 0x4c0076d0 else 0x4c006880)
                 AND (if sf_tile_mode t = 0 then - 1 else NOT (push_bit 30 3)))
                OR sf_tile_mode t OR push_bit 16 (sf_mip_levels t - 1),
              sf_width t OR push_bit 15 (sf_height t),
              push_bit 7 (sf_stride t) OR push_bit 29 1 OR (if sf_tile_mode t = 0 then 0 else 2),
              array_pitch])))"

definition texture_descriptor_address :: "(usize \<Rightarrow> bool) \<Rightarrow> Surface \<Rightarrow> emission" where
  "texture_descriptor_address alloc t =
     placeholder alloc [0, push_bit 17 1] DescriptorVa (External (sf_object t)) (sf_plane_offset t)
       (sf_plane_size t) ACC_READ"

definition swap_streams :: "Emitter \<Rightarrow> Emitter" where
  "swap_streams em = em \<lparr> em_words := em_texture_words em, em_texture_words := em_words em,
     em_fixups := em_texture_fixups em, em_texture_fixups := em_fixups em \<rparr>"

definition write_texture_state :: "(usize \<Rightarrow> bool) \<Rightarrow> Surface \<Rightarrow> u32 list \<Rightarrow> u32 \<Rightarrow> emission" where
  "write_texture_state alloc t sampler state em =
     andThen (texture_descriptor_prefix t) (\<lambda>descriptor.
     sequence ([push_type7 alloc CP_MEM_WRITE 22,
         address_words alloc (Generated state) 0 80 ACC_WRITE,
         extend_words alloc descriptor,
         texture_descriptor_address alloc t] @
       (case sf_nv12 t of
          Some nv12 \<Rightarrow> [push_word alloc (push_bit 8 (sf_stride t)),
            address_words alloc (External (sf_object t)) (uv_offset nv12) (uv_size nv12) ACC_READ,
            extend_words alloc (replicate 7 0)]
        | None \<Rightarrow> [extend_words alloc (replicate 10 0)]) @
       [extend_words alloc sampler, packet7 alloc WAIT_MEM_WRITES []]) em)"

definition new_texture_state :: "(usize \<Rightarrow> bool) \<Rightarrow> Surface \<Rightarrow> u32 list \<Rightarrow> Emitter \<Rightarrow>
    (CompileError, u32 \<times> Emitter) outcome" where
  "new_texture_state alloc t sampler em =
     andThen (add_generated alloc (replicate 80 0) 64 (ACC_READ OR ACC_WRITE) TextureState em) (\<lambda>(state, em).
     andThen (write_texture_state alloc t sampler state (swap_streams em)) (\<lambda>em.
     let em = swap_streams em in
     andThen (guard (alloc (length (em_texture_states em) + 1)) CompileOutOfMemory) (\<lambda>_.
     Ok (state, em \<lparr> em_texture_states := em_texture_states em @ [(t, sampler, state)] \<rparr>))))"

definition texture_state_backing :: "(usize \<Rightarrow> bool) \<Rightarrow> Surface \<Rightarrow> u32 list \<Rightarrow> Emitter \<Rightarrow>
    (CompileError, u32 \<times> Emitter) outcome" where
  "texture_state_backing alloc t sampler em =
     andThen (case find (\<lambda>(t', sampler', _). t' = t \<and> sampler' = sampler) (em_texture_states em) of
         Some (_, _, state) \<Rightarrow> Ok (state, em)
       | None \<Rightarrow> new_texture_state alloc t sampler em) (\<lambda>(state, em).
     andThen (sequence
       [address_register alloc SP_PS_SAMPLER_BASE (Generated state) 64 16 ACC_READ,
        address_register alloc SP_PS_TEXMEMOBJ_BASE (Generated state) 0 64 ACC_READ] em) (\<lambda>em.
     Ok (state, em)))"

text \<open>The texture part of both draw routines.\<close>

definition bind_texture :: "(usize \<Rightarrow> bool) \<Rightarrow> Surface \<Rightarrow> u32 list \<Rightarrow> emission" where
  "bind_texture alloc t sampler em =
     andThen (texture_state_backing alloc t sampler em) (\<lambda>(state, em).
     sequence
       [load_indirect alloc CP_LOAD_STATE6_FRAG 4 0 1 (Generated state) 64 16,
        load_indirect alloc CP_LOAD_STATE6_FRAG 4 1 1 (Generated state) 0 64] em)"

section \<open>Cache events and batches\<close>

definition addressed_cache_event :: "(usize \<Rightarrow> bool) \<Rightarrow> u32 \<Rightarrow> emission" where
  "addressed_cache_event alloc event em =
     andThen (case em_ccu_sequence em of
         Some sq \<Rightarrow> Ok (sq, em)
       | None \<Rightarrow> andThen (add_generated alloc (replicate 4 0) 64 ACC_WRITE CcuSequence em) (\<lambda>(sq, em).
           Ok (sq, em \<lparr> em_ccu_sequence := Some sq \<rparr>))) (\<lambda>(sq, em).
     let em = em \<lparr> em_event_sequence := max (em_event_sequence em + 1) 1 \<rparr> in
     sequence [push_type7 alloc EVENT_WRITE 4,
       push_word alloc (event OR EVENT_WRITE_TIMESTAMP),
       address_words alloc (Generated sq) 0 4 ACC_WRITE,
       push_word alloc (em_event_sequence em)] em)"

definition clean_color_cache :: "(usize \<Rightarrow> bool) \<Rightarrow> emission" where
  "clean_color_cache alloc = addressed_cache_event alloc EVENT_CCU_FLUSH_COLOR_TS"

definition invalidate_submission_caches :: "(usize \<Rightarrow> bool) \<Rightarrow> emission" where
  "invalidate_submission_caches alloc = sequence
     [clean_color_cache alloc,
      packet7 alloc EVENT_WRITE [EVENT_CCU_INVALIDATE_COLOR],
      packet7 alloc EVENT_WRITE [EVENT_CACHE_INVALIDATE]]"

definition submission_begin_2d :: "(usize \<Rightarrow> bool) \<Rightarrow> emission" where
  "submission_begin_2d alloc em =
     (if em_draw_batch_active em then Err InvalidState
      else sequence
        [invalidate_submission_caches alloc, wait_for_idle alloc,
         packet4 alloc RB_CCU_CNTL [0x08000000], packet4 alloc RB_DBG_ECO_CNTL [0x04100000],
         packet7 alloc SET_MARKER [12]] em)"

definition restore_3d_baseline :: "(usize \<Rightarrow> bool) \<Rightarrow> emission" where
  "restore_3d_baseline alloc = sequence
     [packet4 alloc SP_UPDATE_CNTL [0x000000ff], wait_for_idle alloc,
      packet4 alloc RB_DBG_ECO_CNTL [0x04100000], packet4 alloc GRAS_SC_CNTL [2],
      packet4 alloc GRAS_LRZ_CNTL [0], packet4 alloc RB_LRZ_CNTL [0],
      packet4 alloc VFD_RENDER_MODE [0], packet4 alloc VFD_MODE_CNTL [3],
      packet4 alloc PC_MODE_CNTL [0x1f], packet4 alloc PC_STEREO_RENDERING_CNTL [0],
      packet4 alloc SP_MODE_CNTL [5], packet4 alloc TPL1_MODE_CNTL [0xa2],
      packet4 alloc RB_MODE_CNTL [0x10], packet4 alloc GRAS_SC_BIN_CNTL [0x00c00000],
      packet4 alloc RB_CNTL [0x00c00000], packet4 alloc RB_BIN_CONTROL2 [0],
      packet4 alloc RB_WINDOW_OFFSET [0], packet4 alloc RB_WINDOW_OFFSET2 [0],
      packet4 alloc SP_WINDOW_OFFSET [0], packet4 alloc TPL1_WINDOW_OFFSET [0],
      packet4 alloc GRAS_SC_SCREEN_SCISSOR_CNTL [0], packet4 alloc VPC_SO_OVERRIDE [0],
      packet7 alloc SET_MARKER [1], packet7 alloc CP_SKIP_IB2_ENABLE_GLOBAL [0],
      packet7 alloc CP_SKIP_IB2_ENABLE_LOCAL [1], packet7 alloc CP_SET_VISIBILITY_OVERRIDE [1],
      packet4 alloc RB_CCU_CNTL [0x08000000]]"

definition submission_begin_3d :: "(usize \<Rightarrow> bool) \<Rightarrow> emission" where
  "submission_begin_3d alloc = sequence [invalidate_submission_caches alloc, restore_3d_baseline alloc]"

definition submission_end :: "(usize \<Rightarrow> bool) \<Rightarrow> emission" where
  "submission_end alloc = sequence
     [addressed_cache_event alloc EVENT_CCU_FLUSH_COLOR_TS,
      addressed_cache_event alloc EVENT_CCU_FLUSH_DEPTH_TS,
      packet7 alloc EVENT_WRITE [EVENT_CCU_INVALIDATE_COLOR],
      packet7 alloc EVENT_WRITE [EVENT_CCU_INVALIDATE_DEPTH],
      wait_for_idle alloc]"

definition begin_draw_batch :: "(usize \<Rightarrow> bool) \<Rightarrow> emission" where
  "begin_draw_batch alloc em =
     (if em_draw_batch_active em then Err InvalidState
      else andThen (submission_begin_3d alloc em) (\<lambda>em.
        Ok (em \<lparr> em_draw_batch_active := True, em_last_draw := None \<rparr>)))"

definition end_draw_batch :: "(usize \<Rightarrow> bool) \<Rightarrow> emission" where
  "end_draw_batch alloc em =
     (if \<not> em_draw_batch_active em then Err InvalidState
      else andThen (submission_end alloc em) (\<lambda>em.
        Ok (em \<lparr> em_draw_batch_active := False, em_last_draw := None \<rparr>)))"

definition continue_draw_batch :: emission where
  "continue_draw_batch em = (if \<not> em_draw_batch_active em then Err InvalidState else Ok em)"

section \<open>Draws\<close>

definition emit_vs :: "(usize \<Rightarrow> bool) \<Rightarrow> VertexMeta \<Rightarrow> LinkMeta \<Rightarrow> emission" where
  "emit_vs alloc vs lk = sequence
     [packet4 alloc SP_VS_CNTL_0 [sp_vs_cntl_0 vs],
      packet4 alloc SP_VS_OUTPUT_CNTL [sp_vs_output_cntl lk],
      packet4 alloc SP_VS_OUTPUT_REG (sp_vs_output_reg lk),
      packet4 alloc SP_VS_VPC_DEST_REG (sp_vs_vpc_dest_reg lk),
      packet4 alloc SP_VS_INSTR_SIZE [sp_vs_instr_size vs],
      packet4 alloc VPC_VARYING_LM_TRANSFER_CNTL_DISABLE (lm_transfer_disable lk),
      packet4 alloc VPC_VS_CNTL [vpc_vs_cntl lk],
      packet4 alloc VPC_VS_CLIP_CULL_CNTL [0x00ffff00],
      packet4 alloc VPC_VS_CLIP_CULL_CNTL_V2 [0x00ffff00],
      packet4 alloc GRAS_CL_VS_CLIP_CULL_DISTANCE [0],
      packet4 alloc VPC_PS_CNTL [vpc_ps_cntl lk],
      packet4 alloc PC_VS_CNTL [pc_vs_cntl lk],
      packet4 alloc VPC_VS_SIV_CNTL [0x0000ffff],
      packet4 alloc VPC_VS_SIV_CNTL_V2 [0x0000ffff],
      packet4 alloc GRAS_SU_VS_SIV_CNTL [0],
      packet4 alloc PC_PS_CNTL [0]]"

definition emit_fs :: "(usize \<Rightarrow> bool) \<Rightarrow> FragmentMeta \<Rightarrow> emission" where
  "emit_fs alloc fs = sequence
     ([packet4 alloc SP_PS_CNTL_0 [sp_ps_cntl_0 fs],
       packet4 alloc SP_PS_INITIAL_TEX_LOAD_CNTL ([initial_tex_load_cntl fs] @ initial_tex_load_cmd fs)] @
      (if initial_tex_load_cmd fs \<noteq> []
       then [packet4 alloc SP_PS_INITIAL_TEX_INDEX_CMD [0], packet4 alloc SP_PS_TSIZE [1]]
       else [packet4 alloc SP_PS_TSIZE [0]]) @
      [packet4 alloc SP_REG_PROG_ID_0 (sp_reg_prog_id fs),
       packet4 alloc SP_PS_OUTPUT_CNTL [sp_ps_output_cntl fs],
       packet4 alloc SP_PS_OUTPUT_REG (sp_ps_output_reg fs),
       packet4 alloc SP_PS_OUTPUT_MASK [sp_ps_output_mask fs],
       packet4 alloc RB_PS_OUTPUT_CNTL [rb_ps_output_cntl fs],
       packet4 alloc RB_PS_OUTPUT_MASK [rb_ps_output_mask fs],
       packet4 alloc SP_PS_INSTR_SIZE [sp_ps_instr_size fs],
       packet4 alloc SP_PS_WAVE_CNTL [sp_ps_wave_cntl fs],
       packet4 alloc SP_LB_PARAM_LIMIT [7],
       packet4 alloc GRAS_CL_INTERP_CNTL [gras_cl_interp_cntl fs],
       packet4 alloc RB_INTERP_CNTL [rb_interp_cntl fs],
       packet4 alloc RB_PS_INPUT_CNTL [rb_ps_input_cntl fs],
       packet4 alloc VPC_VARYING_INTERP_MODE (replicate 8 0),
       packet4 alloc VPC_VARYING_REPLACE_MODE (replicate 8 0),
       packet4 alloc RB_PS_SAMPLEFREQ_CNTL [0],
       packet4 alloc GRAS_LRZ_PS_INPUT_CNTL [0],
       packet4 alloc GRAS_LRZ_PS_SAMPLEFREQ_CNTL [0]])"

definition emit_program_config :: "(usize \<Rightarrow> bool) \<Rightarrow> VertexMeta \<Rightarrow> FragmentMeta \<Rightarrow> emission" where
  "emit_program_config alloc vs fs = sequence
     [packet4 alloc SP_VS_CONST_CONFIG [sp_vs_const_config vs, 0, 0, 0],
      packet4 alloc SP_PS_CONST_CONFIG [sp_ps_const_config fs],
      packet4 alloc SP_VS_CONFIG [sp_vs_config vs],
      packet4 alloc SP_HS_CONFIG [0], packet4 alloc SP_DS_CONFIG [0], packet4 alloc SP_GS_CONFIG [0],
      packet4 alloc SP_PS_CONFIG [sp_ps_config fs],
      packet4 alloc SP_GFX_USIZE [0]]"

fun compare_code :: "CompareFunction \<Rightarrow> u32" where
  "compare_code Never = 0"
| "compare_code Less = 1"
| "compare_code Equal = 2"
| "compare_code LessEqual = 3"
| "compare_code Greater = 4"
| "compare_code NotEqual = 5"
| "compare_code GreaterEqual = 6"
| "compare_code Always = 7"

definition depth_control :: "DepthDrawState \<Rightarrow> u32" where
  "depth_control d =
     (let reads_depth = (dd_compare d \<notin> {Never, Always})
      in 1 OR push_bit 1 (of_bool (dd_write_enabled d)) OR push_bit 2 (compare_code (dd_compare d))
         OR push_bit 6 (of_bool reads_depth))"

definition emit_depth_state :: "(usize \<Rightarrow> bool) \<Rightarrow> DepthDrawState option \<Rightarrow> emission" where
  "emit_depth_state alloc depth em =
     andThen (sequence
       [packet4 alloc RB_ALPHA_TEST_CNTL [0], packet4 alloc RB_STENCIL_CNTL [0],
        packet4 alloc GRAS_SU_STENCIL_CNTL [0], packet4 alloc RB_STENCIL_REF_CNTL [0],
        packet4 alloc RB_STENCIL_MASK [0, 0], packet4 alloc RB_DEPTH_PLANE_CNTL [0],
        packet4 alloc GRAS_SU_DEPTH_PLANE_CNTL [0],
        packet4 alloc RB_DEPTH_BOUND_MIN [0, f32_bits (float_lit 1 0)],
        packet4 alloc RB_STENCIL_BUFFER_INFO [0]] em) (\<lambda>em.
     case depth of
       None \<Rightarrow> sequence
         [packet4 alloc RB_DEPTH_CNTL [0], packet4 alloc GRAS_SU_DEPTH_CNTL [0],
          packet4 alloc RB_DEPTH_BUFFER_INFO (replicate 6 0),
          packet4 alloc GRAS_SU_DEPTH_BUFFER_INFO [0]] em
     | Some d \<Rightarrow>
         andThen (sequence
           [packet4 alloc RB_DEPTH_CNTL [depth_control d], packet4 alloc GRAS_SU_DEPTH_CNTL [1],
            packet4 alloc RB_DEPTH_FLAG_BUFFER_BASE (replicate 3 0),
            push_type4 alloc RB_DEPTH_BUFFER_INFO 6] em) (\<lambda>em.
         andThen (u32_of_u64 (drop_bit 6 (sf_plane_size (dd_target d)))) (\<lambda>layers.
         sequence
           [extend_words alloc [DEPTH_FORMAT_32, drop_bit 6 (sf_stride (dd_target d)), layers],
            address_words alloc (External (sf_object (dd_target d))) (sf_plane_offset (dd_target d))
              (sf_plane_size (dd_target d)) (ACC_READ OR ACC_WRITE),
            push_word alloc 0,
            packet4 alloc GRAS_SU_DEPTH_BUFFER_INFO [DEPTH_FORMAT_32]] em)))"

definition emit_single_sample_state :: "(usize \<Rightarrow> bool) \<Rightarrow> emission" where
  "emit_single_sample_state alloc = sequence
     [packet4 alloc TPL1_RAS_MSAA_CNTL [0, 4], packet4 alloc GRAS_SC_RAS_MSAA_CNTL [0, 4, 0],
      packet4 alloc RB_RAS_MSAA_CNTL [0, 4, 0], packet4 alloc TPL1_MSAA_SAMPLE_POS_CNTL [0],
      packet4 alloc RB_RESOLVE_GMEM_BUFFER_INFO [0]]"

definition emit_shader_program_layout :: "(usize \<Rightarrow> bool) \<Rightarrow> u32 \<Rightarrow> ShaderVariant \<Rightarrow> emission" where
  "emit_shader_program_layout alloc first_exec_register v = sequence
     [push_type4 alloc first_exec_register 7, push_word alloc 0,
      address_words alloc (CanonicalProgram v) 0 (of_nat (shader_size v)) ACC_READ,
      extend_words alloc (replicate 4 0)]"

definition emit_vs_program :: "(usize \<Rightarrow> bool) \<Rightarrow> VertexMeta \<Rightarrow> ShaderVariant \<Rightarrow> emission" where
  "emit_vs_program alloc vs v = sequence
     [emit_shader_program_layout alloc SP_VS_PROGRAM_COUNTER_OFFSET v,
      packet4 alloc SP_VS_PVT_MEM_STACK_OFFSET [0],
      preload_shader alloc CP_LOAD_STATE6_GEOM 8 (sp_vs_instr_size vs) v]"

definition emit_fs_program :: "(usize \<Rightarrow> bool) \<Rightarrow> FragmentMeta \<Rightarrow> ShaderVariant \<Rightarrow> emission" where
  "emit_fs_program alloc fs v = sequence
     [emit_shader_program_layout alloc SP_PS_PROGRAM_COUNTER_OFFSET v,
      packet4 alloc SP_PS_PVT_MEM_STACK_OFFSET [0],
      preload_shader alloc CP_LOAD_STATE6_FRAG 12 (sp_ps_instr_size fs) v]"

text \<open>Viewports compare by their components as \<open>f32\<close> values: zeros are equal, a NaN is not.\<close>

definition float_eq :: "float32 \<Rightarrow> float32 \<Rightarrow> bool" where
  "float_eq x y = f32_eq (float_value x) (float_value y)"

definition viewport_eq :: "Viewport \<Rightarrow> Viewport \<Rightarrow> bool" where
  "viewport_eq a b \<longleftrightarrow> float_eq (vp_x a) (vp_x b) \<and> float_eq (vp_y a) (vp_y b) \<and>
     float_eq (vp_width a) (vp_width b) \<and> float_eq (vp_height a) (vp_height b) \<and>
     float_eq (vp_min_depth a) (vp_min_depth b) \<and> float_eq (vp_max_depth a) (vp_max_depth b)"

definition fixed_draw_state_matches :: "DrawState \<Rightarrow> DrawState \<Rightarrow> bool" where
  "fixed_draw_state_matches a b \<longleftrightarrow>
     dr_variant a = dr_variant b \<and> dr_target a = dr_target b \<and> dr_area a = dr_area b \<and>
     viewport_eq (dr_viewport a) (dr_viewport b) \<and> dr_stride a = dr_stride b \<and>
     dr_attributes a = dr_attributes b \<and> dr_source_over a = dr_source_over b \<and>
     dr_cull a = dr_cull b \<and> dr_depth a = dr_depth b"

text \<open>The parts both draw routines share, in their order: vertex buffer, constants, texture, draw.\<close>

definition vertex_origin :: "DrawCall \<Rightarrow> u32" where
  "vertex_origin c = (case c of NonIndexed fv n \<Rightarrow> fv | Indexed ix \<Rightarrow> ix_base_vertex ix)"

definition emit_vertex_buffer :: "(usize \<Rightarrow> bool) \<Rightarrow> DrawState \<Rightarrow> emission" where
  "emit_vertex_buffer alloc d em =
     andThen (sequence
       [packet4 alloc VFD_INDEX_OFFSET [vertex_origin (dr_draw d), 0],
        address_register alloc VFD_VERTEX_BUFFER_BASE (External (dr_vertex d)) (dr_vertex_offset d)
          (dr_vertex_size d) ACC_READ] em) (\<lambda>em.
     andThen (u32_of_u64 (dr_vertex_size d)) (\<lambda>n.
     packet4 alloc VFD_VERTEX_BUFFER_SIZE [n, dr_stride d] em))"

definition emit_constants :: "(usize \<Rightarrow> bool) \<Rightarrow> DrawState \<Rightarrow> emission" where
  "emit_constants alloc d =
     (let n = (case dr_texture d of Some t \<Rightarrow> (if sf_nv12 t \<noteq> None then 8 else 5) | None \<Rightarrow> 5) :: u32
      in sequence
        [load_direct alloc CP_LOAD_STATE6_GEOM 8 1 5 (take 20 (dr_uniforms d)),
         load_direct alloc CP_LOAD_STATE6_FRAG 12 1 n (take (unat n * 4) (dr_uniforms d))])"

definition emit_draw_call :: "(usize \<Rightarrow> bool) \<Rightarrow> DrawCall \<Rightarrow> emission" where
  "emit_draw_call alloc c =
     (case c of
        NonIndexed fv n \<Rightarrow> packet7 alloc CP_DRAW_INDX_OFFSET [0x84, 1, n]
      | Indexed ix \<Rightarrow> sequence
          [push_type7 alloc CP_DRAW_INDX_OFFSET 7,
           extend_words alloc [case ix_format ix of Uint16 \<Rightarrow> 0x404 | Uint32 \<Rightarrow> 0x804, 1,
             ix_index_count ix, ix_first_index ix],
           address_words alloc (External (ix_index ix)) (ix_index_offset ix) (ix_index_size ix) ACC_READ,
           push_word alloc (ix_max_indices ix)])"

definition draw_with_retained_fixed_state :: "(usize \<Rightarrow> bool) \<Rightarrow> DrawState \<Rightarrow> emission" where
  "draw_with_retained_fixed_state alloc d em =
     andThen (sequence
       [packet4 alloc GRAS_SC_WINDOW_SCISSOR_TL [rect_tl (dr_scissor d), rect_br (dr_scissor d)],
        emit_vertex_buffer alloc d, emit_constants alloc d] em) (\<lambda>em.
     let texture_changed = (case em_last_draw em of None \<Rightarrow> True
           | Some prev \<Rightarrow> dr_texture prev \<noteq> dr_texture d \<or> dr_sampler prev \<noteq> dr_sampler d) in
     andThen (case dr_texture d of
         Some t \<Rightarrow> if texture_changed then bind_texture alloc t (dr_sampler d) em else Ok em
       | None \<Rightarrow> Ok em) (\<lambda>em.
     emit_draw_call alloc (dr_draw d) em))"

definition emit_target_state :: "(usize \<Rightarrow> bool) \<Rightarrow> DrawState \<Rightarrow> emission" where
  "emit_target_state alloc d em =
     andThen (sequence
       [packet7 alloc CP_REG_WRITE [2, RB_RENDER_CNTL, 0x10],
        packet4 alloc RB_MRT_CONTROL [if dr_source_over d then 0x7e3 else 0x7e0,
          if dr_source_over d then 0x07010706 else 0x00010001],
        packet4 alloc RB_MRT_BUF_INFO [FORMAT_8_8_8_8_UNORM OR push_bit 8 (sf_tile_mode (dr_target d))
          OR (if sf_tile_mode (dr_target d) = 0 then MRT_BGRA_COLOR_SWAP else 0)]] em) (\<lambda>em.
     andThen (u32_of_u64 (drop_bit 6 (sf_plane_size (dr_target d)))) (\<lambda>layers.
     sequence
       [packet4 alloc RB_MRT_PITCH [drop_bit 6 (sf_stride (dr_target d)), layers],
        address_register alloc RB_MRT_BASE (External (sf_object (dr_target d)))
          (sf_plane_offset (dr_target d)) (sf_plane_size (dr_target d)) ACC_WRITE,
        packet4 alloc RB_MRT_BASE_GMEM [0], packet4 alloc RB_COLOR_FLAG_BUFFER_ADDR (replicate 3 0),
        packet4 alloc GRAS_LRZ_MRT_BUFFER_INFO_0 [FORMAT_8_8_8_8_UNORM],
        packet4 alloc RB_SRGB_CNTL [0], packet4 alloc SP_SRGB_CNTL [0],
        packet4 alloc GRAS_CL_ARRAY_SIZE [0],
        packet4 alloc RB_BLEND_CNTL [if dr_source_over d then 0xffff0001 else 0xffff0000],
        packet4 alloc SP_BLEND_CNTL [if dr_source_over d then 1 else 0],
        packet4 alloc RB_DITHER_CNTL [0], packet4 alloc SP_PS_MRT_CNTL [1],
        packet4 alloc RB_PS_MRT_CNTL [1], packet4 alloc SP_PS_MRT_REG [FORMAT_8_8_8_8_UNORM],
        emit_depth_state alloc (dr_depth d), emit_single_sample_state alloc] em))"

definition emit_raster_state :: "(usize \<Rightarrow> bool) \<Rightarrow> DrawState \<Rightarrow> emission" where
  "emit_raster_state alloc d = sequence
     [packet4 alloc GRAS_CL_VIEWPORT_XOFFSET (viewport_transform (dr_viewport d)),
      packet4 alloc GRAS_CL_GUARDBAND_CLIP_ADJ [guardband_clip_adj (dr_viewport d)],
      packet4 alloc GRAS_SC_SCREEN_SCISSOR_TL [rect_tl (dr_area d), rect_br (dr_area d)],
      packet4 alloc GRAS_SC_VIEWPORT_SCISSOR_TL
        [pack_xy 0 0, pack_xy (sf_width (dr_target d) - 1) (sf_height (dr_target d) - 1)],
      packet4 alloc GRAS_SC_WINDOW_SCISSOR_TL [rect_tl (dr_scissor d), rect_br (dr_scissor d)],
      packet4 alloc GRAS_CL_CNTL [0x80], packet4 alloc GRAS_SU_CNTL [0x2010 OR dr_cull d],
      packet4 alloc GRAS_SU_POINT_MINMAX [0x00100010], packet4 alloc GRAS_SU_POINT_SIZE [0x10],
      packet4 alloc GRAS_SU_POLY_OFFSET_SCALE [0, 0, 0], packet4 alloc PC_CNTL [0],
      packet4 alloc VPC_RAST_CNTL [3], packet4 alloc PC_DGEN_RAST_CNTL [3]]"

definition fetch_words :: "(u32 \<times> u32) list \<Rightarrow> u32 list" where
  "fetch_words attributes =
     concat (map (\<lambda>(fmt, off). [0xc0000000 OR push_bit 20 fmt OR push_bit 5 off, 1]) attributes)"

definition full_draw :: "(usize \<Rightarrow> bool) \<Rightarrow> DrawState \<Rightarrow> VertexMeta \<Rightarrow> FragmentMeta \<Rightarrow> LinkMeta \<Rightarrow> emission" where
  "full_draw alloc d vs fs lk = sequence
     [emit_program_config alloc vs fs, emit_target_state alloc d, emit_raster_state alloc d,
      packet4 alloc VFD_CNTL_0 [of_nat (length (dr_attributes d)) OR push_bit 8 (of_nat (length (dr_attributes d)))],
      packet4 alloc VFD_CNTL_1 (vfd_cntl_1_6 vs),
      emit_vertex_buffer alloc d,
      packet4 alloc VFD_FETCH_INSTR (fetch_words (dr_attributes d)),
      packet4 alloc VFD_DEST_CNTL (vfd_dest_cntl vs),
      emit_vs alloc vs lk, emit_fs alloc fs, emit_vs_program alloc vs (link_vs lk),
      emit_fs_program alloc fs (link_fs lk), emit_constants alloc d,
      (case dr_texture d of Some t \<Rightarrow> bind_texture alloc t (dr_sampler d) | None \<Rightarrow> Ok),
      emit_draw_call alloc (dr_draw d)]"

definition draw :: "(usize \<Rightarrow> bool) \<Rightarrow> DrawState \<Rightarrow> emission" where
  "draw alloc d em =
     (if \<not> em_draw_batch_active em then Err InvalidState
      else if (case em_last_draw em of Some prev \<Rightarrow> fixed_draw_state_matches prev d | None \<Rightarrow> False)
      then andThen (draw_with_retained_fixed_state alloc d em) (\<lambda>em. Ok (em \<lparr> em_last_draw := Some d \<rparr>))
      else case (shader_meta (link_vs (link_meta (dr_variant d))), shader_meta (link_fs (link_meta (dr_variant d)))) of
          (Vertex vs, Fragment fs) \<Rightarrow>
            andThen (full_draw alloc d vs fs (link_meta (dr_variant d)) em) (\<lambda>em.
              Ok (em \<lparr> em_last_draw := Some d \<rparr>))
        | _ \<Rightarrow> Err InvalidPm4)"

section \<open>Clears, blits and copies\<close>

definition emit_coordinates :: "(usize \<Rightarrow> bool) \<Rightarrow> PixelRect \<Rightarrow> PixelRect option \<Rightarrow> emission" where
  "emit_coordinates alloc dest scissor =
     (let sc = (case scissor of Some r \<Rightarrow> r | None \<Rightarrow> dest)
      in sequence
        [packet4 alloc GRAS_A2D_DEST_TL [rect_tl dest, rect_br dest],
         packet4 alloc GRAS_A2D_SCISSOR_TL [rect_tl sc, rect_br sc]])"

definition emit_a2d_common :: "(usize \<Rightarrow> bool) \<Rightarrow> u32 \<Rightarrow> u32 \<Rightarrow> bool \<Rightarrow> bool \<Rightarrow> emission" where
  "emit_a2d_common alloc format ifmt solid_fill scissor =
     (let control = push_bit 8 format OR BLIT_CHANNEL_MASK
            OR (if solid_fill then BLIT_SOLID_COLOR else 0)
            OR (if scissor then BLIT_SCISSOR else 0) OR push_bit 24 ifmt
      in sequence
        [packet4 alloc RB_A2D_BLT_CNTL [control], packet4 alloc GRAS_A2D_BLT_CNTL [control],
         packet4 alloc SP_A2D_OUTPUT_INFO [push_bit 3 format OR push_bit 12 0xf],
         packet4 alloc RB_A2D_PIXEL_CNTL [0]])"

definition emit_destination :: "(usize \<Rightarrow> bool) \<Rightarrow> Surface \<Rightarrow> u32 \<Rightarrow> u32 \<Rightarrow> emission" where
  "emit_destination alloc target format color_swap = sequence
     [packet4 alloc RB_A2D_DEST_BUFFER_INFO [format OR push_bit 8 (sf_tile_mode target)
        OR (if sf_tile_mode target = 0 then color_swap else 0)],
      address_register alloc RB_A2D_DEST_BUFFER_BASE (External (sf_object target)) (sf_plane_offset target)
        (sf_plane_size target) ACC_WRITE,
      packet4 alloc RB_A2D_DEST_BUFFER_PITCH [drop_bit 6 (sf_stride target)]]"

definition emit_blit :: "(usize \<Rightarrow> bool) \<Rightarrow> emission" where
  "emit_blit alloc = sequence [wait_for_idle alloc, packet7 alloc BLIT [3], wait_for_idle alloc]"

definition clear_words :: "Color \<Rightarrow> u32 list" where
  "clear_words c = (case c of (r, g, b, a) \<Rightarrow> [unorm8 r, unorm8 g, unorm8 b, unorm8 a])"

definition emit_clear :: "(usize \<Rightarrow> bool) \<Rightarrow> Surface \<Rightarrow> PixelRect \<Rightarrow> Color \<Rightarrow> emission" where
  "emit_clear alloc target area color = sequence
     [submission_begin_2d alloc, wait_for_idle alloc, emit_coordinates alloc area None,
      packet4 alloc RB_A2D_CLEAR_COLOR_DW0 (clear_words color),
      emit_a2d_common alloc FORMAT_8_8_8_8_UNORM 0 True True,
      emit_destination alloc target FORMAT_8_8_8_8_UNORM A2D_BGRA_COLOR_SWAP,
      emit_blit alloc, submission_end alloc]"

definition depth_value_ok :: "float32 \<Rightarrow> bool" where
  "depth_value_ok v \<longleftrightarrow> float_is_finite v \<and> float_le (float_lit 0 0) v \<and> float_le v (float_lit 1 0)"

definition clear_depth :: "(usize \<Rightarrow> bool) \<Rightarrow> Surface \<Rightarrow> PixelRect \<Rightarrow> float32 \<Rightarrow> emission" where
  "clear_depth alloc target area depth em =
     (if \<not> depth_value_ok depth then Err InvalidResource
      else sequence
        [submission_begin_2d alloc, wait_for_idle alloc, emit_coordinates alloc area None,
         packet4 alloc RB_A2D_CLEAR_COLOR_DW0 [to_bits depth, 0, 0, 0],
         emit_a2d_common alloc FORMAT_32_FLOAT A2D_IFMT_FLOAT32 True True,
         emit_destination alloc target FORMAT_32_FLOAT 0,
         emit_blit alloc, submission_end alloc] em)"

definition clear_color_and_depth :: "(usize \<Rightarrow> bool) \<Rightarrow> Surface \<Rightarrow> Surface \<Rightarrow> PixelRect \<Rightarrow> Color \<Rightarrow> float32 \<Rightarrow> emission" where
  "clear_color_and_depth alloc target depth_target area color depth em =
     (if \<not> depth_value_ok depth then Err InvalidResource
      else sequence
        [submission_begin_2d alloc, emit_coordinates alloc area None,
         packet4 alloc RB_A2D_CLEAR_COLOR_DW0 [to_bits depth, 0, 0, 0],
         emit_a2d_common alloc FORMAT_32_FLOAT A2D_IFMT_FLOAT32 True True,
         emit_destination alloc depth_target FORMAT_32_FLOAT 0,
         emit_blit alloc,
         emit_coordinates alloc area None,
         packet4 alloc RB_A2D_CLEAR_COLOR_DW0 (clear_words color),
         emit_a2d_common alloc FORMAT_8_8_8_8_UNORM 0 True True,
         emit_destination alloc target FORMAT_8_8_8_8_UNORM A2D_BGRA_COLOR_SWAP,
         emit_blit alloc, submission_end alloc] em)"

fun rotation_code :: "bool \<times> bool \<Rightarrow> u32" where
  "rotation_code (False, False) = 0"
| "rotation_code (True, False) = 4"
| "rotation_code (False, True) = 5"
| "rotation_code (True, True) = 2"

definition blit :: "(usize \<Rightarrow> bool) \<Rightarrow> Surface \<Rightarrow> PixelRect \<Rightarrow> Surface \<Rightarrow> PixelRect \<Rightarrow> FilterMode \<Rightarrow> bool \<times> bool \<Rightarrow> emission" where
  "blit alloc src src_rect dest dest_rect flt flips em =
     (if sf_tile_mode src \<noteq> 0 then Err UnsupportedFeature
      else
        let rotation = rotation_code flips;
            control = push_bit 8 FORMAT_8_8_8_8_UNORM OR BLIT_CHANNEL_MASK OR BLIT_SCISSOR OR rotation
        in sequence
          ([submission_begin_2d alloc, wait_for_idle alloc,
            packet4 alloc GRAS_A2D_SRC_XMIN
              [push_bit 8 (rect_x src_rect), push_bit 8 (rect_x src_rect + rect_width src_rect - 1),
               push_bit 8 (rect_y src_rect), push_bit 8 (rect_y src_rect + rect_height src_rect - 1)],
            emit_coordinates alloc dest_rect None,
            emit_a2d_common alloc FORMAT_8_8_8_8_UNORM 0 False True] @
           (if rotation \<noteq> 0
            then [packet4 alloc RB_A2D_BLT_CNTL [control], packet4 alloc GRAS_A2D_BLT_CNTL [control]]
            else []) @
           [packet4 alloc TPL1_A2D_SRC_TEXTURE_INFO
              [FORMAT_8_8_8_8_UNORM OR A2D_BGRA_COLOR_SWAP OR SOURCE_TEXTURE_REQUIRED
                 OR (if flt = Linear then push_bit 16 1 else 0)],
            packet4 alloc TPL1_A2D_SRC_TEXTURE_SIZE [sf_width src OR push_bit 15 (sf_height src)],
            address_register alloc TPL1_A2D_SRC_TEXTURE_BASE (External (sf_object src)) (sf_plane_offset src)
              (sf_plane_size src) ACC_READ,
            packet4 alloc TPL1_A2D_SRC_TEXTURE_PITCH [push_bit 9 (drop_bit 6 (sf_stride src))],
            emit_destination alloc dest FORMAT_8_8_8_8_UNORM A2D_BGRA_COLOR_SWAP,
            emit_blit alloc, submission_end alloc]) em)"

definition emit_copy :: "(usize \<Rightarrow> bool) \<Rightarrow> Surface \<Rightarrow> PixelRect \<Rightarrow> Surface \<Rightarrow> PixelRect \<Rightarrow> emission" where
  "emit_copy alloc src src_rect dest dest_rect =
     blit alloc src src_rect dest dest_rect Nearest (False, False)"

section \<open>Uploads\<close>

lemma copy_chunk_progress:
  assumes "(a :: u32) < b" and "checked_add a (min (b - a) CP_MEMCPY_MAX_DWORDS) = Some c"
  shows "unat b - unat c < unat b - unat a"
proof -
  have "unat (b - a) = unat b - unat a" using assms(1) by (simp add: unat_sub less_imp_le)
  moreover have "0 < unat b - unat a" using assms(1) by (simp add: word_less_nat_alt)
  ultimately have "0 < unat (min (b - a) CP_MEMCPY_MAX_DWORDS)"
    by (auto simp: min_def CP_MEMCPY_MAX_DWORDS_def unat_gt_0)
  with checked_add_SomeD(1) [OF assms(2)] assms(1) show ?thesis by (simp add: word_less_nat_alt)
qed

text \<open>The copy loop of \<open>copy_upload\<close>; every round copies at least one dword.\<close>

function copy_chunks :: "(usize \<Rightarrow> bool) \<Rightarrow> u32 \<Rightarrow> u64 \<Rightarrow> u32 \<Rightarrow> u64 \<Rightarrow> u32 \<Rightarrow> u32 \<Rightarrow> emission" where
  "copy_chunks alloc gen src_off dest dest_off limit copied em =
     (if copied < limit then
        let chunk = min (limit - copied) CP_MEMCPY_MAX_DWORDS in
        andThen (ok_or (checked_mul (ucast copied) 4) CompileOverflow) (\<lambda>chunk_off.
        andThen (ok_or (checked_mul (ucast chunk) 4) CompileOverflow) (\<lambda>chunk_size.
        andThen (ok_or (checked_add dest_off chunk_off) CompileOverflow) (\<lambda>chunk_dest.
        andThen (sequence [push_type7 alloc CP_MEMCPY 5, push_word alloc chunk] em) (\<lambda>em.
        andThen (ok_or (checked_add src_off chunk_off) CompileOverflow) (\<lambda>chunk_src.
        andThen (sequence
          [address_words alloc (Generated gen) chunk_src chunk_size ACC_READ,
           address_words alloc (External dest) chunk_dest chunk_size ACC_WRITE,
           packet7 alloc WAIT_MEM_WRITES []] em) (\<lambda>em.
        case checked_add copied chunk of
          None \<Rightarrow> Err CompileOverflow
        | Some next_copied \<Rightarrow> copy_chunks alloc gen src_off dest dest_off limit next_copied em))))))
      else Ok em)"
  by pat_completeness auto

termination
  by (relation "measure (\<lambda>(alloc, gen, src_off, dest, dest_off, limit, copied, em). unat limit - unat copied)")
    (auto simp: copy_chunk_progress)

declare copy_chunks.simps [simp del]

definition copy_upload :: "(usize \<Rightarrow> bool) \<Rightarrow> u32 \<Rightarrow> u64 \<Rightarrow> usize \<Rightarrow> u32 \<Rightarrow> u64 \<Rightarrow> u64 \<Rightarrow> emission" where
  "copy_upload alloc gen src_off sz dest dest_off dest_required em =
     (if sz > unat dest_required then Err OutOfBounds
      else if \<not> sz div 4 < 2 ^ 32 then Err CompileOverflow
      else copy_chunks alloc gen src_off dest dest_off (of_nat (sz div 4)) 0 em)"

definition upload_buffer :: "(usize \<Rightarrow> bool) \<Rightarrow> u32 \<Rightarrow> u64 \<Rightarrow> u64 \<Rightarrow> u8 list \<Rightarrow> emission" where
  "upload_buffer alloc dest dest_off dest_required bs em =
     (if bs = [] \<or> length bs mod 4 \<noteq> 0 \<or> dest_off AND 3 \<noteq> 0 then Err UnsupportedFeature
      else andThen (add_generated alloc bs 64 ACC_READ Upload em) (\<lambda>(gen, em).
        copy_upload alloc gen 0 (length bs) dest dest_off dest_required em))"

definition upload_row :: "(usize \<Rightarrow> bool) \<Rightarrow> u32 \<Rightarrow> u32 \<Rightarrow> u64 \<Rightarrow> u32 \<Rightarrow> usize \<Rightarrow> Emitter \<Rightarrow> usize \<Rightarrow>
    (CompileError, Emitter) outcome" where
  "upload_row alloc gen dest dest_off dest_stride row_bytes em row =
     andThen (ok_or (checked_mul (of_nat row) (ucast dest_stride)) CompileOverflow) (\<lambda>n.
     andThen (ok_or (checked_add dest_off n) CompileOverflow) (\<lambda>off.
     copy_upload alloc gen (of_nat (row * row_bytes)) row_bytes dest off (of_nat row_bytes) em))"

definition upload_rows :: "(usize \<Rightarrow> bool) \<Rightarrow> u32 \<Rightarrow> u64 \<Rightarrow> u32 \<Rightarrow> usize \<Rightarrow> u8 list \<Rightarrow> emission" where
  "upload_rows alloc dest dest_off dest_stride row_bytes bs em =
     (if row_bytes = 0 \<or> row_bytes mod 4 \<noteq> 0 \<or> length bs mod row_bytes \<noteq> 0 then Err InvalidResource
      else
        andThen (u32_of_len (em_generated em)) (\<lambda>gen.
        andThen (guard (alloc (length (em_generated em) + 1)) CompileOutOfMemory) (\<lambda>_.
        foldM (upload_row alloc gen dest dest_off dest_stride row_bytes)
          (em \<lparr> em_generated := em_generated em @ [\<lparr> gen_id = gen, gen_alignment = 64, gen_bytes = bs,
             gen_access = ACC_READ, gen_kind = Upload \<rparr>] \<rparr>)
          [0..<length bs div row_bytes])))"

section \<open>Finish\<close>

definition shift_fixup :: "u32 \<Rightarrow> SymbolicAddress list \<Rightarrow> SymbolicAddress \<Rightarrow>
    (CompileError, SymbolicAddress list) outcome" where
  "shift_fixup prefix_len out fx =
     andThen (ok_or (checked_add (fx_word_offset fx) prefix_len) CompileOverflow) (\<lambda>off.
     Ok (out @ [fx \<lparr> fx_word_offset := off \<rparr>]))"

text \<open>The texture prologue moves in front of the draw stream, whose fixups shift.\<close>

definition prepend_textures :: "(usize \<Rightarrow> bool) \<Rightarrow> emission" where
  "prepend_textures alloc em =
     (if em_texture_words em = [] then Ok em
      else
        andThen (sequence [packet7 alloc EVENT_WRITE [EVENT_CACHE_INVALIDATE], wait_for_idle alloc]
          (swap_streams em)) (\<lambda>em.
        andThen (u32_of_len (em_words em)) (\<lambda>prefix_len.
        andThen (guard (alloc (length (em_words em) + length (em_texture_words em))) CompileOutOfMemory) (\<lambda>_.
        andThen (guard (alloc (length (em_fixups em) + length (em_texture_fixups em))) CompileOutOfMemory) (\<lambda>_.
        andThen (foldM (shift_fixup prefix_len) (em_fixups em) (em_texture_fixups em)) (\<lambda>fxs.
        Ok (em \<lparr> em_words := em_words em @ em_texture_words em, em_texture_words := [],
                 em_fixups := fxs, em_texture_fixups := [] \<rparr>)))))))"

definition check_fixup :: "u32 list \<Rightarrow> usize option \<Rightarrow> SymbolicAddress \<Rightarrow> (CompileError, usize option) outcome" where
  "check_fixup ws previous_end fx =
     andThen (ok_or (checked_add (fx_word_offset fx) (fixup_word_count (fx_encoding fx))) CompileOverflow) (\<lambda>e.
     let start = unat (fx_word_offset fx) in
     if (case previous_end of Some off \<Rightarrow> off > start | None \<Rightarrow> False) then Err InvalidPm4
     else if unat e > length ws then Err InvalidPm4
     else andThen (slice ws start (unat e)) (\<lambda>body.
       if \<not> placeholder_valid (fx_encoding fx) body then Err InvalidPm4 else Ok (Some (unat e))))"

definition emit_finish :: "(usize \<Rightarrow> bool) \<Rightarrow> Emitter \<Rightarrow> (CompileError, RelocatablePm4) outcome" where
  "emit_finish alloc em =
     (if em_draw_batch_active em then Err InvalidState
      else
        andThen (prepend_textures alloc em) (\<lambda>em.
        andThen (foldM (check_fixup (em_words em)) None (em_fixups em)) (\<lambda>_.
        Ok \<lparr> rp_words = em_words em, rp_fixups = em_fixups em, rp_accesses = em_accesses em,
             rp_generated_objects = em_generated em \<rparr>)))"

end
