(* ===== verification/Emit_Passes.thy ===== *)
theory Emit_Passes
  imports Order_Rules Emit_Commands
begin

text \<open>
  The two logics in which the streams of the code generator are verified. The contract
  \<open>triple P f Q\<close> says that the emitting method \<open>f\<close>, started in an emitter that satisfies \<open>P\<close>, does not
  panic and leaves one that satisfies \<open>Q\<close>. \<open>passes s xs s'\<close> says that the packets \<open>xs\<close> take the
  ordering passes of the kernel's validator (\<open>Submit_Order\<close>) from state \<open>s\<close> to state \<open>s'\<close>, whatever
  follows; the lemmas give this for every kind of packet group the code generator writes.
\<close>

section \<open>Contracts of emitting methods\<close>

definition triple :: "(Emitter \<Rightarrow> bool) \<Rightarrow> emission \<Rightarrow> (Emitter \<Rightarrow> bool) \<Rightarrow> bool" where
  "triple P f Q \<longleftrightarrow> (\<forall>em. P em \<longrightarrow> ensures (f em) Q)"

named_theorems emit_rules "contracts of emitting methods"

lemma tripleI: "(\<And>em. P em \<Longrightarrow> ensures (f em) Q) \<Longrightarrow> triple P f Q"
  by (simp add: triple_def)

lemma tripleD: "triple P f Q \<Longrightarrow> P em \<Longrightarrow> ensures (f em) Q"
  by (simp add: triple_def)

lemma triple_Nil: "triple P (sequence []) P"
  by (simp add: triple_def ensures_simps)

lemma triple_Cons: "triple P f Q \<Longrightarrow> triple Q (sequence fs) R \<Longrightarrow> triple P (sequence (f # fs)) R"
  unfolding triple_def by (auto simp: ensures_simps intro: ensures_mono)

lemma triple_one: "triple P f Q \<Longrightarrow> triple P (sequence [f]) Q"
  by (rule triple_Cons [OF _ triple_Nil])

lemma triple_post: "triple P f Q \<Longrightarrow> (\<And>em. Q em \<Longrightarrow> R em) \<Longrightarrow> triple P f R"
  unfolding triple_def by (auto intro: ensures_mono)

lemma triple_pre: "triple Q f R \<Longrightarrow> (\<And>em. P em \<Longrightarrow> Q em) \<Longrightarrow> triple P f R"
  by (auto simp: triple_def)

lemma triple_append:
  "triple P (sequence fs) Q \<Longrightarrow> triple Q (sequence gs) R \<Longrightarrow> triple P (sequence (fs @ gs)) R"
proof (induction fs arbitrary: P)
  case Nil
  then show ?case by (auto simp: triple_def ensures_simps)
next
  case (Cons f fs)
  have "triple (\<lambda>em'. ensures (sequence fs em') Q) (sequence (fs @ gs)) R"
    by (rule Cons.IH [OF _ Cons.prems(2)]) (simp add: triple_def)
  moreover have "triple P f (\<lambda>em'. ensures (sequence fs em') Q)"
    using Cons.prems(1) by (simp add: triple_def ensures_simps)
  ultimately show ?case unfolding append_Cons by (blast intro: triple_Cons)
qed

lemma triple_Ok: "triple P Ok P"
  by (simp add: triple_def ensures_simps)

lemma triple_bind:
  "triple P f Q \<Longrightarrow> (\<And>em. Q em \<Longrightarrow> ensures (g em) R) \<Longrightarrow> triple P (\<lambda>em. andThen (f em) g) R"
  unfolding triple_def by (auto simp: ensures_simps intro: ensures_mono)

section \<open>Packets\<close>

type_synonym hp = "Header \<times> u32 list"

definition hp_of :: "packet \<Rightarrow> hp" where
  "hp_of p = (pkt_header p, payload p)"

inductive encodes :: "hp list \<Rightarrow> u32 list \<Rightarrow> bool" where
  no_packet: "encodes [] []"
| one_packet: "decode_header h = Ok hdr \<Longrightarrow> length pl = unat (count hdr) \<Longrightarrow> encodes hps ws \<Longrightarrow>
    encodes ((hdr, pl) # hps) (h # pl @ ws)"

lemma encodes_append: "encodes xs ws \<Longrightarrow> encodes ys vs \<Longrightarrow> encodes (xs @ ys) (ws @ vs)"
proof (induction rule: encodes.induct)
  case (one_packet h hdr pl hps ws)
  then show ?case using encodes.one_packet [of h hdr pl "hps @ ys" "ws @ vs"] by simp
qed simp

lemma encodes_framed:
  "encodes hps ws \<Longrightarrow> \<exists>ps. framed off ps ws \<and> map hp_of ps = hps"
proof (induction arbitrary: off rule: encodes.induct)
  case (one_packet h hdr pl hps ws)
  obtain ps where ps: "framed (off + 1 + unat (count hdr)) ps ws" "map hp_of ps = hps"
    using one_packet.IH by blast
  let ?p = "\<lparr> pkt_header = hdr, payload = pl, word_offset = of_nat off \<rparr>"
  have "framed off (?p # ps) (h # pl @ ws)" using one_packet.hyps ps(1) by simp
  moreover have "map hp_of (?p # ps) = (hdr, pl) # hps" using ps(2) by (simp add: hp_of_def)
  ultimately show ?case by (intro exI conjI)
qed simp

section \<open>The state of the ordering passes\<close>

text \<open>The state after a packet list: whether a write barrier is due, the cache transition, and the
  arguments of the retirement loop.\<close>

type_synonym pass_state = "bool \<times> Transition \<times> bool \<times> bool \<times> bool"

definition passes :: "pass_state \<Rightarrow> hp list \<Rightarrow> pass_state \<Rightarrow> bool" where
  "passes s hps s' \<longleftrightarrow> (\<forall>ps. map hp_of ps = hps \<longrightarrow>
     (case (s, s') of ((w, c, pd, pc, sb), (w', c', pd', pc', sb')) \<Rightarrow>
        foldM memcpy_barrier_step w ps = Ok w' \<and> foldM ccu_step c ps = Ok c' \<and>
        (\<forall>rest. retirement_loop pd pc sb (ps @ rest) = retirement_loop pd' pc' sb' rest)))"

lemma passes_Nil: "passes s [] s"
  by (simp add: passes_def split: prod.splits)

lemma passes_append:
  assumes "passes s xs t" and "passes t ys u"
  shows "passes s (xs @ ys) u"
proof -
  obtain w c pd pc sb where s: "s = (w, c, pd, pc, sb)" by (cases s)
  obtain w' c' pd' pc' sb' where t: "t = (w', c', pd', pc', sb')" by (cases t)
  obtain w'' c'' pd'' pc'' sb'' where u: "u = (w'', c'', pd'', pc'', sb'')" by (cases u)
  show ?thesis
    unfolding passes_def s u prod.case
  proof (intro allI impI)
    fix ps assume "map hp_of ps = xs @ ys"
    then obtain qs rs where ps: "ps = qs @ rs" "map hp_of qs = xs" "map hp_of rs = ys"
      by (auto simp: map_eq_append_conv)
    have q: "foldM memcpy_barrier_step w qs = Ok w'" "foldM ccu_step c qs = Ok c'"
      "\<And>rest. retirement_loop pd pc sb (qs @ rest) = retirement_loop pd' pc' sb' rest"
      using assms(1) ps(2) by (simp_all add: passes_def s t)
    have r: "foldM memcpy_barrier_step w' rs = Ok w''" "foldM ccu_step c' rs = Ok c''"
      "\<And>rest. retirement_loop pd' pc' sb' (rs @ rest) = retirement_loop pd'' pc'' sb'' rest"
      using assms(2) ps(3) by (simp_all add: passes_def t u)
    show "foldM memcpy_barrier_step w ps = Ok w'' \<and> foldM ccu_step c ps = Ok c'' \<and>
        (\<forall>rest. retirement_loop pd pc sb (ps @ rest) = retirement_loop pd'' pc'' sb'' rest)"
      using q r by (simp add: ps(1) foldM_append)
  qed
qed

definition calm :: "bool \<Rightarrow> bool \<Rightarrow> bool \<Rightarrow> pass_state" where
  "calm pd pc sb = (False, Idle, pd, pc, sb)"

text \<open>Packets that leave all passes alone.\<close>

fun neutral :: "hp \<Rightarrow> bool" where
  "neutral (Type4 reg n, pl) \<longleftrightarrow> reg \<noteq> 0x8c00"
| "neutral (Type7 opc n, pl) \<longleftrightarrow> opc \<notin> {0x75, 0x3d, 0x38, 0x2c} \<and> (opc = 0x46 \<longrightarrow> n = 1 \<and> pl = [0x31])"

lemmas pass_defs = opcode_defs cp_opcode_defs Submit_Registers.RB_A2D_BLT_CNTL_def
  Submit_Registers.EVENT_CCU_FLUSH_COLOR_TS_def Submit_Registers.EVENT_CCU_FLUSH_DEPTH_TS_def
  Submit_Registers.EVENT_CCU_INVALIDATE_COLOR_def Submit_Registers.EVENT_CCU_INVALIDATE_DEPTH_def

lemma neutral_facts:
  assumes "neutral (hp_of p)"
  shows neutral_no_write: "\<not> is_memory_write (pkt_header p)"
    and neutral_no_draw: "\<not> is_draw p" and neutral_no_blit: "\<not> is_blit p"
    and neutral_no_address: "\<not> is_addressed_event p e"
    and neutral_no_event: "\<not> is_ccu_event p"
    and neutral_keeps_mode: "solid_blit_after sb p = Ok sb"
proof -
  show "\<not> is_memory_write (pkt_header p)" "\<not> is_draw p" "\<not> is_blit p"
    using assms
    by (cases "pkt_header p"; simp add: hp_of_def is_memory_write_def is_draw_def is_blit_def pass_defs)+
  show address: "\<not> is_addressed_event p e" for e
    using assms by (cases "pkt_header p") (auto simp: hp_of_def is_addressed_event_def pass_defs)
  show "solid_blit_after sb p = Ok sb"
    using assms by (cases "pkt_header p") (auto simp: hp_of_def solid_blit_after_def pass_defs)
  have "\<not> is_plain_event p e" if "e \<noteq> 0x31" for e
    using assms that by (cases "pkt_header p") (auto simp: hp_of_def is_plain_event_def pass_defs)
  then show "\<not> is_ccu_event p"
    using address by (simp add: is_ccu_event_def pass_defs)
qed

lemma neutral_passes:
  assumes "neutral x" and "pc \<longrightarrow> clear_batch_allows (fst x)"
  shows "passes (calm pd pc sb) [x] (calm pd pc sb)"
proof -
  have "foldM memcpy_barrier_step False [p] = Ok False \<and> foldM ccu_step Idle [p] = Ok Idle \<and>
      (\<forall>rest. retirement_loop pd pc sb (p # rest) = retirement_loop pd pc sb rest)"
    if p: "hp_of p = x" for p
  proof -
    have n: "neutral (hp_of p)" and allow: "pc \<longrightarrow> clear_batch_allows (pkt_header p)"
      using assms p by (auto simp: hp_of_def)
    note f = neutral_facts [OF n]
    have "\<not> is_sysmem_retirement (take 5 (p # rest))" for rest
      using f(4) by (simp add: is_sysmem_retirement_def)
    then show ?thesis
      using f allow by (auto simp: memcpy_barrier_step_eq ccu_step_cases)
  qed
  then show ?thesis by (auto simp: passes_def calm_def map_eq_Cons_conv)
qed


text \<open>Packets the passes react to.\<close>

definition addressed :: "u32 \<Rightarrow> hp \<Rightarrow> bool" where
  "addressed e x \<longleftrightarrow> (\<exists>sq. x = (Type7 0x46 4, [e OR 0x40000000, 0, 0, sq]))"

definition plain :: "u32 \<Rightarrow> hp \<Rightarrow> bool" where
  "plain e x \<longleftrightarrow> x = (Type7 0x46 1, [e])"

definition idle_wait :: "hp \<Rightarrow> bool" where
  "idle_wait x \<longleftrightarrow> x = (Type7 0x26 0, [])"

definition retirement :: "(hp \<Rightarrow> bool) list" where
  "retirement = [addressed 0x1d, addressed 0x1c, plain 0x19, plain 0x18, idle_wait]"

lemma addressed_event: "addressed e (hp_of p) \<Longrightarrow> is_addressed_event p e"
  by (auto simp: addressed_def hp_of_def is_addressed_event_def pass_defs Submit_Registers.EVENT_WRITE_TIMESTAMP_def)

lemma plain_event: "plain e (hp_of p) \<Longrightarrow> is_plain_event p e"
  by (auto simp: plain_def hp_of_def is_plain_event_def pass_defs)

lemma idle_wait_wfi: "idle_wait (hp_of p) \<Longrightarrow> is_wfi p"
  by (auto simp: idle_wait_def hp_of_def is_wfi_def pass_defs)

lemma event_facts:
  fixes p :: packet
  assumes "is_addressed_event p e \<or> is_plain_event p e \<or> is_wfi p"
  shows "\<not> is_memory_write (pkt_header p)" "\<not> is_draw p" "\<not> is_blit p" "solid_blit_after sb p = Ok sb"
  using assms
  by (cases "pkt_header p"; auto simp: is_addressed_event_def is_plain_event_def is_wfi_def
      is_memory_write_def is_draw_def is_blit_def solid_blit_after_def pass_defs)+

lemma list_all2_two: "list_all2 P [a, b] xs \<longleftrightarrow> (\<exists>x y. xs = [x, y] \<and> P a x \<and> P b y)"
  by (auto simp: list_all2_Cons1)

lemma draw_passes: "passes (calm pd False sb) [(Type7 0x38 n, pl)] (calm True False sb)"
proof -
  have "foldM memcpy_barrier_step False [p] = Ok False \<and> foldM ccu_step Idle [p] = Ok Idle \<and>
      (\<forall>rest. retirement_loop pd False sb (p # rest) = retirement_loop True False sb rest)"
    if p: "hp_of p = (Type7 0x38 n, pl)" for p
  proof -
    have h: "pkt_header p = Type7 0x38 n" using p by (simp add: hp_of_def)
    have "\<not> is_addressed_event p e" "\<not> is_plain_event p e" for e
      using h by (simp_all add: is_addressed_event_def is_plain_event_def pass_defs)
    moreover have "is_draw p" "\<not> is_memory_write (pkt_header p)" "solid_blit_after sb p = Ok sb"
      using h by (simp_all add: is_draw_def is_memory_write_def solid_blit_after_def pass_defs)
    ultimately show ?thesis
      by (auto simp: memcpy_barrier_step_eq ccu_step_cases is_ccu_event_def is_sysmem_retirement_def)
  qed
  then show ?thesis by (auto simp: passes_def calm_def map_eq_Cons_conv)
qed

lemma write_passes:
  assumes "opc \<in> {0x75, 0x3d}"
  shows "passes (calm pd False sb) [(Type7 opc n, pl), (Type7 0x12 0, [])] (calm pd False sb)"
proof -
  have "foldM memcpy_barrier_step False [p, q] = Ok False \<and> foldM ccu_step Idle [p, q] = Ok Idle \<and>
      (\<forall>rest. retirement_loop pd False sb (p # q # rest) = retirement_loop pd False sb rest)"
    if p: "hp_of p = (Type7 opc n, pl)" and q: "hp_of q = (Type7 0x12 0, [])" for p q
  proof -
    have h: "pkt_header p = Type7 opc n" "pkt_header q = Type7 0x12 0" "payload q = []"
      using p q by (simp_all add: hp_of_def)
    have "\<not> is_addressed_event p e" "\<not> is_plain_event p e" "\<not> is_addressed_event q e" "\<not> is_plain_event q e" for e
      using h assms by (auto simp: is_addressed_event_def is_plain_event_def pass_defs)
    moreover have "\<not> is_draw p" "\<not> is_draw q" "\<not> is_blit p" "\<not> is_blit q" "is_memory_write (pkt_header p)"
      "is_write_barrier q" "solid_blit_after sb p = Ok sb" "solid_blit_after sb q = Ok sb"
      using h assms
      by (auto simp: is_draw_def is_blit_def is_memory_write_def is_write_barrier_def solid_blit_after_def pass_defs)
    ultimately show ?thesis
      by (auto simp: memcpy_barrier_step_eq ccu_step_cases is_ccu_event_def is_sysmem_retirement_def)
  qed
  then show ?thesis by (auto simp: passes_def calm_def map_eq_Cons_conv)
qed

lemma clean_passes:
  assumes "list_all2 (\<lambda>P x. P x) [addressed 0x1d, plain 0x19] xs"
  shows "passes (calm pd False sb) xs (calm pd False sb)"
proof -
  from assms obtain x y where xs: "xs = [x, y]" "addressed 0x1d x" "plain 0x19 y"
    by (auto simp: list_all2_two)
  have "foldM memcpy_barrier_step False [p, q] = Ok False \<and> foldM ccu_step Idle [p, q] = Ok Idle \<and>
      (\<forall>rest. retirement_loop pd False sb (p # q # rest) = retirement_loop pd False sb rest)"
    if p: "hp_of p = x" and q: "hp_of q = y" for p q
  proof -
    have e: "is_addressed_event p 0x1d" "is_plain_event q 0x19"
      using xs p q addressed_event plain_event by blast+
    have no: "\<not> is_addressed_event q a" for a
      using e(2) ccu_events_disjoint(2) by blast
    have "\<not> is_addressed_event p 0x1c"
      using e(1) ccu_events_disjoint(1) [of p] by (simp add: pass_defs)
    moreover note event_facts [OF disjI1 [OF e(1)]] event_facts [OF disjI2 [OF disjI1 [OF e(2)]]]
    ultimately show ?thesis
      using e no
      by (auto simp: memcpy_barrier_step_eq ccu_step_cases is_sysmem_retirement_def pass_defs)
  qed
  then show ?thesis by (auto simp: passes_def calm_def map_eq_Cons_conv xs(1))
qed


lemma list_all2_five:
  "list_all2 P [a, b, c, d, e] xs \<longleftrightarrow>
   (\<exists>v w x y z. xs = [v, w, x, y, z] \<and> P a v \<and> P b w \<and> P c x \<and> P d y \<and> P e z)"
  by (auto simp: list_all2_Cons1)

text \<open>Five packets of the retirement: what the passes see of them.\<close>

lemma retirement_packets:
  assumes "list_all2 (\<lambda>P x. P x) retirement (map hp_of ps)"
  obtains a b c d e where "ps = [a, b, c, d, e]" "is_addressed_event a 0x1d" "is_addressed_event b 0x1c"
    "is_plain_event c 0x19" "is_plain_event d 0x18" "is_wfi e" "is_sysmem_retirement ps"
proof -
  from assms obtain a b c d e where ps: "ps = [a, b, c, d, e]"
    and ev: "is_addressed_event a 0x1d" "is_addressed_event b 0x1c"
      "is_plain_event c 0x19" "is_plain_event d 0x18" "is_wfi e"
    unfolding retirement_def list_all2_map2 list_all2_five
    by (blast dest: addressed_event plain_event idle_wait_wfi)
  moreover have "is_sysmem_retirement ps"
    using ev by (simp add: ps is_sysmem_retirement_def pass_defs numeral_eq_Suc)
  ultimately show ?thesis using that by blast
qed

lemma retirement_folds:
  assumes "list_all2 (\<lambda>P x. P x) retirement (map hp_of ps)"
  shows "foldM memcpy_barrier_step False ps = Ok False" "foldM ccu_step Idle ps = Ok Idle"
proof -
  from assms obtain a b c d e where ps: "ps = [a, b, c, d, e]"
    and ev: "is_addressed_event a 0x1d" "is_addressed_event b 0x1c"
      "is_plain_event c 0x19" "is_plain_event d 0x18" "is_wfi e"
    by (rule retirement_packets)
  have w: "\<not> is_memory_write (pkt_header x)" if "x \<in> {a, b, c, d, e}" for x
    using that ev event_facts(1) by blast
  then show "foldM memcpy_barrier_step False ps = Ok False"
    by (simp add: ps memcpy_barrier_step_eq)
  have "\<not> is_ccu_event e"
    using ev(5) by (auto simp: is_ccu_event_def is_wfi_def is_addressed_event_def is_plain_event_def
        pass_defs split: Header.splits)
  moreover have "\<not> is_addressed_event e 0x1d"
    using ev(5) by (auto simp: is_wfi_def is_addressed_event_def pass_defs split: Header.splits)
  ultimately show "foldM ccu_step Idle ps = Ok Idle"
    using ev by (simp add: ps ccu_step_cases pass_defs)
qed

lemma retirement_passes:
  assumes "list_all2 (\<lambda>P x. P x) retirement xs" and "pc \<longrightarrow> pd \<or> pc"
  shows "passes (calm pd pc sb) xs (calm False False sb)"
proof -
  have "retirement_loop pd pc sb (ps @ rest) = retirement_loop False False sb rest"
    if xs: "map hp_of ps = xs" for ps rest
  proof -
    from assms(1) xs obtain a b c d e where ps: "ps = [a, b, c, d, e]"
      and ev: "is_addressed_event a 0x1d" "is_addressed_event b 0x1c"
        "is_plain_event c 0x19" "is_plain_event d 0x18" "is_wfi e" and r: "is_sysmem_retirement ps"
      using retirement_packets [of ps] by blast
    have f: "\<not> is_draw x \<and> \<not> is_blit x \<and> solid_blit_after sb x = Ok sb" if "x \<in> {a, b, c, d, e}" for x
      using that ev event_facts(2,3,4) by blast
    show ?thesis
    proof (cases "pd \<or> pc")
      case True
      then show ?thesis using r by (simp add: ps)
    next
      case False
      then show ?thesis using f by (simp add: ps)
    qed
  qed
  then show ?thesis
    using retirement_folds assms(1) by (auto simp: passes_def calm_def)
qed


lemma control_passes:
  "passes (calm pd pc sb) [(Type4 0x8c00 n, [w])] (calm pd pc (w AND 0x80 \<noteq> 0))"
proof -
  have "foldM memcpy_barrier_step False [p] = Ok False \<and> foldM ccu_step Idle [p] = Ok Idle \<and>
      (\<forall>rest. retirement_loop pd pc sb (p # rest) = retirement_loop pd pc (w AND 0x80 \<noteq> 0) rest)"
    if p: "hp_of p = (Type4 0x8c00 n, [w])" for p
  proof -
    have h: "pkt_header p = Type4 0x8c00 n" "payload p = [w]" using p by (simp_all add: hp_of_def)
    have "\<not> is_addressed_event p e" "\<not> is_plain_event p e" for e
      using h by (simp_all add: is_addressed_event_def is_plain_event_def)
    moreover have "\<not> is_draw p" "\<not> is_blit p" "\<not> is_memory_write (pkt_header p)"
      "solid_blit_after sb p = Ok (w AND 0x80 \<noteq> 0)" "clear_batch_allows (pkt_header p)"
      using h by (simp_all add: is_draw_def is_blit_def is_memory_write_def solid_blit_after_def
          index_def clear_batch_allows_def pass_defs)
    ultimately show ?thesis
      by (auto simp: memcpy_barrier_step_eq ccu_step_cases is_ccu_event_def is_sysmem_retirement_def)
  qed
  then show ?thesis by (auto simp: passes_def calm_def map_eq_Cons_conv)
qed

lemma blit_facts:
  assumes "hp_of p = (Type7 0x2c n, pl)"
  shows "is_blit p" "\<not> is_draw p" "\<not> is_memory_write (pkt_header p)" "solid_blit_after sb p = Ok sb"
    "\<not> is_addressed_event p e" "\<not> is_ccu_event p" "clear_batch_allows (pkt_header p)"
proof -
  have h: "pkt_header p = Type7 0x2c n" using assms by (simp add: hp_of_def)
  show "is_blit p" "\<not> is_draw p" "\<not> is_memory_write (pkt_header p)" "solid_blit_after sb p = Ok sb"
    "\<not> is_addressed_event p e" "clear_batch_allows (pkt_header p)"
    using h by (simp_all add: is_draw_def is_blit_def is_memory_write_def solid_blit_after_def
        is_addressed_event_def clear_batch_allows_def pass_defs)
  show "\<not> is_ccu_event p"
    using h by (simp add: is_ccu_event_def is_addressed_event_def is_plain_event_def pass_defs)
qed

lemma wfi_facts:
  assumes "is_wfi p"
  shows "\<not> is_memory_write (pkt_header p)" "\<not> is_addressed_event p e" "\<not> is_ccu_event p"
  using assms
  by (cases "pkt_header p"; simp add: is_wfi_def is_memory_write_def is_addressed_event_def
      is_ccu_event_def is_plain_event_def pass_defs)+

text \<open>A fill blit with its wait leaves a clear to retire.\<close>

lemma fill_passes:
  assumes "idle_wait y"
  shows "passes (calm False pc True) [(Type7 0x2c n, pl), y] (calm False True True)"
proof -
  have "foldM memcpy_barrier_step False [p, q] = Ok False \<and> foldM ccu_step Idle [p, q] = Ok Idle \<and>
      (\<forall>rest. retirement_loop False pc True (p # q # rest) = retirement_loop False True True rest)"
    if p: "hp_of p = (Type7 0x2c n, pl)" and q: "hp_of q = y" for p q
  proof -
    have w: "is_wfi q" using assms q idle_wait_wfi by blast
    have "\<not> is_sysmem_retirement (p # rest)" for rest
      using blit_facts(5) [OF p] by (simp add: is_sysmem_retirement_def)
    then show ?thesis
      using blit_facts [OF p] wfi_facts [OF w] w
      by (simp add: memcpy_barrier_step_eq ccu_step_cases)
  qed
  then show ?thesis by (auto simp: passes_def calm_def map_eq_Cons_conv)
qed

text \<open>A sampled blit with its wait must be retired at once.\<close>

lemma sampled_passes:
  assumes y: "idle_wait y" and xs: "list_all2 (\<lambda>P x. P x) retirement xs"
  shows "passes (calm False False False) ((Type7 0x2c n, pl) # y # xs) (calm False False False)"
proof -
  have "foldM memcpy_barrier_step False (p # q # ps) = Ok False \<and> foldM ccu_step Idle (p # q # ps) = Ok Idle \<and>
      (\<forall>rest. retirement_loop False False False (p # q # ps @ rest) = retirement_loop False False False rest)"
    if p: "hp_of p = (Type7 0x2c n, pl)" and q: "hp_of q = y" and ps: "map hp_of ps = xs" for p q ps
  proof -
    have w: "is_wfi q" using y q idle_wait_wfi by blast
    have r: "list_all2 (\<lambda>P x. P x) retirement (map hp_of ps)" using xs ps by simp
    from r obtain a b c d e where l: "ps = [a, b, c, d, e]" and ret: "is_sysmem_retirement ps"
      by (rule retirement_packets)
    have "\<not> is_sysmem_retirement (p # rest)" for rest
      using blit_facts(5) [OF p] by (simp add: is_sysmem_retirement_def)
    then have "retirement_loop False False False (p # q # ps @ rest) = retirement_loop False False False rest"
      for rest
      using blit_facts [OF p] w ret by (simp add: l get_range_def numeral_eq_Suc)
    then show ?thesis
      using blit_facts [OF p] wfi_facts [OF w] retirement_folds [OF r]
      by (simp add: memcpy_barrier_step_eq ccu_step_cases)
  qed
  then show ?thesis by (auto simp: passes_def calm_def map_eq_Cons_conv)
qed

end
