(* ===== verification/Emit_Rules.thy ===== *)
theory Emit_Rules
  imports Emit_Passes
begin

text \<open>
  What every command stream of the emitter satisfies, whatever sequence of commands it was asked for.
  \<open>emitting\<close> is the invariant: the words written so far are whole packets followed by at most one
  open packet; the kernel's three ordering passes are in a known state after them; the placeholders
  are in order and zero; every placeholder is covered by a recorded access, and every generated
  object it names exists and is large enough.
\<close>

section \<open>The invariant\<close>

text \<open>The words of a stream: packets the passes have absorbed, packets matching the patterns \<open>pats\<close>
  that are still to be absorbed, and the packet being written.\<close>

definition stream_ok :: "pass_state \<Rightarrow> (hp \<Rightarrow> bool) list \<Rightarrow> u32 list \<Rightarrow> bool" where
  "stream_ok s pats ws \<longleftrightarrow> (\<exists>hps tl. encodes (hps @ tl) ws \<and> passes (calm False False False) hps s \<and>
     list_all2 (\<lambda>P x. P x) pats tl)"

fun open_packet :: "hp option \<Rightarrow> pass_state \<Rightarrow> (hp \<Rightarrow> bool) list \<Rightarrow> u32 list \<Rightarrow> bool" where
  "open_packet None s pats ws \<longleftrightarrow> stream_ok s pats ws"
| "open_packet (Some (hdr, pl)) s pats ws \<longleftrightarrow>
     (\<exists>w0 h. ws = w0 @ h # pl \<and> stream_ok s pats w0 \<and> decode_header h = Ok hdr \<and>
        length pl \<le> unat (count hdr))"

definition fixup_end :: "SymbolicAddress \<Rightarrow> nat" where
  "fixup_end f = unat (fx_word_offset f) + 2"

definition fixups_ok :: "u32 list \<Rightarrow> SymbolicAddress list \<Rightarrow> bool" where
  "fixups_ok ws fs \<longleftrightarrow> sorted_wrt (\<lambda>a b. fixup_end a \<le> unat (fx_word_offset b)) fs \<and>
     (\<forall>f \<in> set fs. fixup_end f \<le> length ws \<and>
        placeholder_valid (fx_encoding f) (take 2 (drop (unat (fx_word_offset f)) ws)))"

definition access_ok :: "ResourceAccess \<Rightarrow> bool" where
  "access_ok a \<longleftrightarrow> unat (ra_offset a) + unat (ra_size a) < 2 ^ 64"

definition covers :: "ResourceAccess \<Rightarrow> SymbolicAddress \<Rightarrow> bool" where
  "covers a f \<longleftrightarrow> ra_object a = fx_object f \<and> ra_access a = fx_access f \<and>
     unat (ra_offset a) \<le> unat (fx_object_offset f) \<and>
     unat (fx_object_offset f) + unat (fx_required_size f) \<le> unat (ra_offset a) + unat (ra_size a)"

text \<open>Every placeholder of an object is covered; programs of the shader pack need no access.\<close>

definition covered :: "ResourceAccess list \<Rightarrow> SymbolicAddress \<Rightarrow> bool" where
  "covered accs f \<longleftrightarrow> (\<exists>v. fx_object f = CanonicalProgram v) \<or> (\<exists>a \<in> set accs. covers a f)"

definition in_object :: "GeneratedObject list \<Rightarrow> SymbolicAddress \<Rightarrow> bool" where
  "in_object gs f \<longleftrightarrow> (\<forall>g. fx_object f = Generated g \<longrightarrow> unat g < length gs \<and>
     unat (fx_object_offset f) + unat (fx_required_size f) \<le> length (gen_bytes (gs ! unat g)))"

definition objects_ok :: "Emitter \<Rightarrow> bool" where
  "objects_ok em \<longleftrightarrow>
     (\<forall>i < length (em_generated em). gen_id (em_generated em ! i) = of_nat i) \<and>
     length (em_generated em) \<le> 2 ^ 32 \<and>
     (\<forall>g. em_ccu_sequence em = Some g \<longrightarrow>
        unat g < length (em_generated em) \<and> length (gen_bytes (em_generated em ! unat g)) = 4) \<and>
     (\<forall>t sm g. (t, sm, g) \<in> set (em_texture_states em) \<longrightarrow>
        unat g < length (em_generated em) \<and> length (gen_bytes (em_generated em ! unat g)) = 80)"

definition fixups_covered :: "Emitter \<Rightarrow> SymbolicAddress list \<Rightarrow> bool" where
  "fixups_covered em fs \<longleftrightarrow>
     (\<forall>f \<in> set fs. covered (em_accesses em) f \<and> in_object (em_generated em) f)"

text \<open>The index \<open>b\<close> holds the draw batch flag and the word budget; \<open>gs\<close> fixes the generated objects, or leaves them open.\<close>

definition emitting :: "bool \<times> usize \<Rightarrow> GeneratedObject list option \<Rightarrow> pass_state \<Rightarrow> pass_state \<Rightarrow>
    (hp \<Rightarrow> bool) list \<Rightarrow> hp option \<Rightarrow> Emitter \<Rightarrow> bool" where
  "emitting b gs s t pats cur em \<longleftrightarrow>
     em_draw_batch_active em = fst b \<and> em_max_words em = snd b \<and> (\<forall>xs. gs = Some xs \<longrightarrow> em_generated em = xs) \<and>
     open_packet cur s pats (em_words em) \<and> stream_ok t [] (em_texture_words em) \<and>
     fixups_ok (em_words em) (em_fixups em) \<and> fixups_ok (em_texture_words em) (em_texture_fixups em) \<and>
     fixups_covered em (em_fixups em) \<and> fixups_covered em (em_texture_fixups em) \<and>
     list_all access_ok (em_accesses em) \<and> objects_ok em \<and> em_max_words em < 2 ^ 32 \<and>
     length (em_words em) + length (em_texture_words em) \<le> em_max_words em"

text \<open>The invariant between two packets: nothing open, nothing due, in the main or in the texture
  stream.\<close>

abbreviation settled :: "bool \<times> usize \<Rightarrow> GeneratedObject list option \<Rightarrow> bool \<Rightarrow> bool \<Rightarrow> bool \<Rightarrow> Emitter \<Rightarrow> bool" where
  "settled b gs pd pc sb \<equiv> emitting b gs (calm pd pc sb) (calm False False False) [] None"

section \<open>Words\<close>

lemma fixups_ok_append: "fixups_ok ws fs \<Longrightarrow> fixups_ok (ws @ vs) fs"
  by (auto simp: fixups_ok_def fixup_end_def)

lemma reserve_words_Ok:
  assumes "reserve_words alloc n em = Ok u"
  shows "length (em_words em) + length (em_texture_words em) + n \<le> em_max_words em"
  using assms
  by (auto simp: reserve_words_def usize_checked_add_def bind_eq_Some_conv outcome_simps
      split: option.splits if_splits)

lemma reserve_words_no_panic: "reserve_words alloc n em \<noteq> Panic"
  by (auto simp: reserve_words_def split: option.splits)

lemma extend_words_ensures:
  "(\<And>u. length (em_words em) + length (em_texture_words em) + length vs \<le> em_max_words em \<Longrightarrow>
      Q (em \<lparr> em_words := em_words em @ vs \<rparr>)) \<Longrightarrow> ensures (extend_words alloc vs em) Q"
  using reserve_words_Ok [of alloc "length vs" em] reserve_words_no_panic [of alloc "length vs" em]
  by (auto simp: extend_words_def ensures_def outcome_simps)

lemma push_word_extend: "push_word alloc w = extend_words alloc [w]"
  by (simp add: push_word_def extend_words_def fun_eq_iff)

text \<open>Growing the stream: the other parts of the invariant are not concerned.\<close>

lemma emitting_grow:
  assumes "emitting b gs s t pats cur em" and "open_packet cur' s pats' (em_words em @ vs)"
    and "length (em_words em) + length (em_texture_words em) + length vs \<le> em_max_words em"
  shows "emitting b gs s t pats' cur' (em \<lparr> em_words := em_words em @ vs \<rparr>)"
  using assms
  by (auto simp: emitting_def fixups_ok_append fixups_covered_def objects_ok_def)

lemma extend_open:
  assumes "length pl + length vs \<le> unat (count hdr)"
  shows "triple (emitting b gs s t pats (Some (hdr, pl))) (extend_words alloc vs)
           (emitting b gs s t pats (Some (hdr, pl @ vs)))"
proof (rule tripleI, rule extend_words_ensures)
  fix em :: Emitter
  assume em: "emitting b gs s t pats (Some (hdr, pl)) em"
    and n: "length (em_words em) + length (em_texture_words em) + length vs \<le> em_max_words em"
  have "open_packet (Some (hdr, pl @ vs)) s pats (em_words em @ vs)"
    using em assms by (auto simp: emitting_def)
  then show "emitting b gs s t pats (Some (hdr, pl @ vs)) (em \<lparr> em_words := em_words em @ vs \<rparr>)"
    using emitting_grow [OF em _ n] by blast
qed

lemma open_type4:
  "triple (emitting b gs s t pats None) (push_type4 alloc reg n) (emitting b gs s t pats (Some (Type4 reg n, [])))"
proof (rule tripleI)
  fix em assume em: "emitting b gs s t pats None em"
  show "ensures (push_type4 alloc reg n em) (emitting b gs s t pats (Some (Type4 reg n, [])))"
    unfolding push_type4_def push_word_extend ensures_andThen ensures_map_err
  proof (rule ensures_mono [where P = "\<lambda>h. type4 reg n = Ok h"])
    show "ensures (type4 reg n) (\<lambda>h. type4 reg n = Ok h)"
      by (simp add: ensures_def type4_def Let_def)
  next
    fix h assume h: "type4 reg n = Ok h"
    show "ensures (extend_words alloc [h] em) (emitting b gs s t pats (Some (Type4 reg n, [])))"
    proof (rule extend_words_ensures)
      assume len: "length (em_words em) + length (em_texture_words em) + length [h] \<le> em_max_words em"
      have "open_packet (Some (Type4 reg n, [])) s pats (em_words em @ [h])"
        using em type4_decodes [OF h] by (auto simp: emitting_def)
      then show "emitting b gs s t pats (Some (Type4 reg n, [])) (em \<lparr> em_words := em_words em @ [h] \<rparr>)"
        using emitting_grow [OF em _ len] by blast
    qed
  qed
qed

lemma open_type7:
  "triple (emitting b gs s t pats None) (push_type7 alloc opc n) (emitting b gs s t pats (Some (Type7 opc n, [])))"
proof (rule tripleI)
  fix em assume em: "emitting b gs s t pats None em"
  show "ensures (push_type7 alloc opc n em) (emitting b gs s t pats (Some (Type7 opc n, [])))"
    unfolding push_type7_def push_word_extend ensures_andThen ensures_map_err
  proof (rule ensures_mono [where P = "\<lambda>h. type7 opc n = Ok h"])
    show "ensures (type7 opc n) (\<lambda>h. type7 opc n = Ok h)"
      by (simp add: ensures_def type7_def Let_def)
  next
    fix h assume h: "type7 opc n = Ok h"
    show "ensures (extend_words alloc [h] em) (emitting b gs s t pats (Some (Type7 opc n, [])))"
    proof (rule extend_words_ensures)
      assume len: "length (em_words em) + length (em_texture_words em) + length [h] \<le> em_max_words em"
      have "open_packet (Some (Type7 opc n, [])) s pats (em_words em @ [h])"
        using em type7_decodes [OF h] by (auto simp: emitting_def)
      then show "emitting b gs s t pats (Some (Type7 opc n, [])) (em \<lparr> em_words := em_words em @ [h] \<rparr>)"
        using emitting_grow [OF em _ len] by blast
    qed
  qed
qed

section \<open>Closing a packet\<close>

lemma stream_ok_snoc:
  assumes "stream_ok s pats ws" and "decode_header h = Ok hdr" and "length pl = unat (count hdr)"
    and "P (hdr, pl)"
  shows "stream_ok s (pats @ [P]) (ws @ h # pl)"
proof -
  obtain hps tl where e: "encodes (hps @ tl) ws" "passes (calm False False False) hps s"
    "list_all2 (\<lambda>P x. P x) pats tl"
    using assms(1) by (auto simp: stream_ok_def)
  have "encodes [(hdr, pl)] (h # pl)"
    using one_packet [OF assms(2,3) no_packet] by simp
  then have "encodes (hps @ tl @ [(hdr, pl)]) (ws @ h # pl)"
    using encodes_append [OF e(1)] by simp
  moreover have "list_all2 (\<lambda>P x. P x) (pats @ [P]) (tl @ [(hdr, pl)])"
    using e(3) assms(4) by (simp add: list_all2_appendI)
  ultimately show ?thesis using e(2) by (auto simp: stream_ok_def)
qed

lemma close_packet:
  assumes "emitting b gs s t pats (Some (hdr, pl)) em" and "length pl = unat (count hdr)" and "P (hdr, pl)"
  shows "emitting b gs s t (pats @ [P]) None em"
proof -
  obtain w0 h where w: "em_words em = w0 @ h # pl" "stream_ok s pats w0" "decode_header h = Ok hdr"
    using assms(1) by (auto simp: emitting_def)
  have "stream_ok s (pats @ [P]) (em_words em)"
    unfolding w(1) using stream_ok_snoc [OF w(2,3) assms(2), of P] assms(3) by blast
  then show ?thesis using assms(1) by (simp add: emitting_def)
qed

lemma absorb:
  assumes "emitting b gs s t pats None em"
    and step: "\<And>xs. list_all2 (\<lambda>P x. P x) pats xs \<Longrightarrow> passes s xs s'"
  shows "emitting b gs s' t [] None em"
proof -
  obtain hps tl where e: "encodes (hps @ tl) (em_words em)" "passes (calm False False False) hps s"
    "list_all2 (\<lambda>P x. P x) pats tl"
    using assms(1) by (auto simp: emitting_def stream_ok_def)
  have "passes (calm False False False) (hps @ tl) s'"
    by (rule passes_append [OF e(2) step [OF e(3)]])
  then have "stream_ok s' [] (em_words em)"
    using e(1) unfolding stream_ok_def by (intro exI [of _ "hps @ tl"] exI [of _ "[]"]) simp
  then show ?thesis using assms(1) by (simp add: emitting_def)
qed

lemma unat_len: "u16_of_len vs = Ok n \<Longrightarrow> unat n = length vs"
  by (auto simp: u16_of_len_def unat_of_nat split: if_splits)

lemma u16_of_len_ensures: "ensures (u16_of_len vs) (\<lambda>n. unat n = length vs)"
  by (simp add: u16_of_len_def ensures_simps unat_of_nat)

text \<open>A whole packet is due until the passes absorb it.\<close>

lemma packet4_due:
  assumes "\<And>n. unat n = length vs \<Longrightarrow> P (Type4 reg n, vs)"
  shows "triple (emitting b gs s t pats None) (packet4 alloc reg vs) (emitting b gs s t (pats @ [P]) None)"
proof (rule tripleI)
  fix em assume em: "emitting b gs s t pats None em"
  have run: "triple (emitting b gs s t pats None) (sequence [push_type4 alloc reg n, extend_words alloc vs])
      (emitting b gs s t (pats @ [P]) None)" if n: "unat n = length vs" for n
  proof (rule triple_Cons [OF open_type4], rule triple_one, rule triple_post)
    show "triple (emitting b gs s t pats (Some (Type4 reg n, []))) (extend_words alloc vs)
        (emitting b gs s t pats (Some (Type4 reg n, [] @ vs)))"
      by (rule extend_open) (simp add: n)
    show "emitting b gs s t (pats @ [P]) None em'"
      if "emitting b gs s t pats (Some (Type4 reg n, [] @ vs)) em'" for em'
      by (rule close_packet [OF that [unfolded append_Nil]]) (simp_all add: n assms)
  qed
  show "ensures (packet4 alloc reg vs em) (emitting b gs s t (pats @ [P]) None)"
    unfolding packet4_def ensures_andThen
    by (rule ensures_mono [OF u16_of_len_ensures]) (rule tripleD [OF run], assumption, rule em)
qed

lemma packet7_due:
  assumes "\<And>n. unat n = length vs \<Longrightarrow> P (Type7 opc n, vs)"
  shows "triple (emitting b gs s t pats None) (packet7 alloc opc vs) (emitting b gs s t (pats @ [P]) None)"
proof (rule tripleI)
  fix em assume em: "emitting b gs s t pats None em"
  have run: "triple (emitting b gs s t pats None) (sequence [push_type7 alloc opc n, extend_words alloc vs])
      (emitting b gs s t (pats @ [P]) None)" if n: "unat n = length vs" for n
  proof (rule triple_Cons [OF open_type7], rule triple_one, rule triple_post)
    show "triple (emitting b gs s t pats (Some (Type7 opc n, []))) (extend_words alloc vs)
        (emitting b gs s t pats (Some (Type7 opc n, [] @ vs)))"
      by (rule extend_open) (simp add: n)
    show "emitting b gs s t (pats @ [P]) None em'"
      if "emitting b gs s t pats (Some (Type7 opc n, [] @ vs)) em'" for em'
      by (rule close_packet [OF that [unfolded append_Nil]]) (simp_all add: n assms)
  qed
  show "ensures (packet7 alloc opc vs em) (emitting b gs s t (pats @ [P]) None)"
    unfolding packet7_def ensures_andThen
    by (rule ensures_mono [OF u16_of_len_ensures]) (rule tripleD [OF run], assumption, rule em)
qed

lemma packet4_neutral [emit_rules]:
  assumes "reg \<noteq> 0x8c00" and "pc \<longrightarrow> (\<forall>n. clear_batch_allows (Type4 reg n))"
  shows "triple (emitting b gs (calm pd pc sb) t [] None) (packet4 alloc reg vs)
           (emitting b gs (calm pd pc sb) t [] None)"
proof (rule triple_post)
  show "triple (emitting b gs (calm pd pc sb) t [] None) (packet4 alloc reg vs)
      (emitting b gs (calm pd pc sb) t ([] @ [\<lambda>x. \<exists>n. x = (Type4 reg n, vs)]) None)"
    by (rule packet4_due) simp
next
  fix em assume "emitting b gs (calm pd pc sb) t ([] @ [\<lambda>x. \<exists>n. x = (Type4 reg n, vs)]) None em"
  then show "emitting b gs (calm pd pc sb) t [] None em"
    by (rule absorb) (use assms in \<open>auto simp: list_all2_Cons1 intro: neutral_passes\<close>)
qed

lemma packet7_neutral [emit_rules]:
  assumes "opc \<notin> {0x75, 0x3d, 0x38, 0x2c}" and "opc = 0x46 \<longrightarrow> vs = [0x31]"
    and "pc \<longrightarrow> (\<forall>n. clear_batch_allows (Type7 opc n))"
  shows "triple (emitting b gs (calm pd pc sb) t [] None) (packet7 alloc opc vs)
           (emitting b gs (calm pd pc sb) t [] None)"
proof (rule triple_post)
  show "triple (emitting b gs (calm pd pc sb) t [] None) (packet7 alloc opc vs)
      (emitting b gs (calm pd pc sb) t ([] @ [\<lambda>x. \<exists>n. x = (Type7 opc n, vs) \<and> unat n = length vs]) None)"
    by (rule packet7_due) simp
next
  have one: "unat n = Suc 0 \<longleftrightarrow> n = 1" for n :: u16
    using word_unat_eq_iff [of n 1] by simp
  fix em
  assume "emitting b gs (calm pd pc sb) t ([] @ [\<lambda>x. \<exists>n. x = (Type7 opc n, vs) \<and> unat n = length vs]) None em"
  then show "emitting b gs (calm pd pc sb) t [] None em"
    by (rule absorb) (use assms in \<open>auto simp: list_all2_Cons1 one intro!: neutral_passes\<close>)
qed

section \<open>Recorded accesses\<close>

lemma merge_accesses_Ok:
  assumes "merge_accesses obj acc xs i lo hi = Ok (ys, l, h)"
  shows "l \<le> lo \<and> hi \<le> h \<and> set ys \<subseteq> set xs \<and>
    (\<forall>a \<in> set xs. a \<in> set ys \<or> (ra_object a = obj \<and> ra_access a = acc \<and>
       unat l \<le> unat (ra_offset a) \<and> unat (ra_offset a) + unat (ra_size a) \<le> unat h))"
  using assms
proof (induction obj acc xs i lo hi arbitrary: ys l h rule: merge_accesses.induct)
  case (1 obj acc xs i lo hi)
  show ?case
  proof (cases "i < length xs")
    case False
    then show ?thesis using "1.prems" by (simp add: merge_accesses.simps [of obj acc xs i])
  next
    case True
    let ?old = "xs ! i"
    obtain e where e: "checked_add (ra_offset ?old) (ra_size ?old) = Some e"
      using "1.prems" True
      by (cases "checked_add (ra_offset ?old) (ra_size ?old)")
        (simp_all add: merge_accesses.simps [of obj acc xs i] Let_def outcome_simps)
    have ue: "unat e = unat (ra_offset ?old) + unat (ra_size ?old)"
      using checked_add_SomeD(1) [OF e] by simp
    show ?thesis
    proof (cases "ra_object ?old = obj \<and> ra_access ?old = acc \<and> ra_offset ?old \<le> hi \<and> lo \<le> e")
      case m: True
      let ?xs = "take i xs @ drop (Suc i) xs"
      have "merge_accesses obj acc ?xs i (min lo (ra_offset ?old)) (max hi e) = Ok (ys, l, h)"
        using "1.prems" True e m by (simp add: merge_accesses.simps [of obj acc xs i] Let_def outcome_simps)
      note IH = "1.IH" (1) [OF True refl m this]
      have xs: "set xs = insert ?old (set ?xs)"
        using id_take_nth_drop [OF True] by (metis Un_insert_right list.simps(15) set_append)
      from IH have "l \<le> min lo (ra_offset ?old) \<and> max hi e \<le> h \<and> set ys \<subseteq> set ?xs \<and>
        (\<forall>a \<in> set ?xs. a \<in> set ys \<or> (ra_object a = obj \<and> ra_access a = acc \<and>
          unat l \<le> unat (ra_offset a) \<and> unat (ra_offset a) + unat (ra_size a) \<le> unat h))"
        by simp
      then show ?thesis
        unfolding xs min.bounded_iff max.bounded_iff using m ue by (auto simp: word_le_nat_alt)
    next
      case m: False
      have "merge_accesses obj acc xs (Suc i) lo hi = Ok (ys, l, h)"
        using "1.prems" True e m by (auto simp: merge_accesses.simps [of obj acc xs i] Let_def outcome_simps)
      note IH = "1.IH" (2) [OF True refl m this]
      from IH show ?thesis by simp
    qed
  qed
qed

lemma merge_accesses_no_panic: "merge_accesses obj acc xs i lo hi \<noteq> Panic"
proof (induction obj acc xs i lo hi rule: merge_accesses.induct)
  case (1 obj acc xs i lo hi)
  then show ?case
    by (cases "checked_add (ra_offset (xs ! i)) (ra_size (xs ! i))")
      (auto simp: merge_accesses.simps [of obj acc xs i] Let_def outcome_simps)
qed

lemma ensures_self: "m \<noteq> Panic \<Longrightarrow> ensures m (\<lambda>x. m = Ok x)"
  by (cases m) (simp_all add: ensures_simps)

lemma covers_merged:
  assumes "covers a f" and "ra_object a = obj" and "ra_access a = acc"
    and "unat l \<le> unat (ra_offset a)" and "unat (ra_offset a) + unat (ra_size a) \<le> unat h" and "l \<le> h"
  shows "covers \<lparr> ra_object = obj, ra_offset = l, ra_size = h - l, ra_access = acc \<rparr> f"
proof -
  have "unat l + unat (h - l) = unat h"
    using assms(6) by (simp add: unat_sub word_le_nat_alt)
  then show ?thesis using assms by (simp add: covers_def)
qed

text \<open>Recording an access keeps what was covered, covers the new range, and touches nothing else.\<close>

lemma record_access_ensures:
  "ensures (record_access alloc obj off sz acc em) (\<lambda>em'. \<exists>xs. em' = em \<lparr> em_accesses := xs \<rparr> \<and>
     (list_all access_ok (em_accesses em) \<longrightarrow> list_all access_ok xs) \<and>
     (\<forall>f. covered (em_accesses em) f \<longrightarrow> covered xs f) \<and>
     (\<forall>f. fx_object f = obj \<and> fx_object_offset f = off \<and> fx_required_size f = sz \<and> fx_access f = acc \<longrightarrow>
        covered xs f))"
proof (cases "\<exists>v. obj = CanonicalProgram v")
  case True
  then show ?thesis
    by (auto simp: record_access_def ensures_simps covered_def intro!: exI [of _ "em_accesses em"])
next
  case False
  have body: "record_access alloc obj off sz acc em =
      andThen (ok_or (checked_add off sz) CompileOverflow) (\<lambda>e.
      andThen (merge_accesses obj acc (em_accesses em) 0 off e) (\<lambda>(xs, lo, hi).
      andThen (guard (alloc (length xs + 1)) CompileOutOfMemory) (\<lambda>_.
      andThen (ok_or (checked_sub hi lo) CompileOverflow) (\<lambda>n.
      Ok (em \<lparr> em_accesses := xs @ [\<lparr> ra_object = obj, ra_offset = lo, ra_size = n, ra_access = acc \<rparr>] \<rparr>)))))"
    using False by (cases obj) (simp_all add: record_access_def)
  have merged: "\<exists>ys. em \<lparr> em_accesses := xs @ [\<lparr> ra_object = obj, ra_offset = lo, ra_size = hi - lo, ra_access = acc \<rparr>] \<rparr>
        = em \<lparr> em_accesses := ys \<rparr> \<and>
      (list_all access_ok (em_accesses em) \<longrightarrow> list_all access_ok ys) \<and>
      (\<forall>f. covered (em_accesses em) f \<longrightarrow> covered ys f) \<and>
      (\<forall>f. fx_object f = obj \<and> fx_object_offset f = off \<and> fx_required_size f = sz \<and> fx_access f = acc \<longrightarrow>
         covered ys f)"
    if e: "checked_add off sz = Some e" and m: "merge_accesses obj acc (em_accesses em) 0 off e = Ok (xs, lo, hi)"
    for e xs lo hi
  proof (intro exI conjI allI impI refl)
    let ?new = "\<lparr> ra_object = obj, ra_offset = lo, ra_size = hi - lo, ra_access = acc \<rparr>"
    note M = merge_accesses_Ok [OF m]
    have ue: "unat e = unat off + unat sz" using checked_add_SomeD(1) [OF e] by simp
    have le: "unat lo \<le> unat off" "unat e \<le> unat hi" "lo \<le> hi"
      using M ue by (auto simp: word_le_nat_alt)
    have n: "unat lo + unat (hi - lo) = unat hi" using le(3) by (simp add: unat_sub word_le_nat_alt)
    show "list_all access_ok (xs @ [?new])" if "list_all access_ok (em_accesses em)"
      using that M n unsigned_less [of hi, where ?'a = nat] by (auto simp: list_all_iff access_ok_def)
    show "covered (xs @ [?new]) f" if f: "covered (em_accesses em) f" for f
      using f M covers_merged [where f = f and l = lo and h = hi and obj = obj and acc = acc] le(3)
      unfolding covered_def by fastforce
    show "covered (xs @ [?new]) f"
      if "fx_object f = obj \<and> fx_object_offset f = off \<and> fx_required_size f = sz \<and> fx_access f = acc" for f
      using that le n ue by (auto simp: covered_def covers_def)
  qed simp
  show ?thesis (is "ensures _ ?Q")
    unfolding body ensures_andThen ensures_ok_or
  proof (intro allI impI ensures_mono [OF ensures_self [OF merge_accesses_no_panic]])
    fix e r
    assume "checked_add off sz = Some e" and "merge_accesses obj acc (em_accesses em) 0 off e = Ok r"
    then show "ensures ((\<lambda>(xs, lo, hi). andThen (guard (alloc (length xs + 1)) CompileOutOfMemory) (\<lambda>_.
      andThen (ok_or (checked_sub hi lo) CompileOverflow) (\<lambda>n.
      Ok (em \<lparr> em_accesses := xs @ [\<lparr> ra_object = obj, ra_offset = lo, ra_size = n, ra_access = acc \<rparr>] \<rparr>)))) r) ?Q"
      using merged by (cases r) (simp add: ensures_simps checked_sub_def)
  qed
qed

section \<open>Placeholders\<close>

fun object_ok :: "GeneratedObject list option \<Rightarrow> ObjectRef \<Rightarrow> u64 \<Rightarrow> u64 \<Rightarrow> bool" where
  "object_ok (Some xs) (Generated g) off sz \<longleftrightarrow>
     unat g < length xs \<and> unat off + unat sz \<le> length (gen_bytes (xs ! unat g))"
| "object_ok None (Generated g) off sz \<longleftrightarrow> False"
| "object_ok gs (External e) off sz \<longleftrightarrow> True"
| "object_ok gs (CanonicalProgram v) off sz \<longleftrightarrow> True"

lemma object_ok_in_object:
  assumes "object_ok gs obj off sz" and "\<forall>xs. gs = Some xs \<longrightarrow> ys = xs"
    and "fx_object f = obj" and "fx_object_offset f = off" and "fx_required_size f = sz"
  shows "in_object ys f"
  using assms by (cases gs; cases obj) (auto simp: in_object_def)

lemma fixups_ok_snoc:
  assumes "fixups_ok ws fs" and "length vs = 2" and "placeholder_valid (fx_encoding f) vs"
    and "unat (fx_word_offset f) = length ws"
  shows "fixups_ok (ws @ vs) (fs @ [f])"
  using assms by (auto simp: fixups_ok_def fixup_end_def sorted_wrt_append)

lemma placeholder_open:
  assumes "object_ok gs obj off sz" and len: "length vs = 2" and "placeholder_valid enc vs"
    and "length pl + 2 \<le> unat (count hdr)"
  shows "triple (emitting b gs s t pats (Some (hdr, pl))) (placeholder alloc vs enc obj off sz acc)
           (emitting b gs s t pats (Some (hdr, pl @ vs)))"
proof (rule tripleI)
  fix em assume em: "emitting b gs s t pats (Some (hdr, pl)) em"
  have "length (em_words em) < 2 ^ 32" using em by (simp add: emitting_def)
  then have at: "ensures (u32_of_len (em_words em)) (\<lambda>at. unat at = length (em_words em))"
    by (simp add: u32_of_len_def ensures_simps unat_of_nat)
  let ?f = "\<lambda>at. \<lparr> fx_word_offset = at, fx_object = obj, fx_object_offset = off, fx_required_size = sz,
    fx_access = acc, fx_encoding = enc \<rparr>"
  let ?em = "\<lambda>at. em \<lparr> em_words := em_words em @ vs,
    em_fixups := em_fixups (em \<lparr> em_words := em_words em @ vs \<rparr>) @ [?f at] \<rparr>"
  have grown: "emitting b gs s t pats (Some (hdr, pl @ vs))
      (em \<lparr> em_words := em_words em @ vs, em_fixups := em_fixups em @ [?f at], em_accesses := xs \<rparr>)"
    if n: "length (em_words em) + length (em_texture_words em) + length vs \<le> em_max_words em"
      and at: "unat at = length (em_words em)"
      and xs: "list_all access_ok xs" "\<And>f. covered (em_accesses em) f \<Longrightarrow> covered xs f" "covered xs (?f at)"
    for at xs
  proof -
    have "fixups_ok (em_words em @ vs) (em_fixups em @ [?f at])"
      using em assms(2,3) at by (intro fixups_ok_snoc) (simp_all add: emitting_def)
    moreover have "open_packet (Some (hdr, pl @ vs)) s pats (em_words em @ vs)"
      using em assms(2,4) by (auto simp: emitting_def)
    moreover have "in_object (em_generated em) (?f at)"
      using em by (intro object_ok_in_object [OF assms(1)]) (simp_all add: emitting_def)
    ultimately show ?thesis
      using em n xs by (simp add: emitting_def fixups_covered_def objects_ok_def)
  qed
  show "ensures (placeholder alloc vs enc obj off sz acc em) (emitting b gs s t pats (Some (hdr, pl @ vs)))"
    unfolding placeholder_def ensures_andThen
  proof (rule ensures_mono [OF at], rule extend_words_ensures, unfold ensures_guard, rule impI,
      rule ensures_mono [OF record_access_ensures], elim exE conjE)
    fix at em' xs
    assume n: "length (em_words em) + length (em_texture_words em) + length vs \<le> em_max_words em"
      and at: "unat at = length (em_words em)"
      and em': "em' = ?em at \<lparr> em_accesses := xs \<rparr>"
      and xs: "list_all access_ok (em_accesses (?em at)) \<longrightarrow> list_all access_ok xs"
        "\<forall>f. covered (em_accesses (?em at)) f \<longrightarrow> covered xs f"
        "\<forall>f. fx_object f = obj \<and> fx_object_offset f = off \<and> fx_required_size f = sz \<and> fx_access f = acc \<longrightarrow> covered xs f"
    have "list_all access_ok (em_accesses em)" using em by (simp add: emitting_def)
    with xs(1) have ok: "list_all access_ok xs" by simp
    have kept: "covered xs f" if "covered (em_accesses em) f" for f using xs(2) that by simp
    have new: "covered xs (?f at)" using xs(3) by simp
    have "emitting b gs s t pats (Some (hdr, pl @ vs))
      (em \<lparr> em_words := em_words em @ vs, em_fixups := em_fixups em @ [?f at], em_accesses := xs \<rparr>)"
      using grown [OF n at ok kept new] by blast
    then show "emitting b gs s t pats (Some (hdr, pl @ vs)) em'" unfolding em' by simp
  qed
qed

lemma address_words_open:
  assumes "object_ok gs obj off sz" and "length pl + 2 \<le> unat (count hdr)"
  shows "triple (emitting b gs s t pats (Some (hdr, pl))) (address_words alloc obj off sz acc)
           (emitting b gs s t pats (Some (hdr, pl @ [0, 0])))"
  unfolding address_words_def
  by (rule placeholder_open) (use assms in \<open>simp_all\<close>)

lemma push_word_open:
  assumes "length pl + 1 \<le> unat (count hdr)"
  shows "triple (emitting b gs s t pats (Some (hdr, pl))) (push_word alloc w)
           (emitting b gs s t pats (Some (hdr, pl @ [w])))"
  unfolding push_word_extend by (rule extend_open) (use assms in simp)

text \<open>The last word of a packet that the passes do not react to.\<close>

lemma triple_close4:
  assumes "triple P f (emitting b gs (calm pd pc sb) t [] (Some (Type4 reg n, pl)))"
    and "length pl = unat n" and "reg \<noteq> 0x8c00" and "pc \<longrightarrow> clear_batch_allows (Type4 reg n)"
  shows "triple P f (emitting b gs (calm pd pc sb) t [] None)"
proof (rule triple_post [OF assms(1)])
  fix em assume em: "emitting b gs (calm pd pc sb) t [] (Some (Type4 reg n, pl)) em"
  have "emitting b gs (calm pd pc sb) t ([] @ [\<lambda>x. x = (Type4 reg n, pl)]) None em"
    by (rule close_packet [OF em]) (simp_all add: assms(2))
  then show "emitting b gs (calm pd pc sb) t [] None em"
    by (rule absorb) (use assms(3,4) in \<open>auto simp: list_all2_Cons1 intro!: neutral_passes\<close>)
qed

lemma triple_close7:
  assumes "triple P f (emitting b gs (calm pd False sb) t [] (Some (Type7 opc n, pl)))"
    and "length pl = unat n" and "opc \<notin> {0x75, 0x3d, 0x38, 0x2c, 0x46}"
  shows "triple P f (emitting b gs (calm pd False sb) t [] None)"
proof (rule triple_post [OF assms(1)])
  fix em assume em: "emitting b gs (calm pd False sb) t [] (Some (Type7 opc n, pl)) em"
  have "emitting b gs (calm pd False sb) t ([] @ [\<lambda>x. x = (Type7 opc n, pl)]) None em"
    by (rule close_packet [OF em]) (simp_all add: assms(2))
  then show "emitting b gs (calm pd False sb) t [] None em"
    by (rule absorb) (use assms(3) in \<open>auto simp: list_all2_Cons1 intro!: neutral_passes\<close>)
qed

text \<open>One that they react to is due.\<close>

lemma triple_due:
  assumes "triple P f (emitting b gs s t pats (Some (hdr, pl)))" and "length pl = unat (count hdr)"
    and "R (hdr, pl)"
  shows "triple P f (emitting b gs s t (pats @ [R]) None)"
  using triple_post [OF assms(1)] close_packet [OF _ assms(2), of _ _ _ _ _ _ R] assms(3) by blast

lemma address_register_neutral [emit_rules]:
  assumes "object_ok gs obj off sz" and "reg \<noteq> 0x8c00" and "pc \<longrightarrow> (\<forall>n. clear_batch_allows (Type4 reg n))"
  shows "triple (emitting b gs (calm pd pc sb) t [] None) (address_register alloc reg obj off sz acc)
           (emitting b gs (calm pd pc sb) t [] None)"
  unfolding address_register_def
  by (rule triple_Cons [OF open_type4], rule triple_one, rule triple_close4, rule address_words_open)
    (use assms in simp_all)

lemma wait_for_idle_neutral [emit_rules]:
  "triple (emitting b gs (calm pd pc sb) t [] None) (wait_for_idle alloc)
     (emitting b gs (calm pd pc sb) t [] None)"
  unfolding wait_for_idle_def
  by (rule packet7_neutral) (simp_all add: opcode_defs clear_batch_allows_def)

lemma triple_guard: "(c \<Longrightarrow> triple P f Q) \<Longrightarrow> triple P (\<lambda>em. andThen (guard c e) (\<lambda>_. f em)) Q"
  by (auto simp: triple_def ensures_simps)

lemma triple_ok_or: "(\<And>x. o' = Some x \<Longrightarrow> triple P (f x) Q) \<Longrightarrow> triple P (\<lambda>em. andThen (ok_or o' e) (\<lambda>x. f x em)) Q"
  by (auto simp: triple_def ensures_simps)

lemma u32_of_u64_ensures: "ensures (u32_of_u64 v) (\<lambda>_. True)"
  by (simp add: u32_of_u64_def ensures_simps)

lemma load_direct_neutral [emit_rules]:
  assumes "opc \<notin> {0x75, 0x3d, 0x38, 0x2c, 0x46}"
  shows "triple (emitting b gs (calm pd False sb) t [] None) (load_direct alloc opc block st units vs)
           (emitting b gs (calm pd False sb) t [] None)"
  unfolding load_direct_def by (rule triple_guard, rule packet7_neutral) (use assms in simp_all)

lemma load_indirect_neutral [emit_rules]:
  assumes "object_ok gs obj off sz" and "opc \<notin> {0x75, 0x3d, 0x38, 0x2c, 0x46}"
  shows "triple (emitting b gs (calm pd False sb) t [] None) (load_indirect alloc opc block st units obj off sz)
           (emitting b gs (calm pd False sb) t [] None)"
  unfolding load_indirect_def
  by (rule triple_Cons [OF open_type7], rule triple_Cons [OF push_word_open], simp,
      rule triple_one, rule triple_close7, rule address_words_open) (use assms in simp_all)

lemma preload_shader_neutral [emit_rules]:
  assumes "opc \<notin> {0x75, 0x3d, 0x38, 0x2c, 0x46}"
  shows "triple (emitting b gs (calm pd False sb) t [] None) (preload_shader alloc opc block units v)
           (emitting b gs (calm pd False sb) t [] None)"
  unfolding preload_shader_def
  by (rule triple_Cons [OF open_type7], rule triple_Cons [OF push_word_open], simp,
      rule triple_one, rule triple_close7, rule address_words_open) (use assms in simp_all)

text \<open>A sequence of methods that all keep an assertion keeps it.\<close>

lemma triple_all: "list_all (\<lambda>f. triple P f P) fs \<Longrightarrow> triple P (sequence fs) P"
  by (induction fs) (auto intro: triple_Nil triple_Cons)

end
