(* ===== verification/Emit_Contracts.thy ===== *)
theory Emit_Contracts
  imports Emit_Rules
begin

text \<open>
  The contracts of the emitter's commands: each takes the invariant of \<open>Emit_Rules\<close> to itself, and
  says what it leaves for the ordering passes: a draw leaves rendering to retire, a fill leaves a clear
  to retire, and the epilogue retires both.
\<close>

section \<open>Register state\<close>

lemma restore_3d_baseline_ok [emit_rules]:
  "triple (settled b gs pd False sb) (restore_3d_baseline alloc) (settled b gs pd False sb)"
  unfolding restore_3d_baseline_def
  by (rule triple_all) (simp add: emit_rules emit_register_defs opcode_defs)

lemma emit_vs_ok [emit_rules]:
  "triple (settled b gs pd False sb) (emit_vs alloc vs lk) (settled b gs pd False sb)"
  unfolding emit_vs_def by (rule triple_all) (simp add: emit_rules emit_register_defs)

lemma emit_fs_ok [emit_rules]:
  "triple (settled b gs pd False sb) (emit_fs alloc fs) (settled b gs pd False sb)"
  unfolding emit_fs_def by (rule triple_all) (simp add: emit_rules emit_register_defs)

lemma emit_program_config_ok [emit_rules]:
  "triple (settled b gs pd False sb) (emit_program_config alloc vs fs) (settled b gs pd False sb)"
  unfolding emit_program_config_def by (rule triple_all) (simp add: emit_rules emit_register_defs)

lemma emit_single_sample_state_ok [emit_rules]:
  "triple (settled b gs pd False sb) (emit_single_sample_state alloc) (settled b gs pd False sb)"
  unfolding emit_single_sample_state_def by (rule triple_all) (simp add: emit_rules emit_register_defs)

lemma emit_raster_state_ok [emit_rules]:
  "triple (settled b gs pd False sb) (emit_raster_state alloc d) (settled b gs pd False sb)"
  unfolding emit_raster_state_def by (rule triple_all) (simp add: emit_rules emit_register_defs)

lemma emit_shader_program_layout_ok [emit_rules]:
  assumes "reg \<noteq> 0x8c00"
  shows "triple (settled b gs pd False sb) (emit_shader_program_layout alloc reg v) (settled b gs pd False sb)"
  unfolding emit_shader_program_layout_def
  by (rule triple_Cons [OF open_type4], rule triple_Cons [OF push_word_open], simp,
      rule triple_Cons [OF address_words_open], simp, simp,
      rule triple_one, rule triple_close4, rule extend_open) (use assms in simp_all)

lemma emit_vs_program_ok [emit_rules]:
  "triple (settled b gs pd False sb) (emit_vs_program alloc vs v) (settled b gs pd False sb)"
  unfolding emit_vs_program_def
  by (rule triple_all) (simp add: emit_rules emit_register_defs)

lemma emit_fs_program_ok [emit_rules]:
  "triple (settled b gs pd False sb) (emit_fs_program alloc fs v) (settled b gs pd False sb)"
  unfolding emit_fs_program_def
  by (rule triple_all) (simp add: emit_rules emit_register_defs)

lemma triple_u32: "(\<And>n. triple P (f n) Q) \<Longrightarrow> triple P (\<lambda>em. andThen (u32_of_u64 v) (\<lambda>n. f n em)) Q"
  unfolding triple_def ensures_andThen by (blast intro: ensures_mono [OF u32_of_u64_ensures])

lemma triple_seq: "triple P f Q \<Longrightarrow> triple Q g R \<Longrightarrow> triple P (\<lambda>em. andThen (f em) g) R"
  unfolding triple_def ensures_andThen by (blast intro: ensures_mono)

lemma triple_case_option:
  "triple P f Q \<Longrightarrow> (\<And>x. triple P (g x) Q) \<Longrightarrow> triple P (\<lambda>em. case v of None \<Rightarrow> f em | Some x \<Rightarrow> g x em) Q"
  by (cases v) (simp_all add: triple_def)

lemma triple_keep_Cons: "triple P f P \<Longrightarrow> triple P (sequence fs) Q \<Longrightarrow> triple P (sequence (f # fs)) Q"
  by (rule triple_Cons)

lemma emit_depth_state_ok [emit_rules]:
  "triple (settled b gs pd False sb) (emit_depth_state alloc depth) (settled b gs pd False sb)"
  unfolding emit_depth_state_def
  by (rule triple_seq, rule triple_all, (simp add: emit_rules emit_register_defs; fail),
      rule triple_case_option, rule triple_all, (simp add: emit_rules emit_register_defs; fail),
      rule triple_seq, (rule triple_keep_Cons, (simp add: emit_rules emit_register_defs; fail))+,
      rule triple_one [OF open_type4], rule triple_u32, rule triple_Cons [OF extend_open], simp,
      rule triple_Cons [OF address_words_open], simp, simp, rule triple_Cons, rule triple_close4,
      rule push_word_open)
    (simp_all add: emit_register_defs emit_rules triple_one)

lemma emit_target_state_ok [emit_rules]:
  "triple (settled b gs pd False sb) (emit_target_state alloc d) (settled b gs pd False sb)"
  unfolding emit_target_state_def
  by (rule triple_seq, rule triple_all, (simp add: emit_rules emit_register_defs; fail),
      rule triple_u32, rule triple_all) (simp add: emit_rules emit_register_defs)

lemma emit_vertex_buffer_ok [emit_rules]:
  "triple (settled b gs pd False sb) (emit_vertex_buffer alloc d) (settled b gs pd False sb)"
  unfolding emit_vertex_buffer_def
  by (rule triple_seq, rule triple_all, (simp add: emit_rules emit_register_defs; fail),
      rule triple_u32) (simp add: emit_rules emit_register_defs)

lemma emit_constants_ok [emit_rules]:
  "triple (settled b gs pd False sb) (emit_constants alloc d) (settled b gs pd False sb)"
  unfolding emit_constants_def Let_def
  by (rule triple_all) (simp add: emit_rules emit_register_defs)

section \<open>Draw calls\<close>

lemma triple_absorb:
  "triple P f (emitting b gs s t pats None) \<Longrightarrow> (\<And>xs. list_all2 (\<lambda>P x. P x) pats xs \<Longrightarrow> passes s xs s') \<Longrightarrow>
   triple P f (emitting b gs s' t [] None)"
  by (erule triple_post, erule absorb) simp

definition draw_packet :: "hp \<Rightarrow> bool" where
  "draw_packet x \<longleftrightarrow> (\<exists>n pl. x = (Type7 0x38 n, pl))"

lemma draw_packet_passes:
  "list_all2 (\<lambda>P x. P x) ([] @ [draw_packet]) xs \<Longrightarrow> passes (calm pd False sb) xs (calm True False sb)"
  by (auto simp: list_all2_Cons1 draw_packet_def draw_passes)

lemma emit_draw_call_ok:
  "triple (settled b gs pd False sb) (emit_draw_call alloc c) (settled b gs True False sb)"
proof (rule triple_absorb [where pats = "[] @ [draw_packet]"])
  show "triple (settled b gs pd False sb) (emit_draw_call alloc c)
      (emitting b gs (calm pd False sb) (calm False False False) ([] @ [draw_packet]) None)"
  proof (cases c)
    case (NonIndexed fv n)
    then show ?thesis
      by (simp only: emit_draw_call_def DrawCall.case)
        (rule packet7_due, simp add: draw_packet_def cp_opcode_defs emit_register_defs)
  next
    case (Indexed ix)
    then show ?thesis
      by (simp only: emit_draw_call_def DrawCall.case)
        (rule triple_Cons [OF open_type7], rule triple_Cons [OF extend_open], simp,
          rule triple_Cons [OF address_words_open], simp, simp, rule triple_one, rule triple_due,
          rule push_word_open, simp_all add: draw_packet_def emit_register_defs)
  qed
qed (rule draw_packet_passes)

section \<open>Generated objects\<close>

lemma emitting_open: "emitting b gs s t pats cur em \<Longrightarrow> emitting b None s t pats cur em"
  by (simp add: emitting_def)

lemma emitting_fixed: "emitting b gs s t pats cur em \<Longrightarrow> emitting b (Some (em_generated em)) s t pats cur em"
  by (simp add: emitting_def)

lemma emitting_swap: "emitting b gs s t [] None (swap_streams em) \<longleftrightarrow> emitting b gs t s [] None em"
  by (auto simp: emitting_def swap_streams_def fixups_covered_def objects_ok_def)

lemma in_object_append: "in_object xs f \<Longrightarrow> in_object (xs @ ys) f"
  by (auto simp: in_object_def nth_append)

lemma emitting_new_object:
  assumes "emitting b gs s t pats cur em" and "gen_id x = of_nat (length (em_generated em))"
    and "length (em_generated em) < 2 ^ 32"
  shows "emitting b (Some (em_generated em @ [x])) s t pats cur (em \<lparr> em_generated := em_generated em @ [x] \<rparr>)"
proof -
  have "objects_ok (em \<lparr> em_generated := em_generated em @ [x] \<rparr>)"
    using assms by (auto simp: emitting_def objects_ok_def nth_append less_Suc_eq)
  then show ?thesis
    using assms(1) by (auto simp: emitting_def fixups_covered_def in_object_append)
qed

definition object_of_size :: "GeneratedObject list \<Rightarrow> u32 \<Rightarrow> nat \<Rightarrow> bool" where
  "object_of_size xs g n \<longleftrightarrow> unat g < length xs \<and> length (gen_bytes (xs ! unat g)) = n"

lemma object_of_size_ok:
  "object_of_size xs g n \<Longrightarrow> unat off + unat sz \<le> n \<Longrightarrow> object_ok (Some xs) (Generated g) off sz"
  by (simp add: object_of_size_def)

lemma add_generated_ok:
  assumes "emitting b gs s t pats cur em"
  shows "ensures (add_generated alloc bs al acc kind em) (\<lambda>(g, em'). \<exists>xs.
     emitting b (Some xs) s t pats cur em' \<and> object_of_size xs g (length bs))"
proof -
  let ?x = "\<lparr> gen_id = of_nat (length (em_generated em)), gen_alignment = al, gen_bytes = bs,
    gen_access = acc, gen_kind = kind \<rparr>"
  have "object_of_size (em_generated em @ [?x]) (of_nat (length (em_generated em))) (length bs)"
    if "length (em_generated em) < 2 ^ 32"
    using that by (simp add: object_of_size_def unat_of_nat)
  then show ?thesis
    using emitting_new_object [OF assms, of ?x]
    by (auto simp: add_generated_def u32_of_len_def ensures_simps
        intro!: exI [of _ "em_generated em @ [?x]"])
qed

section \<open>Cache events\<close>

lemma event_address_ok:
  assumes "object_of_size xs g 4"
  shows "triple (emitting b (Some xs) s t pats None)
     (sequence [push_type7 alloc EVENT_WRITE 4, push_word alloc (e OR 0x40000000),
        address_words alloc (Generated g) 0 4 ACC_WRITE, push_word alloc w])
     (emitting b (Some xs) s t (pats @ [addressed e]) None)"
proof -
  have ok: "object_ok (Some xs) (Generated g) 0 4"
    by (rule object_of_size_ok [OF assms]) simp
  show ?thesis
    by (rule triple_Cons [OF open_type7], rule triple_Cons [OF push_word_open], simp,
        rule triple_Cons [OF address_words_open [OF ok]], simp, rule triple_one, rule triple_due,
        rule push_word_open) (simp_all add: addressed_def opcode_defs)
qed

lemma ccu_sequence_ok:
  assumes em: "emitting b None s t pats None em"
  shows "ensures (case em_ccu_sequence em of
         Some sq \<Rightarrow> Ok (sq, em)
       | None \<Rightarrow> andThen (add_generated alloc (replicate 4 0) 64 ACC_WRITE CcuSequence em) (\<lambda>(sq, em).
           Ok (sq, em \<lparr> em_ccu_sequence := Some sq \<rparr>)))
     (\<lambda>(g, em'). \<exists>xs. emitting b (Some xs) s t pats None em' \<and> object_of_size xs g 4)"
proof (cases "em_ccu_sequence em")
  case (Some g)
  then have "object_of_size (em_generated em) g 4"
    using em by (simp add: emitting_def objects_ok_def object_of_size_def)
  then show ?thesis using Some emitting_fixed [OF em] by (auto simp: ensures_simps)
next
  case None
  have set: "emitting b (Some xs) s t pats None (em' \<lparr> em_ccu_sequence := Some g \<rparr>)"
    if "emitting b (Some xs) s t pats None em'" and "object_of_size xs g 4" for xs g em'
    using that by (auto simp: emitting_def objects_ok_def fixups_covered_def object_of_size_def)
  show ?thesis
    unfolding None option.case ensures_andThen
    by (rule ensures_mono [OF add_generated_ok [OF em]]) (auto simp: ensures_simps intro: set)
qed

lemma addressed_cache_event_ok:
  assumes "e OR EVENT_WRITE_TIMESTAMP = e' OR 0x40000000"
  shows "triple (emitting b None s t pats None) (addressed_cache_event alloc e)
           (emitting b None s t (pats @ [addressed e']) None)"
proof (rule tripleI)
  fix em assume em: "emitting b None s t pats None em"
  show "ensures (addressed_cache_event alloc e em) (emitting b None s t (pats @ [addressed e']) None)"
    unfolding addressed_cache_event_def ensures_andThen Let_def
  proof (rule ensures_mono [OF ccu_sequence_ok [OF em]], clarify)
    fix g em' xs
    assume em': "emitting b (Some xs) s t pats None em'" and g: "object_of_size xs g 4"
    let ?em = "em' \<lparr> em_event_sequence := max (em_event_sequence em' + 1) 1 \<rparr>"
    have "emitting b (Some xs) s t pats None ?em"
      using em' by (auto simp: emitting_def fixups_covered_def objects_ok_def)
    from tripleD [OF event_address_ok [OF g, of b s t pats alloc e'] this]
    show "ensures (sequence [push_type7 alloc EVENT_WRITE 4, push_word alloc (e OR EVENT_WRITE_TIMESTAMP),
         address_words alloc (Generated g) 0 4 ACC_WRITE, push_word alloc (em_event_sequence ?em)] ?em)
       (emitting b None s t (pats @ [addressed e']) None)"
      unfolding assms by (rule ensures_mono) (rule emitting_open)
  qed
qed

section \<open>Submission prologue and epilogue\<close>

lemma wait_due: "triple (emitting b gs s t pats None) (wait_for_idle alloc) (emitting b gs s t (pats @ [idle_wait]) None)"
  unfolding wait_for_idle_def by (rule packet7_due) (simp add: idle_wait_def opcode_defs unat_eq_0)

lemma event_due:
  "triple (emitting b gs s t pats None) (packet7 alloc EVENT_WRITE [e]) (emitting b gs s t (pats @ [plain e]) None)"
proof (rule packet7_due)
  fix n :: u16 assume "unat n = length [e]"
  then have "n = 1" using word_unat_eq_iff [of n 1] by simp
  then show "plain e (Type7 EVENT_WRITE n, [e])" by (simp add: plain_def opcode_defs)
qed

lemma clean_due:
  "triple (emitting b None s t pats None) (clean_color_cache alloc)
     (emitting b None s t (pats @ [addressed 0x1d]) None)"
  unfolding clean_color_cache_def by (rule addressed_cache_event_ok) (simp add: emit_register_defs)

lemma invalidate_submission_caches_ok [emit_rules]:
  "triple (settled b None pd False sb) (invalidate_submission_caches alloc) (settled b None pd False sb)"
  unfolding invalidate_submission_caches_def
proof (rule triple_append [where fs = "[_, _]", simplified append_Cons append_Nil])
  show "triple (settled b None pd False sb)
      (sequence [clean_color_cache alloc, packet7 alloc EVENT_WRITE [EVENT_CCU_INVALIDATE_COLOR]])
      (settled b None pd False sb)"
    by (rule triple_absorb, rule triple_Cons [OF clean_due], rule triple_one, rule event_due)
      (rule clean_passes, simp add: emit_register_defs)
  show "triple (settled b None pd False sb) (sequence [packet7 alloc EVENT_WRITE [EVENT_CACHE_INVALIDATE]])
      (settled b None pd False sb)"
    by (rule triple_one, rule packet7_neutral) (simp_all add: opcode_defs emit_register_defs)
qed

lemma submission_end_due:
  "triple (emitting b None s t pats None) (submission_end alloc)
     (emitting b None s t (pats @ retirement) None)"
proof -
  let ?S = "\<lambda>pats. emitting b None s t pats None"
  have depth: "triple (?S p) (addressed_cache_event alloc EVENT_CCU_FLUSH_DEPTH_TS) (?S (p @ [addressed 0x1c]))" for p
    by (rule addressed_cache_event_ok) (simp add: emit_register_defs)
  have color: "triple (?S p) (packet7 alloc EVENT_WRITE [EVENT_CCU_INVALIDATE_COLOR]) (?S (p @ [plain 0x19]))"
    and invalidate: "triple (?S p) (packet7 alloc EVENT_WRITE [EVENT_CCU_INVALIDATE_DEPTH]) (?S (p @ [plain 0x18]))" for p
    using event_due [of b None _ _ p alloc EVENT_CCU_INVALIDATE_COLOR]
      event_due [of b None _ _ p alloc EVENT_CCU_INVALIDATE_DEPTH] by (simp_all add: emit_register_defs)
  have "pats @ retirement =
      ((((pats @ [addressed 0x1d]) @ [addressed 0x1c]) @ [plain 0x19]) @ [plain 0x18]) @ [idle_wait]"
    by (simp add: retirement_def)
  then show ?thesis
    unfolding submission_end_def
    by (simp only:) (rule triple_Cons [OF clean_due [unfolded clean_color_cache_def]], rule triple_Cons [OF depth],
        rule triple_Cons [OF color], rule triple_Cons [OF invalidate], rule triple_one [OF wait_due])
qed

lemma submission_end_ok:
  "triple (settled b None pd pc sb) (submission_end alloc) (settled b None False False sb)"
  by (rule triple_absorb [OF submission_end_due]) (rule retirement_passes, simp_all)

lemma submission_begin_3d_ok:
  "triple (settled b None pd False sb) (submission_begin_3d alloc) (settled b None pd False sb)"
  unfolding submission_begin_3d_def by (rule triple_all) (simp add: emit_rules)

lemma submission_begin_2d_ok:
  "triple (settled b None pd False sb) (submission_begin_2d alloc)
     (\<lambda>em. \<not> fst b \<and> settled b None pd False sb em)"
proof -
  have "triple (settled b None pd False sb) (sequence
        [invalidate_submission_caches alloc, wait_for_idle alloc,
         packet4 alloc RB_CCU_CNTL [0x08000000], packet4 alloc RB_DBG_ECO_CNTL [0x04100000],
         packet7 alloc SET_MARKER [12]]) (settled b None pd False sb)"
    by (rule triple_all) (simp add: emit_rules emit_register_defs opcode_defs)
  then show ?thesis
    by (auto simp: triple_def submission_begin_2d_def emitting_def ensures_simps elim: ensures_mono)
qed

section \<open>Texture state\<close>

text \<open>A memory write and its barrier.\<close>

definition write_packet :: "hp \<Rightarrow> bool" where
  "write_packet x \<longleftrightarrow> (\<exists>opc n pl. opc \<in> {0x75, 0x3d} \<and> x = (Type7 opc n, pl))"

definition barrier :: "hp \<Rightarrow> bool" where
  "barrier x \<longleftrightarrow> x = (Type7 0x12 0, [])"

lemma write_packet_passes:
  "list_all2 (\<lambda>P x. P x) ([] @ [write_packet] @ [barrier]) xs \<Longrightarrow>
   passes (calm pd False sb) xs (calm pd False sb)"
  by (auto simp: list_all2_Cons1 write_packet_def barrier_def write_passes)

lemma barrier_due:
  "triple (emitting b gs s t pats None) (packet7 alloc WAIT_MEM_WRITES []) (emitting b gs s t (pats @ [barrier]) None)"
  by (rule packet7_due) (simp add: barrier_def opcode_defs unat_eq_0)

lemma texture_descriptor_address_open:
  assumes "length pl + 2 \<le> unat (count hdr)"
  shows "triple (emitting b gs s t pats (Some (hdr, pl))) (texture_descriptor_address alloc tx)
           (emitting b gs s t pats (Some (hdr, pl @ [0, push_bit 17 1])))"
  unfolding texture_descriptor_address_def
  by (rule placeholder_open) (use assms in simp_all)

lemma texture_descriptor_prefix_ensures: "ensures (texture_descriptor_prefix tx) (\<lambda>d. length d = 4)"
  by (cases "sf_nv12 tx") (simp_all add: texture_descriptor_prefix_def u32_of_u64_def ensures_simps)

text \<open>The words of the descriptor after the first plane, and the sampler with the barrier.\<close>

definition descriptor_head :: "u32 list \<Rightarrow> u32 list" where
  "descriptor_head d = (([] @ [0, 0]) @ d) @ [0, push_bit 17 1]"

lemma length_descriptor_head [simp]: "length (descriptor_head d) = length d + 4"
  by (simp add: descriptor_head_def)

lemma texture_planes_ok:
  assumes d: "length d = 4"
  shows "triple (emitting b gs s t pats (Some (Type7 opc 22, descriptor_head d)))
      (sequence (case sf_nv12 tx of
          Some nv12 \<Rightarrow> [push_word alloc (push_bit 8 (sf_stride tx)),
            address_words alloc (External (sf_object tx)) (uv_offset nv12) (uv_size nv12) ACC_READ,
            extend_words alloc (replicate 7 0)]
        | None \<Rightarrow> [extend_words alloc (replicate 10 0)]))
      (\<lambda>em. \<exists>w. length w = 10 \<and> emitting b gs s t pats (Some (Type7 opc 22, descriptor_head d @ w)) em)"
proof (cases "sf_nv12 tx")
  case None
  show ?thesis
    unfolding None option.case
    by (rule triple_one, rule triple_post, rule extend_open) (use d in \<open>auto intro!: exI [of _ "replicate 10 0"]\<close>)
next
  case (Some nv)
  show ?thesis
    unfolding Some option.case
    by (rule triple_Cons [OF push_word_open], (simp add: d; fail), rule triple_Cons [OF address_words_open], simp,
        (simp add: d; fail), rule triple_one, rule triple_post, rule extend_open)
      (use d in \<open>auto intro!: exI [of _ "push_bit 8 (sf_stride tx) # 0 # 0 # replicate 7 0"]\<close>)
qed

lemma texture_sampler_ok:
  assumes "length pl + length sampler = unat n"
  shows "triple (emitting b gs (calm pd False sb) t [] (Some (Type7 CP_MEM_WRITE n, pl)))
      (sequence [extend_words alloc sampler, packet7 alloc WAIT_MEM_WRITES []])
      (emitting b gs (calm pd False sb) t [] None)"
proof (rule triple_absorb, rule triple_Cons, rule triple_due)
  show "triple (emitting b gs (calm pd False sb) t [] (Some (Type7 CP_MEM_WRITE n, pl))) (extend_words alloc sampler)
      (emitting b gs (calm pd False sb) t [] (Some (Type7 CP_MEM_WRITE n, pl @ sampler)))"
    by (rule extend_open) (simp add: assms)
  show "write_packet (Type7 CP_MEM_WRITE n, pl @ sampler)"
    by (simp add: write_packet_def emit_register_defs)
  show "triple (emitting b gs (calm pd False sb) t ([] @ [write_packet]) None)
      (sequence [packet7 alloc WAIT_MEM_WRITES []])
      (emitting b gs (calm pd False sb) t (([] @ [write_packet]) @ [barrier]) None)"
    by (rule triple_one, rule barrier_due)
qed (use assms write_packet_passes in simp_all)

lemma write_texture_state_ok:
  assumes sampler: "length sampler = 4" and state: "object_of_size xs state 80"
  shows "triple (emitting b (Some xs) (calm pd False sb) t [] None) (write_texture_state alloc tx sampler state)
           (emitting b (Some xs) (calm pd False sb) t [] None)"
proof (rule tripleI)
  let ?S = "emitting b (Some xs) (calm pd False sb) t []"
  fix em assume em: "?S None em"
  have obj: "object_ok (Some xs) (Generated state) 0 80"
    by (rule object_of_size_ok [OF state]) simp
  have tail: "triple (\<lambda>em. \<exists>w. length w = 10 \<and> ?S (Some (Type7 CP_MEM_WRITE 22, descriptor_head d @ w)) em)
      (sequence [extend_words alloc sampler, packet7 alloc WAIT_MEM_WRITES []]) (?S None)"
    if "length d = 4" for d
    using that by (intro tripleI) (elim exE conjE, rule tripleD [OF texture_sampler_ok], simp_all add: sampler)
  show "ensures (write_texture_state alloc tx sampler state em) (?S None)"
    unfolding write_texture_state_def ensures_andThen
  proof (rule ensures_mono [OF texture_descriptor_prefix_ensures], rule tripleD [where P = "?S None"], rule triple_append)
    fix d :: "u32 list" assume d: "length d = 4"
    show "triple (?S None) (sequence [push_type7 alloc CP_MEM_WRITE 22,
         address_words alloc (Generated state) 0 80 ACC_WRITE, extend_words alloc d,
         texture_descriptor_address alloc tx]) (?S (Some (Type7 CP_MEM_WRITE 22, descriptor_head d)))"
      unfolding descriptor_head_def
      by (rule triple_Cons [OF open_type7], rule triple_Cons [OF address_words_open [OF obj]], simp,
          rule triple_Cons [OF extend_open], (simp add: d; fail), rule triple_one,
          rule texture_descriptor_address_open) (simp add: d)
  qed (rule triple_append, rule texture_planes_ok, assumption, rule tail, assumption, rule em)
qed

lemma new_texture_state_ok:
  assumes em: "settled b None pd False sb em" and sampler: "length sampler = 4"
  shows "ensures (new_texture_state alloc tx sampler em) (\<lambda>(g, em'). \<exists>xs.
     settled b (Some xs) pd False sb em' \<and> object_of_size xs g 80)"
proof -
  have written: "ensures (write_texture_state alloc tx sampler g (swap_streams em'))
      (\<lambda>em''. settled b (Some xs) pd False sb (swap_streams em''))"
    if "settled b (Some xs) pd False sb em'" and "object_of_size xs g 80" for g em' xs
    using tripleD [OF write_texture_state_ok [OF sampler that(2)]] that(1)
    by (simp only: emitting_swap)
  have add: "settled b (Some xs) pd False sb (em' \<lparr> em_texture_states := em_texture_states em' @ [(tx, sampler, g)] \<rparr>)"
    if "settled b (Some xs) pd False sb em'" and "object_of_size xs g 80" for g em' xs
    using that by (auto simp: emitting_def objects_ok_def fixups_covered_def object_of_size_def)
  show ?thesis
    unfolding new_texture_state_def ensures_andThen Let_def
    by (rule ensures_mono [OF add_generated_ok [OF em]], clarify, unfold ensures_andThen, rule ensures_mono [OF written])
      (auto simp: ensures_simps intro!: add)
qed

end
