(* ===== verification/Emit_Streams.thy ===== *)
theory Emit_Streams
  imports Emit_Contracts
begin

text \<open>
  The public commands of the emitter as a step relation, the invariant of every emitter it reaches,
  and what follows for the finished stream: it is well formed, its placeholders are in order and
  covered by the recorded accesses, and the kernel's ordering passes accept it.
\<close>

section \<open>Draws\<close>

lemma texture_state_ok:
  assumes em: "settled b None pd False sb em" and sampler: "length sampler = 4"
  shows "ensures (case find (\<lambda>(t', sampler', _). t' = tx \<and> sampler' = sampler) (em_texture_states em) of
         Some (_, _, state) \<Rightarrow> Ok (state, em)
       | None \<Rightarrow> new_texture_state alloc tx sampler em)
     (\<lambda>(g, em'). \<exists>xs. settled b (Some xs) pd False sb em' \<and> object_of_size xs g 80)"
proof (cases "find (\<lambda>(t', sampler', _). t' = tx \<and> sampler' = sampler) (em_texture_states em)")
  case None
  then show ?thesis using new_texture_state_ok [OF em sampler] by simp
next
  case (Some x)
  obtain t' sm g where x: "x = (t', sm, g)" by (cases x)
  have "(t', sm, g) \<in> set (em_texture_states em)"
    using Some unfolding x find_Some_iff by (metis nth_mem)
  then have "object_of_size (em_generated em) g 80"
    using em by (auto simp: emitting_def objects_ok_def object_of_size_def)
  then show ?thesis using Some emitting_fixed [OF em] by (auto simp: x ensures_simps)
qed

lemma texture_registers_ok:
  assumes "object_of_size xs g 80"
  shows "triple (settled b (Some xs) pd False sb) (sequence
       [address_register alloc SP_PS_SAMPLER_BASE (Generated g) 64 16 ACC_READ,
        address_register alloc SP_PS_TEXMEMOBJ_BASE (Generated g) 0 64 ACC_READ])
     (settled b (Some xs) pd False sb)"
    and "triple (settled b (Some xs) pd False sb) (sequence
       [load_indirect alloc CP_LOAD_STATE6_FRAG 4 0 1 (Generated g) 64 16,
        load_indirect alloc CP_LOAD_STATE6_FRAG 4 1 1 (Generated g) 0 64])
     (settled b (Some xs) pd False sb)"
  by (rule triple_all; use assms in \<open>simp add: emit_rules emit_register_defs object_of_size_def\<close>)+

lemma bind_texture_ok:
  assumes sampler: "length sampler = 4"
  shows "triple (settled b None pd False sb) (bind_texture alloc tx sampler) (settled b None pd False sb)"
proof (rule tripleI)
  fix em assume em: "settled b None pd False sb em"
  have backing: "ensures (texture_state_backing alloc tx sampler em)
      (\<lambda>(g, em'). \<exists>xs. settled b (Some xs) pd False sb em' \<and> object_of_size xs g 80)"
    unfolding texture_state_backing_def ensures_andThen
    by (rule ensures_mono [OF texture_state_ok [OF em sampler]], clarify, unfold ensures_andThen,
        rule ensures_mono [OF tripleD [OF texture_registers_ok(1)]]) (auto simp: ensures_simps)
  show "ensures (bind_texture alloc tx sampler em) (settled b None pd False sb)"
    unfolding bind_texture_def ensures_andThen
    by (rule ensures_mono [OF backing], clarify, rule ensures_mono [OF tripleD [OF texture_registers_ok(2)]])
      (auto intro: emitting_open)
qed

lemma emitting_last_draw [simp]:
  "emitting b gs s t pats cur (em \<lparr> em_last_draw := d \<rparr>) = emitting b gs s t pats cur em"
  by (simp add: emitting_def fixups_covered_def objects_ok_def)

lemma draw_with_retained_fixed_state_ok:
  assumes sampler: "length (dr_sampler d) = 4"
  shows "triple (settled b None pd False sb) (draw_with_retained_fixed_state alloc d) (settled b None True False sb)"
proof -
  let ?S = "settled b None pd False sb"
  have texture: "triple ?S (\<lambda>em. case dr_texture d of
        Some t \<Rightarrow> if (case em_last_draw em of None \<Rightarrow> True
           | Some prev \<Rightarrow> dr_texture prev \<noteq> dr_texture d \<or> dr_sampler prev \<noteq> dr_sampler d)
          then bind_texture alloc t (dr_sampler d) em else Ok em
       | None \<Rightarrow> Ok em) ?S"
    by (cases "dr_texture d")
      (auto simp: triple_def ensures_simps intro: tripleD [OF bind_texture_ok [OF sampler]])
  show ?thesis
    unfolding draw_with_retained_fixed_state_def Let_def
    by (rule triple_seq, rule triple_all, (simp add: emit_rules emit_register_defs; fail),
        rule triple_seq [OF texture], rule emit_draw_call_ok)
qed

lemma full_draw_ok:
  assumes sampler: "length (dr_sampler d) = 4"
  shows "triple (settled b None pd False sb) (full_draw alloc d vs fs lk) (settled b None True False sb)"
proof -
  have texture: "triple (settled b None pd False sb)
      (case dr_texture d of Some t \<Rightarrow> bind_texture alloc t (dr_sampler d) | None \<Rightarrow> Ok) (settled b None pd False sb)"
    by (cases "dr_texture d") (simp_all add: triple_Ok bind_texture_ok [OF sampler])
  show ?thesis
    unfolding full_draw_def
    by ((rule triple_keep_Cons, (simp add: emit_rules emit_register_defs texture; fail))+,
        rule triple_one [OF emit_draw_call_ok])
qed

lemma draw_ok:
  assumes "length (dr_sampler d) = 4"
  shows "triple (settled b None pd False sb) (draw alloc d) (\<lambda>em. fst b \<and> settled b None True False sb em)"
proof (rule tripleI)
  fix em assume em: "settled b None pd False sb em"
  then have b: "em_draw_batch_active em = fst b" by (simp add: emitting_def)
  note again = tripleD [OF draw_with_retained_fixed_state_ok [OF assms] em]
  note new = tripleD [OF full_draw_ok [OF assms] em]
  show "ensures (draw alloc d em) (\<lambda>em. fst b \<and> settled b None True False sb em)"
    by (auto simp: draw_def b ensures_simps split: ShaderMeta.splits
        intro!: ensures_mono [OF again] ensures_mono [OF new])
qed

section \<open>Clears and blits\<close>

lemmas clear_registers = clear_batch_allows_def emit_register_defs
  Submit_Registers.RB_A2D_BLT_CNTL_def Submit_Registers.GRAS_A2D_BLT_CNTL_def
  Submit_Registers.RB_A2D_PIXEL_CNTL_def Submit_Registers.SP_A2D_OUTPUT_INFO_def
  Submit_Registers.RB_A2D_CLEAR_COLOR_DW0_def Submit_Registers.RB_A2D_DEST_BUFFER_INFO_def
  Submit_Registers.RB_A2D_DEST_BUFFER_BASE_def Submit_Registers.RB_A2D_DEST_BUFFER_PITCH_def
  Submit_Registers.GRAS_A2D_DEST_TL_def Submit_Registers.GRAS_A2D_SCISSOR_TL_def

lemma emit_coordinates_ok [emit_rules]:
  "triple (settled b gs pd pc sb) (emit_coordinates alloc dest sc) (settled b gs pd pc sb)"
  unfolding emit_coordinates_def Let_def
  by (rule triple_all) (simp add: emit_rules clear_registers)

lemma clear_color_ok [emit_rules]:
  "triple (settled b gs pd pc sb) (packet4 alloc RB_A2D_CLEAR_COLOR_DW0 vs) (settled b gs pd pc sb)"
  by (rule packet4_neutral) (simp_all add: clear_registers)

lemma emit_destination_ok [emit_rules]:
  "triple (settled b gs pd pc sb) (emit_destination alloc target format sw) (settled b gs pd pc sb)"
  unfolding emit_destination_def
  by (rule triple_all) (simp add: emit_rules clear_registers)

lemma control_ok:
  "triple (settled b gs pd pc sb) (packet4 alloc RB_A2D_BLT_CNTL [w]) (settled b gs pd pc (w AND 0x80 \<noteq> 0))"
  by (rule triple_absorb [where pats = "[] @ [\<lambda>x. \<exists>n. x = (Type4 0x8c00 n, [w])]"], rule packet4_due)
    (auto simp: emit_register_defs list_all2_Cons1 intro: control_passes)

lemma fill_bit: "(w :: u32) AND 0x80 \<noteq> 0 \<longleftrightarrow> bit w 7"
  using and_exp_eq_0_iff_not_bit [of w 7] by simp

lemma emit_a2d_common_ok:
  "triple (settled b gs pd pc sb) (emit_a2d_common alloc format ifmt fill sc) (settled b gs pd pc fill)"
proof -
  let ?w = "push_bit 8 format OR BLIT_CHANNEL_MASK OR (if fill then BLIT_SOLID_COLOR else 0)
    OR (if sc then BLIT_SCISSOR else 0) OR push_bit 24 ifmt"
  have "?w AND 0x80 \<noteq> 0 \<longleftrightarrow> fill"
    unfolding fill_bit by (simp add: bit_or_iff bit_push_bit_iff emit_register_defs)
  then have first: "triple (settled b gs pd pc sb) (packet4 alloc RB_A2D_BLT_CNTL [?w]) (settled b gs pd pc fill)"
    using control_ok [of b gs pd pc sb alloc ?w] by simp
  show ?thesis
    unfolding emit_a2d_common_def Let_def
    by (rule triple_Cons [OF first], rule triple_all) (simp add: emit_rules clear_registers)
qed

definition blit_packet :: "hp \<Rightarrow> bool" where
  "blit_packet x \<longleftrightarrow> (\<exists>n pl. x = (Type7 0x2c n, pl))"

lemma emit_blit_due:
  "triple (settled b gs pd pc sb) (emit_blit alloc)
     (emitting b gs (calm pd pc sb) (calm False False False) [blit_packet, idle_wait] None)"
proof -
  have "triple (settled b gs pd pc sb) (packet7 alloc BLIT [3])
      (emitting b gs (calm pd pc sb) (calm False False False) ([] @ [blit_packet]) None)"
    by (rule packet7_due) (simp add: blit_packet_def opcode_defs)
  from triple_Cons [OF wait_for_idle_neutral triple_Cons [OF this triple_one [OF wait_due]]]
  show ?thesis by (simp add: emit_blit_def)
qed

lemma emit_blit_fill:
  "triple (settled b gs False pc True) (emit_blit alloc) (settled b gs False True True)"
  by (rule triple_absorb [OF emit_blit_due]) (auto simp: list_all2_two blit_packet_def intro: fill_passes)

lemma emit_blit_sampled:
  "triple (settled b None False False False) (sequence [emit_blit alloc, submission_end alloc])
     (settled b None False False False)"
proof (rule triple_absorb)
  show "triple (settled b None False False False) (sequence [emit_blit alloc, submission_end alloc])
     (emitting b None (calm False False False) (calm False False False) ([blit_packet, idle_wait] @ retirement) None)"
    by (rule triple_Cons [OF emit_blit_due], rule triple_one, rule submission_end_due)
  fix xs assume "list_all2 (\<lambda>P x. P x) ([blit_packet, idle_wait] @ retirement) xs"
  then show "passes (calm False False False) xs (calm False False False)"
    by (auto simp: list_all2_Cons1 blit_packet_def intro: sampled_passes)
qed

lemma begin_2d_ok:
  "triple (settled (False, m) None False False sb) (submission_begin_2d alloc) (settled (False, m) None False False sb)"
  by (rule triple_post [OF submission_begin_2d_ok]) simp

lemma triple_fill:
  "triple (settled (False, m) None False pc sb) (sequence
     (packet4 alloc RB_A2D_CLEAR_COLOR_DW0 vs # emit_a2d_common alloc format ifmt True sc #
      emit_destination alloc target format' sw # emit_blit alloc # fs)) Q"
  if "triple (settled (False, m) None False True True) (sequence fs) Q"
  by (rule triple_Cons [OF clear_color_ok], rule triple_Cons [OF emit_a2d_common_ok],
      rule triple_Cons [OF emit_destination_ok], rule triple_Cons [OF emit_blit_fill], rule that)

lemma emit_clear_ok:
  "triple (settled (False, m) None False False sb) (emit_clear alloc target area color)
     (settled (False, m) None False False True)"
  unfolding emit_clear_def
  by (rule triple_Cons [OF begin_2d_ok], rule triple_Cons [OF wait_for_idle_neutral],
      rule triple_Cons [OF emit_coordinates_ok], rule triple_fill, rule triple_one [OF submission_end_ok])

lemma clear_depth_ok:
  "triple (settled (False, m) None False False sb) (clear_depth alloc target area depth)
     (settled (False, m) None False False True)"
proof -
  have "triple (settled (False, m) None False False sb) (sequence
        [submission_begin_2d alloc, wait_for_idle alloc, emit_coordinates alloc area None,
         packet4 alloc RB_A2D_CLEAR_COLOR_DW0 [to_bits depth, 0, 0, 0],
         emit_a2d_common alloc FORMAT_32_FLOAT A2D_IFMT_FLOAT32 True True,
         emit_destination alloc target FORMAT_32_FLOAT 0,
         emit_blit alloc, submission_end alloc]) (settled (False, m) None False False True)"
    by (rule triple_Cons [OF begin_2d_ok], rule triple_Cons [OF wait_for_idle_neutral],
        rule triple_Cons [OF emit_coordinates_ok], rule triple_fill, rule triple_one [OF submission_end_ok])
  then show ?thesis by (auto simp: triple_def clear_depth_def ensures_simps)
qed

lemma clear_color_and_depth_ok:
  "triple (settled (False, m) None False False sb) (clear_color_and_depth alloc target depth_target area color depth)
     (settled (False, m) None False False True)"
proof -
  have "triple (settled (False, m) None False False sb) (sequence
        [submission_begin_2d alloc, emit_coordinates alloc area None,
         packet4 alloc RB_A2D_CLEAR_COLOR_DW0 [to_bits depth, 0, 0, 0],
         emit_a2d_common alloc FORMAT_32_FLOAT A2D_IFMT_FLOAT32 True True,
         emit_destination alloc depth_target FORMAT_32_FLOAT 0,
         emit_blit alloc, emit_coordinates alloc area None,
         packet4 alloc RB_A2D_CLEAR_COLOR_DW0 (clear_words color),
         emit_a2d_common alloc FORMAT_8_8_8_8_UNORM 0 True True,
         emit_destination alloc target FORMAT_8_8_8_8_UNORM A2D_BGRA_COLOR_SWAP,
         emit_blit alloc, submission_end alloc]) (settled (False, m) None False False True)"
    by (rule triple_Cons [OF begin_2d_ok], rule triple_Cons [OF emit_coordinates_ok], rule triple_fill,
        rule triple_Cons [OF emit_coordinates_ok], rule triple_fill, rule triple_one [OF submission_end_ok])
  then show ?thesis by (auto simp: triple_def clear_color_and_depth_def ensures_simps)
qed

lemma rotation_sampled:
  assumes "w = push_bit 8 FORMAT_8_8_8_8_UNORM OR BLIT_CHANNEL_MASK OR BLIT_SCISSOR OR rotation_code flips"
  shows "\<not> bit w 7"
  using assms
  by (cases flips rule: rotation_code.cases) (simp_all add: bit_or_iff bit_push_bit_iff emit_register_defs)

lemma blit_ok:
  "triple (settled (False, m) None False False sb) (blit alloc src src_rect dest dest_rect flt flips)
     (settled (False, m) None False False False)"
proof -
  let ?S = "settled (False, m) None False False False"
  define control where
    "control = push_bit 8 FORMAT_8_8_8_8_UNORM OR BLIT_CHANNEL_MASK OR BLIT_SCISSOR OR rotation_code flips"
  have bit: "control AND 0x80 = 0"
    using fill_bit rotation_sampled [OF control_def] by blast
  have rotate: "triple ?S (sequence (if rotation_code flips \<noteq> 0
      then [packet4 alloc RB_A2D_BLT_CNTL [control], packet4 alloc GRAS_A2D_BLT_CNTL [control]] else [])) ?S"
    using control_ok [of "(False, m)" None False False False alloc control] bit
    by (cases "rotation_code flips = 0") (simp_all add: triple_Nil triple_all emit_rules emit_register_defs)
  have prologue: "triple (settled (False, m) None False False sb) (sequence
      [submission_begin_2d alloc, wait_for_idle alloc, packet4 alloc GRAS_A2D_SRC_XMIN vs,
       emit_coordinates alloc dest_rect None, emit_a2d_common alloc FORMAT_8_8_8_8_UNORM 0 False True]) ?S" for vs
    by (rule triple_Cons [OF begin_2d_ok], rule triple_Cons [OF wait_for_idle_neutral],
        rule triple_keep_Cons, (simp add: emit_rules emit_register_defs; fail),
        rule triple_Cons [OF emit_coordinates_ok], rule triple_one [OF emit_a2d_common_ok])
  have copy: "triple ?S (sequence
      [packet4 alloc TPL1_A2D_SRC_TEXTURE_INFO info, packet4 alloc TPL1_A2D_SRC_TEXTURE_SIZE dim,
       address_register alloc TPL1_A2D_SRC_TEXTURE_BASE (External (sf_object src)) (sf_plane_offset src)
         (sf_plane_size src) ACC_READ,
       packet4 alloc TPL1_A2D_SRC_TEXTURE_PITCH pitch,
       emit_destination alloc dest FORMAT_8_8_8_8_UNORM A2D_BGRA_COLOR_SWAP,
       emit_blit alloc, submission_end alloc]) ?S" for info dim pitch
    by ((rule triple_keep_Cons, (simp add: emit_rules emit_register_defs; fail))+, rule emit_blit_sampled)
  show ?thesis
    unfolding triple_def blit_def Let_def control_def [symmetric]
    using tripleD [OF triple_append [OF prologue triple_append [OF rotate copy]]] by (auto simp: ensures_simps)
qed

section \<open>Uploads\<close>

lemma memcpy_ok:
  assumes "object_ok (Some xs) (Generated g) src n"
  shows "triple (emitting b (Some xs) (calm pd False sb) t [] (Some (Type7 CP_MEMCPY 5, [w]))) (sequence
     [address_words alloc (Generated g) src n ACC_READ, address_words alloc (External dest) off n ACC_WRITE,
      packet7 alloc WAIT_MEM_WRITES []]) (emitting b (Some xs) (calm pd False sb) t [] None)"
proof -
  let ?S = "\<lambda>pats cur. emitting b (Some xs) (calm pd False sb) t pats cur"
  have "triple (?S [] (Some (Type7 CP_MEMCPY 5, [w] @ [0, 0]))) (address_words alloc (External dest) off n ACC_WRITE)
      (?S ([] @ [write_packet]) None)"
    by (rule triple_due, rule address_words_open) (simp_all add: write_packet_def emit_register_defs)
  from triple_Cons [OF this triple_one [OF barrier_due]]
  have "triple (?S [] (Some (Type7 CP_MEMCPY 5, [w] @ [0, 0])))
      (sequence [address_words alloc (External dest) off n ACC_WRITE, packet7 alloc WAIT_MEM_WRITES []]) (?S [] None)"
    by (rule triple_absorb) (rule write_packet_passes, simp)
  then show ?thesis
    by (rule triple_Cons [OF address_words_open [OF assms], rotated]) simp
qed

lemma copy_range:
  assumes "copied < limit" and "checked_mul (ucast copied) 4 = Some (chunk_off :: u64)"
    and "checked_mul (ucast (min (limit - copied) CP_MEMCPY_MAX_DWORDS)) 4 = Some (chunk_size :: u64)"
    and "checked_add src_off chunk_off = Some chunk_src"
  shows "unat chunk_src + unat chunk_size \<le> unat src_off + 4 * unat (limit :: u32)"
proof -
  have "unat (min (limit - copied) CP_MEMCPY_MAX_DWORDS) \<le> unat (limit - copied)"
    using word_le_nat_alt min.cobounded1 by blast
  also have "\<dots> = unat limit - unat copied"
    using assms(1) by (simp add: unat_sub less_imp_le)
  finally have n: "unat (min (limit - copied) CP_MEMCPY_MAX_DWORDS) \<le> unat limit - unat copied" .
  have "unat chunk_off = 4 * unat copied"
    "unat chunk_size = 4 * unat (min (limit - copied) CP_MEMCPY_MAX_DWORDS)"
    using checked_mul_SomeD(1) [OF assms(2)] checked_mul_SomeD(1) [OF assms(3)]
    by (simp_all add: unat_ucast_up)
  then show ?thesis
    using checked_add_SomeD(1) [OF assms(4)] n assms(1) by (simp add: word_less_nat_alt)
qed

lemma copy_chunks_ok:
  assumes g: "object_of_size xs g n" and src: "unat src_off + 4 * unat limit \<le> n"
    and "settled b (Some xs) pd False sb em"
  shows "ensures (copy_chunks alloc g src_off dest dest_off limit copied em) (settled b (Some xs) pd False sb)"
  using assms(3)
proof (induction "unat limit - unat copied" arbitrary: copied em rule: less_induct)
  case less
  let ?S = "settled b (Some xs) pd False sb"
  let ?chunk = "min (limit - copied) CP_MEMCPY_MAX_DWORDS"
  have head: "triple ?S (sequence [push_type7 alloc CP_MEMCPY 5, push_word alloc ?chunk])
      (emitting b (Some xs) (calm pd False sb) (calm False False False) [] (Some (Type7 CP_MEMCPY 5, [] @ [?chunk])))"
    by (rule triple_Cons [OF open_type7], rule triple_one, rule push_word_open) simp
  have body: "ensures (case checked_add copied ?chunk of None \<Rightarrow> Err CompileOverflow
      | Some c \<Rightarrow> copy_chunks alloc g src_off dest dest_off limit c em') ?S"
    if "copied < limit" and "?S em'" for em'
    using less.hyps copy_chunk_progress [OF that(1)] that(2)
    by (cases "checked_add copied ?chunk") (simp_all add: ensures_simps)
  show ?case
  proof (cases "copied < limit")
    case False
    then show ?thesis using less.prems by (simp add: copy_chunks.simps [of alloc g src_off dest dest_off limit copied em] ensures_simps)
  next
    case True
    have "object_ok (Some xs) (Generated g) s sz"
      if "checked_mul (ucast copied) 4 = Some off" "checked_mul (ucast ?chunk) 4 = Some sz"
        "checked_add src_off off = Some s" for off sz s
      using copy_range [OF True that] src by (intro object_of_size_ok [OF g]) simp
    note copy = memcpy_ok [OF this]
    show ?thesis
      unfolding copy_chunks.simps [of alloc g src_off dest dest_off limit copied em] Let_def if_P [OF True] ensures_andThen ensures_ok_or
      by (intro allI impI ensures_mono [OF tripleD [OF head less.prems]] ensures_mono [OF tripleD [OF copy]]
          body [OF True]) simp_all
  qed
qed

lemma copy_upload_ok:
  assumes "object_of_size xs g n" and "unat src_off + sz \<le> n" and "settled b (Some xs) pd False sb em"
  shows "ensures (copy_upload alloc g src_off sz dest dest_off req em) (settled b (Some xs) pd False sb)"
proof -
  have "unat src_off + 4 * unat (of_nat (sz div 4) :: u32) \<le> n" if "sz div 4 < 2 ^ 32"
    using that assms(2) by (simp add: unat_of_nat)
  then show ?thesis
    using copy_chunks_ok [OF assms(1) _ assms(3)] by (simp add: copy_upload_def ensures_simps)
qed

lemma upload_buffer_ok:
  assumes "settled b None pd False sb em"
  shows "ensures (upload_buffer alloc dest dest_off req bs em) (settled b None pd False sb)"
proof -
  have "ensures (andThen (add_generated alloc bs 64 ACC_READ Upload em) (\<lambda>(g, em).
      copy_upload alloc g 0 (length bs) dest dest_off req em)) (settled b None pd False sb)"
    unfolding ensures_andThen
    by (rule ensures_mono [OF add_generated_ok [OF assms]], clarify, rule ensures_mono, rule copy_upload_ok)
      (auto intro: emitting_open)
  then show ?thesis by (simp add: upload_buffer_def ensures_simps)
qed

lemma upload_row_ok:
  assumes g: "object_of_size xs g (length bs)" and em: "settled b (Some xs) pd False sb em"
    and row: "row < length bs div row_bytes"
  shows "ensures (upload_row alloc g dest dest_off dest_stride row_bytes em row) (settled b (Some xs) pd False sb)"
proof -
  have "unat (of_nat (row * row_bytes) :: u64) \<le> row * row_bytes"
    by (metis mod_less_eq_dividend unat_of_nat)
  moreover have "row * row_bytes + row_bytes \<le> length bs"
  proof -
    have "Suc row * row_bytes \<le> (length bs div row_bytes) * row_bytes"
      using row by (intro mult_le_mono1) simp
    also have "\<dots> \<le> length bs" by (rule div_times_less_eq_dividend)
    finally show ?thesis by simp
  qed
  ultimately have "unat (of_nat (row * row_bytes) :: u64) + row_bytes \<le> length bs" by linarith
  from copy_upload_ok [OF g this em] show ?thesis
    by (auto simp: upload_row_def ensures_simps)
qed

lemma upload_rows_ok:
  assumes "settled b None pd False sb em"
  shows "ensures (upload_rows alloc dest dest_off dest_stride row_bytes bs em) (settled b None pd False sb)"
proof -
  let ?x = "\<lparr> gen_id = of_nat (length (em_generated em)), gen_alignment = 64, gen_bytes = bs,
    gen_access = ACC_READ, gen_kind = Upload \<rparr>"
  let ?g = "of_nat (length (em_generated em)) :: u32"
  have rows: "ensures (foldM (upload_row alloc ?g dest dest_off dest_stride row_bytes) em' rows)
      (settled b (Some (em_generated em @ [?x])) pd False sb)"
    if "object_of_size (em_generated em @ [?x]) ?g (length bs)"
      "settled b (Some (em_generated em @ [?x])) pd False sb em'"
      "set rows \<subseteq> {..< length bs div row_bytes}" for em' rows
    using that(2,3)
    by (induction rows arbitrary: em')
      (auto simp: ensures_simps intro: ensures_mono [OF upload_row_ok [OF that(1)]])
  have "object_of_size (em_generated em @ [?x]) ?g (length bs)" if "length (em_generated em) < 2 ^ 32"
    using that by (simp add: object_of_size_def unat_of_nat)
  moreover note emitting_new_object [OF assms, of ?x]
  ultimately show ?thesis
    by (auto simp: upload_rows_def u32_of_len_def ensures_simps intro!: ensures_mono [OF rows] intro: emitting_open)
qed

end
