(* ===== verification/Emit_Output.thy ===== *)
theory Emit_Output
  imports Emit_Streams
begin

text \<open>
  The finished streams of the code generator. \<open>emitter_run\<close> is the step relation of the emitter: any
  sequence of successful public commands. Every emitter it reaches is settled, so \<open>finish\<close> finds its
  placeholders in order and the stream it returns tiles into packets, names only covered ranges, and
  passes the kernel's ordering checks.
\<close>

section \<open>Batches\<close>

lemma begin_draw_batch_ok:
  assumes "settled (False, m) None False False sb em" and "begin_draw_batch alloc em = Ok em'"
  shows "settled (True, m) None False False sb em'"
proof -
  have "\<not> em_draw_batch_active em" using assms(1) by (simp add: emitting_def)
  then obtain em1 where em1: "submission_begin_3d alloc em = Ok em1"
    "em' = em1 \<lparr> em_draw_batch_active := True, em_last_draw := None \<rparr>"
    using assms(2) by (auto simp: begin_draw_batch_def outcome_simps)
  have "settled (False, m) None False False sb em1"
    by (rule ensuresD [OF tripleD [OF submission_begin_3d_ok assms(1)] em1(1)])
  then show ?thesis
    unfolding em1(2) by (simp add: emitting_def fixups_covered_def objects_ok_def)
qed

lemma end_draw_batch_ok:
  assumes "settled (True, m) None pd False sb em" and "end_draw_batch alloc em = Ok em'"
  shows "settled (False, m) None False False sb em'"
proof -
  have "em_draw_batch_active em" using assms(1) by (simp add: emitting_def)
  then obtain em1 where em1: "submission_end alloc em = Ok em1"
    "em' = em1 \<lparr> em_draw_batch_active := False, em_last_draw := None \<rparr>"
    using assms(2) by (auto simp: end_draw_batch_def outcome_simps)
  have "settled (True, m) None False False sb em1"
    by (rule ensuresD [OF tripleD [OF submission_end_ok assms(1)] em1(1)])
  then show ?thesis
    unfolding em1(2) by (simp add: emitting_def fixups_covered_def objects_ok_def)
qed

section \<open>Runs\<close>

text \<open>The public commands; the caller drops an emitter whose command failed. A sampler is an array of
  four dwords.\<close>

inductive emit_step :: "(usize \<Rightarrow> bool) \<Rightarrow> Emitter \<Rightarrow> Emitter \<Rightarrow> bool" for alloc where
  step_begin: "begin_draw_batch alloc em = Ok em' \<Longrightarrow> emit_step alloc em em'"
| step_end: "end_draw_batch alloc em = Ok em' \<Longrightarrow> emit_step alloc em em'"
| step_continue: "continue_draw_batch em = Ok em' \<Longrightarrow> emit_step alloc em em'"
| step_draw: "length (dr_sampler d) = 4 \<Longrightarrow> draw alloc d em = Ok em' \<Longrightarrow> emit_step alloc em em'"
| step_clear: "emit_clear alloc target area color em = Ok em' \<Longrightarrow> emit_step alloc em em'"
| step_clear_depth: "clear_depth alloc target area depth em = Ok em' \<Longrightarrow> emit_step alloc em em'"
| step_clear_both: "clear_color_and_depth alloc target dt area color depth em = Ok em' \<Longrightarrow> emit_step alloc em em'"
| step_blit: "blit alloc src sr dest dr flt flips em = Ok em' \<Longrightarrow> emit_step alloc em em'"
| step_copy: "emit_copy alloc src sr dest dr em = Ok em' \<Longrightarrow> emit_step alloc em em'"
| step_buffer: "upload_buffer alloc obj off req bs em = Ok em' \<Longrightarrow> emit_step alloc em em'"
| step_rows: "upload_rows alloc obj off pitch row_bytes bs em = Ok em' \<Longrightarrow> emit_step alloc em em'"

inductive emitter_run :: "(usize \<Rightarrow> bool) \<Rightarrow> u32 \<Rightarrow> Emitter \<Rightarrow> bool" for alloc budget where
  run_new: "emitter_run alloc budget (emitter_new budget)"
| run_step: "emitter_run alloc budget em \<Longrightarrow> emit_step alloc em em' \<Longrightarrow> emitter_run alloc budget em'"

text \<open>Between two commands rendering is due only inside a draw batch.\<close>

definition ready :: "usize \<Rightarrow> Emitter \<Rightarrow> bool" where
  "ready m em \<longleftrightarrow> (\<exists>b pd sb. (pd \<longrightarrow> b) \<and> settled (b, m) None pd False sb em)"

lemma readyI: "settled (b, m) None pd False sb em \<Longrightarrow> pd \<longrightarrow> b \<Longrightarrow> ready m em"
  unfolding ready_def by blast

lemma ready_new: "ready (unat budget) (emitter_new budget)"
proof (rule readyI)
  have "encodes [] []" by (rule no_packet)
  then have "stream_ok (calm False False False) [] []"
    by (auto simp: stream_ok_def intro!: exI [of _ "[]"] passes_Nil)
  moreover have "unat budget < 2 ^ 32" using unsigned_less [of budget, where ?'a = nat] by simp
  ultimately show "settled (False, unat budget) None False False False (emitter_new budget)"
    by (simp add: emitting_def emitter_new_def fixups_ok_def fixups_covered_def objects_ok_def)
qed simp

lemma begin_2d_in_batch:
  "em_draw_batch_active em \<Longrightarrow> sequence (submission_begin_2d alloc # fs) em = Err InvalidState"
  by (simp add: submission_begin_2d_def)

lemma two_d_outside_batch:
  "emit_clear alloc target area color em = Ok em' \<Longrightarrow> \<not> em_draw_batch_active em"
  "clear_depth alloc target area depth em = Ok em' \<Longrightarrow> \<not> em_draw_batch_active em"
  "clear_color_and_depth alloc target dt area color depth em = Ok em' \<Longrightarrow> \<not> em_draw_batch_active em"
  "blit alloc src sr dest dr flt flips em = Ok em' \<Longrightarrow> \<not> em_draw_batch_active em"
  by (auto simp: emit_clear_def clear_depth_def clear_color_and_depth_def blit_def Let_def
      submission_begin_2d_def split: if_splits)

lemma ready_2d:
  assumes "ready m em" and "\<not> em_draw_batch_active em"
    and "\<And>sb. triple (settled (False, m) None False False sb) f (settled (False, m) None False False (g sb))" and "f em = Ok em'"
  shows "ready m em'"
proof -
  obtain sb where "settled (False, m) None False False sb em"
    using assms(1,2) by (auto simp: ready_def emitting_def)
  from ensuresD [OF tripleD [OF assms(3) this] assms(4)] show ?thesis by (rule readyI) simp
qed

lemma ready_step:
  assumes "emit_step alloc em em'" and "ready m em"
  shows "ready m em'"
proof -
  obtain b pd sb where em: "settled (b, m) None pd False sb em" and pd: "pd \<longrightarrow> b"
    using assms(2) by (auto simp: ready_def)
  have b: "em_draw_batch_active em = b" using em by (simp add: emitting_def)
  show ?thesis
    using assms(1)
  proof cases
    case step_begin
    moreover have "\<not> b" using step_begin b by (auto simp: begin_draw_batch_def)
    ultimately have "settled (False, m) None False False sb em" using em pd by (cases pd) simp_all
    from readyI [OF begin_draw_batch_ok [OF this step_begin]] show ?thesis by simp
  next
    case step_end
    moreover have b using step_end b by (auto simp: end_draw_batch_def split: if_splits)
    ultimately have "settled (True, m) None pd False sb em" using em by simp
    from readyI [OF end_draw_batch_ok [OF this step_end]] show ?thesis by simp
  next
    case step_continue
    then show ?thesis using assms(2) by (auto simp: continue_draw_batch_def split: if_splits)
  next
    case (step_draw d)
    from ensuresD [OF tripleD [OF draw_ok [OF step_draw(1)] em] step_draw(2)] show ?thesis
      by (auto intro: readyI)
  next
    case step_clear
    then show ?thesis using ready_2d [OF assms(2) _ emit_clear_ok] two_d_outside_batch(1) by blast
  next
    case step_clear_depth
    then show ?thesis using ready_2d [OF assms(2) _ clear_depth_ok] two_d_outside_batch(2) by blast
  next
    case step_clear_both
    then show ?thesis using ready_2d [OF assms(2) _ clear_color_and_depth_ok] two_d_outside_batch(3) by blast
  next
    case step_blit
    then show ?thesis using ready_2d [OF assms(2) _ blit_ok] two_d_outside_batch(4) by blast
  next
    case step_copy
    then show ?thesis
      unfolding emit_copy_def using ready_2d [OF assms(2) _ blit_ok] two_d_outside_batch(4) by blast
  next
    case step_buffer
    then show ?thesis using ensuresD [OF upload_buffer_ok [OF em]] readyI pd by blast
  next
    case step_rows
    then show ?thesis using ensuresD [OF upload_rows_ok [OF em]] readyI pd by blast
  qed
qed

lemma run_ready: "emitter_run alloc budget em \<Longrightarrow> ready (unat budget) em"
  by (induction rule: emitter_run.induct) (auto intro: ready_new ready_step)

section \<open>Joining the texture stream and the draw stream\<close>

lemma stream_ok_join:
  assumes "stream_ok (calm False False False) [] ws" and "stream_ok s [] vs"
  shows "stream_ok s [] (ws @ vs)"
proof -
  obtain hps where h: "encodes hps ws" "passes (calm False False False) hps (calm False False False)"
    using assms(1) by (auto simp: stream_ok_def)
  obtain gps where g: "encodes gps vs" "passes (calm False False False) gps s"
    using assms(2) by (auto simp: stream_ok_def)
  show ?thesis
    unfolding stream_ok_def
    using encodes_append [OF h(1) g(1)] passes_append [OF h(2) g(2)]
    by (intro exI [of _ "hps @ gps"] exI [of _ "[]"]) simp
qed

definition shifted :: "u32 \<Rightarrow> SymbolicAddress \<Rightarrow> SymbolicAddress" where
  "shifted p f = f \<lparr> fx_word_offset := fx_word_offset f + p \<rparr>"

lemma unat_shifted:
  assumes "unat (fx_word_offset f) + unat p < 2 ^ 32"
  shows "unat (fx_word_offset (shifted p f)) = unat (fx_word_offset f) + unat p"
  using assms by (simp add: shifted_def unat_word_ariths)

lemma shift_fixups:
  assumes "\<forall>f \<in> set fs. unat (fx_word_offset f) + unat p < 2 ^ 32"
  shows "foldM (shift_fixup p) out fs = Ok (out @ map (shifted p) fs)"
  using assms
  by (induction fs arbitrary: out) (simp_all add: shift_fixup_def checked_add_def shifted_def outcome_simps)

lemma fixups_ok_join:
  assumes ws: "fixups_ok ws fs" and vs: "fixups_ok vs gs" and p: "unat p = length ws"
    and len: "length ws + length vs < 2 ^ 32"
  shows "fixups_ok (ws @ vs) (fs @ map (shifted p) gs)"
proof -
  have off: "unat (fx_word_offset (shifted p g)) = unat (fx_word_offset g) + length ws" if "g \<in> set gs" for g
    using that vs len p by (subst unat_shifted) (auto simp: fixups_ok_def fixup_end_def)
  have shifted: "sorted_wrt (\<lambda>a b. fixup_end a \<le> unat (fx_word_offset b)) (map (shifted p) gs)"
    unfolding sorted_wrt_map
    by (rule sorted_wrt_mono_rel [of gs "\<lambda>a b. fixup_end a \<le> unat (fx_word_offset b)"])
      (use vs off in \<open>auto simp: fixups_ok_def fixup_end_def\<close>)
  have "fixup_end f \<le> unat (fx_word_offset (shifted p g))" if "f \<in> set fs" "g \<in> set gs" for f g
    using that ws off by (auto simp: fixups_ok_def)
  then have "sorted_wrt (\<lambda>a b. fixup_end a \<le> unat (fx_word_offset b)) (fs @ map (shifted p) gs)"
    using ws shifted by (auto simp: sorted_wrt_append fixups_ok_def)
  moreover have "fixup_end (shifted p g) \<le> length (ws @ vs) \<and>
      placeholder_valid (fx_encoding (shifted p g)) (take 2 (drop (unat (fx_word_offset (shifted p g))) (ws @ vs)))"
    if "g \<in> set gs" for g
    using that vs off [OF that] by (auto simp: fixups_ok_def fixup_end_def shifted_def)
  ultimately show ?thesis
    using fixups_ok_append [OF ws, of vs] by (auto simp: fixups_ok_def)
qed

lemma check_fixups:
  assumes "fixups_ok ws fs" and "length ws < 2 ^ 32" and "\<forall>e. prev = Some e \<longrightarrow> (\<forall>f \<in> set fs. e \<le> unat (fx_word_offset f))"
  shows "\<exists>r. foldM (check_fixup ws) prev fs = Ok r"
  using assms
proof (induction fs arbitrary: prev)
  case (Cons f fs)
  have f: "unat (fx_word_offset f) + 2 \<le> length ws"
    "placeholder_valid (fx_encoding f) (take 2 (drop (unat (fx_word_offset f)) ws))"
    using Cons.prems(1) by (simp_all add: fixups_ok_def fixup_end_def)
  have two: "fixup_word_count (fx_encoding f) = 2" by (cases "fx_encoding f") simp_all
  have e: "unat (fx_word_offset f + 2) = unat (fx_word_offset f) + 2"
    using f(1) Cons.prems(2) by (simp add: unat_word_ariths)
  have step: "check_fixup ws prev f = Ok (Some (unat (fx_word_offset f) + 2))"
    using f Cons.prems(2,3) two e
    by (auto simp: check_fixup_def checked_add_def slice_def Let_def outcome_simps split: option.splits)
  have "\<exists>r. foldM (check_fixup ws) (Some (unat (fx_word_offset f) + 2)) fs = Ok r"
    using Cons.prems(1,2) by (intro Cons.IH) (auto simp: fixups_ok_def fixup_end_def)
  then show ?case by (simp add: step)
qed simp

section \<open>Finish\<close>

abbreviation budget_error :: "CompileError \<Rightarrow> bool" where
  "budget_error e \<equiv> e \<in> {CommandBudgetExceeded, CompileOutOfMemory}"

lemma reserve_words_error: "reserve_words alloc n em = Err e \<Longrightarrow> budget_error e"
  by (auto simp: reserve_words_def outcome_simps split: option.splits if_splits)

lemma prologue_error:
  "sequence [packet7 alloc EVENT_WRITE [EVENT_CACHE_INVALIDATE], wait_for_idle alloc] em = Err e \<Longrightarrow> budget_error e"
  by (auto simp: packet7_def wait_for_idle_def push_type7_def extend_words_def push_word_def u16_of_len_def
      type7_def TYPE7_MAX_COUNT_def Let_def opcode_defs outcome_simps dest!: reserve_words_error)

lemma prologue_ok:
  "triple (emitting b gs (calm False False False) t [] None)
     (sequence [packet7 alloc EVENT_WRITE [EVENT_CACHE_INVALIDATE], wait_for_idle alloc])
     (emitting b gs (calm False False False) t [] None)"
  by (rule triple_all) (simp add: emit_rules emit_register_defs opcode_defs)

text \<open>The emitter with its streams joined.\<close>

definition joined :: "Emitter \<Rightarrow> Emitter" where
  "joined em = em \<lparr> em_words := em_words em @ em_texture_words em, em_texture_words := [],
     em_fixups := em_fixups em @ map (shifted (of_nat (length (em_words em)))) (em_texture_fixups em),
     em_texture_fixups := [] \<rparr>"

lemma joined_ok:
  assumes "emitting b gs (calm False False False) s [] None em" and "snd b < 2 ^ 32"
  shows "emitting b gs s (calm False False False) [] None (joined em)"
proof -
  have len: "length (em_words em) + length (em_texture_words em) < 2 ^ 32"
    using assms by (simp add: emitting_def)
  then have p: "unat (of_nat (length (em_words em)) :: u32) = length (em_words em)"
    by (simp add: unat_of_nat)
  have "fixups_ok (em_words em @ em_texture_words em) (em_fixups (joined em))"
    using assms(1) fixups_ok_join [OF _ _ p len] by (simp add: emitting_def joined_def)
  moreover have "stream_ok s [] (em_words em @ em_texture_words em)"
    using assms(1) by (intro stream_ok_join) (simp_all add: emitting_def)
  moreover have "stream_ok (calm False False False) [] []"
    by (auto simp: stream_ok_def intro!: exI [of _ "[]"] passes_Nil no_packet)
  moreover have "covered xs (shifted p f) = covered xs f" "in_object ys (shifted p f) = in_object ys f" for xs ys p f
    by (simp_all add: covered_def covers_def in_object_def shifted_def)
  ultimately show ?thesis
    using assms(1)
    by (auto simp: emitting_def joined_def fixups_ok_def fixups_covered_def objects_ok_def)
qed

lemma join_steps:
  assumes em: "emitting b gs (calm False False False) s [] None em" and "snd b < 2 ^ 32"
  shows "andThen (u32_of_len (em_words em)) (\<lambda>prefix_len.
      andThen (guard (alloc x) CompileOutOfMemory) (\<lambda>_.
      andThen (guard (alloc y) CompileOutOfMemory) (\<lambda>_.
      andThen (foldM (shift_fixup prefix_len) (em_fixups em) (em_texture_fixups em)) (\<lambda>fxs.
      Ok (em \<lparr> em_words := em_words em @ em_texture_words em, em_texture_words := [],
               em_fixups := fxs, em_texture_fixups := [] \<rparr>))))) =
    (if alloc x \<and> alloc y then Ok (joined em) else Err CompileOutOfMemory)"
proof -
  have len: "length (em_words em) + length (em_texture_words em) < 2 ^ 32"
    using assms by (simp add: emitting_def)
  then have "foldM (shift_fixup (of_nat (length (em_words em)))) (em_fixups em) (em_texture_fixups em) =
      Ok (em_fixups em @ map (shifted (of_nat (length (em_words em)))) (em_texture_fixups em))"
    using em by (intro shift_fixups) (auto simp: emitting_def fixups_ok_def fixup_end_def unat_of_nat)
  then show ?thesis using len by (simp add: u32_of_len_def joined_def guard_def)
qed

lemma prepend_textures_ok:
  assumes em: "settled b None False False sb em" and m: "snd b < 2 ^ 32"
  shows "ensures (prepend_textures alloc em) (settled b None False False sb)"
    and "\<And>e. prepend_textures alloc em = Err e \<Longrightarrow> budget_error e"
proof -
  let ?P = "emitting b None (calm False False False) (calm False False sb) [] None"
  have run: "ensures (sequence [packet7 alloc EVENT_WRITE [EVENT_CACHE_INVALIDATE], wait_for_idle alloc]
      (swap_streams em)) ?P"
    using em by (intro tripleD [OF prologue_ok]) (simp only: emitting_swap)
  show "ensures (prepend_textures alloc em) (settled b None False False sb)"
  proof (cases "em_texture_words em = []")
    case True
    then show ?thesis using em by (simp add: prepend_textures_def ensures_simps)
  next
    case False
    show ?thesis
      unfolding prepend_textures_def if_not_P [OF False]
      by (subst ensures_andThen, rule ensures_mono [OF run], subst join_steps [OF _ m])
        (auto simp: ensures_simps intro: joined_ok [OF _ m])
  qed
  show "budget_error e" if e: "prepend_textures alloc em = Err e" for e
  proof (cases "sequence [packet7 alloc EVENT_WRITE [EVENT_CACHE_INVALIDATE], wait_for_idle alloc] (swap_streams em)")
    case (Ok em')
    from e show ?thesis
      unfolding prepend_textures_def Ok andThen.simps join_steps [OF ensuresD [OF run Ok] m]
      by (auto split: if_splits)
  next
    case (Err e')
    from e show ?thesis
      unfolding prepend_textures_def Err andThen.simps using prologue_error [OF Err]
      by (auto split: if_splits)
  next
    case Panic
    then show ?thesis using run by (simp add: ensures_simps)
  qed
qed

definition finished :: "usize \<Rightarrow> RelocatablePm4 \<Rightarrow> bool" where
  "finished m p \<longleftrightarrow> length (rp_words p) \<le> m \<and> (\<exists>sb. stream_ok (calm False False sb) [] (rp_words p)) \<and>
     fixups_ok (rp_words p) (rp_fixups p) \<and> list_all access_ok (rp_accesses p) \<and>
     (\<forall>f \<in> set (rp_fixups p). covered (rp_accesses p) f \<and> in_object (rp_generated_objects p) f)"

lemma finish_ok:
  assumes "ready m em" and m: "m < 2 ^ 32"
  shows "ensures (emit_finish alloc em) (finished m)"
    and "\<And>e. emit_finish alloc em = Err e \<Longrightarrow> e = InvalidState \<or> budget_error e"
proof -
  obtain b pd sb where em: "settled (b, m) None pd False sb em" and pd: "pd \<longrightarrow> b"
    using assms(1) by (auto simp: ready_def)
  have b: "em_draw_batch_active em = b" using em by (simp add: emitting_def)
  have checked: "\<exists>r. foldM (check_fixup (em_words em')) None (em_fixups em') = Ok r"
    if "settled (False, m) None False False sb em'" for em'
    using that m by (intro check_fixups) (auto simp: emitting_def)
  have idle: "settled (False, m) None False False sb em" if "\<not> b" using em pd that by (cases pd) simp_all
  note pre = prepend_textures_ok [OF idle, simplified, OF _ m [simplified]]
  show "ensures (emit_finish alloc em) (finished m)"
  proof (cases b)
    case False
    show ?thesis
      unfolding emit_finish_def b if_not_P [OF False] ensures_andThen
    proof (rule ensures_mono [OF pre(1) [OF False]])
      fix em' assume em': "settled (False, m) None False False sb em'"
      obtain r where r: "foldM (check_fixup (em_words em')) None (em_fixups em') = Ok r"
        using checked [OF em'] ..
      show "ensures (foldM (check_fixup (em_words em')) None (em_fixups em')) (\<lambda>_. ensures (Ok \<lparr> rp_words = em_words em',
          rp_fixups = em_fixups em', rp_accesses = em_accesses em', rp_generated_objects = em_generated em' \<rparr>) (finished m))"
        using em' unfolding r ensures_Ok by (auto simp: emitting_def fixups_covered_def finished_def)
    qed
  qed (simp add: emit_finish_def b ensures_simps)
  show "e = InvalidState \<or> budget_error e" if "emit_finish alloc em = Err e" for e
  proof (cases "b \<or> (\<exists>e. prepend_textures alloc em = Err e)")
    case True
    then show ?thesis using that by (auto simp: emit_finish_def b split: if_splits dest: pre(2))
  next
    case False
    then obtain em' where em': "prepend_textures alloc em = Ok em'"
      using ensures_no_panic [OF pre(1)] by (cases "prepend_textures alloc em") auto
    then show ?thesis
      using that checked [OF ensuresD [OF pre(1) em']] False by (auto simp: emit_finish_def b)
  qed
qed

section \<open>What the kernel sees\<close>

lemma stream_packets:
  assumes "stream_ok (calm False False sb) [] ws" and "length ws < 2 ^ 32"
  obtains ps where "collect_packets (packets_new ws) = Ok ps" "validate_memcpy_barriers ps = Ok ()"
    "validate_ccu_transitions ps = Ok ()" "validate_render_retirement ps = Ok ()"
proof -
  obtain hps where h: "encodes hps ws" "passes (calm False False False) hps (calm False False sb)"
    using assms(1) by (auto simp: stream_ok_def)
  obtain ps where ps: "framed 0 ps ws" "map hp_of ps = hps"
    using encodes_framed [OF h(1)] by blast
  have "collect_packets (packets_new ws) = Ok ps"
    using collect_packets_framed [of 0 ws ps] ps(1) assms(2) by (simp add: packets_new_at)
  moreover have p: "foldM memcpy_barrier_step False ps = Ok False" "foldM ccu_step Idle ps = Ok Idle"
    "\<And>rest. retirement_loop False False False (ps @ rest) = retirement_loop False False sb rest"
    using h(2) ps(2) by (simp_all add: passes_def calm_def)
  moreover have "retirement_loop False False False ps = Ok ()" using p(3) [of "[]"] by simp
  ultimately show ?thesis
    using that by (simp add: validate_memcpy_barriers_def validate_ccu_transitions_def validate_render_retirement_def)
qed

lemma budget_bound: "unat (budget :: u32) < 2 ^ 32"
  using unsigned_less [of budget, where ?'a = nat] by simp

text \<open>A small run, for the examples: one upload of a dword to offset 16 of object 7.\<close>

definition upload_words :: "u32 list" where
  "upload_words = [0x70758005, 1, 0, 0, 0, 0, 0x70928000]"

definition uploaded :: Emitter where
  "uploaded = (emitter_new 64) \<lparr> em_words := upload_words,
     em_fixups := [\<lparr> fx_word_offset = 2, fx_object = Generated 0, fx_object_offset = 0,
         fx_required_size = 4, fx_access = ACC_READ, fx_encoding = PlainVa \<rparr>,
       \<lparr> fx_word_offset = 4, fx_object = External 7, fx_object_offset = 16, fx_required_size = 4,
         fx_access = ACC_WRITE, fx_encoding = PlainVa \<rparr>],
     em_accesses := [\<lparr> ra_object = Generated 0, ra_offset = 0, ra_size = 4, ra_access = ACC_READ \<rparr>,
       \<lparr> ra_object = External 7, ra_offset = 16, ra_size = 4, ra_access = ACC_WRITE \<rparr>],
     em_generated := [\<lparr> gen_id = 0, gen_alignment = 64, gen_bytes = [1, 2, 3, 4], gen_access = ACC_READ,
       gen_kind = Upload \<rparr>] \<rparr>"

lemma upload_headers: "type7 CP_MEMCPY 5 = Ok 0x70758005" "type7 WAIT_MEM_WRITES 0 = Ok 0x70928000"
  by (simp_all add: type7_def TYPE7_MAX_COUNT_def TYPE7_TAG_def Let_def opcode_defs emit_register_defs
      odd_parity_bit_def count_ones_def upt_rec)

lemma uploaded_step: "upload_buffer (\<lambda>_. True) 7 16 4 [1, 2, 3, 4] (emitter_new 64) = Ok uploaded"
  by (simp add: uploaded_def upload_words_def upload_buffer_def emitter_new_def add_generated_def u32_of_len_def
      copy_upload_def copy_chunks.simps guard_def checked_mul_def checked_add_def checked_sub_def
      CP_MEMCPY_MAX_DWORDS_def Let_def push_type7_def push_word_def upload_headers reserve_words_def
      usize_checked_add_def address_words_def placeholder_def extend_words_def record_access_def
      merge_accesses.simps packet7_def u16_of_len_def)

lemma uploaded_run: "emitter_run (\<lambda>_. True) 64 uploaded"
  by (rule run_step [OF run_new step_buffer [OF uploaded_step]])

lemma uploaded_finish:
  "emit_finish (\<lambda>_. True) uploaded = Ok \<lparr> rp_words = upload_words, rp_fixups = em_fixups uploaded,
     rp_accesses = em_accesses uploaded, rp_generated_objects = em_generated uploaded \<rparr>"
  by (simp add: emit_finish_def prepend_textures_def uploaded_def upload_words_def emitter_new_def check_fixup_def
      checked_add_def slice_def Let_def)

text \<open>C9. Whatever sequence of commands an emitter carried out, \<open>finish\<close> does not panic and its
  self-check of the placeholders never fires: it fails only inside a draw batch or for lack of words
  or memory. The stream it returns is within the word budget and tiles into packets; its placeholders
  are in order, do not overlap, and hold the words the relocation expects; every placeholder lies in
  a recorded access of the same object and rights, or names a program of the shader pack; and a
  generated object it names exists and contains the required range.\<close>

theorem finished_stream_wellformed:
  assumes run: "emitter_run alloc budget em"
  shows "emit_finish alloc em \<noteq> Panic \<and>
    (\<forall>e. emit_finish alloc em = Err e \<longrightarrow> e \<in> {InvalidState, CommandBudgetExceeded, CompileOutOfMemory}) \<and>
    (\<forall>p. emit_finish alloc em = Ok p \<longrightarrow>
      length (rp_words p) \<le> unat budget \<and> (\<exists>ps. collect_packets (packets_new (rp_words p)) = Ok ps) \<and>
      sorted_wrt (\<lambda>f g. unat (fx_word_offset f) + 2 \<le> unat (fx_word_offset g)) (rp_fixups p) \<and>
      (\<forall>f \<in> set (rp_fixups p). unat (fx_word_offset f) + 2 \<le> length (rp_words p) \<and>
         placeholder_valid (fx_encoding f) (take 2 (drop (unat (fx_word_offset f)) (rp_words p))) \<and>
         covered (rp_accesses p) f \<and> in_object (rp_generated_objects p) f))"
proof (intro conjI [of "_ \<noteq> Panic"] conjI [of "\<forall>e. _ e"] allI impI)
  note f = finish_ok [OF run_ready [OF run] budget_bound]
  show "emit_finish alloc em \<noteq> Panic" by (rule ensures_no_panic [OF f(1)])
  show "e \<in> {InvalidState, CommandBudgetExceeded, CompileOutOfMemory}" if "emit_finish alloc em = Err e" for e
    using f(2) [OF that] by blast
  show "length (rp_words p) \<le> unat budget \<and> (\<exists>ps. collect_packets (packets_new (rp_words p)) = Ok ps) \<and>
      sorted_wrt (\<lambda>f g. unat (fx_word_offset f) + 2 \<le> unat (fx_word_offset g)) (rp_fixups p) \<and>
      (\<forall>f \<in> set (rp_fixups p). unat (fx_word_offset f) + 2 \<le> length (rp_words p) \<and>
         placeholder_valid (fx_encoding f) (take 2 (drop (unat (fx_word_offset f)) (rp_words p))) \<and>
         covered (rp_accesses p) f \<and> in_object (rp_generated_objects p) f)" if "emit_finish alloc em = Ok p" for p
  proof -
    have p: "finished (unat budget) p" by (rule ensuresD [OF f(1) that])
    moreover have "length (rp_words p) < 2 ^ 32" using p budget_bound [of budget] by (simp add: finished_def)
    ultimately show ?thesis
      by (auto simp: finished_def fixups_ok_def fixup_end_def elim!: stream_packets)
  qed
qed

theorem finished_stream_wellformed_witness:
  "emitter_run (\<lambda>_. True) 64 uploaded \<and> (\<exists>p. emit_finish (\<lambda>_. True) uploaded = Ok p \<and>
     length (rp_words p) \<le> 64 \<and> (\<exists>ps. collect_packets (packets_new (rp_words p)) = Ok ps) \<and>
     (\<forall>f \<in> set (rp_fixups p). covered (rp_accesses p) f))"
  using finished_stream_wellformed [OF uploaded_run] uploaded_run uploaded_finish by simp

text \<open>C3. Every stream the code generator finishes passes the ordering checks of the kernel: each memory
  write is followed by its barrier, the cache transitions are complete, and every draw, clear and blit
  is retired.\<close>

theorem finished_stream_ordered:
  assumes "emitter_run alloc budget em" and "emit_finish alloc em = Ok p"
  shows "\<exists>ps. collect_packets (packets_new (rp_words p)) = Ok ps \<and> validate_memcpy_barriers ps = Ok () \<and>
    validate_ccu_transitions ps = Ok () \<and> validate_render_retirement ps = Ok ()"
proof -
  have p: "finished (unat budget) p"
    by (rule ensuresD [OF finish_ok(1) [OF run_ready [OF assms(1)] budget_bound] assms(2)])
  moreover have "length (rp_words p) < 2 ^ 32" using p budget_bound [of budget] by (simp add: finished_def)
  ultimately show ?thesis by (auto simp: finished_def elim!: stream_packets)
qed

theorem finished_stream_ordered_witness:
  "emitter_run (\<lambda>_. True) 64 uploaded \<and> (\<exists>ps. collect_packets (packets_new upload_words) = Ok ps \<and>
     validate_memcpy_barriers ps = Ok () \<and> validate_ccu_transitions ps = Ok () \<and>
     validate_render_retirement ps = Ok ())"
  using finished_stream_ordered [OF uploaded_run uploaded_finish] uploaded_run by simp

end
