(* ===== verification/Emit_Confined.thy ===== *)
theory Emit_Confined
  imports Emit_Output
begin

text \<open>
  The resources an emitted stream may reach. A limit gives, for an object and an access, the number of
  bytes the object has for that access, or nothing. An emitter is within a limit when every
  placeholder and every recorded access of an external object is; each command keeps that, provided
  the ranges it is called with are within the limit.
\<close>

named_theorems keeps_rules

type_synonym limit = "u32 \<Rightarrow> Access \<Rightarrow> nat option"

fun permits :: "limit \<Rightarrow> ObjectRef \<Rightarrow> u64 \<Rightarrow> u64 \<Rightarrow> Access \<Rightarrow> bool" where
  "permits L (External e) off sz acc \<longleftrightarrow> (\<exists>n. L e acc = Some n \<and> unat off + unat sz \<le> n)"
| "permits L (Generated g) off sz acc \<longleftrightarrow> True"
| "permits L (CanonicalProgram v) off sz acc \<longleftrightarrow> True"

abbreviation permits_fixup :: "limit \<Rightarrow> SymbolicAddress \<Rightarrow> bool" where
  "permits_fixup L f \<equiv> permits L (fx_object f) (fx_object_offset f) (fx_required_size f) (fx_access f)"

abbreviation permits_access :: "limit \<Rightarrow> ResourceAccess \<Rightarrow> bool" where
  "permits_access L a \<equiv> permits L (ra_object a) (ra_offset a) (ra_size a) (ra_access a)"

definition within :: "limit \<Rightarrow> Emitter \<Rightarrow> bool" where
  "within L em \<longleftrightarrow> (\<forall>f \<in> set (em_fixups em). permits_fixup L f) \<and>
     (\<forall>f \<in> set (em_texture_fixups em). permits_fixup L f) \<and> (\<forall>a \<in> set (em_accesses em). permits_access L a)"

definition keeps :: "limit \<Rightarrow> emission \<Rightarrow> bool" where
  "keeps L f \<longleftrightarrow> (\<forall>em em'. within L em \<longrightarrow> f em = Ok em' \<longrightarrow> within L em')"

lemma keepsI: "(\<And>em em'. within L em \<Longrightarrow> f em = Ok em' \<Longrightarrow> within L em') \<Longrightarrow> keeps L f"
  unfolding keeps_def by blast

lemma keepsD: "keeps L f \<Longrightarrow> within L em \<Longrightarrow> f em = Ok em' \<Longrightarrow> within L em'"
  unfolding keeps_def by blast

lemma keeps_Nil [keeps_rules]: "keeps L (sequence [])"
  by (simp add: keeps_def)

lemma keeps_Cons [keeps_rules]: "keeps L f \<Longrightarrow> keeps L (sequence fs) \<Longrightarrow> keeps L (sequence (f # fs))"
  unfolding keeps_def sequence.simps andThen_eq_Ok by blast


lemma within_sequence: "sequence fs em = Ok em' \<Longrightarrow> within L em \<Longrightarrow> keeps L (sequence fs) \<Longrightarrow> within L em'"
  unfolding keeps_def by blast

lemma keeps_andThen: "keeps L f \<Longrightarrow> keeps L g \<Longrightarrow> keeps L (\<lambda>em. andThen (f em) g)"
  unfolding keeps_def andThen_eq_Ok by blast

lemma keeps_prefix: "(\<And>x. m = Ok x \<Longrightarrow> keeps L (f x)) \<Longrightarrow> keeps L (\<lambda>em. andThen m (\<lambda>x. f x em))"
  unfolding keeps_def andThen_eq_Ok by blast

lemma keeps_if: "keeps L f \<Longrightarrow> keeps L (\<lambda>em. if c em then Err e else f em)"
  unfolding keeps_def by auto

section \<open>Words\<close>

lemma within_words [simp]:
  "within L (em \<lparr> em_words := ws \<rparr>) = within L em" "within L (em \<lparr> em_texture_words := ws \<rparr>) = within L em"
  "within L (em \<lparr> em_generated := gs \<rparr>) = within L em" "within L (em \<lparr> em_ccu_sequence := c \<rparr>) = within L em"
  "within L (em \<lparr> em_event_sequence := n \<rparr>) = within L em" "within L (em \<lparr> em_last_draw := d \<rparr>) = within L em"
  "within L (em \<lparr> em_draw_batch_active := b \<rparr>) = within L em" "within L (em \<lparr> em_texture_states := ts \<rparr>) = within L em"
  by (simp_all add: within_def)

lemma within_swap [simp]: "within L (swap_streams em) = within L em"
  by (auto simp: within_def swap_streams_def)

lemma extend_words_keeps [keeps_rules]: "keeps L (extend_words alloc ws)"
  by (auto simp: keeps_def extend_words_def outcome_simps)

lemma push_word_keeps [keeps_rules]: "keeps L (push_word alloc w)"
  by (auto simp: keeps_def push_word_def outcome_simps)

lemma push_type4_keeps [keeps_rules]: "keeps L (push_type4 alloc reg n)"
  unfolding push_type4_def by (rule keeps_prefix, rule push_word_keeps)

lemma push_type7_keeps [keeps_rules]: "keeps L (push_type7 alloc opc n)"
  unfolding push_type7_def by (rule keeps_prefix, rule push_word_keeps)

lemma packet4_keeps [keeps_rules]: "keeps L (packet4 alloc reg vs)"
  unfolding packet4_def by (rule keeps_prefix) (intro keeps_rules)

lemma packet7_keeps [keeps_rules]: "keeps L (packet7 alloc opc vs)"
  unfolding packet7_def by (rule keeps_prefix) (intro keeps_rules)

lemma wait_for_idle_keeps [keeps_rules]: "keeps L (wait_for_idle alloc)"
  unfolding wait_for_idle_def by (rule packet7_keeps)

lemma load_direct_keeps [keeps_rules]: "keeps L (load_direct alloc opc block state_type units vs)"
  unfolding load_direct_def by (rule keeps_prefix, rule packet7_keeps)

section \<open>Addresses\<close>

lemma merge_accesses_bound:
  assumes "merge_accesses obj acc xs i lo hi = Ok (ys, l, h)" and "unat hi \<le> n"
    and "\<forall>a \<in> set xs. ra_object a = obj \<and> ra_access a = acc \<longrightarrow> unat (ra_offset a) + unat (ra_size a) \<le> n"
  shows "unat h \<le> n"
  using assms
proof (induction obj acc xs i lo hi arbitrary: ys l h rule: merge_accesses.induct)
  case (1 obj acc xs i lo hi)
  let ?old = "xs ! i"
  show ?case
  proof (cases "i < length xs")
    case True
    obtain e where e: "checked_add (ra_offset ?old) (ra_size ?old) = Some e"
      using "1.prems"(1) True
      by (cases "checked_add (ra_offset ?old) (ra_size ?old)")
        (simp_all add: merge_accesses.simps [of obj acc xs i] Let_def outcome_simps)
    show ?thesis
    proof (cases "ra_object ?old = obj \<and> ra_access ?old = acc \<and> ra_offset ?old \<le> hi \<and> lo \<le> e")
      case m: True
      have "unat e \<le> n" using "1.prems"(3) m True checked_add_SomeD(1) [OF e] by auto
      then have "unat (max hi e) \<le> n" using "1.prems"(2) by (simp add: max_def)
      moreover have "set (take i xs @ drop (Suc i) xs) \<subseteq> set xs"
        using set_take_subset set_drop_subset by (metis Un_least set_append)
      ultimately show ?thesis
        using "1.IH"(1) [OF True refl m, of ys l h] "1.prems"(1,3) True e m
        by (auto simp: merge_accesses.simps [of obj acc xs i] Let_def outcome_simps)
    next
      case m: False
      show ?thesis
        using "1.IH"(2) [OF True refl m, of ys l h] "1.prems" True e m
        by (auto simp: merge_accesses.simps [of obj acc xs i] Let_def outcome_simps)
    qed
  qed (use "1.prems" in \<open>simp add: merge_accesses.simps [of obj acc xs i]\<close>)
qed


declare merge_accesses.simps [simp del]

lemma permits_merged:
  assumes "permits L obj off sz acc" and "checked_add off sz = Some e"
    and "merge_accesses obj acc xs i off e = Ok (ys, lo, hi)" and "\<forall>a \<in> set xs. permits_access L a"
    and "checked_sub hi lo = Some n"
  shows "permits L obj lo n acc"
proof (cases obj)
  case (External o')
  then obtain b where b: "L o' acc = Some b" "unat off + unat sz \<le> b" using assms(1) by auto
  have "unat e \<le> b" using b(2) checked_add_SomeD(1) [OF assms(2)] by simp
  moreover have "\<forall>a \<in> set xs. ra_object a = obj \<and> ra_access a = acc \<longrightarrow> unat (ra_offset a) + unat (ra_size a) \<le> b"
    using assms(4) b(1) External by fastforce
  ultimately have "unat hi \<le> b" by (rule merge_accesses_bound [OF assms(3)])
  moreover have "unat lo + unat n = unat hi"
    using assms(5) by (auto simp: checked_sub_def unat_sub word_le_nat_alt split: if_splits)
  ultimately show ?thesis using b(1) External by simp
qed simp_all

lemma record_access_keeps:
  assumes "permits L obj off sz acc"
  shows "keeps L (record_access alloc obj off sz acc)"
proof (rule keepsI)
  fix em em'
  assume em: "within L em" and run: "record_access alloc obj off sz acc em = Ok em'"
  show "within L em'"
  proof (cases "\<exists>v. obj = CanonicalProgram v")
    case True
    then show ?thesis using em run by (auto simp: record_access_def)
  next
    case False
    then have ra: "record_access alloc obj off sz acc em =
        andThen (ok_or (checked_add off sz) CompileOverflow) (\<lambda>e.
        andThen (merge_accesses obj acc (em_accesses em) 0 off e) (\<lambda>(xs, lo, hi).
        andThen (guard (alloc (length xs + 1)) CompileOutOfMemory) (\<lambda>_.
        andThen (ok_or (checked_sub hi lo) CompileOverflow) (\<lambda>n.
        Ok (em \<lparr> em_accesses := xs @ [\<lparr> ra_object = obj, ra_offset = lo, ra_size = n, ra_access = acc \<rparr>] \<rparr>)))))"
      by (cases obj) (simp_all add: record_access_def)
    obtain e xs lo hi n where r: "checked_add off sz = Some e"
      "merge_accesses obj acc (em_accesses em) 0 off e = Ok (xs, lo, hi)" "checked_sub hi lo = Some n"
      "em' = em \<lparr> em_accesses := xs @ [\<lparr> ra_object = obj, ra_offset = lo, ra_size = n, ra_access = acc \<rparr>] \<rparr>"
      using run unfolding ra by (auto simp: outcome_simps)
    have "permits L obj lo n acc"
      using em by (intro permits_merged [OF assms r(1,2) _ r(3)]) (simp add: within_def)
    then show ?thesis using em merge_accesses_Ok [OF r(2)] by (auto simp: within_def r(4))
  qed
qed

lemma placeholder_keeps [keeps_rules]:
  assumes "permits L obj off sz acc"
  shows "keeps L (placeholder alloc ws enc obj off sz acc)"
proof (rule keepsI)
  fix em em'
  assume em: "within L em" and run: "placeholder alloc ws enc obj off sz acc em = Ok em'"
  let ?f = "\<lambda>at. \<lparr> fx_word_offset = at, fx_object = obj, fx_object_offset = off, fx_required_size = sz,
    fx_access = acc, fx_encoding = enc \<rparr>"
  obtain at em1 where em1: "extend_words alloc ws em = Ok em1"
      "record_access alloc obj off sz acc (em1 \<lparr> em_fixups := em_fixups em1 @ [?f at] \<rparr>) = Ok em'"
    using run by (auto simp: placeholder_def outcome_simps)
  have "within L em1" by (rule keepsD [OF extend_words_keeps em em1(1)])
  then have "within L (em1 \<lparr> em_fixups := em_fixups em1 @ [?f at] \<rparr>)"
    using assms by (simp add: within_def ball_Un)
  then show "within L em'" by (rule keepsD [OF record_access_keeps [OF assms] _ em1(2)])
qed

lemma address_words_keeps [keeps_rules]:
  "permits L obj off sz acc \<Longrightarrow> keeps L (address_words alloc obj off sz acc)"
  unfolding address_words_def by (rule placeholder_keeps)

lemma address_register_keeps [keeps_rules]:
  "permits L obj off sz acc \<Longrightarrow> keeps L (address_register alloc reg obj off sz acc)"
  unfolding address_register_def by (intro keeps_rules)

lemma load_indirect_keeps [keeps_rules]:
  "permits L obj off sz ACC_READ \<Longrightarrow> keeps L (load_indirect alloc opc block state_type units obj off sz)"
  unfolding load_indirect_def by (intro keeps_rules)

lemma permits_internal [keeps_rules]:
  "permits L (Generated g) off sz acc" "permits L (CanonicalProgram v) off sz acc"
  by simp_all

lemma preload_shader_keeps [keeps_rules]: "keeps L (preload_shader alloc opc block units v)"
  unfolding preload_shader_def by (intro keeps_rules)

section \<open>State and draws\<close>

text \<open>A surface whose planes are within the limit for an access.\<close>

definition surface_within :: "limit \<Rightarrow> Access \<Rightarrow> Surface \<Rightarrow> bool" where
  "surface_within L acc s \<longleftrightarrow> permits L (External (sf_object s)) (sf_plane_offset s) (sf_plane_size s) acc \<and>
     (\<forall>nv12. sf_nv12 s = Some nv12 \<longrightarrow> permits L (External (sf_object s)) (uv_offset nv12) (uv_size nv12) acc)"

lemma surface_plane [keeps_rules]:
  "surface_within L acc s \<Longrightarrow> permits L (External (sf_object s)) (sf_plane_offset s) (sf_plane_size s) acc"
  by (simp add: surface_within_def)

lemma add_generated_within: "add_generated alloc bs al acc k em = Ok (g, em') \<Longrightarrow> within L em' = within L em"
  by (auto simp: add_generated_def outcome_simps)

lemma addressed_cache_event_keeps [keeps_rules]: "keeps L (addressed_cache_event alloc event)"
proof (rule keepsI)
  fix em em'
  assume em: "within L em" and run: "addressed_cache_event alloc event em = Ok em'"
  obtain em1 sq n where em1: "within L em1" "sequence [push_type7 alloc EVENT_WRITE 4,
       push_word alloc (event OR EVENT_WRITE_TIMESTAMP), address_words alloc (Generated sq) 0 4 ACC_WRITE,
       push_word alloc n] em1 = Ok em'"
  proof (cases "em_ccu_sequence em")
    case None
    then obtain sq em1 where add: "add_generated alloc (replicate 4 0) 64 ACC_WRITE CcuSequence em = Ok (sq, em1)"
      using run by (auto simp: addressed_cache_event_def andThen_eq_Ok)
    then show ?thesis
      using that [of "em1 \<lparr> em_ccu_sequence := Some sq, em_event_sequence := max (em_event_sequence em1 + 1) 1 \<rparr>"
          sq "max (em_event_sequence em1 + 1) 1"] em run None add_generated_within [OF add]
      by (simp add: addressed_cache_event_def Let_def del: sequence.simps)
  next
    case (Some sq)
    then show ?thesis
      using that [of "em \<lparr> em_event_sequence := max (em_event_sequence em + 1) 1 \<rparr>"
          sq "max (em_event_sequence em + 1) 1"] em run
      by (simp add: addressed_cache_event_def Let_def del: sequence.simps)
  qed
  show "within L em'" by (rule within_sequence [OF em1(2,1)]) (intro keeps_rules)
qed


lemma new_texture_state_within:
  assumes "surface_within L ACC_READ t" and "new_texture_state alloc t sampler em = Ok (g, em')" and "within L em"
  shows "within L em'"
proof -
  obtain em1 em2 where em1: "add_generated alloc (replicate 80 0) 64 (ACC_READ OR ACC_WRITE) TextureState em = Ok (g, em1)"
    "write_texture_state alloc t sampler g (swap_streams em1) = Ok em2"
    "em' = swap_streams em2 \<lparr> em_texture_states := em_texture_states (swap_streams em2) @ [(t, sampler, g)] \<rparr>"
    using assms(2) by (auto simp: new_texture_state_def Let_def outcome_simps)
  have "keeps L (write_texture_state alloc t sampler g)"
    unfolding write_texture_state_def texture_descriptor_address_def
    by (rule keeps_prefix, cases "sf_nv12 t")
      (use assms(1) in \<open>auto simp: surface_within_def simp del: sequence.simps permits.simps intro!: keeps_rules\<close>)
  from keepsD [OF this _ em1(2)] show ?thesis
    using assms(3) add_generated_within [OF em1(1)] by (simp add: em1(3))
qed

lemma bind_texture_keeps:
  assumes "surface_within L ACC_READ t"
  shows "keeps L (bind_texture alloc t sampler)"
proof (rule keepsI)
  fix em em'
  assume em: "within L em" and run: "bind_texture alloc t sampler em = Ok em'"
  obtain g em2 where bind: "texture_state_backing alloc t sampler em = Ok (g, em2)"
    "sequence [load_indirect alloc CP_LOAD_STATE6_FRAG 4 0 1 (Generated g) 64 16,
        load_indirect alloc CP_LOAD_STATE6_FRAG 4 1 1 (Generated g) 0 64] em2 = Ok em'"
    using run unfolding bind_texture_def andThen_eq_Ok by (auto simp del: sequence.simps)
  obtain em1 where em1: "(case find (\<lambda>(t', sampler', _). t' = t \<and> sampler' = sampler) (em_texture_states em) of
         Some (_, _, state) \<Rightarrow> Ok (state, em) | None \<Rightarrow> new_texture_state alloc t sampler em) = Ok (g, em1)"
    "sequence [address_register alloc SP_PS_SAMPLER_BASE (Generated g) 64 16 ACC_READ,
        address_register alloc SP_PS_TEXMEMOBJ_BASE (Generated g) 0 64 ACC_READ] em1 = Ok em2"
    using bind(1) unfolding texture_state_backing_def by (auto simp: andThen_eq_Ok simp del: sequence.simps)
  have "within L em1"
    using em1(1) em new_texture_state_within [OF assms]
    by (cases "find (\<lambda>(t', sampler', _). t' = t \<and> sampler' = sampler) (em_texture_states em)") auto
  then have "within L em2" by (rule within_sequence [OF em1(2)]) (intro keeps_rules)
  then show "within L em'" by (rule within_sequence [OF bind(2)]) (intro keeps_rules)
qed


lemmas bind_texture_rule [keeps_rules] = bind_texture_keeps

lemma keeps_Ok [keeps_rules]: "keeps L Ok"
  by (simp add: keeps_def)

lemma invalidate_submission_caches_keeps [keeps_rules]: "keeps L (invalidate_submission_caches alloc)"
  unfolding invalidate_submission_caches_def clean_color_cache_def by (intro keeps_rules)

lemma submission_begin_2d_keeps [keeps_rules]: "keeps L (submission_begin_2d alloc)"
  unfolding submission_begin_2d_def by (rule keeps_if) (intro keeps_rules)

lemma restore_3d_baseline_keeps [keeps_rules]: "keeps L (restore_3d_baseline alloc)"
  unfolding restore_3d_baseline_def by (intro keeps_rules)

lemma submission_begin_3d_keeps [keeps_rules]: "keeps L (submission_begin_3d alloc)"
  unfolding submission_begin_3d_def by (intro keeps_rules)

lemma submission_end_keeps [keeps_rules]: "keeps L (submission_end alloc)"
  unfolding submission_end_def by (intro keeps_rules)

lemma begin_draw_batch_keeps: "keeps L (begin_draw_batch alloc)"
  unfolding begin_draw_batch_def
  by (rule keeps_if, rule keeps_andThen, rule submission_begin_3d_keeps) (simp add: keeps_def)

lemma end_draw_batch_keeps: "keeps L (end_draw_batch alloc)"
  unfolding end_draw_batch_def
  by (rule keeps_if, rule keeps_andThen, rule submission_end_keeps) (simp add: keeps_def)

lemma continue_draw_batch_keeps: "keeps L continue_draw_batch"
  by (simp add: keeps_def continue_draw_batch_def)

lemma emit_program_keeps [keeps_rules]:
  "keeps L (emit_vs alloc vs lk)" "keeps L (emit_fs alloc fs)" "keeps L (emit_program_config alloc vs fs)"
  "keeps L (emit_vs_program alloc vs v)" "keeps L (emit_fs_program alloc fs v)"
  unfolding emit_vs_def emit_fs_def emit_program_config_def emit_vs_program_def emit_fs_program_def
    emit_shader_program_layout_def Let_def
  by (auto simp del: sequence.simps intro!: keeps_rules)

lemma emit_fixed_keeps [keeps_rules]:
  "keeps L (emit_single_sample_state alloc)" "keeps L (emit_raster_state alloc d)" "keeps L (emit_constants alloc d)"
  unfolding emit_single_sample_state_def emit_raster_state_def emit_constants_def Let_def
  by (intro keeps_rules)+

lemma emit_depth_state_keeps [keeps_rules]:
  assumes "\<And>d. depth = Some d \<Longrightarrow> surface_within L (ACC_READ OR ACC_WRITE) (dd_target d)"
  shows "keeps L (emit_depth_state alloc depth)"
  unfolding emit_depth_state_def
proof (rule keeps_andThen)
  show "keeps L (\<lambda>em. case depth of
       None \<Rightarrow> sequence
         [packet4 alloc RB_DEPTH_CNTL [0], packet4 alloc GRAS_SU_DEPTH_CNTL [0],
          packet4 alloc RB_DEPTH_BUFFER_INFO (replicate 6 0),
          packet4 alloc GRAS_SU_DEPTH_BUFFER_INFO [0]] em
     | Some d \<Rightarrow>
         andThen (sequence
           [packet4 alloc RB_DEPTH_CNTL [depth_control d], packet4 alloc GRAS_SU_DEPTH_CNTL [1],
            packet4 alloc RB_DEPTH_FLAG_BUFFER_BASE (replicate 3 0),
            push_type4 alloc RB_DEPTH_BUFFER_INFO 6] em) (\<lambda>em.
         andThen (u32_of_u64 (drop_bit 6 (sf_plane_size (dd_target d)))) (\<lambda>layers.
         sequence
           [extend_words alloc [DEPTH_FORMAT_32, drop_bit 6 (sf_stride (dd_target d)), layers],
            address_words alloc (External (sf_object (dd_target d))) (sf_plane_offset (dd_target d))
              (sf_plane_size (dd_target d)) (ACC_READ OR ACC_WRITE),
            push_word alloc 0,
            packet4 alloc GRAS_SU_DEPTH_BUFFER_INFO [DEPTH_FORMAT_32]] em)))"
  proof (cases depth)
    case (Some d)
    show ?thesis
      unfolding Some option.case
      by (rule keeps_andThen, intro keeps_rules, rule keeps_prefix) (intro keeps_rules assms Some)
  qed (simp only: option.case, intro keeps_rules)
qed (intro keeps_rules)

text \<open>The ranges a draw reads and writes.\<close>

definition draw_within :: "limit \<Rightarrow> DrawState \<Rightarrow> bool" where
  "draw_within L d \<longleftrightarrow> surface_within L ACC_WRITE (dr_target d) \<and>
     permits L (External (dr_vertex d)) (dr_vertex_offset d) (dr_vertex_size d) ACC_READ \<and>
     (\<forall>t. dr_texture d = Some t \<longrightarrow> surface_within L ACC_READ t) \<and>
     (\<forall>dd. dr_depth d = Some dd \<longrightarrow> surface_within L (ACC_READ OR ACC_WRITE) (dd_target dd)) \<and>
     (\<forall>ix. dr_draw d = Indexed ix \<longrightarrow> permits L (External (ix_index ix)) (ix_index_offset ix) (ix_index_size ix) ACC_READ)"

lemma emit_vertex_buffer_keeps [keeps_rules]:
  assumes "draw_within L d"
  shows "keeps L (emit_vertex_buffer alloc d)"
  unfolding emit_vertex_buffer_def
  by (rule keeps_andThen, intro keeps_rules) (use assms in \<open>auto simp: draw_within_def intro!: keeps_prefix keeps_rules\<close>)

lemma emit_draw_call_keeps [keeps_rules]:
  assumes "draw_within L d"
  shows "keeps L (emit_draw_call alloc (dr_draw d))"
  using assms unfolding emit_draw_call_def draw_within_def
  by (cases "dr_draw d") (auto simp del: permits.simps sequence.simps intro!: keeps_rules)

lemma emit_target_state_keeps [keeps_rules]:
  assumes "draw_within L d"
  shows "keeps L (emit_target_state alloc d)"
  unfolding emit_target_state_def
  by (rule keeps_andThen, intro keeps_rules, rule keeps_prefix)
    (use assms in \<open>auto simp: draw_within_def simp del: permits.simps sequence.simps intro!: keeps_rules\<close>)

lemma full_draw_keeps:
  assumes "draw_within L d"
  shows "keeps L (full_draw alloc d vs fs lk)"
proof -
  have "keeps L (case dr_texture d of Some t \<Rightarrow> bind_texture alloc t (dr_sampler d) | None \<Rightarrow> Ok)"
    using assms by (cases "dr_texture d") (auto simp: draw_within_def intro!: keeps_rules)
  then show ?thesis unfolding full_draw_def by (intro keeps_rules assms)
qed


lemma draw_with_retained_fixed_state_keeps:
  assumes "draw_within L d"
  shows "keeps L (draw_with_retained_fixed_state alloc d)"
proof -
  have bind: "keeps L (\<lambda>em. case dr_texture d of
      Some t \<Rightarrow> if c em then bind_texture alloc t (dr_sampler d) em else Ok em | None \<Rightarrow> Ok em)" for c
  proof (cases "dr_texture d")
    case (Some t)
    then have "keeps L (bind_texture alloc t (dr_sampler d))"
      using assms by (intro bind_texture_keeps) (simp add: draw_within_def)
    then show ?thesis by (auto simp: Some keeps_def)
  qed (simp add: keeps_def)
  show ?thesis
    unfolding draw_with_retained_fixed_state_def Let_def
    by (rule keeps_andThen, intro keeps_rules assms, rule keeps_andThen [OF bind]) (intro keeps_rules assms)
qed

lemma draw_keeps:
  assumes "draw_within L d"
  shows "keeps L (draw alloc d)"
proof (rule keepsI)
  fix em em'
  assume em: "within L em" and run: "draw alloc d em = Ok em'"
  from run obtain em1 where em1: "em' = em1 \<lparr> em_last_draw := Some d \<rparr>"
    "draw_with_retained_fixed_state alloc d em = Ok em1 \<or>
     (\<exists>vs fs. full_draw alloc d vs fs (link_meta (dr_variant d)) em = Ok em1)"
    by (auto simp: draw_def andThen_eq_Ok split: if_splits ShaderMeta.splits)
  then have "within L em1"
    using keepsD [OF draw_with_retained_fixed_state_keeps [OF assms] em]
      keepsD [OF full_draw_keeps [OF assms] em] by blast
  then show "within L em'" by (simp add: em1(1))
qed

section \<open>Clears, blits and uploads\<close>

lemma emit_2d_keeps [keeps_rules]:
  "keeps L (emit_coordinates alloc dest sc)" "keeps L (emit_a2d_common alloc fmt ifmt b b')"
  "keeps L (emit_blit alloc)" "surface_within L ACC_WRITE s \<Longrightarrow> keeps L (emit_destination alloc s fmt swap)"
  unfolding emit_coordinates_def emit_a2d_common_def emit_blit_def emit_destination_def Let_def
  by (intro keeps_rules; assumption)+

lemma emit_clear_keeps: "surface_within L ACC_WRITE target \<Longrightarrow> keeps L (emit_clear alloc target area color)"
  unfolding emit_clear_def by (intro keeps_rules)

lemma clear_depth_keeps: "surface_within L ACC_WRITE target \<Longrightarrow> keeps L (clear_depth alloc target area depth)"
  unfolding clear_depth_def by (rule keeps_if) (intro keeps_rules)

lemma clear_color_and_depth_keeps:
  "surface_within L ACC_WRITE target \<Longrightarrow> surface_within L ACC_WRITE dt \<Longrightarrow>
     keeps L (clear_color_and_depth alloc target dt area color depth)"
  unfolding clear_color_and_depth_def by (rule keeps_if) (intro keeps_rules)

lemma blit_keeps:
  assumes "surface_within L ACC_READ src" and "surface_within L ACC_WRITE dest"
  shows "keeps L (blit alloc src sr dest dr flt flips)"
  unfolding blit_def Let_def
  by (rule keeps_if) (use assms in \<open>auto simp del: sequence.simps intro!: keeps_rules\<close>)

lemma copy_chunks_keeps:
  assumes "L dest ACC_WRITE = Some n" and "unat dest_off + 4 * unat limit \<le> n"
    and "copy_chunks alloc g src_off dest dest_off limit copied em = Ok em'" and "within L em"
  shows "within L em'"
  using assms(3,4)
proof (induction "unat limit - unat copied" arbitrary: copied em rule: less_induct)
  case less
  let ?chunk = "min (limit - copied) CP_MEMCPY_MAX_DWORDS"
  show ?case
  proof (cases "copied < limit")
    case False
    then show ?thesis
      using less.prems by (simp add: copy_chunks.simps [of alloc g src_off dest dest_off limit copied em])
  next
    case True
    obtain coff csz cdest csrc c em1 em2 where
      r: "checked_mul (ucast copied) 4 = Some coff" "checked_mul (ucast ?chunk) 4 = Some csz"
        "checked_add dest_off coff = Some cdest" "checked_add copied ?chunk = Some c"
      and em1: "sequence [push_type7 alloc CP_MEMCPY 5, push_word alloc ?chunk] em = Ok em1"
      and em2: "sequence [address_words alloc (Generated g) csrc csz ACC_READ,
           address_words alloc (External dest) cdest csz ACC_WRITE, packet7 alloc WAIT_MEM_WRITES []] em1 = Ok em2"
      and rest: "copy_chunks alloc g src_off dest dest_off limit c em2 = Ok em'"
      using less.prems(1) True
      unfolding copy_chunks.simps [of alloc g src_off dest dest_off limit copied em] Let_def
      by (auto simp: andThen_eq_Ok ok_or_eq_Ok simp del: sequence.simps split: option.splits)
    have "permits L (External dest) cdest csz ACC_WRITE"
      using copy_range [OF True r(1-3)] assms(1,2) by simp
    note keeps = this
    have "within L em1" using less.prems(2) by (rule within_sequence [OF em1]) (intro keeps_rules)
    then have "within L em2" by (rule within_sequence [OF em2]) (intro keeps_rules keeps)
    with less.hyps [OF copy_chunk_progress [OF True r(4)] rest] show ?thesis .
  qed
qed

lemma copy_upload_keeps:
  assumes "L dest ACC_WRITE = Some n" and "unat dest_off + sz \<le> n"
  shows "keeps L (copy_upload alloc g src_off sz dest dest_off req)"
proof (rule keepsI)
  fix em em'
  assume em: "within L em" and run: "copy_upload alloc g src_off sz dest dest_off req em = Ok em'"
  then have "sz div 4 < 2 ^ 32" "copy_chunks alloc g src_off dest dest_off (of_nat (sz div 4)) 0 em = Ok em'"
    by (auto simp: copy_upload_def split: if_splits)
  moreover from this(1) have "unat dest_off + 4 * unat (of_nat (sz div 4) :: u32) \<le> n"
    using assms(2) by (simp add: unat_of_nat)
  ultimately show "within L em'" using copy_chunks_keeps [where L = L, OF assms(1)] em by blast
qed

lemma upload_buffer_keeps:
  assumes "permits L (External dest) off (of_nat (length bs)) ACC_WRITE" and "length bs < 2 ^ 64"
  shows "keeps L (upload_buffer alloc dest off req bs)"
proof (rule keepsI)
  fix em em'
  assume em: "within L em" and run: "upload_buffer alloc dest off req bs em = Ok em'"
  then obtain g em1 where em1: "add_generated alloc bs 64 ACC_READ Upload em = Ok (g, em1)"
    "copy_upload alloc g 0 (length bs) dest off req em1 = Ok em'"
    by (auto simp: upload_buffer_def andThen_eq_Ok split: if_splits)
  obtain n where n: "L dest ACC_WRITE = Some n" "unat off + length bs \<le> n"
    using assms by (auto simp: unat_of_nat)
  show "within L em'"
    using keepsD [OF copy_upload_keeps [where L = L, OF n] _ em1(2)] add_generated_within [OF em1(1)] em by simp
qed

text \<open>Rows of pixels: row \<open>i\<close> starts \<open>i\<close> strides after the destination offset.\<close>

lemma upload_rows_keeps:
  assumes n: "L dest ACC_WRITE = Some n"
    and rows: "\<And>i. i < length bs div row_bytes \<Longrightarrow> unat off + i * unat pitch + row_bytes \<le> n"
  shows "keeps L (upload_rows alloc dest off pitch row_bytes bs)"
proof -
  have row: "keeps L (\<lambda>em. upload_row alloc g dest off pitch row_bytes em i)" if "i < length bs div row_bytes" for g i
    unfolding upload_row_def
  proof (rule keeps_prefix, rule keeps_prefix)
    fix k at
    assume k: "ok_or (checked_mul (of_nat i) (ucast pitch)) CompileOverflow = Ok k"
      and at: "ok_or (checked_add off k) CompileOverflow = Ok at"
    have "unat k \<le> i * unat pitch"
      using k by (auto simp: ok_or_eq_Ok unat_ucast_up unat_of_nat dest!: checked_mul_SomeD(1))
    then have "unat at + row_bytes \<le> n"
      using at rows [OF that] by (auto simp: ok_or_eq_Ok dest!: checked_add_SomeD(1))
    then show "keeps L (copy_upload alloc g (of_nat (i * row_bytes)) row_bytes dest at (of_nat row_bytes))"
      by (rule copy_upload_keeps [where L = L, OF n])
  qed
  have fold: "within L em'" if "foldM (upload_row alloc g dest off pitch row_bytes) em is = Ok em'"
    "set is \<subseteq> {..< length bs div row_bytes}" "within L em" for g em em' "is"
    using that
  proof (induction "is" arbitrary: em)
    case (Cons i "is")
    then obtain em1 where "upload_row alloc g dest off pitch row_bytes em i = Ok em1"
      "foldM (upload_row alloc g dest off pitch row_bytes) em1 is = Ok em'"
      by (auto simp: andThen_eq_Ok)
    then show ?case using Cons.IH keepsD [OF row] Cons.prems(2,3) by auto
  qed simp
  show ?thesis
    by (rule keepsI) (auto simp: upload_rows_def andThen_eq_Ok split: if_splits intro: fold)
qed

section \<open>Finish\<close>

lemma emit_finish_keeps:
  assumes "within L em" and "emit_finish alloc em = Ok p"
  shows "(\<forall>f \<in> set (rp_fixups p). permits_fixup L f) \<and> (\<forall>a \<in> set (rp_accesses p). permits_access L a)"
proof -
  have shift: "\<forall>f \<in> set out'. permits_fixup L f"
    if "foldM (shift_fixup n) out fs = Ok out'" "\<forall>f \<in> set out \<union> set fs. permits_fixup L f" for n out fs out'
    using that
  proof (induction fs arbitrary: out)
    case (Cons f fs)
    obtain k where "foldM (shift_fixup n) (out @ [f \<lparr> fx_word_offset := k \<rparr>]) fs = Ok out'"
      using Cons.prems(1) by (auto simp: andThen_eq_Ok shift_fixup_def [of n out f])
    then show ?case by (rule Cons.IH) (use Cons.prems(2) in \<open>simp add: ball_Un\<close>)
  qed simp
  have "within L em1" if prep: "prepend_textures alloc em = Ok em1" for em1
  proof (cases "em_texture_words em = []")
    case False
    obtain em2 n fxs where em2:
      "sequence [packet7 alloc EVENT_WRITE [EVENT_CACHE_INVALIDATE], wait_for_idle alloc] (swap_streams em) = Ok em2"
      "foldM (shift_fixup n) (em_fixups em2) (em_texture_fixups em2) = Ok fxs"
      "em1 = em2 \<lparr> em_words := em_words em2 @ em_texture_words em2, em_texture_words := [],
                 em_fixups := fxs, em_texture_fixups := [] \<rparr>"
      using prep unfolding prepend_textures_def if_not_P [OF False] andThen_eq_Ok
      by (elim exE conjE) (rule that, assumption, assumption, simp)
    have "within L (swap_streams em)" using assms(1) by simp
    then have "within L em2" by (rule within_sequence [OF em2(1)]) (intro keeps_rules)
    then have em2w: "\<forall>f \<in> set (em_fixups em2) \<union> set (em_texture_fixups em2). permits_fixup L f"
        "\<forall>a \<in> set (em_accesses em2). permits_access L a"
      by (simp_all add: within_def ball_Un)
    show ?thesis using shift [OF em2(2) em2w(1)] em2w(2) by (simp add: em2(3) within_def)
  qed (use prep assms(1) in \<open>simp add: prepend_textures_def\<close>)
  moreover obtain em1 where "prepend_textures alloc em = Ok em1" "rp_fixups p = em_fixups em1"
      "rp_accesses p = em_accesses em1"
    using assms(2) by (auto simp: emit_finish_def andThen_eq_Ok split: if_splits)
  ultimately show ?thesis by (simp add: within_def)
qed

end
