(* ===== verification/Compile_Types.thy ===== *)
theory Compile_Types
  imports Emit_Commands A6xx_Layout
begin

text \<open>
  The input of the command compiler (\<open>userspace/sgfx-codegen-adreno-a6xx/src/model.rs\<close>): resource and
  pipeline tables, device limits and operations. The crate \<open>sgfx_core\<close>, which defines the portable
  descriptors, is not part of the repository. Its enumerations have the alternatives the compiler
  names and one for all others; its functions are the fields of the record \<open>Sgfx\<close>. The model
  assumes nothing about them; the theorems that need the texel and index sizes that the format names state assume \<open>sgfx_sizes\<close>.
\<close>

section \<open>Portable descriptors\<close>

datatype TextureFormat = Bgra8Unorm | Rgba8Unorm | R8Unorm | Depth32Float | Nv12 | OtherFormat nat

datatype TextureSampleMode = Rgba | RgbIgnoreAlpha | AlphaMask

datatype FragmentProgram = Solid | VertexColor | TextureProgram TextureSampleMode
  | TextureVertexColor TextureSampleMode

datatype AddressMode = ClampToEdge | OtherAddressMode nat

datatype VertexFormat = Float32x2 | Float32x3 | Float32x4 | OtherVertexFormat nat

datatype BlendState = REPLACE | SOURCE_OVER_STRAIGHT_ALPHA | OtherBlend nat

datatype CullMode = CullNone | CullFront | CullBack

datatype FrontFace = Clockwise | CounterClockwise

datatype PrimitiveTopology = TriangleList | OtherTopology nat

datatype LoadOp = ClearColor Color | OtherLoad nat

datatype DepthLoadOp = ClearDepth float32 | OtherDepthLoad nat

record SamplerDesc =
  sd_compare :: "CompareFunction option"
  sd_min_filter :: FilterMode
  sd_mag_filter :: FilterMode
  sd_mip_filter :: FilterMode
  sd_address_u :: AddressMode
  sd_address_v :: AddressMode
  sd_min_lod :: float32
  sd_max_lod :: float32

text \<open>The compiler only reads the bit patterns of the transform's columns and of the colour.\<close>

record DrawUniforms =
  du_transform :: "u32 list"
  du_color :: "u32 list"

record DepthStateDesc =
  ds_format :: TextureFormat
  ds_compare :: CompareFunction
  ds_write_enabled :: bool

record VertexAttribute =
  va_location :: nat
  va_format :: VertexFormat
  va_offset :: nat

record RenderPipelineDesc =
  pd_target_format :: TextureFormat
  pd_topology :: PrimitiveTopology
  pd_depth_state :: "DepthStateDesc option"
  pd_stride :: u32
  pd_attributes :: "VertexAttribute list"
  pd_fragment :: FragmentProgram
  pd_blend :: BlendState
  pd_cull_mode :: CullMode
  pd_front_face :: FrontFace

text \<open>Usage sets and extents are opaque to the compiler apart from these functions.\<close>

type_synonym Usage = u32
type_synonym Extent2D = "u32 \<times> u32"

record Sgfx =
  bytes_per_pixel :: "TextureFormat \<Rightarrow> u32 option"
  index_byte_size :: "IndexFormat \<Rightarrow> u64"
  same_extent :: "PixelRect \<Rightarrow> PixelRect \<Rightarrow> bool"
  extent_new :: "u32 \<Rightarrow> u32 \<Rightarrow> Extent2D option"
  viewport_within :: "Viewport \<Rightarrow> Extent2D \<Rightarrow> bool"
  viewport_new :: "float32 \<Rightarrow> float32 \<Rightarrow> float32 \<Rightarrow> float32 \<Rightarrow> float32 \<Rightarrow> float32 \<Rightarrow> Viewport option"
  usage_contains :: "Usage \<Rightarrow> Usage \<Rightarrow> bool"
  TEX_COPY_SRC :: Usage
  TEX_COPY_DST :: Usage
  TEX_SAMPLED :: Usage
  TEX_RENDER_ATTACHMENT :: Usage
  BUF_COPY_DST :: Usage
  BUF_VERTEX :: Usage
  BUF_INDEX :: Usage

section \<open>Compiler input\<close>

datatype Chip = A618

record Capabilities =
  cap_chip :: Chip
  gmem_size :: u32
  max_pm4_words :: u32
  max_linear_pitch :: u32

definition capabilities_a618 :: "u32 \<Rightarrow> u32 \<Rightarrow> Capabilities" where
  "capabilities_a618 gmem words =
     \<lparr> cap_chip = A618, gmem_size = gmem, max_pm4_words = words, max_linear_pitch = 0x003fffc0 \<rparr>"

datatype PlaneModifier = LinearImage | A6xxTile6_3Depth | A6xxTile6_3Color

record PlaneLayout =
  pl_offset :: u64
  pl_stride :: u32
  pl_size :: u64

record ImageMeta =
  im_conversion :: "YcbcrConversion option"
  im_texture :: "LinearTextureLayout option"
  im_format :: TextureFormat
  im_storage_format :: TextureFormat
  im_width :: u32
  im_height :: u32
  im_usage :: Usage
  im_modifier :: PlaneModifier
  im_planes :: "PlaneLayout list"

datatype ResourceKind = BufferKind Usage | ImageKind ImageMeta

record ResourceMeta =
  rm_id :: u32
  rm_size :: u64
  rm_kind :: ResourceKind

record PipelineMeta =
  pm_id :: u32
  pm_descriptor :: RenderPipelineDesc

record DepthAttachment =
  da_target :: u32
  da_load :: DepthLoadOp

record RenderPass =
  rp_target :: u32
  rp_area :: PixelRect
  rp_load :: LoadOp
  rp_depth :: "DepthAttachment option"

text \<open>The store operations of a pass are not read.\<close>

datatype Operation =
    WriteBuffer u32 u64 "u8 list"
  | WriteTexture u32 PixelRect u32 "u8 list"
  | CopyTextureToTexture u32 PixelRect u32 PixelRect
  | BlitTexture u32 PixelRect u32 PixelRect FilterMode "bool \<times> bool"
  | BeginRenderPass RenderPass
  | EndRenderPass
  | SetPipeline u32
  | SetVertexBuffer u32 u64
  | SetIndexBuffer u32 u64 IndexFormat
  | SetTexture u32
  | SetSampler SamplerDesc
  | SetUniforms DrawUniforms
  | SetScissor "PixelRect option"
  | SetViewport Viewport
  | DrawOp u32 u32
  | DrawIndexedOp u32 u32 i32

record CompileInput =
  ci_capabilities :: Capabilities
  ci_resources :: "ResourceMeta list"
  ci_pipelines :: "PipelineMeta list"
  ci_operations :: "Operation list"

section \<open>Compiler state\<close>

record BufferBinding =
  bb_object :: u32
  bb_offset :: u64

record IndexBinding =
  ib_object :: u32
  ib_offset :: u64
  ib_format :: IndexFormat

record PassState =
  ps_target :: u32
  ps_area :: PixelRect
  ps_depth :: "u32 option"

record State =
  st_pass :: "PassState option"
  st_draw_batch_started :: bool
  st_pipeline :: "PipelineMeta option"
  st_vertex :: "BufferBinding option"
  st_index :: "IndexBinding option"
  st_texture :: "u32 option"
  st_sampler :: "SamplerDesc option"
  st_uniforms :: "DrawUniforms option"
  st_scissor :: "PixelRect option"
  st_viewport :: "Viewport option"

definition state_new :: State where
  "state_new = \<lparr> st_pass = None, st_draw_batch_started = False, st_pipeline = None, st_vertex = None,
     st_index = None, st_texture = None, st_sampler = None, st_uniforms = None, st_scissor = None,
     st_viewport = None \<rparr>"

end
