(* ===== verification/Compile_Checks.thy ===== *)
theory Compile_Checks
  imports Compile_Types
begin

text \<open>
  The checks of the command compiler (\<open>userspace/sgfx-codegen-adreno-a6xx/src/compiler.rs\<close>): lookups,
  ranges and rectangles, image layouts and surfaces, pipeline descriptors, the tables of the input and
  the state of a render pass. \<open>S\<close> is the \<open>sgfx_core\<close> crate; \<open>u32\<close> arithmetic wraps as in the release build.
\<close>

section \<open>Lookups and ranges\<close>

definition is_none_or :: "'a option \<Rightarrow> ('a \<Rightarrow> bool) \<Rightarrow> bool" where
  "is_none_or v p = (case v of None \<Rightarrow> True | Some x \<Rightarrow> p x)"

definition is_some_and :: "'a option \<Rightarrow> ('a \<Rightarrow> bool) \<Rightarrow> bool" where
  "is_some_and v p = (case v of None \<Rightarrow> False | Some x \<Rightarrow> p x)"

definition find_resource :: "ResourceMeta list \<Rightarrow> u32 \<Rightarrow> (CompileError, ResourceMeta) outcome" where
  "find_resource rs i = ok_or (find (\<lambda>r. rm_id r = i) rs) InvalidIdentity"

definition find_pipeline :: "PipelineMeta list \<Rightarrow> u32 \<Rightarrow> (CompileError, PipelineMeta) outcome" where
  "find_pipeline ps i = ok_or (find (\<lambda>p. pm_id p = i) ps) InvalidIdentity"

definition require_buffer_usage :: "Sgfx \<Rightarrow> ResourceMeta \<Rightarrow> Usage \<Rightarrow> (CompileError, unit) outcome" where
  "require_buffer_usage S r required =
     (case rm_kind r of
        BufferKind usage \<Rightarrow> if usage_contains S usage required then Ok () else Err InvalidResource
      | ImageKind _ \<Rightarrow> Err InvalidResource)"

definition validate_range :: "u64 \<Rightarrow> u64 \<Rightarrow> u64 \<Rightarrow> (CompileError, unit) outcome" where
  "validate_range sz off len =
     (if len = 0 \<or> is_none_or (checked_add off len) (\<lambda>e. e > sz) then Err OutOfBounds else Ok ())"

definition validate_rect :: "PixelRect \<Rightarrow> Surface \<Rightarrow> (CompileError, unit) outcome" where
  "validate_rect r s =
     (if is_none_or (checked_add (rect_x r) (rect_width r)) (\<lambda>e. e > sf_width s)
        \<or> is_none_or (checked_add (rect_y r) (rect_height r)) (\<lambda>e. e > sf_height s)
        \<or> rect_x r > 0x7fff \<or> rect_y r > 0x7fff
        \<or> rect_x r + rect_width r - 1 > 0x7fff \<or> rect_y r + rect_height r - 1 > 0x7fff
      then Err OutOfBounds else Ok ())"

definition rect_within :: "PixelRect \<Rightarrow> PixelRect \<Rightarrow> bool" where
  "rect_within inner outer \<longleftrightarrow> rect_x inner \<ge> rect_x outer \<and> rect_y inner \<ge> rect_y outer
     \<and> rect_x inner + rect_width inner \<le> rect_x outer + rect_width outer
     \<and> rect_y inner + rect_height inner \<le> rect_y outer + rect_height outer"

section \<open>Image layouts\<close>

definition nv12_plane_ok :: "u64 \<Rightarrow> ImageMeta \<Rightarrow> u32 \<Rightarrow> usize \<Rightarrow> PlaneLayout \<Rightarrow> bool" where
  "nv12_plane_ok allocation_size im max_pitch i p \<longleftrightarrow>
     (let rows = (if i = 0 then im_height im else im_height im div 2)
      in \<not> (pl_stride p < im_width im \<or> pl_stride p > max_pitch \<or> pl_stride p mod 64 \<noteq> 0
          \<or> pl_size p \<noteq> ucast (pl_stride p) * ucast rows
          \<or> is_none_or (checked_add (pl_offset p) (pl_size p)) (\<lambda>e. e > allocation_size)))"

definition validate_nv12 :: "Sgfx \<Rightarrow> u64 \<Rightarrow> ImageMeta \<Rightarrow> u32 \<Rightarrow> (CompileError, unit) outcome" where
  "validate_nv12 S allocation_size im max_pitch =
     (if im_storage_format im \<noteq> Nv12 \<or> length (im_planes im) \<noteq> 2 \<or> im_modifier im \<noteq> LinearImage
        \<or> im_texture im \<noteq> None \<or> im_conversion im = None \<or> im_usage im \<noteq> TEX_SAMPLED S
        \<or> im_width im mod 2 \<noteq> 0 \<or> im_height im mod 2 \<noteq> 0
      then Err InvalidResource
      else if \<not> list_all (\<lambda>(i, p). nv12_plane_ok allocation_size im max_pitch i p) (enumerate 0 (im_planes im))
      then Err InvalidResource
      else
        andThen (index (im_planes im) 0) (\<lambda>p0.
        andThen (index (im_planes im) 1) (\<lambda>p1.
        if pl_offset p0 \<noteq> 0 \<or> pl_offset p1 < pl_size p0 \<or> pl_offset p1 mod 4096 \<noteq> 0
          \<or> pl_stride p1 \<noteq> pl_stride p0
        then Err InvalidResource else Ok ())))"

definition texture_matches :: "u64 \<Rightarrow> ImageMeta \<Rightarrow> PlaneLayout \<Rightarrow> LinearTextureLayout \<Rightarrow> bool" where
  "texture_matches allocation_size im p t \<longleftrightarrow>
     \<not> (linear_texture_new (im_width im) (im_height im) (mip_levels t) (array_layers t) \<noteq> Some t
        \<or> im_modifier im \<noteq> LinearImage \<or> pl_offset p \<noteq> 0 \<or> pl_stride p \<noteq> tex_row_pitch t
        \<or> pl_size p \<noteq> total_size t \<or> allocation_size < total_size t)"

text \<open>The bytes the plane needs for its modifier.\<close>

definition required_plane_size :: "ImageMeta \<Rightarrow> PlaneLayout \<Rightarrow> u32 \<Rightarrow> u32 \<Rightarrow> (CompileError, u64) outcome" where
  "required_plane_size im p row_bytes max_pitch =
     (case im_modifier im of
        LinearImage \<Rightarrow>
          if im_storage_format im = Depth32Float then Err UnsupportedFeature
          else if pl_stride p < row_bytes \<or> pl_stride p > max_pitch \<or> pl_stride p AND 63 \<noteq> 0
          then Err InvalidResource
          else ok_or (Option.bind (checked_mul (ucast (pl_stride p)) (ucast (im_height im - 1)))
            (\<lambda>n. checked_add n (ucast row_bytes))) CompileOverflow
      | _ \<Rightarrow>
          let expected = (if im_modifier im = A6xxTile6_3Depth then Depth32Float else Bgra8Unorm) in
          if im_storage_format im \<noteq> expected \<or> pl_offset p AND (DEPTH32_LAYER_ALIGNMENT - 1) \<noteq> 0
          then Err InvalidResource
          else andThen (ok_or (depth32_tile6_3_layout (im_width im) (im_height im)) CompileOverflow) (\<lambda>layout.
            if pl_stride p \<noteq> d32_row_pitch layout \<or> pl_size p \<noteq> d32_layer_size layout
            then Err InvalidResource else Ok (d32_layer_size layout)))"

definition validate_image_layout :: "Sgfx \<Rightarrow> u64 \<Rightarrow> ImageMeta \<Rightarrow> u32 \<Rightarrow> (CompileError, unit) outcome" where
  "validate_image_layout S allocation_size im max_pitch =
     (if im_format im = Nv12 then validate_nv12 S allocation_size im max_pitch
      else if length (im_planes im) \<noteq> 1 then Err UnsupportedFeature
      else
        andThen (index (im_planes im) 0) (\<lambda>p.
        if is_some_and (im_texture im) (\<lambda>t. \<not> texture_matches allocation_size im p t) then Err InvalidResource
        else
          andThen (ok_or (bytes_per_pixel S (im_storage_format im)) UnsupportedFeature) (\<lambda>bpp.
          andThen (ok_or (checked_mul (im_width im) bpp) CompileOverflow) (\<lambda>row_bytes.
          andThen (required_plane_size im p row_bytes max_pitch) (\<lambda>required.
          andThen (ok_or (checked_add (pl_offset p) (pl_size p)) CompileOverflow) (\<lambda>plane_end.
          if pl_size p < required \<or> plane_end > allocation_size then Err OutOfBounds else Ok ()))))))"

section \<open>Surfaces\<close>

definition require_image_surface :: "Sgfx \<Rightarrow> ResourceMeta \<Rightarrow> Usage \<Rightarrow> u32 \<Rightarrow> (CompileError, Surface) outcome" where
  "require_image_surface S r required max_pitch =
     (case rm_kind r of
        BufferKind _ \<Rightarrow> Err InvalidResource
      | ImageKind im \<Rightarrow>
          if \<not> usage_contains S (im_usage im) required
            \<or> \<not> (im_storage_format im = Bgra8Unorm
                 \<or> (im_storage_format im = Nv12 \<and> required = TEX_SAMPLED S))
            \<or> im_modifier im \<notin> {LinearImage, A6xxTile6_3Color}
            \<or> (im_modifier im = A6xxTile6_3Color \<and> (im_format im \<noteq> Bgra8Unorm \<or> im_width im < 64))
          then Err InvalidResource
          else
            andThen (validate_image_layout S (rm_size r) im max_pitch) (\<lambda>_.
            andThen (index (im_planes im) 0) (\<lambda>p.
            andThen (case im_conversion im of
                None \<Rightarrow> Ok None
              | Some conversion \<Rightarrow> andThen (index (im_planes im) 1) (\<lambda>uv.
                  Ok (Some \<lparr> nv_conversion = conversion, uv_offset = pl_offset uv, uv_size = pl_size uv \<rparr>))) (\<lambda>nv12.
            Ok \<lparr> sf_nv12 = nv12,
                 sf_mip_levels = (case im_texture im of None \<Rightarrow> 1 | Some t \<Rightarrow> mip_levels t),
                 sf_array_pitch = (case im_texture im of None \<Rightarrow> pl_size p | Some t \<Rightarrow> ucast (layer_stride t)),
                 sf_object = rm_id r, sf_plane_offset = pl_offset p, sf_plane_size = pl_size p,
                 sf_width = im_width im, sf_height = im_height im, sf_stride = pl_stride p,
                 sf_tile_mode = (if im_modifier im = A6xxTile6_3Color then TILE_MODE_3 else 0),
                 sf_alpha_mask = (im_format im = R8Unorm) \<rparr>))))"

definition require_target_surface :: "Sgfx \<Rightarrow> ResourceMeta \<Rightarrow> Usage \<Rightarrow> u32 \<Rightarrow> (CompileError, Surface) outcome" where
  "require_target_surface S r required max_pitch =
     (case rm_kind r of
        BufferKind _ \<Rightarrow> Err InvalidResource
      | ImageKind im \<Rightarrow>
          if im_format im \<noteq> Bgra8Unorm then Err InvalidResource
          else require_image_surface S r required max_pitch)"

definition require_depth_surface :: "Sgfx \<Rightarrow> ResourceMeta \<Rightarrow> u32 \<Rightarrow> u32 \<Rightarrow> u32 \<Rightarrow> (CompileError, Surface) outcome" where
  "require_depth_surface S r width height max_pitch =
     (case rm_kind r of
        BufferKind _ \<Rightarrow> Err InvalidResource
      | ImageKind im \<Rightarrow>
          if im_format im \<noteq> Depth32Float \<or> im_modifier im \<noteq> A6xxTile6_3Depth
            \<or> \<not> usage_contains S (im_usage im) (TEX_RENDER_ATTACHMENT S)
            \<or> im_width im \<noteq> width \<or> im_height im \<noteq> height
          then Err InvalidResource
          else
            andThen (validate_image_layout S (rm_size r) im max_pitch) (\<lambda>_.
            andThen (index (im_planes im) 0) (\<lambda>p.
            Ok \<lparr> sf_nv12 = None, sf_mip_levels = 1, sf_array_pitch = pl_size p, sf_object = rm_id r,
                 sf_plane_offset = pl_offset p, sf_plane_size = pl_size p, sf_width = width,
                 sf_height = height, sf_stride = pl_stride p, sf_tile_mode = TILE_MODE_3,
                 sf_alpha_mask = False \<rparr>)))"


section \<open>Pipelines\<close>

definition pipeline_variant :: "RenderPipelineDesc \<Rightarrow> (CompileError, PipelineVariant) outcome" where
  "pipeline_variant d =
     (if pd_stride d = 16 then
        (case pd_fragment d of
           Solid \<Rightarrow> Ok Stride16Solid
         | TextureProgram Rgba \<Rightarrow> Ok Stride16TextureRgba
         | TextureProgram AlphaMask \<Rightarrow> Ok Stride16TextureAlphaMask
         | _ \<Rightarrow> Err UnsupportedFeature)
      else if pd_stride d = 40 then
        (case pd_fragment d of
           Solid \<Rightarrow> Ok Stride40Solid
         | VertexColor \<Rightarrow> Ok Stride40VertexColor
         | TextureVertexColor Rgba \<Rightarrow> Ok Stride40TextureVertexColorRgba
         | TextureVertexColor AlphaMask \<Rightarrow> Ok Stride40TextureVertexColorRgba
         | _ \<Rightarrow> Err UnsupportedFeature)
      else if pd_stride d = 24 then
        (case pd_fragment d of
           Solid \<Rightarrow> Ok Stride24Solid
         | TextureProgram Rgba \<Rightarrow> Ok Stride24TextureRgba
         | TextureProgram RgbIgnoreAlpha \<Rightarrow> Ok Stride24TextureRgbIgnoreAlpha
         | TextureProgram AlphaMask \<Rightarrow> Ok Stride24TextureAlphaMask
         | _ \<Rightarrow> Err UnsupportedFeature)
      else if pd_stride d = 28 then
        (case pd_fragment d of VertexColor \<Rightarrow> Ok Stride28VertexColor | _ \<Rightarrow> Err UnsupportedFeature)
      else if pd_stride d = 32 then
        (case pd_fragment d of
           Solid \<Rightarrow> Ok Stride32Solid
         | VertexColor \<Rightarrow> Ok Stride32VertexColor
         | _ \<Rightarrow> Err UnsupportedFeature)
      else Err UnsupportedFeature)"

definition ATTR_POS2 :: "(u32 \<times> u32) list" where "ATTR_POS2 = [(0x67, 0)]"
definition ATTR_POS2_UV2 :: "(u32 \<times> u32) list" where "ATTR_POS2_UV2 = [(0x67, 0), (0x67, 8)]"
definition ATTR_POS4 :: "(u32 \<times> u32) list" where "ATTR_POS4 = [(0x82, 0)]"
definition ATTR_POS4_UV2 :: "(u32 \<times> u32) list" where "ATTR_POS4_UV2 = [(0x82, 0), (0x67, 16)]"
definition ATTR_POS4_COLOR3 :: "(u32 \<times> u32) list" where "ATTR_POS4_COLOR3 = [(0x82, 0), (0x74, 16)]"
definition ATTR_POS4_COLOR4 :: "(u32 \<times> u32) list" where "ATTR_POS4_COLOR4 = [(0x82, 0), (0x82, 16)]"
definition ATTR_POS4_COLOR4_UV2 :: "(u32 \<times> u32) list" where
  "ATTR_POS4_COLOR4_UV2 = [(0x82, 0), (0x82, 16), (0x67, 32)]"

definition draw_attributes :: "RenderPipelineDesc \<Rightarrow> (CompileError, (u32 \<times> u32) list) outcome" where
  "draw_attributes d =
     (let n = pd_stride d; f = pd_fragment d in
      if n = 16 then Ok (if f = Solid then ATTR_POS2 else ATTR_POS2_UV2)
      else if n \<in> {24, 32, 40} \<and> f = Solid then Ok ATTR_POS4
      else if n = 24 then Ok ATTR_POS4_UV2
      else if n = 28 then Ok ATTR_POS4_COLOR3
      else if n = 32 \<and> f = VertexColor then Ok ATTR_POS4_COLOR4
      else if n = 40 \<and> f = VertexColor then Ok ATTR_POS4_COLOR4
      else if n = 40 then Ok ATTR_POS4_COLOR4_UV2
      else Err UnsupportedFeature)"

definition draw_fixed_state :: "RenderPipelineDesc \<Rightarrow> (CompileError, (u32 \<times> u32) list \<times> bool) outcome" where
  "draw_fixed_state d =
     andThen (draw_attributes d) (\<lambda>attributes. Ok (attributes, pd_blend d = SOURCE_OVER_STRAIGHT_ALPHA))"

text \<open>The lookup closure of \<open>validate_pipeline_descriptor\<close>.\<close>

definition find_attribute :: "RenderPipelineDesc \<Rightarrow> nat \<Rightarrow> (VertexFormat \<times> nat) option" where
  "find_attribute d location =
     map_option (\<lambda>a. (va_format a, va_offset a)) (find (\<lambda>a. va_location a = location) (pd_attributes d))"

definition vertex_layout_ok :: "RenderPipelineDesc \<Rightarrow> bool" where
  "vertex_layout_ok d =
     (let at = (\<lambda>l fmt off. find_attribute d l = Some (fmt, off)) in
      if pd_stride d = 16 then
        (case pd_fragment d of
           Solid \<Rightarrow> at 0 Float32x2 0
         | TextureProgram mode \<Rightarrow> mode \<in> {Rgba, AlphaMask} \<and> at 0 Float32x2 0 \<and> at 1 Float32x2 8
         | _ \<Rightarrow> False)
      else if pd_stride d = 40 then
        (case pd_fragment d of
           Solid \<Rightarrow> at 0 Float32x4 0
         | VertexColor \<Rightarrow> at 0 Float32x4 0 \<and> at 1 Float32x4 16
         | TextureVertexColor mode \<Rightarrow>
             mode \<in> {Rgba, AlphaMask} \<and> at 0 Float32x4 0 \<and> at 1 Float32x4 16 \<and> at 2 Float32x2 32
         | _ \<Rightarrow> False)
      else if pd_stride d = 24 then
        (case pd_fragment d of
           Solid \<Rightarrow> at 0 Float32x4 0
         | TextureProgram mode \<Rightarrow> at 0 Float32x4 0 \<and> at 1 Float32x2 16
         | _ \<Rightarrow> False)
      else if pd_stride d = 28 then
        (case pd_fragment d of VertexColor \<Rightarrow> at 0 Float32x4 0 \<and> at 1 Float32x3 16 | _ \<Rightarrow> False)
      else if pd_stride d = 32 then
        (case pd_fragment d of
           Solid \<Rightarrow> at 0 Float32x4 0
         | VertexColor \<Rightarrow> at 0 Float32x4 0 \<and> at 1 Float32x4 16
         | _ \<Rightarrow> False)
      else False)"

definition fixed_state_ok :: "RenderPipelineDesc \<Rightarrow> bool" where
  "fixed_state_ok d =
     (if pd_stride d \<in> {16, 24, 32} then
        pd_blend d = SOURCE_OVER_STRAIGHT_ALPHA \<and> pd_cull_mode d = CullNone
          \<and> pd_front_face d = CounterClockwise
      else if pd_stride d = 40 then
        pd_blend d = SOURCE_OVER_STRAIGHT_ALPHA \<and> pd_cull_mode d \<in> {CullNone, CullBack}
          \<and> pd_front_face d = CounterClockwise
      else if pd_stride d = 28 then pd_blend d = REPLACE
      else False)"

definition validate_pipeline_descriptor :: "PipelineMeta \<Rightarrow> (CompileError, unit) outcome" where
  "validate_pipeline_descriptor p =
     (let d = pm_descriptor p in
      if pd_target_format d \<noteq> Bgra8Unorm \<or> pd_topology d \<noteq> TriangleList
        \<or> is_some_and (pd_depth_state d) (\<lambda>ds. ds_format ds \<noteq> Depth32Float)
        \<or> pd_stride d \<notin> {16, 24, 28, 32, 40}
      then Err UnsupportedFeature
      else if vertex_layout_ok d \<and> fixed_state_ok d then Ok () else Err UnsupportedFeature)"

section \<open>Tables\<close>

text \<open>The loops of \<open>validate_tables\<close>; \<open>seen\<close> is the slice before the current index.\<close>

fun validate_resources :: "Sgfx \<Rightarrow> u32 \<Rightarrow> ResourceMeta list \<Rightarrow> ResourceMeta list \<Rightarrow> (CompileError, unit) outcome" where
  "validate_resources S max_pitch seen [] = Ok ()"
| "validate_resources S max_pitch seen (r # rs) =
     (if rm_size r = 0 \<or> list_ex (\<lambda>other. rm_id other = rm_id r) seen then Err InvalidIdentity
      else andThen (case rm_kind r of
          ImageKind im \<Rightarrow> validate_image_layout S (rm_size r) im max_pitch
        | BufferKind _ \<Rightarrow> Ok ()) (\<lambda>_.
      validate_resources S max_pitch (seen @ [r]) rs))"

fun validate_pipelines :: "PipelineMeta list \<Rightarrow> PipelineMeta list \<Rightarrow> (CompileError, unit) outcome" where
  "validate_pipelines seen [] = Ok ()"
| "validate_pipelines seen (p # ps) =
     (if list_ex (\<lambda>other. pm_id other = pm_id p) seen then Err InvalidIdentity
      else andThen (validate_pipeline_descriptor p) (\<lambda>_. validate_pipelines (seen @ [p]) ps))"

definition validate_tables :: "Sgfx \<Rightarrow> CompileInput \<Rightarrow> (CompileError, unit) outcome" where
  "validate_tables S inp =
     (let caps = ci_capabilities inp in
      if cap_chip caps \<noteq> A618 \<or> gmem_size caps = 0 \<or> max_pm4_words caps = 0 \<or> max_linear_pitch caps = 0
      then Err InvalidResource
      else andThen (validate_resources S (max_linear_pitch caps) [] (ci_resources inp)) (\<lambda>_.
        validate_pipelines [] (ci_pipelines inp)))"

section \<open>Pass state\<close>

definition require_inside_pass :: "State \<Rightarrow> (CompileError, PassState) outcome" where
  "require_inside_pass st = ok_or (st_pass st) InvalidState"

definition require_outside_pass :: "State \<Rightarrow> (CompileError, unit) outcome" where
  "require_outside_pass st = (if st_pass st \<noteq> None then Err InvalidState else Ok ())"

definition require_draw_state :: "State \<Rightarrow>
    (CompileError, PassState \<times> PipelineMeta \<times> BufferBinding \<times> DrawUniforms) outcome" where
  "require_draw_state st =
     andThen (ok_or (st_pass st) InvalidState) (\<lambda>pass.
     andThen (ok_or (st_pipeline st) InvalidState) (\<lambda>pipeline.
     andThen (ok_or (st_vertex st) InvalidState) (\<lambda>vertex.
     andThen (ok_or (st_uniforms st) InvalidState) (\<lambda>uniforms.
     Ok (pass, pipeline, vertex, uniforms)))))"

definition begin_draw_batch_if_needed :: "(usize \<Rightarrow> bool) \<Rightarrow> State \<times> Emitter \<Rightarrow>
    (CompileError, State \<times> Emitter) outcome" where
  "begin_draw_batch_if_needed alloc = (\<lambda>(st, em).
     andThen (require_inside_pass st) (\<lambda>_.
     if \<not> st_draw_batch_started st
     then andThen (begin_draw_batch alloc em) (\<lambda>em. Ok (st \<lparr> st_draw_batch_started := True \<rparr>, em))
     else andThen (continue_draw_batch em) (\<lambda>em. Ok (st, em))))"

text \<open>The bindings that \<open>BeginRenderPass\<close> and \<open>EndRenderPass\<close> reset.\<close>

definition clear_bindings :: "State \<Rightarrow> State" where
  "clear_bindings st = st \<lparr> st_pipeline := None, st_vertex := None, st_index := None, st_texture := None,
     st_sampler := None, st_uniforms := None, st_scissor := None, st_viewport := None \<rparr>"

end
