(* ===== verification/Compiler.thy ===== *)
theory Compiler
  imports Compile_Checks
begin

text \<open>
  The lowering of the command compiler (\<open>userspace/sgfx-codegen-adreno-a6xx/src/compiler.rs\<close>): draws,
  texture uploads, one handler per operation and \<open>compile\<close>, which runs the operations in order and
  finishes the emitter.
\<close>

section \<open>Uniforms and samplers\<close>

text \<open>\<open>v as f32\<close> of a \<open>u32\<close>, and a decimal literal as the fraction \<open>a / b\<close>.\<close>

definition float_of_u32 :: "u32 \<Rightarrow> float32" where
  "float_of_u32 w = float_of False (round_quotient (unat w * 2 ^ 149) 1)"

definition float_dec :: "nat \<Rightarrow> nat \<Rightarrow> float32" where
  "float_dec a b = float_of False (round_quotient (a * 2 ^ 149) b)"

definition ycbcr_coefficients :: "YcbcrConversion \<Rightarrow> float32 list" where
  "ycbcr_coefficients c =
     (let (kr, kb) = (case yc_matrix c of
            Bt601 \<Rightarrow> (float_dec 299 1000, float_dec 114 1000)
          | Bt709 \<Rightarrow> (float_dec 2126 10000, float_dec 722 10000));
          (ys, cs, yo) = (case yc_range c of
            Limited \<Rightarrow> (float_div (float_lit 255 0) (float_lit 219 0), float_div (float_lit 255 0) (float_lit 224 0),
              float_div (float_lit 16 0) (float_lit 255 0))
          | Full \<Rightarrow> (float_lit 1 0, float_lit 1 0, float_lit 0 0));
          one = float_lit 1 0; two = float_lit 2 0; minus_two = float_lit (- 2) 0;
          rv = float_mul (float_mul two (float_sub one kr)) cs;
          bu = float_mul (float_mul two (float_sub one kb)) cs;
          kg = float_sub (float_sub one kr) kb;
          gu = float_mul (float_div (float_mul (float_mul minus_two kb) (float_sub one kb)) kg) cs;
          gv = float_mul (float_div (float_mul (float_mul minus_two kr) (float_sub one kr)) kg) cs;
          co = float_div (float_lit 128 0) (float_lit 255 0);
          base = float_mul (float_neg ys) yo
      in [ys, float_lit 0 0, rv, float_sub base (float_mul rv co),
          ys, gu, gv, float_sub base (float_mul (float_add gu gv) co),
          ys, bu, float_lit 0 0, float_sub base (float_mul bu co)])"

text \<open>\<open>words[at..at + n].iter_mut().zip(values)\<close>: the shorter side ends the loop.\<close>

definition zip_into :: "u32 list \<Rightarrow> nat \<Rightarrow> nat \<Rightarrow> u32 list \<Rightarrow> u32 list" where
  "zip_into ws at n vs = take at ws @ take n vs @ drop (at + length (take n vs)) ws"

definition uniform_words :: "Surface option \<Rightarrow> DrawUniforms \<Rightarrow> u32 list" where
  "uniform_words texture uniforms =
     (let ws = replicate 32 0;
          ws = (case Option.bind texture sf_nv12 of
              Some nv12 \<Rightarrow> zip_into ws 20 12 (map to_bits (ycbcr_coefficients (nv_conversion nv12)))
            | None \<Rightarrow> ws);
          ws = zip_into ws 0 16 (du_transform uniforms)
      in zip_into ws 16 4 (du_color uniforms))"

definition sampler_words :: "bool \<Rightarrow> SamplerDesc option \<Rightarrow> Surface option \<Rightarrow> u32 list" where
  "sampler_words linear_sampler sampler texture =
     (let ws = (if linear_sampler then SAMPLER_CLAMP_LINEAR else SAMPLER_CLAMP_NEAREST) in
      case sampler of
        None \<Rightarrow> ws
      | Some s \<Rightarrow>
          let ws = (if sd_mip_filter s = Linear then ws[0 := ws ! 0 OR 1] else ws);
              hi = (case texture of None \<Rightarrow> float_lit 0 0 | Some t \<Rightarrow> float_of_u32 (sf_mip_levels t - 1));
              min_lod = float_as_u32 (float_mul (float_clamp (sd_min_lod s) (float_lit 0 0) hi) (float_lit 256 0));
              max_lod = float_as_u32 (float_mul (float_clamp (sd_max_lod s) (float_lit 0 0) hi) (float_lit 256 0));
              ws = (if max_lod > 0 then ws[1 := ws ! 1 AND NOT 0x40] else ws)
          in ws[1 := ws ! 1 OR (push_bit 20 min_lod OR push_bit 8 max_lod)])"

definition cull_bits :: "RenderPipelineDesc \<Rightarrow> u32" where
  "cull_bits d =
     (case pd_cull_mode d of CullNone \<Rightarrow> 0 | CullFront \<Rightarrow> 1 | CullBack \<Rightarrow> 2)
       OR (if pd_front_face d = Clockwise then 4 else 0)"

section \<open>Draws\<close>

definition sample_mode :: "FragmentProgram \<Rightarrow> TextureSampleMode option" where
  "sample_mode f =
     (case f of TextureProgram m \<Rightarrow> Some m | TextureVertexColor m \<Rightarrow> Some m | _ \<Rightarrow> None)"

definition format_matches :: "TextureSampleMode \<Rightarrow> TextureFormat \<Rightarrow> bool" where
  "format_matches mode fmt =
     (case mode of AlphaMask \<Rightarrow> fmt = R8Unorm | _ \<Rightarrow> fmt \<in> {Bgra8Unorm, Rgba8Unorm, Nv12})"

definition validate_sample_state :: "Sgfx \<Rightarrow> ResourceMeta list \<Rightarrow> State \<Rightarrow> PipelineMeta \<Rightarrow>
    (CompileError, bool) outcome" where
  "validate_sample_state S rs st p =
     (case sample_mode (pd_fragment (pm_descriptor p)) of
        None \<Rightarrow> Ok False
      | Some mode \<Rightarrow>
          andThen (ok_or (st_texture st) InvalidState) (\<lambda>texture.
          andThen (ok_or (st_sampler st) InvalidState) (\<lambda>sampler.
          if sd_compare sampler \<noteq> None \<or> sd_min_filter sampler \<noteq> sd_mag_filter sampler
            \<or> sd_address_u sampler \<noteq> ClampToEdge \<or> sd_address_v sampler \<noteq> ClampToEdge
          then Err UnsupportedFeature
          else
            andThen (find_resource rs texture) (\<lambda>r.
            case rm_kind r of
              BufferKind _ \<Rightarrow> Err InvalidResource
            | ImageKind im \<Rightarrow>
                if \<not> format_matches mode (im_format im) \<or> im_storage_format im \<notin> {Bgra8Unorm, Nv12}
                  \<or> \<not> usage_contains S (im_usage im) (TEX_SAMPLED S)
                then Err InvalidResource
                else Ok (sd_min_filter sampler = Linear)))))"

text \<open>The bytes of the vertex buffer a draw reads, and its vertex or index count.\<close>

definition draw_extent :: "RenderPipelineDesc \<Rightarrow> DrawCall \<Rightarrow> (CompileError, u64 \<times> u32) outcome" where
  "draw_extent d c =
     (case c of
        NonIndexed fv n \<Rightarrow>
          andThen (ok_or (checked_add fv n) CompileOverflow) (\<lambda>end_vertex.
          andThen (ok_or (checked_mul (ucast end_vertex) (ucast (pd_stride d))) CompileOverflow) (\<lambda>bytes.
          Ok (bytes, n)))
      | Indexed ix \<Rightarrow> Ok (ix_vertex_size ix, ix_index_count ix))"

definition draw_texture :: "Sgfx \<Rightarrow> CompileInput \<Rightarrow> State \<Rightarrow> RenderPipelineDesc \<Rightarrow>
    (CompileError, Surface option) outcome" where
  "draw_texture S inp st d =
     (case sample_mode (pd_fragment d) of
        None \<Rightarrow> Ok None
      | Some _ \<Rightarrow>
          andThen (ok_or (st_texture st) InvalidState) (\<lambda>i.
          andThen (find_resource (ci_resources inp) i) (\<lambda>r.
          andThen (require_image_surface S r (TEX_SAMPLED S) (max_linear_pitch (ci_capabilities inp))) (\<lambda>s.
          Ok (Some s)))))"

definition nv12_variant :: "RenderPipelineDesc \<Rightarrow> (CompileError, PipelineVariant) outcome" where
  "nv12_variant d =
     (case pd_fragment d of
        TextureProgram _ \<Rightarrow>
          if pd_stride d = 16 then Ok Stride16Nv12
          else if pd_stride d = 24 then Ok Stride24Nv12 else Err UnsupportedFeature
      | TextureVertexColor _ \<Rightarrow> if pd_stride d = 40 then Ok Stride40Nv12VertexColor else Err UnsupportedFeature
      | _ \<Rightarrow> Err UnsupportedFeature)"

definition draw_depth :: "Sgfx \<Rightarrow> CompileInput \<Rightarrow> PassState \<Rightarrow> RenderPipelineDesc \<Rightarrow> Surface \<Rightarrow>
    (CompileError, DepthDrawState option) outcome" where
  "draw_depth S inp pass d target =
     (case (ps_depth pass, pd_depth_state d) of
        (Some depth, Some ds) \<Rightarrow>
          if ds_format ds \<noteq> Depth32Float then Err InvalidResource
          else
            andThen (find_resource (ci_resources inp) depth) (\<lambda>r.
            andThen (require_depth_surface S r (sf_width target) (sf_height target)
              (max_linear_pitch (ci_capabilities inp))) (\<lambda>s.
            Ok (Some \<lparr> dd_target = s, dd_compare = ds_compare ds, dd_write_enabled = ds_write_enabled ds \<rparr>)))
      | (None, Some _) \<Rightarrow> Err InvalidState
      | (_, None) \<Rightarrow> Ok None)"

text \<open>The argument of \<open>emitter.draw\<close>.\<close>

definition draw_request :: "State \<Rightarrow> PassState \<Rightarrow> RenderPipelineDesc \<Rightarrow> BufferBinding \<Rightarrow> DrawUniforms \<Rightarrow> Surface \<Rightarrow> u64 \<Rightarrow>
    bool \<Rightarrow> (u32 \<times> u32) list \<times> bool \<Rightarrow> Surface option \<Rightarrow> PipelineVariant \<Rightarrow> DepthDrawState option \<Rightarrow> Viewport \<Rightarrow>
    DrawCall \<Rightarrow> DrawState" where
  "draw_request st pass d vertex uniforms target vertex_size linear_sampler fixed_state texture variant depth whole c =
     \<lparr> dr_variant = variant, dr_target = target, dr_area = ps_area pass,
       dr_scissor = (case st_scissor st of Some r \<Rightarrow> r | None \<Rightarrow> ps_area pass),
       dr_viewport = (case st_viewport st of Some v \<Rightarrow> v | None \<Rightarrow> whole),
       dr_vertex = bb_object vertex, dr_vertex_offset = bb_offset vertex,
       dr_vertex_size = vertex_size, dr_stride = pd_stride d, dr_attributes = fst fixed_state,
       dr_uniforms = uniform_words texture uniforms, dr_texture = texture,
       dr_sampler = sampler_words linear_sampler (st_sampler st) texture,
       dr_source_over = snd fixed_state, dr_cull = cull_bits d, dr_depth = depth, dr_draw = c \<rparr>"

definition emit_draw :: "Sgfx \<Rightarrow> (usize \<Rightarrow> bool) \<Rightarrow> CompileInput \<Rightarrow> State \<Rightarrow> DrawCall \<Rightarrow> emission" where
  "emit_draw S alloc inp st c em =
     andThen (require_draw_state st) (\<lambda>(pass, pipeline, vertex, uniforms).
     let d = pm_descriptor pipeline; rs = ci_resources inp; max_pitch = max_linear_pitch (ci_capabilities inp) in
     andThen (draw_extent d c) (\<lambda>(vertex_size, draw_count).
     if draw_count = 0 \<or> draw_count mod 3 \<noteq> 0 then Err UnsupportedFeature
     else
       andThen (find_resource rs (ps_target pass)) (\<lambda>target_resource.
       andThen (require_target_surface S target_resource (TEX_RENDER_ATTACHMENT S) max_pitch) (\<lambda>target.
       if pd_target_format d \<noteq> Bgra8Unorm then Err InvalidResource
       else
         andThen (validate_sample_state S rs st pipeline) (\<lambda>linear_sampler.
         andThen (find_resource rs (bb_object vertex)) (\<lambda>vertex_resource.
         andThen (require_buffer_usage S vertex_resource (BUF_VERTEX S)) (\<lambda>_.
         andThen (validate_range (rm_size vertex_resource) (bb_offset vertex) vertex_size) (\<lambda>_.
         if \<not> unat vertex_size < 2 ^ 32 then Err OutOfBounds
         else if is_some_and (st_scissor st) (\<lambda>sc. \<not> rect_within sc (ps_area pass)) then Err OutOfBounds
         else
           andThen (pipeline_variant d) (\<lambda>variant.
           andThen (draw_fixed_state d) (\<lambda>(attributes, source_over).
           andThen (draw_texture S inp st d) (\<lambda>texture.
           andThen (if is_some_and texture (\<lambda>t. sf_nv12 t \<noteq> None) then nv12_variant d else Ok variant) (\<lambda>variant.
           andThen (draw_depth S inp pass d target) (\<lambda>depth.
           andThen (ok_or (viewport_new S (float_lit 0 0) (float_lit 0 0) (float_of_u32 (sf_width target))
             (float_of_u32 (sf_height target)) (float_lit 0 0) (float_lit 1 0)) InvalidResource) (\<lambda>whole.
           draw alloc (draw_request st pass d vertex uniforms target vertex_size linear_sampler (attributes, source_over)
             texture variant depth whole c) em))))))))))))))"

text \<open>Integer division panics on a zero divisor.\<close>

definition u64_div :: "u64 \<Rightarrow> u64 \<Rightarrow> (CompileError, u64) outcome" where
  "u64_div a b = (if b = 0 then Panic else Ok (a div b))"

definition u64_rem :: "u64 \<Rightarrow> u64 \<Rightarrow> (CompileError, u64) outcome" where
  "u64_rem a b = (if b = 0 then Panic else Ok (a mod b))"

definition emit_draw_indexed :: "Sgfx \<Rightarrow> (usize \<Rightarrow> bool) \<Rightarrow> CompileInput \<Rightarrow> State \<Rightarrow> u32 \<Rightarrow> u32 \<Rightarrow> i32 \<Rightarrow> emission" where
  "emit_draw_indexed S alloc inp st index_count first_index base_vertex em =
     andThen (require_draw_state st) (\<lambda>(_, pipeline, vertex, _).
     andThen (ok_or (st_index st) InvalidState) (\<lambda>ix.
     if sint base_vertex < 0 then Err UnsupportedFeature
     else
       andThen (find_resource (ci_resources inp) (ib_object ix)) (\<lambda>index_resource.
       andThen (require_buffer_usage S index_resource (BUF_INDEX S)) (\<lambda>_.
       let element_size = index_byte_size S (ib_format ix) in
       andThen (ok_or (checked_sub (rm_size index_resource) (ib_offset ix)) OutOfBounds) (\<lambda>available_bytes.
       andThen (u64_div available_bytes element_size) (\<lambda>available_indices.
       andThen (if unat available_indices < 2 ^ 32 then Ok (ucast available_indices :: u32) else Err OutOfBounds) (\<lambda>max_indices.
       andThen (ok_or (checked_add first_index index_count) CompileOverflow) (\<lambda>end_index.
       if index_count = 0 \<or> end_index > max_indices then Err OutOfBounds
       else
         andThen (ok_or (checked_mul (ucast max_indices) element_size) CompileOverflow) (\<lambda>index_size.
         andThen (find_resource (ci_resources inp) (bb_object vertex)) (\<lambda>vertex_resource.
         andThen (require_buffer_usage S vertex_resource (BUF_VERTEX S)) (\<lambda>_.
         andThen (ok_or (checked_sub (rm_size vertex_resource) (bb_offset vertex)) OutOfBounds) (\<lambda>vertex_size.
         andThen (ok_or (Option.bind (checked_add (ucast base_vertex) 1)
           (\<lambda>n. checked_mul n (ucast (pd_stride (pm_descriptor pipeline))))) CompileOverflow) (\<lambda>minimum_bytes.
         if minimum_bytes > vertex_size then Err OutOfBounds
         else
           emit_draw S alloc inp st (Indexed
             \<lparr> ix_index = ib_object ix, ix_index_offset = ib_offset ix, ix_index_size = index_size,
               ix_format = ib_format ix, ix_index_count = index_count, ix_first_index = first_index,
               ix_base_vertex = base_vertex, ix_max_indices = max_indices,
               ix_vertex_size = vertex_size \<rparr>) em)))))))))))))"

section \<open>Texture uploads\<close>

text \<open>One source row, converted to the storage format.\<close>

fun swizzle_rgba :: "u8 list \<Rightarrow> u8 list" where
  "swizzle_rgba (r # g # b # a # rest) = [b, g, r, a] @ swizzle_rgba rest"
| "swizzle_rgba _ = []"

definition convert_row :: "TextureFormat \<Rightarrow> u8 list \<Rightarrow> (CompileError, u8 list) outcome" where
  "convert_row fmt source =
     (case fmt of
        Bgra8Unorm \<Rightarrow> Ok source
      | Rgba8Unorm \<Rightarrow> Ok (swizzle_rgba source)
      | R8Unorm \<Rightarrow> Ok (concat (map (\<lambda>alpha. [0, 0, 0, alpha]) source))
      | _ \<Rightarrow> Err UnsupportedFeature)"

definition convert_rows :: "TextureFormat \<Rightarrow> u8 list \<Rightarrow> u32 \<Rightarrow> u32 \<Rightarrow> u32 \<Rightarrow> (CompileError, u8 list) outcome" where
  "convert_rows fmt bs bytes_per_row row_size height =
     foldM (\<lambda>pixels row.
         andThen (slice bs (row * unat bytes_per_row) (row * unat bytes_per_row + unat row_size)) (\<lambda>source.
         andThen (convert_row fmt source) (\<lambda>px. Ok (pixels @ px))))
       [] [0..<unat height]"

definition emit_texture_upload :: "Sgfx \<Rightarrow> (usize \<Rightarrow> bool) \<Rightarrow> ResourceMeta list \<Rightarrow> u32 \<Rightarrow> PixelRect \<Rightarrow> u32 \<Rightarrow>
    u8 list \<Rightarrow> u32 \<Rightarrow> emission" where
  "emit_texture_upload S alloc rs destination area bytes_per_row bs max_pitch em =
     andThen (find_resource rs destination) (\<lambda>r.
     andThen (require_image_surface S r (TEX_COPY_DST S) max_pitch) (\<lambda>surface.
     andThen (validate_rect area surface) (\<lambda>_.
     case rm_kind r of
       BufferKind _ \<Rightarrow> Err InvalidResource
     | ImageKind im \<Rightarrow>
         andThen (ok_or (bytes_per_pixel S (im_format im)) UnsupportedFeature) (\<lambda>bpp.
         andThen (ok_or (checked_mul (rect_width area) bpp) CompileOverflow) (\<lambda>row_size.
         if bytes_per_row < row_size then Err OutOfBounds
         else
           andThen (ok_or (Option.bind (checked_mul (ucast bytes_per_row) (ucast (rect_height area - 1)))
             (\<lambda>n. checked_add n (ucast row_size :: u64))) CompileOverflow) (\<lambda>required_data.
           if unat required_data > length bs then Err OutOfBounds
           else
             andThen (ok_or (usize_checked_mul (unat (rect_width area)) 4) CompileOverflow) (\<lambda>row_bytes.
             andThen (ok_or (usize_checked_mul row_bytes (unat (rect_height area))) CompileOverflow) (\<lambda>total_bytes.
             if im_storage_format im \<noteq> Bgra8Unorm then Err UnsupportedFeature
             else
               andThen (guard (alloc total_bytes) CompileOutOfMemory) (\<lambda>_.
               andThen (convert_rows (im_format im) bs bytes_per_row row_size (rect_height area)) (\<lambda>pixels.
               andThen (ok_or (Option.bind
                   (checked_add (sf_plane_offset surface) (ucast (rect_y area) * ucast (sf_stride surface)))
                   (\<lambda>off. checked_add off (ucast (rect_x area) * 4))) CompileOverflow) (\<lambda>destination_offset.
               upload_rows alloc destination destination_offset (sf_stride surface) row_bytes pixels em)))))))))))"

section \<open>Operations\<close>

type_synonym handler = "State \<times> Emitter \<Rightarrow> (CompileError, State \<times> Emitter) outcome"

text \<open>An emission under an unchanged state.\<close>

definition emit_with :: "State \<Rightarrow> (CompileError, Emitter) outcome \<Rightarrow> (CompileError, State \<times> Emitter) outcome" where
  "emit_with st m = andThen m (\<lambda>em. Ok (st, em))"

definition op_write_buffer :: "Sgfx \<Rightarrow> (usize \<Rightarrow> bool) \<Rightarrow> CompileInput \<Rightarrow> u32 \<Rightarrow> u64 \<Rightarrow> u8 list \<Rightarrow> handler" where
  "op_write_buffer S alloc inp destination off bs = (\<lambda>(st, em).
     andThen (require_outside_pass st) (\<lambda>_.
     andThen (find_resource (ci_resources inp) destination) (\<lambda>r.
     andThen (require_buffer_usage S r (BUF_COPY_DST S)) (\<lambda>_.
     andThen (if length bs < 2 ^ 64 then Ok (of_nat (length bs) :: u64) else Err CompileOverflow) (\<lambda>sz.
     andThen (validate_range (rm_size r) off sz) (\<lambda>_.
     emit_with st (upload_buffer alloc destination off sz bs em)))))))"

definition op_write_texture :: "Sgfx \<Rightarrow> (usize \<Rightarrow> bool) \<Rightarrow> CompileInput \<Rightarrow> u32 \<Rightarrow> PixelRect \<Rightarrow> u32 \<Rightarrow> u8 list \<Rightarrow> handler" where
  "op_write_texture S alloc inp destination area bytes_per_row bs = (\<lambda>(st, em).
     andThen (require_outside_pass st) (\<lambda>_.
     emit_with st (emit_texture_upload S alloc (ci_resources inp) destination area bytes_per_row bs
       (max_linear_pitch (ci_capabilities inp)) em)))"

definition op_copy_texture :: "Sgfx \<Rightarrow> (usize \<Rightarrow> bool) \<Rightarrow> CompileInput \<Rightarrow> u32 \<Rightarrow> PixelRect \<Rightarrow> u32 \<Rightarrow> PixelRect \<Rightarrow> handler" where
  "op_copy_texture S alloc inp source source_rect destination destination_rect = (\<lambda>(st, em).
     andThen (require_outside_pass st) (\<lambda>_.
     if \<not> same_extent S source_rect destination_rect \<or> source = destination then Err InvalidResource
     else
       andThen (find_resource (ci_resources inp) source) (\<lambda>source_resource.
       andThen (find_resource (ci_resources inp) destination) (\<lambda>destination_resource.
       andThen (require_target_surface S source_resource (TEX_COPY_SRC S)
         (max_linear_pitch (ci_capabilities inp))) (\<lambda>src.
       andThen (require_target_surface S destination_resource (TEX_COPY_DST S)
         (max_linear_pitch (ci_capabilities inp))) (\<lambda>dst.
       andThen (validate_rect source_rect src) (\<lambda>_.
       andThen (validate_rect destination_rect dst) (\<lambda>_.
       emit_with st (emit_copy alloc src source_rect dst destination_rect em)))))))))"

definition op_blit_texture :: "Sgfx \<Rightarrow> (usize \<Rightarrow> bool) \<Rightarrow> CompileInput \<Rightarrow> u32 \<Rightarrow> PixelRect \<Rightarrow> u32 \<Rightarrow> PixelRect \<Rightarrow>
    FilterMode \<Rightarrow> bool \<times> bool \<Rightarrow> handler" where
  "op_blit_texture S alloc inp source source_rect destination destination_rect filt flips = (\<lambda>(st, em).
     andThen (require_outside_pass st) (\<lambda>_.
     if source = destination then Err InvalidResource
     else
       andThen (find_resource (ci_resources inp) source) (\<lambda>src_meta.
       andThen (require_image_surface S src_meta (TEX_COPY_SRC S)
         (max_linear_pitch (ci_capabilities inp))) (\<lambda>src.
       andThen (find_resource (ci_resources inp) destination) (\<lambda>dst_meta.
       andThen (require_image_surface S dst_meta (TEX_COPY_DST S)
         (max_linear_pitch (ci_capabilities inp))) (\<lambda>dst.
       case (rm_kind src_meta, rm_kind dst_meta) of
         (ImageKind src_image, ImageKind dst_image) \<Rightarrow>
           if im_format src_image \<noteq> im_format dst_image then Err InvalidResource
           else
             andThen (validate_rect source_rect src) (\<lambda>_.
             andThen (validate_rect destination_rect dst) (\<lambda>_.
             emit_with st (blit alloc src source_rect dst destination_rect filt flips em)))
       | _ \<Rightarrow> Err InvalidResource))))))"

definition pass_depth :: "Sgfx \<Rightarrow> CompileInput \<Rightarrow> RenderPass \<Rightarrow> Surface \<Rightarrow>
    (CompileError, u32 option \<times> (Surface \<times> float32) option) outcome" where
  "pass_depth S inp pass target =
     (case rp_depth pass of
        None \<Rightarrow> Ok (None, None)
      | Some depth \<Rightarrow>
          andThen (find_resource (ci_resources inp) (da_target depth)) (\<lambda>r.
          andThen (require_depth_surface S r (sf_width target) (sf_height target)
            (max_linear_pitch (ci_capabilities inp))) (\<lambda>depth_target.
          Ok (Some (da_target depth),
            case da_load depth of ClearDepth v \<Rightarrow> Some (depth_target, v) | OtherDepthLoad _ \<Rightarrow> None))))"

definition pass_clears :: "(usize \<Rightarrow> bool) \<Rightarrow> RenderPass \<Rightarrow> Surface \<Rightarrow> (Surface \<times> float32) option \<Rightarrow> emission" where
  "pass_clears alloc pass target depth_clear em =
     (case (rp_load pass, depth_clear) of
        (ClearColor color, Some (depth_target, v)) \<Rightarrow>
          clear_color_and_depth alloc target depth_target (rp_area pass) color v em
      | (ClearColor color, None) \<Rightarrow> emit_clear alloc target (rp_area pass) color em
      | (_, Some (depth_target, v)) \<Rightarrow> clear_depth alloc depth_target (rp_area pass) v em
      | _ \<Rightarrow> Ok em)"

definition op_begin_render_pass :: "Sgfx \<Rightarrow> (usize \<Rightarrow> bool) \<Rightarrow> CompileInput \<Rightarrow> RenderPass \<Rightarrow> handler" where
  "op_begin_render_pass S alloc inp pass = (\<lambda>(st, em).
     if st_pass st \<noteq> None then Err InvalidState
     else
       andThen (find_resource (ci_resources inp) (rp_target pass)) (\<lambda>target_resource.
       andThen (require_target_surface S target_resource (TEX_RENDER_ATTACHMENT S)
         (max_linear_pitch (ci_capabilities inp))) (\<lambda>target.
       andThen (validate_rect (rp_area pass) target) (\<lambda>_.
       andThen (pass_depth S inp pass target) (\<lambda>(depth, depth_clear).
       andThen (pass_clears alloc pass target depth_clear em) (\<lambda>em.
       Ok (clear_bindings (st \<lparr> st_pass := Some \<lparr> ps_target = rp_target pass, ps_area = rp_area pass,
             ps_depth = depth \<rparr>, st_draw_batch_started := False \<rparr>), em)))))))"

definition op_end_render_pass :: "(usize \<Rightarrow> bool) \<Rightarrow> handler" where
  "op_end_render_pass alloc = (\<lambda>(st, em).
     if st_pass st = None then Err InvalidState
     else
       andThen (if st_draw_batch_started st then end_draw_batch alloc em else Ok em) (\<lambda>em.
       Ok (clear_bindings (st \<lparr> st_pass := None, st_draw_batch_started := False \<rparr>), em)))"

definition op_set_pipeline :: "CompileInput \<Rightarrow> u32 \<Rightarrow> handler" where
  "op_set_pipeline inp i = (\<lambda>(st, em).
     andThen (require_inside_pass st) (\<lambda>_.
     andThen (find_pipeline (ci_pipelines inp) i) (\<lambda>p. Ok (st \<lparr> st_pipeline := Some p \<rparr>, em))))"

definition op_set_vertex_buffer :: "Sgfx \<Rightarrow> CompileInput \<Rightarrow> u32 \<Rightarrow> u64 \<Rightarrow> handler" where
  "op_set_vertex_buffer S inp buffer off = (\<lambda>(st, em).
     andThen (require_inside_pass st) (\<lambda>_.
     andThen (find_resource (ci_resources inp) buffer) (\<lambda>r.
     andThen (require_buffer_usage S r (BUF_VERTEX S)) (\<lambda>_.
     if off \<ge> rm_size r then Err OutOfBounds
     else Ok (st \<lparr> st_vertex := Some \<lparr> bb_object = buffer, bb_offset = off \<rparr> \<rparr>, em)))))"

definition op_set_index_buffer :: "Sgfx \<Rightarrow> CompileInput \<Rightarrow> u32 \<Rightarrow> u64 \<Rightarrow> IndexFormat \<Rightarrow> handler" where
  "op_set_index_buffer S inp buffer off fmt = (\<lambda>(st, em).
     andThen (require_inside_pass st) (\<lambda>_.
     andThen (find_resource (ci_resources inp) buffer) (\<lambda>r.
     andThen (require_buffer_usage S r (BUF_INDEX S)) (\<lambda>_.
     if off \<ge> rm_size r then Err OutOfBounds
     else andThen (u64_rem off (index_byte_size S fmt)) (\<lambda>rest.
       if rest \<noteq> 0 then Err OutOfBounds
       else Ok (st \<lparr> st_index := Some \<lparr> ib_object = buffer, ib_offset = off, ib_format = fmt \<rparr> \<rparr>, em))))))"

definition op_set_texture :: "Sgfx \<Rightarrow> CompileInput \<Rightarrow> u32 \<Rightarrow> handler" where
  "op_set_texture S inp texture = (\<lambda>(st, em).
     andThen (require_inside_pass st) (\<lambda>_.
     andThen (find_resource (ci_resources inp) texture) (\<lambda>r.
     andThen (require_image_surface S r (TEX_SAMPLED S) (max_linear_pitch (ci_capabilities inp))) (\<lambda>_.
     Ok (st \<lparr> st_texture := Some texture \<rparr>, em)))))"

definition op_set_sampler :: "SamplerDesc \<Rightarrow> handler" where
  "op_set_sampler sampler = (\<lambda>(st, em).
     andThen (require_inside_pass st) (\<lambda>_. Ok (st \<lparr> st_sampler := Some sampler \<rparr>, em)))"

definition op_set_uniforms :: "DrawUniforms \<Rightarrow> handler" where
  "op_set_uniforms uniforms = (\<lambda>(st, em).
     andThen (require_inside_pass st) (\<lambda>_. Ok (st \<lparr> st_uniforms := Some uniforms \<rparr>, em)))"

definition op_set_viewport :: "Sgfx \<Rightarrow> CompileInput \<Rightarrow> Viewport \<Rightarrow> handler" where
  "op_set_viewport S inp viewport = (\<lambda>(st, em).
     andThen (require_inside_pass st) (\<lambda>pass.
     andThen (find_resource (ci_resources inp) (ps_target pass)) (\<lambda>r.
     andThen (require_target_surface S r (TEX_RENDER_ATTACHMENT S)
       (max_linear_pitch (ci_capabilities inp))) (\<lambda>target.
     andThen (ok_or (extent_new S (sf_width target) (sf_height target)) InvalidResource) (\<lambda>extent.
     if \<not> viewport_within S viewport extent then Err OutOfBounds
     else Ok (st \<lparr> st_viewport := Some viewport \<rparr>, em))))))"

definition op_set_scissor :: "PixelRect option \<Rightarrow> handler" where
  "op_set_scissor scissor = (\<lambda>(st, em).
     andThen (require_inside_pass st) (\<lambda>pass.
     if is_some_and scissor (\<lambda>r. \<not> rect_within r (ps_area pass)) then Err OutOfBounds
     else Ok (st \<lparr> st_scissor := scissor \<rparr>, em)))"

definition op_draw :: "Sgfx \<Rightarrow> (usize \<Rightarrow> bool) \<Rightarrow> CompileInput \<Rightarrow> u32 \<Rightarrow> u32 \<Rightarrow> handler" where
  "op_draw S alloc inp n fv = (\<lambda>cs.
     andThen (begin_draw_batch_if_needed alloc cs) (\<lambda>(st, em).
     emit_with st (emit_draw S alloc inp st (NonIndexed fv n) em)))"

definition op_draw_indexed :: "Sgfx \<Rightarrow> (usize \<Rightarrow> bool) \<Rightarrow> CompileInput \<Rightarrow> u32 \<Rightarrow> u32 \<Rightarrow> i32 \<Rightarrow> handler" where
  "op_draw_indexed S alloc inp index_count first_index base_vertex = (\<lambda>cs.
     andThen (begin_draw_batch_if_needed alloc cs) (\<lambda>(st, em).
     emit_with st (emit_draw_indexed S alloc inp st index_count first_index base_vertex em)))"

fun operate :: "Sgfx \<Rightarrow> (usize \<Rightarrow> bool) \<Rightarrow> CompileInput \<Rightarrow> Operation \<Rightarrow> handler" where
  "operate S alloc inp (WriteBuffer destination off bs) = op_write_buffer S alloc inp destination off bs"
| "operate S alloc inp (WriteTexture destination area bytes_per_row bs) =
     op_write_texture S alloc inp destination area bytes_per_row bs"
| "operate S alloc inp (CopyTextureToTexture source source_rect destination destination_rect) =
     op_copy_texture S alloc inp source source_rect destination destination_rect"
| "operate S alloc inp (BlitTexture source source_rect destination destination_rect filt flips) =
     op_blit_texture S alloc inp source source_rect destination destination_rect filt flips"
| "operate S alloc inp (BeginRenderPass pass) = op_begin_render_pass S alloc inp pass"
| "operate S alloc inp EndRenderPass = op_end_render_pass alloc"
| "operate S alloc inp (SetPipeline i) = op_set_pipeline inp i"
| "operate S alloc inp (SetVertexBuffer buffer off) = op_set_vertex_buffer S inp buffer off"
| "operate S alloc inp (SetIndexBuffer buffer off fmt) = op_set_index_buffer S inp buffer off fmt"
| "operate S alloc inp (SetTexture texture) = op_set_texture S inp texture"
| "operate S alloc inp (SetSampler sampler) = op_set_sampler sampler"
| "operate S alloc inp (SetUniforms uniforms) = op_set_uniforms uniforms"
| "operate S alloc inp (SetScissor scissor) = op_set_scissor scissor"
| "operate S alloc inp (SetViewport viewport) = op_set_viewport S inp viewport"
| "operate S alloc inp (DrawOp n fv) = op_draw S alloc inp n fv"
| "operate S alloc inp (DrawIndexedOp index_count first_index base_vertex) =
     op_draw_indexed S alloc inp index_count first_index base_vertex"

definition compile :: "Sgfx \<Rightarrow> (usize \<Rightarrow> bool) \<Rightarrow> CompileInput \<Rightarrow> (CompileError, RelocatablePm4) outcome" where
  "compile S alloc inp =
     andThen (validate_tables S inp) (\<lambda>_.
     andThen (foldM (\<lambda>cs op. operate S alloc inp op cs)
       (state_new, emitter_new (max_pm4_words (ci_capabilities inp))) (ci_operations inp)) (\<lambda>(st, em).
     if st_pass st \<noteq> None then Err InvalidState else emit_finish alloc em))"

end
