(* ===== verification/Compile_Rules.thy ===== *)
theory Compile_Rules
  imports Emit_Confined Compiler
begin

text \<open>
  Correctness of the command compiler: which resources a compiled stream reaches, that it is the
  result of a run of the emitter, that \<open>compile\<close> does not panic, and the protocol of render passes its
  input has to follow.
\<close>

section \<open>Authorised accesses\<close>

text \<open>The accesses a resource was created for.\<close>

definition authorised :: "Sgfx \<Rightarrow> ResourceMeta \<Rightarrow> Access \<Rightarrow> bool" where
  "authorised S r acc \<longleftrightarrow>
     (case rm_kind r of
        BufferKind usage \<Rightarrow>
          acc = ACC_READ \<and> (usage_contains S usage (BUF_VERTEX S) \<or> usage_contains S usage (BUF_INDEX S)) \<or>
          acc = ACC_WRITE \<and> usage_contains S usage (BUF_COPY_DST S)
      | ImageKind im \<Rightarrow>
          acc = ACC_READ \<and> (usage_contains S (im_usage im) (TEX_COPY_SRC S) \<or> usage_contains S (im_usage im) (TEX_SAMPLED S)) \<or>
          acc = ACC_WRITE \<and> (usage_contains S (im_usage im) (TEX_COPY_DST S) \<or> usage_contains S (im_usage im) (TEX_RENDER_ATTACHMENT S)) \<or>
          acc = ACC_READ OR ACC_WRITE \<and> usage_contains S (im_usage im) (TEX_RENDER_ATTACHMENT S))"

definition limits :: "Sgfx \<Rightarrow> ResourceMeta list \<Rightarrow> limit" where
  "limits S rs e acc =
     (case find (\<lambda>r. rm_id r = e) rs of
        None \<Rightarrow> None
      | Some r \<Rightarrow> if authorised S r acc then Some (unat (rm_size r)) else None)"

text \<open>The sizes of the portable formats and indices.\<close>

definition sgfx_sizes :: "Sgfx \<Rightarrow> bool" where
  "sgfx_sizes S \<longleftrightarrow> bytes_per_pixel S Bgra8Unorm = Some 4 \<and> bytes_per_pixel S Rgba8Unorm = Some 4 \<and>
     bytes_per_pixel S R8Unorm = Some 1 \<and> index_byte_size S Uint16 = 2 \<and> index_byte_size S Uint32 = 4"

lemma find_resourceD:
  assumes "find_resource rs i = Ok r"
  shows "find (\<lambda>r. rm_id r = i) rs = Some r" and "rm_id r = i" and "r \<in> set rs"
proof -
  show f: "find (\<lambda>r. rm_id r = i) rs = Some r"
    using assms by (simp add: find_resource_def ok_or_eq_Ok)
  show "rm_id r = i" using f by (auto simp: find_Some_iff)
  show "r \<in> set rs" using f by (auto simp: find_Some_iff)
qed

lemma permits_resource:
  assumes "find_resource rs i = Ok r" and "authorised S r acc" and "unat off + unat sz \<le> unat (rm_size r)"
  shows "permits (limits S rs) (External i) off sz acc"
  using assms(2,3) find_resourceD(1) [OF assms(1)] by (simp add: limits_def)

lemma permits_declared:
  assumes "permits (limits S rs) (External i) off sz acc"
  shows "\<exists>r \<in> set rs. rm_id r = i \<and> unat off + unat sz \<le> unat (rm_size r) \<and> authorised S r acc"
proof -
  obtain r where "find (\<lambda>r. rm_id r = i) rs = Some r" "authorised S r acc" "unat off + unat sz \<le> unat (rm_size r)"
    using assms by (auto simp: limits_def split: option.splits if_splits)
  then show ?thesis by (auto simp: find_Some_iff)
qed

section \<open>Layouts and surfaces\<close>

lemma if_Err_eq_Ok: "(if c then Err e else m) = Ok x \<longleftrightarrow> \<not> c \<and> m = Ok x"
  by simp

lemma is_none_or_False: "\<not> is_none_or v p \<longleftrightarrow> (\<exists>x. v = Some x \<and> \<not> p x)"
  by (cases v) (simp_all add: is_none_or_def)

lemma nv12_planeD:
  assumes "nv12_plane_ok n im mp i p"
  shows "unat (pl_offset p) + unat (pl_size p) \<le> unat n"
proof -
  obtain e where "checked_add (pl_offset p) (pl_size p) = Some e" "e \<le> n"
    using assms by (auto simp: nv12_plane_ok_def Let_def is_none_or_False)
  then show ?thesis using checked_add_SomeD(1) by (fastforce simp: word_le_nat_alt)
qed

lemma validate_nv12D:
  assumes "validate_nv12 S n im mp = Ok ()"
  shows "length (im_planes im) = 2" and "p \<in> set (im_planes im) \<Longrightarrow> unat (pl_offset p) + unat (pl_size p) \<le> unat n"
proof -
  have all: "list_all (\<lambda>(i, p). nv12_plane_ok n im mp i p) (enumerate 0 (im_planes im))"
    and len: "length (im_planes im) = 2"
    using assms by (auto simp: validate_nv12_def split: if_splits)
  show "length (im_planes im) = 2" by (rule len)
  assume "p \<in> set (im_planes im)"
  then obtain i where "i < length (im_planes im)" "p = im_planes im ! i" by (auto simp: in_set_conv_nth)
  then have "(i, p) \<in> set (enumerate 0 (im_planes im))" by (simp add: in_set_enumerate_eq)
  then show "unat (pl_offset p) + unat (pl_size p) \<le> unat n"
    using all by (auto simp: list_all_iff intro!: nv12_planeD)
qed

lemma validate_image_layoutD:
  assumes "validate_image_layout S n im mp = Ok ()" and "im_format im \<noteq> Nv12"
  obtains p bpp row_bytes required where "im_planes im = [p]" "bytes_per_pixel S (im_storage_format im) = Some bpp"
    "checked_mul (im_width im) bpp = Some row_bytes" "required_plane_size im p row_bytes mp = Ok required"
    "unat required \<le> unat (pl_size p)" "unat (pl_offset p) + unat (pl_size p) \<le> unat n"
proof -
  have len: "length (im_planes im) = 1" using assms by (auto simp: validate_image_layout_def split: if_splits)
  then obtain p where p: "im_planes im = [p]" by (cases "im_planes im") auto
  have ix: "index (im_planes im) 0 = Ok p" by (simp add: p index_def)
  obtain bpp row_bytes required e where r: "bytes_per_pixel S (im_storage_format im) = Some bpp"
    "checked_mul (im_width im) bpp = Some row_bytes" "required_plane_size im p row_bytes mp = Ok required"
    "checked_add (pl_offset p) (pl_size p) = Some e" "\<not> pl_size p < required" "\<not> e > n"
    using assms(1)
    unfolding validate_image_layout_def if_not_P [OF assms(2)] if_Err_eq_Ok ix andThen_eq_Ok ok_or_eq_Ok de_Morgan_disj
    by (elim exE conjE) (rule that, simp_all only: outcome.inject)
  show ?thesis
    by (rule that [OF p r(1-3)]) (use r(5,6) checked_add_SomeD(1) [OF r(4)] in \<open>auto simp: word_le_nat_alt not_less\<close>)
qed

lemma layout_plane:
  assumes "validate_image_layout S n im mp = Ok ()" and "p \<in> set (im_planes im)"
  shows "unat (pl_offset p) + unat (pl_size p) \<le> unat n"
proof (cases "im_format im = Nv12")
  case True
  then have "validate_nv12 S n im mp = Ok ()" using assms(1) by (simp add: validate_image_layout_def)
  from validate_nv12D(2) [OF this assms(2)] show ?thesis .
next
  case False
  obtain q where "im_planes im = [q]" "unat (pl_offset q) + unat (pl_size q) \<le> unat n"
    by (rule validate_image_layoutD [OF assms(1) False])
  then show ?thesis using assms(2) by simp
qed

lemma index_Ok: "index xs i = Ok x \<Longrightarrow> x \<in> set xs"
  by (auto simp: index_def split: if_splits)

lemma require_image_surfaceD:
  assumes "require_image_surface S r required mp = Ok s"
  obtains im p where "rm_kind r = ImageKind im" "usage_contains S (im_usage im) required"
    "validate_image_layout S (rm_size r) im mp = Ok ()" "index (im_planes im) 0 = (Ok p :: (CompileError, _) outcome)"
    "sf_object s = rm_id r" "sf_plane_offset s = pl_offset p" "sf_plane_size s = pl_size p"
    "sf_width s = im_width im" "sf_height s = im_height im" "sf_stride s = pl_stride p"
    "\<forall>nv12. sf_nv12 s = Some nv12 \<longrightarrow> (\<exists>uv \<in> set (im_planes im). uv_offset nv12 = pl_offset uv \<and> uv_size nv12 = pl_size uv)"
proof (cases "rm_kind r")
  case (BufferKind u)
  then show ?thesis using assms by (simp add: require_image_surface_def)
next
  case (ImageKind im)
  let ?nv = "case im_conversion im of
                None \<Rightarrow> Ok None
              | Some conversion \<Rightarrow> andThen (index (im_planes im) 1) (\<lambda>uv.
                  Ok (Some \<lparr> nv_conversion = conversion, uv_offset = pl_offset uv, uv_size = pl_size uv \<rparr>))"
  have use: "usage_contains S (im_usage im) required"
    using assms by (cases "usage_contains S (im_usage im) required") (simp_all add: require_image_surface_def ImageKind)
  obtain p nv where r: "validate_image_layout S (rm_size r) im mp = Ok ()"
    "index (im_planes im) 0 = (Ok p :: (CompileError, _) outcome)" "?nv = (Ok nv :: (CompileError, _) outcome)"
    and s: "s = \<lparr> sf_nv12 = nv,
                 sf_mip_levels = (case im_texture im of None \<Rightarrow> 1 | Some t \<Rightarrow> mip_levels t),
                 sf_array_pitch = (case im_texture im of None \<Rightarrow> pl_size p | Some t \<Rightarrow> ucast (layer_stride t)),
                 sf_object = rm_id r, sf_plane_offset = pl_offset p, sf_plane_size = pl_size p,
                 sf_width = im_width im, sf_height = im_height im, sf_stride = pl_stride p,
                 sf_tile_mode = (if im_modifier im = A6xxTile6_3Color then TILE_MODE_3 else 0),
                 sf_alpha_mask = (im_format im = R8Unorm) \<rparr>"
    using assms unfolding require_image_surface_def ImageKind ResourceKind.case if_Err_eq_Ok andThen_eq_Ok
    by (elim exE conjE) (rule that, simp, assumption, assumption, simp only: outcome.inject)
  have "\<exists>uv \<in> set (im_planes im). uv_offset nv12 = pl_offset uv \<and> uv_size nv12 = pl_size uv"
    if "sf_nv12 s = Some nv12" for nv12
    using r(3) that unfolding s by (auto simp: andThen_eq_Ok split: option.splits dest: index_Ok)
  then show ?thesis by (intro that [OF ImageKind use r(1,2)]) (simp_all add: s)
qed


lemma surface_withinI:
  assumes "find_resource rs i = Ok r" and "require_image_surface S r required mp = Ok s" and "authorised S r acc"
  shows "surface_within (limits S rs) acc s"
proof -
  from assms(2) obtain im p where im: "validate_image_layout S (rm_size r) im mp = Ok ()"
      "index (im_planes im) 0 = (Ok p :: (CompileError, _) outcome)" and obj: "sf_object s = rm_id r"
    and pl: "sf_plane_offset s = pl_offset p" "sf_plane_size s = pl_size p"
    and uv: "\<forall>nv12. sf_nv12 s = Some nv12 \<longrightarrow>
      (\<exists>uv \<in> set (im_planes im). uv_offset nv12 = pl_offset uv \<and> uv_size nv12 = pl_size uv)"
    by (rule require_image_surfaceD)
  note within = layout_plane [OF im(1)]
  note permits = permits_resource [OF assms(1,3)]
  have i: "sf_object s = i" using obj find_resourceD(2) [OF assms(1)] by simp
  show ?thesis
    unfolding surface_within_def i pl
    by (intro conjI allI impI permits within [OF index_Ok [OF im(2)]])
      (use uv within in fastforce)
qed

lemma image_source_within:
  assumes "find_resource rs i = Ok r" and "require_image_surface S r required mp = Ok s"
    and "required \<in> {TEX_COPY_SRC S, TEX_SAMPLED S}"
  shows "surface_within (limits S rs) ACC_READ s"
proof (rule surface_withinI [OF assms(1,2)])
  from assms(2) obtain im where "rm_kind r = ImageKind im" "usage_contains S (im_usage im) required"
    by (rule require_image_surfaceD)
  then show "authorised S r ACC_READ" using assms(3) by (auto simp: authorised_def)
qed

lemma image_target_within:
  assumes "find_resource rs i = Ok r" and "require_image_surface S r required mp = Ok s"
    and "required \<in> {TEX_COPY_DST S, TEX_RENDER_ATTACHMENT S}"
  shows "surface_within (limits S rs) ACC_WRITE s"
proof (rule surface_withinI [OF assms(1,2)])
  from assms(2) obtain im where "rm_kind r = ImageKind im" "usage_contains S (im_usage im) required"
    by (rule require_image_surfaceD)
  then show "authorised S r ACC_WRITE" using assms(3) by (auto simp: authorised_def)
qed

lemma target_surface_image:
  "require_target_surface S r required mp = Ok s \<Longrightarrow> require_image_surface S r required mp = Ok s"
  by (auto simp: require_target_surface_def split: ResourceKind.splits if_splits)

lemma depth_surface_within:
  assumes "find_resource rs i = Ok r" and "require_depth_surface S r w h mp = Ok s"
    and "acc \<in> {ACC_WRITE, ACC_READ OR ACC_WRITE}"
  shows "surface_within (limits S rs) acc s"
proof (cases "rm_kind r")
  case (BufferKind u)
  then show ?thesis using assms(2) by (simp add: require_depth_surface_def)
next
  case (ImageKind im)
  obtain p where p: "usage_contains S (im_usage im) (TEX_RENDER_ATTACHMENT S)"
    "validate_image_layout S (rm_size r) im mp = Ok ()" "index (im_planes im) 0 = (Ok p :: (CompileError, _) outcome)"
    "sf_object s = rm_id r" "sf_plane_offset s = pl_offset p" "sf_plane_size s = pl_size p" "sf_nv12 s = None"
    using assms(2) unfolding require_depth_surface_def ImageKind ResourceKind.case if_Err_eq_Ok andThen_eq_Ok de_Morgan_disj
    by (elim exE conjE) (rule that, auto)
  have "authorised S r acc" using p(1) assms(3) ImageKind by (auto simp: authorised_def)
  then show ?thesis
    using permits_resource [OF assms(1) _ layout_plane [OF p(2) index_Ok [OF p(3)]]] find_resourceD(2) [OF assms(1)] p(4-7)
    by (simp add: surface_within_def del: permits.simps)
qed

section \<open>Uploads\<close>

text \<open>Every row of an image lies in its plane.\<close>

lemma required_plane_size_rows:
  assumes "required_plane_size im p row_bytes mp = Ok required" and "unat row_bytes = 4 * unat (im_width im)"
    and "y < unat (im_height im)"
  shows "y * unat (pl_stride p) + 4 * unat (im_width im) \<le> unat required"
proof (cases "im_modifier im = LinearImage")
  case True
  then have st: "row_bytes \<le> pl_stride p" and
    req: "Option.bind (checked_mul (ucast (pl_stride p)) (ucast (im_height im - 1)))
       (\<lambda>n. checked_add n (ucast row_bytes)) = Some required"
    using assms(1) by (auto simp: required_plane_size_def ok_or_eq_Ok split: if_splits)
  from req obtain n where n: "checked_mul (ucast (pl_stride p)) (ucast (im_height im - 1)) = Some n"
    "checked_add n (ucast row_bytes) = Some required" by (auto simp: bind_eq_Some_conv)
  have "unat n = unat (pl_stride p) * unat (im_height im - 1)"
    using checked_mul_SomeD(1) [OF n(1)] by (simp add: unat_ucast_up)
  moreover have "unat (im_height im - 1) = unat (im_height im) - 1"
    using assms(3) by (simp add: unat_sub word_le_nat_alt unat_gt_0)
  moreover have "unat required = unat n + unat row_bytes"
    using checked_add_SomeD(1) [OF n(2)] by (simp add: unat_ucast_up)
  moreover have "y * unat (pl_stride p) \<le> (unat (im_height im) - 1) * unat (pl_stride p)"
    using assms(3) by (intro mult_le_mono1) simp
  ultimately show ?thesis using assms(2) by (simp add: mult.commute)
next
  case False
  then obtain layout where l: "depth32_tile6_3_layout (im_width im) (im_height im) = Some layout"
    "pl_stride p = d32_row_pitch layout" "required = d32_layer_size layout"
    using assms(1) by (cases "im_modifier im") (auto simp: required_plane_size_def Let_def andThen_eq_Ok ok_or_eq_Ok split: if_splits)
  note d = depth32_layoutD [OF l(1)]
  have "4 * unat (im_width im) \<le> unat (d32_row_pitch layout)" "unat (im_height im) \<le> unat (d32_padded_height layout)"
    "unat (d32_row_pitch layout) * unat (d32_padded_height layout) \<le> unat (d32_layer_size layout)"
    using d(1-3) round_up_bounds(1) by (simp_all add: round_up_def)
  moreover have "Suc y * unat (d32_row_pitch layout) \<le> unat (d32_padded_height layout) * unat (d32_row_pitch layout)"
    using assms(3) calculation(2) by (intro mult_le_mono1) simp
  ultimately show ?thesis by (simp add: l(2,3) mult.commute)
qed


lemma length_swizzle_rgba: "length (swizzle_rgba bs) = 4 * (length bs div 4)"
  by (induction bs rule: swizzle_rgba.induct) (simp_all add: div_add_self1)

lemma length_alpha_pixels: "length (concat (map (\<lambda>alpha. [0, 0, 0, alpha :: u8]) bs)) = 4 * length bs"
  by (induction bs) simp_all

lemma convert_row_length:
  assumes "sgfx_sizes S" and "bytes_per_pixel S fmt = Some bpp" and "length source = w * unat bpp"
    and "convert_row fmt source = Ok px"
  shows "length px = 4 * w"
  using assms by (cases fmt) (auto simp: convert_row_def sgfx_sizes_def length_swizzle_rgba length_alpha_pixels)

lemma convert_rows_length:
  assumes row: "\<And>source px. length source = unat row_size \<Longrightarrow> convert_row fmt source = Ok px \<Longrightarrow> length px = n"
    and "convert_rows fmt bs bytes_per_row row_size height = Ok px"
  shows "length px = unat height * n"
proof -
  let ?step = "\<lambda>pixels row. andThen (slice bs (row * unat bytes_per_row) (row * unat bytes_per_row + unat row_size))
    (\<lambda>source. andThen (convert_row fmt source) (\<lambda>px. Ok (pixels @ px)))"
  have "length px = length acc + length rows * n"
    if "foldM ?step acc rows = Ok px" for rows acc
    using that
  proof (induction rows arbitrary: acc)
    case (Cons i rows)
    obtain source y where y: "slice bs (i * unat bytes_per_row) (i * unat bytes_per_row + unat row_size) =
        (Ok source :: (CompileError, _) outcome)"
      "convert_row fmt source = Ok y" "foldM ?step (acc @ y) rows = Ok px"
      using Cons.prems by (auto simp: andThen_eq_Ok)
    have "length source = unat row_size" using y(1) by (auto simp: slice_def split: if_splits)
    from row [OF this y(2)] Cons.IH [OF y(3)] show ?case by simp
  qed simp
  from this [of "[]"] assms(2) show ?thesis by (simp add: convert_rows_def)
qed

lemma validate_rectD:
  assumes "validate_rect r s = Ok ()"
  shows "unat (rect_x r) + unat (rect_width r) \<le> unat (sf_width s)"
    and "unat (rect_y r) + unat (rect_height r) \<le> unat (sf_height s)"
proof -
  obtain a b where "checked_add (rect_x r) (rect_width r) = Some a" "a \<le> sf_width s"
    "checked_add (rect_y r) (rect_height r) = Some b" "b \<le> sf_height s"
    using assms by (auto simp: validate_rect_def is_none_or_False not_less split: if_splits)
  then show "unat (rect_x r) + unat (rect_width r) \<le> unat (sf_width s)"
    and "unat (rect_y r) + unat (rect_height r) \<le> unat (sf_height s)"
    using checked_add_SomeD(1) by (fastforce simp: word_le_nat_alt)+
qed

lemma unat_ucast_product:
  "unat (ucast (a :: u32) * ucast (b :: u32) :: u64) = unat a * unat b"
proof -
  have "unat a * unat b < 2 ^ 32 * 2 ^ 32"
    using unsigned_less [of a, where ?'a = nat] unsigned_less [of b, where ?'a = nat]
    by (intro mult_strict_mono) simp_all
  then show ?thesis by (simp add: unat_word_ariths unat_ucast_up)
qed

text \<open>The bytes of the rows of an area, from the offset the upload starts at.\<close>

lemma area_rows_in_plane:
  assumes "required_plane_size im p row_bytes mp = Ok required" and "unat row_bytes = 4 * unat (im_width im)"
    and "x + w \<le> unat (im_width im)" and "y + h \<le> unat (im_height im)" and "i < h"
  shows "y * unat (pl_stride p) + 4 * x + i * unat (pl_stride p) + 4 * w \<le> unat required"
proof -
  have "(y + i) * unat (pl_stride p) + 4 * unat (im_width im) \<le> unat required"
    using assms(4,5) by (intro required_plane_size_rows [OF assms(1,2)]) simp
  then show ?thesis using assms(3) by (simp add: add_mult_distrib)
qed

lemma emit_texture_uploadD:
  assumes "emit_texture_upload S alloc rs d area bytes_per_row bs mp em = Ok em'"
  obtains r s im p bpp row_size row_bytes px off where
    "find_resource rs d = Ok r" "require_image_surface S r (TEX_COPY_DST S) mp = Ok s" "validate_rect area s = Ok ()"
    "rm_kind r = ImageKind im" "usage_contains S (im_usage im) (TEX_COPY_DST S)"
    "validate_image_layout S (rm_size r) im mp = Ok ()" "index (im_planes im) 0 = (Ok p :: (CompileError, _) outcome)"
    "sf_plane_offset s = pl_offset p" "sf_width s = im_width im" "sf_height s = im_height im" "sf_stride s = pl_stride p"
    "bytes_per_pixel S (im_format im) = Some bpp"
    "checked_mul (rect_width area) bpp = Some row_size" "usize_checked_mul (unat (rect_width area)) 4 = Some row_bytes"
    "im_storage_format im = Bgra8Unorm"
    "convert_rows (im_format im) bs bytes_per_row row_size (rect_height area) = Ok px"
    "Option.bind (checked_add (sf_plane_offset s) (ucast (rect_y area) * ucast (sf_stride s)))
       (\<lambda>off. checked_add off (ucast (rect_x area) * 4)) = Some off"
    "upload_rows alloc d off (sf_stride s) row_bytes px em = Ok em'"
proof -
  from assms obtain r s where r: "find_resource rs d = Ok r" "require_image_surface S r (TEX_COPY_DST S) mp = Ok s"
    "validate_rect area s = Ok ()"
    by (auto simp: emit_texture_upload_def andThen_eq_Ok)
  from r(2) obtain im p where im: "rm_kind r = ImageKind im" "usage_contains S (im_usage im) (TEX_COPY_DST S)"
    "validate_image_layout S (rm_size r) im mp = Ok ()" "index (im_planes im) 0 = (Ok p :: (CompileError, _) outcome)"
    "sf_plane_offset s = pl_offset p" "sf_width s = im_width im" "sf_height s = im_height im" "sf_stride s = pl_stride p"
    by (rule require_image_surfaceD)
  show ?thesis
    using assms unfolding emit_texture_upload_def r(1,2,3) andThen.simps im(1) ResourceKind.case
      if_Err_eq_Ok andThen_eq_Ok ok_or_eq_Ok not_not
    by (elim exE conjE) (rule that [OF r im], assumption+)
qed

lemma emit_texture_upload_keeps:
  assumes sizes: "sgfx_sizes S"
  shows "keeps (limits S rs) (emit_texture_upload S alloc rs d area bytes_per_row bs mp)"
proof (rule keepsI)
  fix em em'
  assume em: "within (limits S rs) em" and run: "emit_texture_upload S alloc rs d area bytes_per_row bs mp em = Ok em'"
  from run obtain r s im p bpp row_size row_bytes px off where
    r: "find_resource rs d = Ok r" "require_image_surface S r (TEX_COPY_DST S) mp = Ok s" "validate_rect area s = Ok ()"
    and im: "rm_kind r = ImageKind im" "usage_contains S (im_usage im) (TEX_COPY_DST S)"
    "validate_image_layout S (rm_size r) im mp = Ok ()" "index (im_planes im) 0 = (Ok p :: (CompileError, _) outcome)"
    "sf_plane_offset s = pl_offset p" "sf_width s = im_width im" "sf_height s = im_height im" "sf_stride s = pl_stride p"
    and u: "bytes_per_pixel S (im_format im) = Some bpp"
    "checked_mul (rect_width area) bpp = Some row_size" "usize_checked_mul (unat (rect_width area)) 4 = Some row_bytes"
    "im_storage_format im = Bgra8Unorm"
    "convert_rows (im_format im) bs bytes_per_row row_size (rect_height area) = Ok px"
    "Option.bind (checked_add (sf_plane_offset s) (ucast (rect_y area) * ucast (sf_stride s)))
       (\<lambda>off. checked_add off (ucast (rect_x area) * 4)) = Some off"
    "upload_rows alloc d off (sf_stride s) row_bytes px em = Ok em'"
    by (rule emit_texture_uploadD)
  have "im_format im \<noteq> Nv12"
    using im(3) u(4) by (auto simp: validate_image_layout_def validate_nv12_def)
  then obtain p' bpp' rb required where l: "im_planes im = [p']" "bytes_per_pixel S (im_storage_format im) = Some bpp'"
    "checked_mul (im_width im) bpp' = Some rb" "required_plane_size im p' rb mp = Ok required"
    "unat required \<le> unat (pl_size p')" "unat (pl_offset p') + unat (pl_size p') \<le> unat (rm_size r)"
    by (rule validate_image_layoutD [OF im(3)])
  have p: "p' = p" using im(4) l(1) by (simp add: index_def)
  have rb: "unat rb = 4 * unat (im_width im)"
    using checked_mul_SomeD(1) [OF l(3)] l(2) u(4) sizes by (auto simp: sgfx_sizes_def)
  have row: "row_bytes = 4 * unat (rect_width area)" using u(3) by (simp add: usize_checked_mul_def split: if_splits)
  have "length px = unat (rect_height area) * (4 * unat (rect_width area))"
    by (rule convert_rows_length [OF convert_row_length [OF sizes u(1)] u(5)])
      (simp_all add: checked_mul_SomeD(1) [OF u(2)])
  then have rows: "length px div row_bytes \<le> unat (rect_height area)" by (simp add: row)
  have off: "unat off = unat (pl_offset p) + unat (rect_y area) * unat (pl_stride p) + 4 * unat (rect_x area)"
    using u(6) unat_ucast_product [of "rect_x area" 4] unfolding im(5,8)
    by (auto simp: bind_eq_Some_conv unat_ucast_product dest!: checked_add_SomeD(1))
  have "unat off + i * unat (sf_stride s) + row_bytes \<le> unat (rm_size r)" if "i < length px div row_bytes" for i
    using area_rows_in_plane [OF l(4) rb, of "unat (rect_x area)" "unat (rect_width area)" "unat (rect_y area)"
        "unat (rect_height area)" i] validate_rectD [OF r(3)] that rows l(5,6)
    unfolding off row p im(6-8) by simp
  moreover have "limits S rs d ACC_WRITE = Some (unat (rm_size r))"
    using find_resourceD(1) [OF r(1)] im(1,2) by (simp add: limits_def authorised_def)
  ultimately have "keeps (limits S rs) (upload_rows alloc d off (sf_stride s) row_bytes px)"
    by (intro upload_rows_keeps)
  from keepsD [OF this em u(7)] show "within (limits S rs) em'" .
qed


section \<open>Draws\<close>

lemma require_buffer_usageD:
  assumes "require_buffer_usage S r required = Ok ()"
  obtains usage where "rm_kind r = BufferKind usage" "usage_contains S usage required"
  using assms that by (auto simp: require_buffer_usage_def split: ResourceKind.splits if_splits)

lemma validate_rangeD:
  assumes "validate_range n off len = Ok ()"
  shows "unat off + unat len \<le> unat n"
proof -
  obtain e where "checked_add off len = Some e" "e \<le> n"
    using assms by (auto simp: validate_range_def is_none_or_False not_less split: if_splits)
  then show ?thesis using checked_add_SomeD(1) by (fastforce simp: word_le_nat_alt)
qed

lemma vertex_range_permitted:
  assumes "find_resource rs i = Ok r" and "require_buffer_usage S r (BUF_VERTEX S) = Ok ()"
    and "unat off + unat sz \<le> unat (rm_size r)"
  shows "permits (limits S rs) (External i) off sz ACC_READ"
proof (rule permits_resource [OF assms(1) _ assms(3)])
  from assms(2) obtain usage where "rm_kind r = BufferKind usage" "usage_contains S usage (BUF_VERTEX S)"
    by (rule require_buffer_usageD)
  then show "authorised S r ACC_READ" by (simp add: authorised_def)
qed

lemma index_range_permitted:
  assumes "find_resource rs i = Ok r" and "require_buffer_usage S r (BUF_INDEX S) = Ok ()"
    and "unat off + unat sz \<le> unat (rm_size r)"
  shows "permits (limits S rs) (External i) off sz ACC_READ"
proof (rule permits_resource [OF assms(1) _ assms(3)])
  from assms(2) obtain usage where "rm_kind r = BufferKind usage" "usage_contains S usage (BUF_INDEX S)"
    by (rule require_buffer_usageD)
  then show "authorised S r ACC_READ" by (simp add: authorised_def)
qed

lemma draw_texture_within:
  assumes "draw_texture S inp st d = Ok (Some t)"
  shows "surface_within (limits S (ci_resources inp)) ACC_READ t"
proof -
  obtain i r where "find_resource (ci_resources inp) i = Ok r"
    "require_image_surface S r (TEX_SAMPLED S) (max_linear_pitch (ci_capabilities inp)) = Ok t"
    using assms by (auto simp: draw_texture_def andThen_eq_Ok split: option.splits)
  then show ?thesis by (rule image_source_within) simp
qed

lemma draw_depth_within:
  assumes "draw_depth S inp pass d target = Ok (Some dd)"
  shows "surface_within (limits S (ci_resources inp)) (ACC_READ OR ACC_WRITE) (dd_target dd)"
proof -
  obtain i r where "find_resource (ci_resources inp) i = Ok r"
    "require_depth_surface S r (sf_width target) (sf_height target) (max_linear_pitch (ci_capabilities inp)) = Ok (dd_target dd)"
    using assms by (auto simp: draw_depth_def andThen_eq_Ok split: option.splits if_splits)
  then show ?thesis by (rule depth_surface_within) simp
qed

text \<open>A draw that \<open>emit_draw\<close> hands to the emitter.\<close>

lemma emit_drawD:
  assumes "emit_draw S alloc inp st c em = Ok em'"
  obtains d linear_sampler where "draw alloc d em = Ok em'" "dr_draw d = c"
    "dr_sampler d = sampler_words linear_sampler (st_sampler st) (dr_texture d)"
    "(\<forall>ix. c = Indexed ix \<longrightarrow>
        permits (limits S (ci_resources inp)) (External (ix_index ix)) (ix_index_offset ix) (ix_index_size ix) ACC_READ)
     \<longrightarrow> draw_within (limits S (ci_resources inp)) d"
proof -
  let ?L = "limits S (ci_resources inp)"
  obtain pass pipeline vertex uniforms where st: "require_draw_state st = Ok (pass, pipeline, vertex, uniforms)"
    using assms by (auto simp: emit_draw_def andThen_eq_Ok)
  obtain n k where ext: "draw_extent (pm_descriptor pipeline) c = Ok (n, k)"
    using assms by (auto simp: emit_draw_def st andThen_eq_Ok Let_def)
  let ?d = "\<lambda>target ls fixed texture v depth whole.
    draw_request st pass (pm_descriptor pipeline) vertex uniforms target n ls fixed texture v depth whole c"
  obtain tr target ls vr fixed texture v depth whole where
    r: "find_resource (ci_resources inp) (ps_target pass) = Ok tr"
      "require_target_surface S tr (TEX_RENDER_ATTACHMENT S) (max_linear_pitch (ci_capabilities inp)) = Ok target"
      "find_resource (ci_resources inp) (bb_object vertex) = Ok vr" "require_buffer_usage S vr (BUF_VERTEX S) = Ok ()"
      "validate_range (rm_size vr) (bb_offset vertex) n = Ok ()"
      "draw_texture S inp st (pm_descriptor pipeline) = Ok texture"
      "draw_depth S inp pass (pm_descriptor pipeline) target = Ok depth"
      "draw alloc (?d target ls fixed texture v depth whole) em = Ok em'"
    using assms unfolding emit_draw_def st andThen.simps prod.case ext Let_def if_Err_eq_Ok andThen_eq_Ok split_paired_Ex
    by (elim exE conjE) (rule that, simp_all)
  have target: "surface_within ?L ACC_WRITE target"
    by (rule image_target_within [OF r(1) target_surface_image [OF r(2)]]) simp
  have vertex: "permits ?L (External (bb_object vertex)) (bb_offset vertex) n ACC_READ"
    by (rule vertex_range_permitted [OF r(3,4) validate_rangeD [OF r(5)]])
  have "\<forall>t. texture = Some t \<longrightarrow> surface_within ?L ACC_READ t"
    "\<forall>dd. depth = Some dd \<longrightarrow> surface_within ?L (ACC_READ OR ACC_WRITE) (dd_target dd)"
    using draw_texture_within draw_depth_within r(6,7) by blast+
  then have "draw_within ?L (?d target ls fixed texture v depth whole)"
    if "\<forall>ix. c = Indexed ix \<longrightarrow> permits ?L (External (ix_index ix)) (ix_index_offset ix) (ix_index_size ix) ACC_READ"
    using target vertex that by (simp add: draw_within_def draw_request_def del: permits.simps)
  with r(8) show ?thesis by (intro that [of "?d target ls fixed texture v depth whole" ls]) (simp_all add: draw_request_def)
qed

lemma length_sampler_words [simp]: "length (sampler_words linear s t) = 4"
  by (simp add: sampler_words_def Let_def SAMPLER_CLAMP_LINEAR_def SAMPLER_CLAMP_NEAREST_def split: option.split)


lemma emit_draw_indexedD:
  assumes "emit_draw_indexed S alloc inp st k fi base em = Ok em'"
  obtains ix where "emit_draw S alloc inp st (Indexed ix) em = Ok em'"
    "permits (limits S (ci_resources inp)) (External (ix_index ix)) (ix_index_offset ix) (ix_index_size ix) ACC_READ"
proof -
  obtain pass pipeline vertex uniforms where st: "require_draw_state st = Ok (pass, pipeline, vertex, uniforms)"
    using assms by (auto simp: emit_draw_indexed_def andThen_eq_Ok)
  let ?ix = "\<lambda>(b :: IndexBinding) sz m vs. \<lparr> ix_index = ib_object b, ix_index_offset = ib_offset b, ix_index_size = sz,
    ix_format = ib_format b, ix_index_count = k, ix_first_index = fi, ix_base_vertex = base, ix_max_indices = m,
    ix_vertex_size = vs \<rparr>"
  obtain b :: IndexBinding and ir avail n m sz vs where
    r: "find_resource (ci_resources inp) (ib_object b) = Ok ir" "require_buffer_usage S ir (BUF_INDEX S) = Ok ()"
      "checked_sub (rm_size ir) (ib_offset b) = Some avail" "u64_div avail (index_byte_size S (ib_format b)) = Ok n"
      "(if unat n < 2 ^ 32 then Ok (ucast n :: u32) else Err OutOfBounds) = Ok m"
      "checked_mul (ucast m) (index_byte_size S (ib_format b)) = Some sz"
    and draw: "emit_draw S alloc inp st (Indexed (?ix b sz m vs)) em = Ok em'"
    using assms unfolding emit_draw_indexed_def st andThen.simps prod.case Let_def if_Err_eq_Ok andThen_eq_Ok ok_or_eq_Ok
    by (elim exE conjE) (rule that, (assumption | simp)+)
  have "unat (ucast m :: u64) = unat n" using r(5) by (auto simp: unsigned_ucast_eq take_bit_nat_eq_self split: if_splits)
  then have "unat sz = unat n * unat (index_byte_size S (ib_format b))" using checked_mul_SomeD(1) [OF r(6)] by simp
  also have "\<dots> \<le> unat avail"
    using r(4) by (auto simp: u64_div_def unat_div split: if_splits)
  finally have "unat (ib_offset b) + unat sz \<le> unat (rm_size ir)"
    using checked_sub_SomeD [OF r(3)] by simp
  from that [OF draw] index_range_permitted [OF r(1,2) this] show ?thesis by (simp del: permits.simps)
qed

section \<open>Operations\<close>

text \<open>What a handler does to the emitter: a run of public commands that stays within the limits.\<close>

definition advances :: "Sgfx \<Rightarrow> (usize \<Rightarrow> bool) \<Rightarrow> ResourceMeta list \<Rightarrow> Emitter \<Rightarrow> Emitter \<Rightarrow> bool" where
  "advances S alloc rs em em' \<longleftrightarrow> (\<forall>b. emitter_run alloc b em \<longrightarrow> emitter_run alloc b em') \<and>
     (sgfx_sizes S \<longrightarrow> within (limits S rs) em \<longrightarrow> within (limits S rs) em')"

lemma advances_refl: "advances S alloc rs em em"
  by (simp add: advances_def)

lemma advances_trans: "advances S alloc rs em em1 \<Longrightarrow> advances S alloc rs em1 em2 \<Longrightarrow> advances S alloc rs em em2"
  by (simp add: advances_def)

lemma advances_step:
  assumes "emit_step alloc em em'" and "f em = Ok em'" and "sgfx_sizes S \<Longrightarrow> keeps (limits S rs) f"
  shows "advances S alloc rs em em'"
  unfolding advances_def using run_step [OF _ assms(1)] keepsD [OF assms(3) _ assms(2)] by blast

lemma emit_with_Ok: "emit_with st m = Ok (st', em') \<longleftrightarrow> m = Ok em' \<and> st' = st"
  by (auto simp: emit_with_def andThen_eq_Ok)

lemma emit_draw_advances:
  assumes "emit_draw S alloc inp st c em = Ok em'"
    and "\<forall>ix. c = Indexed ix \<longrightarrow>
      permits (limits S (ci_resources inp)) (External (ix_index ix)) (ix_index_offset ix) (ix_index_size ix) ACC_READ"
  shows "advances S alloc (ci_resources inp) em em'"
proof -
  obtain d ls where d: "draw alloc d em = Ok em'" "dr_sampler d = sampler_words ls (st_sampler st) (dr_texture d)"
    "draw_within (limits S (ci_resources inp)) d"
    using emit_drawD [OF assms(1)] assms(2) by metis
  show ?thesis
    by (rule advances_step [OF step_draw [OF _ d(1)] d(1) draw_keeps [OF d(3)]]) (simp add: d(2))
qed

lemma begin_draw_batch_if_needed_advances:
  assumes "begin_draw_batch_if_needed alloc (st, em) = Ok (st', em')"
  shows "advances S alloc rs em em'"
proof (cases "st_draw_batch_started st")
  case True
  then have "continue_draw_batch em = Ok em'"
    using assms by (auto simp: begin_draw_batch_if_needed_def andThen_eq_Ok)
  from advances_step [OF step_continue [OF this] this continue_draw_batch_keeps] show ?thesis .
next
  case False
  then have "begin_draw_batch alloc em = Ok em'"
    using assms by (auto simp: begin_draw_batch_if_needed_def andThen_eq_Ok)
  from advances_step [OF step_begin [OF this] this begin_draw_batch_keeps] show ?thesis .
qed

lemma op_draws_advance:
  assumes "op_draw S alloc inp n fv (st, em) = Ok (st', em') \<or> op_draw_indexed S alloc inp k fi bv (st, em) = Ok (st', em')"
  shows "advances S alloc (ci_resources inp) em em'"
proof -
  obtain st1 em1 where b: "begin_draw_batch_if_needed alloc (st, em) = Ok (st1, em1)"
    and d: "emit_draw S alloc inp st1 (NonIndexed fv n) em1 = Ok em' \<or> emit_draw_indexed S alloc inp st1 k fi bv em1 = Ok em'"
    using assms by (auto simp: op_draw_def op_draw_indexed_def andThen_eq_Ok emit_with_Ok)
  have "advances S alloc (ci_resources inp) em1 em'"
    using d
  proof
    assume "emit_draw S alloc inp st1 (NonIndexed fv n) em1 = Ok em'"
    then show ?thesis by (rule emit_draw_advances) simp
  next
    assume "emit_draw_indexed S alloc inp st1 k fi bv em1 = Ok em'"
    then obtain ix where "emit_draw S alloc inp st1 (Indexed ix) em1 = Ok em'"
      "permits (limits S (ci_resources inp)) (External (ix_index ix)) (ix_index_offset ix) (ix_index_size ix) ACC_READ"
      by (rule emit_draw_indexedD)
    then show ?thesis by (intro emit_draw_advances) auto
  qed
  from advances_trans [OF begin_draw_batch_if_needed_advances [OF b] this] show ?thesis .
qed


lemma op_write_buffer_advances:
  assumes "op_write_buffer S alloc inp d off bs (st, em) = Ok (st', em')"
  shows "advances S alloc (ci_resources inp) em em'"
proof -
  obtain r sz where r: "find_resource (ci_resources inp) d = Ok r" "require_buffer_usage S r (BUF_COPY_DST S) = Ok ()"
    "(if length bs < 2 ^ 64 then Ok (of_nat (length bs) :: u64) else Err CompileOverflow) = Ok sz"
    "validate_range (rm_size r) off sz = Ok ()" "upload_buffer alloc d off sz bs em = Ok em'"
    using assms by (auto simp: op_write_buffer_def andThen_eq_Ok emit_with_Ok)
  have n: "length bs < 2 ^ 64" "sz = of_nat (length bs)" using r(3) by (auto split: if_splits)
  from r(2) obtain usage where "rm_kind r = BufferKind usage" "usage_contains S usage (BUF_COPY_DST S)"
    by (rule require_buffer_usageD)
  then have "authorised S r ACC_WRITE" by (simp add: authorised_def)
  then have "permits (limits S (ci_resources inp)) (External d) off (of_nat (length bs)) ACC_WRITE"
    using permits_resource [OF r(1) _ validate_rangeD [OF r(4)]] unfolding n(2) by blast
  from advances_step [OF step_buffer [OF r(5)] r(5) upload_buffer_keeps [OF this n(1)]] show ?thesis .
qed

lemma op_write_texture_advances:
  assumes "op_write_texture S alloc inp d area bpr bs (st, em) = Ok (st', em')"
  shows "advances S alloc (ci_resources inp) em em'"
proof -
  have up: "emit_texture_upload S alloc (ci_resources inp) d area bpr bs (max_linear_pitch (ci_capabilities inp)) em = Ok em'"
    using assms by (auto simp: op_write_texture_def andThen_eq_Ok emit_with_Ok)
  then obtain off pitch row_bytes px where "upload_rows alloc d off pitch row_bytes px em = Ok em'"
    by (rule emit_texture_uploadD) (rule that)
  from advances_step [OF step_rows [OF this] up emit_texture_upload_keeps] show ?thesis .
qed

lemma images_eq_Ok:
  "(case k of BufferKind _ \<Rightarrow> Err e | ImageKind a \<Rightarrow> (case k' of BufferKind _ \<Rightarrow> Err e | ImageKind b \<Rightarrow> f a b)) = Ok x \<longleftrightarrow>
     (\<exists>a b. k = ImageKind a \<and> k' = ImageKind b \<and> f a b = Ok x)"
  by (cases k; cases k') simp_all

lemma op_copies_advance:
  assumes "op_copy_texture S alloc inp s sr d dr (st, em) = Ok (st', em') \<or>
    op_blit_texture S alloc inp s sr d dr flt flips (st, em) = Ok (st', em')"
  shows "advances S alloc (ci_resources inp) em em'"
proof -
  let ?p = "max_linear_pitch (ci_capabilities inp)"
  obtain r r' src dst fl fs where f: "find_resource (ci_resources inp) s = Ok r" "find_resource (ci_resources inp) d = Ok r'"
    "require_image_surface S r (TEX_COPY_SRC S) ?p = Ok src" "require_image_surface S r' (TEX_COPY_DST S) ?p = Ok dst"
    "blit alloc src sr dst dr fl fs em = Ok em'"
    using assms
  proof
    assume "op_copy_texture S alloc inp s sr d dr (st, em) = Ok (st', em')"
    then show ?thesis
      unfolding op_copy_texture_def prod.case if_Err_eq_Ok andThen_eq_Ok emit_with_Ok emit_copy_def
      by (elim exE conjE) (rule that, assumption, assumption, (rule target_surface_image, assumption)+)
  next
    assume "op_blit_texture S alloc inp s sr d dr flt flips (st, em) = Ok (st', em')"
    then show ?thesis
      unfolding op_blit_texture_def prod.case if_Err_eq_Ok andThen_eq_Ok images_eq_Ok emit_with_Ok
      by (elim exE conjE) (rule that, assumption+)
  qed
  have "surface_within (limits S (ci_resources inp)) ACC_READ src" by (rule image_source_within [OF f(1,3)]) simp
  moreover have "surface_within (limits S (ci_resources inp)) ACC_WRITE dst" by (rule image_target_within [OF f(2,4)]) simp
  ultimately show ?thesis by (rule advances_step [OF step_blit [OF f(5)] f(5) blit_keeps])
qed

lemma pass_clears_advance:
  assumes "pass_clears alloc pass target dc em = Ok em'" and "surface_within (limits S rs) ACC_WRITE target"
    and "\<And>dt v. dc = Some (dt, v) \<Longrightarrow> surface_within (limits S rs) ACC_WRITE dt"
  shows "advances S alloc rs em em'"
proof (cases "rp_load pass")
  case (ClearColor color)
  show ?thesis
  proof (cases dc)
    case None
    then have "emit_clear alloc target (rp_area pass) color em = Ok em'"
      using assms(1) ClearColor by (simp add: pass_clears_def)
    from advances_step [OF step_clear [OF this] this emit_clear_keeps [OF assms(2)]] show ?thesis .
  next
    case (Some x)
    then have "clear_color_and_depth alloc target (fst x) (rp_area pass) color (snd x) em = Ok em'"
      using assms(1) ClearColor by (simp add: pass_clears_def split: prod.splits)
    moreover have "surface_within (limits S rs) ACC_WRITE (fst x)" using assms(3) Some by (cases x) simp
    ultimately show ?thesis
      using advances_step [OF step_clear_both _ clear_color_and_depth_keeps [OF assms(2)]] by blast
  qed
next
  case (OtherLoad n)
  show ?thesis
  proof (cases dc)
    case None
    then show ?thesis using assms(1) OtherLoad by (simp add: pass_clears_def advances_refl)
  next
    case (Some x)
    then have "clear_depth alloc (fst x) (rp_area pass) (snd x) em = Ok em'"
      using assms(1) OtherLoad by (simp add: pass_clears_def split: prod.splits)
    moreover have "surface_within (limits S rs) ACC_WRITE (fst x)" using assms(3) Some by (cases x) simp
    ultimately show ?thesis using advances_step [OF step_clear_depth _ clear_depth_keeps] by blast
  qed
qed

lemma op_begin_render_pass_advances:
  assumes "op_begin_render_pass S alloc inp pass (st, em) = Ok (st', em')"
  shows "advances S alloc (ci_resources inp) em em'"
proof -
  obtain r target depth dc where r: "find_resource (ci_resources inp) (rp_target pass) = Ok r"
    "require_target_surface S r (TEX_RENDER_ATTACHMENT S) (max_linear_pitch (ci_capabilities inp)) = Ok target"
    "pass_depth S inp pass target = Ok (depth, dc)" "pass_clears alloc pass target dc em = Ok em'"
    using assms by (auto simp: op_begin_render_pass_def andThen_eq_Ok split: if_splits)
  have "surface_within (limits S (ci_resources inp)) ACC_WRITE dt" if that': "dc = Some (dt, v)" for dt v
  proof -
    obtain i dr where "find_resource (ci_resources inp) i = Ok dr"
      "require_depth_surface S dr (sf_width target) (sf_height target) (max_linear_pitch (ci_capabilities inp)) = Ok dt"
    proof (cases "rp_depth pass")
      case (Some da)
      then show ?thesis
        using r(3) that' that by (cases "da_load da") (auto simp: pass_depth_def andThen_eq_Ok)
    qed (use r(3) that' in \<open>simp add: pass_depth_def\<close>)
    then show ?thesis by (rule depth_surface_within) simp
  qed
  moreover have "surface_within (limits S (ci_resources inp)) ACC_WRITE target"
    by (rule image_target_within [OF r(1) target_surface_image [OF r(2)]]) simp
  ultimately show ?thesis using pass_clears_advance [OF r(4)] by blast
qed

lemma op_end_render_pass_advances:
  assumes "op_end_render_pass alloc (st, em) = Ok (st', em')"
  shows "advances S alloc rs em em'"
proof -
  have "em' = em \<or> end_draw_batch alloc em = Ok em'"
    using assms by (auto simp: op_end_render_pass_def andThen_eq_Ok split: if_splits)
  then show ?thesis
    using advances_refl advances_step [OF step_end _ end_draw_batch_keeps] by blast
qed

lemma op_set_emitter:
  "op_set_pipeline inp i (st, em) = Ok (st', em') \<Longrightarrow> em' = em"
  "op_set_vertex_buffer S inp b off (st, em) = Ok (st', em') \<Longrightarrow> em' = em"
  "op_set_index_buffer S inp b off f (st, em) = Ok (st', em') \<Longrightarrow> em' = em"
  "op_set_texture S inp t (st, em) = Ok (st', em') \<Longrightarrow> em' = em"
  "op_set_sampler s (st, em) = Ok (st', em') \<Longrightarrow> em' = em"
  "op_set_uniforms u (st, em) = Ok (st', em') \<Longrightarrow> em' = em"
  "op_set_scissor c (st, em) = Ok (st', em') \<Longrightarrow> em' = em"
  "op_set_viewport S inp v (st, em) = Ok (st', em') \<Longrightarrow> em' = em"
  by (auto simp: op_set_pipeline_def op_set_vertex_buffer_def op_set_index_buffer_def op_set_texture_def
    op_set_sampler_def op_set_uniforms_def op_set_scissor_def op_set_viewport_def andThen_eq_Ok split: if_splits)

lemma operate_advances:
  assumes "operate S alloc inp op (st, em) = Ok (st', em')"
  shows "advances S alloc (ci_resources inp) em em'"
proof (cases op)
  case WriteBuffer
  then show ?thesis using assms by (simp add: op_write_buffer_advances)
next
  case WriteTexture
  then show ?thesis using assms by (simp add: op_write_texture_advances)
next
  case CopyTextureToTexture
  then show ?thesis using assms op_copies_advance by (metis operate.simps(3))
next
  case BlitTexture
  then show ?thesis using assms op_copies_advance by (metis operate.simps(4))
next
  case BeginRenderPass
  then show ?thesis using assms by (simp add: op_begin_render_pass_advances)
next
  case EndRenderPass
  then show ?thesis using assms by (simp add: op_end_render_pass_advances)
next
  case DrawOp
  then show ?thesis using assms op_draws_advance by (metis operate.simps(15))
next
  case DrawIndexedOp
  then show ?thesis using assms op_draws_advance by (metis operate.simps(16))
qed (use assms in \<open>auto dest: op_set_emitter intro: advances_refl\<close>)

lemma operations_advance:
  assumes "foldM (\<lambda>cs op. operate S alloc inp op cs) cs ops = Ok cs'"
  shows "advances S alloc (ci_resources inp) (snd cs) (snd cs')"
  using assms
proof (induction ops arbitrary: cs)
  case (Cons op ops)
  obtain cs1 where cs1: "operate S alloc inp op cs = Ok cs1"
    "foldM (\<lambda>cs op. operate S alloc inp op cs) cs1 ops = Ok cs'"
    using Cons.prems by (auto simp: andThen_eq_Ok)
  have "advances S alloc (ci_resources inp) (snd cs) (snd cs1)"
    by (rule operate_advances [of S alloc inp op "fst cs" _ "fst cs1"]) (simp add: cs1(1))
  then show ?case by (rule advances_trans) (rule Cons.IH [OF cs1(2)])
qed (simp add: advances_refl)

lemma compile_runD:
  assumes "compile S alloc inp = Ok p"
  obtains em where "emitter_run alloc (max_pm4_words (ci_capabilities inp)) em" "emit_finish alloc em = Ok p"
    "sgfx_sizes S \<longrightarrow> within (limits S (ci_resources inp)) em"
proof -
  let ?new = "emitter_new (max_pm4_words (ci_capabilities inp))"
  obtain st em where fold: "foldM (\<lambda>cs op. operate S alloc inp op cs) (state_new, ?new) (ci_operations inp) = Ok (st, em)"
    and fin: "emit_finish alloc em = Ok p"
    using assms by (auto simp: compile_def andThen_eq_Ok split: if_splits)
  have adv: "advances S alloc (ci_resources inp) ?new em"
    using operations_advance [OF fold] by simp
  have "within L ?new" for L by (simp add: within_def emitter_new_def)
  then show ?thesis
    using adv run_new by (intro that [OF _ fin]) (simp_all add: advances_def)
qed

end
