(* ===== verification/Compile_Output.thy ===== *)
theory Compile_Output
  imports Compile_Rules
begin

text \<open>
  What \<open>compile\<close> returns: it does not panic on the images the layout checks are made for, its streams
  come from a run of the emitter and stay within the resources of the input, and the operations it
  accepts follow the protocol of render passes.
\<close>

section \<open>Checks do not panic\<close>

lemma checks_no_panic [no_panic]:
  "find_resource rs i \<noteq> Panic" "find_pipeline ps i \<noteq> Panic" "require_buffer_usage S r u \<noteq> Panic"
  "validate_range n off len \<noteq> Panic" "validate_rect area s \<noteq> Panic" "require_inside_pass st \<noteq> Panic"
  "require_outside_pass st \<noteq> Panic" "pipeline_variant d \<noteq> Panic" "nv12_variant d \<noteq> Panic"
  "draw_extent d c \<noteq> Panic" "validate_pipeline_descriptor p \<noteq> Panic"
  by (auto simp: find_resource_def find_pipeline_def require_buffer_usage_def validate_range_def validate_rect_def
      require_inside_pass_def require_outside_pass_def pipeline_variant_def nv12_variant_def draw_extent_def
      validate_pipeline_descriptor_def Let_def andThen_eq_Panic
      split: ResourceKind.splits FragmentProgram.splits TextureSampleMode.splits DrawCall.splits)

lemma draw_checks_no_panic [no_panic]:
  "require_draw_state st \<noteq> Panic" "draw_fixed_state d \<noteq> Panic" "validate_sample_state S rs st p \<noteq> Panic"
  by (auto simp: require_draw_state_def draw_fixed_state_def draw_attributes_def validate_sample_state_def Let_def
      checks_no_panic andThen_eq_Panic split: option.splits ResourceKind.splits)

lemma validate_nv12_no_panic: "validate_nv12 S n im mp \<noteq> Panic"
  unfolding validate_nv12_def by (intro no_panic) (auto split: if_splits)

lemma required_plane_size_no_panic [no_panic]: "required_plane_size im p rb mp \<noteq> Panic"
  by (auto simp: required_plane_size_def Let_def andThen_eq_Panic split: PlaneModifier.splits)

lemma validate_image_layout_no_panic [no_panic]: "validate_image_layout S n im mp \<noteq> Panic"
  unfolding validate_image_layout_def by (intro no_panic validate_nv12_no_panic) auto

text \<open>A colour conversion belongs to an NV12 image.\<close>

definition conversions_planar :: "ResourceMeta list \<Rightarrow> bool" where
  "conversions_planar rs \<longleftrightarrow>
     (\<forall>r \<in> set rs. \<forall>im. rm_kind r = ImageKind im \<longrightarrow> im_conversion im \<noteq> None \<longrightarrow> im_format im = Nv12)"

lemma layout_planes:
  assumes "validate_image_layout S n im mp = Ok ()"
  shows "length (im_planes im) = (if im_format im = Nv12 then 2 else 1)"
  using assms validate_nv12D(1) [of S n im mp]
  by (auto simp: validate_image_layout_def split: if_splits)

lemma require_image_surface_no_panic:
  assumes "conversions_planar rs" and "find_resource rs i = Ok r"
  shows "require_image_surface S r u mp \<noteq> Panic"
proof (cases "rm_kind r")
  case (ImageKind im)
  have "im_conversion im \<noteq> None \<Longrightarrow> im_format im = Nv12"
    using assms(1) find_resourceD(3) [OF assms(2)] ImageKind by (auto simp: conversions_planar_def)
  then show ?thesis
    unfolding require_image_surface_def ImageKind ResourceKind.case
    by (intro no_panic; cases "im_conversion im") (auto intro!: no_panic dest!: layout_planes split: if_splits)
qed (simp add: require_image_surface_def)

lemma surfaces_no_panic:
  assumes "conversions_planar rs" and "find_resource rs i = Ok r"
  shows "require_target_surface S r u mp \<noteq> Panic" and "require_depth_surface S r w h mp \<noteq> Panic"
proof -
  show "require_target_surface S r u mp \<noteq> Panic"
    using require_image_surface_no_panic [OF assms] by (auto simp: require_target_surface_def split: ResourceKind.splits)
  show "require_depth_surface S r w h mp \<noteq> Panic"
  proof (cases "rm_kind r")
    case (ImageKind im)
    show ?thesis
      unfolding require_depth_surface_def ImageKind ResourceKind.case
      by (intro no_panic) (auto dest!: layout_planes split: if_splits)
  qed (simp add: require_depth_surface_def)
qed

section \<open>Commands do not panic\<close>

lemma ready_2d_no_panic:
  assumes "ready m em" and "em_draw_batch_active em \<Longrightarrow> f em \<noteq> Panic"
    and "\<And>sb. triple (settled (False, m) None False False sb) f (Q sb)"
  shows "f em \<noteq> Panic"
proof (cases "em_draw_batch_active em")
  case False
  then obtain sb where "settled (False, m) None False False sb em"
    using assms(1) by (auto simp: ready_def emitting_def)
  from ensures_no_panic [OF tripleD [OF assms(3) this]] show ?thesis .
qed (rule assms(2))

lemma batch_2d_no_panic:
  assumes "em_draw_batch_active em"
  shows "emit_clear alloc target area color em \<noteq> Panic" and "clear_depth alloc target area depth em \<noteq> Panic"
    and "clear_color_and_depth alloc target dt area color depth em \<noteq> Panic"
    and "blit alloc src sr dest dr flt flips em \<noteq> Panic"
  using assms by (simp_all add: emit_clear_def clear_depth_def clear_color_and_depth_def blit_def Let_def
      submission_begin_2d_def)

lemma commands_no_panic:
  assumes "ready m em"
  shows "length (dr_sampler d) = 4 \<Longrightarrow> draw alloc d em \<noteq> Panic"
    and "begin_draw_batch alloc em \<noteq> Panic" and "end_draw_batch alloc em \<noteq> Panic" and "continue_draw_batch em \<noteq> Panic"
    and "emit_clear alloc target area color em \<noteq> Panic" and "clear_depth alloc target area depth em \<noteq> Panic"
    and "clear_color_and_depth alloc target dt area color depth em \<noteq> Panic"
    and "blit alloc src sr dest dr flt flips em \<noteq> Panic"
    and "upload_buffer alloc obj off req bs em \<noteq> Panic" and "upload_rows alloc obj off pitch row_bytes bs em \<noteq> Panic"
proof -
  obtain b pd sb where em: "settled (b, m) None pd False sb em" using assms by (auto simp: ready_def)
  show "draw alloc d em \<noteq> Panic" if "length (dr_sampler d) = 4"
    by (rule ensures_no_panic [OF tripleD [OF draw_ok [OF that] em]])
  show "begin_draw_batch alloc em \<noteq> Panic"
    using ensures_no_panic [OF tripleD [OF submission_begin_3d_ok em]]
    by (auto simp: begin_draw_batch_def andThen_eq_Panic)
  show "end_draw_batch alloc em \<noteq> Panic"
    using ensures_no_panic [OF tripleD [OF submission_end_ok em]]
    by (auto simp: end_draw_batch_def andThen_eq_Panic)
  show "continue_draw_batch em \<noteq> Panic" by (simp add: continue_draw_batch_def)
  show "emit_clear alloc target area color em \<noteq> Panic"
    by (rule ready_2d_no_panic [OF assms batch_2d_no_panic(1) emit_clear_ok])
  show "clear_depth alloc target area depth em \<noteq> Panic"
    by (rule ready_2d_no_panic [OF assms batch_2d_no_panic(2) clear_depth_ok])
  show "clear_color_and_depth alloc target dt area color depth em \<noteq> Panic"
    by (rule ready_2d_no_panic [OF assms batch_2d_no_panic(3) clear_color_and_depth_ok])
  show "blit alloc src sr dest dr flt flips em \<noteq> Panic"
    by (rule ready_2d_no_panic [OF assms batch_2d_no_panic(4) blit_ok])
  show "upload_buffer alloc obj off req bs em \<noteq> Panic" by (rule ensures_no_panic [OF upload_buffer_ok [OF em]])
  show "upload_rows alloc obj off pitch row_bytes bs em \<noteq> Panic" by (rule ensures_no_panic [OF upload_rows_ok [OF em]])
qed


section \<open>Operations do not panic\<close>

lemma emit_with_no_panic [no_panic]: "m \<noteq> Panic \<Longrightarrow> emit_with st m \<noteq> Panic"
  by (cases m) (simp_all add: emit_with_def)

lemma draw_parts_no_panic:
  assumes "conversions_planar (ci_resources inp)"
  shows "draw_texture S inp st d \<noteq> Panic" and "draw_depth S inp pass d target \<noteq> Panic"
    and "pass_depth S inp rp target \<noteq> Panic"
  using require_image_surface_no_panic [OF assms] surfaces_no_panic(2) [OF assms]
  by (auto simp: draw_texture_def draw_depth_def pass_depth_def checks_no_panic andThen_eq_Panic split: option.splits)

lemma emit_draw_no_panic:
  assumes "ready m em" and "conversions_planar (ci_resources inp)"
  shows "emit_draw S alloc inp st c em \<noteq> Panic"
proof -
  have "length (dr_sampler (draw_request st pass d vertex uniforms target n ls fixed texture v depth whole c)) = 4"
    for pass d vertex uniforms target n ls fixed texture v depth whole
    by (simp add: draw_request_def)
  then have "draw alloc (draw_request st pass d vertex uniforms target n ls fixed texture v depth whole c) em \<noteq> Panic"
    for pass d vertex uniforms target n ls fixed texture v depth whole
    by (rule commands_no_panic(1) [OF assms(1)])
  then show ?thesis
    unfolding emit_draw_def Let_def
    by (auto simp: andThen_eq_Panic checks_no_panic draw_checks_no_panic draw_parts_no_panic [OF assms(2)]
        surfaces_no_panic(1) [OF assms(2)] split: if_splits)
qed

lemma emit_draw_indexed_no_panic:
  assumes "ready m em" and "conversions_planar (ci_resources inp)" and "sgfx_sizes S"
  shows "emit_draw_indexed S alloc inp st k fi bv em \<noteq> Panic"
proof -
  have "index_byte_size S f \<noteq> 0" for f using assms(3) by (cases f) (simp_all add: sgfx_sizes_def)
  then show ?thesis
    unfolding emit_draw_indexed_def Let_def
    by (auto simp: andThen_eq_Panic checks_no_panic draw_checks_no_panic emit_draw_no_panic [OF assms(1,2)]
        u64_div_def split: if_splits)
qed

lemma convert_rows_no_panic:
  assumes "unat row_size + unat bytes_per_row * (unat height - 1) \<le> length bs"
  shows "convert_rows fmt bs bytes_per_row row_size height \<noteq> Panic"
proof -
  let ?step = "\<lambda>pixels row. andThen (slice bs (row * unat bytes_per_row) (row * unat bytes_per_row + unat row_size))
    (\<lambda>source. andThen (convert_row fmt source) (\<lambda>px. Ok (pixels @ px)))"
  have step: "?step pixels i \<noteq> Panic" if "i < unat height" for pixels i
  proof -
    have "i * unat bytes_per_row \<le> (unat height - 1) * unat bytes_per_row" using that by (intro mult_le_mono1) simp
    then have "i * unat bytes_per_row + unat row_size \<le> length bs"
      using assms unfolding mult.commute [of "unat bytes_per_row"] by linarith
    moreover have "convert_row fmt source \<noteq> Panic" for source
      by (cases fmt) (simp_all add: convert_row_def)
    ultimately show ?thesis by (auto simp: andThen_eq_Panic slice_def)
  qed
  have rows: "foldM ?step pixels rows \<noteq> Panic" if "set rows \<subseteq> {..< unat height}" for rows pixels
    using that step by (induction rows arbitrary: pixels) (auto simp: andThen_eq_Panic)
  show ?thesis unfolding convert_rows_def by (rule rows) auto
qed

lemma emit_texture_upload_no_panic:
  assumes "ready m em" and "conversions_planar rs"
  shows "emit_texture_upload S alloc rs d area bpr bs mp em \<noteq> Panic"
proof -
  have conv: "convert_rows fmt bs bpr row_size (rect_height area) \<noteq> Panic"
    if req: "Option.bind (checked_mul (ucast bpr) (ucast (rect_height area - 1))) (\<lambda>n. checked_add n (ucast row_size :: u64)) = Some req"
      "unat req \<le> length bs" for fmt row_size req
  proof (cases "rect_height area = 0")
    case True
    then show ?thesis by (simp add: convert_rows_def)
  next
    case False
    obtain n where n: "checked_mul (ucast bpr) (ucast (rect_height area - 1)) = Some n" "checked_add n (ucast row_size) = Some req"
      using req(1) by (auto simp: bind_eq_Some_conv)
    have "1 \<le> rect_height area" using False by (simp add: word_le_nat_alt Suc_le_eq unat_gt_0)
    then have "unat (rect_height area - 1) = unat (rect_height area) - 1" by (simp add: unat_sub)
    then show ?thesis
      using checked_mul_SomeD(1) [OF n(1)] checked_add_SomeD(1) [OF n(2)] req(2)
      by (intro convert_rows_no_panic) (simp add: unat_ucast_up)
  qed
  show ?thesis
    unfolding emit_texture_upload_def
    by (auto simp: andThen_eq_Panic ok_or_eq_Ok checks_no_panic require_image_surface_no_panic [OF assms(2)]
        commands_no_panic(10) [OF assms(1)] conv not_less split: if_splits ResourceKind.splits)
qed


lemma op_uploads_no_panic:
  assumes "ready m em" and "conversions_planar (ci_resources inp)"
  shows "op_write_buffer S alloc inp d off bs (st, em) \<noteq> Panic"
    and "op_write_texture S alloc inp d area bpr bs (st, em) \<noteq> Panic"
    and "op_copy_texture S alloc inp s sr d dr (st, em) \<noteq> Panic"
    and "op_blit_texture S alloc inp s sr d dr flt flips (st, em) \<noteq> Panic"
  unfolding op_write_buffer_def op_write_texture_def op_copy_texture_def op_blit_texture_def emit_copy_def prod.case
  by (auto simp: andThen_eq_Panic checks_no_panic emit_with_no_panic commands_no_panic [OF assms(1)]
      emit_texture_upload_no_panic [OF assms] surfaces_no_panic [OF assms(2)]
      require_image_surface_no_panic [OF assms(2)] split: if_splits ResourceKind.splits)

lemma op_passes_no_panic:
  assumes "ready m em" and "conversions_planar (ci_resources inp)"
  shows "op_begin_render_pass S alloc inp pass (st, em) \<noteq> Panic" and "op_end_render_pass alloc (st, em) \<noteq> Panic"
proof -
  have "pass_clears alloc pass target dc em \<noteq> Panic" for target dc
    using commands_no_panic(5-7) [OF assms(1)] by (auto simp: pass_clears_def split: LoadOp.splits option.splits)
  then show "op_begin_render_pass S alloc inp pass (st, em) \<noteq> Panic"
    by (auto simp: op_begin_render_pass_def andThen_eq_Panic checks_no_panic surfaces_no_panic [OF assms(2)]
        draw_parts_no_panic [OF assms(2)] split: if_splits)
  show "op_end_render_pass alloc (st, em) \<noteq> Panic"
    using commands_no_panic(3) [OF assms(1)] by (auto simp: op_end_render_pass_def andThen_eq_Panic split: if_splits)
qed

lemma op_sets_no_panic:
  assumes "conversions_planar (ci_resources inp)" and "sgfx_sizes S"
  shows "op_set_pipeline inp i (st, em) \<noteq> Panic" and "op_set_vertex_buffer S inp b off (st, em) \<noteq> Panic"
    and "op_set_index_buffer S inp b off f (st, em) \<noteq> Panic" and "op_set_texture S inp t (st, em) \<noteq> Panic"
    and "op_set_sampler sm (st, em) \<noteq> Panic" and "op_set_uniforms u (st, em) \<noteq> Panic"
    and "op_set_scissor c (st, em) \<noteq> Panic" and "op_set_viewport S inp v (st, em) \<noteq> Panic"
proof -
  have "u64_rem off (index_byte_size S f) \<noteq> Panic"
    using assms(2) by (cases f) (simp_all add: sgfx_sizes_def u64_rem_def)
  then show "op_set_index_buffer S inp b off f (st, em) \<noteq> Panic"
    by (auto simp: op_set_index_buffer_def andThen_eq_Panic checks_no_panic split: if_splits)
qed (auto simp: op_set_pipeline_def op_set_vertex_buffer_def op_set_texture_def op_set_sampler_def op_set_uniforms_def
    op_set_scissor_def op_set_viewport_def andThen_eq_Panic checks_no_panic surfaces_no_panic [OF assms(1)]
    require_image_surface_no_panic [OF assms(1)] split: if_splits)

lemma op_draws_no_panic:
  assumes "emitter_run alloc b em" and "conversions_planar (ci_resources inp)" and "sgfx_sizes S"
  shows "op_draw S alloc inp n fv (st, em) \<noteq> Panic" and "op_draw_indexed S alloc inp k fi bv (st, em) \<noteq> Panic"
proof -
  note ready = run_ready [OF assms(1)]
  have batch: "begin_draw_batch_if_needed alloc (st, em) \<noteq> Panic"
    using commands_no_panic(2,4) [OF ready]
    by (auto simp: begin_draw_batch_if_needed_def andThen_eq_Panic checks_no_panic split: if_splits)
  have "ready (unat b) em1" if "begin_draw_batch_if_needed alloc (st, em) = Ok (st1, em1)" for st1 em1
    using begin_draw_batch_if_needed_advances [OF that] assms(1) by (auto simp: advances_def intro: run_ready)
  note draws = emit_draw_no_panic [OF this assms(2)] emit_draw_indexed_no_panic [OF this assms(2,3)]
  show "op_draw S alloc inp n fv (st, em) \<noteq> Panic" "op_draw_indexed S alloc inp k fi bv (st, em) \<noteq> Panic"
    unfolding op_draw_def op_draw_indexed_def
    using batch by (auto simp: andThen_eq_Panic emit_with_no_panic draws)
qed

lemma operate_no_panic:
  assumes "emitter_run alloc b em" and "conversions_planar (ci_resources inp)" and "sgfx_sizes S"
  shows "operate S alloc inp op (st, em) \<noteq> Panic"
  using op_uploads_no_panic [OF run_ready [OF assms(1)] assms(2)] op_passes_no_panic [OF run_ready [OF assms(1)] assms(2)]
    op_sets_no_panic [OF assms(2,3)] op_draws_no_panic [OF assms]
  by (cases op) simp_all

lemma validate_tables_no_panic [no_panic]: "validate_tables S inp \<noteq> Panic"
proof -
  have "validate_resources S mp seen rs \<noteq> Panic" for mp seen rs
    by (induction S mp seen rs rule: validate_resources.induct)
      (auto simp: andThen_eq_Panic validate_image_layout_no_panic split: ResourceKind.splits)
  moreover have "validate_pipelines seen ps \<noteq> Panic" for seen ps
    by (induction seen ps rule: validate_pipelines.induct) (auto simp: andThen_eq_Panic checks_no_panic)
  ultimately show ?thesis by (auto simp: validate_tables_def Let_def andThen_eq_Panic)
qed

lemma operations_no_panic:
  assumes "conversions_planar (ci_resources inp)" and "sgfx_sizes S" and "emitter_run alloc b (snd cs)"
  shows "foldM (\<lambda>cs op. operate S alloc inp op cs) cs ops \<noteq> Panic"
  using assms(3)
proof (induction ops arbitrary: cs)
  case (Cons op ops)
  have "operate S alloc inp op cs \<noteq> Panic"
    using operate_no_panic [OF Cons.prems assms(1,2), of op "fst cs"] by simp
  moreover have "emitter_run alloc b (snd cs1)" if "operate S alloc inp op cs = Ok cs1" for cs1
    using operate_advances [of S alloc inp op "fst cs" "snd cs" "fst cs1" "snd cs1"] that Cons.prems
    by (simp add: advances_def)
  ultimately show ?case using Cons.IH by (auto simp: andThen_eq_Panic)
qed simp


section \<open>The protocol of render passes\<close>

text \<open>What is bound inside a pass, and the order of operations a program may use: uploads and copies
  outside passes, bindings and draws inside; a draw needs a pipeline, vertices and uniforms bound since
  the pass began, an indexed draw also indices, and a sampling pipeline a texture and a sampler.\<close>

record Bound =
  bound_pipeline :: "PipelineMeta option"
  bound_vertex :: bool
  bound_index :: bool
  bound_texture :: bool
  bound_sampler :: bool
  bound_uniforms :: bool

definition unbound :: Bound where
  "unbound = \<lparr> bound_pipeline = None, bound_vertex = False, bound_index = False, bound_texture = False,
     bound_sampler = False, bound_uniforms = False \<rparr>"

definition drawable :: "Bound \<Rightarrow> bool" where
  "drawable b \<longleftrightarrow> bound_vertex b \<and> bound_uniforms b \<and>
     (case bound_pipeline b of
        None \<Rightarrow> False
      | Some p \<Rightarrow> sample_mode (pd_fragment (pm_descriptor p)) \<noteq> None \<longrightarrow> bound_texture b \<and> bound_sampler b)"

fun protocol :: "PipelineMeta list \<Rightarrow> Operation \<Rightarrow> Bound option \<Rightarrow> Bound option option" where
  "protocol ps (WriteBuffer _ _ _) None = Some None"
| "protocol ps (WriteTexture _ _ _ _) None = Some None"
| "protocol ps (CopyTextureToTexture _ _ _ _) None = Some None"
| "protocol ps (BlitTexture _ _ _ _ _ _) None = Some None"
| "protocol ps (BeginRenderPass _) None = Some (Some unbound)"
| "protocol ps EndRenderPass (Some b) = Some None"
| "protocol ps (SetPipeline i) (Some b) =
     map_option (\<lambda>p. Some (b \<lparr> bound_pipeline := Some p \<rparr>)) (find (\<lambda>p. pm_id p = i) ps)"
| "protocol ps (SetVertexBuffer _ _) (Some b) = Some (Some (b \<lparr> bound_vertex := True \<rparr>))"
| "protocol ps (SetIndexBuffer _ _ _) (Some b) = Some (Some (b \<lparr> bound_index := True \<rparr>))"
| "protocol ps (SetTexture _) (Some b) = Some (Some (b \<lparr> bound_texture := True \<rparr>))"
| "protocol ps (SetSampler _) (Some b) = Some (Some (b \<lparr> bound_sampler := True \<rparr>))"
| "protocol ps (SetUniforms _) (Some b) = Some (Some (b \<lparr> bound_uniforms := True \<rparr>))"
| "protocol ps (SetScissor _) (Some b) = Some (Some b)"
| "protocol ps (SetViewport _) (Some b) = Some (Some b)"
| "protocol ps (DrawOp _ _) (Some b) = (if drawable b then Some (Some b) else None)"
| "protocol ps (DrawIndexedOp _ _ _) (Some b) = (if drawable b \<and> bound_index b then Some (Some b) else None)"
| "protocol ps _ _ = None"

fun follows :: "PipelineMeta list \<Rightarrow> Operation list \<Rightarrow> Bound option \<Rightarrow> Bound option option" where
  "follows ps [] s = Some s"
| "follows ps (op # ops) s = Option.bind (protocol ps op s) (follows ps ops)"

definition bound_of :: "State \<Rightarrow> Bound option" where
  "bound_of st = (case st_pass st of
     None \<Rightarrow> None
   | Some _ \<Rightarrow> Some \<lparr> bound_pipeline = st_pipeline st, bound_vertex = (st_vertex st \<noteq> None),
       bound_index = (st_index st \<noteq> None), bound_texture = (st_texture st \<noteq> None),
       bound_sampler = (st_sampler st \<noteq> None), bound_uniforms = (st_uniforms st \<noteq> None) \<rparr>)"

lemma emit_draw_drawable:
  assumes "emit_draw S alloc inp st c em = Ok em'"
  obtains b where "bound_of st = Some b" "drawable b"
proof -
  obtain pass pipeline vertex uniforms where st: "require_draw_state st = Ok (pass, pipeline, vertex, uniforms)"
    using assms by (auto simp: emit_draw_def andThen_eq_Ok)
  obtain x where x: "draw_extent (pm_descriptor pipeline) c = Ok x"
    using assms by (auto simp: emit_draw_def st andThen_eq_Ok Let_def)
  obtain ls where "validate_sample_state S (ci_resources inp) st pipeline = Ok ls"
    using assms unfolding emit_draw_def st x Let_def andThen.simps prod.case
    by (auto simp: andThen_eq_Ok if_Err_eq_Ok split: prod.splits)
  then have "sample_mode (pd_fragment (pm_descriptor pipeline)) \<noteq> None \<longrightarrow> st_texture st \<noteq> None \<and> st_sampler st \<noteq> None"
    by (auto simp: validate_sample_state_def andThen_eq_Ok ok_or_eq_Ok)
  then show ?thesis
    using st that by (auto simp: require_draw_state_def andThen_eq_Ok ok_or_eq_Ok bound_of_def drawable_def)
qed

lemma batch_keeps_bound:
  assumes "begin_draw_batch_if_needed alloc (st, em) = Ok (st', em')"
  shows "bound_of st' = bound_of st" and "st_index st' = st_index st"
  using assms by (auto simp: begin_draw_batch_if_needed_def andThen_eq_Ok bound_of_def
      split: if_splits option.splits)

lemma draw_protocol:
  assumes "op_draw S alloc inp n fv (st, em) = Ok (st', em')"
  shows "protocol ps (DrawOp n fv) (bound_of st) = Some (bound_of st')"
proof -
  obtain em1 where b: "begin_draw_batch_if_needed alloc (st, em) = Ok (st', em1)"
    and d: "emit_draw S alloc inp st' (NonIndexed fv n) em1 = Ok em'"
    using assms by (auto simp: op_draw_def andThen_eq_Ok emit_with_Ok)
  from d obtain x where "bound_of st' = Some x" "drawable x" by (rule emit_draw_drawable)
  then show ?thesis using batch_keeps_bound(1) [OF b] by simp
qed

lemma draw_indexed_protocol:
  assumes "op_draw_indexed S alloc inp k fi bv (st, em) = Ok (st', em')"
  shows "protocol ps (DrawIndexedOp k fi bv) (bound_of st) = Some (bound_of st')"
proof -
  obtain em1 where b: "begin_draw_batch_if_needed alloc (st, em) = Ok (st', em1)"
    and d: "emit_draw_indexed S alloc inp st' k fi bv em1 = Ok em'"
    using assms by (auto simp: op_draw_indexed_def andThen_eq_Ok emit_with_Ok)
  from d obtain ix where "emit_draw S alloc inp st' (Indexed ix) em1 = Ok em'" by (rule emit_draw_indexedD)
  then obtain x where x: "bound_of st' = Some x" "drawable x" by (rule emit_draw_drawable)
  have "st_index st' \<noteq> None" using d by (auto simp: emit_draw_indexed_def andThen_eq_Ok ok_or_eq_Ok)
  then have "bound_index x" using x(1) by (auto simp: bound_of_def split: option.splits)
  then show ?thesis using x batch_keeps_bound(1) [OF b] by simp
qed

lemma sets_protocol:
  "op_set_pipeline inp i (st, em) = Ok (st', em') \<Longrightarrow>
     protocol (ci_pipelines inp) (SetPipeline i) (bound_of st) = Some (bound_of st')"
  "op_set_vertex_buffer S inp b off (st, em) = Ok (st', em') \<Longrightarrow>
     protocol ps (SetVertexBuffer b off) (bound_of st) = Some (bound_of st')"
  "op_set_index_buffer S inp b off f (st, em) = Ok (st', em') \<Longrightarrow>
     protocol ps (SetIndexBuffer b off f) (bound_of st) = Some (bound_of st')"
  "op_set_texture S inp t (st, em) = Ok (st', em') \<Longrightarrow> protocol ps (SetTexture t) (bound_of st) = Some (bound_of st')"
  "op_set_sampler sm (st, em) = Ok (st', em') \<Longrightarrow> protocol ps (SetSampler sm) (bound_of st) = Some (bound_of st')"
  "op_set_uniforms u (st, em) = Ok (st', em') \<Longrightarrow> protocol ps (SetUniforms u) (bound_of st) = Some (bound_of st')"
  "op_set_scissor c (st, em) = Ok (st', em') \<Longrightarrow> protocol ps (SetScissor c) (bound_of st) = Some (bound_of st')"
  "op_set_viewport S inp v (st, em) = Ok (st', em') \<Longrightarrow> protocol ps (SetViewport v) (bound_of st) = Some (bound_of st')"
  by (auto simp: op_set_pipeline_def op_set_vertex_buffer_def op_set_index_buffer_def op_set_texture_def
    op_set_sampler_def op_set_uniforms_def op_set_scissor_def op_set_viewport_def andThen_eq_Ok ok_or_eq_Ok
    require_inside_pass_def find_pipeline_def bound_of_def split: if_splits)

lemma passes_protocol:
  "op_begin_render_pass S alloc inp pass (st, em) = Ok (st', em') \<Longrightarrow>
     protocol ps (BeginRenderPass pass) (bound_of st) = Some (bound_of st')"
  "op_end_render_pass alloc (st, em) = Ok (st', em') \<Longrightarrow> protocol ps EndRenderPass (bound_of st) = Some (bound_of st')"
  by (auto simp: op_begin_render_pass_def op_end_render_pass_def andThen_eq_Ok bound_of_def clear_bindings_def unbound_def
    split: if_splits)

lemma outside_pass:
  "op_write_buffer S alloc inp d off bs (st, em) = Ok (st', em') \<Longrightarrow> st' = st \<and> st_pass st = None"
  "op_write_texture S alloc inp d area bpr bs (st, em) = Ok (st', em') \<Longrightarrow> st' = st \<and> st_pass st = None"
  "op_copy_texture S alloc inp s sr d dr (st, em) = Ok (st', em') \<Longrightarrow> st' = st \<and> st_pass st = None"
  "op_blit_texture S alloc inp s sr d dr flt flips (st, em) = Ok (st', em') \<Longrightarrow> st' = st \<and> st_pass st = None"
  by (auto simp: op_write_buffer_def op_write_texture_def op_copy_texture_def op_blit_texture_def andThen_eq_Ok images_eq_Ok
    require_outside_pass_def emit_with_Ok split: if_splits)

lemma bound_outside: "st_pass st = None \<Longrightarrow> bound_of st = None"
  by (simp add: bound_of_def)

lemma operate_protocol:
  assumes "operate S alloc inp op (st, em) = Ok (st', em')"
  shows "protocol (ci_pipelines inp) op (bound_of st) = Some (bound_of st')"
  using assms
  by (cases op) (auto simp: bound_outside sets_protocol passes_protocol draw_protocol draw_indexed_protocol dest!: outside_pass)


lemma operations_protocol:
  assumes "foldM (\<lambda>cs op. operate S alloc inp op cs) cs ops = Ok cs'"
  shows "follows (ci_pipelines inp) ops (bound_of (fst cs)) = Some (bound_of (fst cs'))"
  using assms
proof (induction ops arbitrary: cs)
  case (Cons op ops)
  obtain cs1 where cs1: "operate S alloc inp op cs = Ok cs1"
    "foldM (\<lambda>cs op. operate S alloc inp op cs) cs1 ops = Ok cs'"
    using Cons.prems by (auto simp: andThen_eq_Ok)
  have "protocol (ci_pipelines inp) op (bound_of (fst cs)) = Some (bound_of (fst cs1))"
    by (rule operate_protocol [of S alloc inp op "fst cs" "snd cs" "fst cs1" "snd cs1"]) (simp add: cs1(1))
  then show ?case using Cons.IH [OF cs1(2)] by simp
qed simp

section \<open>Examples\<close>

text \<open>Usage sets as bit sets, and formats with their sizes.\<close>

definition bit_sgfx :: Sgfx where
  "bit_sgfx = \<lparr>
     bytes_per_pixel = (\<lambda>f. case f of Bgra8Unorm \<Rightarrow> Some 4 | Rgba8Unorm \<Rightarrow> Some 4 | R8Unorm \<Rightarrow> Some 1
       | Depth32Float \<Rightarrow> Some 4 | _ \<Rightarrow> None),
     index_byte_size = (\<lambda>f. case f of Uint16 \<Rightarrow> 2 | Uint32 \<Rightarrow> 4),
     same_extent = (\<lambda>a b. rect_width a = rect_width b \<and> rect_height a = rect_height b),
     extent_new = (\<lambda>w h. if w = 0 \<or> h = 0 then None else Some (w, h)),
     viewport_within = (\<lambda>_ _. True),
     viewport_new = (\<lambda>x y w h a b. Some \<lparr> vp_x = x, vp_y = y, vp_width = w, vp_height = h, vp_min_depth = a,
       vp_max_depth = b \<rparr>),
     usage_contains = (\<lambda>a b. a AND b = b),
     TEX_COPY_SRC = 1, TEX_COPY_DST = 2, TEX_SAMPLED = 4, TEX_RENDER_ATTACHMENT = 8,
     BUF_COPY_DST = 1, BUF_VERTEX = 2, BUF_INDEX = 4 \<rparr>"

lemma bit_sgfx_sizes: "sgfx_sizes bit_sgfx"
  by (simp add: sgfx_sizes_def bit_sgfx_def)

definition image_meta :: "YcbcrConversion option \<Rightarrow> ImageMeta" where
  "image_meta conv = \<lparr> im_conversion = conv, im_texture = None, im_format = Bgra8Unorm, im_storage_format = Bgra8Unorm,
     im_width = 16, im_height = 2, im_usage = 10, im_modifier = LinearImage,
     im_planes = [\<lparr> pl_offset = 0, pl_stride = 64, pl_size = 128 \<rparr>] \<rparr>"

text \<open>An upload to a buffer, then an empty render pass.\<close>

definition sample_input :: CompileInput where
  "sample_input = \<lparr> ci_capabilities = capabilities_a618 0x80000 64,
     ci_resources = [\<lparr> rm_id = 7, rm_size = 64, rm_kind = BufferKind 1 \<rparr>,
       \<lparr> rm_id = 8, rm_size = 128, rm_kind = ImageKind (image_meta None) \<rparr>],
     ci_pipelines = [],
     ci_operations = [WriteBuffer 7 16 [1, 2, 3, 4],
       BeginRenderPass \<lparr> rp_target = 8, rp_area = \<lparr> rect_x = 0, rect_y = 0, rect_width = 16, rect_height = 2 \<rparr>,
         rp_load = OtherLoad 0, rp_depth = None \<rparr>,
       EndRenderPass] \<rparr>"

text \<open>A packed image with a colour conversion, and a write to it.\<close>

definition converted_input :: CompileInput where
  "converted_input = \<lparr> ci_capabilities = capabilities_a618 0x80000 64,
     ci_resources = [\<lparr> rm_id = 8, rm_size = 128, rm_kind = ImageKind (image_meta
       (Some \<lparr> yc_matrix = Bt601, yc_range = Full, chroma_x = Cosited, chroma_y = Cosited \<rparr>)) \<rparr>],
     ci_pipelines = [],
     ci_operations = [WriteTexture 8 \<lparr> rect_x = 0, rect_y = 0, rect_width = 1, rect_height = 1 \<rparr> 4 [1, 2, 3, 4]] \<rparr>"

lemmas compile_eval = compile_def validate_tables_def capabilities_a618_def Let_def image_meta_def bit_sgfx_def
  validate_image_layout_def index_def is_some_and_def is_none_or_def checked_mul_def checked_add_def required_plane_size_def
  find_resource_def require_image_surface_def require_target_surface_def require_outside_pass_def state_new_def

lemma image_meta_layout: "validate_image_layout bit_sgfx 128 (image_meta conv) 0x003fffc0 = Ok ()"
  by (simp add: compile_eval)

lemma sample_tables: "validate_tables bit_sgfx sample_input = Ok ()"
  using image_meta_layout [of None] by (simp add: validate_tables_def sample_input_def capabilities_a618_def Let_def)

lemma converted_tables: "validate_tables bit_sgfx converted_input = Ok ()"
  using image_meta_layout by (simp add: validate_tables_def converted_input_def capabilities_a618_def Let_def)

definition sample_stream :: RelocatablePm4 where
  "sample_stream = \<lparr> rp_words = upload_words, rp_fixups = em_fixups uploaded,
     rp_accesses = em_accesses uploaded, rp_generated_objects = em_generated uploaded \<rparr>"

lemma sample_upload:
  "op_write_buffer bit_sgfx (\<lambda>_. True) sample_input 7 16 [1, 2, 3, 4] (state_new, emitter_new 64) = Ok (state_new, uploaded)"
  using uploaded_step
  by (simp add: op_write_buffer_def require_outside_pass_def state_new_def sample_input_def find_resource_def
      require_buffer_usage_def bit_sgfx_def validate_range_def is_none_or_def checked_add_def emit_with_def)

lemma sample_target:
  "require_target_surface bit_sgfx \<lparr> rm_id = 8, rm_size = 128, rm_kind = ImageKind (image_meta None) \<rparr> 8 0x003fffc0 =
     Ok \<lparr> sf_nv12 = None, sf_mip_levels = 1, sf_array_pitch = 128, sf_object = 8, sf_plane_offset = 0, sf_plane_size = 128,
       sf_width = 16, sf_height = 2, sf_stride = 64, sf_tile_mode = 0, sf_alpha_mask = False \<rparr>"
  using image_meta_layout [of None]
  by (simp add: require_target_surface_def require_image_surface_def index_def image_meta_def bit_sgfx_def)

lemma sample_compiles: "compile bit_sgfx (\<lambda>_. True) sample_input = Ok sample_stream"
proof -
  have pass: "op_begin_render_pass bit_sgfx (\<lambda>_. True) sample_input \<lparr> rp_target = 8,
      rp_area = \<lparr> rect_x = 0, rect_y = 0, rect_width = 16, rect_height = 2 \<rparr>, rp_load = OtherLoad 0, rp_depth = None \<rparr>
      (state_new, uploaded) = Ok (state_new \<lparr> st_pass := Some \<lparr> ps_target = 8,
        ps_area = \<lparr> rect_x = 0, rect_y = 0, rect_width = 16, rect_height = 2 \<rparr>, ps_depth = None \<rparr> \<rparr>, uploaded)"
    using sample_target
    by (simp add: op_begin_render_pass_def state_new_def sample_input_def find_resource_def capabilities_a618_def bit_sgfx_def
        validate_rect_def is_none_or_def checked_add_def pass_depth_def pass_clears_def clear_bindings_def)
  have ops: "ci_operations sample_input = [WriteBuffer 7 16 [1, 2, 3, 4],
       BeginRenderPass \<lparr> rp_target = 8, rp_area = \<lparr> rect_x = 0, rect_y = 0, rect_width = 16, rect_height = 2 \<rparr>,
         rp_load = OtherLoad 0, rp_depth = None \<rparr>, EndRenderPass]"
    and words: "max_pm4_words (ci_capabilities sample_input) = 64"
    by (simp_all add: sample_input_def capabilities_a618_def)
  have "\<not> st_draw_batch_started state_new" by (simp add: state_new_def)
  then show ?thesis
    unfolding compile_def sample_tables ops words sample_stream_def
    using uploaded_finish
    by (simp add: sample_upload pass op_end_render_pass_def clear_bindings_def)
qed

lemma sample_planar: "conversions_planar (ci_resources sample_input)"
  by (simp add: conversions_planar_def sample_input_def image_meta_def)

section \<open>Properties\<close>

text \<open>C2. A compiled stream reaches only what the input declares: every placeholder and every recorded
  access of an external object names a resource of the table, lies within its size, and is one the
  resource was created for: vertex and index buffers are read, upload buffers written, images read as
  copy sources or sampled textures and written as copy destinations or attachments.\<close>

theorem compiled_stream_confined:
  assumes "sgfx_sizes S" and "compile S alloc inp = Ok p"
  shows "(\<forall>f \<in> set (rp_fixups p). \<forall>e. fx_object f = External e \<longrightarrow>
      (\<exists>r \<in> set (ci_resources inp). rm_id r = e \<and> authorised S r (fx_access f) \<and>
         unat (fx_object_offset f) + unat (fx_required_size f) \<le> unat (rm_size r))) \<and>
    (\<forall>a \<in> set (rp_accesses p). \<forall>e. ra_object a = External e \<longrightarrow>
      (\<exists>r \<in> set (ci_resources inp). rm_id r = e \<and> authorised S r (ra_access a) \<and>
         unat (ra_offset a) + unat (ra_size a) \<le> unat (rm_size r)))"
proof -
  obtain em where "within (limits S (ci_resources inp)) em" "emit_finish alloc em = Ok p"
    using compile_runD [OF assms(2)] assms(1) by metis
  note in_limits = emit_finish_keeps [OF this]
  show ?thesis
  proof (intro conjI ballI allI impI)
    fix f e assume "f \<in> set (rp_fixups p)" "fx_object f = External e"
    then have "permits (limits S (ci_resources inp)) (External e) (fx_object_offset f) (fx_required_size f) (fx_access f)"
      using in_limits by metis
    from permits_declared [OF this] show "\<exists>r \<in> set (ci_resources inp). rm_id r = e \<and> authorised S r (fx_access f) \<and>
        unat (fx_object_offset f) + unat (fx_required_size f) \<le> unat (rm_size r)" by blast
  next
    fix a e assume "a \<in> set (rp_accesses p)" "ra_object a = External e"
    then have "permits (limits S (ci_resources inp)) (External e) (ra_offset a) (ra_size a) (ra_access a)"
      using in_limits by metis
    from permits_declared [OF this] show "\<exists>r \<in> set (ci_resources inp). rm_id r = e \<and> authorised S r (ra_access a) \<and>
        unat (ra_offset a) + unat (ra_size a) \<le> unat (rm_size r)" by blast
  qed
qed

theorem compiled_stream_confined_witness:
  "sgfx_sizes bit_sgfx \<and> compile bit_sgfx (\<lambda>_. True) sample_input = Ok sample_stream \<and>
   (\<exists>r \<in> set (ci_resources sample_input). rm_id r = 7 \<and> authorised bit_sgfx r ACC_WRITE \<and> 20 \<le> unat (rm_size r))"
proof -
  have "\<lparr> ra_object = External 7, ra_offset = 16, ra_size = 4, ra_access = ACC_WRITE \<rparr> \<in> set (rp_accesses sample_stream)"
    by (simp add: sample_stream_def uploaded_def)
  then show ?thesis
    using compiled_stream_confined [OF bit_sgfx_sizes sample_compiles] bit_sgfx_sizes sample_compiles by fastforce
qed

text \<open>C11. \<open>compile\<close> does not panic on tables whose colour conversions are on NV12 images, whatever the
  operations; and a stream it returns is the result of \<open>finish\<close> after a run of the emitter's commands
  with the word budget of the device, so what holds of finished streams holds of it.\<close>

theorem compile_total:
  assumes "sgfx_sizes S" and "conversions_planar (ci_resources inp)"
  shows "compile S alloc inp \<noteq> Panic \<and> (\<forall>p. compile S alloc inp = Ok p \<longrightarrow>
    (\<exists>em. emitter_run alloc (max_pm4_words (ci_capabilities inp)) em \<and> emit_finish alloc em = Ok p))"
proof (intro conjI allI impI)
  let ?new = "emitter_new (max_pm4_words (ci_capabilities inp))"
  have fin: "emit_finish alloc em \<noteq> Panic"
    if "foldM (\<lambda>cs op. operate S alloc inp op cs) (state_new, ?new) (ci_operations inp) = Ok (st, em)" for st em
  proof -
    have "emitter_run alloc (max_pm4_words (ci_capabilities inp)) em"
      using operations_advance [OF that] run_new by (simp add: advances_def)
    from ensures_no_panic [OF finish_ok(1) [OF run_ready [OF this] budget_bound]] show ?thesis .
  qed
  have "foldM (\<lambda>cs op. operate S alloc inp op cs) (state_new, ?new) (ci_operations inp) \<noteq> Panic"
    by (rule operations_no_panic [OF assms(2,1), where b = "max_pm4_words (ci_capabilities inp)"]) (simp add: run_new)
  then show "compile S alloc inp \<noteq> Panic"
    using fin by (auto simp: compile_def andThen_eq_Panic validate_tables_no_panic split: if_splits)
  show "\<exists>em. emitter_run alloc (max_pm4_words (ci_capabilities inp)) em \<and> emit_finish alloc em = Ok p"
    if "compile S alloc inp = Ok p" for p
    using compile_runD [OF that] by metis
qed

theorem compile_total_witness:
  "sgfx_sizes bit_sgfx \<and> conversions_planar (ci_resources sample_input) \<and>
   (\<exists>em. emitter_run (\<lambda>_. True) (max_pm4_words (ci_capabilities sample_input)) em \<and>
     emit_finish (\<lambda>_. True) em = Ok sample_stream)"
  using compile_total [OF bit_sgfx_sizes sample_planar] bit_sgfx_sizes sample_planar sample_compiles by blast

text \<open>C10. The compiler accepts a list of operations only if it follows the protocol of render passes and
  ends outside a pass.\<close>

theorem compile_follows_protocol:
  assumes "compile S alloc inp = Ok p"
  shows "follows (ci_pipelines inp) (ci_operations inp) None = Some None"
proof -
  obtain st em where "foldM (\<lambda>cs op. operate S alloc inp op cs)
      (state_new, emitter_new (max_pm4_words (ci_capabilities inp))) (ci_operations inp) = Ok (st, em)" "st_pass st = None"
    using assms by (auto simp: compile_def andThen_eq_Ok split: if_splits)
  from operations_protocol [OF this(1)] this(2) show ?thesis by (simp add: bound_of_def state_new_def)
qed

theorem compile_follows_protocol_witness:
  "compile bit_sgfx (\<lambda>_. True) sample_input = Ok sample_stream \<and>
   follows [] (ci_operations sample_input) None = Some None \<and> follows [] [DrawOp 3 0] (Some unbound) = None"
  using compile_follows_protocol [OF sample_compiles] sample_compiles
  by (simp add: sample_input_def drawable_def unbound_def)

text \<open>C29. The table check accepts a packed image with a colour conversion, and the first use of that image
  panics: the surface reads a second plane that the layout check does not require.\<close>

theorem packed_conversion_panics:
  "validate_tables bit_sgfx converted_input = Ok () \<and> compile bit_sgfx (\<lambda>_. True) converted_input = Panic"
proof
  show "validate_tables bit_sgfx converted_input = Ok ()" by (rule converted_tables)
  then show "compile bit_sgfx (\<lambda>_. True) converted_input = Panic"
    using image_meta_layout
    by (simp add: compile_def converted_input_def op_write_texture_def require_outside_pass_def state_new_def
        emit_with_def emit_texture_upload_def find_resource_def require_image_surface_def image_meta_def
        capabilities_a618_def bit_sgfx_def index_def)
qed

end
