(* ===== verification/Hid_Touch.thy ===== *)
theory Hid_Touch
  imports Rust_Bytes
begin

text \<open>
  The HID layer of the touchscreen driver (\<open>drivers/input/touchscreen/goodix-gt7375p/src/hid.rs\<close>): the
  parser of report descriptors, the decoder of input reports and the assignment of contacts to slots.
  The error values are the messages of the source.
\<close>

definition MAX_REPORT_FIELD_BITS :: usize where "MAX_REPORT_FIELD_BITS = 32"
definition MAX_INPUT_REPORT_BITS :: usize where "MAX_INPUT_REPORT_BITS = 4096"
definition MAX_INPUT_REPORT_FIELDS :: usize where "MAX_INPUT_REPORT_FIELDS = 4096"

definition encode_simple_command :: "u16 \<Rightarrow> u8 \<Rightarrow> u8 list" where
  "encode_simple_command command_register opcode =
     [ucast command_register, ucast (drop_bit 8 command_register), 0, opcode]"

definition decode_input_length :: "u8 list \<Rightarrow> usize option" where
  "decode_input_length buffer =
     Option.bind (first buffer) (\<lambda>low.
     Option.bind (get_at buffer 1) (\<lambda>high.
     Some (unat (ucast low OR push_bit 8 (ucast high) :: u16))))"

section \<open>Data\<close>

record HidField =
  hf_report_id :: u8
  hf_bit_offset :: usize
  hf_bit_size :: usize
  hf_logical_minimum :: i32
  hf_logical_maximum :: i32

record HidTouchLayout =
  tl_report_id :: u8
  tl_tips :: "HidField list"
  tl_contact_ids :: "HidField list"
  tl_x :: "HidField list"
  tl_y :: "HidField list"
  tl_pressure :: "HidField list"
  tl_touch_major :: "HidField list"
  tl_contact_count :: "HidField option"

record HidContact =
  hc_descriptor_slot :: usize
  hc_hardware_id :: "i32 option"
  hc_x :: i32
  hc_y :: i32
  hc_pressure :: "i32 option"
  hc_touch_major :: "i32 option"

datatype ContactIdentity = Hardware i32 | Descriptor usize

record TouchSlot =
  ts_identity :: ContactIdentity
  ts_tracking_id :: i32
  ts_seen :: bool

record SlotUpdate =
  su_slot :: usize
  su_tracking_id :: i32
  su_began :: bool
  su_contact :: HidContact

record TouchFrame =
  tf_updates :: "SlotUpdate list"
  tf_releases :: "usize list"
  tf_primary :: "HidContact option"
  tf_any_contact :: bool

record SlotTracker =
  st_slots :: "TouchSlot option list"
  st_next_tracking_id :: i32

definition contact_capacity :: "HidTouchLayout \<Rightarrow> usize" where
  "contact_capacity l = min (min (length (tl_tips l)) (length (tl_x l))) (length (tl_y l))"

section \<open>Slots\<close>

definition tracker_new :: "usize \<Rightarrow> SlotTracker" where
  "tracker_new slot_count = \<lparr> st_slots = replicate slot_count None, st_next_tracking_id = 1 \<rparr>"

definition contact_identity :: "HidContact \<Rightarrow> ContactIdentity" where
  "contact_identity c =
     (case hc_hardware_id c of Some h \<Rightarrow> Hardware h | None \<Rightarrow> Descriptor (hc_descriptor_slot c))"

definition I32_MAX :: i32 where "I32_MAX = 0x7fffffff"

definition allocate_tracking_id :: "SlotTracker \<Rightarrow> i32 \<times> SlotTracker" where
  "allocate_tracking_id t =
     (let tracking_id = st_next_tracking_id t
      in (tracking_id, t \<lparr> st_next_tracking_id := (if tracking_id = I32_MAX then 1 else tracking_id + 1) \<rparr>))"

text \<open>\<open>iter().position(p)\<close>.\<close>

fun position :: "('a \<Rightarrow> bool) \<Rightarrow> 'a list \<Rightarrow> usize option" where
  "position p [] = None"
| "position p (x # xs) = (if p x then Some 0 else map_option Suc (position p xs))"

definition holds :: "ContactIdentity \<Rightarrow> bool \<Rightarrow> TouchSlot option \<Rightarrow> bool" where
  "holds identity seen slot = (case slot of Some s \<Rightarrow> ts_identity s = identity \<and> ts_seen s = seen | None \<Rightarrow> False)"

definition clear_seen :: "TouchSlot option list \<Rightarrow> TouchSlot option list" where
  "clear_seen slots = map (map_option (\<lambda>s. s \<lparr> ts_seen := False \<rparr>)) slots"

text \<open>One contact: the body of the first loop of \<open>apply\<close>.\<close>

definition apply_contact :: "SlotTracker \<times> SlotUpdate list \<Rightarrow> HidContact \<Rightarrow>
    (string, SlotTracker \<times> SlotUpdate list) outcome" where
  "apply_contact = (\<lambda>(t, updates) contact.
     let identity = contact_identity contact;
         existing = position (holds identity False) (st_slots t);
         identity = (if existing = None \<and> list_ex (holds identity True) (st_slots t)
                     then Descriptor (hc_descriptor_slot contact) else identity)
     in case (case existing of Some i \<Rightarrow> Some i | None \<Rightarrow> position (\<lambda>s. s = None) (st_slots t)) of
          None \<Rightarrow> Ok (t, updates)
        | Some i \<Rightarrow>
            andThen (index (st_slots t) i) (\<lambda>slot.
            let began = (slot = None);
                t = (case slot of
                    None \<Rightarrow> (case allocate_tracking_id t of (tracking_id, t) \<Rightarrow>
                      t \<lparr> st_slots := (st_slots t)[i := Some \<lparr> ts_identity = identity,
                        ts_tracking_id = tracking_id, ts_seen = True \<rparr>] \<rparr>)
                  | Some s \<Rightarrow> t \<lparr> st_slots := (st_slots t)[i := Some (s \<lparr> ts_seen := True \<rparr>)] \<rparr>)
            in andThen (index (st_slots t) i) (\<lambda>slot.
               case slot of
                 None \<Rightarrow> Panic
               | Some s \<Rightarrow> Ok (t, updates @ [\<lparr> su_slot = i, su_tracking_id = ts_tracking_id s,
                   su_began = began, su_contact = contact \<rparr>]))))"

definition unseen :: "TouchSlot option \<Rightarrow> bool" where
  "unseen slot = (case slot of Some s \<Rightarrow> \<not> ts_seen s | None \<Rightarrow> False)"

text \<open>The second loop of \<open>apply\<close>: slots no contact named are released.\<close>

definition release_slots :: "TouchSlot option list \<Rightarrow> TouchSlot option list \<times> usize list" where
  "release_slots slots =
     (map (\<lambda>s. if unseen s then None else s) slots, filter (\<lambda>i. unseen (slots ! i)) [0..<length slots])"

definition apply_frame :: "SlotTracker \<Rightarrow> HidContact list \<Rightarrow> (string, SlotTracker \<times> TouchFrame) outcome" where
  "apply_frame t contacts =
     andThen (foldM apply_contact (t \<lparr> st_slots := clear_seen (st_slots t) \<rparr>, []) contacts) (\<lambda>(t, updates).
     case release_slots (st_slots t) of (slots, releases) \<Rightarrow>
     Ok (t \<lparr> st_slots := slots \<rparr>,
         \<lparr> tf_updates = updates, tf_releases = releases, tf_primary = first contacts,
           tf_any_contact = (contacts \<noteq> []) \<rparr>))"

section \<open>Descriptor items\<close>

record HidGlobals =
  hg_usage_page :: u32
  hg_logical_minimum :: i32
  hg_logical_maximum_raw :: u32
  hg_logical_maximum_size :: usize
  hg_report_size :: usize
  hg_report_count :: usize
  hg_report_id :: u8

definition globals_new :: HidGlobals where
  "globals_new = \<lparr> hg_usage_page = 0, hg_logical_minimum = 0, hg_logical_maximum_raw = 0,
     hg_logical_maximum_size = 0, hg_report_size = 0, hg_report_count = 0, hg_report_id = 0 \<rparr>"

definition little_endian_item :: "u8 list \<Rightarrow> u32" where
  "little_endian_item bs = fold (\<lambda>(i, b) v. v OR push_bit (i * 8) (ucast b)) (enumerate 0 bs) 0"

definition sign_extend_item :: "u32 \<Rightarrow> usize \<Rightarrow> (string, i32) outcome" where
  "sign_extend_item v n =
     (if n = 0 then Ok 0
      else if n = 1 then Ok (scast (ucast v :: u8))
      else if n = 2 then Ok (scast (ucast v :: u16))
      else if n = 4 then Ok v
      else Panic)"

definition sign_extend_bits :: "u32 \<Rightarrow> usize \<Rightarrow> i32" where
  "sign_extend_bits v bits = (let shift = 32 - bits in signed_drop_bit shift (push_bit shift v))"

definition logical_maximum :: "HidGlobals \<Rightarrow> (string, i32) outcome" where
  "logical_maximum g =
     (if sint (hg_logical_minimum g) < 0
      then sign_extend_item (hg_logical_maximum_raw g) (hg_logical_maximum_size g)
      else if hg_logical_maximum_raw g \<le> I32_MAX then Ok (hg_logical_maximum_raw g)
      else Err ''goodix: HID logical maximum exceeds i32'')"

text \<open>The variables of \<open>parse_touch_layout\<close>; the last element of a stack is its top.\<close>

record Parser =
  pa_globals :: HidGlobals
  pa_global_stack :: "HidGlobals list"
  pa_usages :: "u32 list"
  pa_usage_minimum :: "u32 option"
  pa_usage_maximum :: "u32 option"
  pa_input_offsets :: "usize list"
  pa_tips :: "HidField list"
  pa_contact_ids :: "HidField list"
  pa_x :: "HidField list"
  pa_y :: "HidField list"
  pa_pressure :: "HidField list"
  pa_touch_major :: "HidField list"
  pa_contact_counts :: "HidField list"
  pa_touch_collections :: "bool list"

definition parser_new :: Parser where
  "parser_new = \<lparr> pa_globals = globals_new, pa_global_stack = [], pa_usages = [], pa_usage_minimum = None,
     pa_usage_maximum = None, pa_input_offsets = replicate 256 0, pa_tips = [], pa_contact_ids = [], pa_x = [],
     pa_y = [], pa_pressure = [], pa_touch_major = [], pa_contact_counts = [], pa_touch_collections = [] \<rparr>"

definition clear_usages :: "Parser \<Rightarrow> Parser" where
  "clear_usages p = p \<lparr> pa_usages := [], pa_usage_minimum := None, pa_usage_maximum := None \<rparr>"

definition in_touch :: "Parser \<Rightarrow> bool" where
  "in_touch p = (if pa_touch_collections p = [] then False else last (pa_touch_collections p))"

definition field_usage :: "Parser \<Rightarrow> usize \<Rightarrow> u32 option" where
  "field_usage p i =
     (case get_at (pa_usages p) i of
        Some u \<Rightarrow> Some u
      | None \<Rightarrow>
          Option.bind (pa_usage_minimum p) (\<lambda>minimum.
          Option.bind (pa_usage_maximum p) (\<lambda>maximum.
          Option.bind (checked_add minimum (of_nat i)) (\<lambda>u.
          if u \<le> maximum then Some u else None))))"

definition recognized :: "u32 \<Rightarrow> u32 \<Rightarrow> bool" where
  "recognized page usage \<longleftrightarrow>
     (page, usage) \<in> {(0x0d, 0x42), (0x0d, 0x51), (0x01, 0x30), (0x01, 0x31), (0x0d, 0x30), (0x0d, 0x48), (0x0d, 0x54)}"

definition push_field :: "u32 \<Rightarrow> u32 \<Rightarrow> HidField \<Rightarrow> Parser \<Rightarrow> (string, Parser) outcome" where
  "push_field page usage f p =
     (if (page, usage) = (0x0d, 0x42) then Ok (p \<lparr> pa_tips := pa_tips p @ [f] \<rparr>)
      else if (page, usage) = (0x0d, 0x51) then Ok (p \<lparr> pa_contact_ids := pa_contact_ids p @ [f] \<rparr>)
      else if (page, usage) = (0x01, 0x30) then Ok (p \<lparr> pa_x := pa_x p @ [f] \<rparr>)
      else if (page, usage) = (0x01, 0x31) then Ok (p \<lparr> pa_y := pa_y p @ [f] \<rparr>)
      else if (page, usage) = (0x0d, 0x30) then Ok (p \<lparr> pa_pressure := pa_pressure p @ [f] \<rparr>)
      else if (page, usage) = (0x0d, 0x48) then Ok (p \<lparr> pa_touch_major := pa_touch_major p @ [f] \<rparr>)
      else if (page, usage) = (0x0d, 0x54) then Ok (p \<lparr> pa_contact_counts := pa_contact_counts p @ [f] \<rparr>)
      else Panic)"

text \<open>One iteration of the field loop of an input item.\<close>

definition input_field :: "bool \<Rightarrow> Parser \<Rightarrow> usize \<Rightarrow> (string, Parser) outcome" where
  "input_field is_variable_data p i =
     (let g = pa_globals p; r = unat (hg_report_id g) in
      andThen (index (pa_input_offsets p) r) (\<lambda>off.
      andThen (case (if is_variable_data then field_usage p i else None) of
          None \<Rightarrow> Ok p
        | Some usage \<Rightarrow>
            if recognized (hg_usage_page g) usage then
              if \<not> (1 \<le> hg_report_size g \<and> hg_report_size g \<le> MAX_REPORT_FIELD_BITS)
              then Err ''goodix: HID touch field size exceeds limit''
              else andThen (logical_maximum g) (\<lambda>maximum.
                push_field (hg_usage_page g) usage
                  \<lparr> hf_report_id = hg_report_id g, hf_bit_offset = off, hf_bit_size = hg_report_size g,
                    hf_logical_minimum = hg_logical_minimum g, hf_logical_maximum = maximum \<rparr> p)
            else Ok p) (\<lambda>p.
      andThen (ok_or (usize_checked_add off (hg_report_size g)) ''goodix: HID input report is too large'') (\<lambda>off.
      Ok (p \<lparr> pa_input_offsets := (pa_input_offsets p)[r := off] \<rparr>)))))"

text \<open>A failed \<open>debug_assert_eq\<close> is a panic.\<close>

definition input_item :: "u32 \<Rightarrow> Parser \<Rightarrow> (string, Parser) outcome" where
  "input_item v p =
     (let g = pa_globals p in
      andThen (index (pa_input_offsets p) (unat (hg_report_id g))) (\<lambda>off.
      if hg_report_count g > MAX_INPUT_REPORT_FIELDS then Err ''goodix: HID input field count exceeds limit''
      else
        andThen (ok_or (Option.bind (usize_checked_mul (hg_report_size g) (hg_report_count g)) (\<lambda>bits.
          Option.bind (usize_checked_add off bits) (\<lambda>e. if e \<le> MAX_INPUT_REPORT_BITS then Some e else None)))
          ''goodix: HID input report exceeds limit'') (\<lambda>input_bits.
        andThen (foldM (input_field (in_touch p \<and> v AND 0x03 = 0x02)) p [0..<hg_report_count g]) (\<lambda>p.
        if pa_input_offsets p ! unat (hg_report_id g) = input_bits then Ok (clear_usages p) else Panic))))"

definition hid_item :: "u8 \<Rightarrow> u8 \<Rightarrow> usize \<Rightarrow> u32 \<Rightarrow> Parser \<Rightarrow> (string, Parser) outcome" where
  "hid_item item_type tag n v p =
     (let g = pa_globals p in
      if item_type = 1 then
        if tag = 0 then Ok (p \<lparr> pa_globals := g \<lparr> hg_usage_page := v \<rparr> \<rparr>)
        else if tag = 1 then andThen (sign_extend_item v n) (\<lambda>m. Ok (p \<lparr> pa_globals := g \<lparr> hg_logical_minimum := m \<rparr> \<rparr>))
        else if tag = 2 then Ok (p \<lparr> pa_globals := g \<lparr> hg_logical_maximum_raw := v, hg_logical_maximum_size := n \<rparr> \<rparr>)
        else if tag = 7 then Ok (p \<lparr> pa_globals := g \<lparr> hg_report_size := unat v \<rparr> \<rparr>)
        else if tag = 8 \<and> v \<le> 0xff then
          andThen (index (pa_input_offsets p) (unat v)) (\<lambda>off.
          Ok (p \<lparr> pa_globals := g \<lparr> hg_report_id := ucast v \<rparr>,
                  pa_input_offsets := (pa_input_offsets p)[unat v := max off 8] \<rparr>))
        else if tag = 9 then Ok (p \<lparr> pa_globals := g \<lparr> hg_report_count := unat v \<rparr> \<rparr>)
        else if tag = 10 then Ok (p \<lparr> pa_global_stack := pa_global_stack p @ [g] \<rparr>)
        else if tag = 11 then
          (if pa_global_stack p = [] then Err ''goodix: unbalanced HID global pop''
           else Ok (p \<lparr> pa_globals := last (pa_global_stack p), pa_global_stack := butlast (pa_global_stack p) \<rparr>))
        else Ok p
      else if item_type = 2 then
        if tag = 0 then Ok (p \<lparr> pa_usages := pa_usages p @ [v] \<rparr>)
        else if tag = 1 then Ok (p \<lparr> pa_usage_minimum := Some v \<rparr>)
        else if tag = 2 then Ok (p \<lparr> pa_usage_maximum := Some v \<rparr>)
        else Ok p
      else if item_type = 0 then
        if tag = 10 then
          Ok (clear_usages (p \<lparr> pa_touch_collections := pa_touch_collections p @
            [in_touch p \<or> (hg_usage_page g = 0x0d \<and> first (pa_usages p) = Some 0x04)] \<rparr>))
        else if tag = 12 then
          (if pa_touch_collections p = [] then Err ''goodix: unbalanced HID collection''
           else Ok (clear_usages (p \<lparr> pa_touch_collections := butlast (pa_touch_collections p) \<rparr>)))
        else if tag = 8 then input_item v p
        else Ok (clear_usages p)
      else Ok p)"

section \<open>Descriptors and reports\<close>

text \<open>The item loop; every round moves the cursor.\<close>

function parse_items :: "u8 list \<Rightarrow> usize \<Rightarrow> Parser \<Rightarrow> (string, Parser) outcome" where
  "parse_items descriptor cursor p =
     (if cursor < length descriptor then
        let prefix = descriptor ! cursor; cursor' = cursor + 1 in
        if prefix = 0xfe then
          (case get_at descriptor cursor' of
             None \<Rightarrow> Err ''goodix: truncated HID long item''
           | Some n \<Rightarrow>
               (case usize_checked_add cursor' (2 + unat n) of
                  None \<Rightarrow> Err ''goodix: malformed HID long item''
                | Some e \<Rightarrow>
                    if e \<le> length descriptor then parse_items descriptor e p
                    else Err ''goodix: malformed HID long item''))
        else
          let n = (if prefix AND 0x03 = 3 then 4 else unat (prefix AND 0x03)) in
          (case get_range descriptor cursor' (cursor' + n) of
             None \<Rightarrow> Err ''goodix: truncated HID item''
           | Some bs \<Rightarrow>
               (case hid_item (drop_bit 2 prefix AND 0x03) (drop_bit 4 prefix) n (little_endian_item bs) p of
                  Ok p' \<Rightarrow> parse_items descriptor (cursor' + n) p'
                | Err e \<Rightarrow> Err e
                | Panic \<Rightarrow> Panic))
      else Ok p)"
  by pat_completeness auto

termination
  by (relation "measure (\<lambda>(descriptor, cursor, p). length descriptor - cursor)")
    (auto simp: usize_checked_add_def split: if_splits)

declare parse_items.simps [simp del]

definition touch_report_id :: "Parser \<Rightarrow> u8 option" where
  "touch_report_id p =
     find (\<lambda>r. list_ex (\<lambda>f. hf_report_id f = r) (pa_y p)) (map hf_report_id (pa_x p))"

definition parse_touch_layout :: "u8 list \<Rightarrow> (string, HidTouchLayout) outcome" where
  "parse_touch_layout descriptor =
     andThen (parse_items descriptor 0 parser_new) (\<lambda>p.
     andThen (ok_or (touch_report_id p) ''goodix: HID descriptor has no touchscreen X/Y report'') (\<lambda>r.
     let keep = filter (\<lambda>f. hf_report_id f = r) in
     if keep (pa_tips p) = [] \<or> keep (pa_x p) = [] \<or> keep (pa_y p) = []
     then Err ''goodix: incomplete HID touchscreen report''
     else Ok \<lparr> tl_report_id = r, tl_tips = keep (pa_tips p), tl_contact_ids = keep (pa_contact_ids p),
       tl_x = keep (pa_x p), tl_y = keep (pa_y p), tl_pressure = keep (pa_pressure p),
       tl_touch_major = keep (pa_touch_major p),
       tl_contact_count = find (\<lambda>f. hf_report_id f = r) (pa_contact_counts p) \<rparr>))"

fun extract_loop :: "u8 list \<Rightarrow> usize \<Rightarrow> usize list \<Rightarrow> u32 \<Rightarrow> u32 option" where
  "extract_loop report off [] v = Some v"
| "extract_loop report off (b # bs) v =
     Option.bind (usize_checked_add off b) (\<lambda>source.
     Option.bind (get_at report (source div 8)) (\<lambda>byte.
     extract_loop report off bs (v OR push_bit b (ucast (drop_bit (source mod 8) byte AND 1)))))"

definition extract_bits :: "u8 list \<Rightarrow> HidField \<Rightarrow> u32 option" where
  "extract_bits report f =
     (if hf_bit_size f = 0 \<or> hf_bit_size f > 32 then None
      else extract_loop report (hf_bit_offset f) [0..<hf_bit_size f] 0)"

definition extract_logical_value :: "u8 list \<Rightarrow> HidField \<Rightarrow> i32 option" where
  "extract_logical_value report f =
     Option.bind (extract_bits report f) (\<lambda>raw.
     if sint (hf_logical_minimum f) < 0 then Some (sign_extend_bits raw (hf_bit_size f))
     else if raw \<le> I32_MAX then Some raw else None)"

definition optional_value :: "u8 list \<Rightarrow> HidField list \<Rightarrow> usize \<Rightarrow> string \<Rightarrow> (string, i32 option) outcome" where
  "optional_value report fs slot e =
     (case get_at fs slot of
        Some f \<Rightarrow> andThen (ok_or (extract_logical_value report f) e) (\<lambda>v. Ok (Some v))
      | None \<Rightarrow> Ok None)"

definition decode_contact :: "u8 list \<Rightarrow> HidTouchLayout \<Rightarrow> HidContact list \<Rightarrow> usize \<Rightarrow>
    (string, HidContact list) outcome" where
  "decode_contact report l contacts slot =
     andThen (index (tl_tips l) slot) (\<lambda>tip_field.
     andThen (ok_or (extract_bits report tip_field) ''goodix: malformed HID tip field'') (\<lambda>tip.
     if tip = 0 then Ok contacts
     else
       andThen (index (tl_x l) slot) (\<lambda>x_field.
       andThen (ok_or (extract_logical_value report x_field) ''goodix: malformed HID X field'') (\<lambda>x.
       andThen (index (tl_y l) slot) (\<lambda>y_field.
       andThen (ok_or (extract_logical_value report y_field) ''goodix: malformed HID Y field'') (\<lambda>y.
       andThen (optional_value report (tl_contact_ids l) slot ''goodix: malformed HID contact identifier'') (\<lambda>hardware_id.
       andThen (optional_value report (tl_pressure l) slot ''goodix: malformed HID pressure field'') (\<lambda>pressure.
       andThen (optional_value report (tl_touch_major l) slot ''goodix: malformed HID touch-major field'') (\<lambda>touch_major.
       Ok (contacts @ [\<lparr> hc_descriptor_slot = slot, hc_hardware_id = hardware_id, hc_x = x, hc_y = y,
         hc_pressure = pressure, hc_touch_major = touch_major \<rparr>]))))))))))"

definition decode_contacts :: "u8 list \<Rightarrow> HidTouchLayout \<Rightarrow> (string, HidContact list) outcome" where
  "decode_contacts report l =
     andThen (case tl_contact_count l of
         Some f \<Rightarrow> andThen (ok_or (extract_bits report f) ''goodix: malformed HID contact count'') (\<lambda>n. Ok (unat n))
       | None \<Rightarrow> Ok (contact_capacity l)) (\<lambda>reported_count.
     foldM (decode_contact report l) [] [0..<min reported_count (contact_capacity l)])"

end
