(* ===== verification/Hid_Rules.thy ===== *)
theory Hid_Rules
  imports Hid_Touch "HOL-Library.Multiset"
begin

text \<open>
  Correctness of the touchscreen's HID layer: the parser never panics and its fields are disjoint
  ranges of a bounded report, a field is the number in its bits of the report, and the slot tracker
  keeps contacts in their slots.
\<close>

section \<open>Bit fields\<close>

text \<open>A report as a number, least significant byte first.\<close>

fun report_value :: "u8 list \<Rightarrow> nat" where
  "report_value [] = 0"
| "report_value (b # bs) = unat b + 256 * report_value bs"

lemma bit_byte_cons:
  assumes "a < 256"
  shows "bit (a + 256 * c :: nat) k \<longleftrightarrow> (if k < 8 then bit a k else bit c (k - 8))"
proof (cases "k < 8")
  case True
  have "(256 :: nat) = 2 ^ k * 2 ^ (8 - k)" using True by (simp flip: power_add)
  then have "a + 256 * c = a + 2 ^ k * (2 ^ (8 - k) * c)" by (simp flip: mult.assoc)
  then have "(a + 256 * c) div 2 ^ k = a div 2 ^ k + 2 ^ (8 - k) * c" by (simp only: div_mult_self2) simp
  then show ?thesis using True by (simp add: bit_iff_odd)
next
  case False
  have "(2 :: nat) ^ k = 256 * 2 ^ (k - 8)" using False power_add [of "2 :: nat" 8 "k - 8"] by simp
  then have "(a + 256 * c) div 2 ^ k = c div 2 ^ (k - 8)" using assms by (simp add: div_mult2_eq)
  then show ?thesis using False by (simp add: bit_iff_odd)
qed

lemma bit_report_value:
  "bit (report_value bs) k \<longleftrightarrow> k div 8 < length bs \<and> bit (bs ! (k div 8)) (k mod 8)"
proof (induction bs arbitrary: k)
  case (Cons b bs)
  have "unat b < 256" using unsigned_less [of b, where ?'a = nat] by simp
  then have "bit (report_value (b # bs)) k \<longleftrightarrow> (if k < 8 then bit (unat b) k else bit (report_value bs) (k - 8))"
    by (simp add: bit_byte_cons)
  also have "\<dots> \<longleftrightarrow> k div 8 < length (b # bs) \<and> bit ((b # bs) ! (k div 8)) (k mod 8)"
  proof (cases "k < 8")
    case False
    then obtain j where "k = j + 8" by (metis add.commute le_add_diff_inverse not_less)
    then show ?thesis using Cons.IH [of j] by (simp add: div_add_self2)
  qed (simp add: bit_unsigned_iff)
  finally show ?case .
qed simp

lemma extract_loop_Some:
  "extract_loop report off bs v = Some w \<longleftrightarrow>
     (\<forall>b \<in> set bs. off + b < 2 ^ 64 \<and> (off + b) div 8 < length report) \<and>
     w = fold (\<lambda>b v. v OR push_bit b (ucast (drop_bit ((off + b) mod 8) (report ! ((off + b) div 8)) AND 1))) bs v"
  by (induction bs arbitrary: v) (auto simp: bind_eq_Some_conv usize_checked_add_def get_at_def)

lemma bit_gathered:
  "bit (fold (\<lambda>b v. v OR push_bit b (ucast (drop_bit ((off + b) mod 8) (report ! ((off + b) div 8) :: u8) AND 1) :: u32)) bs v) n
     \<longleftrightarrow> bit v n \<or> (n \<in> set bs \<and> n < 32 \<and> bit (report ! ((off + n) div 8)) ((off + n) mod 8))"
proof (induction bs arbitrary: v)
  case (Cons b bs)
  have "bit (push_bit b (ucast (drop_bit ((off + b) mod 8) (report ! ((off + b) div 8) :: u8) AND 1) :: u32)) n \<longleftrightarrow>
      n = b \<and> n < 32 \<and> bit (report ! ((off + n) div 8)) ((off + n) mod 8)"
    by (auto simp: bit_push_bit_iff bit_unsigned_iff bit_and_iff bit_drop_bit_eq bit_1_iff)
  then show ?case unfolding fold_simps Cons.IH by (auto simp: bit_or_iff)
qed simp

text \<open>A field is the number in its bits; it is absent when the report is too short.\<close>

lemma extract_bits_exact:
  "extract_bits report f = Some w \<longleftrightarrow>
     hf_bit_size f \<in> {1..32} \<and> hf_bit_offset f + hf_bit_size f \<le> 8 * length report \<and>
     hf_bit_offset f + hf_bit_size f \<le> 2 ^ 64 \<and>
     unat w = report_value report div 2 ^ hf_bit_offset f mod 2 ^ hf_bit_size f"
proof (cases "hf_bit_size f \<in> {1..32}")
  case True
  let ?off = "hf_bit_offset f" and ?n = "hf_bit_size f"
  let ?w = "fold (\<lambda>b v. v OR push_bit b (ucast (drop_bit ((?off + b) mod 8) (report ! ((?off + b) div 8)) AND 1))) [0..<?n] 0 :: u32"
  have range: "(\<forall>b \<in> set [0..<?n]. ?off + b < 2 ^ 64 \<and> (?off + b) div 8 < length report) \<longleftrightarrow>
      ?off + ?n \<le> 8 * length report \<and> ?off + ?n \<le> 2 ^ 64"
  proof
    assume *: "\<forall>b \<in> set [0..<?n]. ?off + b < 2 ^ 64 \<and> (?off + b) div 8 < length report"
    then have "?off + (?n - 1) < 2 ^ 64 \<and> (?off + (?n - 1)) div 8 < length report"
      by (rule bspec) (use True in simp)
    then show "?off + ?n \<le> 8 * length report \<and> ?off + ?n \<le> 2 ^ 64" using True by auto
  qed auto
  have "unat ?w = report_value report div 2 ^ ?off mod 2 ^ ?n" if "?off + ?n \<le> 8 * length report"
  proof (rule bit_eqI)
    fix k
    have "bit (unat ?w) k \<longleftrightarrow> k < ?n \<and> bit (report ! ((?off + k) div 8)) ((?off + k) mod 8)"
      using True by (auto simp: bit_unsigned_iff bit_gathered)
    also have "\<dots> \<longleftrightarrow> k < ?n \<and> bit (report_value report) (?off + k)"
      using that by (auto simp: bit_report_value)
    also have "\<dots> \<longleftrightarrow> bit (report_value report div 2 ^ ?off mod 2 ^ ?n) k"
      by (simp add: bit_take_bit_iff bit_drop_bit_eq flip: take_bit_eq_mod drop_bit_eq_div)
    finally show "bit (unat ?w) k \<longleftrightarrow> bit (report_value report div 2 ^ ?off mod 2 ^ ?n) k" .
  qed
  moreover have ext: "extract_bits report f = extract_loop report ?off [0..<?n] 0"
    using True by (auto simp: extract_bits_def)
  ultimately show ?thesis
    using True unfolding ext extract_loop_Some range word_unat_eq_iff [of w] by auto
qed (auto simp: extract_bits_def)


section \<open>The parser\<close>

abbreviation field_end :: "HidField \<Rightarrow> nat" where
  "field_end f \<equiv> hf_bit_offset f + hf_bit_size f"

text \<open>Fields of different reports, or disjoint bits of one.\<close>

definition apart :: "HidField \<Rightarrow> HidField \<Rightarrow> bool" where
  "apart f g \<longleftrightarrow> hf_report_id f = hf_report_id g \<longrightarrow> field_end f \<le> hf_bit_offset g \<or> field_end g \<le> hf_bit_offset f"

lemma apart_sym: "apart f g \<longleftrightarrow> apart g f"
  by (auto simp: apart_def)

definition all_fields :: "Parser \<Rightarrow> HidField list" where
  "all_fields p = pa_tips p @ pa_contact_ids p @ pa_x p @ pa_y p @ pa_pressure p @ pa_touch_major p @ pa_contact_counts p"

lemma sorted_wrt_insert:
  "sorted_wrt apart (xs @ f # ys) \<longleftrightarrow> sorted_wrt apart (xs @ ys) \<and> (\<forall>g \<in> set (xs @ ys). apart g f)"
  by (auto simp: sorted_wrt_append apart_sym)

lemma sorted_wrt_apart_mset:
  assumes "mset xs = mset ys" and "sorted_wrt apart xs"
  shows "sorted_wrt apart ys"
  using assms
proof (induction xs arbitrary: ys)
  case (Cons x xs)
  have "x \<in> set ys" using Cons.prems(1) by (metis list.set_intros(1) mset_eq_setD)
  then obtain as bs where ys: "ys = as @ x # bs" by (meson split_list)
  then have "mset xs = mset (as @ bs)" using Cons.prems(1) by simp
  moreover from this have "set xs = set (as @ bs)" by (rule mset_eq_setD)
  ultimately show ?case
    using Cons.IH [of "as @ bs"] Cons.prems(2) unfolding ys sorted_wrt_insert by (auto simp: apart_sym)
qed simp

lemma push_field_ensures:
  assumes "recognized page usage"
  shows "ensures (push_field page usage f p) (\<lambda>p'. mset (all_fields p') = add_mset f (mset (all_fields p)) \<and>
    pa_globals p' = pa_globals p \<and> pa_global_stack p' = pa_global_stack p \<and> pa_input_offsets p' = pa_input_offsets p)"
  using assms by (auto simp: push_field_def recognized_def all_fields_def ensures_simps)

definition item_size :: "usize \<Rightarrow> bool" where
  "item_size n \<longleftrightarrow> n \<in> {0, 1, 2, 4}"

text \<open>The invariant of the parser. A field ends before the offset of its report.\<close>

definition parser_ok :: "Parser \<Rightarrow> bool" where
  "parser_ok p \<longleftrightarrow> length (pa_input_offsets p) = 256 \<and> (\<forall>off \<in> set (pa_input_offsets p). off \<le> MAX_INPUT_REPORT_BITS) \<and>
     (\<forall>g \<in> set (pa_globals p # pa_global_stack p). item_size (hg_logical_maximum_size g)) \<and>
     (\<forall>f \<in> set (all_fields p). hf_bit_size f \<in> {1..MAX_REPORT_FIELD_BITS} \<and>
        field_end f \<le> pa_input_offsets p ! unat (hf_report_id f)) \<and>
     sorted_wrt apart (all_fields p)"


lemma parser_new_ok: "parser_ok parser_new"
  by (simp add: parser_ok_def parser_new_def all_fields_def globals_new_def item_size_def)

text \<open>Changes that leave fields, offsets and item sizes alone.\<close>

lemma parser_ok_cong:
  assumes "parser_ok p" and "all_fields p' = all_fields p" and "pa_input_offsets p' = pa_input_offsets p"
    and "\<forall>g \<in> set (pa_globals p' # pa_global_stack p'). item_size (hg_logical_maximum_size g)"
  shows "parser_ok p'"
  using assms by (simp add: parser_ok_def)

lemma clear_usages_ok [simp]: "parser_ok (clear_usages p) = parser_ok p"
  by (simp add: parser_ok_def clear_usages_def all_fields_def)

lemma sign_extend_item_ensures: "item_size n \<Longrightarrow> ensures (sign_extend_item v n) (\<lambda>_. True)"
  by (auto simp: item_size_def sign_extend_item_def ensures_simps)

lemma logical_maximum_ensures: "item_size (hg_logical_maximum_size g) \<Longrightarrow> ensures (logical_maximum g) (\<lambda>_. True)"
  using sign_extend_item_ensures by (simp add: logical_maximum_def ensures_simps)

text \<open>A larger offset for one report.\<close>

lemma raise_offset:
  assumes "parser_ok p" and "r < 256" and "pa_input_offsets p ! r \<le> off" and "off \<le> MAX_INPUT_REPORT_BITS"
  shows "parser_ok (p \<lparr> pa_input_offsets := (pa_input_offsets p)[r := off] \<rparr>)"
proof -
  have "pa_input_offsets p ! k \<le> (pa_input_offsets p)[r := off] ! k" if "k < 256" for k
    using assms that by (cases "k = r") (simp_all add: parser_ok_def)
  moreover have "unat (hf_report_id f) < 256" for f
    using unsigned_less [of "hf_report_id f", where ?'a = nat] by simp
  ultimately have "\<forall>f \<in> set (all_fields p). field_end f \<le> (pa_input_offsets p)[r := off] ! unat (hf_report_id f)"
    using assms(1) unfolding parser_ok_def by (meson le_trans)
  moreover have "\<forall>o' \<in> set ((pa_input_offsets p)[r := off]). o' \<le> MAX_INPUT_REPORT_BITS"
    using assms set_update_subset_insert [of "pa_input_offsets p" r off] by (auto simp: parser_ok_def)
  ultimately show ?thesis
    using assms(1) by (simp add: parser_ok_def all_fields_def)
qed

text \<open>A new field at the offset of its report, which then moves behind it.\<close>

lemma add_field:
  assumes ok: "parser_ok p" and f: "mset (all_fields p') = add_mset f (mset (all_fields p))"
    and same: "pa_globals p' = pa_globals p" "pa_global_stack p' = pa_global_stack p" "pa_input_offsets p' = pa_input_offsets p"
    and r: "unat (hf_report_id f) = r" "hf_bit_offset f = pa_input_offsets p ! r" "hf_bit_size f \<in> {1..MAX_REPORT_FIELD_BITS}"
    and end_ok: "field_end f \<le> MAX_INPUT_REPORT_BITS"
  shows "parser_ok (p' \<lparr> pa_input_offsets := (pa_input_offsets p')[r := field_end f] \<rparr>)"
proof -
  have r256: "r < 256" using r(1) unsigned_less [of "hf_report_id f", where ?'a = nat] by simp
  have up: "parser_ok (p \<lparr> pa_input_offsets := (pa_input_offsets p)[r := field_end f] \<rparr>)"
    by (rule raise_offset [OF ok r256 _ end_ok]) (simp add: r(2))
  have "apart g f" if "g \<in> set (all_fields p)" for g
    using that ok r(1,2) by (auto simp: parser_ok_def apart_def)
  then have "sorted_wrt apart (f # all_fields p)"
    using ok by (auto simp: parser_ok_def apart_sym)
  then have sorted: "sorted_wrt apart (all_fields p')"
    by (rule sorted_wrt_apart_mset [rotated]) (simp add: f)
  have fields: "set (all_fields p') = insert f (set (all_fields p))"
    using f by (metis mset.simps(2) mset_eq_setD list.simps(15))
  have upd: "all_fields (q \<lparr> pa_input_offsets := os \<rparr>) = all_fields q" for q os by (simp add: all_fields_def)
  have "(pa_input_offsets p)[r := field_end f] ! unat (hf_report_id f) = field_end f"
    using r256 ok r(1) by (simp add: parser_ok_def)
  then show ?thesis
    using up sorted r(3) by (simp add: parser_ok_def same fields upd)
qed

text \<open>The fields of one input item. The report has room for all of them.\<close>

lemma input_field_ensures:
  fixes p
  defines "r \<equiv> unat (hg_report_id (pa_globals p))" and "n \<equiv> hg_report_size (pa_globals p)"
  assumes ok: "parser_ok p" and room: "pa_input_offsets p ! r + n \<le> MAX_INPUT_REPORT_BITS"
  shows "ensures (input_field v p i) (\<lambda>p'. parser_ok p' \<and> pa_globals p' = pa_globals p \<and>
    pa_input_offsets p' ! r = pa_input_offsets p ! r + n)"
proof -
  let ?off = "pa_input_offsets p ! r"
  have r256: "r < 256" using unsigned_less [of "hg_report_id (pa_globals p)", where ?'a = nat] by (simp add: r_def)
  have len: "length (pa_input_offsets p) = 256" using ok by (simp add: parser_ok_def)
  have size: "item_size (hg_logical_maximum_size (pa_globals p))" using ok by (simp add: parser_ok_def)
  define placed :: "Parser \<Rightarrow> bool" where "placed p' \<longleftrightarrow> pa_globals p' = pa_globals p \<and> length (pa_input_offsets p') = 256 \<and>
    parser_ok (p' \<lparr> pa_input_offsets := (pa_input_offsets p')[r := ?off + n] \<rparr>)" for p'
  have skip: "placed p"
    using raise_offset [OF ok r256, of "?off + n"] room len by (simp add: placed_def)
  have push: "ensures (push_field page usage f p) placed"
    if "recognized page usage" "f = \<lparr> hf_report_id = hg_report_id (pa_globals p), hf_bit_offset = ?off, hf_bit_size = n,
         hf_logical_minimum = a, hf_logical_maximum = b \<rparr>" "n \<in> {1..MAX_REPORT_FIELD_BITS}" for page usage f a b
    using push_field_ensures [OF that(1), of f p]
  proof (rule ensures_mono, elim conjE)
    fix p' assume "mset (all_fields p') = add_mset f (mset (all_fields p))" "pa_globals p' = pa_globals p"
      "pa_global_stack p' = pa_global_stack p" "pa_input_offsets p' = pa_input_offsets p"
    then show "placed p'"
      using add_field [OF ok, of p' f r] that(2,3) room len by (simp add: placed_def r_def)
  qed
  have "ensures (case (if v then field_usage p i else None) of
          None \<Rightarrow> Ok p
        | Some usage \<Rightarrow>
            if recognized (hg_usage_page (pa_globals p)) usage then
              if \<not> (1 \<le> n \<and> n \<le> MAX_REPORT_FIELD_BITS)
              then Err ''goodix: HID touch field size exceeds limit''
              else andThen (logical_maximum (pa_globals p)) (\<lambda>maximum.
                push_field (hg_usage_page (pa_globals p)) usage
                  \<lparr> hf_report_id = hg_report_id (pa_globals p), hf_bit_offset = ?off, hf_bit_size = n,
                    hf_logical_minimum = hg_logical_minimum (pa_globals p), hf_logical_maximum = maximum \<rparr> p)
            else Ok p) placed"
    using skip by (auto split: option.split intro!: ensures_if ensures_bind [OF logical_maximum_ensures [OF size]] push
      simp: ensures_Ok ensures_Err)
  then have "ensures (input_field v p i) (\<lambda>p'. \<exists>q. placed q \<and> p' = q \<lparr> pa_input_offsets := (pa_input_offsets q)[r := ?off + n] \<rparr>)"
    unfolding input_field_def Let_def ensures_andThen ensures_index r_def [symmetric] n_def [symmetric]
    by (intro conjI, use r256 len in simp)
      (erule ensures_mono, auto simp: ensures_simps usize_checked_add_def)
  then show ?thesis
    by (rule ensures_mono) (use r256 in \<open>auto simp: placed_def\<close>)
qed

lemma input_loop_ensures:
  "parser_ok p \<Longrightarrow>
   pa_input_offsets p ! unat (hg_report_id (pa_globals p)) + hg_report_size (pa_globals p) * length ks \<le> MAX_INPUT_REPORT_BITS \<Longrightarrow>
   ensures (foldM (input_field v) p ks) (\<lambda>p'. parser_ok p' \<and>
     pa_input_offsets p' ! unat (hg_report_id (pa_globals p)) =
     pa_input_offsets p ! unat (hg_report_id (pa_globals p)) + hg_report_size (pa_globals p) * length ks)"
proof (induction ks arbitrary: p)
  case (Cons i ks)
  have "pa_input_offsets p ! unat (hg_report_id (pa_globals p)) + hg_report_size (pa_globals p) \<le> MAX_INPUT_REPORT_BITS"
    using Cons.prems(2) by simp
  note step = input_field_ensures [OF Cons.prems(1) this, of v i]
  have "ensures (input_field v p i) (\<lambda>q. ensures (foldM (input_field v) q ks) (\<lambda>p'. parser_ok p' \<and>
      pa_input_offsets p' ! unat (hg_report_id (pa_globals p)) =
      pa_input_offsets p ! unat (hg_report_id (pa_globals p)) + hg_report_size (pa_globals p) * length (i # ks)))"
    using step
  proof (rule ensures_mono)
    fix q assume q: "parser_ok q \<and> pa_globals q = pa_globals p \<and>
      pa_input_offsets q ! unat (hg_report_id (pa_globals p)) =
      pa_input_offsets p ! unat (hg_report_id (pa_globals p)) + hg_report_size (pa_globals p)"
    show "ensures (foldM (input_field v) q ks) (\<lambda>p'. parser_ok p' \<and>
      pa_input_offsets p' ! unat (hg_report_id (pa_globals p)) =
      pa_input_offsets p ! unat (hg_report_id (pa_globals p)) + hg_report_size (pa_globals p) * length (i # ks))"
      using Cons.IH [of q] q Cons.prems(2) by (simp add: algebra_simps)
  qed
  then show ?case by (simp add: ensures_andThen)
qed (simp add: ensures_Ok)

lemma input_item_ensures:
  assumes ok: "parser_ok p"
  shows "ensures (input_item v p) parser_ok"
proof -
  let ?g = "pa_globals p"
  let ?r = "unat (hg_report_id ?g)"
  have "?r < length (pa_input_offsets p)"
    using ok unsigned_less [of "hg_report_id ?g", where ?'a = nat] by (simp add: parser_ok_def)
  moreover have "ensures (foldM (input_field b) p [0..<hg_report_count ?g])
      (\<lambda>p'. ensures (if pa_input_offsets p' ! ?r = e then Ok (clear_usages p') else Panic) parser_ok)"
    if "Option.bind (usize_checked_mul (hg_report_size ?g) (hg_report_count ?g)) (\<lambda>bits.
        Option.bind (usize_checked_add (pa_input_offsets p ! ?r) bits) (\<lambda>e.
        if e \<le> MAX_INPUT_REPORT_BITS then Some e else None)) = Some e" for b e
  proof -
    have "e = pa_input_offsets p ! ?r + hg_report_size ?g * hg_report_count ?g" "e \<le> MAX_INPUT_REPORT_BITS"
      using that by (auto simp: bind_eq_Some_conv outcome_simps split: if_splits)
    then show ?thesis
      by (intro ensures_mono [OF input_loop_ensures [OF ok]]) (auto simp: ensures_simps)
  qed
  ultimately show ?thesis
    unfolding input_item_def Let_def ensures_andThen ensures_index ensures_ok_or
    by (intro conjI ensures_if; (simp only: ensures_andThen ensures_Err ensures_ok_or)?) blast
qed

text \<open>Every item keeps the invariant.\<close>

lemma parser_ok_fields [simp]:
  "parser_ok (p \<lparr> pa_usages := us \<rparr>) = parser_ok p"
  "parser_ok (p \<lparr> pa_usage_minimum := m \<rparr>) = parser_ok p"
  "parser_ok (p \<lparr> pa_usage_maximum := m \<rparr>) = parser_ok p"
  "parser_ok (p \<lparr> pa_touch_collections := cs \<rparr>) = parser_ok p"
  by (simp_all add: parser_ok_def all_fields_def)

lemma parser_ok_globals:
  assumes "parser_ok p" and "\<forall>g' \<in> insert g (set gs). item_size (hg_logical_maximum_size g')"
  shows "parser_ok (p \<lparr> pa_globals := g, pa_global_stack := gs \<rparr>)"
  using assms by (simp add: parser_ok_def all_fields_def)

lemma set_global_ok:
  assumes "parser_ok p" and "item_size (hg_logical_maximum_size g)"
  shows "parser_ok (p \<lparr> pa_globals := g \<rparr>)"
  using assms by (simp add: parser_ok_def all_fields_def)

lemma hid_item_ensures:
  assumes ok: "parser_ok p" and n: "item_size n"
  shows "ensures (hid_item item_type tag n v p) parser_ok"
proof -
  let ?g = "pa_globals p"
  have g: "item_size (hg_logical_maximum_size ?g)"
    and stack: "\<forall>g \<in> set (pa_global_stack p). item_size (hg_logical_maximum_size g)"
    and len: "length (pa_input_offsets p) = 256" using ok by (simp_all add: parser_ok_def)
  have report: "parser_ok (p \<lparr> pa_globals := ?g \<lparr> hg_report_id := ucast v \<rparr>,
      pa_input_offsets := (pa_input_offsets p)[unat v := max (pa_input_offsets p ! unat v) 8] \<rparr>)" if "unat v < 256"
  proof -
    have "pa_input_offsets p ! unat v \<le> MAX_INPUT_REPORT_BITS"
      using ok that len nth_mem [of "unat v" "pa_input_offsets p"] by (simp add: parser_ok_def)
    then have "max (pa_input_offsets p ! unat v) 8 \<le> MAX_INPUT_REPORT_BITS" by (simp add: MAX_INPUT_REPORT_BITS_def)
    then show ?thesis
      using raise_offset [OF set_global_ok [OF ok] that, of "?g \<lparr> hg_report_id := ucast v \<rparr>"] g by simp
  qed
  have small: "unat v < 256" if "v \<le> 0xff"
    using that by (simp add: word_le_nat_alt)
  have global: "parser_ok (p \<lparr> pa_globals := g' \<rparr>)" if "item_size (hg_logical_maximum_size g')" for g'
    using set_global_ok [OF ok that] .
  have push: "parser_ok (p \<lparr> pa_global_stack := pa_global_stack p @ [?g] \<rparr>)"
    using ok by (simp add: parser_ok_def all_fields_def)
  have pop: "parser_ok (p \<lparr> pa_globals := last (pa_global_stack p), pa_global_stack := butlast (pa_global_stack p) \<rparr>)"
    if "pa_global_stack p \<noteq> []"
    using parser_ok_globals [OF ok] stack that by (metis in_set_butlastD insert_iff last_in_set)
  have minimum: "ensures (andThen (sign_extend_item v n) (\<lambda>m. Ok (p \<lparr> pa_globals := ?g \<lparr> hg_logical_minimum := m \<rparr> \<rparr>))) parser_ok"
    by (rule ensures_bind [OF sign_extend_item_ensures [OF n]]) (simp add: ensures_Ok global g)
  show ?thesis
    unfolding hid_item_def Let_def
    by (intro ensures_if)
      (simp_all add: ensures_Ok ensures_Err ensures_andThen [symmetric] input_item_ensures [OF ok] minimum global g n push pop ok len,
       auto simp: ensures_simps len small report)
qed

lemma parse_items_ensures: "parser_ok p \<Longrightarrow> ensures (parse_items descriptor cursor p) parser_ok"
proof (induction descriptor cursor p rule: parse_items.induct)
  case (1 descriptor cursor p)
  let ?prefix = "descriptor ! cursor"
  let ?n = "if ?prefix AND 0x03 = 3 then 4 else unat (?prefix AND 0x03)"
  have "?prefix AND 3 \<le> 3" by (rule word_and_le1)
  then have "unat (?prefix AND 3) \<le> 3" by (simp add: word_le_nat_alt)
  moreover have "unat (?prefix AND 3) = 3 \<longleftrightarrow> ?prefix AND 3 = 3"
    by (simp add: word_unat_eq_iff)
  ultimately have n: "item_size ?n" by (auto simp: item_size_def)
  note item = hid_item_ensures [OF "1.prems" n]
  have step: "ensures (case hid_item a b ?n v p of Ok p' \<Rightarrow> parse_items descriptor (cursor + 1 + ?n) p' | Err e \<Rightarrow> Err e | Panic \<Rightarrow> Panic) parser_ok"
    if "\<And>p'. hid_item a b ?n v p = Ok p' \<Longrightarrow> parser_ok p' \<Longrightarrow> ensures (parse_items descriptor (cursor + 1 + ?n) p') parser_ok" for a b v
    using item [of a b v] that by (cases "hid_item a b ?n v p") (auto simp: ensures_simps)
  show ?case
    apply (subst parse_items.simps)
    unfolding Let_def
    apply (intro ensures_if)
    subgoal using "1.IH"(1) "1.prems" by (auto simp: ensures_simps Let_def split: option.split)
    subgoal apply (split option.split) apply (intro conjI impI allI) apply (simp add: ensures_Err)
      apply (rule step) apply (rule "1.IH"(2)) apply (auto simp: Let_def) done
    subgoal using "1.prems" by (simp add: ensures_Ok)
    done
qed

text \<open>The fields of a layout.\<close>

definition layout_fields :: "HidTouchLayout \<Rightarrow> HidField list" where
  "layout_fields l = tl_tips l @ tl_contact_ids l @ tl_x l @ tl_y l @ tl_pressure l @ tl_touch_major l @
     (case tl_contact_count l of None \<Rightarrow> [] | Some f \<Rightarrow> [f])"

lemma find_filter: "find P xs = (case filter P xs of [] \<Rightarrow> None | x # _ \<Rightarrow> Some x)"
  by (induction xs) auto

lemma layout_fields_subseq:
  "\<exists>rest. filter (\<lambda>f. hf_report_id f = r) (all_fields p) = layout_fields \<lparr> tl_report_id = r,
     tl_tips = filter (\<lambda>f. hf_report_id f = r) (pa_tips p), tl_contact_ids = filter (\<lambda>f. hf_report_id f = r) (pa_contact_ids p),
     tl_x = filter (\<lambda>f. hf_report_id f = r) (pa_x p), tl_y = filter (\<lambda>f. hf_report_id f = r) (pa_y p),
     tl_pressure = filter (\<lambda>f. hf_report_id f = r) (pa_pressure p),
     tl_touch_major = filter (\<lambda>f. hf_report_id f = r) (pa_touch_major p),
     tl_contact_count = find (\<lambda>f. hf_report_id f = r) (pa_contact_counts p) \<rparr> @ rest"
  unfolding layout_fields_def all_fields_def find_filter
  by (cases "filter (\<lambda>f. hf_report_id f = r) (pa_contact_counts p)") auto

definition layout_ok :: "HidTouchLayout \<Rightarrow> bool" where
  "layout_ok l \<longleftrightarrow> tl_tips l \<noteq> [] \<and> tl_x l \<noteq> [] \<and> tl_y l \<noteq> [] \<and> sorted_wrt apart (layout_fields l) \<and>
     list_all (\<lambda>f. hf_report_id f = tl_report_id l \<and> hf_bit_size f \<in> {1..32} \<and> hf_bit_offset f + hf_bit_size f \<le> 4096)
       (layout_fields l)"

lemma parser_field_bounds:
  assumes "parser_ok p" and "f \<in> set (all_fields p)"
  shows "hf_bit_size f \<in> {1..32}" and "field_end f \<le> 4096"
proof -
  have "unat (hf_report_id f) < length (pa_input_offsets p)"
    using assms(1) unsigned_less [of "hf_report_id f", where ?'a = nat] by (simp add: parser_ok_def)
  then have "pa_input_offsets p ! unat (hf_report_id f) \<le> MAX_INPUT_REPORT_BITS"
    using assms(1) by (simp add: parser_ok_def)
  then show "field_end f \<le> 4096" "hf_bit_size f \<in> {1..32}"
    using assms unfolding parser_ok_def MAX_INPUT_REPORT_BITS_def MAX_REPORT_FIELD_BITS_def
    by (meson le_trans, blast)
qed

text \<open>C32. For every descriptor the parser returns a layout or an error, never a panic (no index out of
  range, no failed assertion, no unknown item size). A layout has a tip, an X and a Y field; its fields
  belong to its report, have one to 32 bits, lie within the first 4096 bits and never overlap.\<close>

theorem parsed_layout_disjoint:
  "ensures (parse_touch_layout descriptor) (\<lambda>l. tl_tips l \<noteq> [] \<and> tl_x l \<noteq> [] \<and> tl_y l \<noteq> [] \<and>
     sorted_wrt apart (layout_fields l) \<and>
     list_all (\<lambda>f. hf_report_id f = tl_report_id l \<and> hf_bit_size f \<in> {1..32} \<and> hf_bit_offset f + hf_bit_size f \<le> 4096)
       (layout_fields l))"
  unfolding parse_touch_layout_def layout_ok_def [symmetric]
proof (rule ensures_bind [OF parse_items_ensures [OF parser_new_ok]])
  fix p assume p: "parser_ok p"
  show "ensures (andThen (ok_or (touch_report_id p) ''goodix: HID descriptor has no touchscreen X/Y report'') (\<lambda>r.
     let keep = filter (\<lambda>f. hf_report_id f = r) in
     if keep (pa_tips p) = [] \<or> keep (pa_x p) = [] \<or> keep (pa_y p) = []
     then Err ''goodix: incomplete HID touchscreen report''
     else Ok \<lparr> tl_report_id = r, tl_tips = keep (pa_tips p), tl_contact_ids = keep (pa_contact_ids p),
       tl_x = keep (pa_x p), tl_y = keep (pa_y p), tl_pressure = keep (pa_pressure p),
       tl_touch_major = keep (pa_touch_major p),
       tl_contact_count = find (\<lambda>f. hf_report_id f = r) (pa_contact_counts p) \<rparr>)) layout_ok"
    unfolding ensures_andThen ensures_ok_or Let_def
  proof (intro allI impI ensures_if)
    fix r
    let ?keep = "filter (\<lambda>f. hf_report_id f = r)"
    let ?l = "\<lparr> tl_report_id = r, tl_tips = ?keep (pa_tips p), tl_contact_ids = ?keep (pa_contact_ids p),
       tl_x = ?keep (pa_x p), tl_y = ?keep (pa_y p), tl_pressure = ?keep (pa_pressure p),
       tl_touch_major = ?keep (pa_touch_major p),
       tl_contact_count = find (\<lambda>f. hf_report_id f = r) (pa_contact_counts p) \<rparr>"
    assume "\<not> (?keep (pa_tips p) = [] \<or> ?keep (pa_x p) = [] \<or> ?keep (pa_y p) = [])"
    moreover obtain rest where rest: "?keep (all_fields p) = layout_fields ?l @ rest"
      using layout_fields_subseq by blast
    moreover have "sorted_wrt apart (?keep (all_fields p))"
      using p by (simp add: parser_ok_def sorted_wrt_filter)
    moreover have "list_all (\<lambda>f. hf_report_id f = r \<and> hf_bit_size f \<in> {1..32} \<and> field_end f \<le> 4096) (?keep (all_fields p))"
      using parser_field_bounds [OF p] by (auto simp: list_all_iff)
    ultimately show "ensures (Ok ?l) layout_ok"
      by (simp add: ensures_Ok layout_ok_def sorted_wrt_append del: atLeastAtMost_iff)
  qed (simp add: ensures_Err)
qed

end
