(* ===== verification/Contact_Rules.thy ===== *)
theory Contact_Rules
  imports Hid_Rules
begin

text \<open>
  Correctness of the touchscreen's reports: the decoder reads every contact from its fields of the
  report, and the slot tracker keeps a contact in its slot from one frame to the next.
\<close>

section \<open>Logical values\<close>

text \<open>The number in the bits of a field, and its reading as two's complement when the logical minimum is
  negative.\<close>

definition field_value :: "u8 list \<Rightarrow> HidField \<Rightarrow> nat" where
  "field_value report f = report_value report div 2 ^ hf_bit_offset f mod 2 ^ hf_bit_size f"

definition logical_value :: "u8 list \<Rightarrow> HidField \<Rightarrow> int" where
  "logical_value report f =
     (if sint (hf_logical_minimum f) < 0 then signed_take_bit (hf_bit_size f - 1) (int (field_value report f))
      else int (field_value report f))"

lemma extract_bits_value: "extract_bits report f = Some w \<Longrightarrow> unat w = field_value report f"
  by (simp add: extract_bits_exact field_value_def)

lemma sign_extend_bits_value:
  assumes "bits \<in> {1..32}"
  shows "sint (sign_extend_bits v bits) = signed_take_bit (bits - 1) (uint v)"
proof (rule bit_eqI)
  fix k
  let ?s = "32 - bits"
  have "sint (sign_extend_bits v bits) = drop_bit ?s (signed_take_bit 31 (push_bit ?s (uint v)))"
    unfolding sign_extend_bits_def Let_def sint_signed_drop_bit_eq sint_uint [of "push_bit ?s v"] unsigned_push_bit_eq
    by (simp add: signed_take_bit_take_bit)
  moreover have "min 31 (?s + k) - ?s = min k (bits - 1)" "?s \<le> min 31 (?s + k)" using assms by auto
  ultimately show "bit (sint (sign_extend_bits v bits)) k \<longleftrightarrow> bit (signed_take_bit (bits - 1) (uint v)) k"
    by (simp add: bit_drop_bit_eq bit_signed_take_bit_iff bit_push_bit_iff min.commute)
qed

lemma sint_small: "v \<le> I32_MAX \<Longrightarrow> sint v = uint v"
  unfolding I32_MAX_def sint_uint word_le_def
  by (rule signed_take_bit_int_eq_self) (simp_all add: order_trans [OF _ unsigned_greater_eq])

lemma extract_logical_value_exact:
  assumes "extract_logical_value report f = Some v"
  shows "sint v = logical_value report f"
proof -
  obtain raw where raw: "extract_bits report f = Some raw"
    and v: "v = (if sint (hf_logical_minimum f) < 0 then sign_extend_bits raw (hf_bit_size f) else raw)"
    and pos: "sint (hf_logical_minimum f) < 0 \<or> raw \<le> I32_MAX"
    using assms by (cases "sint (hf_logical_minimum f) < 0")
      (auto simp: extract_logical_value_def bind_eq_Some_conv split: if_splits)
  have "uint raw = int (field_value report f)" using extract_bits_value [OF raw] by (metis uint_nat)
  moreover have "hf_bit_size f \<in> {1..32}" using raw by (simp add: extract_bits_exact)
  ultimately show ?thesis
    using pos sint_small [of raw] by (auto simp: v logical_value_def sign_extend_bits_value)
qed

text \<open>A field that lies inside the report, and one whose value is also an \<open>i32\<close>: an unsigned value above the
  maximum of \<open>i32\<close> is not.\<close>

definition present :: "u8 list \<Rightarrow> HidField \<Rightarrow> bool" where
  "present report f \<longleftrightarrow> hf_bit_size f \<in> {1..32} \<and> hf_bit_offset f + hf_bit_size f \<le> min (8 * length report) (2 ^ 64)"

definition readable :: "u8 list \<Rightarrow> HidField \<Rightarrow> bool" where
  "readable report f \<longleftrightarrow> present report f \<and> (sint (hf_logical_minimum f) < 0 \<or> field_value report f < 2 ^ 31)"

lemma extract_bits_present: "(\<exists>w. extract_bits report f = Some w) \<longleftrightarrow> present report f"
proof
  assume p: "present report f"
  have "field_value report f < 2 ^ hf_bit_size f" by (simp add: field_value_def)
  also have "\<dots> \<le> 2 ^ 32" by (rule power_increasing) (use p in \<open>auto simp: present_def\<close>)
  finally have "unat (of_nat (field_value report f) :: u32) = field_value report f" by (simp add: unat_of_nat)
  then have "extract_bits report f = Some (of_nat (field_value report f))"
    using p by (simp add: extract_bits_exact present_def field_value_def)
  then show "\<exists>w. extract_bits report f = Some w" by blast
qed (auto simp: extract_bits_exact present_def)

lemma extract_logical_readable: "(\<exists>v. extract_logical_value report f = Some v) \<longleftrightarrow> readable report f"
proof (cases "extract_bits report f")
  case None
  then show ?thesis using extract_bits_present [of report f] by (auto simp: extract_logical_value_def readable_def)
next
  case (Some w)
  have "present report f" using extract_bits_present [of report f] Some by blast
  moreover have "w \<le> I32_MAX \<longleftrightarrow> field_value report f < 2 ^ 31"
    using extract_bits_value [OF Some] by (auto simp: word_le_nat_alt I32_MAX_def)
  ultimately show ?thesis using Some by (auto simp: extract_logical_value_def readable_def)
qed

section \<open>Reports\<close>

definition touched :: "u8 list \<Rightarrow> HidTouchLayout \<Rightarrow> usize \<Rightarrow> bool" where
  "touched report l slot \<longleftrightarrow> field_value report (tl_tips l ! slot) \<noteq> 0"

text \<open>The contact has the values of its slot's fields; a field the layout lacks has no value.\<close>

definition reads :: "u8 list \<Rightarrow> HidTouchLayout \<Rightarrow> HidContact \<Rightarrow> bool" where
  "reads report l c \<longleftrightarrow>
     (let slot = hc_descriptor_slot c;
          optional = (\<lambda>fs. map_option (logical_value report) (get_at fs slot)) in
      sint (hc_x c) = logical_value report (tl_x l ! slot) \<and> sint (hc_y c) = logical_value report (tl_y l ! slot) \<and>
      map_option sint (hc_hardware_id c) = optional (tl_contact_ids l) \<and>
      map_option sint (hc_pressure c) = optional (tl_pressure l) \<and>
      map_option sint (hc_touch_major c) = optional (tl_touch_major l))"

definition reported :: "u8 list \<Rightarrow> HidTouchLayout \<Rightarrow> usize" where
  "reported report l =
     (case tl_contact_count l of Some f \<Rightarrow> min (field_value report f) (contact_capacity l) | None \<Rightarrow> contact_capacity l)"

lemma optional_value_ensures:
  "ensures (optional_value report fs slot e) (\<lambda>v. map_option sint v = map_option (logical_value report) (get_at fs slot))"
  by (auto simp: optional_value_def ensures_simps split: option.split dest: extract_logical_value_exact)

lemma decode_contact_ensures:
  assumes "slot < contact_capacity l"
  shows "ensures (decode_contact report l cs slot) (\<lambda>cs'.
    if touched report l slot then \<exists>c. cs' = cs @ [c] \<and> hc_descriptor_slot c = slot \<and> reads report l c else cs' = cs)"
proof -
  have "touched report l slot \<longleftrightarrow> w \<noteq> 0" if "extract_bits report (tl_tips l ! slot) = Some w" for w
    using extract_bits_value [OF that] by (simp add: touched_def flip: unat_eq_0)
  then show ?thesis
    using assms unfolding decode_contact_def contact_capacity_def
    by (auto simp: ensures_simps reads_def Let_def intro!: ensures_if ensures_mono [OF optional_value_ensures]
        dest: extract_logical_value_exact)
qed

lemma decode_loop_ensures:
  assumes "\<forall>slot \<in> set ks. slot < contact_capacity l"
  shows "ensures (foldM (decode_contact report l) cs ks) (\<lambda>cs'. \<exists>new. cs' = cs @ new \<and>
    map hc_descriptor_slot new = filter (touched report l) ks \<and> list_all (reads report l) new)"
  using assms
proof (induction ks arbitrary: cs)
  case (Cons k ks)
  have k: "k < contact_capacity l" and ks: "\<forall>slot \<in> set ks. slot < contact_capacity l" using Cons.prems by simp_all
  show ?case
    unfolding foldM.simps
  proof (rule ensures_bind [OF decode_contact_ensures [OF k]])
    fix cs1
    assume "if touched report l k then \<exists>c. cs1 = cs @ [c] \<and> hc_descriptor_slot c = k \<and> reads report l c else cs1 = cs"
    then obtain one where one: "cs1 = cs @ one" "map hc_descriptor_slot one = filter (touched report l) [k]"
      "list_all (reads report l) one"
      by (cases "touched report l k") auto
    show "ensures (foldM (decode_contact report l) cs1 ks) (\<lambda>cs'. \<exists>new. cs' = cs @ new \<and>
      map hc_descriptor_slot new = filter (touched report l) (k # ks) \<and> list_all (reads report l) new)"
    proof (rule ensures_mono [OF Cons.IH [OF ks, of cs1]])
      fix cs'
      assume "\<exists>new. cs' = cs1 @ new \<and> map hc_descriptor_slot new = filter (touched report l) ks \<and> list_all (reads report l) new"
      then obtain new where "cs' = cs1 @ new" "map hc_descriptor_slot new = filter (touched report l) ks"
        "list_all (reads report l) new" by blast
      then show "\<exists>new. cs' = cs @ new \<and> map hc_descriptor_slot new = filter (touched report l) (k # ks) \<and>
          list_all (reads report l) new"
        using one by (intro exI [of _ "one @ new"]) auto
    qed
  qed
qed (simp add: ensures_Ok)

text \<open>What the decoder needs of a report: the contact count and the tip switch of every reported slot, and the other
  fields of the slots that are touched.\<close>

definition optional_readable :: "u8 list \<Rightarrow> HidField list \<Rightarrow> usize \<Rightarrow> bool" where
  "optional_readable report fs slot \<longleftrightarrow> (case get_at fs slot of Some f \<Rightarrow> readable report f | None \<Rightarrow> True)"

definition slot_readable :: "u8 list \<Rightarrow> HidTouchLayout \<Rightarrow> usize \<Rightarrow> bool" where
  "slot_readable report l slot \<longleftrightarrow> present report (tl_tips l ! slot) \<and>
     (touched report l slot \<longrightarrow> readable report (tl_x l ! slot) \<and> readable report (tl_y l ! slot) \<and>
        optional_readable report (tl_contact_ids l) slot \<and> optional_readable report (tl_pressure l) slot \<and>
        optional_readable report (tl_touch_major l) slot)"

definition decodable :: "u8 list \<Rightarrow> HidTouchLayout \<Rightarrow> bool" where
  "decodable report l \<longleftrightarrow> (case tl_contact_count l of Some f \<Rightarrow> present report f | None \<Rightarrow> True) \<and>
     (\<forall>slot < reported report l. slot_readable report l slot)"

lemma optional_value_Ok: "(\<exists>v. optional_value report fs slot e = Ok v) \<longleftrightarrow> optional_readable report fs slot"
  by (auto simp: optional_value_def optional_readable_def outcome_simps simp flip: extract_logical_readable split: option.split)

lemma decode_contact_Ok:
  assumes "slot < contact_capacity l"
  shows "(\<exists>cs'. decode_contact report l cs slot = Ok cs') \<longleftrightarrow> slot_readable report l slot"
proof (cases "extract_bits report (tl_tips l ! slot)")
  case None
  then show ?thesis
    using extract_bits_present [of report "tl_tips l ! slot"] by (auto simp: decode_contact_def slot_readable_def outcome_simps)
next
  case (Some w)
  have slot: "slot < length (tl_tips l)" "slot < length (tl_x l)" "slot < length (tl_y l)"
    using assms by (simp_all add: contact_capacity_def)
  have p: "present report (tl_tips l ! slot)" using extract_bits_present [of report "tl_tips l ! slot"] Some by blast
  have w: "touched report l slot \<longleftrightarrow> w \<noteq> 0" using extract_bits_value [OF Some] by (simp add: touched_def flip: unat_eq_0)
  show ?thesis
    using slot Some p w
    by (simp add: decode_contact_def slot_readable_def index_def outcome_simps flip: extract_logical_readable
        optional_value_Ok [of report "tl_contact_ids l" slot "''goodix: malformed HID contact identifier''"]
        optional_value_Ok [of report "tl_pressure l" slot "''goodix: malformed HID pressure field''"]
        optional_value_Ok [of report "tl_touch_major l" slot "''goodix: malformed HID touch-major field''"]) blast
qed

lemma decode_loop_Ok:
  assumes "\<forall>slot \<in> set ks. slot < contact_capacity l"
  shows "(\<exists>cs'. foldM (decode_contact report l) cs ks = Ok cs') \<longleftrightarrow> (\<forall>slot \<in> set ks. slot_readable report l slot)"
  using assms
proof (induction ks arbitrary: cs)
  case (Cons k ks)
  then show ?case
    using decode_contact_Ok [of k l report cs] by (auto simp: outcome_simps)
qed simp

lemma decode_contacts_Ok: "(\<exists>cs. decode_contacts report l = Ok cs) \<longleftrightarrow> decodable report l"
proof (cases "tl_contact_count l")
  case None
  then show ?thesis using decode_loop_Ok [of "[0..<contact_capacity l]" l report "[]"]
    by (auto simp: decode_contacts_def decodable_def reported_def)
next
  case (Some f)
  show ?thesis
  proof (cases "extract_bits report f")
    case None
    then show ?thesis using Some extract_bits_present [of report f] by (auto simp: decode_contacts_def decodable_def outcome_simps)
  next
    case (Some w)
    have "present report f" using extract_bits_present [of report f] Some by blast
    then show ?thesis
      using decode_loop_Ok [of "[0..<min (unat w) (contact_capacity l)]" l report "[]"] Some \<open>tl_contact_count l = Some f\<close>
        extract_bits_value [OF Some]
      by (auto simp: decode_contacts_def decodable_def reported_def)
  qed
qed

lemma decode_contacts_ensures:
  "ensures (decode_contacts report l) (\<lambda>cs. map hc_descriptor_slot cs = filter (touched report l) [0..<reported report l] \<and>
     list_all (reads report l) cs)"
proof -
  have loop: "ensures (foldM (decode_contact report l) [] [0..<min n (contact_capacity l)])
      (\<lambda>cs. map hc_descriptor_slot cs = filter (touched report l) [0..<min n (contact_capacity l)] \<and> list_all (reads report l) cs)" for n
    by (rule ensures_mono [OF decode_loop_ensures]) auto
  show ?thesis
  proof (cases "tl_contact_count l")
    case None
    then show ?thesis using loop [of "contact_capacity l"] by (simp add: decode_contacts_def reported_def)
  next
    case (Some f)
    have "ensures (ok_or (extract_bits report f) e) (\<lambda>w. unat w = field_value report f)" for e
      by (simp add: ensures_ok_or extract_bits_value)
    then have "ensures (ok_or (extract_bits report f) e) (\<lambda>w. ensures (foldM (decode_contact report l) [] [0..<min (unat w) (contact_capacity l)])
      (\<lambda>cs. map hc_descriptor_slot cs = filter (touched report l) [0..<reported report l] \<and> list_all (reads report l) cs))" for e
      by (rule ensures_mono) (use loop [of "field_value report f"] Some in \<open>simp add: reported_def\<close>)
    then show ?thesis using Some by (simp add: decode_contacts_def ensures_andThen ensures_Ok)
  qed
qed

text \<open>C33. The decoder never panics. The contacts it returns are, in order, exactly the reported slots whose
  tip switch is set, and each contact has the values its fields have in the report: the number in their
  bits, in two's complement where the field's logical minimum is negative. It refuses a report exactly
  when the contact count, the tip switch of a reported slot, or another field of a touched slot is not
  inside the report, or when an unsigned field of a touched slot has a value that is not an \<open>i32\<close>.\<close>

theorem contacts_read_report:
  "ensures (decode_contacts report l) (\<lambda>cs. map hc_descriptor_slot cs = filter (touched report l) [0..<reported report l] \<and>
     list_all (reads report l) cs) \<and>
   ((\<exists>cs. decode_contacts report l = Ok cs) \<longleftrightarrow> decodable report l)"
  by (intro conjI decode_contacts_ensures decode_contacts_Ok)

text \<open>The layout and the report of one contact at (0x234, -2).\<close>

definition sample_layout :: HidTouchLayout where
  "sample_layout = \<lparr> tl_report_id = 1,
     tl_tips = [\<lparr> hf_report_id = 1, hf_bit_offset = 8, hf_bit_size = 1, hf_logical_minimum = 0, hf_logical_maximum = 1 \<rparr>],
     tl_contact_ids = [],
     tl_x = [\<lparr> hf_report_id = 1, hf_bit_offset = 16, hf_bit_size = 16, hf_logical_minimum = 0, hf_logical_maximum = 4095 \<rparr>],
     tl_y = [\<lparr> hf_report_id = 1, hf_bit_offset = 32, hf_bit_size = 8, hf_logical_minimum = - 1, hf_logical_maximum = 1 \<rparr>],
     tl_pressure = [], tl_touch_major = [], tl_contact_count = None \<rparr>"

definition sample_report :: "u8 list" where
  "sample_report = [1, 1, 0x34, 0x02, 0xfe]"

theorem contacts_read_report_witness:
  "decodable sample_report sample_layout \<and>
   (\<exists>cs. decode_contacts sample_report sample_layout = Ok cs \<and> map hc_descriptor_slot cs = [0] \<and>
     map (sint \<circ> hc_x) cs = [0x234] \<and> map (sint \<circ> hc_y) cs = [- 2])"
proof -
  have fit: "decodable sample_report sample_layout"
    by (simp add: decodable_def slot_readable_def readable_def present_def optional_readable_def get_at_def reported_def contact_capacity_def
        field_value_def sample_layout_def sample_report_def)
  then obtain cs where cs: "decode_contacts sample_report sample_layout = Ok cs"
    using contacts_read_report [of sample_report sample_layout] by blast
  then have read: "map hc_descriptor_slot cs = filter (touched sample_report sample_layout) [0..<reported sample_report sample_layout]"
    "list_all (reads sample_report sample_layout) cs"
    using contacts_read_report [of sample_report sample_layout] by (simp_all add: ensures_def)
  have "filter (touched sample_report sample_layout) [0..<reported sample_report sample_layout] = [0]"
    by (simp add: touched_def reported_def sample_layout_def sample_report_def field_value_def contact_capacity_def)
  then obtain c where c: "cs = [c]" "hc_descriptor_slot c = 0" using read(1) by auto
  have "sint (hc_x c) = 0x234" "sint (hc_y c) = - 2"
    using read(2) c by (simp_all add: reads_def Let_def logical_value_def field_value_def sample_layout_def sample_report_def)
  then show ?thesis using fit cs c by simp
qed

end
