(* ===== verification/Slot_Rules.thy ===== *)
theory Slot_Rules
  imports Hid_Touch "HOL-Library.Sublist"
begin

text \<open>
  Correctness of the slot tracker of the touchscreen: a frame updates every slot at most once, a contact
  that stays keeps its slot and its tracking identifier, and a slot is released exactly when no contact of
  the frame is in it.
\<close>

lemma position_Some: "position p xs = Some i \<Longrightarrow> i < length xs \<and> p (xs ! i)"
  by (induction xs arbitrary: i) (auto split: if_splits)

lemma position_None: "position p xs = None \<longleftrightarrow> (\<forall>x \<in> set xs. \<not> p x)"
  by (induction xs) auto

section \<open>Tracking identifiers\<close>

text \<open>Tracking identifiers are positive; in particular none is the -1 of a release.\<close>

definition valid_id :: "i32 \<Rightarrow> bool" where
  "valid_id w \<longleftrightarrow> 1 \<le> w \<and> w \<le> I32_MAX"

lemma valid_id_not_minus_one: "valid_id w \<Longrightarrow> w \<noteq> - 1"
proof
  assume "valid_id w" "w = - 1"
  then have "unat (- 1 :: i32) \<le> unat I32_MAX" by (simp add: valid_id_def word_le_nat_alt)
  then show False by (simp add: I32_MAX_def unsigned_minus_1_eq_mask mask_eq_exp_minus_1)
qed

text \<open>The identifier after \<open>w\<close>; the counter starts again at 1.\<close>

definition next_id :: "i32 \<Rightarrow> i32" where
  "next_id w = (if w = I32_MAX then 1 else w + 1)"

lemma allocate_tracking_id_eq:
  "allocate_tracking_id t = (st_next_tracking_id t, t \<lparr> st_next_tracking_id := next_id (st_next_tracking_id t) \<rparr>)"
  by (simp add: allocate_tracking_id_def next_id_def Let_def)

lemma next_id_valid: "valid_id w \<Longrightarrow> valid_id (next_id w)"
proof (cases "w = I32_MAX")
  case False
  assume "valid_id w"
  then have w: "1 \<le> unat w" "unat w \<le> 0x7fffffff" by (simp_all add: valid_id_def word_le_nat_alt I32_MAX_def)
  moreover have "unat w \<noteq> 0x7fffffff" using False by (simp add: word_unat_eq_iff I32_MAX_def)
  ultimately have "unat (w + 1) = unat w + 1" by (simp add: unat_word_ariths)
  then show ?thesis using w False \<open>unat w \<noteq> 0x7fffffff\<close> by (simp add: next_id_def valid_id_def word_le_nat_alt I32_MAX_def)
qed (simp add: next_id_def valid_id_def I32_MAX_def)

definition tracker_ok :: "SlotTracker \<Rightarrow> bool" where
  "tracker_ok t \<longleftrightarrow> valid_id (st_next_tracking_id t) \<and> (\<forall>s. Some s \<in> set (st_slots t) \<longrightarrow> valid_id (ts_tracking_id s))"

lemma tracker_new_ok: "tracker_ok (tracker_new n)"
  by (auto simp: tracker_ok_def tracker_new_def valid_id_def I32_MAX_def)

section \<open>One frame\<close>

text \<open>What an update says of its slot: \<open>before\<close> is the slot at the start of the frame, \<open>now\<close> its present
  content.\<close>

definition served :: "TouchSlot option \<Rightarrow> TouchSlot option \<Rightarrow> SlotUpdate \<Rightarrow> bool" where
  "served before now u \<longleftrightarrow>
     (case now of None \<Rightarrow> False | Some s \<Rightarrow> ts_seen s \<and> ts_tracking_id s = su_tracking_id u \<and>
        (case before of
           None \<Rightarrow> su_began u
         | Some s0 \<Rightarrow> \<not> su_began u \<and> s = s0 \<lparr> ts_seen := True \<rparr> \<and> contact_identity (su_contact u) = ts_identity s0))"

definition frame_inv :: "TouchSlot option list \<Rightarrow> SlotTracker \<times> SlotUpdate list \<Rightarrow> bool" where
  "frame_inv before = (\<lambda>(t, us). tracker_ok t \<and> length (st_slots t) = length before \<and> distinct (map su_slot us) \<and>
     (\<forall>i < length before. i \<notin> su_slot ` set us \<longrightarrow> st_slots t ! i = clear_seen before ! i) \<and>
     (\<forall>u \<in> set us. su_slot u < length before \<and> served (before ! su_slot u) (st_slots t ! su_slot u) u))"

lemma frame_invD:
  assumes "frame_inv before (t, us)"
  shows "tracker_ok t" and "length (st_slots t) = length before" and "distinct (map su_slot us)"
    and "i < length before \<Longrightarrow> i \<notin> su_slot ` set us \<Longrightarrow> st_slots t ! i = clear_seen before ! i"
    and "u \<in> set us \<Longrightarrow> su_slot u < length before \<and> served (before ! su_slot u) (st_slots t ! su_slot u) u"
  using assms unfolding frame_inv_def prod.case by blast+

lemma frame_inv_add:
  assumes inv: "frame_inv before (t, us)" and i: "i < length before" "su_slot u = i" "i \<notin> su_slot ` set us"
    and s: "served (before ! i) (Some s) u" "valid_id (ts_tracking_id s)" and n: "valid_id n"
  shows "frame_inv before (\<lparr> st_slots = (st_slots t)[i := Some s], st_next_tracking_id = n \<rparr>, us @ [u])"
  unfolding frame_inv_def prod.case
proof (intro conjI allI ballI impI)
  note D = frame_invD [OF inv]
  show "tracker_ok \<lparr> st_slots = (st_slots t)[i := Some s], st_next_tracking_id = n \<rparr>"
    using D(1) n s(2) set_update_subset_insert [of "st_slots t" i "Some s"] by (auto simp: tracker_ok_def)
  show "distinct (map su_slot (us @ [u]))" using D(3) i by auto
  fix k assume "k < length before" "k \<notin> su_slot ` set (us @ [u])"
  then show "st_slots \<lparr> st_slots = (st_slots t)[i := Some s], st_next_tracking_id = n \<rparr> ! k = clear_seen before ! k"
    using D(4) [of k] i by auto
next
  note D = frame_invD [OF inv]
  fix v assume v: "v \<in> set (us @ [u])"
  then have "v = u \<or> v \<in> set us \<and> su_slot v \<noteq> i" using i(3) by auto
  then show "su_slot v < length before" "served (before ! su_slot v)
      (st_slots \<lparr> st_slots = (st_slots t)[i := Some s], st_next_tracking_id = n \<rparr> ! su_slot v) v"
    using D(2) D(5) [of v] i s(1) by auto
qed (simp add: frame_invD(2) [OF inv])

lemma frame_inv_seen:
  assumes "frame_inv before (t, us)" and "u \<in> set us"
  obtains s where "st_slots t ! su_slot u = Some s" and "ts_seen s"
  using frame_invD(5) [OF assms] by (auto simp: served_def split: option.splits)

lemma frame_inv_untouched:
  assumes "frame_inv before (t, us)" and "i < length before" and "\<forall>s. st_slots t ! i = Some s \<longrightarrow> \<not> ts_seen s"
  shows "i \<notin> su_slot ` set us" and "st_slots t ! i = map_option (\<lambda>s. s \<lparr> ts_seen := False \<rparr>) (before ! i)"
proof -
  show fresh: "i \<notin> su_slot ` set us"
  proof
    assume "i \<in> su_slot ` set us"
    then obtain u where u: "u \<in> set us" "i = su_slot u" by blast
    obtain s where "st_slots t ! su_slot u = Some s" "ts_seen s" by (rule frame_inv_seen [OF assms(1) u(1)])
    then show False using assms(3) u(2) by simp
  qed
  then show "st_slots t ! i = map_option (\<lambda>s. s \<lparr> ts_seen := False \<rparr>) (before ! i)"
    using frame_invD(4) [OF assms(1,2)] assms(2) fresh by (simp add: clear_seen_def)
qed

text \<open>The update of a slot that holds the contact already.\<close>

lemma apply_contact_existing:
  assumes inv: "frame_inv before (t, us)" and at: "position (holds (contact_identity c) False) (st_slots t) = Some i"
  obtains s where "st_slots t ! i = Some s" and "i < length before"
    and "apply_contact (t, us) c = Ok (t \<lparr> st_slots := (st_slots t)[i := Some (s \<lparr> ts_seen := True \<rparr>)] \<rparr>,
      us @ [\<lparr> su_slot = i, su_tracking_id = ts_tracking_id s, su_began = False, su_contact = c \<rparr>])"
    and "frame_inv before (t \<lparr> st_slots := (st_slots t)[i := Some (s \<lparr> ts_seen := True \<rparr>)] \<rparr>,
      us @ [\<lparr> su_slot = i, su_tracking_id = ts_tracking_id s, su_began = False, su_contact = c \<rparr>])"
proof -
  have len: "length (st_slots t) = length before" and ok: "tracker_ok t" by (rule frame_invD [OF inv])+
  obtain s where i: "i < length before" and s: "st_slots t ! i = Some s" "ts_identity s = contact_identity c" "\<not> ts_seen s"
    using position_Some [OF at] len by (auto simp: holds_def split: option.splits)
  have unseen: "\<forall>s. st_slots t ! i = Some s \<longrightarrow> \<not> ts_seen s" using s by simp
  note fresh = frame_inv_untouched [OF inv i unseen]
  obtain s0 where s0: "before ! i = Some s0" "s = s0 \<lparr> ts_seen := False \<rparr>" using fresh(2) s(1) by (cases "before ! i") auto
  have "Some s \<in> set (st_slots t)" using i len s(1) by (metis nth_mem)
  then have "valid_id (ts_tracking_id s)" using ok by (simp add: tracker_ok_def)
  moreover have "valid_id (st_next_tracking_id t)" using ok by (simp add: tracker_ok_def)
  ultimately have "frame_inv before (\<lparr> st_slots = (st_slots t)[i := Some (s \<lparr> ts_seen := True \<rparr>)],
      st_next_tracking_id = st_next_tracking_id t \<rparr>, us @ [\<lparr> su_slot = i, su_tracking_id = ts_tracking_id s,
      su_began = False, su_contact = c \<rparr>])"
    using s0 s(2) by (intro frame_inv_add [OF inv i _ fresh(1)]) (simp_all add: served_def)
  then have "frame_inv before (t \<lparr> st_slots := (st_slots t)[i := Some (s \<lparr> ts_seen := True \<rparr>)] \<rparr>,
      us @ [\<lparr> su_slot = i, su_tracking_id = ts_tracking_id s, su_began = False, su_contact = c \<rparr>])"
    by (cases t) simp
  then show ?thesis
    using at s i len by (intro that) (simp_all add: apply_contact_def index_def Let_def)
qed

text \<open>A new contact in a free slot.\<close>

lemma apply_contact_new:
  assumes inv: "frame_inv before (t, us)" and none: "position (holds (contact_identity c) False) (st_slots t) = None"
    and at: "position (\<lambda>s. s = None) (st_slots t) = Some i"
  obtains s t' where "i < length before" and "before ! i = None"
    and "s = \<lparr> ts_identity = (if list_ex (holds (contact_identity c) True) (st_slots t) then Descriptor (hc_descriptor_slot c)
      else contact_identity c), ts_tracking_id = st_next_tracking_id t, ts_seen = True \<rparr>"
    and "t' = \<lparr> st_slots = (st_slots t)[i := Some s], st_next_tracking_id = next_id (st_next_tracking_id t) \<rparr>"
    and "apply_contact (t, us) c = Ok (t', us @ [\<lparr> su_slot = i, su_tracking_id = ts_tracking_id s, su_began = True, su_contact = c \<rparr>])"
    and "frame_inv before (t', us @ [\<lparr> su_slot = i, su_tracking_id = ts_tracking_id s, su_began = True, su_contact = c \<rparr>])"
proof -
  have len: "length (st_slots t) = length before" and ok: "valid_id (st_next_tracking_id t)"
    using frame_invD(1,2) [OF inv] by (simp_all add: tracker_ok_def)
  have i: "i < length before" and slot: "st_slots t ! i = None" using position_Some [OF at] len by auto
  have unseen: "\<forall>s. st_slots t ! i = Some s \<longrightarrow> \<not> ts_seen s" using slot by simp
  note fresh = frame_inv_untouched [OF inv i unseen]
  have before: "before ! i = None" using fresh(2) slot by simp
  define identity where "identity = (if list_ex (holds (contact_identity c) True) (st_slots t)
    then Descriptor (hc_descriptor_slot c) else contact_identity c)"
  define s where "s = \<lparr> ts_identity = identity, ts_tracking_id = st_next_tracking_id t, ts_seen = True \<rparr>"
  define t' where "t' = \<lparr> st_slots = (st_slots t)[i := Some s],
    st_next_tracking_id = next_id (st_next_tracking_id t) \<rparr>"
  have "frame_inv before (t', us @ [\<lparr> su_slot = i, su_tracking_id = ts_tracking_id s, su_began = True, su_contact = c \<rparr>])"
    unfolding t'_def using ok next_id_valid [OF ok] before
    by (intro frame_inv_add [OF inv i _ fresh(1)]) (simp_all add: served_def s_def)
  moreover have "apply_contact (t, us) c =
      Ok (t', us @ [\<lparr> su_slot = i, su_tracking_id = ts_tracking_id s, su_began = True, su_contact = c \<rparr>])"
    using none at slot i len by (simp add: apply_contact_def index_def Let_def allocate_tracking_id_eq identity_def s_def t'_def)
  ultimately show ?thesis using that [of s t'] i before by (simp add: t'_def s_def identity_def)
qed

lemma apply_contact_full:
  assumes "position (holds (contact_identity c) False) (st_slots t) = None" and "position (\<lambda>s. s = None) (st_slots t) = None"
  shows "apply_contact (t, us) c = Ok (t, us)"
  using assms by (simp add: apply_contact_def Let_def)

section \<open>Contacts and identifiers\<close>

text \<open>The updates that continue a contact of identity \<open>x\<close>, the slots and the contacts of that identity, and the
  identifiers of the contacts that are new.\<close>

definition continued :: "ContactIdentity \<Rightarrow> SlotUpdate list \<Rightarrow> nat" where
  "continued x us = length (filter (\<lambda>u. \<not> su_began u \<and> contact_identity (su_contact u) = x) us)"

definition slots_of :: "ContactIdentity \<Rightarrow> TouchSlot option list \<Rightarrow> nat" where
  "slots_of x slots = length (filter (\<lambda>s. map_option ts_identity s = Some x) slots)"

definition contacts_of :: "ContactIdentity \<Rightarrow> HidContact list \<Rightarrow> nat" where
  "contacts_of x cs = length (filter (\<lambda>c. contact_identity c = x) cs)"

definition issued :: "SlotUpdate list \<Rightarrow> i32 list" where
  "issued us = map su_tracking_id (filter su_began us)"

text \<open>A new contact is remembered by its identity, unless another slot of the frame has that identity already; then by its
  place in the report.\<close>

definition remembered :: "TouchSlot option list \<Rightarrow> SlotUpdate list \<Rightarrow> SlotUpdate \<Rightarrow> bool" where
  "remembered slots us u \<longleftrightarrow>
     map_option ts_identity (slots ! su_slot u) = Some (contact_identity (su_contact u)) \<or>
     map_option ts_identity (slots ! su_slot u) = Some (Descriptor (hc_descriptor_slot (su_contact u))) \<and>
     (\<exists>v \<in> set us. su_slot v \<noteq> su_slot u \<and> map_option ts_identity (slots ! su_slot v) = Some (contact_identity (su_contact u)))"

definition counted :: "TouchSlot option list \<Rightarrow> HidContact list \<Rightarrow> SlotTracker \<times> SlotUpdate list \<Rightarrow> bool" where
  "counted before cs = (\<lambda>(t, us). \<forall>x. continued x us + length (filter (holds x False) (st_slots t)) = slots_of x before \<and>
     continued x us = min (contacts_of x cs) (slots_of x before))"

definition numbered :: "i32 \<Rightarrow> SlotTracker \<times> SlotUpdate list \<Rightarrow> bool" where
  "numbered n0 = (\<lambda>(t, us). issued us = map (\<lambda>k. (next_id ^^ k) n0) [0..<length (issued us)] \<and>
     st_next_tracking_id t = (next_id ^^ length (issued us)) n0)"

definition frame_track :: "TouchSlot option list \<Rightarrow> i32 \<Rightarrow> HidContact list \<Rightarrow> SlotTracker \<times> SlotUpdate list \<Rightarrow> bool" where
  "frame_track before n0 cs = (\<lambda>(t, us). counted before cs (t, us) \<and> numbered n0 (t, us) \<and>
     (\<forall>u \<in> set us. su_began u \<longrightarrow> remembered (st_slots t) us u))"

lemma slots_updated: "st_slots (t \<lparr> st_slots := slots \<rparr>) = slots"
  by simp

lemma length_filter_update:
  assumes "i < length xs"
  shows "length (filter p (xs[i := v])) + (if p (xs ! i) then 1 else 0) = length (filter p xs) + (if p v then 1 else 0)"
  using assms
proof (induction xs arbitrary: i)
  case (Cons x xs)
  show ?case
  proof (cases i)
    case (Suc k)
    then show ?thesis using Cons.IH [of k] Cons.prems by simp
  qed simp
qed simp

lemma remembered_update:
  assumes "remembered slots us u" and "i \<noteq> su_slot u" and "i \<notin> su_slot ` set us" and "set us \<subseteq> set us'"
  shows "remembered (slots[i := s]) us' u"
proof -
  have "slots[i := s] ! su_slot v = slots ! su_slot v" if "v \<in> set us" for v using assms(3) that by (metis imageI nth_list_update_neq)
  then show ?thesis using assms unfolding remembered_def by (metis (no_types, lifting) nth_list_update_neq subsetD)
qed

lemma track_existing:
  assumes track: "frame_track before n0 cs (t, us)" and i: "i < length (st_slots t)" "i \<notin> su_slot ` set us"
    and s: "st_slots t ! i = Some s" "holds (contact_identity c) False (Some s)"
    and u: "su_slot u = i" "\<not> su_began u" "su_contact u = c"
  shows "frame_track before n0 (cs @ [c]) (t \<lparr> st_slots := (st_slots t)[i := Some (s \<lparr> ts_seen := True \<rparr>)] \<rparr>, us @ [u])"
proof -
  let ?slots = "(st_slots t)[i := Some (s \<lparr> ts_seen := True \<rparr>)]"
  have C: "continued x us + length (filter (holds x False) (st_slots t)) = slots_of x before"
    "continued x us = min (contacts_of x cs) (slots_of x before)" for x
    using track unfolding frame_track_def counted_def prod.case by blast+
  have F: "length (filter (holds x False) ?slots) + (if x = contact_identity c then 1 else 0) = length (filter (holds x False) (st_slots t))" for x
    using length_filter_update [OF i(1), of "holds x False" "Some (s \<lparr> ts_seen := True \<rparr>)"] s by (auto simp: holds_def)
  have U: "continued x (us @ [u]) = continued x us + (if x = contact_identity c then 1 else 0)" for x
    using u by (auto simp: continued_def)
  have N: "contacts_of x (cs @ [c]) = contacts_of x cs + (if x = contact_identity c then 1 else 0)" for x
    by (auto simp: contacts_of_def)
  have "continued x (us @ [u]) + length (filter (holds x False) ?slots) = slots_of x before \<and>
      continued x (us @ [u]) = min (contacts_of x (cs @ [c])) (slots_of x before)" for x
    using C [of x] F [of x] U [of x] N [of x] by (simp split: if_splits)
  then have "counted before (cs @ [c]) (t \<lparr> st_slots := ?slots \<rparr>, us @ [u])"
    unfolding counted_def prod.case slots_updated by blast
  moreover have "numbered n0 (t \<lparr> st_slots := ?slots \<rparr>, us @ [u])"
    using track u by (simp add: frame_track_def numbered_def issued_def)
  moreover have "remembered ?slots (us @ [u]) v" if "v \<in> set us" "su_began v" for v
    using track that i(2) by (intro remembered_update [of _ us]) (auto simp: frame_track_def)
  ultimately show ?thesis using u unfolding frame_track_def by auto
qed

lemma counted_new:
  assumes counted: "counted before cs (t, us)" and none: "position (holds (contact_identity c) False) (st_slots t) = None"
    and slots: "\<And>x. length (filter (holds x False) slots) = length (filter (holds x False) (st_slots t))"
    and us: "\<And>x. continued x us' = continued x us" and t': "st_slots t' = slots"
  shows "counted before (cs @ [c]) (t', us')"
proof -
  have "filter (holds (contact_identity c) False) (st_slots t) = []"
    using none by (simp add: position_None filter_empty_conv)
  then have zero: "x = contact_identity c \<Longrightarrow> length (filter (holds x False) (st_slots t)) = 0" for x by simp
  have N: "contacts_of x (cs @ [c]) = contacts_of x cs + (if x = contact_identity c then 1 else 0)" for x
    by (auto simp: contacts_of_def)
  have C: "continued x us + length (filter (holds x False) (st_slots t)) = slots_of x before"
    "continued x us = min (contacts_of x cs) (slots_of x before)" for x
    using counted unfolding counted_def prod.case by blast+
  have "continued x us' + length (filter (holds x False) slots) = slots_of x before \<and>
      continued x us' = min (contacts_of x (cs @ [c])) (slots_of x before)" for x
    using C [of x] N [of x] zero [of x] slots [of x] us [of x] by (simp split: if_splits)
  then show ?thesis unfolding counted_def prod.case t' by blast
qed

lemma track_new:
  assumes inv: "frame_inv before (t, us)" and track: "frame_track before n0 cs (t, us)"
    and none: "position (holds (contact_identity c) False) (st_slots t) = None"
    and i: "i < length (st_slots t)" "i \<notin> su_slot ` set us" "st_slots t ! i = None"
    and s: "s = \<lparr> ts_identity = (if list_ex (holds (contact_identity c) True) (st_slots t) then Descriptor (hc_descriptor_slot c)
      else contact_identity c), ts_tracking_id = st_next_tracking_id t, ts_seen = True \<rparr>"
    and t': "t' = \<lparr> st_slots = (st_slots t)[i := Some s], st_next_tracking_id = next_id (st_next_tracking_id t) \<rparr>"
    and u: "su_slot u = i" "su_began u" "su_contact u = c" "su_tracking_id u = st_next_tracking_id t"
  shows "frame_track before n0 (cs @ [c]) (t', us @ [u])"
proof -
  have slots: "st_slots t' = (st_slots t)[i := Some s]" by (simp add: t')
  have "length (filter (holds x False) ((st_slots t)[i := Some s])) = length (filter (holds x False) (st_slots t))" for x
    using length_filter_update [OF i(1), of "holds x False" "Some s"] i(3) by (simp add: holds_def s)
  moreover have "continued x (us @ [u]) = continued x us" for x using u by (simp add: continued_def)
  ultimately have "counted before (cs @ [c]) (t', us @ [u])"
    using track by (intro counted_new [OF _ none _ _ slots]) (simp_all add: frame_track_def)
  moreover have "numbered n0 (t', us @ [u])"
    using track u by (simp add: frame_track_def numbered_def issued_def t')
  moreover have "remembered (st_slots t') (us @ [u]) v" if "v \<in> set us" "su_began v" for v
    unfolding slots using track that i(2) by (intro remembered_update [of _ us]) (auto simp: frame_track_def)
  moreover have "remembered (st_slots t') (us @ [u]) u"
  proof (cases "list_ex (holds (contact_identity c) True) (st_slots t)")
    case True
    then obtain k r where k: "k < length (st_slots t)" "st_slots t ! k = Some r" "ts_identity r = contact_identity c" "ts_seen r"
      by (auto simp: list_ex_length holds_def split: option.splits)
    have len: "length (st_slots t) = length before" by (rule frame_invD(2) [OF inv])
    have "k \<in> su_slot ` set us"
    proof (rule ccontr)
      assume "k \<notin> su_slot ` set us"
      then have "st_slots t ! k = clear_seen before ! k" using frame_invD(4) [OF inv] k(1) len by simp
      then show False using k len by (cases "before ! k") (auto simp: clear_seen_def)
    qed
    then obtain v where v: "v \<in> set us" "su_slot v = k" by blast
    have "k \<noteq> i" using i(3) k(2) by auto
    then show ?thesis using True i(1) u v k by (auto simp: remembered_def slots s)
  qed (use i(1) u in \<open>simp add: remembered_def slots s\<close>)
  ultimately show ?thesis unfolding frame_track_def by auto
qed

lemma track_full:
  assumes "frame_track before n0 cs (t, us)" and "position (holds (contact_identity c) False) (st_slots t) = None"
  shows "frame_track before n0 (cs @ [c]) (t, us)"
  using assms counted_new [OF _ assms(2), of before cs us "st_slots t" us t] by (simp add: frame_track_def)

text \<open>A contact is served or there is no free slot for it; no contact empties a slot.\<close>

lemma apply_contact_step:
  assumes inv: "frame_inv before (t, us)" and track: "frame_track before n0 cs (t, us)"
  obtains t' us' where "apply_contact (t, us) c = Ok (t', us')" and "frame_inv before (t', us')"
    and "frame_track before n0 (cs @ [c]) (t', us')"
    and "None \<notin> set (st_slots t) \<longrightarrow> None \<notin> set (st_slots t')"
    and "(us' = us \<and> None \<notin> set (st_slots t')) \<or> (\<exists>u. us' = us @ [u] \<and> su_contact u = c)"
proof (cases "position (holds (contact_identity c) False) (st_slots t)")
  case (Some i)
  have len: "length (st_slots t) = length before" by (rule frame_invD(2) [OF inv])
  have keep: "None \<notin> set xs \<longrightarrow> None \<notin> set (xs[i := Some s])" for xs :: "TouchSlot option list" and s
    using set_update_subset_insert [of xs i "Some s"] by auto
  obtain s where s: "st_slots t ! i = Some s" "i < length before"
    "apply_contact (t, us) c = Ok (t \<lparr> st_slots := (st_slots t)[i := Some (s \<lparr> ts_seen := True \<rparr>)] \<rparr>,
      us @ [\<lparr> su_slot = i, su_tracking_id = ts_tracking_id s, su_began = False, su_contact = c \<rparr>])"
    "frame_inv before (t \<lparr> st_slots := (st_slots t)[i := Some (s \<lparr> ts_seen := True \<rparr>)] \<rparr>,
      us @ [\<lparr> su_slot = i, su_tracking_id = ts_tracking_id s, su_began = False, su_contact = c \<rparr>])"
    by (rule apply_contact_existing [OF inv Some])
  have h: "holds (contact_identity c) False (Some s)" using position_Some [OF Some] s(1) by simp
  then have "\<not> ts_seen s" by (simp add: holds_def)
  then have "i \<notin> su_slot ` set us" using frame_inv_untouched(1) [OF inv s(2)] s(1) by simp
  then have "frame_track before n0 (cs @ [c]) (t \<lparr> st_slots := (st_slots t)[i := Some (s \<lparr> ts_seen := True \<rparr>)] \<rparr>,
      us @ [\<lparr> su_slot = i, su_tracking_id = ts_tracking_id s, su_began = False, su_contact = c \<rparr>])"
    using s(2) len by (intro track_existing [OF track _ _ s(1) h]) simp_all
  with s(3,4) show ?thesis by (rule that) (simp_all add: keep)
next
  case None
  show ?thesis
  proof (cases "position (\<lambda>s. s = None) (st_slots t)")
    case None': None
    then have "None \<notin> set (st_slots t)" by (auto simp: position_None)
    then show ?thesis using that [OF apply_contact_full [OF None None'] inv track_full [OF track None]] by simp
  next
    case (Some i)
    have at: "i < length (st_slots t)" "st_slots t ! i = None" using position_Some [OF Some] by simp_all
    have free: "None \<in> set (st_slots t)" using at nth_mem [of i "st_slots t"] by simp
    have fresh: "i \<notin> su_slot ` set us" using frame_inv_untouched(1) [OF inv] at frame_invD(2) [OF inv] by simp
    obtain s :: TouchSlot and t' where s: "s = \<lparr> ts_identity = (if list_ex (holds (contact_identity c) True) (st_slots t)
        then Descriptor (hc_descriptor_slot c) else contact_identity c), ts_tracking_id = st_next_tracking_id t, ts_seen = True \<rparr>"
      and t': "t' = \<lparr> st_slots = (st_slots t)[i := Some s], st_next_tracking_id = next_id (st_next_tracking_id t) \<rparr>"
      and run: "apply_contact (t, us) c = Ok (t', us @ [\<lparr> su_slot = i, su_tracking_id = ts_tracking_id s, su_began = True, su_contact = c \<rparr>])"
      and inv': "frame_inv before (t', us @ [\<lparr> su_slot = i, su_tracking_id = ts_tracking_id s, su_began = True, su_contact = c \<rparr>])"
      by (rule apply_contact_new [OF inv None Some])
    have track': "frame_track before n0 (cs @ [c])
        (t', us @ [\<lparr> su_slot = i, su_tracking_id = ts_tracking_id s, su_began = True, su_contact = c \<rparr>])"
      by (rule track_new [OF inv track None at(1) fresh at(2) s t']) (simp_all add: s)
    show ?thesis by (rule that [OF run inv' track']) (use free in simp_all)
  qed
qed

lemma apply_contacts:
  assumes "frame_inv before (t, us)" and "frame_track before n0 ds (t, us)"
  shows "\<exists>t' us'. foldM apply_contact (t, us) cs = Ok (t', us @ us') \<and> frame_inv before (t', us @ us') \<and>
    frame_track before n0 (ds @ cs) (t', us @ us') \<and>
    subseq (map su_contact us') cs \<and> (None \<notin> set (st_slots t) \<longrightarrow> None \<notin> set (st_slots t')) \<and>
    (length us' = length cs \<or> None \<notin> set (st_slots t'))"
  using assms
proof (induction cs arbitrary: t us ds)
  case (Cons c cs)
  obtain t1 us1 where step: "apply_contact (t, us) c = Ok (t1, us1)" "frame_inv before (t1, us1)" "frame_track before n0 (ds @ [c]) (t1, us1)"
    and full: "None \<notin> set (st_slots t) \<longrightarrow> None \<notin> set (st_slots t1)"
    and served: "(us1 = us \<and> None \<notin> set (st_slots t1)) \<or> (\<exists>u. us1 = us @ [u] \<and> su_contact u = c)"
    by (rule apply_contact_step [OF Cons.prems, where c = c])
  obtain t' us' where rest: "foldM apply_contact (t1, us1) cs = Ok (t', us1 @ us')" "frame_inv before (t', us1 @ us')"
    "frame_track before n0 (ds @ c # cs) (t', us1 @ us')"
    "subseq (map su_contact us') cs" "None \<notin> set (st_slots t1) \<longrightarrow> None \<notin> set (st_slots t')"
    "length us' = length cs \<or> None \<notin> set (st_slots t')"
    using Cons.IH [OF step(2,3)] by auto
  from served show ?case
  proof
    assume "us1 = us \<and> None \<notin> set (st_slots t1)"
    then show ?thesis
      using step rest by (intro exI [of _ t'] exI [of _ us']) (auto simp: outcome_simps)
  next
    assume "\<exists>u. us1 = us @ [u] \<and> su_contact u = c"
    then obtain u where "us1 = us @ [u]" "su_contact u = c" by blast
    then show ?thesis
      using step rest full by (intro exI [of _ t'] exI [of _ "u # us'"]) (auto simp: outcome_simps)
  qed
qed simp

text \<open>What a frame does to the slots.\<close>

definition frame_correct :: "SlotTracker \<Rightarrow> HidContact list \<Rightarrow> SlotTracker \<Rightarrow> TouchFrame \<Rightarrow> bool" where
  "frame_correct t cs t' frame \<longleftrightarrow>
     (let updated = su_slot ` set (tf_updates frame); n = length (st_slots t) in
      tracker_ok t' \<and> length (st_slots t') = n \<and>
      distinct (map su_slot (tf_updates frame)) \<and> subseq (map su_contact (tf_updates frame)) cs \<and>
      (\<forall>u \<in> set (tf_updates frame). su_slot u < n \<and> served (st_slots t ! su_slot u) (st_slots t' ! su_slot u) u) \<and>
      (\<forall>i < n. i \<notin> updated \<longrightarrow> st_slots t' ! i = None) \<and>
      tf_releases frame = filter (\<lambda>i. st_slots t ! i \<noteq> None \<and> i \<notin> updated) [0..<n] \<and>
      tf_primary frame = first cs \<and> tf_any_contact frame = (cs \<noteq> []))"

text \<open>How a frame treats contacts that stay and contacts that are new: of each identity as many slots are continued as
  there are contacts and slots of it; the new contacts get consecutive identifiers, from the counter of the
  tracker, and are remembered.\<close>

definition contacts_tracked :: "SlotTracker \<Rightarrow> HidContact list \<Rightarrow> SlotTracker \<Rightarrow> TouchFrame \<Rightarrow> bool" where
  "contacts_tracked t cs t' frame \<longleftrightarrow>
     (\<forall>x. continued x (tf_updates frame) = min (contacts_of x cs) (slots_of x (st_slots t))) \<and>
     issued (tf_updates frame) = map (\<lambda>k. (next_id ^^ k) (st_next_tracking_id t)) [0..<length (issued (tf_updates frame))] \<and>
     st_next_tracking_id t' = (next_id ^^ length (issued (tf_updates frame))) (st_next_tracking_id t) \<and>
     (\<forall>u \<in> set (tf_updates frame). su_began u \<longrightarrow> remembered (st_slots t') (tf_updates frame) u)"

lemma frame_track_start: "frame_track (st_slots t) (st_next_tracking_id t) [] (t \<lparr> st_slots := clear_seen (st_slots t) \<rparr>, [])"
proof -
  have "holds x False (map_option (\<lambda>s. s \<lparr> ts_seen := False \<rparr>) s) \<longleftrightarrow> map_option ts_identity s = Some x" for x and s :: "TouchSlot option"
    by (cases s) (simp_all add: holds_def)
  then have "length (filter (holds x False) (clear_seen slots)) = slots_of x slots" for x slots
    by (simp add: slots_of_def clear_seen_def filter_map comp_def)
  then show ?thesis by (simp add: frame_track_def counted_def numbered_def continued_def contacts_of_def issued_def)
qed

lemma frame_inv_start: "tracker_ok t \<Longrightarrow> frame_inv (st_slots t) (t \<lparr> st_slots := clear_seen (st_slots t) \<rparr>, [])"
  by (auto simp: frame_inv_def tracker_ok_def clear_seen_def eq_commute [of "Some _" "map_option _ _"])

lemma release_slots_correct:
  assumes inv: "frame_inv before (t, us)" and i: "i < length before"
  shows "unseen (st_slots t ! i) \<longleftrightarrow> before ! i \<noteq> None \<and> i \<notin> su_slot ` set us"
    and "i \<notin> su_slot ` set us \<Longrightarrow> (if unseen (st_slots t ! i) then None else st_slots t ! i) = None"
proof -
  have untouched: "st_slots t ! i = map_option (\<lambda>s. s \<lparr> ts_seen := False \<rparr>) (before ! i)" if "i \<notin> su_slot ` set us"
    using frame_invD(4) [OF inv i that] i by (simp add: clear_seen_def)
  show "unseen (st_slots t ! i) \<longleftrightarrow> before ! i \<noteq> None \<and> i \<notin> su_slot ` set us"
  proof (cases "i \<in> su_slot ` set us")
    case True
    then obtain u where u: "u \<in> set us" "i = su_slot u" by blast
    obtain s where "st_slots t ! su_slot u = Some s" "ts_seen s" by (rule frame_inv_seen [OF inv u(1)])
    then show ?thesis using True u(2) by (simp add: unseen_def)
  next
    case False
    then show ?thesis using untouched by (cases "before ! i") (simp_all add: unseen_def)
  qed
  show "(if unseen (st_slots t ! i) then None else st_slots t ! i) = None" if "i \<notin> su_slot ` set us"
    using untouched [OF that] by (cases "before ! i") (simp_all add: unseen_def)
qed

lemma apply_frame_correct:
  assumes ok: "tracker_ok t"
  shows "\<exists>t' frame. apply_frame t cs = Ok (t', frame) \<and> frame_correct t cs t' frame \<and> contacts_tracked t cs t' frame \<and>
    (length (tf_updates frame) = length cs \<or>
     (\<forall>i < length (st_slots t). i \<notin> su_slot ` set (tf_updates frame) \<longrightarrow> i \<in> set (tf_releases frame)))"
proof -
  let ?before = "st_slots t"
  obtain t1 us where loop: "foldM apply_contact (t \<lparr> st_slots := clear_seen ?before \<rparr>, []) cs = Ok (t1, us)"
    and inv: "frame_inv ?before (t1, us)" and sub: "subseq (map su_contact us) cs"
    and track: "frame_track ?before (st_next_tracking_id t) cs (t1, us)"
    and all: "length us = length cs \<or> None \<notin> set (st_slots t1)"
    using apply_contacts [OF frame_inv_start [OF ok] frame_track_start, of cs] by auto
  note D = frame_invD [OF inv] and R = release_slots_correct [OF inv]
  let ?slots = "map (\<lambda>s. if unseen s then None else s) (st_slots t1)"
  define releases where "releases = filter (\<lambda>i. unseen (st_slots t1 ! i)) [0..<length (st_slots t1)]"
  have releases: "releases = filter (\<lambda>i. ?before ! i \<noteq> None \<and> i \<notin> su_slot ` set us) [0..<length ?before]"
    unfolding releases_def D(2) by (rule filter_cong [OF refl]) (simp add: R(1))
  have ok': "tracker_ok (t1 \<lparr> st_slots := ?slots \<rparr>)"
    using D(1) by (auto simp: tracker_ok_def split: if_splits)
  have kept: "?slots ! su_slot u = st_slots t1 ! su_slot u" "su_slot u < length ?before"
    "served (?before ! su_slot u) (st_slots t1 ! su_slot u) u" if "u \<in> set us" for u
    using D(2) D(5) [OF that] R(1) [of "su_slot u"] that by auto
  have gone: "?slots ! i = None" if "i < length ?before" "i \<notin> su_slot ` set us" for i
    using R(2) [OF that] that(1) D(2) by simp
  have "frame_correct t cs (t1 \<lparr> st_slots := ?slots \<rparr>)
      \<lparr> tf_updates = us, tf_releases = releases, tf_primary = first cs, tf_any_contact = (cs \<noteq> []) \<rparr>"
    unfolding frame_correct_def Let_def using ok' D(2,3) sub kept gone by (simp add: releases)
  moreover have "contacts_tracked t cs (t1 \<lparr> st_slots := ?slots \<rparr>)
      \<lparr> tf_updates = us, tf_releases = releases, tf_primary = first cs, tf_any_contact = (cs \<noteq> []) \<rparr>"
  proof -
    have "remembered ?slots us u" if "u \<in> set us" "su_began u" for u
      using track that kept(1) unfolding frame_track_def prod.case remembered_def by (metis (no_types, lifting))
    then show ?thesis
      using track unfolding contacts_tracked_def frame_track_def counted_def numbered_def by simp
  qed
  moreover have "apply_frame t cs = Ok (t1 \<lparr> st_slots := ?slots \<rparr>,
      \<lparr> tf_updates = us, tf_releases = releases, tf_primary = first cs, tf_any_contact = (cs \<noteq> []) \<rparr>)"
    using loop by (simp add: apply_frame_def release_slots_def releases_def)
  moreover have "i \<in> set releases" if "None \<notin> set (st_slots t1)" "i < length ?before" "i \<notin> su_slot ` set us" for i
    using that D(2) frame_invD(4) [OF inv that(2,3)] nth_mem [of i "st_slots t1"] by (auto simp: releases clear_seen_def)
  ultimately show ?thesis using all by auto
qed

text \<open>C31. A frame never panics. It updates each slot at most once. Contacts stay in their slots: of each identity as
  many slots are continued, with their identity and tracking identifier, as there are contacts and occupied
  slots of that identity. The other contacts that find a free slot are new: they get consecutive positive
  identifiers from the counter of the tracker, which advances past them, and the slot remembers the
  identity of the contact, or its place in the report when another slot of the frame has that identity.
  Afterwards exactly the updated slots are occupied, and exactly the slots that were occupied and not
  updated are released. A contact is left out only when every slot is updated or released by the frame.\<close>

theorem frames_keep_slots:
  assumes "tracker_ok t"
  shows "\<exists>t' frame. apply_frame t cs = Ok (t', frame) \<and> frame_correct t cs t' frame \<and> contacts_tracked t cs t' frame \<and>
    (length (tf_updates frame) = length cs \<or>
     (\<forall>i < length (st_slots t). i \<notin> su_slot ` set (tf_updates frame) \<longrightarrow> i \<in> set (tf_releases frame)))"
  by (rule apply_frame_correct [OF assms])

text \<open>Two fingers; then one of them is replaced by a third, and the other keeps its slot.\<close>

definition finger :: "usize \<Rightarrow> i32 \<Rightarrow> HidContact" where
  "finger slot h = \<lparr> hc_descriptor_slot = slot, hc_hardware_id = Some h, hc_x = 0, hc_y = 0, hc_pressure = None, hc_touch_major = None \<rparr>"

definition two_fingers :: SlotTracker where
  "two_fingers = \<lparr> st_slots = [Some \<lparr> ts_identity = Hardware 41, ts_tracking_id = 1, ts_seen = True \<rparr>,
     Some \<lparr> ts_identity = Hardware 77, ts_tracking_id = 2, ts_seen = True \<rparr>, None], st_next_tracking_id = 3 \<rparr>"

theorem frames_keep_slots_witness:
  "tracker_ok two_fingers \<and> (\<exists>t' frame. apply_frame two_fingers [finger 0 77, finger 2 99] = Ok (t', frame) \<and>
     frame_correct two_fingers [finger 0 77, finger 2 99] t' frame \<and> contacts_tracked two_fingers [finger 0 77, finger 2 99] t' frame \<and>
     continued (Hardware 77) (tf_updates frame) = 1 \<and> issued (tf_updates frame) = [3] \<and> map su_slot (tf_updates frame) = [1, 2] \<and>
     tf_releases frame = [0])"
proof -
  have ok: "tracker_ok two_fingers" by (simp add: tracker_ok_def two_fingers_def valid_id_def I32_MAX_def)
  obtain t' frame where run: "apply_frame two_fingers [finger 0 77, finger 2 99] = Ok (t', frame)"
    "frame_correct two_fingers [finger 0 77, finger 2 99] t' frame" "contacts_tracked two_fingers [finger 0 77, finger 2 99] t' frame"
    using frames_keep_slots [OF ok] by blast
  moreover have "continued (Hardware 77) (tf_updates frame) = 1" "issued (tf_updates frame) = [3]"
    "map su_slot (tf_updates frame) = [1, 2]" "tf_releases frame = [0]"
  proof -
    let ?s = "\<lambda>h n seen. Some \<lparr> ts_identity = Hardware h, ts_tracking_id = n, ts_seen = seen \<rparr>"
    have first: "apply_contact (\<lparr> st_slots = [?s 41 1 False, ?s 77 2 False, None], st_next_tracking_id = 3 \<rparr>, []) (finger 0 77) =
        Ok (\<lparr> st_slots = [?s 41 1 False, ?s 77 2 True, None], st_next_tracking_id = 3 \<rparr>,
          [\<lparr> su_slot = 1, su_tracking_id = 2, su_began = False, su_contact = finger 0 77 \<rparr>])"
      by (simp add: apply_contact_def finger_def contact_identity_def holds_def index_def)
    have second: "apply_contact (\<lparr> st_slots = [?s 41 1 False, ?s 77 2 True, None], st_next_tracking_id = 3 \<rparr>, us) (finger 2 99) =
        Ok (\<lparr> st_slots = [?s 41 1 False, ?s 77 2 True, ?s 99 3 True], st_next_tracking_id = 4 \<rparr>,
          us @ [\<lparr> su_slot = 2, su_tracking_id = 3, su_began = True, su_contact = finger 2 99 \<rparr>])" for us
      by (simp add: apply_contact_def finger_def contact_identity_def holds_def index_def allocate_tracking_id_eq next_id_def I32_MAX_def)
    have upt: "[0..<3] = [0, 1, 2 :: nat]" by (simp add: upt_rec)
    have "two_fingers \<lparr> st_slots := clear_seen (st_slots two_fingers) \<rparr> =
        \<lparr> st_slots = [?s 41 1 False, ?s 77 2 False, None], st_next_tracking_id = 3 \<rparr>"
      by (simp add: two_fingers_def clear_seen_def)
    then have "frame = \<lparr> tf_updates = [\<lparr> su_slot = 1, su_tracking_id = 2, su_began = False, su_contact = finger 0 77 \<rparr>,
          \<lparr> su_slot = 2, su_tracking_id = 3, su_began = True, su_contact = finger 2 99 \<rparr>], tf_releases = [0],
        tf_primary = first [finger 0 77, finger 2 99], tf_any_contact = True \<rparr>"
      using run(1) upt by (simp add: apply_frame_def first second release_slots_def unseen_def)
    then show "continued (Hardware 77) (tf_updates frame) = 1" "issued (tf_updates frame) = [3]"
      "map su_slot (tf_updates frame) = [1, 2]" "tf_releases frame = [0]"
      by (simp_all add: continued_def issued_def finger_def contact_identity_def)
  qed
  ultimately show ?thesis using ok by (intro conjI exI [of _ t'] exI [of _ frame])
qed

end
