(* ===== verification/Touch_Device.thy ===== *)
theory Touch_Device
  imports Contact_Rules Slot_Rules
begin

text \<open>
  The touchscreen driver around the HID layer (\<open>drivers/input/touchscreen/goodix-gt7375p/src/lib.rs\<close>):
  input reports are read from the bus, decoded, applied to the slots and emitted as input events. The
  event types and codes the driver imports from the kernel are the fields of the record \<open>InputAbi\<close>;
  a bus transfer is its result, the bytes read or an error.
\<close>

datatype I2cError = BusError | Timeout | OtherI2cError

record InputAbi =
  EV_SYN :: u16
  EV_KEY :: u16
  EV_ABS :: u16
  SYN_REPORT :: u16
  ABS_MT_SLOT :: u16
  ABS_MT_TOUCH_MAJOR :: u16
  ABS_MT_POSITION_X :: u16
  ABS_MT_POSITION_Y :: u16
  ABS_MT_TRACKING_ID :: u16
  ABS_MT_PRESSURE :: u16

definition ABS_X :: u16 where "ABS_X = 0x00"
definition ABS_Y :: u16 where "ABS_Y = 0x01"
definition ABS_PRESSURE :: u16 where "ABS_PRESSURE = 0x18"
definition BTN_TOUCH :: u16 where "BTN_TOUCH = 0x14a"
definition MAX_TOUCH_SLOTS :: usize where "MAX_TOUCH_SLOTS = 5"

text \<open>An event is its type, its code and its value.\<close>

type_synonym input_event = "u16 \<times> u16 \<times> i32"

definition optional_event :: "u16 \<Rightarrow> u16 \<Rightarrow> i32 option \<Rightarrow> input_event list" where
  "optional_event ty code v = (case v of Some x \<Rightarrow> [(ty, code, x)] | None \<Rightarrow> [])"

text \<open>The loop bodies of \<open>emit_touch_frame\<close>.\<close>

definition update_events :: "InputAbi \<Rightarrow> SlotUpdate \<Rightarrow> input_event list" where
  "update_events A u =
     (let c = su_contact u in
      [(EV_ABS A, ABS_MT_SLOT A, of_nat (su_slot u))] @
      (if su_began u then [(EV_ABS A, ABS_MT_TRACKING_ID A, su_tracking_id u)] else []) @
      [(EV_ABS A, ABS_MT_POSITION_X A, hc_x c), (EV_ABS A, ABS_MT_POSITION_Y A, hc_y c)] @
      optional_event (EV_ABS A) (ABS_MT_PRESSURE A) (hc_pressure c) @
      optional_event (EV_ABS A) (ABS_MT_TOUCH_MAJOR A) (hc_touch_major c))"

definition release_events :: "InputAbi \<Rightarrow> usize \<Rightarrow> input_event list" where
  "release_events A slot = [(EV_ABS A, ABS_MT_SLOT A, of_nat slot), (EV_ABS A, ABS_MT_TRACKING_ID A, - 1)]"

definition primary_events :: "InputAbi \<Rightarrow> HidContact \<Rightarrow> input_event list" where
  "primary_events A c =
     [(EV_ABS A, ABS_X, hc_x c), (EV_ABS A, ABS_Y, hc_y c)] @ optional_event (EV_ABS A) ABS_PRESSURE (hc_pressure c)"

definition emit_touch_frame :: "InputAbi \<Rightarrow> TouchFrame \<Rightarrow> input_event list" where
  "emit_touch_frame A frame =
     concat (map (update_events A) (tf_updates frame)) @
     concat (map (release_events A) (tf_releases frame)) @
     (case tf_primary frame of Some c \<Rightarrow> primary_events A c | None \<Rightarrow> []) @
     [(EV_KEY A, BTN_TOUCH, if tf_any_contact frame then 1 else 0), (EV_SYN A, SYN_REPORT A, 0)]"

text \<open>One input report. The result is the new state of the slots and the events pushed.\<close>

definition process_report_inner :: "InputAbi \<Rightarrow> HidTouchLayout \<Rightarrow> (I2cError, u8 list) outcome \<Rightarrow> SlotTracker \<Rightarrow>
    (I2cError, SlotTracker \<times> input_event list) outcome" where
  "process_report_inner A layout transfer t =
     andThen transfer (\<lambda>data.
     andThen (ok_or (decode_input_length data) BusError) (\<lambda>declared_length.
     if declared_length = 0 then Ok (t, [])
     else if declared_length < 2 \<or> declared_length > length data then Err BusError
     else
       andThen (slice data 2 declared_length) (\<lambda>report.
       if tl_report_id layout \<noteq> 0 \<and> first report \<noteq> Some (tl_report_id layout) then Ok (t, [])
       else
         andThen (map_err (\<lambda>_. BusError) (decode_contacts report layout)) (\<lambda>contacts.
         andThen (map_err (\<lambda>_. BusError) (apply_frame t contacts)) (\<lambda>(t, frame).
         Ok (t, emit_touch_frame A frame))))))"

definition axis_range :: "HidField list \<Rightarrow> (i32 \<times> i32) option" where
  "axis_range fs =
     (case fs of [] \<Rightarrow> None
      | f0 # rest \<Rightarrow> Some (fold (\<lambda>f (minimum, maximum).
          (if sint (hf_logical_minimum f) < sint minimum then hf_logical_minimum f else minimum,
           if sint maximum < sint (hf_logical_maximum f) then hf_logical_maximum f else maximum))
          rest (hf_logical_minimum f0, hf_logical_maximum f0)))"

text \<open>The absolute axes that \<open>read_identity\<close> announces, each with its range; without a range for X or Y the device is
  refused.\<close>

definition announced_axes :: "InputAbi \<Rightarrow> HidTouchLayout \<Rightarrow> (u16 \<times> i32 \<times> i32) list option" where
  "announced_axes A layout =
     Option.bind (axis_range (tl_x layout)) (\<lambda>(x_minimum, x_maximum).
     Option.bind (axis_range (tl_y layout)) (\<lambda>(y_minimum, y_maximum).
     Some ([(ABS_X, x_minimum, x_maximum), (ABS_Y, y_minimum, y_maximum), (ABS_MT_SLOT A, 0, of_nat (MAX_TOUCH_SLOTS - 1)),
       (ABS_MT_TRACKING_ID A, - 1, I32_MAX), (ABS_MT_POSITION_X A, x_minimum, x_maximum), (ABS_MT_POSITION_Y A, y_minimum, y_maximum)] @
       (case axis_range (tl_pressure layout) of
          Some (lo, hi) \<Rightarrow> [(ABS_PRESSURE, lo, hi), (ABS_MT_PRESSURE A, lo, hi)] | None \<Rightarrow> []) @
       (case axis_range (tl_touch_major layout) of Some (lo, hi) \<Rightarrow> [(ABS_MT_TOUCH_MAJOR A, lo, hi)] | None \<Rightarrow> []))))"

section \<open>Interrupts and the worker\<close>

text \<open>
  The driver's shared flags, the mask of the GPIO line, and where the interrupt handler and the worker
  are between their atomic operations. \<open>td_present\<close> says that the device is registered in \<open>DEVICE\<close>. A fault of
  a report is only logged.

  The worker waits on a \<open>Waker\<close> of the kernel. \<open>WorkerParking\<close> is between the last look at the flags and the
  wait, \<open>WorkerWaiting\<close> in the wait. What the kernel does with a wake-up that finds nobody waiting is a
  parameter: when \<open>latching\<close> holds it is kept, in \<open>td_wake_token\<close>, and ends the next wait at once;
  otherwise it has no effect.
\<close>

datatype HandlerPc = HandlerIdle | HandlerActive | HandlerMasked | HandlerWaking

datatype WorkerPc = WorkerLoop | WorkerTaken | WorkerReading | WorkerRead | WorkerUnmasking | WorkerAcked |
  WorkerParking | WorkerWaiting

record TouchState =
  td_present :: bool
  td_active :: bool
  td_poll_fallback :: bool
  td_irq_work_pending :: bool
  td_irq_masked :: bool
  td_wake_token :: bool
  td_slots :: SlotTracker
  td_events :: "input_event list"
  td_handler :: HandlerPc
  td_worker :: WorkerPc

definition touch_new :: TouchState where
  "touch_new = \<lparr> td_present = True, td_active = True, td_poll_fallback = False, td_irq_work_pending = False, td_irq_masked = False,
     td_wake_token = False, td_slots = tracker_new MAX_TOUCH_SLOTS, td_events = [], td_handler = HandlerIdle, td_worker = WorkerLoop \<rparr>"

definition wake_one :: "bool \<Rightarrow> TouchState \<Rightarrow> TouchState" where
  "wake_one latching d =
     (if td_worker d = WorkerWaiting then d \<lparr> td_worker := WorkerLoop \<rparr> else d \<lparr> td_wake_token := td_wake_token d \<or> latching \<rparr>)"

text \<open>\<open>process_report\<close> as the worker calls it.\<close>

definition worker_report :: "InputAbi \<Rightarrow> HidTouchLayout \<Rightarrow> (I2cError, u8 list) outcome \<Rightarrow> TouchState \<Rightarrow>
    (I2cError, TouchState) outcome" where
  "worker_report A layout transfer d =
     (case process_report_inner A layout transfer (td_slots d) of
        Ok (t, events) \<Rightarrow> Ok (d \<lparr> td_slots := t, td_events := td_events d @ events \<rparr>)
      | Err e \<Rightarrow> Ok d
      | Panic \<Rightarrow> Panic)"

text \<open>\<open>handle_interrupt\<close>, after it has found the device active: it masks the line, reports work, and wakes the worker
  if no work was reported yet.\<close>

inductive handler_step :: "bool \<Rightarrow> TouchState \<Rightarrow> TouchState \<Rightarrow> bool" for latching where
  mask: "td_handler d = HandlerActive \<Longrightarrow> handler_step latching d (d \<lparr> td_irq_masked := True, td_handler := HandlerMasked \<rparr>)"
| pend: "td_handler d = HandlerMasked \<Longrightarrow> handler_step latching d (d \<lparr> td_irq_work_pending := True,
    td_handler := (if td_irq_work_pending d then HandlerIdle else HandlerWaking) \<rparr>)"
| wake: "td_handler d = HandlerWaking \<Longrightarrow> handler_step latching d (wake_one latching (d \<lparr> td_handler := HandlerIdle \<rparr>))"

text \<open>\<open>worker_entry\<close> with \<open>process_worker_report\<close>. A polling worker may find the line asserted at any time.\<close>

inductive worker_step :: "InputAbi \<Rightarrow> HidTouchLayout \<Rightarrow> TouchState \<Rightarrow> TouchState \<Rightarrow> bool" for A layout where
  poll: "td_worker d = WorkerLoop \<Longrightarrow> td_poll_fallback d \<Longrightarrow> worker_step A layout d (d \<lparr> td_worker := WorkerTaken \<rparr>)"
| take_work: "td_worker d = WorkerLoop \<Longrightarrow> \<not> td_poll_fallback d \<Longrightarrow> td_irq_work_pending d \<Longrightarrow>
    worker_step A layout d (d \<lparr> td_irq_work_pending := False, td_worker := WorkerTaken \<rparr>)"
| no_work: "td_worker d = WorkerLoop \<Longrightarrow> \<not> td_poll_fallback d \<Longrightarrow> \<not> td_irq_work_pending d \<Longrightarrow>
    worker_step A layout d (d \<lparr> td_worker := WorkerParking \<rparr>)"
| no_device: "td_worker d = WorkerLoop \<Longrightarrow> \<not> td_present d \<Longrightarrow> worker_step A layout d (d \<lparr> td_worker := WorkerParking \<rparr>)"
| wait: "td_worker d = WorkerParking \<Longrightarrow> worker_step A layout d (d \<lparr> td_wake_token := False,
    td_worker := (if td_wake_token d then WorkerLoop else WorkerWaiting) \<rparr>)"
| inactive: "td_worker d = WorkerTaken \<Longrightarrow> \<not> td_active d \<Longrightarrow> worker_step A layout d (d \<lparr> td_worker := WorkerLoop \<rparr>)"
| start: "td_worker d = WorkerTaken \<Longrightarrow> td_active d \<Longrightarrow> worker_step A layout d (d \<lparr> td_worker := WorkerReading \<rparr>)"
| report: "td_worker d = WorkerReading \<Longrightarrow> worker_report A layout transfer d = Ok d' \<Longrightarrow>
    worker_step A layout d (d' \<lparr> td_worker := WorkerRead \<rparr>)"
| keep_masked: "td_worker d = WorkerRead \<Longrightarrow> \<not> td_active d \<or> td_poll_fallback d \<Longrightarrow>
    worker_step A layout d (d \<lparr> td_worker := WorkerLoop \<rparr>)"
| unmask: "td_worker d = WorkerRead \<Longrightarrow> td_active d \<Longrightarrow> \<not> td_poll_fallback d \<Longrightarrow>
    worker_step A layout d (d \<lparr> td_worker := WorkerUnmasking \<rparr>)"
| ack: "td_worker d = WorkerUnmasking \<Longrightarrow> worker_step A layout d (d \<lparr> td_worker := WorkerAcked \<rparr>)"
| enable: "td_worker d = WorkerAcked \<Longrightarrow>
    worker_step A layout d (d \<lparr> td_irq_masked := False, td_worker := WorkerLoop \<rparr>)"

text \<open>What happens to the device from outside: an interrupt that finds it active, the stores of \<open>remove_fn\<close>, the fall back
  to polling of \<open>probe_fn\<close>, and the wake-ups that go with the last two.\<close>

inductive outside_step :: "bool \<Rightarrow> TouchState \<Rightarrow> TouchState \<Rightarrow> bool" for latching where
  interrupt: "td_handler d = HandlerIdle \<Longrightarrow> td_active d \<Longrightarrow> outside_step latching d (d \<lparr> td_handler := HandlerActive \<rparr>)"
| unregister: "outside_step latching d (d \<lparr> td_present := False \<rparr>)"
| deactivate: "\<not> td_present d \<Longrightarrow> outside_step latching d (d \<lparr> td_active := False \<rparr>)"
| clear_work: "\<not> td_active d \<Longrightarrow> outside_step latching d (d \<lparr> td_irq_work_pending := False \<rparr>)"
| fallback: "outside_step latching d (d \<lparr> td_poll_fallback := True \<rparr>)"
| wake_up: "td_poll_fallback d \<or> \<not> td_active d \<Longrightarrow> outside_step latching d (wake_one latching d)"

definition driver_step :: "bool \<Rightarrow> InputAbi \<Rightarrow> HidTouchLayout \<Rightarrow> TouchState \<Rightarrow> TouchState \<Rightarrow> bool" where
  "driver_step latching A layout d d' \<longleftrightarrow> handler_step latching d d' \<or> worker_step A layout d d'"

definition touch_step :: "bool \<Rightarrow> InputAbi \<Rightarrow> HidTouchLayout \<Rightarrow> TouchState \<Rightarrow> TouchState \<Rightarrow> bool" where
  "touch_step latching A layout d d' \<longleftrightarrow> driver_step latching A layout d d' \<or> outside_step latching d d'"

inductive touch_reachable :: "bool \<Rightarrow> InputAbi \<Rightarrow> HidTouchLayout \<Rightarrow> TouchState \<Rightarrow> bool" for latching A layout where
  init: "touch_reachable latching A layout touch_new"
| step: "touch_reachable latching A layout d \<Longrightarrow> touch_step latching A layout d d' \<Longrightarrow> touch_reachable latching A layout d'"

end
