(* ===== verification/Touch_Events.thy ===== *)
theory Touch_Events
  imports Touch_Device
begin

text \<open>
  What a reader of the touchscreen's events sees. The reader follows the type-B protocol: it keeps the
  current slot and, for each slot, the tracking identifier and the position last sent. The lemmas show
  that its view is the driver's slot table after every frame, whatever the controller sends, and that the events are
  announced ones.
\<close>

section \<open>The reader\<close>

record TouchReader =
  tr_slot :: nat
  tr_id :: "nat \<Rightarrow> i32 option"
  tr_x :: "nat \<Rightarrow> i32"
  tr_y :: "nat \<Rightarrow> i32"

definition reader_new :: TouchReader where
  "reader_new = \<lparr> tr_slot = 0, tr_id = (\<lambda>_. None), tr_x = (\<lambda>_. 0), tr_y = (\<lambda>_. 0) \<rparr>"

fun observe :: "InputAbi \<Rightarrow> input_event \<Rightarrow> TouchReader \<Rightarrow> TouchReader" where
  "observe A (ty, code, v) r =
     (if ty \<noteq> EV_ABS A then r
      else if code = ABS_MT_SLOT A then r \<lparr> tr_slot := unat v \<rparr>
      else if code = ABS_MT_TRACKING_ID A then r \<lparr> tr_id := (tr_id r)(tr_slot r := if v = - 1 then None else Some v) \<rparr>
      else if code = ABS_MT_POSITION_X A then r \<lparr> tr_x := (tr_x r)(tr_slot r := v) \<rparr>
      else if code = ABS_MT_POSITION_Y A then r \<lparr> tr_y := (tr_y r)(tr_slot r := v) \<rparr>
      else r)"

abbreviation observes :: "InputAbi \<Rightarrow> input_event list \<Rightarrow> TouchReader \<Rightarrow> TouchReader" where
  "observes A es r \<equiv> fold (observe A) es r"

text \<open>What the driver needs of the codes of the kernel's event interface: no other event of the driver
  has the code of one that carries a slot, a tracking identifier or a position.\<close>

definition abi_ok :: "InputAbi \<Rightarrow> bool" where
  "abi_ok A \<longleftrightarrow> EV_KEY A \<noteq> EV_ABS A \<and> EV_SYN A \<noteq> EV_ABS A \<and>
     distinct [ABS_MT_POSITION_Y A, ABS_MT_POSITION_X A, ABS_MT_TRACKING_ID A, ABS_MT_SLOT A] \<and>
     {ABS_MT_POSITION_Y A, ABS_MT_POSITION_X A, ABS_MT_TRACKING_ID A, ABS_MT_SLOT A} \<inter>
     {ABS_MT_PRESSURE A, ABS_MT_TOUCH_MAJOR A, ABS_X, ABS_Y, ABS_PRESSURE} = {}"

definition linux_abi :: InputAbi where
  "linux_abi = \<lparr> EV_SYN = 0, EV_KEY = 1, EV_ABS = 3, SYN_REPORT = 0, ABS_MT_SLOT = 0x2f, ABS_MT_TOUCH_MAJOR = 0x30,
     ABS_MT_POSITION_X = 0x35, ABS_MT_POSITION_Y = 0x36, ABS_MT_TRACKING_ID = 0x39, ABS_MT_PRESSURE = 0x3a \<rparr>"

lemma linux_abi_ok: "abi_ok linux_abi"
  by (simp add: abi_ok_def linux_abi_def ABS_X_def ABS_Y_def ABS_PRESSURE_def)

section \<open>Frames\<close>

lemma unat_slot: "slot < 2 ^ 32 \<Longrightarrow> unat (of_nat slot :: i32) = slot"
  by (simp add: unat_of_nat)

lemma observe_events:
  assumes "abi_ok A"
  shows "observe A (EV_ABS A, ABS_MT_SLOT A, v) r = r \<lparr> tr_slot := unat v \<rparr>"
    and "observe A (EV_ABS A, ABS_MT_TRACKING_ID A, v) r = r \<lparr> tr_id := (tr_id r)(tr_slot r := if v = - 1 then None else Some v) \<rparr>"
    and "observe A (EV_ABS A, ABS_MT_POSITION_X A, v) r = r \<lparr> tr_x := (tr_x r)(tr_slot r := v) \<rparr>"
    and "observe A (EV_ABS A, ABS_MT_POSITION_Y A, v) r = r \<lparr> tr_y := (tr_y r)(tr_slot r := v) \<rparr>"
    and "code \<in> {ABS_MT_PRESSURE A, ABS_MT_TOUCH_MAJOR A, ABS_X, ABS_Y, ABS_PRESSURE} \<Longrightarrow> observe A (EV_ABS A, code, v) r = r"
    and "observe A (EV_KEY A, code, v) r = r" and "observe A (EV_SYN A, code, v) r = r"
proof -
  have neq: "EV_KEY A \<noteq> EV_ABS A" "EV_SYN A \<noteq> EV_ABS A" "ABS_MT_TRACKING_ID A \<noteq> ABS_MT_SLOT A"
    "ABS_MT_POSITION_X A \<noteq> ABS_MT_SLOT A" "ABS_MT_POSITION_X A \<noteq> ABS_MT_TRACKING_ID A"
    "ABS_MT_POSITION_Y A \<noteq> ABS_MT_SLOT A" "ABS_MT_POSITION_Y A \<noteq> ABS_MT_TRACKING_ID A" "ABS_MT_POSITION_Y A \<noteq> ABS_MT_POSITION_X A"
    using assms unfolding abi_ok_def by simp_all
  show "observe A (EV_ABS A, ABS_MT_SLOT A, v) r = r \<lparr> tr_slot := unat v \<rparr>"
    "observe A (EV_ABS A, ABS_MT_TRACKING_ID A, v) r = r \<lparr> tr_id := (tr_id r)(tr_slot r := if v = - 1 then None else Some v) \<rparr>"
    "observe A (EV_ABS A, ABS_MT_POSITION_X A, v) r = r \<lparr> tr_x := (tr_x r)(tr_slot r := v) \<rparr>"
    "observe A (EV_ABS A, ABS_MT_POSITION_Y A, v) r = r \<lparr> tr_y := (tr_y r)(tr_slot r := v) \<rparr>"
    "observe A (EV_KEY A, code, v) r = r" "observe A (EV_SYN A, code, v) r = r"
    using neq by simp_all
  assume code: "code \<in> {ABS_MT_PRESSURE A, ABS_MT_TOUCH_MAJOR A, ABS_X, ABS_Y, ABS_PRESSURE}"
  then have "code \<noteq> ABS_MT_SLOT A" "code \<noteq> ABS_MT_TRACKING_ID A" "code \<noteq> ABS_MT_POSITION_X A" "code \<noteq> ABS_MT_POSITION_Y A"
    using assms unfolding abi_ok_def by blast+
  then show "observe A (EV_ABS A, code, v) r = r" by simp
qed

declare observe.simps [simp del]

lemma observe_optional:
  assumes "abi_ok A" and "code \<in> {ABS_MT_PRESSURE A, ABS_MT_TOUCH_MAJOR A, ABS_X, ABS_Y, ABS_PRESSURE}"
  shows "observes A (optional_event (EV_ABS A) code v) r = r"
  using observe_events(5) [OF assms] by (cases v) (simp_all add: optional_event_def)

lemma observe_update:
  assumes A: "abi_ok A" and "su_slot u < 2 ^ 32" and "su_tracking_id u \<noteq> - 1"
  shows "observes A (update_events A u) r = r \<lparr> tr_slot := su_slot u,
    tr_id := (if su_began u then (tr_id r)(su_slot u := Some (su_tracking_id u)) else tr_id r),
    tr_x := (tr_x r)(su_slot u := hc_x (su_contact u)), tr_y := (tr_y r)(su_slot u := hc_y (su_contact u)) \<rparr>"
  using assms by (simp add: update_events_def Let_def observe_optional observe_events [OF A] unat_slot)

lemma observe_release:
  assumes A: "abi_ok A" and "slot < 2 ^ 32"
  shows "observes A (release_events A slot) r = r \<lparr> tr_slot := slot, tr_id := (tr_id r)(slot := None) \<rparr>"
  using assms by (simp add: release_events_def observe_events [OF A] unat_slot)

lemma observe_primary:
  assumes A: "abi_ok A"
  shows "observes A (primary_events A c) r = r"
  using assms by (simp add: primary_events_def observe_optional observe_events [OF A])

text \<open>The reader has the tracking identifier and the position of every updated slot; the other slots are
  as before.\<close>

definition follows_updates :: "SlotUpdate list \<Rightarrow> TouchReader \<Rightarrow> TouchReader \<Rightarrow> bool" where
  "follows_updates us r r' \<longleftrightarrow>
     (\<forall>i. i \<notin> su_slot ` set us \<longrightarrow> tr_id r' i = tr_id r i \<and> tr_x r' i = tr_x r i \<and> tr_y r' i = tr_y r i) \<and>
     (\<forall>u \<in> set us. tr_id r' (su_slot u) = (if su_began u then Some (su_tracking_id u) else tr_id r (su_slot u)) \<and>
        tr_x r' (su_slot u) = hc_x (su_contact u) \<and> tr_y r' (su_slot u) = hc_y (su_contact u))"

lemma follows_updates_Cons:
  assumes "follows_updates us (r \<lparr> tr_slot := su_slot u,
      tr_id := (if su_began u then (tr_id r)(su_slot u := Some (su_tracking_id u)) else tr_id r),
      tr_x := (tr_x r)(su_slot u := hc_x (su_contact u)), tr_y := (tr_y r)(su_slot u := hc_y (su_contact u)) \<rparr>) r'"
    and fresh: "su_slot u \<notin> su_slot ` set us"
  shows "follows_updates (u # us) r r'"
proof -
  have neq: "su_slot v \<noteq> su_slot u" if "v \<in> set us" for v using fresh that by (metis imageI)
  show ?thesis
    using assms(1) fresh unfolding follows_updates_def by (simp add: neq)
qed

lemma observe_updates:
  assumes A: "abi_ok A"
  shows "\<forall>u \<in> set us. su_slot u < 2 ^ 32 \<and> su_tracking_id u \<noteq> - 1 \<Longrightarrow> distinct (map su_slot us) \<Longrightarrow>
    follows_updates us r (observes A (concat (map (update_events A) us)) r)"
proof (induction us arbitrary: r)
  case (Cons u us)
  have u: "su_slot u < 2 ^ 32" "su_tracking_id u \<noteq> - 1" and us: "\<forall>u \<in> set us. su_slot u < 2 ^ 32 \<and> su_tracking_id u \<noteq> - 1"
    and d: "distinct (map su_slot us)" "su_slot u \<notin> su_slot ` set us" using Cons.prems by auto
  show ?case
    by (rule follows_updates_Cons [OF _ d(2)])
      (use Cons.IH [OF us d(1)] in \<open>simp add: observe_update [OF A u]\<close>)
qed (simp add: follows_updates_def)

lemma observe_releases:
  assumes A: "abi_ok A"
  shows "\<forall>i \<in> set rs. i < 2 ^ 32 \<Longrightarrow>
    tr_id (observes A (concat (map (release_events A) rs)) r) = (\<lambda>i. if i \<in> set rs then None else tr_id r i) \<and>
    tr_x (observes A (concat (map (release_events A) rs)) r) = tr_x r \<and>
    tr_y (observes A (concat (map (release_events A) rs)) r) = tr_y r"
  by (induction rs arbitrary: r) (auto simp: observe_release [OF A])

lemma observe_frame_tail:
  assumes A: "abi_ok A"
  shows "observes A ((case tf_primary frame of Some c \<Rightarrow> primary_events A c | None \<Rightarrow> []) @
    [(EV_KEY A, BTN_TOUCH, v), (EV_SYN A, SYN_REPORT A, 0)]) r = r"
  by (simp add: observe_primary [OF A] observe_events [OF A] split: option.split)

text \<open>The reader's view of the slot table.\<close>

definition sees :: "TouchReader \<Rightarrow> SlotTracker \<Rightarrow> bool" where
  "sees r t \<longleftrightarrow> (\<forall>i < length (st_slots t). tr_id r i = map_option ts_tracking_id (st_slots t ! i))"

lemma served_id: "served before now u \<Longrightarrow>
    map_option ts_tracking_id now = (if su_began u then Some (su_tracking_id u) else map_option ts_tracking_id before)"
  by (auto simp: served_def split: option.splits)

lemma served_valid:
  assumes "frame_correct t cs t' frame" and "u \<in> set (tf_updates frame)"
  shows "su_slot u < length (st_slots t)" and "su_tracking_id u \<noteq> - 1"
proof -
  have u: "su_slot u < length (st_slots t)" "served (st_slots t ! su_slot u) (st_slots t' ! su_slot u) u"
    and len: "length (st_slots t') = length (st_slots t)" and ok: "tracker_ok t'"
    using assms by (simp_all add: frame_correct_def Let_def)
  obtain s where s: "st_slots t' ! su_slot u = Some s" "ts_tracking_id s = su_tracking_id u"
    using u(2) by (auto simp: served_def split: option.splits)
  then have "Some s \<in> set (st_slots t')" using u(1) len by (metis nth_mem)
  then show "su_tracking_id u \<noteq> - 1" using ok s(2) valid_id_not_minus_one by (auto simp: tracker_ok_def)
  show "su_slot u < length (st_slots t)" by (rule u(1))
qed

lemma frame_observed:
  assumes A: "abi_ok A" and small: "length (st_slots t) \<le> 2 ^ 32" and sees: "sees r t"
    and frame: "frame_correct t cs t' frame"
  shows "sees (observes A (emit_touch_frame A frame) r) t'"
    and "u \<in> set (tf_updates frame) \<Longrightarrow> tr_x (observes A (emit_touch_frame A frame) r) (su_slot u) = hc_x (su_contact u) \<and>
      tr_y (observes A (emit_touch_frame A frame) r) (su_slot u) = hc_y (su_contact u)"
proof -
  let ?us = "tf_updates frame" and ?rs = "tf_releases frame"
  note F = frame [unfolded frame_correct_def Let_def]
  define r1 where "r1 = observes A (concat (map (update_events A) ?us)) r"
  define r2 where "r2 = observes A (concat (map (release_events A) ?rs)) r1"
  have out: "observes A (emit_touch_frame A frame) r = r2"
    unfolding emit_touch_frame_def r1_def r2_def append_assoc [symmetric]
    by (simp only: fold_append comp_def append_assoc observe_frame_tail [OF A, unfolded fold_append comp_def])
  have "su_slot u < 2 ^ 32 \<and> su_tracking_id u \<noteq> - 1" if "u \<in> set ?us" for u
    using served_valid [OF frame that] small by simp
  then have up: "follows_updates ?us r r1" unfolding r1_def by (intro observe_updates [OF A]) (use F in auto)
  have rs: "set ?rs = {i. i < length (st_slots t) \<and> st_slots t ! i \<noteq> None \<and> i \<notin> su_slot ` set ?us}" using F by auto
  have "\<forall>i \<in> set ?rs. i < 2 ^ 32" using small by (auto simp: rs)
  then have rel: "tr_id r2 = (\<lambda>i. if i \<in> set ?rs then None else tr_id r1 i)" "tr_x r2 = tr_x r1" "tr_y r2 = tr_y r1"
    using observe_releases [OF A, of ?rs r1] unfolding r2_def by blast+
  show "tr_x (observes A (emit_touch_frame A frame) r) (su_slot u) = hc_x (su_contact u) \<and>
      tr_y (observes A (emit_touch_frame A frame) r) (su_slot u) = hc_y (su_contact u)" if "u \<in> set ?us"
    using up that unfolding out rel(2,3) follows_updates_def by blast
  have "tr_id r2 i = map_option ts_tracking_id (st_slots t' ! i)" if i: "i < length (st_slots t)" for i
  proof (cases "i \<in> su_slot ` set ?us")
    case True
    then obtain u where u: "u \<in> set ?us" "i = su_slot u" by blast
    have "served (st_slots t ! i) (st_slots t' ! i) u" using F u by blast
    moreover have "tr_id r1 i = (if su_began u then Some (su_tracking_id u) else tr_id r i)"
      using up u by (auto simp: follows_updates_def)
    moreover have "i \<notin> set ?rs" using True by (simp add: rs)
    ultimately show ?thesis using sees i by (simp add: rel(1) served_id sees_def)
  next
    case False
    have none: "st_slots t' ! i = None" using F False i by blast
    have same: "tr_id r1 i = map_option ts_tracking_id (st_slots t ! i)"
      using up False sees i by (simp add: follows_updates_def sees_def)
    show ?thesis
      using i False none same by (cases "st_slots t ! i") (simp_all add: rel(1) rs)
  qed
  then show "sees (observes A (emit_touch_frame A frame) r) t'"
    using F unfolding out sees_def by simp
qed

section \<open>Reports\<close>

lemma process_report_effect:
  assumes ok: "tracker_ok t" and bus: "transfer \<noteq> Panic"
  shows "ensures (process_report_inner A layout transfer t) (\<lambda>(t', es).
    (t' = t \<and> es = []) \<or>
    (\<exists>report cs frame. list_all (reads report layout) cs \<and> frame_correct t cs t' frame \<and> es = emit_touch_frame A frame))"
proof -
  let ?post = "\<lambda>(t', es). (t' = t \<and> es = []) \<or>
    (\<exists>report cs frame. list_all (reads report layout) cs \<and> frame_correct t cs t' frame \<and> es = emit_touch_frame A frame)"
  have frame: "ensures (andThen (map_err (\<lambda>_. BusError) (apply_frame t cs)) (\<lambda>(t, frame). Ok (t, emit_touch_frame A frame))) ?post"
    if "list_all (reads report layout) cs" for report cs
  proof -
    obtain t' frame where "apply_frame t cs = Ok (t', frame)" "frame_correct t cs t' frame"
      using apply_frame_correct [OF ok] by blast
    then show ?thesis using that by (simp add: ensures_Ok) blast
  qed
  have "ensures (map_err (\<lambda>_. BusError) (decode_contacts report layout)) (list_all (reads report layout))" for report
    using decode_contacts_ensures [of report layout] by (cases "decode_contacts report layout") (auto simp: ensures_def)
  then have decoded: "ensures (andThen (map_err (\<lambda>_. BusError) (decode_contacts report layout)) (\<lambda>cs.
      andThen (map_err (\<lambda>_. BusError) (apply_frame t cs)) (\<lambda>(t, frame). Ok (t, emit_touch_frame A frame)))) ?post" for report
    by (rule ensures_bind) (rule frame)
  have read: "ensures transfer (\<lambda>_. True)" using bus by (simp add: ensures_def)
  have sliced: "ensures (slice data 2 n) (\<lambda>_. True)" if "\<not> (n < 2 \<or> length data < n)" for data :: "u8 list" and n
    using that by (simp add: ensures_slice ensures_Ok)
  have lengths: "ensures (ok_or (decode_input_length data) BusError) (\<lambda>_. True)" for data
    by (simp add: ensures_ok_or)
  show ?thesis
    unfolding process_report_inner_def
    by (intro ensures_bind [OF read] ensures_bind [OF lengths] ensures_if ensures_bind [OF sliced] decoded)
      (simp_all add: ensures_Ok ensures_Err)
qed

section \<open>Every reachable state\<close>

text \<open>The events the device has announced: an announced axis, with a slot or a tracking identifier in the announced range, the
  touch button up or down, or the end of a report.\<close>

fun announced :: "InputAbi \<Rightarrow> (u16 \<times> i32 \<times> i32) list \<Rightarrow> input_event \<Rightarrow> bool" where
  "announced A axes (ty, code, v) \<longleftrightarrow>
     ty = EV_ABS A \<and> (\<exists>lo hi. (code, lo, hi) \<in> set axes \<and>
       (code \<in> {ABS_MT_SLOT A, ABS_MT_TRACKING_ID A} \<longrightarrow> sint lo \<le> sint v \<and> sint v \<le> sint hi)) \<or>
     ty = EV_KEY A \<and> code = BTN_TOUCH \<and> v \<in> {0, 1} \<or>
     ty = EV_SYN A \<and> code = SYN_REPORT A \<and> v = 0"

lemma axis_range_None: "axis_range fs = None \<longleftrightarrow> fs = []"
  by (cases fs) (simp_all add: axis_range_def)

lemma sint_slot: "i < MAX_TOUCH_SLOTS \<Longrightarrow> 0 \<le> sint (of_nat i :: i32) \<and> sint (of_nat i :: i32) \<le> sint (of_nat (MAX_TOUCH_SLOTS - 1) :: i32)"
proof -
  assume "i < MAX_TOUCH_SLOTS"
  then have "i \<in> {0, 1, 2, 3, 4}" by (auto simp: MAX_TOUCH_SLOTS_def)
  then show ?thesis by (auto simp: MAX_TOUCH_SLOTS_def)
qed

lemma sint_valid_id: "valid_id w \<Longrightarrow> - 1 \<le> sint w \<and> sint w \<le> sint I32_MAX"
  using sint_small [of w] sint_small [of I32_MAX] by (auto simp: valid_id_def word_le_def intro: order_trans [OF _ unsigned_greater_eq])

text \<open>The announcement of each kind of event.\<close>

lemma axes_announced:
  assumes A: "abi_ok A" and axes: "announced_axes A layout = Some axes"
  shows "i < MAX_TOUCH_SLOTS \<Longrightarrow> announced A axes (EV_ABS A, ABS_MT_SLOT A, of_nat i)"
    and "valid_id w \<or> w = - 1 \<Longrightarrow> announced A axes (EV_ABS A, ABS_MT_TRACKING_ID A, w)"
    and "code \<in> {ABS_X, ABS_Y, ABS_MT_POSITION_X A, ABS_MT_POSITION_Y A} \<Longrightarrow> announced A axes (EV_ABS A, code, v)"
    and "tl_pressure layout \<noteq> [] \<Longrightarrow> code \<in> {ABS_PRESSURE, ABS_MT_PRESSURE A} \<Longrightarrow> announced A axes (EV_ABS A, code, v)"
    and "tl_touch_major layout \<noteq> [] \<Longrightarrow> announced A axes (EV_ABS A, ABS_MT_TOUCH_MAJOR A, v)"
proof -
  obtain x0 x1 y0 y1 where r: "axis_range (tl_x layout) = Some (x0, x1)" "axis_range (tl_y layout) = Some (y0, y1)"
    and ax: "axes = [(ABS_X, x0, x1), (ABS_Y, y0, y1), (ABS_MT_SLOT A, 0, of_nat (MAX_TOUCH_SLOTS - 1)),
      (ABS_MT_TRACKING_ID A, - 1, I32_MAX), (ABS_MT_POSITION_X A, x0, x1), (ABS_MT_POSITION_Y A, y0, y1)] @
      (case axis_range (tl_pressure layout) of Some (lo, hi) \<Rightarrow> [(ABS_PRESSURE, lo, hi), (ABS_MT_PRESSURE A, lo, hi)] | None \<Rightarrow> []) @
      (case axis_range (tl_touch_major layout) of Some (lo, hi) \<Rightarrow> [(ABS_MT_TOUCH_MAJOR A, lo, hi)] | None \<Rightarrow> [])"
    using axes unfolding announced_axes_def by (auto simp: bind_eq_Some_conv)
  have plain: "announced A axes (EV_ABS A, code, v)"
    if "(code, lo, hi) \<in> set axes" "code \<noteq> ABS_MT_SLOT A" "code \<noteq> ABS_MT_TRACKING_ID A" for code lo hi v
    using that by auto
  have neq: "code \<noteq> ABS_MT_SLOT A \<and> code \<noteq> ABS_MT_TRACKING_ID A"
    if "code \<in> {ABS_X, ABS_Y, ABS_PRESSURE, ABS_MT_PRESSURE A, ABS_MT_TOUCH_MAJOR A, ABS_MT_POSITION_X A, ABS_MT_POSITION_Y A}" for code
    using A that unfolding abi_ok_def by auto
  have range: "announced A axes (EV_ABS A, code, v)" if "(code, lo, hi) \<in> set axes" "sint lo \<le> sint v" "sint v \<le> sint hi" for code lo hi v
    using that by auto
  show "announced A axes (EV_ABS A, ABS_MT_SLOT A, of_nat i)" if "i < MAX_TOUCH_SLOTS"
    using sint_slot [OF that] by (intro range [of _ 0 "of_nat (MAX_TOUCH_SLOTS - 1)"]) (simp_all add: ax)
  show "announced A axes (EV_ABS A, ABS_MT_TRACKING_ID A, w)" if "valid_id w \<or> w = - 1"
    using that sint_valid_id [of w] sint_valid_id [of 1]
    by (intro range [of _ "- 1" I32_MAX]) (auto simp: ax valid_id_def I32_MAX_def)
  show "announced A axes (EV_ABS A, code, v)" if "code \<in> {ABS_X, ABS_Y, ABS_MT_POSITION_X A, ABS_MT_POSITION_Y A}"
  proof -
    have "(code, x0, x1) \<in> set axes \<or> (code, y0, y1) \<in> set axes" using that by (auto simp: ax)
    then show ?thesis using that neq [of code] plain [of code] by blast
  qed
  show "announced A axes (EV_ABS A, code, v)" if nonempty: "tl_pressure layout \<noteq> []" and code: "code \<in> {ABS_PRESSURE, ABS_MT_PRESSURE A}"
  proof -
    obtain lo hi where "axis_range (tl_pressure layout) = Some (lo, hi)"
      using nonempty by (cases "axis_range (tl_pressure layout)") (auto simp: axis_range_None)
    then show ?thesis using code neq [of code] by (intro plain [of _ lo hi]) (auto simp: ax)
  qed
  show "announced A axes (EV_ABS A, ABS_MT_TOUCH_MAJOR A, v)" if nonempty: "tl_touch_major layout \<noteq> []"
  proof -
    obtain lo hi where "axis_range (tl_touch_major layout) = Some (lo, hi)"
      using nonempty by (cases "axis_range (tl_touch_major layout)") (auto simp: axis_range_None)
    then show ?thesis using neq [of "ABS_MT_TOUCH_MAJOR A"] by (intro plain [of _ lo hi]) (auto simp: ax)
  qed
qed

declare announced.simps [simp del]

lemma read_optional:
  assumes "reads report layout c"
  shows "hc_pressure c = Some v \<Longrightarrow> tl_pressure layout \<noteq> []" and "hc_touch_major c = Some v \<Longrightarrow> tl_touch_major layout \<noteq> []"
  using assms by (auto simp: reads_def Let_def get_at_def split: if_splits)

lemma served_announced:
  assumes "frame_correct t cs t' frame" and "u \<in> set (tf_updates frame)"
  shows "valid_id (su_tracking_id u)"
proof -
  have u: "su_slot u < length (st_slots t')" "served (st_slots t ! su_slot u) (st_slots t' ! su_slot u) u" and ok: "tracker_ok t'"
    using assms by (simp_all add: frame_correct_def Let_def)
  obtain s where s: "st_slots t' ! su_slot u = Some s" "ts_tracking_id s = su_tracking_id u"
    using u(2) by (auto simp: served_def split: option.splits)
  then have "Some s \<in> set (st_slots t')" using u(1) by (metis nth_mem)
  then show ?thesis using ok s(2) by (auto simp: tracker_ok_def)
qed

lemma list_all_concat_map: "list_all P (concat (map f xs)) \<longleftrightarrow> (\<forall>x \<in> set xs. list_all P (f x))"
  by (induction xs) simp_all

lemma optional_announced:
  assumes "\<And>x. v = Some x \<Longrightarrow> announced A axes (EV_ABS A, code, x)"
  shows "list_all (announced A axes) (optional_event (EV_ABS A) code v)"
  using assms by (cases v) (simp_all add: optional_event_def)

lemma frame_announced:
  assumes A: "abi_ok A" and axes: "announced_axes A layout = Some axes" and cs: "list_all (reads report layout) cs"
    and frame: "frame_correct t cs t' frame" and len: "length (st_slots t) = MAX_TOUCH_SLOTS"
  shows "list_all (announced A axes) (emit_touch_frame A frame)"
proof -
  note ann = axes_announced [OF A axes]
  have F: "subseq (map su_contact (tf_updates frame)) cs" "tf_primary frame = first cs"
    using frame by (simp_all add: frame_correct_def Let_def)
  have opt: "list_all (announced A axes) (optional_event (EV_ABS A) (ABS_MT_PRESSURE A) (hc_pressure c))"
    "list_all (announced A axes) (optional_event (EV_ABS A) (ABS_MT_TOUCH_MAJOR A) (hc_touch_major c))"
    "list_all (announced A axes) (optional_event (EV_ABS A) ABS_PRESSURE (hc_pressure c))" if "c \<in> set cs" for c
  proof -
    have c: "reads report layout c" using cs that by (simp add: list_all_iff)
    note P = ann(4) [OF read_optional(1) [OF c]] and M = ann(5) [OF read_optional(2) [OF c]]
    show "list_all (announced A axes) (optional_event (EV_ABS A) (ABS_MT_PRESSURE A) (hc_pressure c))"
      "list_all (announced A axes) (optional_event (EV_ABS A) (ABS_MT_TOUCH_MAJOR A) (hc_touch_major c))"
      "list_all (announced A axes) (optional_event (EV_ABS A) ABS_PRESSURE (hc_pressure c))"
      by (rule optional_announced, erule P M, simp?)+
  qed
  have "list_all (announced A axes) (update_events A u)" if u: "u \<in> set (tf_updates frame)" for u
  proof -
    have "su_slot u < MAX_TOUCH_SLOTS" using frame u len by (simp add: frame_correct_def Let_def)
    moreover have "su_contact u \<in> set cs" using list_emb_set [OF F(1), of "su_contact u"] u by auto
    ultimately show ?thesis
      using served_announced [OF frame u] opt ann(1-3) by (simp add: update_events_def Let_def)
  qed
  moreover have "list_all (announced A axes) (release_events A i)" if "i \<in> set (tf_releases frame)" for i
  proof -
    have "i < MAX_TOUCH_SLOTS" using frame that len by (simp add: frame_correct_def Let_def)
    then show ?thesis using ann(1,2) by (simp add: release_events_def)
  qed
  moreover have "list_all (announced A axes) (primary_events A c)" if "tf_primary frame = Some c" for c
  proof -
    have "c \<in> set cs" using that F(2) by (cases cs) (simp_all add: first_def get_at_def)
    then show ?thesis using opt(3) ann(3) by (simp add: primary_events_def)
  qed
  ultimately show ?thesis
    by (cases "tf_primary frame") (simp_all add: emit_touch_frame_def list_all_concat_map announced.simps)
qed

definition touch_inv :: "InputAbi \<Rightarrow> HidTouchLayout \<Rightarrow> TouchState \<Rightarrow> bool" where
  "touch_inv A layout d \<longleftrightarrow> tracker_ok (td_slots d) \<and> length (st_slots (td_slots d)) = MAX_TOUCH_SLOTS \<and>
     (abi_ok A \<longrightarrow> (\<forall>axes. announced_axes A layout = Some axes \<longrightarrow> list_all (announced A axes) (td_events d))) \<and>
     (abi_ok A \<longrightarrow> sees (observes A (td_events d) reader_new) (td_slots d))"

lemma touch_inv_new: "touch_inv A layout touch_new"
  unfolding touch_inv_def touch_new_def
  by (simp add: tracker_new_ok sees_def) (simp add: tracker_new_def reader_new_def)

lemma worker_report_inv:
  assumes inv: "touch_inv A layout d" and report: "worker_report A layout transfer d = Ok d'"
  shows "touch_inv A layout d'"
proof -
  have ok: "tracker_ok (td_slots d)" and len: "length (st_slots (td_slots d)) = MAX_TOUCH_SLOTS"
    using inv by (simp_all add: touch_inv_def)
  have bus: "transfer \<noteq> Panic"
    using report by (auto simp: worker_report_def process_report_inner_def)
  note effect = process_report_effect [OF ok bus, of A layout]
  show ?thesis
  proof (cases "process_report_inner A layout transfer (td_slots d)")
    case (Ok x)
    obtain t es where x: "x = (t, es)" by (cases x)
    have d': "d' = d \<lparr> td_slots := t, td_events := td_events d @ es \<rparr>" using report Ok x by (simp add: worker_report_def)
    have "t = td_slots d \<and> es = [] \<or>
        (\<exists>report cs frame. list_all (reads report layout) cs \<and> frame_correct (td_slots d) cs t frame \<and> es = emit_touch_frame A frame)"
      using effect Ok x by (simp add: ensures_Ok)
    then show ?thesis
    proof (elim disjE exE conjE)
      fix report cs frame
      assume cs: "list_all (reads report layout) cs" and frame: "frame_correct (td_slots d) cs t frame" and es: "es = emit_touch_frame A frame"
      have t: "tracker_ok t" "length (st_slots t) = MAX_TOUCH_SLOTS" using frame len by (simp_all add: frame_correct_def Let_def)
      have "sees (observes A (td_events d @ es) reader_new) t" if A: "abi_ok A"
        using frame_observed(1) [OF A _ _ frame, of "observes A (td_events d) reader_new"] inv A len
        by (simp add: touch_inv_def es MAX_TOUCH_SLOTS_def)
      then show ?thesis
        using inv t frame_announced [OF _ _ cs frame len, of A] by (simp add: touch_inv_def d' es)
    qed (use inv in \<open>simp add: touch_inv_def d'\<close>)
  qed (use report inv in \<open>simp_all add: worker_report_def\<close>)
qed

lemma worker_step_inv: "worker_step A layout d d' \<Longrightarrow> touch_inv A layout d \<Longrightarrow> touch_inv A layout d'"
proof (induction rule: worker_step.induct)
  case (report d transfer d')
  then show ?case using worker_report_inv [OF report.prems report.hyps(2)] by (simp add: touch_inv_def)
qed (simp_all add: touch_inv_def)

lemma reachable_handler: "touch_reachable latching A layout d \<Longrightarrow> handler_step latching d d' \<Longrightarrow> touch_reachable latching A layout d'"
  and reachable_worker: "touch_reachable latching A layout d \<Longrightarrow> worker_step A layout d d' \<Longrightarrow> touch_reachable latching A layout d'"
  and reachable_outside: "touch_reachable latching A layout d \<Longrightarrow> outside_step latching d d' \<Longrightarrow> touch_reachable latching A layout d'"
  by (auto intro: touch_reachable.step simp: touch_step_def driver_step_def)

lemma touch_reachable_inv: "touch_reachable latching A layout d \<Longrightarrow> touch_inv A layout d"
proof (induction rule: touch_reachable.induct)
  case (step d d')
  consider "handler_step latching d d'" | "worker_step A layout d d'" | "outside_step latching d d'"
    using step.hyps(2) by (auto simp: touch_step_def driver_step_def)
  then show ?case
  proof cases
    case 1
    then show ?thesis using step.IH by (cases rule: handler_step.cases) (simp_all add: touch_inv_def wake_one_def)
  next
    case 2
    then show ?thesis by (rule worker_step_inv [OF _ step.IH])
  next
    case 3
    then show ?thesis using step.IH by (cases rule: outside_step.cases) (simp_all add: touch_inv_def wake_one_def)
  qed
qed (rule touch_inv_new)

text \<open>C30. Whatever the controller sends, and however its reports interleave with interrupts, polling and the
  removal of the device, a type-B reader of the events sees in every slot the tracking identifier the
  driver's slot table has there, and nothing in a free slot. Reading a report never panics. The codes of
  the kernel's event interface only have to differ.\<close>

theorem reader_follows_slots:
  assumes "abi_ok A" and "touch_reachable latching A layout d"
  shows "(\<forall>i < MAX_TOUCH_SLOTS. tr_id (observes A (td_events d) reader_new) i =
      map_option ts_tracking_id (st_slots (td_slots d) ! i)) \<and>
    (transfer \<noteq> Panic \<longrightarrow> (\<exists>d'. worker_report A layout transfer d = Ok d'))"
proof -
  note inv = touch_reachable_inv [OF assms(2)]
  have "tracker_ok (td_slots d)" using inv by (simp add: touch_inv_def)
  then have "process_report_inner A layout transfer (td_slots d) \<noteq> Panic" if "transfer \<noteq> Panic"
    using ensures_no_panic [OF process_report_effect] that by blast
  then show ?thesis
    using inv assms(1) by (auto simp: touch_inv_def sees_def worker_report_def split: outcome.split)
qed


section \<open>A run\<close>

text \<open>The first interrupt, with the report of one contact.\<close>

definition sample_input :: "u8 list" where
  "sample_input = [7, 0] @ sample_report"

definition sample_contact :: HidContact where
  "sample_contact = \<lparr> hc_descriptor_slot = 0, hc_hardware_id = None, hc_x = 0x234, hc_y = - 2, hc_pressure = None, hc_touch_major = None \<rparr>"

definition sample_slots :: SlotTracker where
  "sample_slots = \<lparr> st_slots = [Some \<lparr> ts_identity = Descriptor 0, ts_tracking_id = 1, ts_seen = True \<rparr>, None, None, None, None],
     st_next_tracking_id = 2 \<rparr>"

definition sample_events :: "input_event list" where
  "sample_events = [(3, 0x2f, 0), (3, 0x39, 1), (3, 0x35, 0x234), (3, 0x36, - 2), (3, 0, 0x234), (3, 1, - 2), (1, 0x14a, 1), (0, 0, 0)]"

lemma sample_decode: "decode_contacts sample_report sample_layout = Ok [sample_contact]"
proof -
  have "extract_bits sample_report (tl_tips sample_layout ! 0) = Some 1"
    "extract_bits sample_report (tl_x sample_layout ! 0) = Some 0x234"
    "extract_bits sample_report (tl_y sample_layout ! 0) = Some 0xfe"
    by (simp_all add: extract_bits_exact sample_layout_def sample_report_def)
  then show ?thesis
    by (simp add: decode_contacts_def decode_contact_def contact_capacity_def index_def optional_value_def get_at_def
        extract_logical_value_def I32_MAX_def sign_extend_bits_def sample_layout_def sample_contact_def)
qed

definition sample_frame :: TouchFrame where
  "sample_frame = \<lparr> tf_updates = [\<lparr> su_slot = 0, su_tracking_id = 1, su_began = True, su_contact = sample_contact \<rparr>],
     tf_releases = [], tf_primary = Some sample_contact, tf_any_contact = True \<rparr>"

lemma sample_apply: "apply_frame (tracker_new MAX_TOUCH_SLOTS) [sample_contact] = Ok (sample_slots, sample_frame)"
proof -
  have slots: "replicate 5 None = [None, None, None, None, None :: TouchSlot option]" by (simp add: eval_nat_numeral)
  have upt: "[0..<5] = [0, 1, 2, 3, 4 :: nat]" by (simp add: upt_rec)
  have id: "contact_identity sample_contact = Descriptor 0" by (simp add: contact_identity_def sample_contact_def)
  have "apply_contact (\<lparr> st_slots = [None, None, None, None, None], st_next_tracking_id = 1 \<rparr>, []) sample_contact =
      Ok (sample_slots, tf_updates sample_frame)"
    by (simp add: apply_contact_def id holds_def index_def allocate_tracking_id_eq next_id_def I32_MAX_def sample_slots_def sample_frame_def)
  then show ?thesis
    by (simp add: apply_frame_def tracker_new_def MAX_TOUCH_SLOTS_def slots clear_seen_def release_slots_def)
      (simp add: sample_slots_def unseen_def upt sample_frame_def)
qed

lemma sample_emit: "emit_touch_frame linux_abi sample_frame = sample_events"
  by (simp add: emit_touch_frame_def sample_frame_def update_events_def primary_events_def optional_event_def
      sample_events_def sample_contact_def linux_abi_def ABS_X_def ABS_Y_def BTN_TOUCH_def)

lemma sample_touch_run:
  "process_report_inner linux_abi sample_layout (Ok sample_input) (tracker_new MAX_TOUCH_SLOTS) = Ok (sample_slots, sample_events)"
proof -
  have "decode_input_length sample_input = Some 7" "length sample_input = 7" "tl_report_id sample_layout = 1"
    by (simp_all add: decode_input_length_def get_at_def sample_input_def sample_report_def sample_layout_def)
  moreover have "slice sample_input 2 7 = Ok sample_report" by (simp add: slice_def sample_input_def sample_report_def)
  moreover have "first sample_report = Some 1" "take 5 sample_report = sample_report" by (simp_all add: sample_report_def)
  ultimately show ?thesis
    unfolding process_report_inner_def andThen.simps by (simp only: ok_or.simps andThen.simps) (auto simp: sample_decode sample_apply sample_emit)
qed

definition sample_state :: TouchState where
  "sample_state = \<lparr> td_present = True, td_active = True, td_poll_fallback = False, td_irq_work_pending = False, td_irq_masked = True,
     td_wake_token = True, td_slots = sample_slots, td_events = sample_events, td_handler = HandlerIdle, td_worker = WorkerRead \<rparr>"

lemma sample_state_reachable: "touch_reachable True linux_abi sample_layout sample_state"
proof -
  let ?R = "touch_reachable True linux_abi sample_layout"
  let ?taken = "\<lambda>pc. touch_new \<lparr> td_irq_masked := True, td_wake_token := True, td_worker := pc \<rparr>"
  have "?R (touch_new \<lparr> td_handler := HandlerActive \<rparr>)"
    by (rule reachable_outside [OF touch_reachable.init outside_step.interrupt]) (simp_all add: touch_new_def)
  from reachable_handler [OF this handler_step.mask]
  have "?R (touch_new \<lparr> td_irq_masked := True, td_handler := HandlerMasked \<rparr>)" by (simp add: touch_new_def)
  from reachable_handler [OF this handler_step.pend]
  have "?R (touch_new \<lparr> td_irq_masked := True, td_irq_work_pending := True, td_handler := HandlerWaking \<rparr>)" by (simp add: touch_new_def)
  from reachable_handler [OF this handler_step.wake]
  have "?R (touch_new \<lparr> td_irq_masked := True, td_irq_work_pending := True, td_wake_token := True \<rparr>)"
    by (simp add: touch_new_def wake_one_def)
  from reachable_worker [OF this worker_step.take_work] have "?R (?taken WorkerTaken)" by (simp add: touch_new_def)
  from reachable_worker [OF this worker_step.start] have reading: "?R (?taken WorkerReading)" by (simp add: touch_new_def)
  have "worker_report linux_abi sample_layout (Ok sample_input) (?taken WorkerReading) =
      Ok ((?taken WorkerReading) \<lparr> td_slots := sample_slots, td_events := sample_events \<rparr>)"
    using sample_touch_run by (simp add: worker_report_def touch_new_def)
  from reachable_worker [OF reading worker_step.report [OF _ this]]
  show ?thesis by (simp add: touch_new_def sample_state_def)
qed

theorem reader_follows_slots_witness:
  "abi_ok linux_abi \<and> touch_reachable True linux_abi sample_layout sample_state \<and>
   tr_id (observes linux_abi sample_events reader_new) 0 = Some 1 \<and> tr_id (observes linux_abi sample_events reader_new) 4 = None \<and>
   (\<exists>d'. worker_report linux_abi sample_layout (Ok sample_input) sample_state = Ok d')"
  using reader_follows_slots [OF linux_abi_ok sample_state_reachable, of "Ok sample_input"] linux_abi_ok sample_state_reachable
  by (simp add: sample_state_def sample_slots_def MAX_TOUCH_SLOTS_def)


end
