(* ===== verification/Touch_Wakeups.thy ===== *)
theory Touch_Wakeups
  imports Touch_Events
begin

text \<open>
  The interrupt line of the touchscreen. The handler masks it and the worker unmasks it, and in between the
  worker may be about to wait. The lemmas show that the line is always unmasked again when the kernel's
  \<open>Waker\<close> keeps a wake-up that finds nobody waiting, and that it may stay masked for ever when it does not.
\<close>

section \<open>Who unmasks the line\<close>

text \<open>While the device is registered and not polled: a masked line has somebody on the way to unmask it, and reported work
  has a wake-up on the way to a worker that waits or is about to.\<close>

definition at_work :: "TouchState \<Rightarrow> bool" where
  "at_work d \<longleftrightarrow> td_worker d \<in> {WorkerTaken, WorkerReading, WorkerRead, WorkerUnmasking, WorkerAcked}"

definition wake_inv :: "TouchState \<Rightarrow> bool" where
  "wake_inv d \<longleftrightarrow> td_present d \<longrightarrow> td_active d \<and> (\<not> td_poll_fallback d \<longrightarrow>
     (td_irq_masked d \<longrightarrow> td_handler d = HandlerMasked \<or> td_irq_work_pending d \<or> at_work d) \<and>
     (td_irq_work_pending d \<longrightarrow> td_worker d = WorkerWaiting \<longrightarrow> td_handler d = HandlerWaking) \<and>
     (td_irq_work_pending d \<longrightarrow> td_worker d = WorkerParking \<longrightarrow> td_handler d = HandlerWaking \<or> td_wake_token d))"

lemma handler_wake_inv: "handler_step True d d' \<Longrightarrow> wake_inv d \<Longrightarrow> wake_inv d'"
  by (induction rule: handler_step.induct) (auto simp: wake_inv_def at_work_def wake_one_def)

lemma worker_report_flags:
  assumes "worker_report A layout transfer d = Ok d'"
  shows "\<exists>t es. d' = d \<lparr> td_slots := t, td_events := es \<rparr>"
proof (cases "process_report_inner A layout transfer (td_slots d)")
  case (Err e)
  then have "d' = d \<lparr> td_slots := td_slots d, td_events := td_events d \<rparr>" using assms by (simp add: worker_report_def)
  then show ?thesis by blast
qed (use assms in \<open>auto simp: worker_report_def\<close>)

lemma worker_wake_inv: "worker_step A layout d d' \<Longrightarrow> wake_inv d \<Longrightarrow> wake_inv d'"
proof (induction rule: worker_step.induct)
  case (report d transfer d')
  obtain t es where "d' = d \<lparr> td_slots := t, td_events := es \<rparr>" using worker_report_flags [OF report.hyps(2)] by blast
  then show ?case using report by (auto simp: wake_inv_def at_work_def)
qed (auto simp: wake_inv_def at_work_def)

lemma outside_wake_inv: "outside_step True d d' \<Longrightarrow> wake_inv d \<Longrightarrow> wake_inv d'"
  by (induction rule: outside_step.induct) (auto simp: wake_inv_def at_work_def wake_one_def)

lemma reachable_wake_inv: "touch_reachable True A layout d \<Longrightarrow> wake_inv d"
proof (induction rule: touch_reachable.induct)
  case (step d d')
  then show ?case
    unfolding touch_step_def driver_step_def
    using handler_wake_inv worker_wake_inv outside_wake_inv by blast
qed (simp add: wake_inv_def touch_new_def)

section \<open>Progress\<close>

fun handler_rank :: "HandlerPc \<Rightarrow> nat" where
  "handler_rank HandlerIdle = 0"
| "handler_rank HandlerWaking = 1"
| "handler_rank HandlerMasked = 2"
| "handler_rank HandlerActive = 3"

definition worker_rank :: "TouchState \<Rightarrow> nat" where
  "worker_rank d =
     (let token = (if td_wake_token d then 2 else 0) in
      case td_worker d of
        WorkerAcked \<Rightarrow> 1 | WorkerUnmasking \<Rightarrow> 2 | WorkerRead \<Rightarrow> 3 | WorkerReading \<Rightarrow> 4 | WorkerTaken \<Rightarrow> 5
      | WorkerLoop \<Rightarrow> if td_irq_work_pending d then 6 else 9 + token
      | WorkerWaiting \<Rightarrow> 7
      | WorkerParking \<Rightarrow> 8 + token)"

definition unmask_rank :: "TouchState \<Rightarrow> nat" where
  "unmask_rank d = 12 * handler_rank (td_handler d) + worker_rank d"

lemma worker_rank_bound: "worker_rank d \<le> 11"
  by (simp add: worker_rank_def Let_def split: WorkerPc.split)

lemma unmask_rank_bound: "unmask_rank d \<le> 47"
  using worker_rank_bound [of d] by (cases "td_handler d") (simp_all add: unmask_rank_def)

lemma handler_lowers_rank: "handler_step latching d d' \<Longrightarrow> unmask_rank d' < unmask_rank d"
proof (induction rule: handler_step.induct)
  case (mask d)
  then show ?case using worker_rank_bound [of "d \<lparr> td_irq_masked := True, td_handler := HandlerMasked \<rparr>"] by (simp add: unmask_rank_def)
next
  case (pend d)
  let ?d = "d \<lparr> td_irq_work_pending := True, td_handler := (if td_irq_work_pending d then HandlerIdle else HandlerWaking) \<rparr>"
  show ?case using pend worker_rank_bound [of ?d] by (cases "td_irq_work_pending d") (simp_all add: unmask_rank_def)
next
  case (wake d)
  have "td_handler (wake_one latching (d \<lparr> td_handler := HandlerIdle \<rparr>)) = HandlerIdle" by (simp add: wake_one_def)
  then show ?case using wake worker_rank_bound [of "wake_one latching (d \<lparr> td_handler := HandlerIdle \<rparr>)"] by (simp add: unmask_rank_def)
qed

definition stays :: "TouchState \<Rightarrow> bool" where
  "stays d \<longleftrightarrow> td_present d \<and> td_active d \<and> \<not> td_poll_fallback d"

lemma worker_lowers_rank:
  "worker_step A layout d d' \<Longrightarrow> stays d \<Longrightarrow> td_irq_masked d \<Longrightarrow> \<not> td_irq_masked d' \<or> unmask_rank d' < unmask_rank d"
proof (induction rule: worker_step.induct)
  case (report d transfer d')
  obtain t es where "d' = d \<lparr> td_slots := t, td_events := es \<rparr>" using worker_report_flags [OF report.hyps(2)] by blast
  then show ?case using report by (simp add: unmask_rank_def worker_rank_def)
qed (auto simp: unmask_rank_def worker_rank_def stays_def Let_def)

lemma driver_step_stays: "driver_step latching A layout d d' \<Longrightarrow> stays d \<Longrightarrow> stays d'"
  unfolding driver_step_def
proof (elim disjE)
  assume "worker_step A layout d d'" "stays d"
  then show "stays d'"
  proof (induction rule: worker_step.induct)
    case (report d transfer d')
    obtain t es where "d' = d \<lparr> td_slots := t, td_events := es \<rparr>" using worker_report_flags [OF report.hyps(2)] by blast
    then show ?case using report by (simp add: stays_def)
  qed (simp_all add: stays_def)
next
  assume "handler_step latching d d'" "stays d"
  then show "stays d'" by (induction rule: handler_step.induct) (auto simp: stays_def wake_one_def)
qed

text \<open>Somebody can always take a step.\<close>

lemma driver_enabled:
  assumes "wake_inv d" and "stays d" and "td_irq_masked d"
  shows "\<exists>d'. driver_step latching A layout d d'"
proof (cases "td_worker d = WorkerWaiting")
  case True
  then have "td_handler d \<in> {HandlerMasked, HandlerWaking}" using assms by (auto simp: wake_inv_def stays_def at_work_def)
  then show ?thesis unfolding driver_step_def by (auto intro: handler_step.intros)
next
  case False
  have "worker_report A layout (Err BusError) d = Ok d" by (simp add: worker_report_def process_report_inner_def)
  note read = worker_step.report [OF _ this]
  have "\<exists>d'. worker_step A layout d d'"
    using False assms(2) by (cases "td_worker d"; cases "td_irq_work_pending d") (auto simp: stays_def intro: worker_step.intros read)
  then show ?thesis unfolding driver_step_def by blast
qed

text \<open>Whatever handler and worker do next, the line is unmasked after at most \<open>n\<close> of their steps.\<close>

primrec unmasked_within :: "nat \<Rightarrow> bool \<Rightarrow> InputAbi \<Rightarrow> HidTouchLayout \<Rightarrow> TouchState \<Rightarrow> bool" where
  "unmasked_within 0 latching A layout d \<longleftrightarrow> \<not> td_irq_masked d"
| "unmasked_within (Suc n) latching A layout d \<longleftrightarrow> \<not> td_irq_masked d \<or>
     (\<exists>d'. driver_step latching A layout d d') \<and> (\<forall>d'. driver_step latching A layout d d' \<longrightarrow> unmasked_within n latching A layout d')"

lemma rank_unmasks:
  "wake_inv d \<Longrightarrow> stays d \<Longrightarrow> unmask_rank d \<le> n \<Longrightarrow> unmasked_within n True A layout d"
proof (induction n arbitrary: d)
  case 0
  then have "worker_rank d = 0" by (simp add: unmask_rank_def)
  then show ?case by (simp add: worker_rank_def Let_def split: WorkerPc.splits if_splits)
next
  case (Suc n)
  have "unmasked_within n True A layout d'" if m: "td_irq_masked d" and d': "driver_step True A layout d d'" for d'
  proof -
    have inv: "wake_inv d'" "stays d'"
      using d' Suc.prems(1,2) handler_wake_inv worker_wake_inv driver_step_stays unfolding driver_step_def by blast+
    have "\<not> td_irq_masked d' \<or> unmask_rank d' < unmask_rank d"
      using d' handler_lowers_rank worker_lowers_rank [OF _ Suc.prems(2) m] unfolding driver_step_def by blast
    then show ?thesis using Suc.IH [OF inv] Suc.prems(3) by (cases n) auto
  qed
  then show ?case using driver_enabled [OF Suc.prems(1,2)] by auto
qed

text \<open>C34. No interrupt is lost, if the kernel's \<open>Waker\<close> keeps a wake-up that finds nobody waiting: in every reachable
  state of a touchscreen that is registered and not polled, also when the worker is just about to wait, handler
  and worker are never stuck while the line is masked, and whatever they do next, the line is unmasked after at
  most 47 of their steps, as long as nothing happens to the device from outside.\<close>

theorem masked_line_is_unmasked:
  assumes "touch_reachable True A layout d" and "td_present d" and "\<not> td_poll_fallback d"
  shows "unmasked_within 47 True A layout d"
proof -
  have inv: "wake_inv d" by (rule reachable_wake_inv [OF assms(1)])
  then have "stays d" using assms(2,3) by (simp add: stays_def wake_inv_def)
  then show ?thesis by (rule rank_unmasks [OF inv _ unmask_rank_bound])
qed

theorem masked_line_is_unmasked_witness:
  "td_irq_masked sample_state \<and> unmasked_within 47 True linux_abi sample_layout sample_state"
  using masked_line_is_unmasked [OF sample_state_reachable] by (simp add: sample_state_def)

text \<open>Without that the wake-up is lost when the interrupt comes while the worker is about to wait: the line is masked, the work is
  reported, and neither handler nor worker can do anything.\<close>

lemma wake_up_may_be_lost:
  "\<exists>d. touch_reachable False A layout d \<and> td_present d \<and> \<not> td_poll_fallback d \<and> td_irq_masked d \<and>
     (\<forall>d'. \<not> driver_step False A layout d d')"
proof -
  let ?R = "touch_reachable False A layout"
  let ?d = "touch_new \<lparr> td_irq_masked := True, td_irq_work_pending := True, td_worker := WorkerWaiting \<rparr>"
  have "?R (touch_new \<lparr> td_worker := WorkerParking \<rparr>)"
    by (rule reachable_worker [OF touch_reachable.init worker_step.no_work]) (simp_all add: touch_new_def)
  from reachable_outside [OF this outside_step.interrupt]
  have "?R (touch_new \<lparr> td_worker := WorkerParking, td_handler := HandlerActive \<rparr>)" by (simp add: touch_new_def)
  from reachable_handler [OF this handler_step.mask]
  have "?R (touch_new \<lparr> td_irq_masked := True, td_worker := WorkerParking, td_handler := HandlerMasked \<rparr>)" by (simp add: touch_new_def)
  from reachable_handler [OF this handler_step.pend]
  have "?R (touch_new \<lparr> td_irq_masked := True, td_irq_work_pending := True, td_worker := WorkerParking, td_handler := HandlerWaking \<rparr>)"
    by (simp add: touch_new_def)
  from reachable_handler [OF this handler_step.wake]
  have "?R (touch_new \<lparr> td_irq_masked := True, td_irq_work_pending := True, td_worker := WorkerParking \<rparr>)"
    by (simp add: touch_new_def wake_one_def)
  from reachable_worker [OF this worker_step.wait] have "?R ?d" by (simp add: touch_new_def)
  moreover have "\<not> driver_step False A layout ?d d'" for d'
    by (auto simp: driver_step_def touch_new_def elim!: handler_step.cases worker_step.cases)
  ultimately show ?thesis by (intro exI [of _ ?d]) (simp add: touch_new_def)
qed

end
