(* ===== verification/Cros_Ec.thy ===== *)
theory Cros_Ec
  imports Rust_Bytes
begin

text \<open>
  The host command transport of the Chrome embedded controller
  (\<open>drivers/platform/chromeos/cros-ec-spi/src/lib.rs\<close>, \<open>event_drain.rs\<close>): request and response framing,
  the display light and motion sensor commands, and the delivery of events to listeners. The SPI bus, the
  listeners, the clock and the interrupt line belong to the kernel; they are the fields of the record
  \<open>EcEnv\<close>, functions over a world \<open>'w\<close> that every call may change. An \<open>i16\<close> and an \<open>i8\<close> are bit patterns.
\<close>

section \<open>Wire format\<close>

definition HOST_REQUEST_VERSION :: u8 where "HOST_REQUEST_VERSION = 3"
definition HOST_RESPONSE_VERSION :: u8 where "HOST_RESPONSE_VERSION = 3"
definition HOST_HEADER_BYTES :: usize where "HOST_HEADER_BYTES = 8"
definition SPI_FRAME_START :: u8 where "SPI_FRAME_START = 0xec"
definition SPI_RX_BAD_DATA :: u8 where "SPI_RX_BAD_DATA = 0xfb"
definition SPI_NOT_READY :: u8 where "SPI_NOT_READY = 0xfc"

datatype 's CrosEcError = Spi 's | BadRequest | NotReady | NoResponse | InvalidResponse | EcResult u16 | InvalidArgument

text \<open>\<open>iter().fold(0u8, wrapping_add)\<close>.\<close>

definition byte_sum :: "u8 list \<Rightarrow> u8" where
  "byte_sum bs = fold (\<lambda>b s. s + b) bs 0"

definition build_request :: "u16 \<Rightarrow> u8 \<Rightarrow> u8 list \<Rightarrow> u8 list" where
  "build_request command version payload =
     (let data_len = (of_nat (length payload) :: u16);
          packet = [HOST_REQUEST_VERSION, 0, ucast command, ucast (drop_bit 8 command), version, 0,
            ucast data_len, ucast (drop_bit 8 data_len)] @ payload
      in packet[1 := - byte_sum packet])"

text \<open>The scan for the start of a frame.\<close>

fun frame_offset :: "usize \<Rightarrow> u8 list \<Rightarrow> ('s CrosEcError, usize option) outcome" where
  "frame_offset i [] = Ok None"
| "frame_offset i (b # bs) =
     (if b = SPI_FRAME_START then Ok (Some (i + 1))
      else if b = SPI_RX_BAD_DATA then Err BadRequest
      else if b = SPI_NOT_READY then Err NotReady
      else frame_offset (i + 1) bs)"

definition decode_response :: "u8 list \<Rightarrow> ('s CrosEcError, u8 list) outcome" where
  "decode_response wire =
     andThen (frame_offset 0 wire) (\<lambda>frame.
     andThen (ok_or frame NoResponse) (\<lambda>header_offset.
     andThen (ok_or (get_range wire header_offset (header_offset + HOST_HEADER_BYTES)) InvalidResponse) (\<lambda>header.
     case header of
       [h0, h1, h2, h3, h4, h5, h6, h7] \<Rightarrow>
         if h0 \<noteq> HOST_RESPONSE_VERSION \<or> h6 \<noteq> 0 \<or> h7 \<noteq> 0 then Err InvalidResponse
         else
           let result = (from_le_bytes [h2, h3] :: u16) in
           if result \<noteq> 0 then Err (EcResult result)
           else
             let data_len = unat (from_le_bytes [h4, h5] :: u16) in
             andThen (ok_or (Option.bind (usize_checked_add header_offset HOST_HEADER_BYTES) (\<lambda>v.
               usize_checked_add v data_len)) InvalidResponse) (\<lambda>packet_end.
             andThen (ok_or (get_range wire header_offset packet_end) InvalidResponse) (\<lambda>packet.
             if byte_sum packet \<noteq> 0 then Err InvalidResponse
             else slice packet HOST_HEADER_BYTES (length packet)))
     | _ \<Rightarrow> Panic)))"

section \<open>Payloads\<close>

text \<open>\<open>chunks_exact(n)\<close>.\<close>

definition chunks_exact :: "usize \<Rightarrow> 'a list \<Rightarrow> 'a list list" where
  "chunks_exact n xs = map (\<lambda>i. take n (drop (i * n) xs)) [0..<length xs div n]"

definition PWM_FULL_SCALE :: u32 where "PWM_FULL_SCALE = 0xffff"

definition pwm_duty_from_percent :: "u8 \<Rightarrow> ('s CrosEcError, u16) outcome" where
  "pwm_duty_from_percent percent =
     (if percent > 100 then Err InvalidArgument
      else andThen (ok_or (checked_mul (ucast percent) PWM_FULL_SCALE) InvalidArgument) (\<lambda>scaled.
        let v = (scaled + 50) div 100 in
        if v \<le> 0xffff then Ok (ucast v) else Err InvalidArgument))"

definition saturating_mul :: "'w::len word \<Rightarrow> 'w word \<Rightarrow> 'w word" where
  "saturating_mul a b = (if unat a * unat b < 2 ^ LENGTH('w) then a * b else - 1)"

definition pwm_percent_from_duty :: "u16 \<Rightarrow> u8" where
  "pwm_percent_from_duty duty =
     (let scaled = saturating_add (saturating_mul (ucast duty) 100) (PWM_FULL_SCALE div 2) div PWM_FULL_SCALE;
          v = min scaled 100
      in if v \<le> 0xff then ucast v else 100)"

record CrosEcFeatures =
  feature_flags :: "u32 list"

definition parse_features :: "u8 list \<Rightarrow> ('s CrosEcError, CrosEcFeatures) outcome" where
  "parse_features response =
     (if length response \<noteq> 8 then Err InvalidResponse
      else Ok \<lparr> feature_flags = [from_le_bytes (take 4 response), from_le_bytes (drop 4 response)] \<rparr>)"

definition has_feature :: "CrosEcFeatures \<Rightarrow> u8 \<Rightarrow> ('e, bool) outcome" where
  "has_feature f feature =
     (if feature \<ge> 64 then Ok False
      else andThen (index (feature_flags f) (unat (feature div 32))) (\<lambda>w.
        Ok (w AND push_bit (unat (feature mod 32)) 1 \<noteq> 0)))"

definition MOTION_SENSE_REQUEST_BYTES :: usize where "MOTION_SENSE_REQUEST_BYTES = 13"
definition MOTION_SENSOR_DATA_BYTES :: usize where "MOTION_SENSOR_DATA_BYTES = 8"
definition MOTION_FIFO_INFO_FIXED_BYTES :: usize where "MOTION_FIFO_INFO_FIXED_BYTES = 10"
definition MOTION_FIFO_READ_FIXED_BYTES :: usize where "MOTION_FIFO_READ_FIXED_BYTES = 4"
definition MKBP_SENSOR_FIFO_ALIGNMENT_BYTES :: usize where "MKBP_SENSOR_FIFO_ALIGNMENT_BYTES = 3"
definition CROS_EC_MAX_MOTION_FIFO_VECTORS :: u32 where "CROS_EC_MAX_MOTION_FIFO_VECTORS = 256"

definition build_motion_sense_payload :: "u8 \<Rightarrow> u8 list \<Rightarrow> ('s CrosEcError, u8 list) outcome" where
  "build_motion_sense_payload subcommand parameters =
     (if length parameters \<ge> MOTION_SENSE_REQUEST_BYTES then Err InvalidArgument
      else put_bytes ((replicate MOTION_SENSE_REQUEST_BYTES 0)[0 := subcommand]) 1 parameters)"

record CrosEcMotionSensorSummary =
  module_flags :: u8
  sensor_count :: u8

definition parse_motion_sensor_summary :: "u8 list \<Rightarrow> ('s CrosEcError, CrosEcMotionSensorSummary) outcome" where
  "parse_motion_sensor_summary response =
     (case response of [f, n] \<Rightarrow> Ok \<lparr> module_flags = f, sensor_count = n \<rparr> | _ \<Rightarrow> Err InvalidResponse)"

record CrosEcMotionSensorInfo =
  sensor_type :: u8
  sensor_location :: u8
  sensor_chip :: u8
  min_frequency_millihz :: "u32 option"
  max_frequency_millihz :: "u32 option"
  fifo_max_event_count :: "u32 option"

definition parse_motion_sensor_info_v1 :: "u8 list \<Rightarrow> ('s CrosEcError, CrosEcMotionSensorInfo) outcome" where
  "parse_motion_sensor_info_v1 response =
     (case response of
        [t, l, c] \<Rightarrow> Ok \<lparr> sensor_type = t, sensor_location = l, sensor_chip = c, min_frequency_millihz = None,
          max_frequency_millihz = None, fifo_max_event_count = None \<rparr>
      | _ \<Rightarrow> Err InvalidResponse)"

definition parse_motion_sensor_info_v3 :: "u8 list \<Rightarrow> ('s CrosEcError, CrosEcMotionSensorInfo) outcome" where
  "parse_motion_sensor_info_v3 response =
     (if length response \<noteq> 16 then Err InvalidResponse
      else Ok \<lparr> sensor_type = response ! 0, sensor_location = response ! 1, sensor_chip = response ! 2,
        min_frequency_millihz = Some (from_le_bytes (take 4 (drop 4 response))),
        max_frequency_millihz = Some (from_le_bytes (take 4 (drop 8 response))),
        fifo_max_event_count = Some (from_le_bytes (take 4 (drop 12 response))) \<rparr>)"

record CrosEcMotionSensorData =
  sample_flags :: u8
  sample_sensor_num :: u8
  sample_x :: u16
  sample_y :: u16
  sample_z :: u16

definition timestamp_us :: "CrosEcMotionSensorData \<Rightarrow> u32 option" where
  "timestamp_us s =
     (if sample_flags s AND 2 = 0 then None
      else Some (ucast (sample_y s) OR push_bit 16 (ucast (sample_z s))))"

definition is_vector_sample :: "CrosEcMotionSensorData \<Rightarrow> bool" where
  "is_vector_sample s \<longleftrightarrow> sample_flags s AND (2 OR 1 OR 16 OR 8) = 0"

definition parse_motion_sensor_data :: "u8 list \<Rightarrow> ('s CrosEcError, CrosEcMotionSensorData) outcome" where
  "parse_motion_sensor_data response =
     (if length response \<noteq> MOTION_SENSOR_DATA_BYTES then Err InvalidResponse
      else Ok \<lparr> sample_flags = response ! 0, sample_sensor_num = response ! 1,
        sample_x = from_le_bytes (take 2 (drop 2 response)), sample_y = from_le_bytes (take 2 (drop 4 response)),
        sample_z = from_le_bytes (take 2 (drop 6 response)) \<rparr>)"

record CrosEcMotionFifoInfo =
  fifo_size :: u16
  fifo_count :: u16
  fifo_timestamp_us :: u32
  fifo_total_lost :: u16
  lost_per_sensor :: "u16 list"

definition parse_motion_fifo_info :: "u8 list \<Rightarrow> u8 \<Rightarrow> ('s CrosEcError, CrosEcMotionFifoInfo) outcome" where
  "parse_motion_fifo_info response sensors =
     andThen (ok_or (usize_checked_mul (unat sensors) 2) InvalidResponse) (\<lambda>lost_bytes.
     andThen (ok_or (usize_checked_add MOTION_FIFO_INFO_FIXED_BYTES lost_bytes) InvalidResponse) (\<lambda>expected_len.
     if length response \<noteq> expected_len then Err InvalidResponse
     else
       andThen (slice response MOTION_FIFO_INFO_FIXED_BYTES (length response)) (\<lambda>lost.
       Ok \<lparr> fifo_size = from_le_bytes (take 2 response), fifo_count = from_le_bytes (take 2 (drop 2 response)),
         fifo_timestamp_us = from_le_bytes (take 4 (drop 4 response)), fifo_total_lost = from_le_bytes (take 2 (drop 8 response)),
         lost_per_sensor = map from_le_bytes (chunks_exact 2 lost) \<rparr>)))"

definition parse_motion_fifo_event :: "u8 list \<Rightarrow> ('s CrosEcError, CrosEcMotionFifoInfo) outcome" where
  "parse_motion_fifo_event data =
     (if length data \<noteq> MKBP_SENSOR_FIFO_ALIGNMENT_BYTES + MOTION_FIFO_INFO_FIXED_BYTES then Err InvalidResponse
      else andThen (slice data MKBP_SENSOR_FIFO_ALIGNMENT_BYTES (length data)) (\<lambda>info. parse_motion_fifo_info info 0))"

definition parse_motion_fifo_data :: "u8 list \<Rightarrow> u32 \<Rightarrow> ('s CrosEcError, CrosEcMotionSensorData list) outcome" where
  "parse_motion_fifo_data response requested_vectors =
     (if length response < MOTION_FIFO_READ_FIXED_BYTES then Err InvalidResponse
      else
        let count = (from_le_bytes (take 4 response) :: u32) in
        if count > requested_vectors \<or> count > CROS_EC_MAX_MOTION_FIFO_VECTORS then Err InvalidResponse
        else
          andThen (ok_or (usize_checked_mul (unat count) MOTION_SENSOR_DATA_BYTES) InvalidResponse) (\<lambda>sample_bytes.
          andThen (ok_or (usize_checked_add MOTION_FIFO_READ_FIXED_BYTES sample_bytes) InvalidResponse) (\<lambda>expected_len.
          if length response \<noteq> expected_len then Err InvalidResponse
          else
            andThen (slice response MOTION_FIFO_READ_FIXED_BYTES (length response)) (\<lambda>rest.
            mapM parse_motion_sensor_data (chunks_exact MOTION_SENSOR_DATA_BYTES rest)))))"

definition parse_motion_fifo_interrupt_enabled :: "u8 list \<Rightarrow> ('s CrosEcError, bool) outcome" where
  "parse_motion_fifo_interrupt_enabled response =
     (if length response \<noteq> 4 then Err InvalidResponse
      else let v = (from_le_bytes response :: i32) in
        if v = 0 then Ok False else if v = 1 then Ok True else Err InvalidResponse)"

definition parse_motion_i32_response :: "u8 list \<Rightarrow> ('s CrosEcError, i32) outcome" where
  "parse_motion_i32_response response =
     (if length response \<noteq> 4 then Err InvalidResponse else Ok (from_le_bytes response))"

section \<open>Commands\<close>

record ('w, 's, 'l) EcEnv =
  spi_transfer :: "u8 list \<Rightarrow> usize \<Rightarrow> 'w \<Rightarrow> ('s, u8 list) outcome \<times> 'w"
  upgrade :: "'l \<Rightarrow> 'w \<Rightarrow> bool"
  on_cros_ec_event :: "'l \<Rightarrow> u8 \<Rightarrow> u8 list \<Rightarrow> 'w \<Rightarrow> bool \<times> 'w"
  is_active :: "'w \<Rightarrow> bool"
  current_time_ns :: "'w \<Rightarrow> u64"
  ack_and_enable_irq :: "'w \<Rightarrow> 'w"
  disable_irq :: "'w \<Rightarrow> 'w"

type_synonym ('w, 's, 'a) ec = "'w \<Rightarrow> ('s CrosEcError, 'a) outcome \<times> 'w"

definition ec_bind :: "('w, 's, 'a) ec \<Rightarrow> ('a \<Rightarrow> ('w, 's, 'b) ec) \<Rightarrow> ('w, 's, 'b) ec" where
  "ec_bind m f w =
     (case m w of (Ok x, w) \<Rightarrow> f x w | (Err e, w) \<Rightarrow> (Err e, w) | (Panic, w) \<Rightarrow> (Panic, w))"

definition ec_lift :: "('s CrosEcError, 'a) outcome \<Rightarrow> ('w, 's, 'a) ec" where
  "ec_lift r w = (r, w)"

definition RESPONSE_CLOCK_BYTES :: usize where "RESPONSE_CLOCK_BYTES = 4096"

definition ec_command :: "('w, 's, 'l) EcEnv \<Rightarrow> u16 \<Rightarrow> u8 \<Rightarrow> u8 list \<Rightarrow> ('w, 's, u8 list) ec" where
  "ec_command E command version payload w =
     (if length payload > 0xffff then (Err InvalidArgument, w)
      else case spi_transfer E (build_request command version payload) RESPONSE_CLOCK_BYTES w of
        (r, w) \<Rightarrow> (andThen (map_err Spi r) decode_response, w))"

definition motion_sense_command :: "('w, 's, 'l) EcEnv \<Rightarrow> u8 \<Rightarrow> u8 \<Rightarrow> u8 list \<Rightarrow> ('w, 's, u8 list) ec" where
  "motion_sense_command E version subcommand parameters =
     ec_bind (ec_lift (build_motion_sense_payload subcommand parameters)) (\<lambda>payload.
     ec_command E 0x2b version payload)"

definition ec_features :: "('w, 's, 'l) EcEnv \<Rightarrow> ('w, 's, CrosEcFeatures) ec" where
  "ec_features E = ec_bind (ec_command E 0x0d 0 []) (\<lambda>response. ec_lift (parse_features response))"

text \<open>\<open>supports_motion_sense\<close>, \<open>supports_motion_sense_fifo\<close> and \<open>supports_motion_sense_tight_timestamps\<close> ask for the
  features 6, 24 and 36.\<close>

definition ec_supports :: "('w, 's, 'l) EcEnv \<Rightarrow> u8 \<Rightarrow> ('w, 's, bool) ec" where
  "ec_supports E feature = ec_bind (ec_features E) (\<lambda>f. ec_lift (has_feature f feature))"

definition get_display_backlight_percent :: "('w, 's, 'l) EcEnv \<Rightarrow> ('w, 's, u8) ec" where
  "get_display_backlight_percent E =
     ec_bind (ec_command E 0x26 0 [2, 0]) (\<lambda>response.
     ec_lift (if length response \<noteq> 2 then Err InvalidResponse else Ok (pwm_percent_from_duty (from_le_bytes response))))"

definition set_display_backlight_percent :: "('w, 's, 'l) EcEnv \<Rightarrow> u8 \<Rightarrow> ('w, 's, unit) ec" where
  "set_display_backlight_percent E percent =
     ec_bind (ec_lift (pwm_duty_from_percent percent)) (\<lambda>duty.
     ec_bind (ec_command E 0x25 0 (to_le_bytes 2 duty @ [2, 0])) (\<lambda>response.
     ec_lift (if response \<noteq> [] then Err InvalidResponse else Ok ())))"

definition motion_sensor_summary :: "('w, 's, 'l) EcEnv \<Rightarrow> ('w, 's, CrosEcMotionSensorSummary) ec" where
  "motion_sensor_summary E =
     ec_bind (motion_sense_command E 1 0 [0]) (\<lambda>response. ec_lift (parse_motion_sensor_summary response))"

text \<open>An EC that does not know version 3 of the command is asked again with version 1.\<close>

definition motion_sensor_info :: "('w, 's, 'l) EcEnv \<Rightarrow> u8 \<Rightarrow> ('w, 's, CrosEcMotionSensorInfo) ec" where
  "motion_sensor_info E sensor_num w =
     (case motion_sense_command E 3 1 [sensor_num] w of
        (Ok response, w) \<Rightarrow> (parse_motion_sensor_info_v3 response, w)
      | (Err e, w) \<Rightarrow>
          if e = EcResult 6
          then ec_bind (motion_sense_command E 1 1 [sensor_num]) (\<lambda>response. ec_lift (parse_motion_sensor_info_v1 response)) w
          else (Err e, w)
      | (Panic, w) \<Rightarrow> (Panic, w))"

definition motion_sensor_parameter_query :: "('w, 's, 'l) EcEnv \<Rightarrow> u8 \<Rightarrow> u8 \<Rightarrow> ('w, 's, i32) ec" where
  "motion_sensor_parameter_query E subcommand sensor_num =
     ec_bind (motion_sense_command E 1 subcommand ([sensor_num, 0, 0, 0] @ to_le_bytes 4 (- 1 :: i32))) (\<lambda>response.
     ec_lift (parse_motion_i32_response response))"

definition motion_sensor_data :: "('w, 's, 'l) EcEnv \<Rightarrow> u8 \<Rightarrow> ('w, 's, CrosEcMotionSensorData) ec" where
  "motion_sensor_data E sensor_num =
     ec_bind (motion_sense_command E 1 6 [sensor_num]) (\<lambda>response. ec_lift (parse_motion_sensor_data response))"

definition motion_fifo_interrupt_enabled_raw :: "('w, 's, 'l) EcEnv \<Rightarrow> u8 \<Rightarrow> ('w, 's, bool) ec" where
  "motion_fifo_interrupt_enabled_raw E v =
     ec_bind (motion_sense_command E 2 15 [v]) (\<lambda>response. ec_lift (parse_motion_fifo_interrupt_enabled response))"

definition motion_fifo_info_for_sensor_count :: "('w, 's, 'l) EcEnv \<Rightarrow> u8 \<Rightarrow> ('w, 's, CrosEcMotionFifoInfo) ec" where
  "motion_fifo_info_for_sensor_count E sensors =
     ec_bind (ec_command E 0x2b 2 [7]) (\<lambda>response. ec_lift (parse_motion_fifo_info response sensors))"

definition motion_fifo_info :: "('w, 's, 'l) EcEnv \<Rightarrow> ('w, 's, CrosEcMotionFifoInfo) ec" where
  "motion_fifo_info E =
     ec_bind (motion_sensor_summary E) (\<lambda>summary. motion_fifo_info_for_sensor_count E (sensor_count summary))"

definition motion_fifo_read :: "('w, 's, 'l) EcEnv \<Rightarrow> u32 \<Rightarrow> ('w, 's, CrosEcMotionSensorData list) ec" where
  "motion_fifo_read E max_vectors =
     (if max_vectors > CROS_EC_MAX_MOTION_FIFO_VECTORS then ec_lift (Err InvalidArgument)
      else ec_bind (motion_sense_command E 2 9 (to_le_bytes 4 max_vectors)) (\<lambda>response.
        ec_lift (parse_motion_fifo_data response max_vectors)))"

section \<open>Events\<close>

text \<open>The state of a controller that the driver owns: its registered listeners and the flags of its event worker.\<close>

record 'l CrosEcSpi =
  ec_event_work_pending :: bool
  ec_event_drain_errors :: u64
  ec_event_retry_not_before_ns :: u64
  ec_event_listeners :: "(u64 \<times> 'l) list"

definition register_event_listener :: "u64 \<Rightarrow> 'l \<Rightarrow> 'l CrosEcSpi \<Rightarrow> u64 \<times> u64 \<times> 'l CrosEcSpi" where
  "register_event_listener next_id listener c =
     (next_id, next_id + 1, c \<lparr> ec_event_listeners := ec_event_listeners c @ [(next_id, listener)] \<rparr>)"

definition unregister_event_listener :: "u64 \<Rightarrow> 'l CrosEcSpi \<Rightarrow> bool \<times> 'l CrosEcSpi" where
  "unregister_event_listener ident c =
     (let kept = filter (\<lambda>(i, l). i \<noteq> ident) (ec_event_listeners c)
      in (length kept \<noteq> length (ec_event_listeners c), c \<lparr> ec_event_listeners := kept \<rparr>))"

record MkbpEvent =
  mkbp_event_type :: u8
  mkbp_more :: bool
  mkbp_data :: "u8 list"

definition parse_mkbp_event :: "u8 list \<Rightarrow> ('s CrosEcError, MkbpEvent) outcome" where
  "parse_mkbp_event response =
     andThen (ok_or (first response) InvalidResponse) (\<lambda>event.
     andThen (slice response 1 (length response)) (\<lambda>data.
     Ok \<lparr> mkbp_event_type = event AND 0x7f, mkbp_more = (event AND 0x80 \<noteq> 0), mkbp_data = data \<rparr>))"

text \<open>The loop over the live listeners stops when the controller is removed.\<close>

fun notify :: "('w, 's, 'l) EcEnv \<Rightarrow> u8 \<Rightarrow> u8 list \<Rightarrow> 'l list \<Rightarrow> bool \<Rightarrow> 'w \<Rightarrow> bool \<times> 'w" where
  "notify E ty data [] consumed w = (consumed, w)"
| "notify E ty data (l # ls) consumed w =
     (if \<not> is_active E w then (consumed, w)
      else case on_cros_ec_event E l ty data w of (ok, w) \<Rightarrow> notify E ty data ls (consumed \<and> ok) w)"

text \<open>The listeners that are gone are removed before the others are called. A listener reaches the controller only
  through the world, so what it does to the list of listeners is not part of the model.\<close>

definition dispatch_event :: "('w, 's, 'l) EcEnv \<Rightarrow> u8 \<Rightarrow> u8 list \<Rightarrow> 'l CrosEcSpi \<times> 'w \<Rightarrow> bool \<times> 'l CrosEcSpi \<times> 'w" where
  "dispatch_event E ty data = (\<lambda>(c, w).
     let live = filter (\<lambda>(i, l). upgrade E l w) (ec_event_listeners c);
         c = c \<lparr> ec_event_listeners := live \<rparr>
     in case notify E ty data (map snd live) True w of (consumed, w) \<Rightarrow> (consumed, c, w))"

text \<open>The result of \<open>dispatch\<close> does not matter, except when it panics.\<close>

fun drain_batch :: "nat \<Rightarrow> ('w \<Rightarrow> ('e, ('t \<times> bool) option) outcome \<times> 'w) \<Rightarrow> ('t \<Rightarrow> 'w \<Rightarrow> ('e, bool) outcome \<times> 'w) \<Rightarrow>
    'w \<Rightarrow> ('e, bool) outcome \<times> 'w" where
  "drain_batch 0 read dispatch w = (Ok False, w)"
| "drain_batch (Suc budget) read dispatch w =
     (case read w of
        (Err e, w) \<Rightarrow> (Err e, w)
      | (Panic, w) \<Rightarrow> (Panic, w)
      | (Ok None, w) \<Rightarrow> (Ok True, w)
      | (Ok (Some (event, more_events)), w) \<Rightarrow>
          (case dispatch event w of
             (Panic, w) \<Rightarrow> (Panic, w)
           | (_, w) \<Rightarrow> if \<not> more_events then (Ok True, w) else drain_batch budget read dispatch w))"

definition read_event :: "('w, 's, 'l) EcEnv \<Rightarrow> ('l CrosEcSpi \<times> 'w, 's, (u8 list \<times> bool) option) ec" where
  "read_event E = (\<lambda>(c, w).
     case ec_command E 0x67 2 [] w of
       (Ok response, w) \<Rightarrow> (andThen (parse_mkbp_event response) (\<lambda>event. Ok (Some (response, mkbp_more event))), c, w)
     | (Err e, w) \<Rightarrow> (if e = EcResult 9 then Ok None else Err e, c, w)
     | (Panic, w) \<Rightarrow> (Panic, c, w))"

definition dispatch_response :: "('w, 's, 'l) EcEnv \<Rightarrow> u8 list \<Rightarrow> ('l CrosEcSpi \<times> 'w, 's, bool) ec" where
  "dispatch_response E response s =
     (case (parse_mkbp_event response :: ('s CrosEcError, MkbpEvent) outcome) of
        Ok event \<Rightarrow> (case dispatch_event E (mkbp_event_type event) (mkbp_data event) s of (consumed, s) \<Rightarrow> (Ok consumed, s))
      | _ \<Rightarrow> (Panic, s))"

definition MAX_EVENTS_PER_DRAIN :: usize where "MAX_EVENTS_PER_DRAIN = 64"
definition EVENT_RETRY_INITIAL_NS :: u64 where "EVENT_RETRY_INITIAL_NS = 250000000"
definition EVENT_RETRY_MAX_NS :: u64 where "EVENT_RETRY_MAX_NS = 8000000000"

definition drain_events :: "('w, 's, 'l) EcEnv \<Rightarrow> ('l CrosEcSpi \<times> 'w, 's, bool) ec" where
  "drain_events E = drain_batch MAX_EVENTS_PER_DRAIN (read_event E) (dispatch_response E)"

definition event_retry_delay_ns :: "u64 \<Rightarrow> u64" where
  "event_retry_delay_ns error_count =
     (let shift = unat (min (saturating_sub error_count 1) 5)
      in min (saturating_mul EVENT_RETRY_INITIAL_NS (push_bit shift 1)) EVENT_RETRY_MAX_NS)"

definition finish_event_drain :: "('w, 's, 'l) EcEnv \<Rightarrow> 'w \<Rightarrow> 'w" where
  "finish_event_drain E w = (if \<not> is_active E w then w else ack_and_enable_irq E w)"

definition ec_handle_interrupt :: "('w, 's, 'l) EcEnv \<Rightarrow> 'l CrosEcSpi \<times> 'w \<Rightarrow> 'l CrosEcSpi \<times> 'w" where
  "ec_handle_interrupt E = (\<lambda>(c, w).
     if \<not> is_active E w then (c, w) else (c \<lparr> ec_event_work_pending := True \<rparr>, disable_irq E w))"

definition shorter_wait :: "u64 option \<Rightarrow> u64 \<Rightarrow> u64 option" where
  "shorter_wait next_wait_ns d = Some (case next_wait_ns of None \<Rightarrow> d | Some wait \<Rightarrow> min wait d)"

text \<open>One controller in a round of \<open>event_worker_entry\<close>. Its work cannot become pending again while it is served: the
  handler has disabled the line before it reports the work, and only \<open>finish_event_drain\<close> enables it again. The removal of
  the controller is seen through \<open>is_active\<close>.\<close>

definition serve_controller :: "('w, 's, 'l) EcEnv \<Rightarrow> u64 \<Rightarrow> u64 option \<Rightarrow> 'l CrosEcSpi \<times> 'w \<Rightarrow>
    ('s CrosEcError, u64 option) outcome \<times> 'l CrosEcSpi \<times> 'w" where
  "serve_controller E now_ns next_wait_ns = (\<lambda>(c, w).
     if \<not> is_active E w \<or> \<not> ec_event_work_pending c then (Ok next_wait_ns, c, w)
     else if ec_event_retry_not_before_ns c > now_ns
     then (Ok (shorter_wait next_wait_ns (ec_event_retry_not_before_ns c - now_ns)), c, w)
     else
       case drain_events E (c \<lparr> ec_event_work_pending := False \<rparr>, w) of
         (Panic, s) \<Rightarrow> (Panic, s)
       | (Ok complete, c, w) \<Rightarrow>
           let c = c \<lparr> ec_event_drain_errors := 0, ec_event_retry_not_before_ns := 0 \<rparr> in
           if complete then (Ok next_wait_ns, c, finish_event_drain E w)
           else (Ok (shorter_wait next_wait_ns 1000000), c \<lparr> ec_event_work_pending := True \<rparr>, w)
       | (Err error, c, w) \<Rightarrow>
           let error_count = ec_event_drain_errors c + 1;
               c = c \<lparr> ec_event_drain_errors := error_count \<rparr> in
           if is_active E w then
             let retry_delay_ns = event_retry_delay_ns error_count in
             (Ok (shorter_wait next_wait_ns retry_delay_ns),
              c \<lparr> ec_event_retry_not_before_ns := saturating_add (current_time_ns E w) retry_delay_ns,
                  ec_event_work_pending := True \<rparr>, w)
           else (Ok next_wait_ns, c, w))"

end
