(* ===== verification/Cros_Ec_Rules.thy ===== *)
theory Cros_Ec_Rules
  imports Cros_Ec
begin

text \<open>
  Correctness of the embedded controller transport: the frames the decoder accepts, the bytes of a request,
  motion samples, the display light, and the delivery of events.
\<close>

section \<open>Frames\<close>

lemma byte_sum_simps [simp]:
  "byte_sum [] = 0" "byte_sum (b # bs) = b + byte_sum bs" "byte_sum (bs @ cs) = byte_sum bs + byte_sum cs"
proof -
  have acc: "fold (\<lambda>b s. s + b) bs a = a + byte_sum bs" for bs :: "u8 list" and a
    unfolding byte_sum_def
  proof (induction bs arbitrary: a)
    case (Cons b bs)
    show ?case using Cons.IH [of "a + b"] Cons.IH [of b] by (simp add: add.assoc)
  qed simp
  show "byte_sum [] = 0" by (simp add: byte_sum_def)
  show "byte_sum (b # bs) = b + byte_sum bs" using acc [of bs b] by (simp add: byte_sum_def)
  show "byte_sum (bs @ cs) = byte_sum bs + byte_sum cs" using acc [of cs "byte_sum bs"] by (simp add: byte_sum_def)
qed

text \<open>Protocol version 3: a header of eight bytes, the second of which makes the sum of all bytes zero.\<close>

definition response_packet :: "u8 list \<Rightarrow> u8 list" where
  "response_packet data =
     (let n = to_le_bytes 2 (of_nat (length data) :: u16)
      in [3, - (3 + byte_sum n + byte_sum data), 0, 0] @ n @ [0, 0] @ data)"

definition quiet :: "u8 list \<Rightarrow> bool" where
  "quiet bs \<longleftrightarrow> set bs \<inter> {SPI_FRAME_START, SPI_RX_BAD_DATA, SPI_NOT_READY} = {}"

lemma quiet_Cons: "quiet (b # bs) \<longleftrightarrow> b \<noteq> SPI_FRAME_START \<and> b \<noteq> SPI_RX_BAD_DATA \<and> b \<noteq> SPI_NOT_READY \<and> quiet bs"
  by (auto simp: quiet_def)

lemma frame_offset_Some:
  "frame_offset i wire = Ok (Some k) \<longleftrightarrow>
     (\<exists>pre post. wire = pre @ SPI_FRAME_START # post \<and> quiet pre \<and> k = i + length pre + 1)"
proof (induction wire arbitrary: i)
  case (Cons b wire)
  show ?case
  proof (cases "b = SPI_FRAME_START")
    case True
    have "quiet pre \<Longrightarrow> b # wire = pre @ SPI_FRAME_START # post \<Longrightarrow> pre = []" for pre post
      using True by (cases pre) (auto simp: quiet_Cons)
    then show ?thesis using True by (auto simp: quiet_def)
  next
    case False
    have "(\<exists>pre post. b # wire = pre @ SPI_FRAME_START # post \<and> quiet pre \<and> k = i + length pre + 1) \<longleftrightarrow>
        b \<noteq> SPI_RX_BAD_DATA \<and> b \<noteq> SPI_NOT_READY \<and>
        (\<exists>pre post. wire = pre @ SPI_FRAME_START # post \<and> quiet pre \<and> k = i + 1 + length pre + 1)" (is "?l = ?r")
    proof
      assume ?l
      then obtain pre post where *: "b # wire = pre @ SPI_FRAME_START # post" "quiet pre" "k = i + length pre + 1" by blast
      then obtain pre' where "pre = b # pre'" using False by (cases pre) auto
      with * show ?r by (auto simp: quiet_Cons)
    next
      assume ?r
      then obtain pre post where "wire = pre @ SPI_FRAME_START # post" "quiet (b # pre)" "k = i + length (b # pre) + 1"
        using False by (auto simp: quiet_Cons)
      then show ?l by (metis append_Cons)
    qed
    then show ?thesis using False Cons.IH [of "i + 1"] by simp
  qed
qed simp

lemma frame_offset_no_panic: "frame_offset i wire \<noteq> Panic"
  by (induction wire arbitrary: i) auto

text \<open>What the decoder does behind the start byte.\<close>

lemma le16_pair: "from_le_bytes [a, b] = (w :: u16) \<longleftrightarrow> [a, b] = to_le_bytes 2 w"
proof
  show "[a, b] = to_le_bytes 2 w" if "from_le_bytes [a, b] = w"
    using to_from_le_bytes [where ?'w = 16, of "[a, b]"] that by (simp add: numeral_2_eq_2)
  show "from_le_bytes [a, b] = w" if "[a, b] = to_le_bytes 2 w"
    unfolding that by (rule le16.dec_enc)
qed

lemma response_packet_iff:
  assumes "length data = unat (from_le_bytes [h4, h5] :: u16)"
  shows "[3, h1, 0, 0, h4, h5, 0, 0] @ data = response_packet data \<longleftrightarrow> byte_sum ([3, h1, 0, 0, h4, h5, 0, 0] @ data) = 0"
proof -
  have "of_nat (length data) = (from_le_bytes [h4, h5] :: u16)" by (simp add: assms)
  then have n: "to_le_bytes 2 (of_nat (length data) :: u16) = [h4, h5]" using le16_pair by metis
  have A: "byte_sum ([3, h1, 0, 0, h4, h5, 0, 0] @ data) = h1 + (3 + (h4 + h5) + byte_sum data)" by (simp add: ac_simps)
  have B: "h1 = - (3 + (h4 + h5) + byte_sum data) \<longleftrightarrow> h1 + (3 + (h4 + h5) + byte_sum data) = 0"
    by (simp only: eq_neg_iff_add_eq_0)
  have C: "[3, h1, 0, 0, h4, h5, 0, 0] @ data = response_packet data \<longleftrightarrow> h1 = - (3 + (h4 + h5) + byte_sum data)"
    unfolding response_packet_def Let_def n by (simp only: append_Cons append_Nil list.inject byte_sum_simps add_0_right) blast
  show ?thesis unfolding A C B ..
qed

lemma list8:
  assumes "length xs = 8"
  obtains h0 h1 h2 h3 h4 h5 h6 h7 where "xs = [h0, h1, h2, h3, h4, h5, h6, h7]"
  using assms by (auto simp: eval_nat_numeral length_Suc_conv)

definition decode_packet :: "u8 list \<Rightarrow> ('s CrosEcError, u8 list) outcome" where
  "decode_packet post =
     (if length post < 8 then Err InvalidResponse
      else case take 8 post of
        [h0, h1, h2, h3, h4, h5, h6, h7] \<Rightarrow>
          if h0 \<noteq> 3 \<or> h6 \<noteq> 0 \<or> h7 \<noteq> 0 then Err InvalidResponse
          else if (from_le_bytes [h2, h3] :: u16) \<noteq> 0 then Err (EcResult (from_le_bytes [h2, h3]))
          else if length post < 8 + unat (from_le_bytes [h4, h5] :: u16) then Err InvalidResponse
          else if byte_sum (take (8 + unat (from_le_bytes [h4, h5] :: u16)) post) \<noteq> 0 then Err InvalidResponse
          else Ok (take (unat (from_le_bytes [h4, h5] :: u16)) (drop 8 post))
      | _ \<Rightarrow> Panic)"

lemma decode_response_frame:
  assumes "quiet pre" and "length pre + length post < 2 ^ 63"
  shows "decode_response (pre @ SPI_FRAME_START # post) = (decode_packet post :: ('s CrosEcError, u8 list) outcome)"
proof -
  let ?wire = "pre @ SPI_FRAME_START # post" and ?k = "length pre + 1"
  have offset: "frame_offset 0 ?wire = Ok (Some ?k)" unfolding frame_offset_Some using assms(1) by auto
  have range: "get_range ?wire ?k (?k + n) = (if length post < n then None else Some (take n post))" for n
    by (simp add: get_range_def)
  show ?thesis
  proof (cases "length post < 8")
    case True
    then show ?thesis
      unfolding decode_response_def offset andThen.simps ok_or.simps HOST_HEADER_BYTES_def range decode_packet_def by simp
  next
    case False
    obtain h0 h1 h2 h3 h4 h5 h6 h7 where h: "take 8 post = [h0, h1, h2, h3, h4, h5, h6, h7]"
      by (rule list8 [of "take 8 post"]) (use False in auto)
    define n where "n = unat (from_le_bytes [h4, h5] :: u16)"
    have "n < 2 ^ 16" unfolding n_def using unat_bound [of "from_le_bytes [h4, h5] :: u16"] by simp
    then have sums: "usize_checked_add ?k 8 = Some (?k + 8)" "usize_checked_add (?k + 8) n = Some (?k + (8 + n))"
      using assms(2) by (simp_all add: usize_checked_add_def)
    have tail: "slice (take (8 + n) post) 8 (length (take (8 + n) post)) = (Ok (take n (drop 8 post)) :: ('s CrosEcError, u8 list) outcome)"
      if "\<not> length post < 8 + n"
      using that by (simp add: slice_def drop_take)
    show ?thesis
      unfolding decode_response_def offset andThen.simps ok_or.simps HOST_HEADER_BYTES_def range decode_packet_def
      using False unfolding if_not_P [OF False] ok_or.simps andThen.simps h list.case
        Let_def n_def [symmetric] sums Option.bind.bind_lunit range HOST_RESPONSE_VERSION_def
      by (auto simp: tail drop_take)
  qed
qed

lemma decode_packet_no_panic: "decode_packet post \<noteq> Panic"
proof (cases "length post < 8")
  case False
  obtain h0 h1 h2 h3 h4 h5 h6 h7 where "take 8 post = [h0, h1, h2, h3, h4, h5, h6, h7]"
    by (rule list8 [of "take 8 post"]) (use False in auto)
  then show ?thesis by (simp add: decode_packet_def del: from_le_bytes.simps)
qed (simp add: decode_packet_def)

lemma decode_packet_Ok:
  "decode_packet post = Ok data \<longleftrightarrow> length data < 2 ^ 16 \<and> (\<exists>rest. post = response_packet data @ rest)" (is "?l \<longleftrightarrow> ?r")
proof
  assume l: ?l
  then have long: "\<not> length post < 8" by (auto simp: decode_packet_def)
  obtain h0 h1 h2 h3 h4 h5 h6 h7 where h: "take 8 post = [h0, h1, h2, h3, h4, h5, h6, h7]"
    by (rule list8 [of "take 8 post"]) (use long in auto)
  define n where "n = unat (from_le_bytes [h4, h5] :: u16)"
  have c: "h0 = 3" "h6 = 0" "h7 = 0" "(from_le_bytes [h2, h3] :: u16) = 0" "\<not> length post < 8 + n"
    "byte_sum (take (8 + n) post) = 0" "data = take n (drop 8 post)"
    using l long unfolding decode_packet_def h list.case n_def by (auto split: if_splits simp del: from_le_bytes.simps)
  have "[h2, h3] = to_le_bytes 2 (0 :: u16)" using c(4) le16_pair by metis
  then have zero: "h2 = 0" "h3 = 0" by (simp_all add: to_le_bytes_def upt_rec)
  have len: "length data = n" using c by simp
  have "take (8 + n) post = take 8 post @ data" by (simp add: c(7) take_add)
  then have packet: "take (8 + n) post = [3, h1, 0, 0, h4, h5, 0, 0] @ data" by (simp add: h c(1-3) zero)
  have "length data < 2 ^ 16" using len n_def unat_bound [of "from_le_bytes [h4, h5] :: u16"] by simp
  moreover have "take (8 + n) post = response_packet data"
    using response_packet_iff [of data h4 h5 h1] len n_def c(6) packet by simp
  ultimately show ?r by (metis append_take_drop_id)
next
  assume ?r
  then obtain rest where data: "length data < 2 ^ 16" and post: "post = response_packet data @ rest" by blast
  define lo hi where "lo = to_le_bytes 2 (of_nat (length data) :: u16) ! 0" and "hi = to_le_bytes 2 (of_nat (length data) :: u16) ! 1"
  have pair: "to_le_bytes 2 (of_nat (length data) :: u16) = [lo, hi]"
    unfolding lo_def hi_def by (rule nth_equalityI) (auto simp: less_Suc_eq numeral_2_eq_2)
  then have n: "unat (from_le_bytes [lo, hi] :: u16) = length data"
    using le16.dec_enc [of "of_nat (length data)"] data by (simp add: unat_of_nat del: from_le_bytes.simps)
  define h1 where "h1 = - (3 + (lo + hi) + byte_sum data)"
  have packet: "response_packet data = [3, h1, 0, 0, lo, hi, 0, 0] @ data"
    by (simp add: response_packet_def pair h1_def)
  have zero: "byte_sum ([3, h1, 0, 0, lo, hi, 0, 0] @ data) = 0"
    using response_packet_iff [of data lo hi h1] n packet by simp
  have "decode_packet post = (if byte_sum (take (8 + length data) post) \<noteq> 0 then Err InvalidResponse
      else Ok (take (length data) (drop 8 post)))"
    unfolding decode_packet_def post packet using n by (simp add: eval_nat_numeral del: from_le_bytes.simps) auto
  moreover have "take (8 + length data) post = [3, h1, 0, 0, lo, hi, 0, 0] @ data" "take (length data) (drop 8 post) = data"
    by (simp_all add: post packet eval_nat_numeral)
  ultimately show ?l using zero by (simp del: byte_sum_simps)
qed

lemma decode_response_no_frame:
  assumes "\<nexists>pre post. wire = pre @ SPI_FRAME_START # post \<and> quiet pre"
  shows "\<exists>e. decode_response wire = (Err e :: ('s CrosEcError, u8 list) outcome)"
proof (cases "frame_offset 0 wire :: ('s CrosEcError, usize option) outcome")
  case (Ok frame)
  have "frame_offset 0 wire \<noteq> (Ok (Some k) :: ('s CrosEcError, usize option) outcome)" for k
    using frame_offset_Some [of 0 wire k] assms by blast
  then have "frame = None" using Ok by (cases frame) auto
  then show ?thesis by (simp add: decode_response_def Ok)
next
  case (Err e)
  then show ?thesis by (simp add: decode_response_def)
next
  case Panic
  then show ?thesis using frame_offset_no_panic by blast
qed

lemma decode_response_no_panic:
  assumes len: "length wire < 2 ^ 63"
  shows "decode_response wire \<noteq> (Panic :: ('s CrosEcError, u8 list) outcome)"
proof (cases "\<exists>pre post. wire = pre @ SPI_FRAME_START # post \<and> quiet pre")
  case True
  then obtain pre post where wire: "wire = pre @ SPI_FRAME_START # post" "quiet pre" by blast
  have "decode_response wire = (decode_packet post :: ('s CrosEcError, u8 list) outcome)"
    unfolding wire(1) by (rule decode_response_frame [OF wire(2)]) (use len wire in simp)
  then show ?thesis by (simp only: decode_packet_no_panic not_False_eq_True)
next
  case False
  then show ?thesis using decode_response_no_frame [OF False, where ?'s = 's] by auto
qed

text \<open>C37. The decoder never panics, and it returns a payload exactly when the bytes it read consist of idle bytes,
  a start byte and the version 3 packet of that payload with its length and checksum, followed by anything.\<close>

theorem decoded_responses_exact:
  assumes "length wire < 2 ^ 63"
  shows "decode_response wire \<noteq> (Panic :: ('s CrosEcError, u8 list) outcome) \<and>
    (decode_response wire = (Ok data :: ('s CrosEcError, u8 list) outcome) \<longleftrightarrow> length data < 2 ^ 16 \<and>
      (\<exists>pre rest. wire = pre @ SPI_FRAME_START # response_packet data @ rest \<and> quiet pre))"
proof (cases "\<exists>pre post. wire = pre @ SPI_FRAME_START # post \<and> quiet pre")
  case True
  then obtain pre post where wire: "wire = pre @ SPI_FRAME_START # post" "quiet pre" by blast
  have frame: "decode_response wire = decode_packet post"
    unfolding wire(1) by (rule decode_response_frame [OF wire(2)]) (use assms wire in simp)
  have unique: "post' = post" if "wire = pre' @ SPI_FRAME_START # post'" "quiet pre'" for pre' post'
  proof -
    have "frame_offset 0 wire = (Ok (Some (0 + length pre + 1)) :: (unit CrosEcError, usize option) outcome)"
      unfolding frame_offset_Some using wire by blast
    moreover have "frame_offset 0 wire = (Ok (Some (0 + length pre' + 1)) :: (unit CrosEcError, usize option) outcome)"
      unfolding frame_offset_Some using that by blast
    ultimately have "length pre' = length pre" by simp
    then show ?thesis using wire(1) that(1) by simp
  qed
  have "(\<exists>pre' rest. wire = pre' @ SPI_FRAME_START # response_packet data @ rest \<and> quiet pre') \<longleftrightarrow>
      (\<exists>rest. post = response_packet data @ rest)"
    using wire unique by metis
  then show ?thesis unfolding frame decode_packet_Ok using decode_packet_no_panic by blast
next
  case False
  then have "decode_response wire \<noteq> (Ok data :: ('s CrosEcError, u8 list) outcome)"
    using decode_response_no_frame [OF False, where ?'s = 's] by auto
  then show ?thesis using False decode_response_no_panic [OF assms] by blast
qed

theorem decoded_responses_exact_witness:
  "length ([0, 0xec] @ response_packet [7, 8] @ [0xfb]) < 2 ^ 63 \<and>
   decode_response ([0, 0xec] @ response_packet [7, 8] @ [0xfb]) = (Ok [7, 8] :: (unit CrosEcError, u8 list) outcome)"
proof -
  let ?wire = "[0, 0xec] @ response_packet [7, 8] @ [0xfb]"
  have len: "length ?wire < 2 ^ 63" by (simp add: response_packet_def Let_def)
  have "\<exists>pre rest. ?wire = pre @ SPI_FRAME_START # response_packet [7, 8] @ rest \<and> quiet pre"
    by (rule exI [of _ "[0]"]) (simp add: SPI_FRAME_START_def SPI_RX_BAD_DATA_def SPI_NOT_READY_def quiet_def)
  then show ?thesis
    using decoded_responses_exact [OF len, of "[7, 8]", where ?'s = unit] len by simp
qed

section \<open>Requests\<close>

text \<open>How the controller reads a request of version 3.\<close>

definition read_request :: "u8 list \<Rightarrow> (u16 \<times> u8 \<times> u8 list) option" where
  "read_request packet =
     (case packet of
        v # s # c0 # c1 # cv # r # n0 # n1 # payload \<Rightarrow>
          if v = 3 \<and> r = 0 \<and> byte_sum packet = 0 \<and> unat (from_le_bytes [n0, n1] :: u16) = length payload
          then Some (from_le_bytes [c0, c1], cv, payload) else None
      | _ \<Rightarrow> None)"

lemma le16_bytes: "to_le_bytes 2 (w :: u16) = [ucast w, ucast (drop_bit 8 w)]"
  by (simp add: to_le_bytes_def upt_rec)

lemma le16_back: "from_le_bytes [ucast w, ucast (drop_bit 8 w)] = (w :: u16)"
  using le16.dec_enc [of w] unfolding le16_bytes .

lemma read_build_request:
  assumes "length payload < 2 ^ 16"
  shows "read_request (build_request command version payload) = Some (command, version, payload)"
proof -
  let ?n = "of_nat (length payload) :: u16"
  have "unat ?n = length payload" using assms by (simp add: unat_of_nat)
  then show ?thesis
    by (simp add: le16_back build_request_def read_request_def Let_def HOST_REQUEST_VERSION_def del: from_le_bytes.simps)
qed

section \<open>Motion samples\<close>

definition encode_sample :: "CrosEcMotionSensorData \<Rightarrow> u8 list" where
  "encode_sample s = [sample_flags s, sample_sensor_num s] @ to_le_bytes 2 (sample_x s) @ to_le_bytes 2 (sample_y s) @
     to_le_bytes 2 (sample_z s)"

definition encode_fifo :: "CrosEcMotionSensorData list \<Rightarrow> u8 list" where
  "encode_fifo ss = to_le_bytes 4 (of_nat (length ss) :: u32) @ concat (map encode_sample ss)"

lemma length_encode_sample [simp]: "length (encode_sample s) = 8"
  by (simp add: encode_sample_def)

lemma length_chunks: "length (chunks_exact n xs) = length xs div n"
  by (simp add: chunks_exact_def)

lemma concat_chunks: "length xs = k * n \<Longrightarrow> 0 < n \<Longrightarrow> concat (chunks_exact n xs) = xs"
proof (induction k arbitrary: xs)
  case (Suc k)
  have "[0..<Suc k] = 0 # map Suc [0..<k]" by (simp add: upt_conv_Cons map_Suc_upt del: upt_Suc)
  then have "chunks_exact n xs = take n xs # chunks_exact n (drop n xs)"
    using Suc.prems by (simp add: chunks_exact_def comp_def add.commute)
  then show ?case using Suc.IH [of "drop n xs"] Suc.prems by simp
qed (simp add: chunks_exact_def)

lemma chunks_concat: "\<forall>c \<in> set cs. length c = n \<Longrightarrow> 0 < n \<Longrightarrow> chunks_exact n (concat cs) = cs"
proof (induction cs)
  case (Cons c cs)
  have "length (concat cs) = length cs * n" using Cons.prems by (induction cs) auto
  moreover have "[0..<Suc (length cs)] = 0 # map Suc [0..<length cs]" by (simp add: upt_conv_Cons map_Suc_upt del: upt_Suc)
  ultimately have "chunks_exact n (c @ concat cs) = c # chunks_exact n (concat cs)"
    using Cons.prems by (simp add: chunks_exact_def comp_def)
  then show ?case using Cons by simp
qed (simp add: chunks_exact_def)

lemma parse_sample_Ok: "parse_motion_sensor_data bs = Ok s \<longleftrightarrow> bs = encode_sample s"
proof
  assume l: "parse_motion_sensor_data bs = Ok s"
  then have "length bs = 8" by (auto simp: parse_motion_sensor_data_def MOTION_SENSOR_DATA_BYTES_def split: if_splits)
  then obtain h0 h1 h2 h3 h4 h5 h6 h7 where bs: "bs = [h0, h1, h2, h3, h4, h5, h6, h7]" by (rule list8)
  have "s = \<lparr> sample_flags = h0, sample_sensor_num = h1, sample_x = from_le_bytes [h2, h3], sample_y = from_le_bytes [h4, h5],
      sample_z = from_le_bytes [h6, h7] \<rparr>"
    using l by (simp add: parse_motion_sensor_data_def MOTION_SENSOR_DATA_BYTES_def bs del: from_le_bytes.simps)
  moreover have "to_le_bytes 2 (from_le_bytes [a, b] :: u16) = [a, b]" for a b using le16_pair by metis
  ultimately show "bs = encode_sample s" by (simp add: encode_sample_def bs del: from_le_bytes.simps)
next
  assume r: "bs = encode_sample s"
  then show "parse_motion_sensor_data bs = Ok s"
    by (simp add: parse_motion_sensor_data_def MOTION_SENSOR_DATA_BYTES_def encode_sample_def le16_bytes le16_back
        del: from_le_bytes.simps)
qed

lemma parse_sample_no_panic: "parse_motion_sensor_data bs \<noteq> Panic"
  by (simp add: parse_motion_sensor_data_def)

lemma mapM_samples: "mapM parse_motion_sensor_data cs = Ok ss \<longleftrightarrow> cs = map encode_sample ss"
  using list.rel_map(2) [of "(=)" cs encode_sample ss] by (simp add: mapM_eq_Ok parse_sample_Ok list.rel_eq)

lemma parse_samples_no_panic: "mapM parse_motion_sensor_data cs \<noteq> Panic"
  by (rule mapM_no_panic) (rule parse_sample_no_panic)

lemma le32_take: "4 \<le> length bs \<Longrightarrow> take 4 bs = to_le_bytes 4 (from_le_bytes (take 4 bs) :: u32)"
  using le32.enc_get [of 0 bs] by simp

lemma fifo_image:
  assumes "4 \<le> length response" and "count = (from_le_bytes (take 4 response) :: u32)"
  shows "(unat count \<le> min m 256 \<and> length response = 4 + unat count * 8) \<and> chunks_exact 8 (drop 4 response) = map encode_sample ss \<longleftrightarrow>
    response = encode_fifo ss \<and> length ss \<le> min m 256" (is "?l \<longleftrightarrow> ?r")
proof
  assume l: ?l
  then have "drop 4 response = concat (map encode_sample ss)"
    using concat_chunks [of "drop 4 response" "unat count" 8] by simp
  moreover have n: "unat count = length ss"
  proof -
    have "length ss = length (chunks_exact 8 (drop 4 response))" using l by simp
    also have "\<dots> = length (drop 4 response) div 8" by (rule length_chunks)
    also have "\<dots> = unat count" using l by simp
    finally show ?thesis by simp
  qed
  moreover have "count = of_nat (unat count)" by simp
  moreover have "of_nat (unat count) = (of_nat (length ss) :: u32)" by (simp only: n)
  ultimately show ?r using l le32_take [OF assms(1)] assms(2) append_take_drop_id [of 4 response] by (simp add: encode_fifo_def)
next
  assume r: ?r
  have "length (concat (map encode_sample ss)) = length ss * 8" by (induction ss) auto
  moreover have "unat (of_nat (length ss) :: u32) = length ss" using r by (simp add: unat_of_nat)
  moreover have "count = of_nat (length ss)" using r by (simp add: assms(2) encode_fifo_def le32.dec_enc)
  moreover have "chunks_exact 8 (concat (map encode_sample ss)) = map encode_sample ss"
    by (rule chunks_concat) auto
  ultimately show ?l using r by (simp add: encode_fifo_def)
qed

text \<open>C38. The samples read from the motion queue are exact: the parser never panics, and it returns a list of
  samples exactly when the response is their number, at most what was asked for and at most 256, followed
  by their encodings and nothing else.\<close>

theorem motion_samples_exact:
  "parse_motion_fifo_data response requested \<noteq> (Panic :: ('s CrosEcError, CrosEcMotionSensorData list) outcome) \<and>
   (parse_motion_fifo_data response requested = (Ok ss :: ('s CrosEcError, CrosEcMotionSensorData list) outcome) \<longleftrightarrow>
      response = encode_fifo ss \<and> length ss \<le> min (unat requested) 256)"
proof (cases "length response < 4")
  case True
  then have "response \<noteq> encode_fifo ss" by (auto simp: encode_fifo_def)
  then show ?thesis using True by (simp add: parse_motion_fifo_data_def MOTION_FIFO_READ_FIXED_BYTES_def)
next
  case False
  define count where "count = (from_le_bytes (take 4 response) :: u32)"
  define ok where "ok \<longleftrightarrow> unat count \<le> min (unat requested) 256 \<and> length response = 4 + unat count * 8"
  have parsed: "parse_motion_fifo_data response requested = (if ok
      then mapM parse_motion_sensor_data (chunks_exact 8 (drop 4 response)) else
      (Err InvalidResponse :: ('s CrosEcError, CrosEcMotionSensorData list) outcome))"
  proof -
    have "unat count * 8 < 2 ^ 64" "4 + unat count * 8 < 2 ^ 64" using unat_bound [of count] by simp_all
    then show ?thesis
      using False unfolding parse_motion_fifo_data_def MOTION_FIFO_READ_FIXED_BYTES_def MOTION_SENSOR_DATA_BYTES_def
        CROS_EC_MAX_MOTION_FIFO_VECTORS_def count_def [symmetric] Let_def ok_def
      by (auto simp: usize_checked_mul_def usize_checked_add_def slice_def word_less_nat_alt not_less)
  qed
  have "ok \<and> chunks_exact 8 (drop 4 response) = map encode_sample ss \<longleftrightarrow>
      response = encode_fifo ss \<and> length ss \<le> min (unat requested) 256"
    unfolding ok_def by (rule fifo_image) (use False in \<open>simp_all add: count_def\<close>)
  moreover have "(if ok then mapM parse_motion_sensor_data (chunks_exact 8 (drop 4 response)) else Err InvalidResponse) =
      (Ok ss :: ('s CrosEcError, CrosEcMotionSensorData list) outcome) \<longleftrightarrow> ok \<and> chunks_exact 8 (drop 4 response) = map encode_sample ss"
    by (simp add: mapM_samples)
  ultimately show ?thesis unfolding parsed by (simp add: parse_samples_no_panic)
qed

theorem motion_samples_exact_witness:
  "parse_motion_fifo_data (encode_fifo [\<lparr> sample_flags = 0, sample_sensor_num = 1, sample_x = 2, sample_y = 3, sample_z = 4 \<rparr>]) 5 =
    (Ok [\<lparr> sample_flags = 0, sample_sensor_num = 1, sample_x = 2, sample_y = 3, sample_z = 4 \<rparr>] ::
      (unit CrosEcError, CrosEcMotionSensorData list) outcome)"
  using motion_samples_exact [where ?'s = unit] by simp

section \<open>The display light\<close>

text \<open>Percentages survive the conversion to a duty cycle and back.\<close>

lemma pwm_duty_value:
  assumes "percent \<le> 100"
  obtains duty where "pwm_duty_from_percent percent = Ok duty" and "unat duty = (unat percent * 65535 + 50) div 100"
proof -
  have p: "unat percent \<le> 100" using assms by (simp add: word_le_nat_alt)
  have up: "unat (ucast percent :: u32) = unat percent" by (simp add: unat_ucast_up)
  have "unat percent * 65535 < 2 ^ 32" using p by simp
  then have mul: "checked_mul (ucast percent) PWM_FULL_SCALE = Some (ucast percent * PWM_FULL_SCALE)"
    "unat (ucast percent * PWM_FULL_SCALE :: u32) = unat percent * 65535"
    by (simp_all add: checked_mul_def PWM_FULL_SCALE_def up unat_word_ariths)
  then have "unat (ucast percent * PWM_FULL_SCALE + 50 :: u32) = unat percent * 65535 + 50"
    using p by (simp add: unat_word_ariths)
  then have v: "unat ((ucast percent * PWM_FULL_SCALE + 50) div 100 :: u32) = (unat percent * 65535 + 50) div 100"
    by (simp add: unat_div)
  moreover have "(unat percent * 65535 + 50) div 100 \<le> 65535" using p by simp
  ultimately have "(ucast percent * PWM_FULL_SCALE + 50) div 100 \<le> (0xffff :: u32)"
    "unat (ucast ((ucast percent * PWM_FULL_SCALE + 50) div 100 :: u32) :: u16) = (unat percent * 65535 + 50) div 100"
    by (simp_all add: word_le_nat_alt unat_ucast_small)
  then show ?thesis
    using assms that by (simp add: pwm_duty_from_percent_def mul(1) not_less [symmetric])
qed

lemma pwm_percent_value: "unat (pwm_percent_from_duty duty) = min ((unat duty * 100 + 32767) div 65535) 100"
proof -
  have d: "unat duty < 65536" using unat_bound [of duty] by simp
  have up: "unat (ucast duty :: u32) = unat duty" by (simp add: unat_ucast_up)
  have mul: "saturating_mul (ucast duty) 100 = (ucast duty * 100 :: u32)" "unat (ucast duty * 100 :: u32) = unat duty * 100"
    using d by (simp_all add: saturating_mul_def up unat_word_ariths)
  have half: "PWM_FULL_SCALE div 2 = 32767" by (simp add: PWM_FULL_SCALE_def)
  define x :: u32 where "x = ucast duty * 100"
  have x: "unat x = unat duty * 100" using mul(2) by (simp add: x_def)
  have add: "saturating_add x 32767 = x + 32767" "unat (x + 32767) = unat duty * 100 + 32767"
    using d x by (simp_all add: saturating_add_def unat_word_ariths)
  have scaled: "unat ((x + 32767) div PWM_FULL_SCALE) = (unat duty * 100 + 32767) div 65535"
    using add(2) by (simp add: unat_div PWM_FULL_SCALE_def)
  define v where "v = min ((x + 32767) div PWM_FULL_SCALE) (100 :: u32)"
  have v: "unat v = min ((unat duty * 100 + 32767) div 65535) 100"
    using scaled by (auto simp: v_def min_def word_le_nat_alt)
  then have "v \<le> 0xff" "unat (ucast v :: u8) = unat v" by (simp_all add: word_le_nat_alt unat_ucast_small)
  then show ?thesis
    by (simp add: pwm_percent_from_duty_def mul(1) half add(1) x_def [symmetric] v_def [symmetric] v)
qed

lemma percent_round_trip: "(n * 65535 + 50) div 100 * 100 + 32767 = k \<Longrightarrow> n \<le> 100 \<Longrightarrow> min (k div 65535) 100 = (n :: nat)"
proof -
  assume k: "(n * 65535 + 50) div 100 * 100 + 32767 = k" and n: "n \<le> 100"
  have "n * 65535 + 50 - 99 \<le> (n * 65535 + 50) div 100 * 100" "(n * 65535 + 50) div 100 * 100 \<le> n * 65535 + 50"
    by (simp_all add: minus_mod_eq_div_mult [symmetric])
  then have "n * 65535 \<le> k" "k < (n + 1) * 65535" using k by simp_all
  then have "k div 65535 = n" by (metis div_nat_eqI mult.commute Suc_eq_plus1 mult_Suc_right)
  then show ?thesis using n by simp
qed

lemma backlight_round_trip:
  assumes "percent \<le> 100" and "pwm_duty_from_percent percent = Ok duty"
  shows "pwm_percent_from_duty duty = percent"
proof -
  obtain d where "pwm_duty_from_percent percent = (Ok d :: ('a CrosEcError, u16) outcome)" "unat d = (unat percent * 65535 + 50) div 100"
    by (rule pwm_duty_value [OF assms(1)])
  then have "unat duty = (unat percent * 65535 + 50) div 100" using assms(2) by simp
  moreover have "unat percent \<le> 100" using assms(1) by (simp add: word_le_nat_alt)
  ultimately have "unat (pwm_percent_from_duty duty) = unat percent"
    using percent_round_trip [OF refl, of "unat percent"] by (simp add: pwm_percent_value)
  then show ?thesis by (simp add: word_unat_eq_iff)
qed

text \<open>The controller answers a request with a payload.\<close>

definition answers :: "('w, 's, 'l) EcEnv \<Rightarrow> u16 \<Rightarrow> u8 \<Rightarrow> u8 list \<Rightarrow> 'w \<Rightarrow> u8 list \<Rightarrow> 'w \<Rightarrow> bool" where
  "answers E command version payload w data w' \<longleftrightarrow>
     (\<exists>pre rest. spi_transfer E (build_request command version payload) RESPONSE_CLOCK_BYTES w =
        (Ok (pre @ SPI_FRAME_START # response_packet data @ rest), w') \<and> quiet pre \<and>
        length pre + length rest < 2 ^ 62)"

lemma answered_command:
  fixes E :: "('w, 's, 'l) EcEnv"
  assumes "answers E command version payload w data w'" and "length payload < 2 ^ 16" and "length data < 2 ^ 16"
  shows "ec_command E command version payload w = (Ok data, w')"
proof -
  obtain pre rest where wire: "spi_transfer E (build_request command version payload) RESPONSE_CLOCK_BYTES w =
      (Ok (pre @ SPI_FRAME_START # response_packet data @ rest), w')" "quiet pre" "length pre + length rest < 2 ^ 62"
    using assms(1) by (auto simp: answers_def)
  have "length (response_packet data) = 8 + length data" by (simp add: response_packet_def Let_def)
  then have "length pre + length (response_packet data @ rest) < 2 ^ 63" using wire(3) assms(3) by simp
  then have "decode_response (pre @ SPI_FRAME_START # response_packet data @ rest) =
      (decode_packet (response_packet data @ rest) :: ('s CrosEcError, u8 list) outcome)"
    by (rule decode_response_frame [OF wire(2)])
  moreover have "decode_packet (response_packet data @ rest) = (Ok data :: ('s CrosEcError, u8 list) outcome)"
    using assms(3) by (auto simp: decode_packet_Ok)
  ultimately show ?thesis using assms(2) by (simp add: ec_command_def wire(1))
qed

text \<open>C39. The display light: with a controller that stores the duty cycle it is sent and returns the one it has,
  reading the brightness after setting it gives the percentage that was set, for every percentage, and a
  value above 100 is refused before anything is sent.\<close>

theorem backlight_reads_back:
  assumes set: "\<And>duty w. answers E 0x25 0 (to_le_bytes 2 (duty :: u16) @ [2, 0]) w [] (store duty w)"
    and get: "\<And>w. answers E 0x26 0 [2, 0] w (to_le_bytes 2 (level w :: u16)) (asked w)"
    and level: "\<And>duty w. level (store duty w) = duty"
  shows "if percent \<le> 100
    then \<exists>w1 w2. set_display_backlight_percent E percent w = (Ok (), w1) \<and> get_display_backlight_percent E w1 = (Ok percent, w2)
    else set_display_backlight_percent E percent w = (Err InvalidArgument, w)"
proof (cases "percent \<le> 100")
  case True
  obtain duty where duty: "pwm_duty_from_percent percent = (Ok duty :: ('b CrosEcError, u16) outcome)"
    by (rule pwm_duty_value [OF True])
  have "set_display_backlight_percent E percent w = (Ok (), store duty w)"
    using answered_command [OF set, of duty w]
    by (simp add: set_display_backlight_percent_def ec_bind_def ec_lift_def duty)
  moreover have "get_display_backlight_percent E (store duty w) = (Ok percent, asked (store duty w))"
    using answered_command [OF get, of "store duty w"] backlight_round_trip [OF True duty]
    by (simp add: get_display_backlight_percent_def ec_bind_def ec_lift_def level le16.dec_enc)
  ultimately show ?thesis using True by auto
qed (simp add: set_display_backlight_percent_def ec_bind_def ec_lift_def pwm_duty_from_percent_def not_le)

text \<open>A controller whose only state is the duty cycle.\<close>

definition pwm_controller :: "(u16, unit, unit) EcEnv" where
  "pwm_controller = \<lparr> spi_transfer = (\<lambda>request n w.
       case read_request request of
         Some (command, version, payload) \<Rightarrow>
           if command = 0x25 then (Ok (SPI_FRAME_START # response_packet []), from_le_bytes (take 2 payload))
           else (Ok (SPI_FRAME_START # response_packet (to_le_bytes 2 w)), w)
       | None \<Rightarrow> (Err (), w)),
     upgrade = (\<lambda>_ _. True), on_cros_ec_event = (\<lambda>_ _ _ w. (True, w)), is_active = (\<lambda>_. True),
     current_time_ns = (\<lambda>_. 0), ack_and_enable_irq = (\<lambda>w. w), disable_irq = (\<lambda>w. w) \<rparr>"

theorem backlight_reads_back_witness:
  "\<exists>w1 w2. set_display_backlight_percent pwm_controller 37 0 = (Ok (), w1) \<and>
     get_display_backlight_percent pwm_controller w1 = (Ok 37, w2)"
proof -
  have start: "quiet []" by (simp add: quiet_def)
  have set: "answers pwm_controller 0x25 0 (to_le_bytes 2 (duty :: u16) @ [2, 0]) w [] duty" for duty w
    unfolding answers_def
    by (rule exI [of _ "[]"], rule exI [of _ "[]"]) (simp add: pwm_controller_def read_build_request le16.dec_enc start)
  have get: "answers pwm_controller 0x26 0 [2, 0] w (to_le_bytes 2 w) w" for w
    unfolding answers_def
    by (rule exI [of _ "[]"], rule exI [of _ "[]"]) (simp add: pwm_controller_def read_build_request start)
  show ?thesis
    using backlight_reads_back [of pwm_controller "\<lambda>d w. d" "\<lambda>w. w" "\<lambda>w. w" 37 0, OF set get] by simp
qed

section \<open>Events\<close>




















end
