(* ===== verification/Gpu_Hfi.thy ===== *)
theory Gpu_Hfi
  imports Rust_Prelude
begin

text \<open>
  The message queues between the GPU driver and the firmware of its management unit
  (\<open>drivers/gpu/qcom-adreno-a618/src/hfi.rs\<close>, \<open>hfi_abi.rs\<close>): the queue table, the two rings in shared memory
  and the boot messages. The shared memory is a list of words; the cache maintenance around its accesses has
  no counterpart. The firmware may change the memory whenever the driver waits. Plain additions wrap, as in a
  release build.
\<close>

section \<open>Layout\<close>

definition HFI_WORDS :: usize where "HFI_WORDS = 0x1000"
definition TABLE_HEADER_WORDS :: usize where "TABLE_HEADER_WORDS = 6"
definition QUEUE_HEADER_WORDS :: usize where "QUEUE_HEADER_WORDS = 12"
definition COMMAND_HEADER_WORD :: usize where "COMMAND_HEADER_WORD = 6"
definition RESPONSE_HEADER_WORD :: usize where "RESPONSE_HEADER_WORD = 18"
definition QUEUE_WORDS :: usize where "QUEUE_WORDS = 0x400"
definition COMMAND_DATA_WORD :: usize where "COMMAND_DATA_WORD = 0x400"
definition RESPONSE_DATA_WORD :: usize where "RESPONSE_DATA_WORD = 0x800"
definition Q_DROPPED :: usize where "Q_DROPPED = 5"
definition Q_RX_REQUEST :: usize where "Q_RX_REQUEST = 8"
definition Q_READ_INDEX :: usize where "Q_READ_INDEX = 10"
definition Q_WRITE_INDEX :: usize where "Q_WRITE_INDEX = 11"
definition MAX_GPU_LEVELS :: usize where "MAX_GPU_LEVELS = 16"
definition MAX_GMU_LEVELS :: usize where "MAX_GMU_LEVELS = 4"

lemmas hfi_layout = HFI_WORDS_def TABLE_HEADER_WORDS_def QUEUE_HEADER_WORDS_def COMMAND_HEADER_WORD_def RESPONSE_HEADER_WORD_def
  QUEUE_WORDS_def COMMAND_DATA_WORD_def RESPONSE_DATA_WORD_def Q_DROPPED_def Q_RX_REQUEST_def Q_READ_INDEX_def Q_WRITE_INDEX_def

text \<open>\<open>words[i] = v\<close>.\<close>

definition set_word :: "u32 list \<Rightarrow> usize \<Rightarrow> u32 \<Rightarrow> (string, u32 list) outcome" where
  "set_word ws i v = (if i < length ws then Ok (ws[i := v]) else Panic)"

definition set_words :: "u32 list \<Rightarrow> (usize \<times> u32) list \<Rightarrow> (string, u32 list) outcome" where
  "set_words ws ivs = foldM (\<lambda>ws (i, v). set_word ws i v) ws ivs"

definition initialize_queue :: "u32 list \<Rightarrow> usize \<Rightarrow> u32 \<Rightarrow> u32 \<Rightarrow> (string, u32 list) outcome" where
  "initialize_queue ws header iova ident =
     set_words ws [(header + 0, 1), (header + 1, iova), (header + 2, push_bit 8 10 OR ident), (header + 3, of_nat QUEUE_WORDS),
       (header + 6, 1), (header + 7, 1), (header + Q_RX_REQUEST, 1)]"

definition initialize_legacy_table :: "u32 list \<Rightarrow> u32 \<Rightarrow> (string, u32 list) outcome" where
  "initialize_legacy_table ws hfi_iova =
     (if length ws < 0x3000 div 4 then Err ''qcom-adreno-a618: HFI allocation is too small''
      else
        andThen (set_words (replicate (length ws) 0) [(0, 0),
          (1, of_nat ((TABLE_HEADER_WORDS + QUEUE_HEADER_WORDS * 2) * 4)), (2, of_nat TABLE_HEADER_WORDS),
          (3, of_nat QUEUE_HEADER_WORDS), (4, 2), (5, 2)]) (\<lambda>ws.
        andThen (initialize_queue ws COMMAND_HEADER_WORD (hfi_iova + 0x1000) 0) (\<lambda>ws.
        initialize_queue ws RESPONSE_HEADER_WORD (hfi_iova + 0x2000) 4)))"

section \<open>Queues\<close>

record LegacyHfi =
  hfi_memory :: "u32 list"
  hfi_sequence :: u32

text \<open>A new pair of queues in an allocation: its words and its address on the bus.\<close>

definition new_hfi :: "u32 list \<Rightarrow> u64 \<Rightarrow> (string, LegacyHfi) outcome" where
  "new_hfi ws dma_addr =
     (if dma_addr > 0xffffffff then Err ''qcom-adreno-a618: HFI IOVA exceeds legacy address width''
      else andThen (initialize_legacy_table ws (ucast dma_addr)) (\<lambda>ws. Ok \<lparr> hfi_memory = ws, hfi_sequence = 0 \<rparr>))"

definition next_sequence :: "LegacyHfi \<Rightarrow> u32 \<times> LegacyHfi" where
  "next_sequence h =
     (let s = (hfi_sequence h + 1) AND 0xfff; s = (if s = 0 then 1 else s)
      in (s, h \<lparr> hfi_sequence := s \<rparr>))"

definition stop_queues :: "LegacyHfi \<Rightarrow> (string, LegacyHfi) outcome" where
  "stop_queues h =
     andThen (set_words (hfi_memory h) [(COMMAND_HEADER_WORD + Q_READ_INDEX, 0), (COMMAND_HEADER_WORD + Q_WRITE_INDEX, 0),
       (RESPONSE_HEADER_WORD + Q_READ_INDEX, 0), (RESPONSE_HEADER_WORD + Q_WRITE_INDEX, 0)]) (\<lambda>ws.
     Ok \<lparr> hfi_memory = ws, hfi_sequence = 0 \<rparr>)"

text \<open>The copy loops.\<close>

fun ring_store :: "u32 list \<Rightarrow> usize \<Rightarrow> usize \<Rightarrow> u32 list \<Rightarrow> (string, u32 list \<times> usize) outcome" where
  "ring_store ws base i [] = Ok (ws, i)"
| "ring_store ws base i (v # vs) =
     andThen (set_word ws (base + i) v) (\<lambda>ws. ring_store ws base ((i + 1) mod QUEUE_WORDS) vs)"

fun ring_load :: "u32 list \<Rightarrow> usize \<Rightarrow> usize \<Rightarrow> nat \<Rightarrow> (string, u32 list \<times> usize) outcome" where
  "ring_load ws base i 0 = Ok ([], i)"
| "ring_load ws base i (Suc n) =
     andThen (index ws (base + i)) (\<lambda>v.
     andThen (ring_load ws base ((i + 1) mod QUEUE_WORDS) n) (\<lambda>(vs, j). Ok (v # vs, j)))"

text \<open>A full queue leaves its trace in the count of dropped messages.\<close>

definition write_command :: "u32 list \<Rightarrow> LegacyHfi \<Rightarrow> (string, unit) outcome \<times> LegacyHfi" where
  "write_command message h =
     (let ws = hfi_memory h in
      if message = [] \<or> length message \<ge> QUEUE_WORDS then (Err ''qcom-adreno-a618: invalid HFI message length'', h)
      else case (index ws (COMMAND_HEADER_WORD + Q_READ_INDEX), index ws (COMMAND_HEADER_WORD + Q_WRITE_INDEX)) of
        (Ok r, Ok w) \<Rightarrow>
          let read_index = unat (r :: u32); write_index = unat (w :: u32) in
          if read_index \<ge> QUEUE_WORDS \<or> write_index \<ge> QUEUE_WORDS
          then (Err ''qcom-adreno-a618: corrupt HFI command queue indices'', h)
          else
            let space = (if write_index \<ge> read_index then QUEUE_WORDS - (write_index - read_index) - 1
                         else read_index - write_index - 1) in
            if space < length message then
              (case andThen (index ws (COMMAND_HEADER_WORD + Q_DROPPED)) (\<lambda>d. set_word ws (COMMAND_HEADER_WORD + Q_DROPPED) (d + 1)) of
                 Ok ws \<Rightarrow> (Err ''qcom-adreno-a618: HFI command queue is full'', h \<lparr> hfi_memory := ws \<rparr>)
               | Err (e :: string) \<Rightarrow> (Err e, h)
               | Panic \<Rightarrow> (Panic, h))
            else
              (case andThen (ring_store ws COMMAND_DATA_WORD write_index message) (\<lambda>(ws, i).
                  set_word ws (COMMAND_HEADER_WORD + Q_WRITE_INDEX) (of_nat i)) of
                 Ok ws \<Rightarrow> (Ok (), h \<lparr> hfi_memory := ws \<rparr>)
               | Err e \<Rightarrow> (Err e, h)
               | Panic \<Rightarrow> (Panic, h))
      | (_ :: (string, u32) outcome, _ :: (string, u32) outcome) \<Rightarrow> (Panic, h))"

definition read_response :: "LegacyHfi \<Rightarrow> (string, u32 list option \<times> LegacyHfi) outcome" where
  "read_response h =
     (let ws = hfi_memory h in
      andThen (index ws (RESPONSE_HEADER_WORD + Q_READ_INDEX)) (\<lambda>r.
      andThen (index ws (RESPONSE_HEADER_WORD + Q_WRITE_INDEX)) (\<lambda>w.
      let read_index = unat r; write_index = unat w in
      if read_index \<ge> QUEUE_WORDS \<or> write_index \<ge> QUEUE_WORDS
      then Err ''qcom-adreno-a618: corrupt HFI response queue indices''
      else if read_index = write_index then
        andThen (set_word ws (RESPONSE_HEADER_WORD + Q_RX_REQUEST) 1) (\<lambda>ws. Ok (None, h \<lparr> hfi_memory := ws \<rparr>))
      else
        andThen (index ws (RESPONSE_DATA_WORD + read_index)) (\<lambda>header.
        let dwords = unat (drop_bit 8 header AND 0xff) in
        if dwords = 0 \<or> dwords > 19 \<or> dwords \<ge> QUEUE_WORDS then Err ''qcom-adreno-a618: invalid HFI response length''
        else
          andThen (ring_load ws RESPONSE_DATA_WORD read_index dwords) (\<lambda>(response, i).
          andThen (set_word ws (RESPONSE_HEADER_WORD + Q_READ_INDEX) (of_nat i)) (\<lambda>ws.
          Ok (Some response, h \<lparr> hfi_memory := ws \<rparr>)))))))"

section \<open>Messages\<close>

record HfiPerfLevel =
  vote :: u32
  frequency_khz :: u32

definition levels_are_valid :: "HfiPerfLevel list \<Rightarrow> usize \<Rightarrow> bool" where
  "levels_are_valid levels maximum \<longleftrightarrow>
     levels \<noteq> [] \<and> length levels \<le> maximum \<and> frequency_khz (hd levels) = 0 \<and>
     list_all (\<lambda>(a, b). frequency_khz a < frequency_khz b) (zip levels (tl levels))"

definition level_words :: "usize \<Rightarrow> HfiPerfLevel list \<Rightarrow> (usize \<times> u32) list" where
  "level_words base levels =
     concat (map (\<lambda>(i, l). [(base + i * 2, vote l), (base + i * 2 + 1, frequency_khz l)]) (enumerate 0 levels))"

definition performance_table :: "HfiPerfLevel list \<Rightarrow> HfiPerfLevel list \<Rightarrow> (string, u32 list) outcome" where
  "performance_table gx_levels cx_levels =
     (if \<not> levels_are_valid gx_levels MAX_GPU_LEVELS \<or> \<not> levels_are_valid cx_levels MAX_GMU_LEVELS
      then Err ''qcom-adreno-a618: HFI performance table level count is invalid''
      else
        set_words (replicate (3 + MAX_GPU_LEVELS * 2 + MAX_GMU_LEVELS * 2) 0)
          ([(1, of_nat (length gx_levels)), (2, of_nat (length cx_levels))] @ level_words 3 gx_levels @
           level_words (3 + MAX_GPU_LEVELS * 2) cx_levels))"

definition bandwidth_table :: "(string, u32 list) outcome" where
  "bandwidth_table =
     set_words (replicate 160 0) [(1, 1), (2, 1), (3, 3), (4, 1), (5, 1), (6, 0x5007c), (12, 0x40000000), (18, 0x60000001),
       (24, 0x50000), (25, 0x5003c), (26, 0x5000c), (32, 0x40000000), (33, 0x40000000), (34, 0x40000000)]"

definition ack_matches :: "u32 list \<Rightarrow> u8 \<Rightarrow> u32 \<Rightarrow> (string, bool) outcome" where
  "ack_matches response command_id sequence =
     andThen (ok_or (first response) ''qcom-adreno-a618: empty HFI response'') (\<lambda>header.
     let response_id = (ucast (header AND 0xff) :: u8) in
     if response_id = 100 then Ok False
     else
       let response_type = drop_bit 16 header AND 0xf in
       if response_id \<noteq> 126 \<or> response_type \<notin> {1, 2} then Ok False
       else if length response < 3 then Err ''qcom-adreno-a618: short HFI acknowledgement''
       else
         andThen (index response 1) (\<lambda>returned.
         if ucast (returned AND 0xff) \<noteq> command_id \<or> drop_bit 16 returned AND 0xf \<noteq> 0 \<or> drop_bit 20 returned AND 0xfff \<noteq> sequence
         then Ok False
         else andThen (index response 2) (\<lambda>status.
           if status \<noteq> 0 then Err ''qcom-adreno-a618: GMU rejected HFI message'' else Ok True)))"

text \<open>The header of a command, and the command as \<open>send\<close> queues it.\<close>

definition command_header :: "u32 \<Rightarrow> usize \<Rightarrow> u8 \<Rightarrow> u32" where
  "command_header sequence n ident = push_bit 20 sequence OR push_bit 16 0 OR push_bit 8 (of_nat n) OR ucast ident"

definition queue_command :: "u8 \<Rightarrow> u32 list \<Rightarrow> LegacyHfi \<Rightarrow> (string, u32) outcome \<times> LegacyHfi" where
  "queue_command ident message h =
     (case next_sequence h of (sequence, h) \<Rightarrow>
      if message = [] \<or> length message > 255 then (Err ''qcom-adreno-a618: HFI message is invalid'', h)
      else case write_command (message[0 := command_header sequence (length message) ident]) h of
        (r, h) \<Rightarrow> (andThen r (\<lambda>_. Ok sequence), h))"

text \<open>
  The waiting loops of \<open>send\<close>. Each element of \<open>turns\<close> is one interrupt, with the shared memory as the firmware left
  it; when there is none left, the wait has timed out. \<open>fuel\<close> bounds the number of responses that are
  looked at: the source sets no bound.
\<close>

fun await_ack :: "nat \<Rightarrow> u8 \<Rightarrow> u32 \<Rightarrow> u32 list list \<Rightarrow> LegacyHfi \<Rightarrow> ((string, u32 list) outcome \<times> LegacyHfi) option" where
  "await_ack fuel ident sequence [] h = Some (Err ''qcom-adreno-a618: HFI response timed out'', h)"
| "await_ack 0 ident sequence (m # turns) h = None"
| "await_ack (Suc fuel) ident sequence (m # turns) h =
     (case read_response (h \<lparr> hfi_memory := m \<rparr>) of
        Err e \<Rightarrow> Some (Err e, h \<lparr> hfi_memory := m \<rparr>)
      | Panic \<Rightarrow> Some (Panic, h \<lparr> hfi_memory := m \<rparr>)
      | Ok (None, h) \<Rightarrow> await_ack (Suc fuel) ident sequence turns h
      | Ok (Some response, h) \<Rightarrow>
          (case ack_matches response ident sequence of
             Err e \<Rightarrow> Some (Err e, h)
           | Panic \<Rightarrow> Some (Panic, h)
           | Ok True \<Rightarrow> Some (Ok response, h)
           | Ok False \<Rightarrow> await_ack fuel ident sequence (hfi_memory h # turns) h))"

definition send :: "nat \<Rightarrow> u8 \<Rightarrow> u32 list \<Rightarrow> u32 list list \<Rightarrow> LegacyHfi \<Rightarrow> ((string, u32 list) outcome \<times> LegacyHfi) option" where
  "send fuel ident message turns h =
     (case queue_command ident message h of
        (Ok sequence, h) \<Rightarrow> await_ack fuel ident sequence turns h
      | (Err e, h) \<Rightarrow> Some (Err e, h)
      | (Panic, h) \<Rightarrow> Some (Panic, h))"

text \<open>The boot messages, each sent when the one before it was acknowledged; \<open>turns n\<close> are the interrupts of the \<open>n\<close>th.\<close>

definition send_next :: "((string, 'a) outcome \<times> LegacyHfi) option \<Rightarrow> (LegacyHfi \<Rightarrow> ((string, 'b) outcome \<times> LegacyHfi) option) \<Rightarrow>
    ((string, 'b) outcome \<times> LegacyHfi) option" where
  "send_next r k = (case r of None \<Rightarrow> None | Some (Ok _, h) \<Rightarrow> k h | Some (Err e, h) \<Rightarrow> Some (Err e, h) | Some (Panic, h) \<Rightarrow> Some (Panic, h))"

definition start_legacy_sequence :: "nat \<Rightarrow> (nat \<Rightarrow> u32 list list) \<Rightarrow> u32 \<Rightarrow> u32 \<Rightarrow> HfiPerfLevel list \<Rightarrow> HfiPerfLevel list \<Rightarrow> LegacyHfi \<Rightarrow>
    ((string, unit) outcome \<times> LegacyHfi) option" where
  "start_legacy_sequence fuel turns debug_iova debug_size gx_levels cx_levels h =
     send_next (send fuel 0 [0, 0, debug_iova, debug_size, 0] (turns 0) h) (\<lambda>h.
     send_next (send fuel 1 [0, push_bit 28 1 OR push_bit 19 1 OR push_bit 17 1] (turns 1) h) (\<lambda>h.
     case performance_table gx_levels cx_levels of
       Err e \<Rightarrow> Some (Err e, h)
     | Panic \<Rightarrow> Some (Panic, h)
     | Ok perf \<Rightarrow>
         send_next (send fuel 4 perf (turns 2) h) (\<lambda>h.
         case bandwidth_table of
           Err e \<Rightarrow> Some (Err e, h)
         | Panic \<Rightarrow> Some (Panic, h)
         | Ok bandwidth \<Rightarrow>
             send_next (send fuel 3 bandwidth (turns 3) h) (\<lambda>h.
             send_next (send fuel 5 [0] (turns 4) h) (\<lambda>h. Some (Ok (), h))))))"

end
