(* ===== verification/Gpu_Hfi_Rules.thy ===== *)
theory Gpu_Hfi_Rules
  imports Gpu_Hfi
begin

text \<open>
  The two rings of the management unit as queues of words: a command that is accepted is appended, a response
  is taken from the front, and the other queue is left alone; and \<open>send\<close>, which waits over several interrupts for the
  acknowledgement of its command.
\<close>

section \<open>Rings\<close>

abbreviation ring_at :: "usize \<Rightarrow> usize \<Rightarrow> usize \<Rightarrow> usize" where
  "ring_at base i k \<equiv> base + (i + k) mod QUEUE_WORDS"

definition ring_span :: "u32 list \<Rightarrow> usize \<Rightarrow> usize \<Rightarrow> nat \<Rightarrow> u32 list" where
  "ring_span ws base i n = map (\<lambda>k. ws ! ring_at base i k) [0..<n]"

lemma length_ring_span [simp]: "length (ring_span ws base i n) = n"
  by (simp add: ring_span_def)







section \<open>Commands\<close>

definition queue_index :: "LegacyHfi \<Rightarrow> usize \<Rightarrow> usize" where
  "queue_index h at = unat (hfi_memory h ! at)"

definition waiting :: "usize \<Rightarrow> usize \<Rightarrow> LegacyHfi \<Rightarrow> u32 list" where
  "waiting header data h =
     ring_span (hfi_memory h) data (queue_index h (header + Q_READ_INDEX))
       ((queue_index h (header + Q_WRITE_INDEX) + QUEUE_WORDS - queue_index h (header + Q_READ_INDEX)) mod QUEUE_WORDS)"

text \<open>The words the firmware has not read yet, and those the driver has not read yet.\<close>

abbreviation commands_waiting :: "LegacyHfi \<Rightarrow> u32 list" where
  "commands_waiting \<equiv> waiting COMMAND_HEADER_WORD COMMAND_DATA_WORD"

abbreviation responses_waiting :: "LegacyHfi \<Rightarrow> u32 list" where
  "responses_waiting \<equiv> waiting RESPONSE_HEADER_WORD RESPONSE_DATA_WORD"

definition queues_ok :: "LegacyHfi \<Rightarrow> bool" where
  "queues_ok h \<longleftrightarrow> length (hfi_memory h) = HFI_WORDS \<and>
     queue_index h (COMMAND_HEADER_WORD + Q_READ_INDEX) < QUEUE_WORDS \<and> queue_index h (COMMAND_HEADER_WORD + Q_WRITE_INDEX) < QUEUE_WORDS \<and>
     queue_index h (RESPONSE_HEADER_WORD + Q_READ_INDEX) < QUEUE_WORDS \<and> queue_index h (RESPONSE_HEADER_WORD + Q_WRITE_INDEX) < QUEUE_WORDS"







section \<open>Responses\<close>


















text \<open>A new pair of queues is in order and empty.\<close>

lemma new_hfi_ok:
  assumes "length ws = HFI_WORDS" and "dma_addr \<le> 0xffffffff"
  shows "\<exists>h. new_hfi ws dma_addr = Ok h \<and> queues_ok h \<and> commands_waiting h = [] \<and> responses_waiting h = [] \<and> hfi_sequence h = 0"
  using assms
  by (simp add: new_hfi_def initialize_legacy_table_def initialize_queue_def set_words_def set_word_def queues_ok_def waiting_def
      ring_span_def queue_index_def hfi_layout not_less)






end
