(* ===== verification/Spec2Isabelle.thy ===== *)
theory Spec2Isabelle
  imports Draw_Rules Pending_Queue Dispatch_Scheduler Compile_Output Touch_Wakeups Cros_Ec_Rules Gpu_Hfi_Rules
begin

text \<open>
  \<^bold>\<open>Verification of the Scarlet drivers for Qualcomm SC7180 Chromebooks.\<close>

  The repository holds the drivers of the Scarlet kernel for these machines and the user-space graphics
  backend that feeds the Adreno A618 GPU. The development follows the path of a GPU command stream
  from end to end, and adds three components that talk to firmware: the touchscreen, the Chrome
  embedded controller and the message queues of the GPU's management unit. All paths are below \<open>src/\<close>.

  \<^bold>\<open>The GPU path.\<close> A client hands operations to the command compiler, which drives the emitter; the
  emitter writes PM4 packets with zero placeholders for addresses and records a symbolic address
  for each. The backend's scheduler submits the streams in chunks, encoded in the submit wire format.
  The kernel driver decodes a submit, validates every packet, replaces the placeholders by
  addresses of the client's own buffers, and queues it for the hardware. The kernel trusts
  nothing the client sends: memory isolation rests on the validator alone.

  \<^bold>\<open>Theories and sources.\<close>
  \<^item> \<open>Rust_Prelude\<close>, \<open>Rust_Bytes\<close>, \<open>Rust_F32\<close>, \<open>Rust_Float\<close>: the Rust the sources use. \<open>outcome\<close> is a result
    that may also be \<open>Panic\<close>, \<open>andThen\<close> the question mark, \<open>foldM\<close> a loop that may return early,
    \<open>ensures\<close> the contract "does not panic, and a result satisfies \<open>P\<close>"; checked and saturating
    arithmetic, slices, little-endian integers, binary32 arithmetic. The locales \<open>checked_loop\<close>, \<open>aligner\<close> and
    \<open>le_codec\<close> carry the loops of the passes, the alignment routines and the integer codecs.
  \<^item> \<open>Pm4\<close>: packet headers and the packet iterator of \<open>shared/adreno-a6xx-pm4\<close>.
  \<^item> \<open>A6xx_Layout\<close>: linear and tiled image layouts of \<open>shared/adreno-a6xx-layout\<close>.
  \<^item> \<open>Shader_Pack\<close>: program identities, register payloads, pipeline linkage and the copy of the pack
    of \<open>shared/adreno-a6xx-shader-pack\<close>.
  \<^item> \<open>Submit_Wire\<close>, \<open>Wire_Format\<close>: encoding and decoding of \<open>shared/adreno-a6xx-submit-wire\<close>. The locale \<open>record_writer\<close>
    states what the writer of one table record promises; it is interpreted for the three tables.
  \<^item> \<open>Submit_Registers\<close>, \<open>Submit_Types\<close>, \<open>Submit_Packets\<close>, \<open>Submit_Order\<close>, \<open>Submit_A2d\<close>, \<open>Submit_Draw\<close>, \<open>Submit_Reloc\<close>: the
    validator \<open>drivers/gpu/qcom-adreno-a618/src/submit.rs\<close>, pass by pass up to \<open>validate_and_relocate\<close>.
    \<open>Packet_Rules\<close>, \<open>Order_Rules\<close>, \<open>Sequence_Rules\<close>, \<open>Gpu_Isolation\<close>, \<open>Draw_Rules\<close>: its correctness.
  \<^item> \<open>Pending_Queue\<close>: the admission queue \<open>pending.rs\<close> of the same driver.
  \<^item> \<open>Dispatch_Scheduler\<close>: \<open>userspace/sgfx-backend-scarlet-adreno/src/scheduler.rs\<close>.
  \<^item> \<open>Emit_Registers\<close>, \<open>Emit_Types\<close>, \<open>Emit_Commands\<close>: the emitter \<open>userspace/sgfx-codegen-adreno-a6xx/src/emit.rs\<close>.
    \<open>Emit_Passes\<close>, \<open>Emit_Rules\<close>, \<open>Emit_Contracts\<close>, \<open>Emit_Streams\<close>, \<open>Emit_Output\<close>, \<open>Emit_Confined\<close>: its correctness, with the step
    relations \<open>emit_step\<close> and \<open>emitter_run\<close>.
  \<^item> \<open>Compile_Types\<close>, \<open>Compile_Checks\<close>, \<open>Compiler\<close>: \<open>model.rs\<close> and \<open>compiler.rs\<close> of the same crate; \<open>Compile_Rules\<close>,
    \<open>Compile_Output\<close>: their correctness.
  \<^item> \<open>Hid_Touch\<close>, \<open>Touch_Device\<close>: \<open>hid.rs\<close> and \<open>lib.rs\<close> of \<open>drivers/input/touchscreen/goodix-gt7375p\<close>; \<open>Hid_Rules\<close>,
    \<open>Contact_Rules\<close>, \<open>Slot_Rules\<close>, \<open>Touch_Events\<close>, \<open>Touch_Wakeups\<close>: their correctness.
  \<^item> \<open>Cros_Ec\<close>: \<open>lib.rs\<close> and \<open>event_drain.rs\<close> of \<open>drivers/platform/chromeos/cros-ec-spi\<close>; \<open>Cros_Ec_Rules\<close>: their
    correctness.
  \<^item> \<open>Gpu_Hfi\<close>: \<open>hfi.rs\<close> and \<open>hfi_abi.rs\<close> of \<open>drivers/gpu/qcom-adreno-a618\<close>; \<open>Gpu_Hfi_Rules\<close>: their correctness.

  \<^bold>\<open>State and operations.\<close> A Rust struct is a record with the fields the code reads, an enum a datatype, a
  method a function that returns the updated state beside its result. A loop over a list is a
  fold with the loop body as a definition of its own. Threads that share flags
  (the touchscreen's interrupt handler, its worker and its removal) are program counters of one
  state with the relations \<open>handler_step\<close>, \<open>worker_step\<close> and \<open>outside_step\<close>, and \<open>touch_step\<close> interleaves their atomic accesses. Definitions keep the names of the
  source; a name that is taken carries a prefix or suffix. Constants that are one line of the source keep
  its name and value.

  \<^bold>\<open>What is shown.\<close>
  \<^item> \<^emph>\<open>Isolation.\<close> Every address of a stream that \<open>validate_and_relocate\<close> accepts points into a
    buffer that the resource table resolves for that client with the access the packet needs, and
    everything else of the stream is unchanged; accepted packets are of the allowed kinds and registers, and every
    pixel of a blit, every vertex of a draw without indices and every index of a draw with indices is inside its buffer. No byte
    string makes the validator panic, if the textures of the resource table have a nonzero layer stride.
  \<^item> \<^emph>\<open>Ordering.\<close> The passes for memory-write barriers, cache transitions and the retirement of rendering are
    equivalent to independent descriptions of the streams they accept.
  \<^item> \<^emph>\<open>Code generation.\<close> Every stream the emitter finishes, after any run of its public commands, tiles into packets,
    has its placeholders in order and covered, and is accepted by the kernel's ordering passes. A compiled
    stream reaches only the resources of its input, within their sizes; \<open>compile\<close> accepts only
    operations that follow the protocol of render passes, and panics only on one kind of image, for which
    the panic is proved.
  \<^item> \<^emph>\<open>Formats.\<close> Encoding and decoding of submits are inverse, and decoding accepts exactly the images of the
    format; the packet iterator computes the unique tiling; the shader pack holds every
    program at its offset; subresources of an image are disjoint.
  \<^item> \<^emph>\<open>Queues.\<close> Along every history the admission queue hands out what it admitted, in order and one at a time, and admits only
    checkpoints while the CPU has exclusive access. Along every run of the scheduler, over an arbitrary transport, chunks are accepted in
    order, submissions complete in order and successfully only after all their chunks were accepted; a call that reports progress without
    failing makes the backlog smaller, and a transport that answers drains the queue.
  \<^item> \<^emph>\<open>Touchscreen.\<close> The descriptor parser never panics and yields disjoint fields; a report decodes to exactly
    the contacts in its bits; a frame keeps contacts in their slots; whatever the controller sends and
    however the threads interleave, a reader of the events sees the slot table and only announced axes, and a masked interrupt
    line is unmasked again if the kernel keeps a wake-up that finds nobody waiting; without that a wake-up may be lost.
  \<^item> \<^emph>\<open>Embedded controller.\<close> The response decoder accepts exactly the well-formed frames; motion samples survive the
    round trip; the backlight reads back as it was set; a turn of the event worker never forgets pending events, and waits at most 8 seconds for them.
  \<^item> \<^emph>\<open>Management unit.\<close> Both rings are queues of words; a command is appended with its sequence number, and its
    acknowledgement is found after any number of interrupts without it and behind any number of other messages.

  \<^bold>\<open>Parameters.\<close> Code outside the repository is an argument of the definitions that use it. The crate \<open>sgfx_core\<close> is the record
  \<open>Sgfx\<close>; the theorems that a compiled stream is confined and that \<open>compile\<close> does not panic assume \<open>sgfx_sizes\<close>, the texel and index
  sizes that its format names state. The kernel's resource
  tables are the functions \<open>resolve\<close> and \<open>resolve_shader\<close>, fallible allocation is \<open>alloc\<close> or \<open>reserve\<close>. The scheduler's transport is
  the record \<open>Transport\<close> over a world that every call may change. The kernel's event codes are the
  record \<open>InputAbi\<close>, assumed by \<open>abi_ok\<close> to tell types and codes apart; its \<open>Waker\<close> is the parameter \<open>latching\<close>, whether a wake-up that
  finds nobody waiting is kept for the next wait. The bus, the clock, the listeners and the interrupt line of the
  embedded controller are the record \<open>EcEnv\<close>, with \<open>bus_ok\<close> for a bus that does not panic
  and returns a buffer of less than two to the power of 63 bytes. The firmware
  of the management unit may replace the shared memory at every interrupt.

  \<^bold>\<open>Bounds and fuel.\<close> Every function is total. Loops over data recurse on the data. The event reader has the source's
  bound of 64 events. Only \<open>await_ack\<close> has fuel, since the source sets no bound on the messages it reads: the theorem about
  \<open>send\<close> asks for one unit more than there are messages before the acknowledgement, over all interrupts. \<open>usize\<close> is a
  natural number; the bound of 64 bits is written where the code checks it. Plain machine arithmetic wraps, as in a
  release build.

  \<^bold>\<open>Not modelled.\<close> Most of the other drivers (GPU bring-up and its management unit, display, clocks, power, buses, storage,
  audio, video) are sequences of register accesses with polling: the meaning of an access is the
  hardware's, and the calls go to the Scarlet kernel crates, neither of which the repository contains. The rest
  of the user-space backend is system calls and implementations of \<open>sgfx_core\<close> traits, and probing reads
  device trees through kernel crates. Of the modelled drivers, probing, power sequencing, registration, logging
  and cache maintenance are left out; atomics are sequentially consistent.
\<close>

end
